(* ===== verification/Rust_Collections.thy ===== *)
theory Rust_Collections
  imports Prelude
begin

text \<open>
  \<open>std::collections::BTreeMap\<close> and \<open>BTreeSet\<close>: strictly sorted lists of entries.  The
  operations are the ones the code calls (\<open>insert\<close>, \<open>remove\<close>, \<open>get\<close>, \<open>contains_key\<close>,
  \<open>values\<close>, \<open>values_mut\<close>); iteration is the list itself.  The locale \<open>ordered_map\<close> is
  the contract the components rely on, and its interpretation below discharges it.
\<close>

section \<open>Ordered maps\<close>

type_synonym ('k, 'v) bmap = "('k \<times> 'v) list"

definition bm_wf :: "('k :: linorder, 'v) bmap \<Rightarrow> bool" where
  "bm_wf m \<longleftrightarrow> sorted_wrt (<) (map fst m)"

abbreviation bm_get :: "('k, 'v) bmap \<Rightarrow> 'k \<Rightarrow> 'v option" where
  "bm_get \<equiv> map_of"

definition bm_has :: "('k, 'v) bmap \<Rightarrow> 'k \<Rightarrow> bool" where
  "bm_has m k \<longleftrightarrow> map_of m k \<noteq> None"

fun bm_insert :: "'k :: linorder \<Rightarrow> 'v \<Rightarrow> ('k, 'v) bmap \<Rightarrow> ('k, 'v) bmap" where
  "bm_insert k v [] = [(k, v)]"
| "bm_insert k v (e # m) =
     (if k < fst e then (k, v) # e # m
      else if fst e < k then e # bm_insert k v m
      else (k, v) # m)"

definition bm_remove :: "'k \<Rightarrow> ('k, 'v) bmap \<Rightarrow> ('k, 'v) bmap" where
  "bm_remove k m = filter (\<lambda>e. fst e \<noteq> k) m"

definition bm_values :: "('k, 'v) bmap \<Rightarrow> 'v list" where
  "bm_values m = map snd m"

definition bm_keys :: "('k, 'v) bmap \<Rightarrow> 'k list" where
  "bm_keys m = map fst m"

text \<open>\<open>values_mut().filter(p)\<close> followed by an update of each such value.\<close>

definition bm_map_values :: "('v \<Rightarrow> 'v) \<Rightarrow> ('k, 'v) bmap \<Rightarrow> ('k, 'v) bmap" where
  "bm_map_values f m = map (\<lambda>(k, v). (k, f v)) m"

text \<open>\<open>BTreeMap::from([..])\<close> and \<open>collect()\<close>: later entries win.\<close>

definition bm_of_list :: "('k :: linorder \<times> 'v) list \<Rightarrow> ('k, 'v) bmap" where
  "bm_of_list es = fold (\<lambda>(k, v). bm_insert k v) es []"

lemma bm_get_insert [simp, bmap_simps]:
  "bm_get (bm_insert k v m) = (bm_get m)(k \<mapsto> v)"
  by (induction m) (auto simp: fun_eq_iff)

lemma set_fst_bm_insert [simp]:
  "fst ` set (bm_insert k v m) = insert k (fst ` set m)"
  by (induction m) auto

lemma bm_wf_Nil [simp]: "bm_wf []"
  by (simp add: bm_wf_def)

lemma bm_wf_Cons: "bm_wf (e # m) \<longleftrightarrow> (\<forall>x\<in>fst ` set m. fst e < x) \<and> bm_wf m"
  by (simp add: bm_wf_def)

lemma bm_wf_insert [simp, wf_intros]: "bm_wf m \<Longrightarrow> bm_wf (bm_insert k v m)"
proof (induction m)
  case (Cons e m)
  then show ?case
    by (auto simp: bm_wf_Cons)
qed (simp add: bm_wf_Cons)

lemma bm_get_remove [simp, bmap_simps]: "bm_get (bm_remove k m) = (bm_get m)(k := None)"
  by (induction m) (auto simp: bm_remove_def fun_eq_iff)

lemma bm_wf_remove [simp, wf_intros]: "bm_wf m \<Longrightarrow> bm_wf (bm_remove k m)"
  by (induction m) (auto simp: bm_remove_def bm_wf_Cons)

lemma bm_get_map_values [simp, bmap_simps]:
  "bm_get (bm_map_values f m) k = map_option f (bm_get m k)"
  by (induction m) (auto simp: bm_map_values_def)

lemma bm_wf_map_values [simp, wf_intros]: "bm_wf (bm_map_values f m) = bm_wf m"
  by (simp add: bm_wf_def bm_map_values_def comp_def case_prod_unfold)

lemma bm_wf_distinct: "bm_wf m \<Longrightarrow> distinct (map fst m)"
  by (induction m) (auto simp: bm_wf_Cons)

lemma bm_get_mem: "bm_wf m \<Longrightarrow> bm_get m k = Some v \<longleftrightarrow> (k, v) \<in> set m"
  by (auto intro: map_of_is_SomeI dest: map_of_SomeD bm_wf_distinct)

lemma bm_values_iff: "bm_wf m \<Longrightarrow> v \<in> set (bm_values m) \<longleftrightarrow> (\<exists>k. bm_get m k = Some v)"
  by (auto simp: bm_values_def bm_get_mem) force

lemma bm_has_iff [bmap_simps]: "bm_has m k \<longleftrightarrow> (\<exists>v. bm_get m k = Some v)"
  by (auto simp: bm_has_def)

lemma bm_has_keys: "bm_has m k \<longleftrightarrow> k \<in> fst ` set m"
  using dom_map_of_conv_image_fst [of m] by (auto simp: bm_has_def)

text \<open>A sorted list is determined by the lookups it answers.\<close>

lemma bm_values_via_keys: "bm_wf m \<Longrightarrow> map snd m = map (the \<circ> bm_get m) (map fst m)"
  by (auto simp: bm_get_mem [THEN iffD2] bm_wf_distinct)

lemma bm_ext:
  assumes "bm_wf m" and "bm_wf m'" and "bm_get m = bm_get m'"
  shows "m = m'"
proof -
  have "fst ` set m = fst ` set m'"
    using assms(3) by (metis dom_map_of_conv_image_fst)
  then have keys: "map fst m = map fst m'"
    using assms(1,2) by (auto simp: bm_wf_def intro: strict_sorted_equal)
  with assms have "map snd m = map snd m'"
    by (simp only: bm_values_via_keys)
  with keys show ?thesis by (rule pair_list_eqI)
qed

section \<open>The contract of an ordered map\<close>

locale ordered_map =
  fixes get :: "'m \<Rightarrow> 'k \<Rightarrow> 'v option"
    and put :: "'k \<Rightarrow> 'v \<Rightarrow> 'm \<Rightarrow> 'm"
    and del :: "'k \<Rightarrow> 'm \<Rightarrow> 'm"
    and wf :: "'m \<Rightarrow> bool"
  assumes get_put: "get (put k v m) = (get m)(k \<mapsto> v)"
    and get_del: "get (del k m) = (get m)(k := None)"
    and wf_put: "wf m \<Longrightarrow> wf (put k v m)"
    and wf_del: "wf m \<Longrightarrow> wf (del k m)"
    and get_ext: "wf m \<Longrightarrow> wf m' \<Longrightarrow> get m = get m' \<Longrightarrow> m = m'"
begin

lemma get_put_same: "get (put k v m) k = Some v"
  by (simp add: get_put)

lemma get_put_other: "k \<noteq> k' \<Longrightarrow> get (put k v m) k' = get m k'"
  by (simp add: get_put)

lemma put_commute:
  "wf m \<Longrightarrow> k \<noteq> k' \<Longrightarrow> put k v (put k' v' m) = put k' v' (put k v m)"
  by (rule get_ext) (auto simp: get_put wf_put)

lemma put_overwrite: "wf m \<Longrightarrow> put k v (put k v' m) = put k v m"
  by (rule get_ext) (auto simp: get_put wf_put)

lemma del_put: "wf m \<Longrightarrow> get m k = None \<Longrightarrow> del k (put k v m) = m"
  by (rule get_ext) (auto simp: get_put get_del wf_put wf_del)

text \<open>A loop of insertions: the last entry for a key wins, the other keys are untouched.\<close>

lemma get_fold_put:
  "get (fold (\<lambda>x. put (f x) (g x)) xs m) k =
     (case find (\<lambda>x. f x = k) (rev xs) of Some x \<Rightarrow> Some (g x) | None \<Rightarrow> get m k)"
proof (induction xs rule: rev_induct)
  case (snoc x xs)
  then show ?case by (auto simp: get_put)
qed simp

lemma get_fold_put_notin:
  "k \<notin> f ` set xs \<Longrightarrow> get (fold (\<lambda>x. put (f x) (g x)) xs m) k = get m k"
  by (induction xs arbitrary: m) (auto simp: get_put)

lemma get_fold_put_distinct:
  "distinct (map f xs) \<Longrightarrow> x \<in> set xs \<Longrightarrow>
     get (fold (\<lambda>x. put (f x) (g x)) xs m) (f x) = Some (g x)"
  by (induction xs arbitrary: m) (auto simp: get_put get_fold_put_notin)

lemma wf_fold_put: "wf m \<Longrightarrow> wf (fold (\<lambda>x. put (f x) (g x)) xs m)"
  by (induction xs arbitrary: m) (auto simp: wf_put)

end

interpretation bm: ordered_map bm_get bm_insert bm_remove bm_wf
  by unfold_locales (auto intro: bm_ext)

lemma bm_wf_of_list [simp, wf_intros]: "bm_wf (bm_of_list es)"
  using bm.wf_fold_put [of "[]" fst snd es] by (simp add: bm_of_list_def case_prod_unfold)

section \<open>Ordered sets\<close>

type_synonym 'k bset = "'k list"

definition bs_wf :: "'k :: linorder bset \<Rightarrow> bool" where
  "bs_wf s \<longleftrightarrow> sorted_wrt (<) s"

fun bs_insert :: "'k :: linorder \<Rightarrow> 'k bset \<Rightarrow> 'k bset" where
  "bs_insert x [] = [x]"
| "bs_insert x (y # s) =
     (if x < y then x # y # s else if y < x then y # bs_insert x s else y # s)"

definition bs_of_list :: "'k :: linorder list \<Rightarrow> 'k bset" where
  "bs_of_list xs = fold bs_insert xs []"

lemma set_bs_insert [simp, bmap_simps]: "set (bs_insert x s) = insert x (set s)"
  by (induction s) auto

lemma bs_wf_Nil [simp]: "bs_wf []"
  by (simp add: bs_wf_def)

lemma bs_wf_insert [simp, wf_intros]: "bs_wf s \<Longrightarrow> bs_wf (bs_insert x s)"
  by (induction s) (auto simp: bs_wf_def)

lemma bs_insert_mem: "bs_wf s \<Longrightarrow> x \<in> set s \<Longrightarrow> bs_insert x s = s"
  by (induction s) (auto simp: bs_wf_def)

lemma set_fold_bs_insert: "set (fold bs_insert xs s) = set xs \<union> set s"
  by (induction xs arbitrary: s) auto

lemma set_bs_of_list [simp, bmap_simps]: "set (bs_of_list xs) = set xs"
  by (simp add: bs_of_list_def set_fold_bs_insert)

end
