(* ===== verification/Rust_Strings.thy ===== *)
theory Rust_Strings
  imports Prelude
begin

text \<open>
  The parts of \<open>str\<close>, \<open>char\<close>, \<open>std::path::Path\<close> and integer formatting and parsing that
  the code uses, on UTF-8 byte strings: \<open>trim().is_empty()\<close> (all of Unicode White\_Space),
  \<open>split_once\<close>, \<open>rsplit().next()\<close>, \<open>strip_prefix\<close>, \<open>strip_suffix\<close>,
  \<open>eq_ignore_ascii_case\<close>, \<open>Path::extension\<close>, \<open>u64::to_string\<close>, \<open>parse::<u64>\<close>, and the
  lower-case hexadecimal digest format.
\<close>

section \<open>Bytes and characters\<close>

definition byte :: "char \<Rightarrow> int" where
  "byte c = of_char c"

definition is_digit :: "char \<Rightarrow> bool" where
  "is_digit c \<longleftrightarrow> 48 \<le> byte c \<and> byte c \<le> 57"

definition is_alphanumeric :: "char \<Rightarrow> bool" where
  "is_alphanumeric c \<longleftrightarrow>
     is_digit c \<or> (65 \<le> byte c \<and> byte c \<le> 90) \<or> (97 \<le> byte c \<and> byte c \<le> 122)"

definition is_hexdigit :: "char \<Rightarrow> bool" where
  "is_hexdigit c \<longleftrightarrow>
     is_digit c \<or> (65 \<le> byte c \<and> byte c \<le> 70) \<or> (97 \<le> byte c \<and> byte c \<le> 102)"

definition is_uppercase :: "char \<Rightarrow> bool" where
  "is_uppercase c \<longleftrightarrow> 65 \<le> byte c \<and> byte c \<le> 90"

definition ascii_lower :: "char \<Rightarrow> char" where
  "ascii_lower c = (if is_uppercase c then char_of (byte c + 32) else c)"

definition eq_ignore_ascii_case :: "string \<Rightarrow> string \<Rightarrow> bool" where
  "eq_ignore_ascii_case s t \<longleftrightarrow> map ascii_lower s = map ascii_lower t"

text \<open>A byte \<open>0b10xxxxxx\<close> continues a character that an earlier byte started.\<close>

definition is_continuation :: "char \<Rightarrow> bool" where
  "is_continuation c \<longleftrightarrow> 128 \<le> byte c \<and> byte c < 192"

section \<open>White space\<close>

text \<open>The bytes of the White\_Space character a string starts with, 0 if it starts with
  another character: U+0009--000D, U+0020, U+0085, U+00A0, U+1680, U+2000--200A, U+2028,
  U+2029, U+202F, U+205F and U+3000.\<close>

fun whitespace_len :: "int list \<Rightarrow> nat" where
  "whitespace_len [] = 0"
| "whitespace_len (a # bs) =
     (if a = 32 \<or> (9 \<le> a \<and> a \<le> 13) then 1
      else if a = 194 then (case bs of b # _ \<Rightarrow> if b = 133 \<or> b = 160 then 2 else 0 | [] \<Rightarrow> 0)
      else (case bs of
              b # c # _ \<Rightarrow>
                if (a = 225 \<and> b = 154 \<and> c = 128)
                   \<or> (a = 226 \<and> b = 128 \<and> ((128 \<le> c \<and> c \<le> 138) \<or> c = 168 \<or> c = 169 \<or> c = 175))
                   \<or> (a = 226 \<and> b = 129 \<and> c = 159)
                   \<or> (a = 227 \<and> b = 128 \<and> c = 128) then 3 else 0
            | _ \<Rightarrow> 0))"

function blank :: "string \<Rightarrow> bool" where
  "blank s =
     (if s = [] then True
      else let n = whitespace_len (map byte s) in if n = 0 then False else blank (drop n s))"
  by pat_completeness auto
termination
  by (relation "measure length") auto

declare blank.simps [simp del]

lemma blank_Nil [simp]: "blank []"
  by (subst blank.simps) simp

lemma blank_Cons_visible:
  "32 < byte c \<Longrightarrow> byte c < 128 \<Longrightarrow> \<not> blank (c # s)"
  by (subst blank.simps) (simp split: list.splits)

lemma not_blank_nonempty: "\<not> blank s \<Longrightarrow> s \<noteq> []"
  by auto

section \<open>Decimal numbers\<close>

text \<open>Numbers are integers here, so that the simplifier and \<open>code_simp\<close> compute with
  binary numerals.\<close>

function show_int :: "int \<Rightarrow> string" where
  "show_int n =
     (if n < 10 then [char_of (48 + n)] else show_int (n div 10) @ [char_of (48 + n mod 10)])"
  by pat_completeness auto
termination
  by (relation "measure nat") auto

declare show_int.simps [simp del]

definition show_u64 :: "u64 \<Rightarrow> string" where
  "show_u64 w = show_int (uint w)"

definition show_u32 :: "u32 \<Rightarrow> string" where
  "show_u32 w = show_int (uint w)"

definition show_i64 :: "i64 \<Rightarrow> string" where
  "show_i64 w = (if sint w < 0 then CHR ''-'' # show_int (- sint w) else show_int (sint w))"

datatype parse_int_error = Empty | InvalidDigit | PosOverflow

definition show_parse_error :: "parse_int_error \<Rightarrow> string" where
  "show_parse_error e =
     (case e of
        Empty \<Rightarrow> ''cannot parse integer from empty string''
      | InvalidDigit \<Rightarrow> ''invalid digit found in string''
      | PosOverflow \<Rightarrow> ''number too large to fit in target type'')"

fun parse_digits :: "int \<Rightarrow> string \<Rightarrow> parse_int_error + int" where
  "parse_digits acc [] = Inr acc"
| "parse_digits acc (c # cs) =
     (if \<not> is_digit c then Inl InvalidDigit
      else let n = 10 * acc + (byte c - 48)
           in if 2 ^ 64 \<le> n then Inl PosOverflow else parse_digits n cs)"

definition parse_u64 :: "string \<Rightarrow> parse_int_error + u64" where
  "parse_u64 s =
     (if s = [] then Inl Empty
      else if s = ''+'' \<or> s = ''-'' then Inl InvalidDigit
      else let ds = (if hd s = CHR ''+'' then tl s else s)
           in rbind (parse_digits 0 ds) (\<lambda>n. Inr (word_of_int n)))"

lemma byte_digit [simp]: "0 \<le> d \<Longrightarrow> (d :: int) < 10 \<Longrightarrow> byte (char_of (48 + d)) = 48 + d"
  by (simp add: byte_def)

lemma is_digit_digit [simp]: "0 \<le> d \<Longrightarrow> (d :: int) < 10 \<Longrightarrow> is_digit (char_of (48 + d))"
  by (simp add: is_digit_def)

lemma show_int_digits: "0 \<le> n \<Longrightarrow> \<forall>c\<in>set (show_int n). is_digit c"
proof (induction n rule: show_int.induct)
  case (1 n)
  then show ?case by (subst show_int.simps) auto
qed

lemma show_int_nonempty [simp]: "show_int n \<noteq> []"
  by (subst show_int.simps) simp

lemma parse_digits_append:
  "parse_digits acc (s @ t) = rbind (parse_digits acc s) (\<lambda>n. parse_digits n t)"
  by (induction s arbitrary: acc) (auto simp: Let_def)

lemma parse_digits_show: "0 \<le> n \<Longrightarrow> n < 2 ^ 64 \<Longrightarrow> parse_digits 0 (show_int n) = Inr n"
proof (induction n rule: show_int.induct)
  case (1 n)
  show ?case
  proof (cases "n < 10")
    case True
    with "1.prems" show ?thesis by (subst show_int.simps) simp
  next
    case False
    have "0 \<le> n div 10" and "n div 10 < 2 ^ 64" using "1.prems" by simp_all
    with "1.IH" False have "parse_digits 0 (show_int (n div 10)) = Inr (n div 10)" by simp
    with False "1.prems" show ?thesis
      by (subst show_int.simps) (simp add: parse_digits_append)
  qed
qed

lemma show_int_no_sign: "0 \<le> n \<Longrightarrow> c \<in> set (show_int n) \<Longrightarrow> c \<noteq> CHR ''+'' \<and> c \<noteq> CHR ''-'' \<and> c \<noteq> CHR '':''"
  using show_int_digits [of n] by (auto simp: is_digit_def byte_def)

theorem parse_show_u64 [simp]: "parse_u64 (show_u64 w) = Inr w"
proof -
  let ?s = "show_int (uint w)"
  have "hd ?s \<in> set ?s" by simp
  then have hd: "hd ?s \<noteq> CHR ''+''" using show_int_no_sign [of "uint w"] by simp
  have "?s \<noteq> ''+''" and "?s \<noteq> ''-''"
    using show_int_no_sign [of "uint w"] by (auto dest: spec)
  with hd show ?thesis
    using parse_digits_show [of "uint w"]
    by (simp add: parse_u64_def show_u64_def)
qed

lemma show_u64_inject [simp]: "show_u64 a = show_u64 b \<longleftrightarrow> a = b"
  by (metis parse_show_u64 sum.inject(2))

text \<open>\<open>str::trim\<close>: drop white space characters from both ends.\<close>

function trim_start :: "string \<Rightarrow> string" where
  "trim_start s =
     (if s = [] then []
      else let n = whitespace_len (map byte s) in if n = 0 then s else trim_start (drop n s))"
  by pat_completeness auto
termination
  by (relation "measure length") auto

definition trailing_whitespace :: "string \<Rightarrow> nat" where
  "trailing_whitespace s =
     (case filter (\<lambda>k. k \<le> length s \<and> whitespace_len (map byte (drop (length s - k) s)) = k)
             [1, 2, 3] of
        [] \<Rightarrow> 0
      | k # _ \<Rightarrow> k)"

function trim_end :: "string \<Rightarrow> string" where
  "trim_end s =
     (if s = [] then []
      else let n = trailing_whitespace s in if n = 0 then s else trim_end (take (length s - n) s))"
  by pat_completeness auto
termination
  by (relation "measure length") auto

declare trim_start.simps [simp del] trim_end.simps [simp del]

definition trim :: "string \<Rightarrow> string" where
  "trim s = trim_end (trim_start s)"

lemma blank_trim_start: "blank s \<longleftrightarrow> trim_start s = []"
proof (induction s rule: trim_start.induct)
  case (1 s)
  then show ?case
    by (subst blank.simps, subst trim_start.simps) (auto simp: Let_def)
qed

section \<open>UTF-8\<close>

text \<open>
  One step of \<open>str::from_utf8\<close>: \<open>(True, n)\<close> is a character of \<open>n\<close> bytes, \<open>(False, n)\<close> an
  invalid sequence of \<open>n\<close> bytes, \<open>(False, 0)\<close> an incomplete one at the end of the input.
\<close>

definition continues :: "int \<Rightarrow> bool" where
  "continues b \<longleftrightarrow> 128 \<le> b \<and> b < 192"

definition utf8_tail :: "int list \<Rightarrow> nat \<Rightarrow> nat \<Rightarrow> bool \<times> nat" where
  "utf8_tail bs have_bytes width =
     (let rest = take (width - have_bytes) (drop have_bytes bs);
          good = takeWhile continues rest
      in if length good = width - have_bytes then (True, width)
         else if length good = length rest then (False, 0)
         else (False, have_bytes + length good))"

definition utf8_step :: "int list \<Rightarrow> bool \<times> nat" where
  "utf8_step bs =
     (case bs of
        [] \<Rightarrow> (False, 0)
      | a # r \<Rightarrow>
          if a < 128 then (True, 1)
          else if 194 \<le> a \<and> a \<le> 223 then utf8_tail bs 1 2
          else if 224 \<le> a \<and> a \<le> 244 then
            (case r of
               [] \<Rightarrow> (False, 0)
             | b # _ \<Rightarrow>
                 if (a = 224 \<and> 160 \<le> b \<and> b \<le> 191) \<or> (a = 237 \<and> 128 \<le> b \<and> b \<le> 159) \<or>
                    (225 \<le> a \<and> a \<le> 239 \<and> a \<noteq> 237 \<and> continues b)
                 then utf8_tail bs 2 3
                 else if (a = 240 \<and> 144 \<le> b \<and> b \<le> 191) \<or> (241 \<le> a \<and> a \<le> 243 \<and> continues b) \<or>
                    (a = 244 \<and> 128 \<le> b \<and> b \<le> 143)
                 then utf8_tail bs 2 4
                 else (False, 1))
          else (False, 1))"

text \<open>The error of \<open>str::from_utf8\<close>, as its \<open>Display\<close> text; \<open>None\<close> for valid UTF-8.\<close>

function utf8_error_from :: "nat \<Rightarrow> int list \<Rightarrow> string option" where
  "utf8_error_from i bs =
     (if bs = [] then None
      else case utf8_step bs of
        (True, n) \<Rightarrow> utf8_error_from (i + max 1 n) (drop (max 1 n) bs)
      | (False, n) \<Rightarrow>
          Some (if n = 0 then ''incomplete utf-8 byte sequence from index '' @ show_int (int i)
                else ''invalid utf-8 sequence of '' @ show_int (int n) @ '' bytes from index '' @
                     show_int (int i)))"
  by pat_completeness auto
termination
  by (relation "measure (\<lambda>(i, bs). length bs)") auto

declare utf8_error_from.simps [simp del]

definition utf8_error :: "bytes \<Rightarrow> string option" where
  "utf8_error bs = utf8_error_from 0 (map byte bs)"

section \<open>Splitting\<close>

fun split_once :: "char \<Rightarrow> string \<Rightarrow> (string \<times> string) option" where
  "split_once c [] = None"
| "split_once c (x # xs) =
     (if x = c then Some ([], xs)
      else map_option (\<lambda>(a, b). (x # a, b)) (split_once c xs))"

definition rsplit_once :: "char \<Rightarrow> string \<Rightarrow> (string \<times> string) option" where
  "rsplit_once c s = map_option (\<lambda>(a, b). (rev b, rev a)) (split_once c (rev s))"

text \<open>\<open>rsplit(p).next()\<close>: what follows the last character that satisfies \<open>p\<close>.\<close>

definition last_segment :: "(char \<Rightarrow> bool) \<Rightarrow> string \<Rightarrow> string" where
  "last_segment p s = rev (takeWhile (\<lambda>c. \<not> p c) (rev s))"

fun split_char :: "char \<Rightarrow> string \<Rightarrow> string list" where
  "split_char c [] = [[]]"
| "split_char c (x # xs) =
     (if x = c then [] # split_char c xs
      else (case split_char c xs of [] \<Rightarrow> [[x]] | w # ws \<Rightarrow> (x # w) # ws))"

text \<open>\<open>str::lines\<close>: split after each line feed, without it and a carriage return before it.\<close>

definition strip_cr :: "string \<Rightarrow> string" where
  "strip_cr l = (if l \<noteq> [] \<and> last l = CHR 0x0D then butlast l else l)"

definition str_lines :: "string \<Rightarrow> string list" where
  "str_lines s =
     (let ls = split_char (CHR 0x0A) s; final = last ls
      in map strip_cr (butlast ls) @ (if final = [] then [] else [final]))"

text \<open>What follows the first occurrence of a pattern.\<close>

fun after_first :: "string \<Rightarrow> string \<Rightarrow> string option" where
  "after_first pat s =
     (if prefix pat s then Some (drop (length pat) s)
      else case s of [] \<Rightarrow> None | _ # t \<Rightarrow> after_first pat t)"

declare after_first.simps [simp del]

definition strip_prefix :: "string \<Rightarrow> string \<Rightarrow> string option" where
  "strip_prefix p s = (if prefix p s then Some (drop (length p) s) else None)"

definition strip_suffix :: "string \<Rightarrow> string \<Rightarrow> string option" where
  "strip_suffix p s = (if suffix p s then Some (take (length s - length p) s) else None)"

lemma split_once_append: "c \<notin> set a \<Longrightarrow> split_once c (a @ c # b) = Some (a, b)"
  by (induction a) auto

lemma strip_prefix_append [simp]: "strip_prefix p (p @ s) = Some s"
  by (simp add: strip_prefix_def)

lemma strip_suffix_append [simp]: "strip_suffix p (s @ p) = Some s"
  by (simp add: strip_suffix_def suffixI)

section \<open>Paths\<close>

text \<open>\<open>Path::file_name\<close> on Unix: the last component that is neither empty nor \<open>.\<close>, unless
  it is \<open>..\<close>; \<open>Path::extension\<close>: what follows its last dot, unless that dot comes first.\<close>

definition path_file_name :: "string \<Rightarrow> string option" where
  "path_file_name p =
     (let cs = filter (\<lambda>s. s \<noteq> [] \<and> s \<noteq> ''.'') (split_char (CHR ''/'') p)
      in if cs = [] \<or> last cs = ''..'' then None else Some (last cs))"

definition path_extension :: "string \<Rightarrow> string option" where
  "path_extension p =
     (case path_file_name p of
        None \<Rightarrow> None
      | Some f \<Rightarrow>
          (case rsplit_once (CHR ''.'') f of
             None \<Rightarrow> None
           | Some (before, after) \<Rightarrow> if before = [] then None else Some after))"

section \<open>Hexadecimal digests\<close>

definition hex_digit :: "int \<Rightarrow> char" where
  "hex_digit n = char_of (if n < 10 then 48 + n else 87 + n)"

definition hex_lower :: "bytes \<Rightarrow> string" where
  "hex_lower bs = concat (map (\<lambda>c. [hex_digit (byte c div 16), hex_digit (byte c mod 16)]) bs)"

lemma length_hex_lower [simp]: "length (hex_lower bs) = 2 * length bs"
  by (induction bs) (auto simp: hex_lower_def)

lemma is_hexdigit_hex_digit: "0 \<le> n \<Longrightarrow> n < 16 \<Longrightarrow> is_hexdigit (hex_digit n)"
  by (auto simp: is_hexdigit_def hex_digit_def is_digit_def byte_def)

lemma byte_less_256 [simp]: "byte c < 256" and byte_nonneg [simp]: "0 \<le> byte c"
proof -
  have "byte c = byte c mod 256" by (simp add: byte_def)
  moreover have "byte c mod 256 < 256" and "0 \<le> byte c mod 256" by simp_all
  ultimately show "byte c < 256" and "0 \<le> byte c" by simp_all
qed

lemma hex_lower_hexdigits: "c \<in> set (hex_lower bs) \<Longrightarrow> is_hexdigit c"
proof -
  have "byte x div 16 < 16" for x using byte_less_256 [of x] by linarith
  moreover assume "c \<in> set (hex_lower bs)"
  ultimately show ?thesis
    by (auto simp: hex_lower_def pos_imp_zdiv_nonneg_iff intro!: is_hexdigit_hex_digit)
qed

end
