(* ===== verification/Float64.thy ===== *)
theory Float64
  imports Rust_Strings
begin

text \<open>
  \<open>f64\<close> as its 64 bits (IEEE 754 binary64).  Comparisons read the bits as sign and
  magnitude, so a NaN is unequal to itself and the two zeros are equal, as with \<open>PartialEq\<close>
  and \<open>PartialOrd\<close> in Rust.  Arithmetic computes the exact rational result and rounds it
  once, to nearest with ties to even.  Only the operations the code uses are here.
\<close>

type_synonym f64 = "64 word"

section \<open>Fields and classification\<close>

definition f64_negative :: "f64 \<Rightarrow> bool" where
  "f64_negative x \<longleftrightarrow> 2 ^ 63 \<le> uint x"

definition f64_biased :: "f64 \<Rightarrow> int" where
  "f64_biased x = uint x div 2 ^ 52 mod 2048"

definition f64_fraction :: "f64 \<Rightarrow> int" where
  "f64_fraction x = uint x mod 2 ^ 52"

definition f64_is_nan :: "f64 \<Rightarrow> bool" where
  "f64_is_nan x \<longleftrightarrow> f64_biased x = 2047 \<and> f64_fraction x \<noteq> 0"

definition f64_is_infinite :: "f64 \<Rightarrow> bool" where
  "f64_is_infinite x \<longleftrightarrow> f64_biased x = 2047 \<and> f64_fraction x = 0"

definition f64_is_finite :: "f64 \<Rightarrow> bool" where
  "f64_is_finite x \<longleftrightarrow> f64_biased x \<noteq> 2047"

text \<open>A finite value is \<open>\<plusminus> f64_mantissa x * 2 ^ f64_exponent x\<close>.\<close>

definition f64_mantissa :: "f64 \<Rightarrow> int" where
  "f64_mantissa x = (if f64_biased x = 0 then f64_fraction x else 2 ^ 52 + f64_fraction x)"

definition f64_exponent :: "f64 \<Rightarrow> int" where
  "f64_exponent x = max 1 (f64_biased x) - 1075"

section \<open>Comparison\<close>

definition f64_key :: "f64 \<Rightarrow> int" where
  "f64_key x = (if f64_negative x then 2 ^ 63 - uint x else uint x)"

definition f64_eq :: "f64 \<Rightarrow> f64 \<Rightarrow> bool" where
  "f64_eq x y \<longleftrightarrow> \<not> f64_is_nan x \<and> \<not> f64_is_nan y \<and> f64_key x = f64_key y"

definition f64_le :: "f64 \<Rightarrow> f64 \<Rightarrow> bool" where
  "f64_le x y \<longleftrightarrow> \<not> f64_is_nan x \<and> \<not> f64_is_nan y \<and> f64_key x \<le> f64_key y"

definition f64_lt :: "f64 \<Rightarrow> f64 \<Rightarrow> bool" where
  "f64_lt x y \<longleftrightarrow> \<not> f64_is_nan x \<and> \<not> f64_is_nan y \<and> f64_key x < f64_key y"

section \<open>Rounding\<close>

function bit_len :: "int \<Rightarrow> int" where
  "bit_len n = (if n \<le> 0 then 0 else 1 + bit_len (n div 2))"
  by pat_completeness auto
termination
  by (relation "measure nat") auto

declare bit_len.simps [simp del]

definition round_half_even :: "int \<Rightarrow> int \<Rightarrow> int" where
  "round_half_even p q =
     (let t = p div q; r = p mod q
      in if 2 * r < q \<or> (2 * r = q \<and> even t) then t else t + 1)"

definition f64_zero :: "bool \<Rightarrow> f64" where
  "f64_zero neg = (if neg then 0x8000000000000000 else 0)"

definition f64_infinity :: "bool \<Rightarrow> f64" where
  "f64_infinity neg = (if neg then 0xFFF0000000000000 else 0x7FF0000000000000)"

definition f64_nan :: f64 where
  "f64_nan = 0x7FF8000000000000"

text \<open>The quotient \<open>n / d * 2 ^ k\<close> in units of \<open>2 ^ e\<close>, as a fraction of integers.\<close>

definition scaled_fraction :: "int \<Rightarrow> int \<Rightarrow> int \<Rightarrow> int \<Rightarrow> int \<times> int" where
  "scaled_fraction n d k e = (n * 2 ^ nat (k - e), d * 2 ^ nat (e - k))"

definition f64_round_fraction :: "bool \<Rightarrow> int \<Rightarrow> int \<Rightarrow> int \<Rightarrow> f64" where
  "f64_round_fraction neg n d k =
     (if n = 0 then f64_zero neg
      else let e0 = max (- 1074) (k + bit_len n - bit_len d - 53);
               (p0, q0) = scaled_fraction n d k e0;
               e = (if 2 ^ 53 \<le> p0 div q0 then e0 + 1 else e0);
               (p, q) = scaled_fraction n d k e;
               bits = (e + 1074) * 2 ^ 52 + round_half_even p q
           in if 2047 * 2 ^ 52 \<le> bits then f64_infinity neg
              else word_of_int (bits + (if neg then 2 ^ 63 else 0)))"

text \<open>A decimal literal \<open>n / d\<close>, and \<open>i64 as f64\<close>, \<open>usize as f64\<close>.\<close>

definition f64_ratio :: "int \<Rightarrow> int \<Rightarrow> f64" where
  "f64_ratio n d = f64_round_fraction False n d 0"

definition f64_of_int :: "int \<Rightarrow> f64" where
  "f64_of_int i = f64_round_fraction (i < 0) \<bar>i\<bar> 1 0"

section \<open>Arithmetic\<close>

definition f64_neg :: "f64 \<Rightarrow> f64" where
  "f64_neg x = x + 2 ^ 63"

definition f64_abs :: "f64 \<Rightarrow> f64" where
  "f64_abs x = word_of_int (uint x mod 2 ^ 63)"

definition f64_signed_units :: "f64 \<Rightarrow> int \<Rightarrow> int" where
  "f64_signed_units x e =
     (if f64_negative x then -1 else 1) * f64_mantissa x * 2 ^ nat (f64_exponent x - e)"

definition f64_add :: "f64 \<Rightarrow> f64 \<Rightarrow> f64" where
  "f64_add x y =
     (if f64_is_nan x \<or> f64_is_nan y then f64_nan
      else if f64_is_infinite x then
        (if f64_is_infinite y \<and> f64_negative x \<noteq> f64_negative y then f64_nan else x)
      else if f64_is_infinite y then y
      else let e = min (f64_exponent x) (f64_exponent y);
               s = f64_signed_units x e + f64_signed_units y e
           in if s = 0 then f64_zero (f64_negative x \<and> f64_negative y)
              else f64_round_fraction (s < 0) \<bar>s\<bar> 1 e)"

definition f64_sub :: "f64 \<Rightarrow> f64 \<Rightarrow> f64" where
  "f64_sub x y = f64_add x (f64_neg y)"

definition f64_mul :: "f64 \<Rightarrow> f64 \<Rightarrow> f64" where
  "f64_mul x y =
     (let neg = (f64_negative x \<noteq> f64_negative y)
      in if f64_is_nan x \<or> f64_is_nan y then f64_nan
         else if f64_is_infinite x \<or> f64_is_infinite y then
           (if f64_key x = 0 \<or> f64_key y = 0 then f64_nan else f64_infinity neg)
         else f64_round_fraction neg (f64_mantissa x * f64_mantissa y) 1
                (f64_exponent x + f64_exponent y))"

definition f64_div :: "f64 \<Rightarrow> f64 \<Rightarrow> f64" where
  "f64_div x y =
     (let neg = (f64_negative x \<noteq> f64_negative y)
      in if f64_is_nan x \<or> f64_is_nan y then f64_nan
         else if f64_is_infinite x then (if f64_is_infinite y then f64_nan else f64_infinity neg)
         else if f64_is_infinite y then f64_zero neg
         else if f64_key y = 0 then (if f64_key x = 0 then f64_nan else f64_infinity neg)
         else f64_round_fraction neg (f64_mantissa x) (f64_mantissa y)
                (f64_exponent x - f64_exponent y))"

text \<open>\<open>f64::clamp\<close>, \<open>f64::round\<close> (half away from zero) and the saturating casts to integers.\<close>

definition f64_clamp :: "f64 \<Rightarrow> f64 \<Rightarrow> f64 \<Rightarrow> f64" where
  "f64_clamp x lo hi =
     (let y = (if f64_lt x lo then lo else x) in if f64_lt hi y then hi else y)"

definition f64_round :: "f64 \<Rightarrow> f64" where
  "f64_round x =
     (if \<not> f64_is_finite x \<or> 0 \<le> f64_exponent x then x
      else let d = 2 ^ nat (- f64_exponent x)
           in f64_round_fraction (f64_negative x) ((2 * f64_mantissa x + d) div (2 * d)) 1 0)"

definition f64_trunc_magnitude :: "f64 \<Rightarrow> int" where
  "f64_trunc_magnitude x =
     f64_mantissa x * 2 ^ nat (f64_exponent x) div 2 ^ nat (- f64_exponent x)"

definition f64_to_i64 :: "f64 \<Rightarrow> i64" where
  "f64_to_i64 x =
     (if f64_is_nan x then 0
      else if f64_is_infinite x then (if f64_negative x then 2 ^ 63 else 2 ^ 63 - 1)
      else let t = f64_trunc_magnitude x
           in if f64_negative x then word_of_int (- min t (2 ^ 63))
              else word_of_int (min t (2 ^ 63 - 1)))"

definition f64_to_usize :: "f64 \<Rightarrow> usize" where
  "f64_to_usize x =
     (if f64_is_nan x \<or> f64_negative x then 0
      else if f64_is_infinite x then - 1
      else word_of_int (min (f64_trunc_magnitude x) (2 ^ 64 - 1)))"

text \<open>The formatting \<open>{:.8}\<close>: eight decimals, the exact value rounded half to even.\<close>

definition pad_left :: "nat \<Rightarrow> string \<Rightarrow> string" where
  "pad_left n s = replicate (n - length s) (CHR ''0'') @ s"

definition show_f64_8 :: "f64 \<Rightarrow> string" where
  "show_f64_8 x =
     (if f64_is_nan x then ''NaN''
      else (if f64_negative x then ''-'' else '''') @
        (if f64_is_infinite x then ''inf''
         else let u = round_half_even (f64_mantissa x * 2 ^ nat (f64_exponent x) * 10 ^ 8)
                        (2 ^ nat (- f64_exponent x))
              in show_int (u div 10 ^ 8) @ ''.'' @ pad_left 8 (show_int (u mod 10 ^ 8))))"

section \<open>The constants of the code\<close>

definition f64_one :: f64 where "f64_one = 0x3FF0000000000000"
definition f64_4096 :: f64 where "f64_4096 = 0x40B0000000000000"

lemma f64_one_eq: "f64_one = f64_ratio 1 1" by (simp add: f64_one_def f64_4096_def f64_ratio_def f64_round_fraction_def scaled_fraction_def round_half_even_def bit_len.simps)
lemma f64_4096_eq: "f64_4096 = f64_ratio 4096 1" by (simp add: f64_one_def f64_4096_def f64_ratio_def f64_round_fraction_def scaled_fraction_def round_half_even_def bit_len.simps)

text \<open>\<open>(0.0..=hi).contains(x)\<close>.\<close>

definition f64_within :: "f64 \<Rightarrow> f64 \<Rightarrow> bool" where
  "f64_within hi x \<longleftrightarrow> f64_le 0 x \<and> f64_le x hi"

section \<open>Facts\<close>

lemma f64_biased_0 [simp]: "f64_biased 0 = 0" and f64_key_0 [simp]: "f64_key 0 = 0"
  by (simp_all add: f64_biased_def f64_key_def f64_negative_def)

lemma f64_not_nan_0 [simp]: "\<not> f64_is_nan 0"
  by (simp add: f64_is_nan_def)

lemma f64_finite_not_nan: "f64_is_finite x \<Longrightarrow> \<not> f64_is_nan x"
  by (simp add: f64_is_finite_def f64_is_nan_def)

lemma f64_eq_refl_iff: "f64_eq x x \<longleftrightarrow> \<not> f64_is_nan x"
  by (simp add: f64_eq_def)

lemma f64_eq_sym: "f64_eq x y \<longleftrightarrow> f64_eq y x"
  by (auto simp: f64_eq_def)

lemma f64_eq_trans: "f64_eq x y \<Longrightarrow> f64_eq y z \<Longrightarrow> f64_eq x z"
  by (auto simp: f64_eq_def)

lemma f64_eq_key: "f64_eq x y \<longleftrightarrow> f64_le x y \<and> f64_le y x"
  by (auto simp: f64_eq_def f64_le_def)

lemma f64_le_trans: "f64_le x y \<Longrightarrow> f64_le y z \<Longrightarrow> f64_le x z"
  by (auto simp: f64_le_def)

lemma f64_zeros_equal: "f64_eq 0 0x8000000000000000"
  by (simp add: f64_eq_def f64_is_nan_def f64_biased_def f64_fraction_def f64_key_def
      f64_negative_def)

end
