(* ===== verification/Convert_Model.thy ===== *)
theory Convert_Model
  imports Rust_Collections Float64
begin

text \<open>
  \<open>inkbridge-convert/src/model.rs\<close>: native pen styles, stroke snapshots, the operations of
  a manifest and the manifest itself, with the geometry fingerprint (FNV-1a, 32 bits) that
  stands for style and rounded geometry.  \<open>snapshot_eq\<close> is the derived \<open>PartialEq\<close>, which
  compares samples as floating point numbers.
\<close>

type_synonym sample = "f64 \<times> f64 \<times> f64"

record native_style =
  layer_num :: i64
  thickness :: i64
  pen_color :: i64
  pen_type :: i64

definition default_native_style :: native_style where
  "default_native_style = \<lparr>layer_num = 0, thickness = 400, pen_color = 0, pen_type = 16\<rparr>"

record stroke_snapshot =
  source_uuid :: string
  origin :: string
  page_index :: u32
  native_style :: native_style
  samples :: "sample list"
  fingerprint :: string

datatype operation =
    UpsertStroke (op_uuid: string) (op_page: u32) (op_prior: "stroke_snapshot option")
      (op_after: stroke_snapshot)
  | DeleteStroke (op_uuid: string) (op_page: u32) (op_before: stroke_snapshot)

record document_identity =
  di_source_file_name :: string
  di_target_file_names :: "string list"
  di_page_count :: usize
  di_pdf_sha256 :: string

record summary =
  sm_upserted :: usize
  sm_deleted :: usize
  sm_unchanged :: usize
  sm_skipped :: usize

record manifest =
  mf_schema_version :: u32
  mf_manifest_id :: string
  mf_source :: string
  mf_document :: document_identity
  mf_y_offset :: f64
  mf_operations :: "operation list"
  mf_summary :: summary

section \<open>Equality of snapshots\<close>

fun sample_eq :: "sample \<Rightarrow> sample \<Rightarrow> bool" where
  "sample_eq (x, y, p) (x', y', p') \<longleftrightarrow> f64_eq x x' \<and> f64_eq y y' \<and> f64_eq p p'"

definition snapshot_eq :: "stroke_snapshot \<Rightarrow> stroke_snapshot \<Rightarrow> bool" where
  "snapshot_eq a b \<longleftrightarrow>
     source_uuid a = source_uuid b \<and> origin a = origin b \<and> page_index a = page_index b \<and>
     native_style a = native_style b \<and> list_all2 sample_eq (samples a) (samples b) \<and>
     fingerprint a = fingerprint b"

section \<open>The geometry fingerprint\<close>

definition fnv1a32 :: "bytes \<Rightarrow> u32" where
  "fnv1a32 bs = foldl (\<lambda>hash b. xor hash (word_of_int (byte b)) * 0x01000193) 0x811c9dc5 bs"

text \<open>\<open>{:08x}\<close> of a \<open>u32\<close>.\<close>

definition show_hex8 :: "u32 \<Rightarrow> string" where
  "show_hex8 w = map (\<lambda>i. hex_digit (uint w div 16 ^ i mod 16)) [7, 6, 5, 4, 3, 2, 1, 0]"

fun show_rounded_sample :: "sample \<Rightarrow> string" where
  "show_rounded_sample (x, y, p) =
     show_i64 (f64_to_i64 (f64_round (f64_mul x (f64_ratio 100000 1)))) @ '','' @
     show_i64 (f64_to_i64 (f64_round (f64_mul y (f64_ratio 100000 1)))) @ '','' @
     show_i64 (f64_to_i64 (f64_round p)) @ '';''"

definition geometry_fingerprint :: "native_style \<Rightarrow> sample list \<Rightarrow> string" where
  "geometry_fingerprint style ss =
     ''fnv1a32:'' @
     show_hex8 (fnv1a32
       (show_i64 (layer_num style) @ ''|'' @ show_i64 (thickness style) @ ''|'' @
        show_i64 (pen_color style) @ ''|'' @ show_i64 (pen_type style) @ ''|'' @
        concat (map show_rounded_sample ss)))"

section \<open>Facts\<close>

definition sample_no_nan :: "sample \<Rightarrow> bool" where
  "sample_no_nan s \<longleftrightarrow>
     (case s of (x, y, p) \<Rightarrow> \<not> f64_is_nan x \<and> \<not> f64_is_nan y \<and> \<not> f64_is_nan p)"

lemma sample_eq_refl_iff: "sample_eq s s \<longleftrightarrow> sample_no_nan s"
  by (cases s) (simp add: sample_no_nan_def f64_eq_refl_iff)

lemma sample_eq_sym: "sample_eq s t \<Longrightarrow> sample_eq t s"
  by (cases s; cases t) (simp add: f64_eq_sym)

lemma sample_eq_trans: "sample_eq s t \<Longrightarrow> sample_eq t u \<Longrightarrow> sample_eq s u"
  by (cases s; cases t; cases u) (auto intro: f64_eq_trans)

lemma snapshot_eq_refl_iff: "snapshot_eq a a \<longleftrightarrow> (\<forall>s\<in>set (samples a). sample_no_nan s)"
  by (auto simp: snapshot_eq_def list_all2_same sample_eq_refl_iff)

lemma snapshot_eq_sym: "snapshot_eq a b \<Longrightarrow> snapshot_eq b a"
  by (auto simp: snapshot_eq_def list_all2_conv_all_nth intro: sample_eq_sym)

lemma snapshot_eq_trans: "snapshot_eq a b \<Longrightarrow> snapshot_eq b c \<Longrightarrow> snapshot_eq a c"
  unfolding snapshot_eq_def using list_all2_trans [OF sample_eq_trans] by auto

lemma snapshot_eq_fields:
  assumes "snapshot_eq a b"
  shows "source_uuid a = source_uuid b" and "page_index a = page_index b"
    and "native_style a = native_style b" and "length (samples a) = length (samples b)"
  using assms by (auto simp: snapshot_eq_def dest: list_all2_lengthD)

lemma length_show_hex8 [simp]: "length (show_hex8 w) = 8"
  by (simp add: show_hex8_def)

lemma length_geometry_fingerprint: "length (geometry_fingerprint style ss) = 16"
  by (simp add: geometry_fingerprint_def)

end
