(* ===== verification/Broker_Model.thy ===== *)
theory Broker_Model
  imports Convert_Model
begin

text \<open>
  \<open>inkbridge-broker/src/model.rs\<close>: revision pairs, storage events, canonical strokes with
  tombstones, preserved conflicts and their resolutions, and the canonical document state.
  Maps and sets are ordered lists (\<open>BTreeMap\<close>, \<open>BTreeSet\<close>).
\<close>

section \<open>Constants\<close>

definition broker_producer :: string where
  "broker_producer = ''inkbridge-broker''"

definition state_schema_version :: u32 where "state_schema_version = 1"
definition event_schema_version :: u32 where "event_schema_version = 1"
definition resolution_schema_version :: u32 where "resolution_schema_version = 1"

text \<open>\<open>Sha256::digest\<close> is a parameter (the crate \<open>sha2\<close>); the hexadecimal text is the code's.\<close>

type_synonym sha = "bytes \<Rightarrow> bytes"

definition sha256_hex :: "sha \<Rightarrow> bytes \<Rightarrow> string" where
  "sha256_hex sha bs = hex_lower (sha bs)"

definition stable_document_id :: "sha \<Rightarrow> bytes \<Rightarrow> string" where
  "stable_document_id sha original = ''inkbridge-doc-v1-'' @ sha256_hex sha original"

text \<open>The documented size of a SHA-256 digest.\<close>

definition sha_digest_size :: "sha \<Rightarrow> bool" where
  "sha_digest_size sha \<longleftrightarrow> (\<forall>bs. length (sha bs) = 32)"

lemma length_sha256_hex: "sha_digest_size sha \<Longrightarrow> length (sha256_hex sha bs) = 64"
  by (simp add: sha256_hex_def sha_digest_size_def)

lemma sha256_hex_hexdigits: "list_all is_hexdigit (sha256_hex sha bs)"
  by (auto simp: list_all_iff sha256_hex_def intro: hex_lower_hexdigits)

section \<open>Sides and revisions\<close>

datatype device_side = Boox | Supernote

datatype payload_kind = DeviceView | BooxOperationManifest

definition other_side :: "device_side \<Rightarrow> device_side" where
  "other_side s = (case s of Boox \<Rightarrow> Supernote | Supernote \<Rightarrow> Boox)"

record revision_pair =
  rp_boox :: u64
  rp_supernote :: u64

definition default_revisions :: revision_pair where
  "default_revisions = \<lparr>rp_boox = 0, rp_supernote = 0\<rparr>"

definition rp_get :: "revision_pair \<Rightarrow> device_side \<Rightarrow> u64" where
  "rp_get r s = (case s of Boox \<Rightarrow> rp_boox r | Supernote \<Rightarrow> rp_supernote r)"

definition rp_set :: "device_side \<Rightarrow> u64 \<Rightarrow> revision_pair \<Rightarrow> revision_pair" where
  "rp_set s v r = (case s of Boox \<Rightarrow> r\<lparr>rp_boox := v\<rparr> | Supernote \<Rightarrow> r\<lparr>rp_supernote := v\<rparr>)"

lemma other_side_simps [simp]:
  "other_side Boox = Supernote" "other_side Supernote = Boox" "other_side s \<noteq> s" "s \<noteq> other_side s"
  "other_side (other_side s) = s"
  by (cases s; simp add: other_side_def)+

lemma rp_get_simps [simp]: "rp_get r Boox = rp_boox r" "rp_get r Supernote = rp_supernote r"
  by (simp_all add: rp_get_def)

lemma rp_get_set [simp]: "rp_get (rp_set s v r) t = (if s = t then v else rp_get r t)"
  by (cases s; cases t) (simp_all add: rp_set_def)

lemma rp_eqI: "(\<And>s. rp_get r s = rp_get r' s) \<Longrightarrow> r = r'"
  by (metis revision_pair.equality old.unit.exhaust rp_get_simps)

definition revisions_le :: "revision_pair \<Rightarrow> revision_pair \<Rightarrow> bool" where
  "revisions_le a b \<longleftrightarrow> rp_boox a \<le> rp_boox b \<and> rp_supernote a \<le> rp_supernote b"

lemma all_sides: "(\<forall>side. P side) \<longleftrightarrow> P Boox \<and> P Supernote"
  by (metis device_side.exhaust)

lemma revisions_le_iff: "revisions_le a b \<longleftrightarrow> (\<forall>side. rp_get a side \<le> rp_get b side)"
  by (simp add: revisions_le_def all_sides)

lemma revisions_le_refl [simp]: "revisions_le a a"
  by (simp add: revisions_le_def)

lemma revisions_le_trans: "revisions_le a b \<Longrightarrow> revisions_le b c \<Longrightarrow> revisions_le a c"
  by (auto simp: revisions_le_def)

section \<open>Events\<close>

record output_marker =
  om_producer :: string
  om_event_id :: string
  om_document_id :: string
  om_source_revisions :: revision_pair

record storage_event =
  ev_schema_version :: u32
  ev_event_id :: string
  ev_document_id :: string
  ev_source :: device_side
  ev_object_path :: string
  ev_source_generation :: u64
  ev_source_revision :: u64
  ev_based_on :: revision_pair
  ev_content_sha256 :: string
  ev_payload_kind :: payload_kind
  ev_broker_output :: "output_marker option"

section \<open>Canonical state\<close>

record device_revision =
  dr_revision :: u64
  dr_content_sha256 :: string
  dr_source_generation :: u64
  dr_source_object_path :: string
  dr_accepted_object_path :: string
  dr_source_file_name :: "string option"

definition default_device_revision :: device_revision where
  "default_device_revision =
     \<lparr>dr_revision = 0, dr_content_sha256 = [], dr_source_generation = 0,
      dr_source_object_path = [], dr_accepted_object_path = [], dr_source_file_name = None\<rparr>"

record tombstone =
  tb_deleted_by :: device_side
  tb_deleted_at_revision :: u64
  tb_event_id :: string

record canonical_stroke =
  cs_stroke_id :: string
  cs_snapshot :: stroke_snapshot
  cs_last_modified_by :: device_side
  cs_source_revisions :: revision_pair
  cs_tombstone :: "tombstone option"

record generated_view =
  gv_object_path :: string
  gv_content_sha256 :: string
  gv_source_revisions :: revision_pair
  gv_event_id :: string

record preserved_input =
  pi_event_id :: string
  pi_source :: device_side
  pi_object_path :: string
  pi_payload_kind :: payload_kind
  pi_preserved_path :: string
  pi_competing_preserved_paths :: "string list"
  pi_source_generation :: u64
  pi_source_revision :: u64
  pi_content_sha256 :: string
  pi_based_on :: revision_pair
  pi_current_revisions :: revision_pair

datatype strategy = KeepCurrent | AcceptIncoming | MergePreservingCurrent

datatype change_kind = Add | Update | Delete | Move

record stroke_change =
  ch_stroke_id :: string
  ch_kind :: change_kind
  ch_page_index :: u32

record conflict_analysis =
  an_document_id :: string
  an_conflict_event_id :: string
  an_source :: device_side
  an_source_revision :: u64
  an_based_on :: revision_pair
  an_current_revisions :: revision_pair
  an_state_revision :: u64
  an_safe_changes :: "stroke_change list"
  an_overlapping_changes :: "stroke_change list"

record conflict_summary =
  su_document_id :: string
  su_conflict_event_id :: string
  su_source :: device_side
  su_source_revision :: u64
  su_based_on :: revision_pair
  su_current_revisions :: revision_pair
  su_state_revision :: u64
  su_payload_kind :: payload_kind

record resolution_request =
  rq_schema_version :: u32
  rq_resolution_id :: string
  rq_document_id :: string
  rq_conflict_event_id :: string
  rq_expected_state_revision :: u64
  rq_expected_current_revisions :: revision_pair
  rq_strategy :: strategy

record resolution_record =
  rc_resolution_id :: string
  rc_conflict_event_id :: string
  rc_strategy :: strategy
  rc_superseded :: bool
  rc_source :: device_side
  rc_previous_revisions :: revision_pair
  rc_resulting_revisions :: revision_pair
  rc_applied_stroke_ids :: "string list"
  rc_preserved_current_stroke_ids :: "string list"
  rc_marker_path :: string

record resolution_output =
  ro_side :: device_side
  ro_object_path :: string
  ro_generation :: u64

datatype resolution_outcome =
    Resolved (res_document_id: string) (res_conflict_event_id: string)
      (res_resolution_id: string) (res_strategy: strategy)
      (res_source_revisions: revision_pair) (res_applied: "string list")
      (res_preserved: "string list") (res_outputs: "resolution_output list")
  | Superseded string string string revision_pair
  | DuplicateResolution string string string strategy

record document_state =
  st_schema_version :: u32
  st_document_id :: string
  st_original_object_path :: string
  st_original_pdf_sha256 :: string
  st_original_file_name :: string
  st_original_page_count :: usize
  st_state_revision :: u64
  st_boox :: device_revision
  st_supernote :: device_revision
  st_last_common_revisions :: revision_pair
  st_processed_event_ids :: "string bset"
  st_strokes :: "(string, canonical_stroke) bmap"
  st_source_generations :: "(string, u64) bmap"
  st_generated_views :: "(string, generated_view) bmap"
  st_conflicts :: "preserved_input list"
  st_resolved_conflicts :: "(string, resolution_record) bmap"

definition revisions :: "document_state \<Rightarrow> revision_pair" where
  "revisions st = \<lparr>rp_boox = dr_revision (st_boox st), rp_supernote = dr_revision (st_supernote st)\<rparr>"

definition device :: "document_state \<Rightarrow> device_side \<Rightarrow> device_revision" where
  "device st s = (case s of Boox \<Rightarrow> st_boox st | Supernote \<Rightarrow> st_supernote st)"

text \<open>\<open>device_mut\<close>: update the revision record of one side.\<close>

definition update_device ::
    "device_side \<Rightarrow> (device_revision \<Rightarrow> device_revision) \<Rightarrow> document_state \<Rightarrow> document_state" where
  "update_device s f st =
     (case s of
        Boox \<Rightarrow> st\<lparr>st_boox := f (st_boox st)\<rparr>
      | Supernote \<Rightarrow> st\<lparr>st_supernote := f (st_supernote st)\<rparr>)"

datatype process_outcome =
    Applied (out_document_id: string) (out_event_id: string) (out_destination_path: string)
      (out_destination_generation: u64) (out_source_revisions: revision_pair)
  | Duplicate string string
  | IgnoredBrokerOutput string string
  | IgnoredStaleSource string string
  | Conflict (out_document_id: string) (out_event_id: string) (out_preserved_path: string)
      (out_current_revisions: revision_pair) (out_based_on: revision_pair)

section \<open>Facts\<close>

lemma rp_get_revisions [simp]: "rp_get (revisions st) s = dr_revision (device st s)"
  by (cases s) (simp_all add: revisions_def device_def)

lemma device_update_device [simp]:
  "device (update_device s f st) t = (if s = t then f (device st t) else device st t)"
  by (cases s; cases t) (simp_all add: update_device_def device_def)

lemma update_device_frame [simp]:
  "st_schema_version (update_device s f st) = st_schema_version st"
  "st_document_id (update_device s f st) = st_document_id st"
  "st_original_object_path (update_device s f st) = st_original_object_path st"
  "st_original_pdf_sha256 (update_device s f st) = st_original_pdf_sha256 st"
  "st_original_file_name (update_device s f st) = st_original_file_name st"
  "st_original_page_count (update_device s f st) = st_original_page_count st"
  "st_state_revision (update_device s f st) = st_state_revision st"
  "st_last_common_revisions (update_device s f st) = st_last_common_revisions st"
  "st_processed_event_ids (update_device s f st) = st_processed_event_ids st"
  "st_strokes (update_device s f st) = st_strokes st"
  "st_source_generations (update_device s f st) = st_source_generations st"
  "st_generated_views (update_device s f st) = st_generated_views st"
  "st_conflicts (update_device s f st) = st_conflicts st"
  "st_resolved_conflicts (update_device s f st) = st_resolved_conflicts st"
  by (cases s; simp add: update_device_def)+

text \<open>The container invariant of a canonical state: what \<open>serde\<close> rebuilds and every
  operation keeps.  Each stroke is filed under its own identity.\<close>

definition state_wf :: "document_state \<Rightarrow> bool" where
  "state_wf st \<longleftrightarrow>
     bs_wf (st_processed_event_ids st) \<and> bm_wf (st_strokes st) \<and>
     bm_wf (st_source_generations st) \<and> bm_wf (st_generated_views st) \<and>
     bm_wf (st_resolved_conflicts st) \<and>
     (\<forall>k c. bm_get (st_strokes st) k = Some c \<longrightarrow> cs_stroke_id c = k)"

end
