(* ===== verification/Storage.thy ===== *)
theory Storage
  imports Broker_Model "HOL-Library.Product_Lexorder"
begin

text \<open>
  \<open>inkbridge-broker/src/storage.rs\<close>: generation-conditional writes.  \<open>storage_ops\<close> is the
  trait \<open>BrokerStorage\<close> as a record of its three methods over a state type, the locale
  \<open>broker_storage\<close> the contract its documentation gives (all preconditions are checked
  against one state, then all writes are applied, or none), and \<open>MemoryStorage\<close> the
  provider whose model discharges it.
\<close>

record stored_object =
  so_bytes :: bytes
  so_generation :: u64
  so_metadata :: "(string, string) bmap"

datatype precondition = DoesNotExist | Match u64

record conditional_write =
  cw_path :: string
  cw_bytes :: bytes
  cw_metadata :: "(string, string) bmap"
  cw_precondition :: precondition

datatype commit_error =
    PreconditionFailed string precondition "u64 option"
  | OtherCommitError string

record 's storage_ops =
  bs_read :: "'s \<Rightarrow> string \<Rightarrow> string + stored_object option"
  bs_read_generation :: "'s \<Rightarrow> string \<Rightarrow> u64 \<Rightarrow> string + stored_object option"
  bs_commit :: "'s \<Rightarrow> conditional_write list \<Rightarrow> 's \<times> (commit_error + stored_object list)"

definition precondition_holds :: "precondition \<Rightarrow> u64 option \<Rightarrow> bool" where
  "precondition_holds pre actual =
     (case pre of DoesNotExist \<Rightarrow> actual = None | Match expected \<Rightarrow> actual = Some expected)"

lemma precondition_holds_simps [simp]:
  "precondition_holds DoesNotExist a \<longleftrightarrow> a = None"
  "precondition_holds (Match g) a \<longleftrightarrow> a = Some g"
  by (simp_all add: precondition_holds_def)

section \<open>Memory storage\<close>

record memory_storage =
  ms_objects :: "(string, stored_object) bmap"
  ms_versions :: "(string \<times> u64, stored_object) bmap"
  ms_next_generation :: u64

definition empty_memory :: memory_storage where
  "empty_memory = \<lparr>ms_objects = [], ms_versions = [], ms_next_generation = 0\<rparr>"

definition mem_put ::
    "string \<Rightarrow> bytes \<Rightarrow> (string, string) bmap \<Rightarrow> memory_storage \<Rightarrow> memory_storage \<times> stored_object" where
  "mem_put path bs meta m =
     (let g = ms_next_generation m + 1;
          obj = \<lparr>so_bytes = bs, so_generation = g, so_metadata = meta\<rparr>
      in (m\<lparr>ms_next_generation := g,
            ms_objects := bm_insert path obj (ms_objects m),
            ms_versions := bm_insert (path, g) obj (ms_versions m)\<rparr>, obj))"

definition mem_read :: "memory_storage \<Rightarrow> string \<Rightarrow> string + stored_object option" where
  "mem_read m path = Inr (bm_get (ms_objects m) path)"

definition mem_read_generation ::
    "memory_storage \<Rightarrow> string \<Rightarrow> u64 \<Rightarrow> string + stored_object option" where
  "mem_read_generation m path g = Inr (bm_get (ms_versions m) (path, g))"

definition mem_check_write :: "memory_storage \<Rightarrow> conditional_write \<Rightarrow> commit_error + unit" where
  "mem_check_write m w =
     (let actual = map_option so_generation (bm_get (ms_objects m) (cw_path w))
      in ensure (precondition_holds (cw_precondition w) actual)
           (PreconditionFailed (cw_path w) (cw_precondition w) actual))"

fun mem_apply_writes ::
    "memory_storage \<Rightarrow> conditional_write list \<Rightarrow> memory_storage \<times> stored_object list" where
  "mem_apply_writes m [] = (m, [])"
| "mem_apply_writes m (w # ws) =
     (let (m1, obj) = mem_put (cw_path w) (cw_bytes w) (cw_metadata w) m;
          (m2, objs) = mem_apply_writes m1 ws
      in (m2, obj # objs))"

definition mem_commit ::
    "memory_storage \<Rightarrow> conditional_write list \<Rightarrow>
       memory_storage \<times> (commit_error + stored_object list)" where
  "mem_commit m ws =
     (case try_each (mem_check_write m) ws of
        Inl e \<Rightarrow> (m, Inl e)
      | Inr _ \<Rightarrow> (let (m', objs) = mem_apply_writes m ws in (m', Inr objs)))"

definition mem_ops :: "memory_storage storage_ops" where
  "mem_ops =
     \<lparr>bs_read = mem_read, bs_read_generation = mem_read_generation, bs_commit = mem_commit\<rparr>"

section \<open>The contract of a broker storage\<close>

text \<open>\<open>room s n\<close>: the storage is consistent and \<open>n\<close> more generations fit its counter.\<close>

locale broker_storage =
  fixes ops :: "'s storage_ops"
    and room :: "'s \<Rightarrow> nat \<Rightarrow> bool"
  assumes commit_failed: "bs_commit ops s ws = (s', Inl e) \<Longrightarrow> s' = s"
    and commit_checked: "bs_commit ops s ws = (s', Inr objs) \<Longrightarrow> w \<in> set ws \<Longrightarrow>
      \<exists>obj. bs_read ops s (cw_path w) = Inr obj \<and>
        precondition_holds (cw_precondition w) (map_option so_generation obj)"
    and commit_objects: "bs_commit ops s ws = (s', Inr objs) \<Longrightarrow>
      list_all2 (\<lambda>w obj. so_bytes obj = cw_bytes w \<and> so_metadata obj = cw_metadata w) ws objs"
    and commit_read: "bs_commit ops s ws = (s', Inr objs) \<Longrightarrow> distinct (map cw_path ws) \<Longrightarrow>
      i < length ws \<Longrightarrow> bs_read ops s' (cw_path (ws ! i)) = Inr (Some (objs ! i))"
    and commit_frame: "bs_commit ops s ws = (s', Inr objs) \<Longrightarrow> p \<notin> cw_path ` set ws \<Longrightarrow>
      bs_read ops s' p = bs_read ops s p"
    and commit_versions: "bs_commit ops s ws = (s', Inr objs) \<Longrightarrow> room s (length ws) \<Longrightarrow>
      bs_read_generation ops s p g = Inr (Some obj) \<Longrightarrow>
      bs_read_generation ops s' p g = Inr (Some obj)"
    and commit_generation: "bs_commit ops s ws = (s', Inr objs) \<Longrightarrow> room s (length ws) \<Longrightarrow>
      bs_read ops s p = Inr (Some old) \<Longrightarrow> obj \<in> set objs \<Longrightarrow>
      so_generation old < so_generation obj"
    and commit_room: "bs_commit ops s ws = (s', Inr objs) \<Longrightarrow> room s (length ws + n) \<Longrightarrow> room s' n"
    and room_mono: "room s n \<Longrightarrow> k \<le> n \<Longrightarrow> room s k"
begin

lemma commit_length: "bs_commit ops s ws = (s', Inr objs) \<Longrightarrow> length objs = length ws"
  by (drule commit_objects) (simp add: list_all2_lengthD)

text \<open>A write guarded by \<open>Match g\<close> succeeds only over generation \<open>g\<close>; one guarded by
  \<open>DoesNotExist\<close> only where nothing is.\<close>

lemma commit_match:
  "bs_commit ops s ws = (s', Inr objs) \<Longrightarrow> w \<in> set ws \<Longrightarrow> cw_precondition w = Match g \<Longrightarrow>
     \<exists>obj. bs_read ops s (cw_path w) = Inr (Some obj) \<and> so_generation obj = g"
  using commit_checked [of s ws s' objs w] by auto

lemma commit_absent:
  "bs_commit ops s ws = (s', Inr objs) \<Longrightarrow> w \<in> set ws \<Longrightarrow> cw_precondition w = DoesNotExist \<Longrightarrow>
     bs_read ops s (cw_path w) = Inr None"
  using commit_checked [of s ws s' objs w] by auto

text \<open>No lost update: once a commit has replaced the object at \<open>p\<close>, a second commit that was
  planned on the generation it replaced fails.\<close>

lemma stale_commit_fails:
  assumes first: "bs_commit ops s ws = (s1, Inr objs)" and distinct: "distinct (map cw_path ws)"
    and room: "room s (length ws)"
    and read: "bs_read ops s p = Inr (Some old)" and wrote: "p \<in> cw_path ` set ws"
    and w: "w \<in> set ws'" "cw_path w = p" "cw_precondition w = Match (so_generation old)"
  shows "\<exists>e. bs_commit ops s1 ws' = (s1, Inl e)"
proof -
  obtain i where i: "i < length ws" "cw_path (ws ! i) = p"
    using wrote by (auto simp: in_set_conv_nth)
  then have now: "bs_read ops s1 p = Inr (Some (objs ! i))"
    using commit_read [OF first distinct] by blast
  have "objs ! i \<in> set objs" using i commit_length [OF first] by simp
  then have "so_generation old < so_generation (objs ! i)"
    using commit_generation [OF first room read] by blast
  then have differs: "so_generation (objs ! i) \<noteq> so_generation old" by auto
  obtain s2 r where second: "bs_commit ops s1 ws' = (s2, r)" by fastforce
  show ?thesis
  proof (cases r)
    case (Inl e)
    with second commit_failed show ?thesis by metis
  next
    case (Inr objs')
    with second commit_match [of s1 ws' s2 objs' w] w now differs show ?thesis by auto
  qed
qed

end

section \<open>Memory storage meets the contract\<close>

definition mem_room :: "memory_storage \<Rightarrow> nat \<Rightarrow> bool" where
  "mem_room m n \<longleftrightarrow>
     (\<forall>p obj. bm_get (ms_objects m) p = Some obj \<longrightarrow> so_generation obj \<le> ms_next_generation m) \<and>
     (\<forall>p g obj. bm_get (ms_versions m) (p, g) = Some obj \<longrightarrow> g \<le> ms_next_generation m) \<and>
     unat (ms_next_generation m) + n < 2 ^ 64"

lemma mem_put_next:
  "mem_put p bs md m = (m', obj) \<Longrightarrow> ms_next_generation m' = ms_next_generation m + 1"
  by (auto simp: mem_put_def Let_def)

lemma mem_room_put:
  assumes "mem_put p bs md m = (m', obj)" and "mem_room m (Suc n)"
  shows "mem_room m' n" and "ms_next_generation m < so_generation obj"
    and "so_generation obj = ms_next_generation m'"
proof -
  have g: "unat (ms_next_generation m + 1) = unat (ms_next_generation m) + 1"
    using assms(2) by (simp add: mem_room_def unat_word_ariths)
  then have less: "ms_next_generation m < ms_next_generation m + 1"
    by (simp add: word_less_nat_alt)
  then show "ms_next_generation m < so_generation obj" and "so_generation obj = ms_next_generation m'"
    using assms(1) by (auto simp: mem_put_def Let_def)
  have mono: "a \<le> ms_next_generation m + 1" if "a \<le> ms_next_generation m" for a
    using that less by simp
  show "mem_room m' n"
    using assms g mono by (fastforce simp: mem_put_def Let_def mem_room_def split: if_splits)
qed

lemma mem_apply_objects:
  "mem_apply_writes m ws = (m', objs) \<Longrightarrow>
     list_all2 (\<lambda>w obj. so_bytes obj = cw_bytes w \<and> so_metadata obj = cw_metadata w) ws objs"
  by (induction ws arbitrary: m objs) (auto simp: mem_put_def Let_def split: prod.splits)

lemma mem_apply_frame:
  "mem_apply_writes m ws = (m', objs) \<Longrightarrow> p \<notin> cw_path ` set ws \<Longrightarrow>
     bm_get (ms_objects m') p = bm_get (ms_objects m) p"
  by (induction ws arbitrary: m objs) (auto simp: mem_put_def Let_def split: prod.splits)

lemma mem_apply_read:
  "mem_apply_writes m ws = (m', objs) \<Longrightarrow> distinct (map cw_path ws) \<Longrightarrow> i < length ws \<Longrightarrow>
     bm_get (ms_objects m') (cw_path (ws ! i)) = Some (objs ! i)"
proof (induction ws arbitrary: m objs i)
  case (Cons w ws)
  then show ?case
    by (cases i) (auto simp: mem_put_def Let_def mem_apply_frame split: prod.splits)
qed simp

lemma mem_apply_room:
  "mem_apply_writes m ws = (m', objs) \<Longrightarrow> mem_room m (length ws + n) \<Longrightarrow>
     mem_room m' n \<and> ms_next_generation m \<le> ms_next_generation m' \<and>
     (\<forall>obj\<in>set objs. ms_next_generation m < so_generation obj) \<and>
     (\<forall>p g obj. bm_get (ms_versions m) (p, g) = Some obj \<longrightarrow>
        bm_get (ms_versions m') (p, g) = Some obj)"
proof (induction ws arbitrary: m objs)
  case Nil
  then show ?case by auto
next
  case (Cons w ws)
  obtain m1 obj where put: "mem_put (cw_path w) (cw_bytes w) (cw_metadata w) m = (m1, obj)"
    by fastforce
  obtain objs' where rest: "mem_apply_writes m1 ws = (m', objs')" and objs: "objs = obj # objs'"
    using Cons.prems(1) put by (auto split: prod.splits)
  from Cons.prems(2) have room: "mem_room m (Suc (length ws + n))" by simp
  note new = mem_room_put [OF put room]
  note IH = Cons.IH [OF rest new(1)]
  have keep: "bm_get (ms_versions m1) (p, g) = Some o'"
    if "bm_get (ms_versions m) (p, g) = Some o'" for p g o'
  proof -
    have "g \<le> ms_next_generation m" using room that unfolding mem_room_def by blast
    then have "g \<noteq> so_generation obj" using new(2) by auto
    then show ?thesis using put that by (auto simp: mem_put_def Let_def)
  qed
  have "ms_next_generation m < ms_next_generation m1" using new by simp
  with IH keep new objs show ?case by fastforce
qed

interpretation mem: broker_storage mem_ops mem_room
proof (unfold_locales, goal_cases)
  case (1 s ws s' e)
  then show ?case by (auto simp: mem_ops_def mem_commit_def split: sum.splits prod.splits)
next
  case (2 s ws s' objs w)
  then have "try_each (mem_check_write s) ws = Inr ()"
    by (auto simp: mem_ops_def mem_commit_def split: sum.splits)
  with 2 show ?case
    by (auto simp: mem_ops_def mem_read_def mem_check_write_def try_each_ok_iff Let_def
        ensure_eq_Inr_iff)
next
  case (3 s ws s' objs)
  then show ?case
    by (auto simp: mem_ops_def mem_commit_def mem_apply_objects split: sum.splits prod.splits)
next
  case (4 s ws s' objs i)
  then show ?case
    by (auto simp: mem_ops_def mem_commit_def mem_read_def mem_apply_read
        split: sum.splits prod.splits)
next
  case (5 s ws s' objs p)
  then show ?case
    by (auto simp: mem_ops_def mem_commit_def mem_read_def mem_apply_frame
        split: sum.splits prod.splits)
next
  case (6 s ws s' objs p g obj)
  then have "mem_apply_writes s ws = (s', objs)"
    by (auto simp: mem_ops_def mem_commit_def split: sum.splits prod.splits)
  with 6 mem_apply_room [of s ws s' objs 0] show ?case
    by (simp add: mem_ops_def mem_read_generation_def)
next
  case (7 s ws s' objs p old obj)
  then have "mem_apply_writes s ws = (s', objs)"
    by (auto simp: mem_ops_def mem_commit_def split: sum.splits prod.splits)
  with 7 have "ms_next_generation s < so_generation obj"
    using mem_apply_room [of s ws s' objs 0] by simp
  moreover have "so_generation old \<le> ms_next_generation s"
    using 7 by (auto simp: mem_ops_def mem_read_def mem_room_def)
  ultimately show ?case by simp
next
  case (8 s ws s' objs n)
  then have "mem_apply_writes s ws = (s', objs)"
    by (auto simp: mem_ops_def mem_commit_def split: sum.splits prod.splits)
  with 8 mem_apply_room [of s ws s' objs n] show ?case by simp
next
  case (9 s n k)
  then show ?case by (simp add: mem_room_def)
qed

lemma mem_room_empty: "n < 2 ^ 64 \<Longrightarrow> mem_room empty_memory n"
  by (simp add: mem_room_def empty_memory_def)

end
