(* ===== verification/Baseline.thy ===== *)
theory Baseline
  imports Convert_Model "HOL-Library.Multiset"
begin

text \<open>
  \<open>inkbridge-convert/src/baseline.rs\<close>: Supernote exports (one legacy page, or several pages
  under schema 1, as plain JSON or as \<open>INKBRIDGE_EXPORT\<close> log chunks) and the BOOX document
  baseline.  The JSON decoding of the envelope (\<open>serde_json\<close>) is a parameter; what the code
  does with the decoded envelope is modelled in full.
\<close>

record baseline_revisions =
  br_boox :: u64
  br_supernote :: u64

record export_stroke =
  es_source_uuid :: "string option"
  es_source_key :: string
  es_layer_num :: i64
  es_thickness :: i64
  es_pen_color :: i64
  es_pen_type :: i64
  es_samples :: "sample list"

record export_page =
  ep_page_index :: u32
  ep_strokes :: "export_stroke list"

record export_envelope =
  ee_schema_version :: "u32 option"
  ee_source_file_name :: "string option"
  ee_document_id :: "string option"
  ee_based_on :: "baseline_revisions option"
  ee_page_index :: "u32 option"
  ee_strokes :: "export_stroke list option"
  ee_pages :: "export_page list option"

record baseline_page =
  bp_page_index :: u32
  bp_strokes :: "stroke_snapshot list"

record baseline_export =
  be_source_file_name :: "string option"
  be_document_id :: "string option"
  be_based_on :: "baseline_revisions option"
  be_pages :: "baseline_page list"

record document_baseline =
  db_schema_version :: u32
  db_source_file_name :: string
  db_page_count :: usize
  db_pdf_sha256 :: string
  db_strokes :: "stroke_snapshot list"
  db_immutable_original_source_uuids :: "string list"

definition supernote_export_schema_version :: u32 where
  "supernote_export_schema_version = 1"

definition legacy_single_page_export_schema_version :: u32 where
  "legacy_single_page_export_schema_version = 2"

definition document_baseline_schema_version :: u32 where
  "document_baseline_schema_version = 1"

definition page_to_usize :: "u32 \<Rightarrow> usize" where
  "page_to_usize p = ucast p"

section \<open>Samples and identities\<close>

fun valid_sample :: "sample \<Rightarrow> bool" where
  "valid_sample (x, y, p) \<longleftrightarrow>
     f64_is_finite x \<and> f64_is_finite y \<and> f64_is_finite p \<and>
     f64_within f64_one x \<and> f64_within f64_one y \<and> f64_within f64_4096 p"

text \<open>\<open>HashSet::insert\<close> as a check: the identities seen so far are a list.\<close>

fun check_baseline_strokes ::
    "usize \<Rightarrow> stroke_snapshot list \<Rightarrow> string list \<Rightarrow> string + string list" where
  "check_baseline_strokes page_count [] seen = Inr seen"
| "check_baseline_strokes page_count (s # ss) seen =
     (if blank (source_uuid s) then Inl ''BOOX baseline contains a stroke without an identity''
      else if source_uuid s \<in> set seen then
        Inl (''BOOX baseline contains duplicate stroke identity '' @ source_uuid s)
      else if page_count \<le> page_to_usize (page_index s) then
        Inl (''BOOX baseline stroke '' @ source_uuid s @ '' references page '' @
             show_u32 (page_index s + 1) @ '', but pageCount is '' @ show_u64 page_count)
      else if length (samples s) < 2 then
        Inl (''BOOX baseline stroke '' @ source_uuid s @ '' contains fewer than two samples'')
      else check_baseline_strokes page_count ss (source_uuid s # seen))"

fun check_immutable_uuids :: "string list \<Rightarrow> string list \<Rightarrow> string + unit" where
  "check_immutable_uuids [] seen = Inr ()"
| "check_immutable_uuids (u # us) seen =
     (if blank u then
        Inl ''BOOX baseline contains an immutable-original annotation without an identity''
      else if u \<in> set seen then
        Inl (''BOOX baseline repeats annotation identity '' @ u @
             '' across canonical and immutable-original inventories'')
      else check_immutable_uuids us (u # seen))"

definition lowercase_sha256 :: "string \<Rightarrow> bool" where
  "lowercase_sha256 s \<longleftrightarrow>
     length s = 64 \<and> list_all (\<lambda>c. is_hexdigit c \<and> \<not> is_uppercase c) s"

definition validate_document_baseline :: "document_baseline \<Rightarrow> string + unit" where
  "validate_document_baseline b =
     (if db_schema_version b \<noteq> document_baseline_schema_version then
        Inl (''unsupported BOOX baseline schema '' @ show_u32 (db_schema_version b))
      else if blank (db_source_file_name b) then Inl ''BOOX baseline sourceFileName is empty''
      else if db_page_count b = 0 then Inl ''BOOX baseline pageCount must be positive''
      else if \<not> lowercase_sha256 (db_pdf_sha256 b) then
        Inl ''BOOX baseline pdfSha256 is not lowercase SHA-256''
      else rbind (check_baseline_strokes (db_page_count b) (db_strokes b) [])
             (check_immutable_uuids (db_immutable_original_source_uuids b)))"

section \<open>Supernote exports\<close>

definition export_stroke_uuid :: "export_stroke \<Rightarrow> string" where
  "export_stroke_uuid s = (case es_source_uuid s of Some u \<Rightarrow> u | None \<Rightarrow> es_source_key s)"

definition export_snapshot :: "u32 \<Rightarrow> export_stroke \<Rightarrow> stroke_snapshot" where
  "export_snapshot page s =
     (let style = \<lparr>layer_num = es_layer_num s, thickness = es_thickness s,
                   pen_color = es_pen_color s, pen_type = es_pen_type s\<rparr>
      in \<lparr>source_uuid = export_stroke_uuid s, origin = ''supernote-native'', page_index = page,
          native_style = style, samples = es_samples s,
          fingerprint = geometry_fingerprint style (es_samples s)\<rparr>)"

fun parse_export_strokes ::
    "string \<Rightarrow> u32 \<Rightarrow> export_stroke list \<Rightarrow> string list \<Rightarrow>
       string + stroke_snapshot list \<times> string list" where
  "parse_export_strokes name page [] seen = Inr ([], seen)"
| "parse_export_strokes name page (s # ss) seen =
     (let uuid = export_stroke_uuid s
      in if blank uuid then
           Inl (''baseline '' @ name @ '' contains a stroke without an identity'')
         else if uuid \<in> set seen then
           Inl (''Supernote export '' @ name @ '' repeats stroke identity '' @ uuid)
         else if length (es_samples s) < 2 then
           Inl (''baseline stroke '' @ uuid @ '' contains fewer than two samples'')
         else if \<not> list_all valid_sample (es_samples s) then
           Inl (''baseline stroke '' @ uuid @ '' contains an invalid normalized sample'')
         else rbind (parse_export_strokes name page ss (uuid # seen))
                (\<lambda>(rest, seen'). Inr (export_snapshot page s # rest, seen')))"

fun parse_export_pages ::
    "string \<Rightarrow> export_page list \<Rightarrow> u32 list \<Rightarrow> string list \<Rightarrow> string + baseline_page list" where
  "parse_export_pages name [] seen_pages seen = Inr []"
| "parse_export_pages name (p # ps) seen_pages seen =
     (if ep_page_index p \<in> set seen_pages then
        Inl (''Supernote export '' @ name @ '' repeats pageIndex '' @ show_u32 (ep_page_index p))
      else rbind (parse_export_strokes name (ep_page_index p) (ep_strokes p) seen)
             (\<lambda>(snapshots, seen').
                rbind (parse_export_pages name ps (ep_page_index p # seen_pages) seen')
                  (\<lambda>rest. Inr (\<lparr>bp_page_index = ep_page_index p, bp_strokes = snapshots\<rparr> # rest))))"

definition envelope_pages :: "string \<Rightarrow> export_envelope \<Rightarrow> string + export_page list" where
  "envelope_pages name e =
     rbind
       (case (ee_page_index e, ee_strokes e) of
          (Some p, Some ss) \<Rightarrow> Inr (Some \<lparr>ep_page_index = p, ep_strokes = ss\<rparr>)
        | (None, None) \<Rightarrow> Inr None
        | _ \<Rightarrow> Inl (''Supernote export '' @ name @ '' must provide pageIndex and strokes together''))
       (\<lambda>legacy.
          case (legacy, ee_pages e) of
            (Some page, None) \<Rightarrow> Inr [page]
          | (None, Some pages) \<Rightarrow>
              if ee_schema_version e \<noteq> Some supernote_export_schema_version then
                Inl (''multi-page Supernote export '' @ name @ '' must declare schemaVersion 1'')
              else if pages = [] then
                Inl (''multi-page Supernote export '' @ name @ '' contains no page snapshots'')
              else Inr pages
          | (Some _, Some _) \<Rightarrow>
              Inl (''Supernote export '' @ name @ '' cannot contain both a legacy page and pages'')
          | (None, None) \<Rightarrow> Inl (''Supernote export '' @ name @ '' contains no page snapshot''))"

definition check_envelope :: "string \<Rightarrow> export_envelope \<Rightarrow> string + unit" where
  "check_envelope name e =
     (case ee_schema_version e of
        Some v \<Rightarrow>
          if v \<noteq> supernote_export_schema_version \<and> v \<noteq> legacy_single_page_export_schema_version
          then Inl (''unsupported Supernote export schema '' @ show_u32 v @ '' in '' @ name)
          else Inr ()
      | None \<Rightarrow> Inr ())"

definition check_envelope_name :: "string \<Rightarrow> export_envelope \<Rightarrow> string + unit" where
  "check_envelope_name name e =
     (case ee_source_file_name e of
        Some f \<Rightarrow>
          if blank f then Inl (''Supernote export '' @ name @ '' contains an empty sourceFileName'')
          else Inr ()
      | None \<Rightarrow> Inr ())"

definition baseline_of_envelope :: "string \<Rightarrow> export_envelope \<Rightarrow> string + baseline_export" where
  "baseline_of_envelope name e =
     rbind (check_envelope name e) (\<lambda>_.
     rbind (check_envelope_name name e) (\<lambda>_.
     rbind (envelope_pages name e) (\<lambda>pages.
     rbind (parse_export_pages name pages [] []) (\<lambda>parsed.
       Inr \<lparr>be_source_file_name = ee_source_file_name e, be_document_id = ee_document_id e,
            be_based_on = ee_based_on e, be_pages = sort_key bp_page_index parsed\<rparr>))))"

section \<open>JSON text and export logs\<close>

text \<open>The state of the loop over log lines: the chunk count seen first, and the chunks.\<close>

type_synonym chunk_state = "usize option \<times> (usize, string) bmap"

definition scan_log_line :: "string \<Rightarrow> chunk_state \<Rightarrow> string + chunk_state" where
  "scan_log_line line st =
     (case after_first ''INKBRIDGE_EXPORT '' line of
        None \<Rightarrow> Inr st
      | Some remainder \<Rightarrow>
          (case split_once (CHR '' '') remainder of
             None \<Rightarrow> Inr st
           | Some (sequence, chunk) \<Rightarrow>
               (case split_once (CHR ''/'') sequence of
                  None \<Rightarrow> Inr st
                | Some (i, t) \<Rightarrow>
                    rbind (map_err (\<lambda>_. ''invalid InkBridge export chunk index: '' @ sequence)
                             (parse_u64 i)) (\<lambda>index.
                    rbind (map_err (\<lambda>_. ''invalid InkBridge export chunk count: '' @ sequence)
                             (parse_u64 t)) (\<lambda>total.
                      case fst st of
                        Some expected \<Rightarrow>
                          if expected \<noteq> total then
                            Inl ''InkBridge export log contains inconsistent chunk counts''
                          else Inr (Some expected, bm_insert index chunk (snd st))
                      | None \<Rightarrow> Inr (Some total, bm_insert index chunk (snd st)))))))"

fun scan_log :: "string list \<Rightarrow> chunk_state \<Rightarrow> string + chunk_state" where
  "scan_log [] st = Inr st"
| "scan_log (l # ls) st = rbind (scan_log_line l st) (scan_log ls)"

text \<open>\<open>chunks.len() != total || !(1..=total).all(..)\<close>, then the chunks in order.\<close>

definition join_chunks :: "usize \<Rightarrow> (usize, string) bmap \<Rightarrow> string + string" where
  "join_chunks expected chunks =
     (if of_nat (length chunks) \<noteq> expected \<or>
         \<not> list_all (\<lambda>i. bm_has chunks (of_nat i)) [1..<Suc (unat expected)]
      then Inl (''incomplete InkBridge export: found '' @ show_int (int (length chunks)) @
                '' of '' @ show_u64 expected @ '' chunks'')
      else Inr (concat (map (\<lambda>i. the (bm_get chunks (of_nat i))) [1..<Suc (unat expected)])))"

definition extract_json :: "string \<Rightarrow> string + string" where
  "extract_json text =
     (let trimmed = trim text
      in if prefix ''{'' trimmed then Inr trimmed
         else rbind (scan_log (str_lines text) (None, [])) (\<lambda>(seen, chunks).
              rbind (ok_or ''baseline is neither JSON nor a log containing INKBRIDGE_EXPORT chunks''
                       seen) (\<lambda>expected. join_chunks expected chunks)))"

text \<open>\<open>envelope_of_json\<close> stands for \<open>serde_json::from_str::<ExportEnvelope>\<close>.\<close>

definition parse_baseline_text ::
    "(string \<Rightarrow> string + export_envelope) \<Rightarrow> string \<Rightarrow> string \<Rightarrow> string + baseline_export" where
  "parse_baseline_text envelope_of_json text name =
     rbind (extract_json text) (\<lambda>json.
     rbind (map_err (\<lambda>e. ''invalid baseline JSON in '' @ name @ '': '' @ e) (envelope_of_json json))
       (baseline_of_envelope name))"

definition parse_baseline_bytes ::
    "(string \<Rightarrow> string + export_envelope) \<Rightarrow> bytes \<Rightarrow> string \<Rightarrow> string + baseline_export" where
  "parse_baseline_bytes envelope_of_json bs name =
     (case utf8_error bs of
        Some e \<Rightarrow> Inl (''Supernote export '' @ name @ '' is not UTF-8: '' @ e)
      | None \<Rightarrow> parse_baseline_text envelope_of_json bs name)"

text \<open>\<open>index_baseline\<close>: a later stroke with the same identity replaces an earlier one.\<close>

definition index_baseline :: "stroke_snapshot list \<Rightarrow> (string, stroke_snapshot) bmap" where
  "index_baseline ss = bm_of_list (map (\<lambda>s. (source_uuid s, s)) ss)"

section \<open>What a parsed export guarantees\<close>

text \<open>
  Every page appears once, in page order; every stroke appears once over all pages, lies on
  the page that lists it, is not blank, has at least two samples, all of them normalized,
  and carries the fingerprint of its style and samples.
\<close>

definition export_strokes :: "baseline_export \<Rightarrow> stroke_snapshot list" where
  "export_strokes e = concat (map bp_strokes (be_pages e))"

definition parsed_stroke :: "u32 \<Rightarrow> stroke_snapshot \<Rightarrow> bool" where
  "parsed_stroke page s \<longleftrightarrow>
     \<not> blank (source_uuid s) \<and> origin s = ''supernote-native'' \<and> page_index s = page \<and>
     2 \<le> length (samples s) \<and> list_all valid_sample (samples s) \<and>
     fingerprint s = geometry_fingerprint (native_style s) (samples s)"

definition export_wf :: "baseline_export \<Rightarrow> bool" where
  "export_wf e \<longleftrightarrow>
     distinct (map bp_page_index (be_pages e)) \<and> sorted (map bp_page_index (be_pages e)) \<and>
     distinct (map source_uuid (export_strokes e)) \<and>
     (\<forall>p\<in>set (be_pages e). \<forall>s\<in>set (bp_strokes p). parsed_stroke (bp_page_index p) s)"

lemma parse_export_strokes_ok:
  "parse_export_strokes name page ss seen = Inr (snaps, seen') \<Longrightarrow>
     set seen' = source_uuid ` set snaps \<union> set seen \<and> distinct (map source_uuid snaps) \<and>
     (\<forall>s\<in>set snaps. source_uuid s \<notin> set seen) \<and> (\<forall>s\<in>set snaps. parsed_stroke page s)"
proof (induction ss arbitrary: seen snaps)
  case Nil
  then show ?case by simp
next
  case (Cons s ss)
  let ?snap = "export_snapshot page s"
  have uuid: "source_uuid ?snap = export_stroke_uuid s"
    by (simp add: export_snapshot_def Let_def)
  from Cons.prems obtain rest where
    rest: "parse_export_strokes name page ss (export_stroke_uuid s # seen) = Inr (rest, seen')" and
    fresh: "export_stroke_uuid s \<notin> set seen" and snaps: "snaps = ?snap # rest" and
    valid: "\<not> blank (export_stroke_uuid s)" "2 \<le> length (es_samples s)"
      "list_all valid_sample (es_samples s)"
    by (auto simp: Let_def rbind_eq_Inr_iff split: if_splits)
  have snap: "parsed_stroke page ?snap"
    using valid uuid by (simp add: parsed_stroke_def export_snapshot_def Let_def)
  show ?case using Cons.IH [OF rest] fresh snap snaps uuid by auto
qed

lemma parse_export_pages_ok:
  "parse_export_pages name ps seen_pages seen = Inr pages \<Longrightarrow>
     distinct (map bp_page_index pages) \<and>
     (\<forall>p\<in>set pages. bp_page_index p \<notin> set seen_pages) \<and>
     distinct (map source_uuid (concat (map bp_strokes pages))) \<and>
     (\<forall>p\<in>set pages. \<forall>s\<in>set (bp_strokes p).
        source_uuid s \<notin> set seen \<and> parsed_stroke (bp_page_index p) s)"
proof (induction ps arbitrary: seen_pages seen pages)
  case Nil
  then show ?case by simp
next
  case (Cons p ps)
  from Cons.prems obtain snaps seen' rest where
    fresh: "ep_page_index p \<notin> set seen_pages" and
    strokes: "parse_export_strokes name (ep_page_index p) (ep_strokes p) seen = Inr (snaps, seen')" and
    rest: "parse_export_pages name ps (ep_page_index p # seen_pages) seen' = Inr rest" and
    pages: "pages = \<lparr>bp_page_index = ep_page_index p, bp_strokes = snaps\<rparr> # rest"
    by (auto simp: rbind_eq_Inr_iff split: if_splits prod.splits)
  note ok = parse_export_strokes_ok [OF strokes] and IH = Cons.IH [OF rest]
  have later: "source_uuid s \<notin> source_uuid ` set snaps \<and> source_uuid s \<notin> set seen"
    if "p' \<in> set rest" "s \<in> set (bp_strokes p')" for p' s
    using IH ok that by (metis UnCI)
  then have "source_uuid ` set snaps \<inter> source_uuid ` set (concat (map bp_strokes rest)) = {}"
    by (fastforce simp: image_iff)
  then have "distinct (map source_uuid (concat (map bp_strokes pages)))"
    using ok IH pages by simp
  moreover have "\<forall>p\<in>set pages. \<forall>s\<in>set (bp_strokes p).
      source_uuid s \<notin> set seen \<and> parsed_stroke (bp_page_index p) s"
    using ok IH pages later by simp
  moreover have "distinct (map bp_page_index pages)" and
      "\<forall>p\<in>set pages. bp_page_index p \<notin> set seen_pages"
    using IH fresh pages by auto
  ultimately show ?case by blast
qed

lemma mset_export_strokes:
  "mset (concat (map bp_strokes (sort_key f ps))) = mset (concat (map bp_strokes ps))"
  by (metis mset_concat mset_map mset_sort sum_mset_sum_list)

lemma baseline_of_envelope_wf:
  assumes "baseline_of_envelope name e = Inr ex"
  shows "export_wf ex"
proof -
  from assms obtain pages parsed where
    parsed: "parse_export_pages name pages [] [] = Inr parsed" and
    pages: "be_pages ex = sort_key bp_page_index parsed"
    by (auto simp: baseline_of_envelope_def rbind_eq_Inr_iff)
  note ok = parse_export_pages_ok [OF parsed, simplified]
  have "distinct (map bp_page_index (be_pages ex))"
    using ok pages by (metis distinct_map mset_eq_imp_distinct_iff mset_sort set_mset_mset)
  moreover have "mset (map source_uuid (export_strokes ex)) =
      mset (map source_uuid (concat (map bp_strokes parsed)))"
    by (simp only: export_strokes_def pages mset_map mset_export_strokes)
  then have "distinct (map source_uuid (export_strokes ex))"
    using ok by (metis mset_eq_imp_distinct_iff)
  ultimately show ?thesis
    using ok pages by (simp add: export_wf_def)
qed

lemma parse_baseline_bytes_wf:
  "parse_baseline_bytes f bs name = Inr ex \<Longrightarrow> export_wf ex"
  by (auto simp: parse_baseline_bytes_def parse_baseline_text_def rbind_eq_Inr_iff
      intro: baseline_of_envelope_wf split: option.splits)

lemma get_index_baseline:
  "bm_get (index_baseline ss) u = find (\<lambda>s. source_uuid s = u) (rev ss)"
  using bm.get_fold_put [of source_uuid id ss "[]" u]
  by (simp add: index_baseline_def bm_of_list_def fold_map comp_def split: option.splits)

lemma index_baseline_wf [simp]: "bm_wf (index_baseline ss)"
  by (simp add: index_baseline_def)

lemma index_baseline_uuid: "bm_get (index_baseline ss) u = Some s \<Longrightarrow> source_uuid s = u \<and> s \<in> set ss"
  by (auto simp: get_index_baseline dest: find_SomeD)

end
