(* ===== verification/Convert_Diff.thy ===== *)
theory Convert_Diff
  imports Baseline "HOL-Library.Product_Lexorder"
begin

text \<open>
  \<open>inkbridge-convert/src/lib.rs\<close>: the manifest that turns a baseline into the strokes found
  in a returned PDF.  Reading strokes out of a PDF (\<open>extract_pdf_strokes\<close>, over the crate
  \<open>lopdf\<close>) is a parameter; the diff, its deletion rule and the manifest identity are
  modelled.  A \<open>HashMap\<close> is an ordered map here: the code only folds over it before it sorts
  the operations by a key, or counts.
\<close>

record pdf_extraction =
  px_page_count :: usize
  px_strokes :: "stroke_snapshot list"
  px_skipped :: usize
  px_incomplete_pages :: "u32 list"
  px_failed_source_uuids :: "string list"
  px_tombstoned_source_uuids :: "string list"
  px_broker_owned_source_uuids :: "string list"

section \<open>Pressure profiles\<close>

definition pressure_source_index :: "nat \<Rightarrow> nat \<Rightarrow> nat \<Rightarrow> nat" where
  "pressure_source_index n_before n_after i =
     (let last_before = n_before - 1; last_after = max (n_after - 1) 1;
          scaled = (of_nat i :: usize) * of_nat last_before;
          quotient = f64_div (f64_of_int (uint scaled)) (f64_of_int (int last_after))
      in min (unat (f64_to_usize (f64_round quotient))) last_before)"

definition preserve_pressure_profile :: "sample list \<Rightarrow> sample list \<Rightarrow> sample list" where
  "preserve_pressure_profile before after =
     (if before = [] \<or> after = [] then after
      else map (\<lambda>(i, x, y, p).
             (x, y, snd (snd (before ! pressure_source_index (length before) (length after) i))))
           (enumerate 0 after))"

section \<open>Diff\<close>

definition adopt_native_metadata :: "stroke_snapshot \<Rightarrow> stroke_snapshot \<Rightarrow> stroke_snapshot" where
  "adopt_native_metadata before after =
     (if origin after \<noteq> ''pdf-ink'' then after
      else let same_thickness =
                 (thickness (native_style after) = thickness (native_style before));
               same_color = (pen_color (native_style after) = pen_color (native_style before));
               style1 = (native_style after)\<lparr>layer_num := layer_num (native_style before),
                                             pen_type := pen_type (native_style before)\<rparr>;
               style2 = (if same_thickness
                         then style1\<lparr>thickness := thickness (native_style before)\<rparr> else style1);
               ss = (if same_thickness
                     then preserve_pressure_profile (samples before) (samples after)
                     else samples after);
               style3 = (if same_color
                         then style2\<lparr>pen_color := pen_color (native_style before)\<rparr> else style2)
           in after\<lparr>native_style := style3, samples := ss,
                    fingerprint := geometry_fingerprint style3 ss\<rparr>)"

text \<open>One extracted stroke: the operations it adds and whether it is unchanged.\<close>

definition diff_stroke ::
    "(string, stroke_snapshot) bmap \<Rightarrow> stroke_snapshot \<Rightarrow> operation list \<times> bool" where
  "diff_stroke baseline extracted =
     (case bm_get baseline (source_uuid extracted) of
        None \<Rightarrow> ([UpsertStroke (source_uuid extracted) (page_index extracted) None extracted], False)
      | Some before \<Rightarrow>
          let after = adopt_native_metadata before extracted
          in if page_index after \<noteq> page_index before then
               ([DeleteStroke (source_uuid before) (page_index before) before,
                 UpsertStroke (source_uuid after) (page_index after) None after], False)
             else if fingerprint after = fingerprint before then ([], True)
             else ([UpsertStroke (source_uuid after) (page_index after) (Some before) after], False))"

definition should_infer_deletion ::
    "stroke_snapshot \<Rightarrow> u32 list \<Rightarrow> string list \<Rightarrow> u32 list \<Rightarrow> bool" where
  "should_infer_deletion before baseline_pages active_ids incomplete_pages \<longleftrightarrow>
     page_index before \<in> set baseline_pages \<and> page_index before \<notin> set incomplete_pages \<and>
     source_uuid before \<notin> set active_ids"

definition operation_key :: "operation \<Rightarrow> u32 \<times> string \<times> nat" where
  "operation_key o' =
     (case o' of
        UpsertStroke u p _ _ \<Rightarrow> (p, u, 0)
      | DeleteStroke u p _ \<Rightarrow> (p, u, 1))"

definition is_upsert :: "operation \<Rightarrow> bool" where
  "is_upsert o' = (case o' of UpsertStroke _ _ _ _ \<Rightarrow> True | DeleteStroke _ _ _ \<Rightarrow> False)"

definition diff_strokes ::
    "stroke_snapshot list \<Rightarrow> (string, stroke_snapshot) bmap \<Rightarrow> u32 list \<Rightarrow> string list \<Rightarrow>
       string list \<Rightarrow> operation list \<times> usize" where
  "diff_strokes extracted baseline incomplete_pages failed_uuids tombstoned_uuids =
     (let baseline_pages = map page_index (bm_values baseline);
          active_ids = failed_uuids @ map source_uuid extracted;
          diffs = map (diff_stroke baseline) extracted;
          deletions =
            map (\<lambda>s. DeleteStroke (source_uuid s) (page_index s) s)
              (filter (\<lambda>s. source_uuid s \<notin> set active_ids \<and>
                 (source_uuid s \<in> set tombstoned_uuids \<or>
                  should_infer_deletion s baseline_pages active_ids incomplete_pages))
                (bm_values baseline))
      in (sort_key operation_key (concat (map fst diffs) @ deletions),
          of_nat (length (filter snd diffs))))"

section \<open>Manifests\<close>

definition add_target_file_name :: "string list \<Rightarrow> string \<Rightarrow> string + string list" where
  "add_target_file_name targets candidate =
     (if blank candidate then Inr targets
      else case targets of
        existing # _ \<Rightarrow>
          if existing \<noteq> candidate then
            Inl (''baseline exports name different target documents: '' @ existing @ '' and '' @
                 candidate)
          else Inr targets
      | [] \<Rightarrow> Inr [candidate])"

definition validate_baseline_pages :: "stroke_snapshot list \<Rightarrow> usize \<Rightarrow> string + unit" where
  "validate_baseline_pages ss page_count =
     (case find (\<lambda>s. page_count \<le> page_to_usize (page_index s)) ss of
        Some s \<Rightarrow>
          Inl (''baseline stroke '' @ source_uuid s @ '' references page '' @
               show_u32 (page_index s + 1) @ '', but the returned PDF has only '' @
               show_u64 page_count @ '' pages'')
      | None \<Rightarrow> Inr ())"

definition manifest_id_of :: "(bytes \<Rightarrow> string) \<Rightarrow> string \<Rightarrow> operation list \<Rightarrow> f64 \<Rightarrow> string" where
  "manifest_id_of hex_digest pdf_sha256 ops y_offset =
     (let upserted = length (filter is_upsert ops);
          seed = pdf_sha256 @ ''|'' @ show_int (int (length ops)) @ ''|'' @
                 show_int (int upserted) @ ''|'' @ show_int (int (length ops - upserted)) @ ''|'' @
                 show_f64_8 y_offset
      in ''inkbridge-'' @ take 20 (hex_digest seed))"

text \<open>\<open>build_manifest_from_extraction\<close>: the file is its path and its bytes, \<open>hex_digest\<close> the
  hexadecimal SHA-256.\<close>

definition build_manifest_from_extraction ::
    "(bytes \<Rightarrow> string) \<Rightarrow> string \<Rightarrow> bytes \<Rightarrow> pdf_extraction \<Rightarrow> stroke_snapshot list \<Rightarrow>
       string list \<Rightarrow> f64 \<Rightarrow> string + manifest" where
  "build_manifest_from_extraction hex_digest pdf_path pdf x baseline_strokes targets y_offset =
     rbind (validate_baseline_pages baseline_strokes (px_page_count x)) (\<lambda>_.
       let baseline = index_baseline baseline_strokes;
           (ops, unchanged) = diff_strokes (px_strokes x) baseline (px_incomplete_pages x)
                                (px_failed_source_uuids x) (px_tombstoned_source_uuids x);
           upserted = length (filter is_upsert ops);
           skipped = px_skipped x +
             of_nat (length (filter (\<lambda>s. length (samples s) < 2) (bm_values baseline)))
       in Inr \<lparr>mf_schema_version = 1,
               mf_manifest_id = manifest_id_of hex_digest (hex_digest pdf) ops y_offset,
               mf_source = ''boox-neoreader-embedded-pdf'',
               mf_document =
                 \<lparr>di_source_file_name =
                    (case path_file_name pdf_path of Some n \<Rightarrow> n | None \<Rightarrow> ''document.pdf''),
                  di_target_file_names = targets, di_page_count = px_page_count x,
                  di_pdf_sha256 = hex_digest pdf\<rparr>,
               mf_y_offset = y_offset, mf_operations = ops,
               mf_summary =
                 \<lparr>sm_upserted = of_nat upserted, sm_deleted = of_nat (length ops - upserted),
                  sm_unchanged = unchanged, sm_skipped = skipped\<rparr>\<rparr>)"

text \<open>The baseline files of \<open>build_manifest\<close>: each is its path and its bytes.\<close>

definition load_baseline ::
    "(string \<Rightarrow> string + export_envelope) \<Rightarrow> string \<times> bytes \<Rightarrow> string + baseline_export" where
  "load_baseline envelope_of_json file =
     (if utf8_error (snd file) \<noteq> None then
        Inl (''could not read baseline '' @ fst file @ '': stream did not contain valid UTF-8'')
      else parse_baseline_text envelope_of_json (snd file) (fst file))"

fun load_baselines ::
    "(string \<Rightarrow> string + export_envelope) \<Rightarrow> (string \<times> bytes) list \<Rightarrow> string list \<Rightarrow>
       string + stroke_snapshot list \<times> string list" where
  "load_baselines envelope_of_json [] targets = Inr ([], targets)"
| "load_baselines envelope_of_json (f # fs) targets =
     rbind (load_baseline envelope_of_json f) (\<lambda>ex.
     rbind (case be_source_file_name ex of
              Some n \<Rightarrow> add_target_file_name targets n
            | None \<Rightarrow> Inr targets) (\<lambda>targets'.
     rbind (load_baselines envelope_of_json fs targets') (\<lambda>(rest, targets'').
       Inr (export_strokes ex @ rest, targets''))))"

definition build_manifest ::
    "(bytes \<Rightarrow> string) \<Rightarrow> (string \<Rightarrow> string + export_envelope) \<Rightarrow> (bytes \<Rightarrow> string + pdf_extraction) \<Rightarrow>
       string \<Rightarrow> bytes \<Rightarrow> (string \<times> bytes) list \<Rightarrow> f64 \<Rightarrow> string + manifest" where
  "build_manifest hex_digest envelope_of_json extract pdf_path pdf files y_offset =
     rbind (load_baselines envelope_of_json files []) (\<lambda>(strokes, targets).
     rbind (extract pdf) (\<lambda>x.
       build_manifest_from_extraction hex_digest pdf_path pdf x strokes targets y_offset))"

section \<open>Document baselines\<close>

definition insert_sorted_dedup :: "string list \<Rightarrow> string list" where
  "insert_sorted_dedup us = remdups_adj (sort us)"

definition partition_document_baseline_strokes ::
    "stroke_snapshot list \<Rightarrow> string list \<Rightarrow> stroke_snapshot list \<times> string list" where
  "partition_document_baseline_strokes ss broker_owned =
     (let (canonical, immutable) = partition (\<lambda>s. source_uuid s \<in> set broker_owned) ss
      in (canonical, insert_sorted_dedup (map source_uuid immutable)))"

definition build_document_baseline ::
    "(bytes \<Rightarrow> string) \<Rightarrow> (bytes \<Rightarrow> string + pdf_extraction) \<Rightarrow> string \<Rightarrow> bytes \<Rightarrow> string \<Rightarrow>
       string + document_baseline" where
  "build_document_baseline hex_digest extract pdf_path pdf name =
     rbind (extract pdf) (\<lambda>x.
       if px_incomplete_pages x \<noteq> [] \<or> px_failed_source_uuids x \<noteq> [] then
         Inl (''could not safely snapshot all editable BOOX strokes in '' @ pdf_path)
       else let (canonical, immutable) =
                  partition_document_baseline_strokes (px_strokes x) (px_broker_owned_source_uuids x);
                baseline =
                  \<lparr>db_schema_version = document_baseline_schema_version,
                   db_source_file_name = name, db_page_count = px_page_count x,
                   db_pdf_sha256 = hex_digest pdf, db_strokes = canonical,
                   db_immutable_original_source_uuids = immutable\<rparr>
            in rbind (validate_document_baseline baseline) (\<lambda>_. Inr baseline))"

definition exclude_immutable_original_annotations ::
    "pdf_extraction \<Rightarrow> string list \<Rightarrow> pdf_extraction" where
  "exclude_immutable_original_annotations x ignored =
     x\<lparr>px_strokes := filter (\<lambda>s. source_uuid s \<notin> set ignored) (px_strokes x),
       px_failed_source_uuids := filter (\<lambda>u. u \<notin> set ignored) (px_failed_source_uuids x),
       px_tombstoned_source_uuids := filter (\<lambda>u. u \<notin> set ignored) (px_tombstoned_source_uuids x)\<rparr>"

definition validate_document_page_count :: "usize \<Rightarrow> usize \<Rightarrow> string + unit" where
  "validate_document_page_count baseline_count returned_count =
     (if returned_count \<noteq> baseline_count then
        Inl (''NeoReader returned a PDF with '' @ show_u64 returned_count @
             '' pages, but the BOOX baseline has '' @ show_u64 baseline_count @
             ''; full-PDF fallback is required'')
      else Inr ())"

definition build_manifest_from_document_baseline ::
    "(bytes \<Rightarrow> string) \<Rightarrow> (bytes \<Rightarrow> string + pdf_extraction) \<Rightarrow> string \<Rightarrow> bytes \<Rightarrow> document_baseline \<Rightarrow>
       f64 \<Rightarrow> string + manifest" where
  "build_manifest_from_document_baseline hex_digest extract pdf_path pdf b y_offset =
     rbind (validate_document_baseline b) (\<lambda>_.
     rbind (extract pdf) (\<lambda>extracted.
       let x = exclude_immutable_original_annotations extracted
                 (db_immutable_original_source_uuids b)
       in rbind (validate_document_page_count (db_page_count b) (px_page_count x)) (\<lambda>_.
          rbind (build_manifest_from_extraction hex_digest pdf_path pdf x (db_strokes b)
                   [db_source_file_name b] y_offset) (\<lambda>m.
            Inr (m\<lparr>mf_document := (mf_document m)\<lparr>di_source_file_name := db_source_file_name b\<rparr>\<rparr>)))))"

end
