(* ===== verification/Broker_Base.thy ===== *)
theory Broker_Base
  imports Storage Convert_Diff
begin

text \<open>
  The parts of \<open>inkbridge-broker/src/broker.rs\<close> that the handlers share: the error type, the
  decoding of a canonical state with its migration, state writes, object paths, output
  metadata, the destination guard and the page count of the immutable original.  The record
  \<open>ext\<close> holds the code that is not in the repository (\<open>sha2\<close>, \<open>serde_json\<close>, \<open>lopdf\<close>, and the
  iteration order of a \<open>HashMap\<close>), one field per operation the broker calls.
\<close>

section \<open>Results with a storage state\<close>

definition and_then ::
    "'s \<times> ('e + 'a) \<Rightarrow> ('s \<Rightarrow> 'a \<Rightarrow> 's \<times> ('e + 'b)) \<Rightarrow> 's \<times> ('e + 'b)" where
  "and_then m f = (case m of (s, Inl e) \<Rightarrow> (s, Inl e) | (s, Inr x) \<Rightarrow> f s x)"

text \<open>A fallible step that does not touch the storage.\<close>

definition attempt :: "'s \<Rightarrow> 'e + 'a \<Rightarrow> ('a \<Rightarrow> 's \<times> ('e + 'b)) \<Rightarrow> 's \<times> ('e + 'b)" where
  "attempt s r f = (case r of Inl e \<Rightarrow> (s, Inl e) | Inr x \<Rightarrow> f x)"

lemma and_then_simps [simp]:
  "and_then (s, Inl e) f = (s, Inl e)" "and_then (s, Inr x) f = f s x"
  by (simp_all add: and_then_def)

lemma attempt_simps [simp]: "attempt s (Inl e) f = (s, Inl e)" "attempt s (Inr x) f = f x"
  by (simp_all add: attempt_def)

lemma and_then_Inr_iff [result_simps]:
  "and_then m f = (s', Inr y) \<longleftrightarrow> (\<exists>s x. m = (s, Inr x) \<and> f s x = (s', Inr y))"
  by (cases m; cases "snd m") auto

lemma attempt_Inr_iff [result_simps]:
  "attempt s r f = (s', Inr y) \<longleftrightarrow> (\<exists>x. r = Inr x \<and> f x = (s', Inr y))"
  by (cases r) auto

section \<open>External code\<close>

datatype json =
    JNull
  | JBool bool
  | JNumber string
  | JString string
  | JArray "json list"
  | JObject "(string, json) bmap"

record ext =
  x_sha :: sha
  x_value_of_bytes :: "bytes \<Rightarrow> string + json"
  x_state_of_value :: "json \<Rightarrow> string + document_state"
  x_state_to_json :: "document_state \<Rightarrow> string + bytes"
  x_manifest_of_json :: "bytes \<Rightarrow> string + manifest"
  x_manifest_to_json :: "manifest \<Rightarrow> string + bytes"
  x_resolution_to_json :: "resolution_record \<Rightarrow> string + bytes"
  x_envelope_of_json :: "string \<Rightarrow> string + export_envelope"
  x_envelope_to_json :: "export_envelope \<Rightarrow> string + bytes"
  x_pdf_page_count :: "bytes \<Rightarrow> string + usize"
  x_write_boox_view :: "bytes \<Rightarrow> stroke_snapshot list \<Rightarrow> string list \<Rightarrow> string + bytes"
  x_extract_strokes :: "bytes \<Rightarrow> string + pdf_extraction"
  x_hash_order :: "string list \<Rightarrow> string list"

abbreviation hex :: "ext \<Rightarrow> bytes \<Rightarrow> string" where
  "hex X \<equiv> sha256_hex (x_sha X)"

section \<open>Errors\<close>

datatype broker_error =
    InvalidEvent string
  | MissingObject string
  | CorruptState string
  | Conversion string
  | StaleDestination string "string option" "string option"
  | ConditionalWriteFailed commit_error
  | StorageError string

text \<open>\<open>{:?}\<close> of the types the messages print.\<close>

definition show_side :: "device_side \<Rightarrow> string" where
  "show_side s = (case s of Boox \<Rightarrow> ''Boox'' | Supernote \<Rightarrow> ''Supernote'')"

definition show_strategy :: "strategy \<Rightarrow> string" where
  "show_strategy s =
     (case s of
        KeepCurrent \<Rightarrow> ''KeepCurrent''
      | AcceptIncoming \<Rightarrow> ''AcceptIncoming''
      | MergePreservingCurrent \<Rightarrow> ''MergePreservingCurrent'')"

definition show_revisions :: "revision_pair \<Rightarrow> string" where
  "show_revisions r =
     ''RevisionPair { boox: '' @ show_u64 (rp_boox r) @ '', supernote: '' @
     show_u64 (rp_supernote r) @ '' }''"

section \<open>Object paths and metadata keys\<close>

definition generated_by_key :: string where "generated_by_key = ''inkbridge-generated-by''"
definition generated_event_key :: string where "generated_event_key = ''inkbridge-event-id''"
definition generated_document_key :: string where
  "generated_document_key = ''inkbridge-document-id''"
definition generated_revisions_key :: string where
  "generated_revisions_key = ''inkbridge-source-revisions''"
definition generated_content_hash_key :: string where
  "generated_content_hash_key = ''inkbridge-content-sha256''"

text \<open>A character outside the portable set becomes one underscore, whatever its width.\<close>

definition readable_segment :: "string \<Rightarrow> string" where
  "readable_segment value =
     (let segment = map (\<lambda>c. if is_alphanumeric c \<or> c = CHR ''-'' \<or> c = CHR ''_'' then c
                             else CHR ''_'')
                      (filter (\<lambda>c. \<not> is_continuation c) value)
      in if segment = [] then ''item'' else segment)"

definition event_path_segment :: "sha \<Rightarrow> string \<Rightarrow> string" where
  "event_path_segment sha event_id =
     take 48 (readable_segment event_id) @ ''-'' @ sha256_hex sha event_id"

definition safe_pdf_file_name :: "string \<Rightarrow> string" where
  "safe_pdf_file_name original_file_name =
     (let base_name = last_segment (\<lambda>c. c = CHR ''/'' \<or> c = CHR 0x5C) original_file_name;
          stem = (case strip_suffix ''.pdf'' base_name of
                    Some s \<Rightarrow> s
                  | None \<Rightarrow> (case strip_suffix ''.PDF'' base_name of
                               Some s \<Rightarrow> s
                             | None \<Rightarrow> base_name))
      in readable_segment stem @ ''.pdf'')"

definition original_path :: "string \<Rightarrow> string" where
  "original_path document_id = ''Originals/'' @ document_id @ ''/original.pdf''"

definition state_path :: "string \<Rightarrow> string" where
  "state_path document_id = ''Canonical/'' @ document_id @ ''/state.json''"

definition supernote_manifest_path :: "sha \<Rightarrow> string \<Rightarrow> string \<Rightarrow> string" where
  "supernote_manifest_path sha document_id event_id =
     ''Supernote_Folder/'' @ document_id @ ''/incoming/'' @ event_path_segment sha event_id @
     ''.operations.json''"

definition boox_view_path :: "document_state \<Rightarrow> string" where
  "boox_view_path st =
     ''BOOX_Folder/'' @ st_document_id st @ ''/'' @ safe_pdf_file_name (st_original_file_name st)"

definition add_newline :: "bytes \<Rightarrow> bytes" where
  "add_newline bs = bs @ [CHR 0x0A]"

definition output_metadata :: "output_marker \<Rightarrow> string \<Rightarrow> (string, string) bmap" where
  "output_metadata marker hash =
     bm_of_list
       [(generated_by_key, om_producer marker),
        (generated_event_key, om_event_id marker),
        (generated_document_key, om_document_id marker),
        (generated_revisions_key,
         show_u64 (rp_boox (om_source_revisions marker)) @ '':'' @
         show_u64 (rp_supernote (om_source_revisions marker))),
        (generated_content_hash_key, hash)]"

section \<open>Canonical state as bytes\<close>

definition state_write ::
    "ext \<Rightarrow> string \<Rightarrow> document_state \<Rightarrow> precondition \<Rightarrow> broker_error + conditional_write" where
  "state_write X path st pre =
     rbind (map_err CorruptState (x_state_to_json X st)) (\<lambda>bs.
       Inr \<lparr>cw_path = path, cw_bytes = add_newline bs,
            cw_metadata = bm_of_list [(''inkbridge-kind'', ''canonical-state''),
                                      (generated_document_key, st_document_id st)],
            cw_precondition = pre\<rparr>)"

definition json_field :: "string \<Rightarrow> (string, json) bmap \<Rightarrow> string option" where
  "json_field key object = (case bm_get object key of Some (JString s) \<Rightarrow> Some s | _ \<Rightarrow> None)"

definition migrate_conflict :: "json \<Rightarrow> json" where
  "migrate_conflict conflict =
     (case conflict of
        JObject object \<Rightarrow>
          if bm_has object ''payloadKind'' then conflict
          else let is_boox = (json_field ''source'' object = Some ''boox'');
                   has_json_evidence =
                     list_ex (\<lambda>key. case Option.bind (json_field key object) path_extension of
                                Some ext \<Rightarrow> eq_ignore_ascii_case ext ''json''
                              | None \<Rightarrow> False)
                       [''objectPath'', ''preservedPath''];
                   payload_kind = (if is_boox \<and> has_json_evidence
                                   then ''boox_operation_manifest'' else ''device_view'')
               in JObject (bm_insert ''payloadKind'' (JString payload_kind) object)
      | _ \<Rightarrow> conflict)"

definition migrate_legacy_conflict_payload_kinds :: "json \<Rightarrow> json" where
  "migrate_legacy_conflict_payload_kinds value =
     (case value of
        JObject object \<Rightarrow>
          (case bm_get object ''conflicts'' of
             Some (JArray conflicts) \<Rightarrow>
               JObject (bm_insert ''conflicts'' (JArray (map migrate_conflict conflicts)) object)
           | _ \<Rightarrow> value)
      | _ \<Rightarrow> value)"

definition decode_state :: "ext \<Rightarrow> bytes \<Rightarrow> broker_error + document_state" where
  "decode_state X bs =
     rbind (map_err CorruptState (x_value_of_bytes X bs)) (\<lambda>value.
     rbind (map_err CorruptState
              (x_state_of_value X (migrate_legacy_conflict_payload_kinds value))) (\<lambda>st.
       if st_schema_version st \<noteq> state_schema_version then
         Inl (CorruptState (''unsupported state schema version '' @ show_u32 (st_schema_version st)))
       else Inr st))"

text \<open>The read that every handler starts with.\<close>

definition load_state ::
    "'s storage_ops \<Rightarrow> ext \<Rightarrow> 's \<Rightarrow> string \<Rightarrow> broker_error + stored_object \<times> document_state" where
  "load_state ops X s document_id =
     rbind (map_err StorageError (bs_read ops s (state_path document_id))) (\<lambda>found.
     rbind (ok_or (MissingObject (''canonical state does not exist for '' @ document_id)) found)
       (\<lambda>object. rbind (decode_state X (so_bytes object)) (\<lambda>st. Inr (object, st))))"

section \<open>The destination guard\<close>

definition destination_precondition ::
    "ext \<Rightarrow> document_state \<Rightarrow> string \<Rightarrow> stored_object option \<Rightarrow> broker_error + precondition" where
  "destination_precondition X st path current =
     (case (bm_get (st_generated_views st) path, current) of
        (None, None) \<Rightarrow> Inr DoesNotExist
      | (Some previous, Some object) \<Rightarrow>
          let actual_hash = hex X (so_bytes object)
          in if actual_hash \<noteq> gv_content_sha256 previous then
               Inl (StaleDestination path (Some (gv_content_sha256 previous)) (Some actual_hash))
             else Inr (Match (so_generation object))
      | (Some previous, None) \<Rightarrow>
          Inl (StaleDestination path (Some (gv_content_sha256 previous)) None)
      | (None, Some object) \<Rightarrow>
          Inl (StaleDestination path None (Some (hex X (so_bytes object)))))"

section \<open>The immutable original\<close>

definition validate_original_pdf :: "ext \<Rightarrow> bytes \<Rightarrow> broker_error + usize" where
  "validate_original_pdf X original =
     rbind (map_err (\<lambda>e. InvalidEvent (''immutable original is not a readable PDF: '' @ e))
              (x_pdf_page_count X original)) (\<lambda>pages.
       if pages = 0 then
         Inl (InvalidEvent ''immutable original PDF must contain at least one page'')
       else Inr pages)"

definition read_original ::
    "'s storage_ops \<Rightarrow> ext \<Rightarrow> 's \<Rightarrow> document_state \<Rightarrow> broker_error + stored_object" where
  "read_original ops X s st =
     rbind (map_err StorageError (bs_read ops s (st_original_object_path st))) (\<lambda>found.
     rbind (ok_or (MissingObject (st_original_object_path st)) found) (\<lambda>original.
       if hex X (so_bytes original) \<noteq> st_original_pdf_sha256 st then
         Inl (CorruptState ''immutable original PDF hash changed'')
       else Inr original))"

definition ensure_original_page_count ::
    "'s storage_ops \<Rightarrow> ext \<Rightarrow> 's \<Rightarrow> document_state \<Rightarrow> broker_error + document_state" where
  "ensure_original_page_count ops X s st =
     (if st_original_page_count st \<noteq> 0 then Inr st
      else rbind (read_original ops X s st) (\<lambda>original.
           rbind (map_err (\<lambda>e. CorruptState (''immutable original is not a readable PDF: '' @ e))
                    (x_pdf_page_count X (so_bytes original))) (\<lambda>pages.
             if pages = 0 then Inl (CorruptState ''immutable original PDF contains no pages'')
             else Inr (st\<lparr>st_original_page_count := pages\<rparr>))))"

section \<open>Acknowledging an event\<close>

definition commit :: "'s storage_ops \<Rightarrow> 's \<Rightarrow> conditional_write list \<Rightarrow>
    's \<times> (broker_error + stored_object list)" where
  "commit ops s ws =
     (case bs_commit ops s ws of (s', r) \<Rightarrow> (s', map_err ConditionalWriteFailed r))"

definition marked_state :: "storage_event \<Rightarrow> document_state \<Rightarrow> document_state" where
  "marked_state ev st =
     st\<lparr>st_processed_event_ids := bs_insert (ev_event_id ev) (st_processed_event_ids st),
        st_source_generations :=
          bm_insert (ev_object_path ev) (ev_source_generation ev) (st_source_generations st),
        st_state_revision := st_state_revision st + 1\<rparr>"

definition mark_event_only ::
    "'s storage_ops \<Rightarrow> ext \<Rightarrow> 's \<Rightarrow> document_state \<Rightarrow> string \<Rightarrow> u64 \<Rightarrow> storage_event \<Rightarrow>
       's \<times> (broker_error + unit)" where
  "mark_event_only ops X s st path generation ev =
     attempt s (state_write X path (marked_state ev st) (Match generation)) (\<lambda>w.
     and_then (commit ops s [w]) (\<lambda>s' _. (s', Inr ())))"

section \<open>Facts\<close>

lemma commit_Inr_iff [result_simps]:
  "commit ops s ws = (s', Inr objs) \<longleftrightarrow> bs_commit ops s ws = (s', Inr objs)"
  by (auto simp: commit_def map_err_def split: prod.splits sum.splits)

lemma state_write_ok:
  assumes "state_write X path st pre = Inr w"
  shows "cw_path w = path" and "cw_precondition w = pre"
    and "\<exists>bs. x_state_to_json X st = Inr bs \<and> cw_bytes w = add_newline bs"
  using assms by (auto simp: state_write_def result_simps)

lemma decode_state_schema:
  "decode_state X bs = Inr st \<Longrightarrow> st_schema_version st = state_schema_version"
  by (auto simp: decode_state_def result_simps split: if_splits)

lemma load_state_read:
  "load_state ops X s d = Inr (obj, st) \<longleftrightarrow>
     bs_read ops s (state_path d) = Inr (Some obj) \<and> decode_state X (so_bytes obj) = Inr st"
  by (auto simp: load_state_def result_simps)

lemma destination_precondition_ok:
  "destination_precondition X st path current = Inr pre \<longleftrightarrow>
     (case bm_get (st_generated_views st) path of
        None \<Rightarrow> current = None \<and> pre = DoesNotExist
      | Some previous \<Rightarrow>
          (\<exists>object. current = Some object \<and> hex X (so_bytes object) = gv_content_sha256 previous \<and>
             pre = Match (so_generation object)))"
  by (auto simp: destination_precondition_def Let_def split: option.splits if_splits)

lemma ensure_original_page_count_frame:
  "ensure_original_page_count ops X s st = Inr st' \<Longrightarrow>
     st' = st\<lparr>st_original_page_count := st_original_page_count st'\<rparr> \<and> st_original_page_count st' \<noteq> 0"
  by (auto simp: ensure_original_page_count_def result_simps split: if_splits)

text \<open>The metadata of an output: what each key answers.\<close>

lemma output_metadata_get:
  "bm_get (output_metadata marker hash) generated_by_key = Some (om_producer marker)"
  "bm_get (output_metadata marker hash) generated_event_key = Some (om_event_id marker)"
  "bm_get (output_metadata marker hash) generated_document_key = Some (om_document_id marker)"
  "bm_get (output_metadata marker hash) generated_revisions_key =
     Some (show_u64 (rp_boox (om_source_revisions marker)) @ '':'' @
           show_u64 (rp_supernote (om_source_revisions marker)))"
  "bm_get (output_metadata marker hash) generated_content_hash_key = Some hash"
  by (simp_all add: output_metadata_def bm_of_list_def generated_by_key_def generated_event_key_def
      generated_document_key_def generated_revisions_key_def generated_content_hash_key_def)

end
