(* ===== verification/Broker_Manifest.thy ===== *)
theory Broker_Manifest
  imports Broker_Base
begin

text \<open>
  How device inputs change canonical strokes: \<open>boox_snapshot.rs\<close> (the lossy PDF view of a
  stroke) and, from \<open>broker.rs\<close>, the validation of a compact BOOX manifest,
  \<open>apply_manifest\<close>, \<open>apply_supernote_export\<close> and the baselines written for the converter.
\<close>

section \<open>The PDF view of a stroke\<close>

definition pdf_width_scale :: f64 where "pdf_width_scale = f64_ratio 116806448 100000000"
definition pdf_view_coordinate_epsilon :: f64 where
  "pdf_view_coordinate_epsilon = f64_ratio 1 1000000"

definition projected_pdf_thickness :: "i64 \<Rightarrow> i64" where
  "projected_pdf_thickness t =
     (let width = f64_clamp
                    (f64_mul (f64_div (f64_of_int (sint t)) (f64_of_int 400)) pdf_width_scale)
                    (f64_ratio 25 100) (f64_of_int 12);
          back = f64_round (f64_mul (f64_div width pdf_width_scale) (f64_of_int 400))
      in f64_to_i64 (f64_clamp back (f64_of_int 50) (f64_of_int 4000)))"

definition normalized_supernote_color :: "stroke_snapshot \<Rightarrow> i64" where
  "normalized_supernote_color s = (if pen_color (native_style s) = 0 then 0 else 0x9d)"

fun sample_near :: "sample \<Rightarrow> sample \<Rightarrow> bool" where
  "sample_near (x, y, _) (x', y', _) \<longleftrightarrow>
     f64_le (f64_abs (f64_sub x x')) pdf_view_coordinate_epsilon \<and>
     f64_le (f64_abs (f64_sub y y')) pdf_view_coordinate_epsilon"

definition boox_pdf_view_matches :: "stroke_snapshot \<Rightarrow> stroke_snapshot \<Rightarrow> bool" where
  "boox_pdf_view_matches canonical observed \<longleftrightarrow>
     origin observed = ''pdf-ink'' \<and>
     source_uuid canonical = source_uuid observed \<and>
     page_index canonical = page_index observed \<and>
     layer_num (native_style observed) = 0 \<and>
     pen_type (native_style observed) = 10 \<and>
     thickness (native_style observed) =
       projected_pdf_thickness (thickness (native_style canonical)) \<and>
     pen_color (native_style observed) = normalized_supernote_color canonical \<and>
     list_all2 sample_near (samples canonical) (samples observed)"

definition restore_native_metadata ::
    "stroke_snapshot \<Rightarrow> stroke_snapshot \<Rightarrow> stroke_snapshot \<Rightarrow> stroke_snapshot" where
  "restore_native_metadata canonical observed_before after =
     (let c = native_style canonical; b = native_style observed_before; a = native_style after;
          same_thickness = (thickness a = thickness b);
          style = \<lparr>layer_num = (if layer_num a = layer_num b then layer_num c else layer_num a),
                   thickness = (if same_thickness then thickness c else thickness a),
                   pen_color = (if pen_color a = pen_color b then pen_color c else pen_color a),
                   pen_type = (if pen_type a = pen_type b then pen_type c else pen_type a)\<rparr>;
          ss = (if same_thickness then preserve_pressure_profile (samples canonical) (samples after)
                else samples after)
      in after\<lparr>origin := origin canonical, native_style := style, samples := ss,
               fingerprint := geometry_fingerprint style ss\<rparr>)"

section \<open>Native styles\<close>

definition valid_supernote_native_style :: "native_style \<Rightarrow> bool" where
  "valid_supernote_native_style style \<longleftrightarrow>
     0 \<le> sint (layer_num style) \<and> sint (layer_num style) \<le> 2 ^ 31 - 1 \<and>
     1 \<le> sint (thickness style) \<and> sint (thickness style) \<le> 2 ^ 31 - 1 \<and>
     0 \<le> sint (pen_type style) \<and> sint (pen_type style) \<le> 2 ^ 31 - 1"

definition normalize_supernote_pen_color :: "stroke_snapshot \<Rightarrow> stroke_snapshot" where
  "normalize_supernote_pen_color s =
     (let normalized = (if pen_color (native_style s) = 0 then 0 else 0x9d)
      in if pen_color (native_style s) = normalized then s
         else let style = (native_style s)\<lparr>pen_color := normalized\<rparr>
              in s\<lparr>native_style := style, fingerprint := geometry_fingerprint style (samples s)\<rparr>)"

definition normalize_operation :: "operation \<Rightarrow> operation" where
  "normalize_operation o' =
     (case o' of
        UpsertStroke u p before after \<Rightarrow>
          UpsertStroke u p (map_option normalize_supernote_pen_color before)
            (normalize_supernote_pen_color after)
      | DeleteStroke u p before \<Rightarrow> DeleteStroke u p (normalize_supernote_pen_color before))"

definition refresh_manifest_id :: "ext \<Rightarrow> manifest \<Rightarrow> manifest" where
  "refresh_manifest_id X m =
     m\<lparr>mf_manifest_id :=
         manifest_id_of (hex X) (di_pdf_sha256 (mf_document m)) (mf_operations m) (mf_y_offset m)\<rparr>"

section \<open>Compact BOOX manifests\<close>

definition valid_operation_snapshot ::
    "string \<Rightarrow> u32 \<Rightarrow> usize \<Rightarrow> stroke_snapshot \<Rightarrow> bool" where
  "valid_operation_snapshot uuid page page_count s \<longleftrightarrow>
     \<not> blank uuid \<and> uuid = source_uuid s \<and> page = page_index s \<and>
     page_to_usize page < page_count \<and> 2 \<le> length (samples s) \<and>
     valid_supernote_native_style (native_style s) \<and> list_all valid_sample (samples s) \<and>
     fingerprint s = geometry_fingerprint (native_style s) (samples s)"

definition operation_snapshots :: "operation \<Rightarrow> stroke_snapshot list" where
  "operation_snapshots o' =
     (case o' of
        UpsertStroke _ _ before after \<Rightarrow>
          (case before of None \<Rightarrow> [after] | Some b \<Rightarrow> [b, after])
      | DeleteStroke _ _ before \<Rightarrow> [before])"

definition check_operation :: "usize \<Rightarrow> operation \<Rightarrow> broker_error + unit" where
  "check_operation page_count o' =
     try_each (\<lambda>s. ensure (valid_operation_snapshot (op_uuid o') (op_page o') page_count s)
                     (InvalidEvent ''BOOX operation manifest contains an invalid stroke operation''))
       (operation_snapshots o')"

text \<open>The operations of one stroke: at most one delete and one upsert.\<close>

record compact_operation_set =
  co_delete :: "stroke_snapshot option"
  co_upsert :: "(stroke_snapshot option \<times> stroke_snapshot) option"

definition empty_operation_set :: compact_operation_set where
  "empty_operation_set = \<lparr>co_delete = None, co_upsert = None\<rparr>"

definition operation_set :: "(string, compact_operation_set) bmap \<Rightarrow> string \<Rightarrow> compact_operation_set" where
  "operation_set index uuid =
     (case bm_get index uuid of Some e \<Rightarrow> e | None \<Rightarrow> empty_operation_set)"

fun index_operations ::
    "operation list \<Rightarrow> (string, compact_operation_set) bmap \<Rightarrow>
       broker_error + (string, compact_operation_set) bmap" where
  "index_operations [] index = Inr index"
| "index_operations (DeleteStroke u p before # ops) index =
     (let e = operation_set index u
      in if co_delete e \<noteq> None then
           Inl (InvalidEvent (''BOOX operation manifest contains duplicate deletes for '' @ u))
         else index_operations ops (bm_insert u (e\<lparr>co_delete := Some before\<rparr>) index))"
| "index_operations (UpsertStroke u p before after # ops) index =
     (let e = operation_set index u
      in if co_upsert e \<noteq> None then
           Inl (InvalidEvent (''BOOX operation manifest contains duplicate upserts for '' @ u))
         else index_operations ops (bm_insert u (e\<lparr>co_upsert := Some (before, after)\<rparr>) index))"

definition active_stroke :: "document_state \<Rightarrow> string \<Rightarrow> canonical_stroke option" where
  "active_stroke st uuid =
     (case bm_get (st_strokes st) uuid of
        Some c \<Rightarrow> if cs_tombstone c = None then Some c else None
      | None \<Rightarrow> None)"

definition matches_canonical :: "stroke_snapshot option \<Rightarrow> stroke_snapshot \<Rightarrow> bool" where
  "matches_canonical canonical observed =
     (case canonical of
        None \<Rightarrow> False
      | Some c \<Rightarrow> snapshot_eq c observed \<or> boox_pdf_view_matches c observed)"

definition valid_operation_set ::
    "document_state \<Rightarrow> string \<Rightarrow> compact_operation_set \<Rightarrow> bool" where
  "valid_operation_set st uuid e =
     (let active = active_stroke st uuid;
          canonical = map_option (normalize_supernote_pen_color \<circ> cs_snapshot) active
      in case (co_delete e, co_upsert e, active) of
           (Some deleted, None, Some _) \<Rightarrow> matches_canonical canonical deleted
         | (None, Some (Some before, after), Some c) \<Rightarrow>
             matches_canonical canonical before \<and> page_index after = page_index (cs_snapshot c)
         | (None, Some (None, _), None) \<Rightarrow> \<not> bm_has (st_strokes st) uuid
         | (Some deleted, Some (None, after), Some c) \<Rightarrow>
             matches_canonical canonical deleted \<and> page_index after \<noteq> page_index (cs_snapshot c)
         | _ \<Rightarrow> False)"

definition observed_before :: "compact_operation_set \<Rightarrow> stroke_snapshot option" where
  "observed_before e =
     (case co_delete e of
        Some d \<Rightarrow> Some d
      | None \<Rightarrow> (case co_upsert e of Some (before, _) \<Rightarrow> before | None \<Rightarrow> None))"

text \<open>The loop over the operation index, in the order the \<open>HashMap\<close> yields.\<close>

fun project_baselines ::
    "document_state \<Rightarrow> (string, compact_operation_set) bmap \<Rightarrow> string list \<Rightarrow>
       (string, stroke_snapshot) bmap \<Rightarrow> broker_error + (string, stroke_snapshot) bmap" where
  "project_baselines st index [] projected = Inr projected"
| "project_baselines st index (u # us) projected =
     (let e = operation_set index u;
          canonical = map_option (normalize_supernote_pen_color \<circ> cs_snapshot) (active_stroke st u)
      in if \<not> valid_operation_set st u e then
           Inl (InvalidEvent
             (''BOOX operation manifest does not match active canonical stroke '' @ u))
         else project_baselines st index us
                (case (canonical, observed_before e) of
                   (Some c, Some observed) \<Rightarrow>
                     if boox_pdf_view_matches c observed then bm_insert u observed projected
                     else projected
                 | _ \<Rightarrow> projected))"

definition restore_operation ::
    "document_state \<Rightarrow> (string, stroke_snapshot) bmap \<Rightarrow> operation \<Rightarrow> operation" where
  "restore_operation st projected o' =
     (case o' of
        UpsertStroke u p before after \<Rightarrow>
          (case (bm_get projected u, active_stroke st u) of
             (Some observed, Some c) \<Rightarrow>
               UpsertStroke u p before
                 (restore_native_metadata (normalize_supernote_pen_color (cs_snapshot c)) observed
                    after)
           | _ \<Rightarrow> o')
      | DeleteStroke _ _ _ \<Rightarrow> o')"

definition supernote_file_name :: "document_state \<Rightarrow> string" where
  "supernote_file_name st =
     (case dr_source_file_name (st_supernote st) of
        Some n \<Rightarrow> n
      | None \<Rightarrow> st_original_file_name st)"

definition check_manifest_header ::
    "document_state \<Rightarrow> manifest \<Rightarrow> broker_error + unit" where
  "check_manifest_header st m =
     (if mf_schema_version m \<noteq> 1 \<or> blank (mf_manifest_id m) \<or>
         mf_source m \<noteq> ''boox-neoreader-embedded-pdf''
      then Inl (InvalidEvent ''BOOX operation manifest has an unsupported schema or source'')
      else if st_original_page_count st \<noteq> 0 \<and>
              di_page_count (mf_document m) \<noteq> st_original_page_count st
      then Inl (InvalidEvent
        (''BOOX operation manifest page count '' @ show_u64 (di_page_count (mf_document m)) @
         '' does not match original page count '' @ show_u64 (st_original_page_count st)))
      else Inr ())"

definition validate_boox_manifest ::
    "ext \<Rightarrow> f64 \<Rightarrow> document_state \<Rightarrow> bytes \<Rightarrow> broker_error + manifest" where
  "validate_boox_manifest X y_offset st bs =
     rbind (map_err (\<lambda>e. InvalidEvent (''BOOX operation manifest is invalid JSON: '' @ e))
              (x_manifest_of_json X bs)) (\<lambda>m0.
     rbind (check_manifest_header st m0) (\<lambda>_.
       let m1 = refresh_manifest_id X (m0\<lparr>mf_y_offset := y_offset\<rparr>);
           m2 = m1\<lparr>mf_document :=
                     (mf_document m1)\<lparr>di_target_file_names := [supernote_file_name st]\<rparr>\<rparr>
       in rbind (try_each (check_operation (di_page_count (mf_document m2))) (mf_operations m2))
            (\<lambda>_.
          let operations = map normalize_operation (mf_operations m2)
          in rbind (index_operations operations []) (\<lambda>index.
             rbind (project_baselines st index (x_hash_order X (bm_keys index)) [])
               (\<lambda>projected.
                  Inr (m2\<lparr>mf_operations := map (restore_operation st projected) operations\<rparr>))))))"

section \<open>Applying a manifest\<close>

definition next_revisions :: "storage_event \<Rightarrow> revision_pair" where
  "next_revisions ev = rp_set (ev_source ev) (ev_source_revision ev) (ev_based_on ev)"

definition event_tombstone :: "storage_event \<Rightarrow> tombstone" where
  "event_tombstone ev =
     \<lparr>tb_deleted_by = ev_source ev, tb_deleted_at_revision = ev_source_revision ev,
      tb_event_id = ev_event_id ev\<rparr>"

definition tombstone_stroke :: "storage_event \<Rightarrow> canonical_stroke \<Rightarrow> canonical_stroke" where
  "tombstone_stroke ev c =
     c\<lparr>cs_last_modified_by := ev_source ev, cs_source_revisions := next_revisions ev,
       cs_tombstone := Some (event_tombstone ev)\<rparr>"

definition written_stroke :: "storage_event \<Rightarrow> string \<Rightarrow> stroke_snapshot \<Rightarrow> canonical_stroke" where
  "written_stroke ev uuid snapshot =
     \<lparr>cs_stroke_id = uuid, cs_snapshot = snapshot, cs_last_modified_by = ev_source ev,
      cs_source_revisions = next_revisions ev, cs_tombstone = None\<rparr>"

definition upserted_ids :: "operation list \<Rightarrow> string list" where
  "upserted_ids ops = map op_uuid (filter is_upsert ops)"

definition apply_delete ::
    "storage_event \<Rightarrow> string list \<Rightarrow> operation \<Rightarrow>
       (string, canonical_stroke) bmap \<Rightarrow> (string, canonical_stroke) bmap" where
  "apply_delete ev upserted o' strokes =
     (case o' of
        UpsertStroke _ _ _ _ \<Rightarrow> strokes
      | DeleteStroke u _ before \<Rightarrow>
          if u \<in> set upserted then strokes
          else let c = (case bm_get strokes u of
                          Some c \<Rightarrow> c
                        | None \<Rightarrow> written_stroke ev u before)
               in bm_insert u (tombstone_stroke ev c) strokes)"

definition apply_upsert ::
    "storage_event \<Rightarrow> operation \<Rightarrow>
       (string, canonical_stroke) bmap \<Rightarrow> (string, canonical_stroke) bmap" where
  "apply_upsert ev o' strokes =
     (case o' of
        UpsertStroke u _ _ after \<Rightarrow> bm_insert u (written_stroke ev u after) strokes
      | DeleteStroke _ _ _ \<Rightarrow> strokes)"

definition apply_manifest :: "storage_event \<Rightarrow> manifest \<Rightarrow> document_state \<Rightarrow> document_state" where
  "apply_manifest ev m st =
     (let ops = mf_operations m;
          deleted = fold (apply_delete ev (upserted_ids ops)) ops (st_strokes st)
      in st\<lparr>st_strokes := fold (apply_upsert ev) ops deleted\<rparr>)"

section \<open>Applying a Supernote export\<close>

definition validate_supernote_export ::
    "document_state \<Rightarrow> storage_event \<Rightarrow> baseline_export \<Rightarrow> broker_error + unit" where
  "validate_supernote_export st ev ex =
     (if (case be_document_id ex of None \<Rightarrow> False | Some d \<Rightarrow> d \<noteq> st_document_id st) then
        Inl (InvalidEvent (''Supernote export documentId does not match '' @ st_document_id st))
      else if (case be_based_on ex of
                 None \<Rightarrow> False
               | Some b \<Rightarrow> br_boox b \<noteq> rp_boox (ev_based_on ev) \<or>
                           br_supernote b \<noteq> rp_supernote (ev_based_on ev)) then
        Inl (InvalidEvent ''Supernote export basedOn does not match its storage event'')
      else case find (\<lambda>p. st_original_page_count st \<le> page_to_usize (bp_page_index p))
                  (be_pages ex) of
             Some p \<Rightarrow>
               Inl (InvalidEvent
                 (''Supernote export references page '' @ show_u32 (bp_page_index p + 1) @
                  '', but the immutable original has '' @ show_u64 (st_original_page_count st) @
                  '' pages''))
           | None \<Rightarrow> Inr ())"

definition tombstone_missing ::
    "storage_event \<Rightarrow> u32 list \<Rightarrow> string list \<Rightarrow> canonical_stroke \<Rightarrow> canonical_stroke" where
  "tombstone_missing ev affected_pages incoming_ids c =
     (if page_index (cs_snapshot c) \<in> set affected_pages \<and> cs_tombstone c = None \<and>
         cs_stroke_id c \<notin> set incoming_ids
      then tombstone_stroke ev c else c)"

definition apply_supernote_export ::
    "ext \<Rightarrow> storage_event \<Rightarrow> bytes \<Rightarrow> document_state \<Rightarrow> broker_error + document_state" where
  "apply_supernote_export X ev bs st =
     rbind (map_err Conversion (parse_baseline_bytes (x_envelope_of_json X) bs (ev_object_path ev)))
       (\<lambda>ex.
     rbind (validate_supernote_export st ev ex) (\<lambda>_.
       let st1 = (case be_source_file_name ex of
                    Some n \<Rightarrow> update_device Supernote (\<lambda>d. d\<lparr>dr_source_file_name := Some n\<rparr>) st
                  | None \<Rightarrow> st);
           affected_pages = map bp_page_index (be_pages ex);
           incoming_ids = map source_uuid (export_strokes ex);
           kept = bm_map_values (tombstone_missing ev affected_pages incoming_ids) (st_strokes st1)
       in Inr (st1\<lparr>st_strokes :=
            fold (\<lambda>s. bm_insert (source_uuid s) (written_stroke ev (source_uuid s) s))
              (export_strokes ex) kept\<rparr>)))"

section \<open>Baselines for the converter\<close>

text \<open>The temporary directory is an association list from file name to bytes.\<close>

type_synonym files = "(string \<times> bytes) list"

definition write_file :: "string \<Rightarrow> bytes \<Rightarrow> files \<Rightarrow> files" where
  "write_file path bs fs = (path, bs) # filter (\<lambda>f. fst f \<noteq> path) fs"

definition exported_stroke :: "stroke_snapshot \<Rightarrow> export_stroke" where
  "exported_stroke s =
     \<lparr>es_source_uuid = Some (source_uuid s), es_source_key = source_uuid s,
      es_layer_num = layer_num (native_style s), es_thickness = thickness (native_style s),
      es_pen_color = pen_color (native_style s), es_pen_type = pen_type (native_style s),
      es_samples = samples s\<rparr>"

definition baseline_envelope :: "string \<Rightarrow> u32 \<Rightarrow> stroke_snapshot list \<Rightarrow> export_envelope" where
  "baseline_envelope name page ss =
     \<lparr>ee_schema_version = None, ee_source_file_name = Some name, ee_document_id = None,
      ee_based_on = None, ee_page_index = Some page, ee_strokes = Some (map exported_stroke ss),
      ee_pages = None\<rparr>"

definition baseline_file_name :: "u32 \<Rightarrow> string" where
  "baseline_file_name page = ''baseline-page-'' @ show_u32 page @ ''.json''"

definition write_baseline_page ::
    "ext \<Rightarrow> string \<Rightarrow> u32 \<Rightarrow> stroke_snapshot list \<Rightarrow> files \<Rightarrow> broker_error + files" where
  "write_baseline_page X name page ss fs =
     rbind (map_err Conversion (x_envelope_to_json X (baseline_envelope name page ss))) (\<lambda>bs.
       Inr (write_file (baseline_file_name page) bs fs))"

definition active_strokes :: "document_state \<Rightarrow> stroke_snapshot list" where
  "active_strokes st =
     map cs_snapshot (filter (\<lambda>c. cs_tombstone c = None) (bm_values (st_strokes st)))"

definition tombstone_ids :: "document_state \<Rightarrow> string list" where
  "tombstone_ids st =
     map cs_stroke_id (filter (\<lambda>c. cs_tombstone c \<noteq> None) (bm_values (st_strokes st)))"

definition add_to_page ::
    "stroke_snapshot \<Rightarrow> (u32, stroke_snapshot list) bmap \<Rightarrow> (u32, stroke_snapshot list) bmap" where
  "add_to_page s pages =
     bm_insert (page_index s)
       ((case bm_get pages (page_index s) of Some l \<Rightarrow> l | None \<Rightarrow> []) @ [s]) pages"

fun write_pages ::
    "ext \<Rightarrow> string \<Rightarrow> (u32 \<times> stroke_snapshot list) list \<Rightarrow> files \<Rightarrow>
       broker_error + string list \<times> files" where
  "write_pages X name [] fs = Inr ([], fs)"
| "write_pages X name ((page, ss) # ps) fs =
     rbind (write_baseline_page X name page ss fs) (\<lambda>fs'.
     rbind (write_pages X name ps fs') (\<lambda>(paths, fs'').
       Inr (baseline_file_name page # paths, fs'')))"

definition write_baselines ::
    "ext \<Rightarrow> document_state \<Rightarrow> files \<Rightarrow> broker_error + string list \<times> files" where
  "write_baselines X st fs =
     (let grouped = fold add_to_page (active_strokes st) [];
          pages = (if grouped = [] then [(0, [])] else grouped)
      in write_pages X (supernote_file_name st)
           (map (\<lambda>(p, ss). (p, sort_key source_uuid ss)) pages) fs)"

definition write_baseline_export_pages ::
    "ext \<Rightarrow> string \<Rightarrow> baseline_page list \<Rightarrow> files \<Rightarrow> broker_error + string list \<times> files" where
  "write_baseline_export_pages X name pages fs =
     write_pages X name (map (\<lambda>p. (bp_page_index p, bp_strokes p)) pages) fs"

definition read_files :: "files \<Rightarrow> string list \<Rightarrow> (string \<times> bytes) list" where
  "read_files fs paths = map (\<lambda>p. (p, the (map_of fs p))) paths"

definition convert_pdf ::
    "ext \<Rightarrow> f64 \<Rightarrow> string \<Rightarrow> bytes \<Rightarrow> string list \<times> files \<Rightarrow> broker_error + manifest" where
  "convert_pdf X y_offset pdf_path pdf baselines =
     map_err Conversion
       (build_manifest (hex X) (x_envelope_of_json X) (x_extract_strokes X) pdf_path pdf
          (read_files (snd baselines) (fst baselines)) y_offset)"

definition boox_to_supernote ::
    "ext \<Rightarrow> f64 \<Rightarrow> document_state \<Rightarrow> storage_event \<Rightarrow> bytes \<Rightarrow> broker_error + manifest" where
  "boox_to_supernote X y_offset st ev pdf =
     rbind (write_baselines X st []) (\<lambda>baselines.
       convert_pdf X y_offset
         (case path_file_name (ev_object_path ev) of Some n \<Rightarrow> n | None \<Rightarrow> ''document.pdf'')
         pdf baselines)"

end
