(* ===== verification/Broker_Process.thy ===== *)
theory Broker_Process
  imports Broker_Manifest
begin

text \<open>
  The handlers of \<open>inkbridge-broker/src/broker.rs\<close>: \<open>register_document\<close>,
  \<open>process\<close> and \<open>preserve_conflict\<close>, over any storage with the operations of
  \<open>BrokerStorage\<close>.  \<open>process\<close> is split at the points where its body returns: envelope and
  state checks, the missing source generation, the loop guard, the revision checks, the
  device output and the commit.
\<close>

section \<open>Registration\<close>

definition initial_state :: "ext \<Rightarrow> string \<Rightarrow> bytes \<Rightarrow> usize \<Rightarrow> document_state" where
  "initial_state X name original pages =
     (let document_id = stable_document_id (x_sha X) original
      in \<lparr>st_schema_version = state_schema_version, st_document_id = document_id,
          st_original_object_path = original_path document_id,
          st_original_pdf_sha256 = hex X original, st_original_file_name = name,
          st_original_page_count = pages, st_state_revision = 0,
          st_boox = default_device_revision, st_supernote = default_device_revision,
          st_last_common_revisions = default_revisions, st_processed_event_ids = [],
          st_strokes = [], st_source_generations = [], st_generated_views = [],
          st_conflicts = [], st_resolved_conflicts = []\<rparr>)"

definition original_write :: "ext \<Rightarrow> string \<Rightarrow> bytes \<Rightarrow> conditional_write" where
  "original_write X document_id original =
     \<lparr>cw_path = original_path document_id, cw_bytes = original,
      cw_metadata = bm_of_list [(''inkbridge-kind'', ''immutable-original''),
                                (generated_document_key, document_id)],
      cw_precondition = DoesNotExist\<rparr>"

definition register_document ::
    "'s storage_ops \<Rightarrow> ext \<Rightarrow> 's \<Rightarrow> string \<Rightarrow> bytes \<Rightarrow> 's \<times> (broker_error + document_state)" where
  "register_document ops X s name original =
     (if blank name then (s, Inl (InvalidEvent ''original file name must not be empty''))
      else attempt s (validate_original_pdf X original) (\<lambda>pages.
        let document_id = stable_document_id (x_sha X) original;
            path = state_path document_id
        in attempt s (map_err StorageError (bs_read ops s path)) (\<lambda>found.
           case found of
             Some existing \<Rightarrow>
               attempt s (decode_state X (so_bytes existing)) (\<lambda>st.
                 if st_original_pdf_sha256 st \<noteq> hex X original then
                   (s, Inl (InvalidEvent
                     ''document id collision with a different immutable original''))
                 else if st_original_page_count st = 0 then
                   let st' = st\<lparr>st_original_page_count := pages\<rparr>
                   in attempt s (state_write X path st' (Match (so_generation existing))) (\<lambda>w.
                      and_then (commit ops s [w]) (\<lambda>s' _. (s', Inr st')))
                 else (s, Inr st))
           | None \<Rightarrow>
               let st = initial_state X name original pages
               in attempt s (state_write X path st DoesNotExist) (\<lambda>w.
                  and_then (commit ops s [original_write X document_id original, w])
                    (\<lambda>s' _. (s', Inr st))))))"

section \<open>Conflicts\<close>

definition extension_or_bin :: "string \<Rightarrow> string" where
  "extension_or_bin path = (case path_extension path of Some e \<Rightarrow> e | None \<Rightarrow> ''bin'')"

definition side_name :: "device_side \<Rightarrow> string" where
  "side_name s = (case s of Boox \<Rightarrow> ''boox'' | Supernote \<Rightarrow> ''supernote'')"

definition conflict_directory :: "ext \<Rightarrow> string \<Rightarrow> string \<Rightarrow> string" where
  "conflict_directory X document_id event_id =
     ''Conflicts/'' @ document_id @ ''/'' @ event_path_segment (x_sha X) event_id @ ''/''"

definition conflict_input_path :: "ext \<Rightarrow> storage_event \<Rightarrow> string" where
  "conflict_input_path X ev =
     conflict_directory X (ev_document_id ev) (ev_event_id ev) @ ''incoming.'' @
     extension_or_bin (ev_object_path ev)"

definition conflict_write :: "string \<Rightarrow> bytes \<Rightarrow> string \<Rightarrow> storage_event \<Rightarrow> conditional_write" where
  "conflict_write path bs kind ev =
     \<lparr>cw_path = path, cw_bytes = bs,
      cw_metadata = bm_of_list [(''inkbridge-kind'', kind),
                                (generated_document_key, ev_document_id ev),
                                (generated_event_key, ev_event_id ev)],
      cw_precondition = DoesNotExist\<rparr>"

text \<open>The competing input of one side, if its device moved past the event's base.\<close>

definition competing_write ::
    "'s storage_ops \<Rightarrow> ext \<Rightarrow> 's \<Rightarrow> document_state \<Rightarrow> storage_event \<Rightarrow> device_side \<Rightarrow>
       broker_error + conditional_write list" where
  "competing_write ops X s st ev side =
     (let d = device st side
      in if dr_revision d \<le> rp_get (ev_based_on ev) side \<or> dr_source_object_path d = [] then Inr []
         else let legacy = (dr_accepted_object_path d \<noteq> []);
                  evidence_path =
                    (if legacy then dr_accepted_object_path d else dr_source_object_path d);
                  found = (if legacy then bs_read ops s evidence_path
                           else bs_read_generation ops s evidence_path (dr_source_generation d))
              in rbind (map_err StorageError found) (\<lambda>object.
                 rbind (ok_or (MissingObject evidence_path) object) (\<lambda>current_input.
                   let evidence_hash = hex X (so_bytes current_input)
                   in if evidence_hash \<noteq> dr_content_sha256 d then
                        Inl (CorruptState
                          (''accepted '' @ show_side side @
                           '' source evidence hash changed: expected '' @ dr_content_sha256 d @
                           '', found '' @ evidence_hash))
                      else Inr [conflict_write
                        (conflict_directory X (ev_document_id ev) (ev_event_id ev) @ ''current-'' @
                         side_name side @ ''.'' @ extension_or_bin evidence_path)
                        (so_bytes current_input) ''conflict-competing-input'' ev])))"

definition preserved_input_of :: "string \<Rightarrow> string list \<Rightarrow> document_state \<Rightarrow> storage_event \<Rightarrow> preserved_input" where
  "preserved_input_of path competing st ev =
     \<lparr>pi_event_id = ev_event_id ev, pi_source = ev_source ev, pi_object_path = ev_object_path ev,
      pi_payload_kind = ev_payload_kind ev, pi_preserved_path = path,
      pi_competing_preserved_paths = competing,
      pi_source_generation = ev_source_generation ev, pi_source_revision = ev_source_revision ev,
      pi_content_sha256 = ev_content_sha256 ev, pi_based_on = ev_based_on ev,
      pi_current_revisions = revisions st\<rparr>"

definition conflicted_state :: "string \<Rightarrow> string list \<Rightarrow> storage_event \<Rightarrow> document_state \<Rightarrow> document_state" where
  "conflicted_state path competing ev st =
     st\<lparr>st_conflicts := st_conflicts st @ [preserved_input_of path competing st ev],
        st_processed_event_ids := bs_insert (ev_event_id ev) (st_processed_event_ids st),
        st_state_revision := st_state_revision st + 1\<rparr>"

definition preserve_conflict ::
    "'s storage_ops \<Rightarrow> ext \<Rightarrow> 's \<Rightarrow> document_state \<Rightarrow> u64 \<Rightarrow> storage_event \<Rightarrow> bytes \<Rightarrow>
       's \<times> (broker_error + process_outcome)" where
  "preserve_conflict ops X s st generation ev input =
     (let path = conflict_input_path X ev;
          incoming = conflict_write path input ''conflict-input'' ev
      in attempt s (try_map (competing_write ops X s st ev) [Boox, Supernote]) (\<lambda>competing.
         let writes = concat competing;
             st' = conflicted_state path (map cw_path writes) ev st
         in attempt s (state_write X (state_path (ev_document_id ev)) st' (Match generation)) (\<lambda>w.
            and_then (commit ops s (incoming # writes @ [w])) (\<lambda>s' _.
              (s', Inr (Conflict (ev_document_id ev) (ev_event_id ev) path (revisions st)
                          (ev_based_on ev)))))))"

section \<open>Processing\<close>

definition validate_event :: "storage_event \<Rightarrow> broker_error + unit" where
  "validate_event ev =
     (if ev_schema_version ev \<noteq> event_schema_version then
        Inl (InvalidEvent (''unsupported event schema version '' @ show_u32 (ev_schema_version ev)))
      else if blank (ev_event_id ev) \<or> blank (ev_document_id ev) \<or> blank (ev_object_path ev) then
        Inl (InvalidEvent ''event id, document id, and object path are required'')
      else Inr ())"

definition is_broker_output ::
    "storage_event \<Rightarrow> (string, string) bmap \<Rightarrow> string \<Rightarrow> bool" where
  "is_broker_output ev metadata content_sha256 \<longleftrightarrow>
     bm_get metadata generated_by_key = Some broker_producer \<and>
     bm_get metadata generated_document_key = Some (ev_document_id ev) \<and>
     bm_get metadata generated_content_hash_key = Some content_sha256 \<and>
     (case ev_broker_output ev of
        None \<Rightarrow> False
      | Some marker \<Rightarrow>
          om_producer marker = broker_producer \<and> om_document_id marker = ev_document_id ev \<and>
          bm_get metadata generated_event_key = Some (om_event_id marker))"

definition follows_preserved_predecessor :: "document_state \<Rightarrow> storage_event \<Rightarrow> u64 \<Rightarrow> bool" where
  "follows_preserved_predecessor st ev expected_next \<longleftrightarrow>
     expected_next < ev_source_revision ev \<and>
     (case checked_sub (ev_source_revision ev) 1 of
        None \<Rightarrow> False
      | Some predecessor \<Rightarrow>
          rp_get (ev_based_on ev) (ev_source ev) = predecessor \<and>
          list_ex (\<lambda>c. pi_source c = ev_source ev \<and> pi_source_revision c = predecessor)
            (st_conflicts st))"

text \<open>The output for the other device: state, destination path, bytes, BOOX file name.\<close>

definition boox_output ::
    "ext \<Rightarrow> f64 \<Rightarrow> document_state \<Rightarrow> storage_event \<Rightarrow> bytes \<Rightarrow>
       broker_error + document_state \<times> string \<times> bytes \<times> string option" where
  "boox_output X y_offset st ev input =
     rbind (case ev_payload_kind ev of
              DeviceView \<Rightarrow> boox_to_supernote X y_offset st ev input
            | BooxOperationManifest \<Rightarrow> validate_boox_manifest X y_offset st input) (\<lambda>m.
     rbind (map_err Conversion (x_manifest_to_json X m)) (\<lambda>bs.
       Inr (apply_manifest ev m st,
            supernote_manifest_path (x_sha X) (ev_document_id ev) (ev_event_id ev),
            add_newline bs, Some (di_source_file_name (mf_document m)))))"

definition supernote_output ::
    "'s storage_ops \<Rightarrow> ext \<Rightarrow> 's \<Rightarrow> document_state \<Rightarrow> storage_event \<Rightarrow> bytes \<Rightarrow>
       broker_error + document_state \<times> string \<times> bytes \<times> string option" where
  "supernote_output ops X s st ev input =
     rbind (apply_supernote_export X ev input st) (\<lambda>st'.
     rbind (read_original ops X s st') (\<lambda>original.
     rbind (map_err Conversion
              (x_write_boox_view X (so_bytes original) (active_strokes st') (tombstone_ids st')))
       (\<lambda>pdf. Inr (st', boox_view_path st', pdf, None))))"

definition device_output ::
    "'s storage_ops \<Rightarrow> ext \<Rightarrow> f64 \<Rightarrow> 's \<Rightarrow> document_state \<Rightarrow> storage_event \<Rightarrow> bytes \<Rightarrow>
       broker_error + document_state \<times> string \<times> bytes \<times> string option" where
  "device_output ops X y_offset s st ev input =
     (case ev_source ev of
        Boox \<Rightarrow> boox_output X y_offset st ev input
      | Supernote \<Rightarrow> supernote_output ops X s st ev input)"

text \<open>The bookkeeping of an accepted input.\<close>

definition accept_device_revision ::
    "storage_event \<Rightarrow> string option \<Rightarrow> device_revision \<Rightarrow> device_revision" where
  "accept_device_revision ev boox_file_name d =
     d\<lparr>dr_revision := ev_source_revision ev, dr_content_sha256 := ev_content_sha256 ev,
       dr_source_generation := ev_source_generation ev,
       dr_source_object_path := ev_object_path ev, dr_accepted_object_path := [],
       dr_source_file_name :=
         (if ev_source ev = Boox then boox_file_name else dr_source_file_name d)\<rparr>"

definition consume_view ::
    "storage_event \<Rightarrow> revision_pair \<Rightarrow> (string, generated_view) bmap \<Rightarrow> (string, generated_view) bmap" where
  "consume_view ev revs views =
     (case bm_get views (ev_object_path ev) of
        None \<Rightarrow> views
      | Some v \<Rightarrow>
          bm_insert (ev_object_path ev)
            (v\<lparr>gv_content_sha256 := ev_content_sha256 ev, gv_source_revisions := revs,
               gv_event_id := ev_event_id ev\<rparr>) views)"

definition accept_input :: "storage_event \<Rightarrow> string option \<Rightarrow> document_state \<Rightarrow> document_state" where
  "accept_input ev boox_file_name st =
     (let st1 = update_device (ev_source ev) (accept_device_revision ev boox_file_name) st;
          revs = revisions st1
      in st1\<lparr>st_last_common_revisions := revs,
             st_source_generations :=
               bm_insert (ev_object_path ev) (ev_source_generation ev) (st_source_generations st1),
             st_generated_views := consume_view ev revs (st_generated_views st1),
             st_processed_event_ids := bs_insert (ev_event_id ev) (st_processed_event_ids st1),
             st_state_revision := st_state_revision st1 + 1\<rparr>)"

definition output_marker_of :: "storage_event \<Rightarrow> revision_pair \<Rightarrow> output_marker" where
  "output_marker_of ev revs =
     \<lparr>om_producer = broker_producer, om_event_id = ev_event_id ev,
      om_document_id = ev_document_id ev, om_source_revisions = revs\<rparr>"

definition record_view ::
    "string \<Rightarrow> string \<Rightarrow> string \<Rightarrow> revision_pair \<Rightarrow> document_state \<Rightarrow> document_state" where
  "record_view path hash event_id revs st =
     st\<lparr>st_generated_views :=
          bm_insert path \<lparr>gv_object_path = path, gv_content_sha256 = hash,
                          gv_source_revisions = revs, gv_event_id = event_id\<rparr>
            (st_generated_views st)\<rparr>"

definition commit_output ::
    "'s storage_ops \<Rightarrow> ext \<Rightarrow> 's \<Rightarrow> u64 \<Rightarrow> storage_event \<Rightarrow>
       document_state \<times> string \<times> bytes \<times> string option \<Rightarrow> 's \<times> (broker_error + process_outcome)" where
  "commit_output ops X s generation ev out =
     (case out of (st, path, output_bytes, boox_file_name) \<Rightarrow>
        let accepted = accept_input ev boox_file_name st;
            revs = revisions accepted;
            output_hash = hex X output_bytes
        in attempt s (map_err StorageError (bs_read ops s path)) (\<lambda>destination.
           attempt s (destination_precondition X accepted path destination) (\<lambda>pre.
             let final = record_view path output_hash (ev_event_id ev) revs accepted;
                 output = \<lparr>cw_path = path, cw_bytes = output_bytes,
                           cw_metadata = output_metadata (output_marker_of ev revs) output_hash,
                           cw_precondition = pre\<rparr>
             in attempt s (state_write X (state_path (ev_document_id ev)) final (Match generation))
                  (\<lambda>w.
                and_then (commit ops s [output, w]) (\<lambda>s' objs.
                  (s', Inr (Applied (ev_document_id ev) (ev_event_id ev) path
                              (so_generation (objs ! 0)) revs)))))))"

text \<open>From the comparison of the two bases on.\<close>

definition apply_or_preserve ::
    "'s storage_ops \<Rightarrow> ext \<Rightarrow> f64 \<Rightarrow> 's \<Rightarrow> document_state \<Rightarrow> u64 \<Rightarrow> storage_event \<Rightarrow> bytes \<Rightarrow>
       's \<times> (broker_error + process_outcome)" where
  "apply_or_preserve ops X y_offset s st generation ev input =
     (if ev_based_on ev \<noteq> revisions st then
        preserve_conflict ops X s st generation ev input
      else attempt s
        (if ev_payload_kind ev = BooxOperationManifest \<or> ev_source ev = Supernote
         then ensure_original_page_count ops X s st else Inr st) (\<lambda>st'.
        attempt s (device_output ops X y_offset s st' ev input)
          (commit_output ops X s generation ev)))"

text \<open>From the revision checks on: the event carries the actual content hash.\<close>

definition process_input ::
    "'s storage_ops \<Rightarrow> ext \<Rightarrow> f64 \<Rightarrow> 's \<Rightarrow> document_state \<Rightarrow> u64 \<Rightarrow> storage_event \<Rightarrow> bytes \<Rightarrow>
       's \<times> (broker_error + process_outcome)" where
  "process_input ops X y_offset s st generation ev input =
     (let current = revisions st;
          base = rp_get (ev_based_on ev) (ev_source ev);
          source_state = device st (ev_source ev)
      in if ev_source_revision ev \<le> base then
           (s, Inl (InvalidEvent
             (''source revision '' @ show_u64 (ev_source_revision ev) @
              '' must be newer than based-on revision '' @ show_u64 base)))
         else if ev_source_revision ev \<le> dr_revision source_state then
           (if ev_content_sha256 ev \<noteq> dr_content_sha256 source_state then
              preserve_conflict ops X s st generation ev input
            else and_then
              (mark_event_only ops X s st (state_path (ev_document_id ev)) generation ev)
              (\<lambda>s' _. (s', Inr (IgnoredStaleSource (ev_document_id ev) (ev_event_id ev)))))
         else attempt s
           (ok_or (InvalidEvent ''source revision overflow'')
              (checked_add (rp_get current (ev_source ev)) 1)) (\<lambda>expected_next.
             if ev_source_revision ev \<noteq> expected_next \<and>
                \<not> follows_preserved_predecessor st ev expected_next
             then (s, Inl (InvalidEvent
               (''source revision '' @ show_u64 (ev_source_revision ev) @
                '' must immediately follow current revision '' @
                show_u64 (rp_get current (ev_source ev)) @ '' or a preserved predecessor conflict'')))
             else apply_or_preserve ops X y_offset s st generation ev input))"

definition effective_event :: "ext \<Rightarrow> storage_event \<Rightarrow> stored_object \<Rightarrow> storage_event" where
  "effective_event X ev src = ev\<lparr>ev_content_sha256 := hex X (so_bytes src)\<rparr>"

definition process_source ::
    "'s storage_ops \<Rightarrow> ext \<Rightarrow> f64 \<Rightarrow> 's \<Rightarrow> document_state \<Rightarrow> u64 \<Rightarrow> storage_event \<Rightarrow>
       stored_object \<Rightarrow> 's \<times> (broker_error + process_outcome)" where
  "process_source ops X y_offset s st generation ev src =
     (let actual_hash = hex X (so_bytes src); ev' = effective_event X ev src
      in if ev_content_sha256 ev \<noteq> [] \<and> actual_hash \<noteq> ev_content_sha256 ev then
           (s, Inl (InvalidEvent
             (''source content hash mismatch: event='' @ ev_content_sha256 ev @ '', actual='' @
              actual_hash)))
         else if is_broker_output ev' (so_metadata src) actual_hash then
           and_then (mark_event_only ops X s st (state_path (ev_document_id ev)) generation ev')
             (\<lambda>s' _. (s', Inr (IgnoredBrokerOutput (ev_document_id ev) (ev_event_id ev))))
         else process_input ops X y_offset s st generation ev' (so_bytes src))"

definition process_missing_source ::
    "'s storage_ops \<Rightarrow> ext \<Rightarrow> 's \<Rightarrow> document_state \<Rightarrow> u64 \<Rightarrow> storage_event \<Rightarrow>
       's \<times> (broker_error + process_outcome)" where
  "process_missing_source ops X s st generation ev =
     attempt s (map_err StorageError (bs_read ops s (ev_object_path ev))) (\<lambda>latest.
       if (case latest of None \<Rightarrow> False | Some l \<Rightarrow> ev_source_generation ev < so_generation l) then
         and_then (mark_event_only ops X s st (state_path (ev_document_id ev)) generation ev)
           (\<lambda>s' _. (s', Inr (IgnoredStaleSource (ev_document_id ev) (ev_event_id ev))))
       else (s, Inl (MissingObject
         (''source generation '' @ ev_object_path ev @ ''@'' @
          show_u64 (ev_source_generation ev) @ '' does not exist''))))"

definition process ::
    "'s storage_ops \<Rightarrow> ext \<Rightarrow> f64 \<Rightarrow> 's \<Rightarrow> storage_event \<Rightarrow> 's \<times> (broker_error + process_outcome)" where
  "process ops X y_offset s ev =
     attempt s (validate_event ev) (\<lambda>_.
     attempt s (load_state ops X s (ev_document_id ev)) (\<lambda>(object, st).
       if st_document_id st \<noteq> ev_document_id ev then
         (s, Inl (CorruptState ''state path contains a different document id''))
       else if ev_event_id ev \<in> set (st_processed_event_ids st) then
         (s, Inr (Duplicate (ev_document_id ev) (ev_event_id ev)))
       else attempt s
         (map_err StorageError
            (bs_read_generation ops s (ev_object_path ev) (ev_source_generation ev))) (\<lambda>found.
           case found of
             None \<Rightarrow> process_missing_source ops X s st (so_generation object) ev
           | Some src \<Rightarrow> process_source ops X y_offset s st (so_generation object) ev src)))"

text \<open>\<open>Broker::default\<close>.\<close>

definition default_normalized_y_offset :: f64 where
  "default_normalized_y_offset = f64_neg (f64_ratio 8 10000)"

end
