(* ===== verification/Stroke_Facts.thy ===== *)
theory Stroke_Facts
  imports Broker_Manifest "HOL-Library.Multiset"
begin

text \<open>
  What \<open>apply_manifest\<close> and \<open>apply_supernote_export\<close> do to the canonical strokes, stroke by
  stroke: the lookup after the two passes of a manifest, its independence from the order of
  the operations, and the exactness of an export on the pages it covers.
\<close>

section \<open>Manifests\<close>

abbreviation deletes :: "string \<Rightarrow> operation \<Rightarrow> bool" where
  "deletes u o' \<equiv> \<not> is_upsert o' \<and> op_uuid o' = u"

abbreviation upserts :: "string \<Rightarrow> operation \<Rightarrow> bool" where
  "upserts u o' \<equiv> is_upsert o' \<and> op_uuid o' = u"

definition stroke_after_manifest ::
    "storage_event \<Rightarrow> operation list \<Rightarrow> string \<Rightarrow> canonical_stroke option \<Rightarrow> canonical_stroke option" where
  "stroke_after_manifest ev ops u current =
     (case find (upserts u) (rev ops) of
        Some o' \<Rightarrow> Some (written_stroke ev u (op_after o'))
      | None \<Rightarrow>
          (case find (deletes u) ops of
             Some o' \<Rightarrow>
               Some (tombstone_stroke ev
                 (case current of Some c \<Rightarrow> c | None \<Rightarrow> written_stroke ev u (op_before o')))
           | None \<Rightarrow> current))"

lemma is_upsert_simps [simp]:
  "is_upsert (UpsertStroke u p b a)" "\<not> is_upsert (DeleteStroke u p d)"
  by (simp_all add: is_upsert_def)

lemma tombstone_stroke_idem [simp]:
  "tombstone_stroke ev (tombstone_stroke ev c) = tombstone_stroke ev c"
  by (simp add: tombstone_stroke_def)

lemma mem_upserted_ids: "u \<in> set (upserted_ids ops) \<longleftrightarrow> (\<exists>o'\<in>set ops. upserts u o')"
  by (auto simp: upserted_ids_def)

lemma get_fold_delete:
  "bm_get (fold (apply_delete ev ups) ops m) u =
     (if u \<in> set ups then bm_get m u
      else case find (deletes u) ops of
        Some o' \<Rightarrow>
          Some (tombstone_stroke ev
            (case bm_get m u of Some c \<Rightarrow> c | None \<Rightarrow> written_stroke ev u (op_before o')))
      | None \<Rightarrow> bm_get m u)"
proof (induction ops arbitrary: m)
  case Nil
  then show ?case by simp
next
  case (Cons o' ops)
  show ?case
  proof (cases o')
    case (UpsertStroke v p b a)
    then show ?thesis using Cons by (simp add: apply_delete_def)
  next
    case (DeleteStroke v p d)
    then show ?thesis
      using Cons
      by (auto simp: apply_delete_def Let_def split: option.splits)
  qed
qed

lemma get_fold_upsert:
  "bm_get (fold (apply_upsert ev) ops m) u =
     (case find (upserts u) (rev ops) of
        Some o' \<Rightarrow> Some (written_stroke ev u (op_after o'))
      | None \<Rightarrow> bm_get m u)"
proof (induction ops rule: rev_induct)
  case Nil
  then show ?case by simp
next
  case (snoc o' ops)
  then show ?case by (cases o') (auto simp: apply_upsert_def)
qed

lemma apply_manifest_get:
  "bm_get (st_strokes (apply_manifest ev m st)) u =
     stroke_after_manifest ev (mf_operations m) u (bm_get (st_strokes st) u)"
proof -
  let ?ops = "mf_operations m"
  have ups: "u \<in> set (upserted_ids ?ops) \<longleftrightarrow> find (upserts u) (rev ?ops) \<noteq> None"
    by (auto simp: mem_upserted_ids find_None_iff)
  show ?thesis
    by (cases "find (upserts u) (rev ?ops)")
      (auto simp: apply_manifest_def Let_def get_fold_upsert get_fold_delete ups
        stroke_after_manifest_def)
qed

lemma apply_manifest_frame [simp]:
  "revisions (apply_manifest ev m st) = revisions st"
  "device (apply_manifest ev m st) side = device st side"
  "st_document_id (apply_manifest ev m st) = st_document_id st"
  "st_schema_version (apply_manifest ev m st) = st_schema_version st"
  "st_state_revision (apply_manifest ev m st) = st_state_revision st"
  "st_conflicts (apply_manifest ev m st) = st_conflicts st"
  "st_processed_event_ids (apply_manifest ev m st) = st_processed_event_ids st"
  "st_generated_views (apply_manifest ev m st) = st_generated_views st"
  "st_source_generations (apply_manifest ev m st) = st_source_generations st"
  "st_resolved_conflicts (apply_manifest ev m st) = st_resolved_conflicts st"
  "st_last_common_revisions (apply_manifest ev m st) = st_last_common_revisions st"
  "st_original_object_path (apply_manifest ev m st) = st_original_object_path st"
  "st_original_pdf_sha256 (apply_manifest ev m st) = st_original_pdf_sha256 st"
  "st_original_file_name (apply_manifest ev m st) = st_original_file_name st"
  "st_original_page_count (apply_manifest ev m st) = st_original_page_count st"
  by (simp_all add: apply_manifest_def Let_def revisions_def device_def split: device_side.split)

lemma wf_fold_delete: "bm_wf m \<Longrightarrow> bm_wf (fold (apply_delete ev ups) ops m)"
  by (induction ops arbitrary: m) (auto simp: apply_delete_def Let_def split: operation.split)

lemma wf_fold_upsert: "bm_wf m \<Longrightarrow> bm_wf (fold (apply_upsert ev) ops m)"
  by (induction ops arbitrary: m) (auto simp: apply_upsert_def split: operation.split)

lemma apply_manifest_strokes_wf:
  "bm_wf (st_strokes st) \<Longrightarrow> bm_wf (st_strokes (apply_manifest ev m st))"
  by (simp add: apply_manifest_def Let_def wf_fold_delete wf_fold_upsert)

lemma apply_manifest_ids:
  assumes "\<And>u c. bm_get (st_strokes st) u = Some c \<Longrightarrow> cs_stroke_id c = u"
    and "bm_get (st_strokes (apply_manifest ev m st)) u = Some c"
  shows "cs_stroke_id c = u"
  using assms by (auto simp: apply_manifest_get stroke_after_manifest_def written_stroke_def
      tombstone_stroke_def split: option.splits)

text \<open>A manifest with at most one upsert and one delete per stroke.\<close>

definition compact_operations :: "operation list \<Rightarrow> bool" where
  "compact_operations ops \<longleftrightarrow>
     distinct (map op_uuid (filter is_upsert ops)) \<and>
     distinct (map op_uuid (filter (\<lambda>o'. \<not> is_upsert o') ops))"

lemma find_unique:
  assumes "\<And>x y. x \<in> set xs \<Longrightarrow> y \<in> set xs \<Longrightarrow> P x \<Longrightarrow> P y \<Longrightarrow> x = y"
    and "set xs = set ys"
  shows "find P xs = find P ys"
proof (cases "find P xs")
  case None
  then have "find P ys = None" using assms(2) by (simp add: find_None_iff_all)
  with None show ?thesis by simp
next
  case (Some x)
  then have x: "P x" "x \<in> set xs" by (auto dest: find_SomeD)
  then obtain y where y: "find P ys = Some y"
    using assms(2) by (metis find_None_iff_all not_Some_eq)
  then have "P y" "y \<in> set xs" using assms(2) by (auto dest: find_SomeD)
  with x assms(1) Some y show ?thesis by metis
qed

lemma distinct_map_filter_unique:
  "distinct (map f (filter Q xs)) \<Longrightarrow> x \<in> set xs \<Longrightarrow> y \<in> set xs \<Longrightarrow> Q x \<Longrightarrow> Q y \<Longrightarrow> f x = f y \<Longrightarrow>
     x = y"
  by (rule inj_onD [of f "set (filter Q xs)"]) (auto simp: distinct_map)

lemma stroke_after_manifest_perm:
  assumes "compact_operations ops" and "set ops' = set ops"
  shows "stroke_after_manifest ev ops' u c = stroke_after_manifest ev ops u c"
proof -
  have "find (upserts u) (rev ops') = find (upserts u) (rev ops)"
    using assms distinct_map_filter_unique [of op_uuid is_upsert ops]
    by (intro find_unique) (auto simp: compact_operations_def)
  moreover have "find (deletes u) ops' = find (deletes u) ops"
    using assms distinct_map_filter_unique [of op_uuid "\<lambda>o'. \<not> is_upsert o'" ops]
    by (intro find_unique) (auto simp: compact_operations_def)
  ultimately show ?thesis by (simp only: stroke_after_manifest_def)
qed

lemma apply_manifest_order:
  assumes "compact_operations (mf_operations m)" and "mset ops' = mset (mf_operations m)"
    and "bm_wf (st_strokes st)"
  shows "apply_manifest ev (m\<lparr>mf_operations := ops'\<rparr>) st = apply_manifest ev m st"
proof -
  let ?m = "m\<lparr>mf_operations := ops'\<rparr>"
  have "set ops' = set (mf_operations m)" using assms(2) by (rule mset_eq_setD)
  note perm = stroke_after_manifest_perm [OF assms(1) this]
  have ops: "mf_operations ?m = ops'" by simp
  have get: "bm_get (st_strokes (apply_manifest ev ?m st)) u =
      bm_get (st_strokes (apply_manifest ev m st)) u" for u
    unfolding apply_manifest_get ops by (rule perm)
  have strokes: "st_strokes (apply_manifest ev ?m st) = st_strokes (apply_manifest ev m st)"
    by (rule bm_ext [OF apply_manifest_strokes_wf apply_manifest_strokes_wf ext [OF get]])
      (fact assms(3))+
  have rest: "apply_manifest ev m' st = st\<lparr>st_strokes := st_strokes (apply_manifest ev m' st)\<rparr>" for m'
    by (simp add: apply_manifest_def Let_def)
  show ?thesis
    by (subst (1 2) rest) (simp only: strokes)
qed

section \<open>Supernote exports\<close>

definition stroke_after_export ::
    "storage_event \<Rightarrow> baseline_export \<Rightarrow> string \<Rightarrow> canonical_stroke option \<Rightarrow> canonical_stroke option" where
  "stroke_after_export ev ex u current =
     (case find (\<lambda>s. source_uuid s = u) (rev (export_strokes ex)) of
        Some s \<Rightarrow> Some (written_stroke ev u s)
      | None \<Rightarrow>
          map_option (tombstone_missing ev (map bp_page_index (be_pages ex))
                        (map source_uuid (export_strokes ex))) current)"

lemma apply_supernote_export_ok:
  assumes "apply_supernote_export X ev bs st = Inr st'"
  obtains ex where
    "parse_baseline_bytes (x_envelope_of_json X) bs (ev_object_path ev) = Inr ex"
    "validate_supernote_export st ev ex = Inr ()" "export_wf ex"
    "\<And>u. bm_get (st_strokes st') u = stroke_after_export ev ex u (bm_get (st_strokes st) u)"
    "bm_wf (st_strokes st) \<Longrightarrow> bm_wf (st_strokes st')"
    "st' = (case be_source_file_name ex of
              Some n \<Rightarrow> update_device Supernote (\<lambda>d. d\<lparr>dr_source_file_name := Some n\<rparr>) st
            | None \<Rightarrow> st)\<lparr>st_strokes := st_strokes st'\<rparr>"
proof -
  from assms obtain ex where
    ex: "parse_baseline_bytes (x_envelope_of_json X) bs (ev_object_path ev) = Inr ex" and
    ok: "validate_supernote_export st ev ex = Inr ()" and
    st': "st' = (case be_source_file_name ex of
              Some n \<Rightarrow> update_device Supernote (\<lambda>d. d\<lparr>dr_source_file_name := Some n\<rparr>) st
            | None \<Rightarrow> st)\<lparr>st_strokes :=
              fold (\<lambda>s. bm_insert (source_uuid s) (written_stroke ev (source_uuid s) s))
                (export_strokes ex)
                (bm_map_values (tombstone_missing ev (map bp_page_index (be_pages ex))
                   (map source_uuid (export_strokes ex))) (st_strokes st))\<rparr>"
    by (auto simp: apply_supernote_export_def result_simps Let_def split: option.splits)
  have "bm_get (st_strokes st') u = stroke_after_export ev ex u (bm_get (st_strokes st) u)" for u
    by (auto simp: st' bm.get_fold_put stroke_after_export_def split: option.split
        dest: find_SomeD)
  moreover have "bm_wf (st_strokes st')" if "bm_wf (st_strokes st)"
    using that by (simp add: st' bm.wf_fold_put)
  ultimately show ?thesis
    using that ex ok st' parse_baseline_bytes_wf [OF ex] by auto
qed

text \<open>The active snapshots of one page of a state.\<close>

definition page_strokes :: "document_state \<Rightarrow> u32 \<Rightarrow> stroke_snapshot set" where
  "page_strokes st p =
     {cs_snapshot c | c u. bm_get (st_strokes st) u = Some c \<and> cs_tombstone c = None \<and>
        page_index (cs_snapshot c) = p}"

lemma find_export_stroke:
  assumes "export_wf ex" and "s \<in> set (export_strokes ex)"
  shows "find (\<lambda>s'. source_uuid s' = source_uuid s) (rev (export_strokes ex)) = Some s"
proof -
  have "distinct (map source_uuid (export_strokes ex))" using assms(1) by (simp add: export_wf_def)
  then have unique: "s' = s" if "s' \<in> set (export_strokes ex)" "source_uuid s' = source_uuid s" for s'
    using that assms(2) by (auto simp: distinct_map dest: inj_onD)
  obtain s' where "find (\<lambda>s'. source_uuid s' = source_uuid s) (rev (export_strokes ex)) = Some s'"
    using assms(2) by (metis (mono_tags) find_None_iff_all not_Some_eq set_rev)
  with unique show ?thesis by (auto dest: find_SomeD)
qed

lemma export_stroke_page:
  "export_wf ex \<Longrightarrow> p \<in> set (be_pages ex) \<Longrightarrow> s \<in> set (bp_strokes p) \<Longrightarrow>
     page_index s = bp_page_index p"
  by (auto simp: export_wf_def parsed_stroke_def)

lemma export_strokes_on_page:
  assumes "export_wf ex" and "p \<in> set (be_pages ex)"
  shows "{s \<in> set (export_strokes ex). page_index s = bp_page_index p} = set (bp_strokes p)"
proof -
  have "p' = p" if "p' \<in> set (be_pages ex)" "bp_page_index p' = bp_page_index p" for p'
    using that assms by (auto simp: export_wf_def distinct_map dest: inj_onD)
  then show ?thesis
    using assms export_stroke_page [OF assms(1)] by (fastforce simp: export_strokes_def)
qed

lemma apply_supernote_export_page:
  assumes ok: "apply_supernote_export X ev bs st = Inr st'" and wf: "state_wf st"
    and ex: "parse_baseline_bytes (x_envelope_of_json X) bs (ev_object_path ev) = Inr ex"
    and p: "p \<in> set (be_pages ex)"
  shows "page_strokes st' (bp_page_index p) = set (bp_strokes p)"
proof -
  have wfe: "export_wf ex" using ex by (rule parse_baseline_bytes_wf)
  have get: "bm_get (st_strokes st') u = stroke_after_export ev ex u (bm_get (st_strokes st) u)" for u
    using ok ex by (auto elim!: apply_supernote_export_ok)
  have "page_strokes st' (bp_page_index p) =
      {s \<in> set (export_strokes ex). page_index s = bp_page_index p}" (is "?A = ?B")
  proof (intro subset_antisym subsetI)
    fix s assume "s \<in> ?A"
    then obtain c u where c: "bm_get (st_strokes st') u = Some c" "cs_tombstone c = None"
      "page_index (cs_snapshot c) = bp_page_index p" "s = cs_snapshot c"
      by (auto simp: page_strokes_def)
    show "s \<in> ?B"
    proof (cases "find (\<lambda>s. source_uuid s = u) (rev (export_strokes ex))")
      case (Some s')
      then show ?thesis
        using c get [of u] by (auto simp: stroke_after_export_def written_stroke_def dest: find_SomeD)
    next
      case None
      then obtain c0 where c0: "bm_get (st_strokes st) u = Some c0"
        "c = tombstone_missing ev (map bp_page_index (be_pages ex))
               (map source_uuid (export_strokes ex)) c0"
        using c(1) get [of u] by (auto simp: stroke_after_export_def)
      then have "cs_stroke_id c0 = u" using wf by (simp add: state_wf_def)
      with None c0 c p show ?thesis
        by (auto simp: tombstone_missing_def tombstone_stroke_def find_None_iff_all split: if_splits)
    qed
  next
    fix s assume "s \<in> ?B"
    then have "bm_get (st_strokes st') (source_uuid s) = Some (written_stroke ev (source_uuid s) s)"
      using get [of "source_uuid s"] find_export_stroke [OF wfe]
      by (simp add: stroke_after_export_def)
    with \<open>s \<in> ?B\<close> show "s \<in> ?A"
      by (force simp: page_strokes_def written_stroke_def)
  qed
  with export_strokes_on_page [OF wfe p] show ?thesis by simp
qed

lemma apply_supernote_export_other_pages:
  assumes ok: "apply_supernote_export X ev bs st = Inr st'"
    and ex: "parse_baseline_bytes (x_envelope_of_json X) bs (ev_object_path ev) = Inr ex"
    and "u \<notin> source_uuid ` set (export_strokes ex)"
    and "bm_get (st_strokes st) u = Some c"
    and "page_index (cs_snapshot c) \<notin> bp_page_index ` set (be_pages ex)"
  shows "bm_get (st_strokes st') u = Some c"
proof -
  have "bm_get (st_strokes st') u = stroke_after_export ev ex u (bm_get (st_strokes st) u)"
    using ok ex by (auto elim!: apply_supernote_export_ok)
  moreover have "find (\<lambda>s. source_uuid s = u) (rev (export_strokes ex)) = None"
    using assms(3) by (auto simp: find_None_iff_all)
  ultimately show ?thesis
    using assms(4,5) by (simp add: stroke_after_export_def tombstone_missing_def)
qed

end
