(* ===== verification/Broker_Facts.thy ===== *)
theory Broker_Facts
  imports Broker_Process Stroke_Facts
begin

text \<open>
  What \<open>process\<close> does, whatever the storage: the relation \<open>event_plan\<close> lists the decisions a
  handler can take for one event, \<open>process_ok\<close> shows that a successful call is either a
  duplicate that leaves the storage alone or exactly one commit of such a plan, guarded by
  the generation of the state it was decided on, and the invariants of a document follow by
  rule induction over histories of plans.
\<close>

section \<open>The decisions for one event\<close>

definition source_input :: "'s storage_ops \<Rightarrow> ext \<Rightarrow> 's \<Rightarrow> storage_event \<Rightarrow> bytes \<Rightarrow> bool" where
  "source_input ops X s ev input \<longleftrightarrow>
     ev_content_sha256 ev = hex X input \<and>
     (\<exists>src. bs_read_generation ops s (ev_object_path ev) (ev_source_generation ev) = Inr (Some src) \<and>
            so_bytes src = input)"

text \<open>\<open>event_plan ops X y s ev st ws out st'\<close>: on storage \<open>s\<close>, for the event \<open>ev\<close> (with the
  content hash of the bytes that were read) and the state \<open>st\<close>, the broker answers \<open>out\<close> and
  commits the writes \<open>ws\<close> together with the state \<open>st'\<close>.\<close>

inductive event_plan ::
    "'s storage_ops \<Rightarrow> ext \<Rightarrow> f64 \<Rightarrow> 's \<Rightarrow> storage_event \<Rightarrow> document_state \<Rightarrow>
       conditional_write list \<Rightarrow> process_outcome \<Rightarrow> document_state \<Rightarrow> bool"
  for ops X y s ev st where
  own_output:
    "is_broker_output ev metadata (ev_content_sha256 ev) \<Longrightarrow>
       event_plan ops X y s ev st [] (IgnoredBrokerOutput (ev_document_id ev) (ev_event_id ev))
         (marked_state ev st)"
| superseded_generation:
    "bs_read ops s (ev_object_path ev) = Inr (Some latest) \<Longrightarrow>
     ev_source_generation ev < so_generation latest \<Longrightarrow>
       event_plan ops X y s ev st [] (IgnoredStaleSource (ev_document_id ev) (ev_event_id ev))
         (marked_state ev st)"
| same_content:
    "rp_get (ev_based_on ev) (ev_source ev) < ev_source_revision ev \<Longrightarrow>
     ev_source_revision ev \<le> dr_revision (device st (ev_source ev)) \<Longrightarrow>
     ev_content_sha256 ev = dr_content_sha256 (device st (ev_source ev)) \<Longrightarrow>
       event_plan ops X y s ev st [] (IgnoredStaleSource (ev_document_id ev) (ev_event_id ev))
         (marked_state ev st)"
| preserved:
    "rp_get (ev_based_on ev) (ev_source ev) < ev_source_revision ev \<Longrightarrow>
     (ev_source_revision ev \<le> dr_revision (device st (ev_source ev)) \<and>
        ev_content_sha256 ev \<noteq> dr_content_sha256 (device st (ev_source ev)) \<or>
      dr_revision (device st (ev_source ev)) < ev_source_revision ev \<and>
        ev_based_on ev \<noteq> revisions st) \<Longrightarrow>
     try_map (competing_write ops X s st ev) [Boox, Supernote] = Inr competing \<Longrightarrow>
     source_input ops X s ev input \<Longrightarrow>
       event_plan ops X y s ev st
         (conflict_write (conflict_input_path X ev) input ''conflict-input'' ev # concat competing)
         (Conflict (ev_document_id ev) (ev_event_id ev) (conflict_input_path X ev) (revisions st)
            (ev_based_on ev))
         (conflicted_state (conflict_input_path X ev) (map cw_path (concat competing)) ev st)"
| accepted:
    "ev_based_on ev = revisions st \<Longrightarrow>
     dr_revision (device st (ev_source ev)) < ev_source_revision ev \<Longrightarrow>
     (unat (ev_source_revision ev) = unat (dr_revision (device st (ev_source ev))) + 1 \<or>
      follows_preserved_predecessor st ev (dr_revision (device st (ev_source ev)) + 1)) \<Longrightarrow>
     st1 = st\<lparr>st_original_page_count := pages\<rparr> \<Longrightarrow>
     device_output ops X y s st1 ev input = Inr (st2, path, bs, name) \<Longrightarrow>
     bs_read ops s path = Inr destination \<Longrightarrow>
     destination_precondition X (accept_input ev name st2) path destination = Inr pre \<Longrightarrow>
     revs = revisions (accept_input ev name st2) \<Longrightarrow>
     source_input ops X s ev input \<Longrightarrow>
     st1 = st \<or> ensure_original_page_count ops X s st = Inr st1 \<Longrightarrow>
       event_plan ops X y s ev st
         [\<lparr>cw_path = path, cw_bytes = bs,
           cw_metadata = output_metadata (output_marker_of ev revs) (hex X bs),
           cw_precondition = pre\<rparr>]
         (Applied (ev_document_id ev) (ev_event_id ev) path generation revs)
         (record_view path (hex X bs) (ev_event_id ev) revs (accept_input ev name st2))"

inductive_cases event_plan_applied: "event_plan ops X y s ev st ws (Applied d e p g r) st'"
inductive_cases event_plan_conflict: "event_plan ops X y s ev st ws (Conflict d e p c b) st'"
inductive_cases event_plan_stale: "event_plan ops X y s ev st ws (IgnoredStaleSource d e) st'"
inductive_cases event_plan_own: "event_plan ops X y s ev st ws (IgnoredBrokerOutput d e) st'"
inductive_simps event_plan_duplicate [simp]: "event_plan ops X y s ev st ws (Duplicate d e) st'"

text \<open>A plan carried out: its writes and its state in one commit, guarded by the generation
  the state was read at.\<close>

definition plan_committed ::
    "'s storage_ops \<Rightarrow> ext \<Rightarrow> 's \<Rightarrow> string \<Rightarrow> u64 \<Rightarrow> conditional_write list \<Rightarrow> document_state \<Rightarrow>
       's \<Rightarrow> stored_object list \<Rightarrow> bool" where
  "plan_committed ops X s document_id generation ws st' s' objs \<longleftrightarrow>
     (\<exists>w. state_write X (state_path document_id) st' (Match generation) = Inr w \<and>
          bs_commit ops s (ws @ [w]) = (s', Inr objs))"

lemma plan_committedI:
  "state_write X (state_path d) st' (Match g) = Inr w \<Longrightarrow> bs_commit ops s (ws @ [w]) = (s', Inr objs) \<Longrightarrow>
     plan_committed ops X s d g ws st' s' objs"
  by (auto simp: plan_committed_def)

section \<open>Every handler carries out a plan\<close>

lemma mark_event_only_ok:
  "mark_event_only ops X s st (state_path d) g ev = (s', Inr u) \<longleftrightarrow>
     (\<exists>objs. plan_committed ops X s d g [] (marked_state ev st) s' objs)"
  by (auto simp: mark_event_only_def plan_committed_def result_simps)

lemma preserve_conflict_ok:
  assumes "preserve_conflict ops X s st g ev input = (s', Inr out)"
  obtains competing objs where
    "try_map (competing_write ops X s st ev) [Boox, Supernote] = Inr competing"
    "out = Conflict (ev_document_id ev) (ev_event_id ev) (conflict_input_path X ev) (revisions st)
       (ev_based_on ev)"
    "plan_committed ops X s (ev_document_id ev) g
       (conflict_write (conflict_input_path X ev) input ''conflict-input'' ev # concat competing)
       (conflicted_state (conflict_input_path X ev) (map cw_path (concat competing)) ev st) s' objs"
proof -
  from assms obtain competing w objs where
    "try_map (competing_write ops X s st ev) [Boox, Supernote] = Inr competing" and
    w: "state_write X (state_path (ev_document_id ev))
      (conflicted_state (conflict_input_path X ev) (map cw_path (concat competing)) ev st)
      (Match g) = Inr w" and
    objs: "bs_commit ops s
      ((conflict_write (conflict_input_path X ev) input ''conflict-input'' ev # concat competing) @
       [w]) = (s', Inr objs)" and
    "out = Conflict (ev_document_id ev) (ev_event_id ev) (conflict_input_path X ev) (revisions st)
       (ev_based_on ev)"
    unfolding preserve_conflict_def Let_def and_then_Inr_iff attempt_Inr_iff commit_Inr_iff by auto
  with that plan_committedI [OF w objs] show thesis by simp
qed

lemma commit_output_ok:
  assumes "commit_output ops X s g ev (st, path, output, name) = (s', Inr out)"
  obtains destination pre objs where
    "bs_read ops s path = Inr destination"
    "destination_precondition X (accept_input ev name st) path destination = Inr pre"
    "out = Applied (ev_document_id ev) (ev_event_id ev) path (so_generation (objs ! 0))
       (revisions (accept_input ev name st))"
    "plan_committed ops X s (ev_document_id ev) g
       [\<lparr>cw_path = path, cw_bytes = output,
         cw_metadata = output_metadata (output_marker_of ev (revisions (accept_input ev name st)))
           (hex X output), cw_precondition = pre\<rparr>]
       (record_view path (hex X output) (ev_event_id ev) (revisions (accept_input ev name st))
          (accept_input ev name st)) s' objs"
proof -
  let ?final = "record_view path (hex X output) (ev_event_id ev)
    (revisions (accept_input ev name st)) (accept_input ev name st)"
  from assms obtain destination pre w objs where
    "bs_read ops s path = Inr destination"
    "destination_precondition X (accept_input ev name st) path destination = Inr pre" and
    w: "state_write X (state_path (ev_document_id ev)) ?final (Match g) = Inr w" and
    objs: "bs_commit ops s
      ([\<lparr>cw_path = path, cw_bytes = output,
         cw_metadata = output_metadata (output_marker_of ev (revisions (accept_input ev name st)))
           (hex X output), cw_precondition = pre\<rparr>] @ [w]) = (s', Inr objs)" and
    "out = Applied (ev_document_id ev) (ev_event_id ev) path (so_generation (objs ! 0))
       (revisions (accept_input ev name st))"
    unfolding commit_output_def Let_def prod.case and_then_Inr_iff attempt_Inr_iff commit_Inr_iff
      map_err_eq_Inr_iff by auto
  with that plan_committedI [OF w objs] show thesis by simp
qed

lemma preserve_conflict_plan:
  assumes "preserve_conflict ops X s st g ev input = (s', Inr out)"
    and newer: "rp_get (ev_based_on ev) (ev_source ev) < ev_source_revision ev"
    and decision: "ev_source_revision ev \<le> dr_revision (device st (ev_source ev)) \<and>
        ev_content_sha256 ev \<noteq> dr_content_sha256 (device st (ev_source ev)) \<or>
      dr_revision (device st (ev_source ev)) < ev_source_revision ev \<and> ev_based_on ev \<noteq> revisions st"
    and src: "source_input ops X s ev input"
  obtains ws st' objs where "event_plan ops X y s ev st ws out st'"
    "plan_committed ops X s (ev_document_id ev) g ws st' s' objs"
proof -
  from assms(1) obtain competing objs where
    competing: "try_map (competing_write ops X s st ev) [Boox, Supernote] = Inr competing" and
    out: "out = Conflict (ev_document_id ev) (ev_event_id ev) (conflict_input_path X ev)
      (revisions st) (ev_based_on ev)" and
    plan: "plan_committed ops X s (ev_document_id ev) g
       (conflict_write (conflict_input_path X ev) input ''conflict-input'' ev # concat competing)
       (conflicted_state (conflict_input_path X ev) (map cw_path (concat competing)) ev st) s' objs"
    by (rule preserve_conflict_ok)
  show thesis
    by (rule that [OF _ plan], unfold out, rule preserved [OF newer decision competing src])
qed

lemma apply_or_preserve_ok:
  assumes "apply_or_preserve ops X y s st g ev input = (s', Inr out)"
    and "rp_get (ev_based_on ev) (ev_source ev) < ev_source_revision ev"
    and "dr_revision (device st (ev_source ev)) < ev_source_revision ev"
    and "unat (ev_source_revision ev) = unat (dr_revision (device st (ev_source ev))) + 1 \<or>
      follows_preserved_predecessor st ev (dr_revision (device st (ev_source ev)) + 1)"
    and src: "source_input ops X s ev input"
  obtains ws st' objs where "event_plan ops X y s ev st ws out st'"
    "plan_committed ops X s (ev_document_id ev) g ws st' s' objs"
proof (cases "ev_based_on ev = revisions st")
  case False
  with assms(1) have "preserve_conflict ops X s st g ev input = (s', Inr out)"
    by (simp add: apply_or_preserve_def)
  from this assms(2) show thesis
    by (rule preserve_conflict_plan [where y = y]) (use assms(3) False src that in auto)
next
  case True
  let ?page_count = "if ev_payload_kind ev = BooxOperationManifest \<or> ev_source ev = Supernote
    then ensure_original_page_count ops X s st else Inr st"
  have "\<exists>st1. ?page_count = Inr st1 \<and>
      (\<exists>r. device_output ops X y s st1 ev input = Inr r \<and> commit_output ops X s g ev r = (s', Inr out))"
    using assms(1) unfolding apply_or_preserve_def attempt_Inr_iff if_not_P [OF not_not [THEN iffD2, OF True]] .
  then obtain st1 r where
    "?page_count = Inr st1" and
    r: "device_output ops X y s st1 ev input = Inr r"
      "commit_output ops X s g ev r = (s', Inr out)"
    by (elim exE conjE)
  then have st1: "st1 = st \<or> ensure_original_page_count ops X s st = Inr st1"
    by (simp split: if_split_asm)
  obtain st2 path bs name where "r = (st2, path, bs, name)" by (cases r)
  with r have out: "device_output ops X y s st1 ev input = Inr (st2, path, bs, name)" and
    commit: "commit_output ops X s g ev (st2, path, bs, name) = (s', Inr out)" by simp_all
  have pages: "st1 = st\<lparr>st_original_page_count := st_original_page_count st1\<rparr>"
    using st1 ensure_original_page_count_frame by fastforce
  from commit obtain destination pre objs where
    destination: "bs_read ops s path = Inr destination"
      "destination_precondition X (accept_input ev name st2) path destination = Inr pre" and
    out': "out = Applied (ev_document_id ev) (ev_event_id ev) path (so_generation (objs ! 0))
      (revisions (accept_input ev name st2))" and
    plan: "plan_committed ops X s (ev_document_id ev) g
       [\<lparr>cw_path = path, cw_bytes = bs,
         cw_metadata = output_metadata (output_marker_of ev (revisions (accept_input ev name st2)))
           (hex X bs), cw_precondition = pre\<rparr>]
       (record_view path (hex X bs) (ev_event_id ev) (revisions (accept_input ev name st2))
          (accept_input ev name st2)) s' objs"
    by (rule commit_output_ok)
  show thesis
    by (rule that [OF _ plan], unfold out', rule accepted [OF True assms(3,4) pages out destination])
      (rule refl src st1)+
qed

lemma process_input_ok:
  assumes "process_input ops X y s st g ev input = (s', Inr out)"
    and src: "source_input ops X s ev input"
  obtains ws st' objs where "event_plan ops X y s ev st ws out st'"
    "plan_committed ops X s (ev_document_id ev) g ws st' s' objs"
proof -
  let ?base = "rp_get (ev_based_on ev) (ev_source ev)"
  let ?rev = "ev_source_revision ev"
  let ?dev = "device st (ev_source ev)"
  have newer: "?base < ?rev"
    by (rule ccontr) (use assms(1) in \<open>simp add: process_input_def Let_def not_less\<close>)
  then have base: "\<not> ?rev \<le> ?base" by simp
  show thesis
  proof (cases "?rev \<le> dr_revision ?dev")
    case True
    show thesis
    proof (cases "ev_content_sha256 ev = dr_content_sha256 ?dev")
      case same: True
      have "and_then (mark_event_only ops X s st (state_path (ev_document_id ev)) g ev)
          (\<lambda>s' _. (s', Inr (IgnoredStaleSource (ev_document_id ev) (ev_event_id ev)))) =
          (s', Inr out)"
        using assms(1) unfolding process_input_def Let_def if_not_P [OF base] if_P [OF True]
        by (simp add: same)
      then obtain objs where
        out: "out = IgnoredStaleSource (ev_document_id ev) (ev_event_id ev)" and
        plan: "plan_committed ops X s (ev_document_id ev) g [] (marked_state ev st) s' objs"
        by (auto simp: and_then_Inr_iff mark_event_only_ok)
      show thesis
        by (rule that [OF _ plan], unfold out, rule same_content [OF newer True same])
    next
      case False
      with assms(1) have "preserve_conflict ops X s st g ev input = (s', Inr out)"
        unfolding process_input_def Let_def if_not_P [OF base] if_P [OF True] by simp
      from this newer show thesis
        by (rule preserve_conflict_plan [where y = y]) (use True False src that in auto)
    qed
  next
    case False
    then have above: "dr_revision ?dev < ?rev" by simp
    obtain "next" where
      "next": "checked_add (dr_revision ?dev) 1 = Some next" and
      follows: "?rev = next \<or> follows_preserved_predecessor st ev next" and
      rest: "apply_or_preserve ops X y s st g ev input = (s', Inr out)"
      using assms(1)
      unfolding process_input_def Let_def if_not_P [OF base] if_not_P [OF False] attempt_Inr_iff
      by (auto simp: ok_or_eq_Inr_iff split: if_splits)
    have "unat ?rev = unat (dr_revision ?dev) + 1 \<or>
        follows_preserved_predecessor st ev (dr_revision ?dev + 1)"
      using follows checked_add_Some [OF "next"] by auto
    from apply_or_preserve_ok [OF rest newer above this src that] show thesis .
  qed
qed

text \<open>The event a plan is made for: the event of the notification, with the hash of the bytes
  that were read unless the named generation is gone.\<close>

definition read_event :: "'s storage_ops \<Rightarrow> ext \<Rightarrow> 's \<Rightarrow> storage_event \<Rightarrow> storage_event" where
  "read_event ops X s ev =
     (case bs_read_generation ops s (ev_object_path ev) (ev_source_generation ev) of
        Inr (Some src) \<Rightarrow> effective_event X ev src
      | _ \<Rightarrow> ev)"

lemma read_event_frame [simp]:
  "ev_event_id (read_event ops X s ev) = ev_event_id ev"
  "ev_document_id (read_event ops X s ev) = ev_document_id ev"
  "ev_source (read_event ops X s ev) = ev_source ev"
  "ev_object_path (read_event ops X s ev) = ev_object_path ev"
  "ev_source_generation (read_event ops X s ev) = ev_source_generation ev"
  "ev_source_revision (read_event ops X s ev) = ev_source_revision ev"
  "ev_based_on (read_event ops X s ev) = ev_based_on ev"
  "ev_payload_kind (read_event ops X s ev) = ev_payload_kind ev"
  "ev_broker_output (read_event ops X s ev) = ev_broker_output ev"
  by (auto simp: read_event_def effective_event_def split: sum.split option.split)

lemma process_missing_source_ok:
  assumes "process_missing_source ops X s st g ev = (s', Inr out)"
  obtains objs where "event_plan ops X y s ev st [] out (marked_state ev st)"
    "plan_committed ops X s (ev_document_id ev) g [] (marked_state ev st) s' objs"
proof -
  from assms obtain latest where latest: "bs_read ops s (ev_object_path ev) = Inr (Some latest)"
      "ev_source_generation ev < so_generation latest" and
    r: "and_then (mark_event_only ops X s st (state_path (ev_document_id ev)) g ev)
      (\<lambda>s' _. (s', Inr (IgnoredStaleSource (ev_document_id ev) (ev_event_id ev)))) = (s', Inr out)"
    by (auto simp: process_missing_source_def attempt_Inr_iff map_err_eq_Inr_iff
        split: if_splits option.splits)
  then obtain objs where out: "out = IgnoredStaleSource (ev_document_id ev) (ev_event_id ev)" and
    plan: "plan_committed ops X s (ev_document_id ev) g [] (marked_state ev st) s' objs"
    by (auto simp: and_then_Inr_iff mark_event_only_ok)
  show thesis
    by (rule that [OF _ plan], unfold out, rule superseded_generation [OF latest])
qed

lemma process_source_ok:
  assumes "process_source ops X y s st g ev src = (s', Inr out)"
    and src: "bs_read_generation ops s (ev_object_path ev) (ev_source_generation ev) = Inr (Some src)"
  obtains ws st' objs where "event_plan ops X y s (effective_event X ev src) st ws out st'"
    "plan_committed ops X s (ev_document_id ev) g ws st' s' objs"
proof (cases "is_broker_output (effective_event X ev src) (so_metadata src) (hex X (so_bytes src))")
  case True
  with assms(1) have "and_then
      (mark_event_only ops X s st (state_path (ev_document_id ev)) g (effective_event X ev src))
      (\<lambda>s' _. (s', Inr (IgnoredBrokerOutput (ev_document_id ev) (ev_event_id ev)))) = (s', Inr out)"
    by (simp add: process_source_def Let_def split: if_splits)
  then obtain objs where out: "out = IgnoredBrokerOutput (ev_document_id ev) (ev_event_id ev)" and
    plan: "plan_committed ops X s (ev_document_id ev) g []
      (marked_state (effective_event X ev src) st) s' objs"
    by (auto simp: and_then_Inr_iff mark_event_only_ok)
  have "event_plan ops X y s (effective_event X ev src) st []
      (IgnoredBrokerOutput (ev_document_id (effective_event X ev src))
        (ev_event_id (effective_event X ev src))) (marked_state (effective_event X ev src) st)"
    by (rule own_output [of _ "so_metadata src"]) (use True in \<open>simp add: effective_event_def\<close>)
  with out plan that show thesis by (simp add: effective_event_def)
next
  case False
  with assms(1) have
    r: "process_input ops X y s st g (effective_event X ev src) (so_bytes src) = (s', Inr out)"
    by (simp add: process_source_def Let_def split: if_splits)
  have inp: "source_input ops X s (effective_event X ev src) (so_bytes src)"
    using src by (simp add: source_input_def effective_event_def)
  have id: "ev_document_id (effective_event X ev src) = ev_document_id ev"
    by (simp add: effective_event_def)
  from process_input_ok [OF r inp that, unfolded id] show thesis .
qed

lemma process_ok:
  assumes "process ops X y s ev = (s', Inr out)"
  obtains
    (duplicate) obj st where
      "load_state ops X s (ev_document_id ev) = Inr (obj, st)"
      "ev_event_id ev \<in> set (st_processed_event_ids st)"
      "s' = s" "out = Duplicate (ev_document_id ev) (ev_event_id ev)"
  | (committed) obj st ws st' objs where
      "load_state ops X s (ev_document_id ev) = Inr (obj, st)"
      "st_document_id st = ev_document_id ev"
      "ev_event_id ev \<notin> set (st_processed_event_ids st)"
      "event_plan ops X y s (read_event ops X s ev) st ws out st'"
      "plan_committed ops X s (ev_document_id ev) (so_generation obj) ws st' s' objs"
proof -
  from assms obtain obj st where load: "load_state ops X s (ev_document_id ev) = Inr (obj, st)"
    and doc: "st_document_id st = ev_document_id ev" and
    rest: "(if ev_event_id ev \<in> set (st_processed_event_ids st)
      then (s, Inr (Duplicate (ev_document_id ev) (ev_event_id ev)))
      else attempt s (map_err StorageError
          (bs_read_generation ops s (ev_object_path ev) (ev_source_generation ev)))
        (\<lambda>found. case found of
             None \<Rightarrow> process_missing_source ops X s st (so_generation obj) ev
           | Some src \<Rightarrow> process_source ops X y s st (so_generation obj) ev src)) = (s', Inr out)"
    unfolding process_def attempt_Inr_iff by (auto split: if_split_asm)
  show thesis
  proof (cases "ev_event_id ev \<in> set (st_processed_event_ids st)")
    case True
    show thesis
      by (rule duplicate [OF load True]) (use rest in \<open>simp_all add: if_P [OF True]\<close>)
  next
    case False
    note committed = committed [OF load doc False]
    from rest False obtain found where
      found: "bs_read_generation ops s (ev_object_path ev) (ev_source_generation ev) = Inr found" and
      found_rest: "(case found of
             None \<Rightarrow> process_missing_source ops X s st (so_generation obj) ev
           | Some src \<Rightarrow> process_source ops X y s st (so_generation obj) ev src) = (s', Inr out)"
      by (simp add: attempt_Inr_iff map_err_eq_Inr_iff) blast
    show thesis
    proof (cases found)
      case None
      then have "read_event ops X s ev = ev" by (simp add: read_event_def found)
      with None found_rest show thesis
        by (auto elim!: process_missing_source_ok [where y = y] intro: committed)
    next
      case (Some src)
      then have "read_event ops X s ev = effective_event X ev src"
        by (simp add: read_event_def found)
      with Some found_rest show thesis
        by (auto elim!: process_source_ok [OF _ found [unfolded Some]] intro: committed)
    qed
  qed
qed

end
