(* ===== verification/Conflict.thy ===== *)
theory Conflict
  imports Broker_Process
begin

text \<open>
  \<open>inkbridge-broker/src/conflict.rs\<close>, first part: listing and inspecting preserved conflicts.
  A preserved input is read back, turned into a manifest of proposed operations and grouped
  by stroke; a group is safe when its stroke has not changed since the base the input was
  made on, was not rejected by an earlier resolution it descends from, and its before
  snapshots are the current ones.
\<close>

section \<open>Contexts\<close>

record conflict_context =
  cc_state_object :: stored_object
  cc_state :: document_state
  cc_conflict :: preserved_input
  cc_input :: stored_object

record operation_group =
  og_change :: stroke_change
  og_operations :: "operation list"
  og_safe :: bool

definition summary_of_conflict :: "string \<Rightarrow> document_state \<Rightarrow> preserved_input \<Rightarrow> conflict_summary" where
  "summary_of_conflict document_id st c =
     \<lparr>su_document_id = document_id, su_conflict_event_id = pi_event_id c, su_source = pi_source c,
      su_source_revision = pi_source_revision c, su_based_on = pi_based_on c,
      su_current_revisions = revisions st, su_state_revision = st_state_revision st,
      su_payload_kind = pi_payload_kind c\<rparr>"

definition list_conflicts ::
    "'s storage_ops \<Rightarrow> ext \<Rightarrow> 's \<Rightarrow> string \<Rightarrow> broker_error + conflict_summary list" where
  "list_conflicts ops X s document_id =
     rbind (load_state ops X s document_id) (\<lambda>(object, st).
       if st_document_id st \<noteq> document_id then
         Inl (CorruptState
           (''canonical state identity '' @ st_document_id st @
            '' does not match requested document '' @ document_id))
       else Inr (map (summary_of_conflict document_id st) (st_conflicts st)))"

definition needs_page_count :: "preserved_input \<Rightarrow> bool" where
  "needs_page_count c \<longleftrightarrow>
     pi_source c = Supernote \<or> pi_source c = Boox \<and> pi_payload_kind c = BooxOperationManifest"

definition load_context_from_state ::
    "'s storage_ops \<Rightarrow> ext \<Rightarrow> 's \<Rightarrow> stored_object \<Rightarrow> document_state \<Rightarrow> string \<Rightarrow>
       broker_error + conflict_context" where
  "load_context_from_state ops X s state_object st conflict_event_id =
     rbind (ok_or (InvalidEvent (''conflict '' @ conflict_event_id @ '' is not active for '' @
                                 st_document_id st))
              (find (\<lambda>c. pi_event_id c = conflict_event_id) (st_conflicts st))) (\<lambda>c.
     rbind (if needs_page_count c then ensure_original_page_count ops X s st else Inr st) (\<lambda>st'.
     rbind (map_err StorageError (bs_read ops s (pi_preserved_path c))) (\<lambda>found.
     rbind (ok_or (MissingObject (pi_preserved_path c)) found) (\<lambda>input.
       if hex X (so_bytes input) \<noteq> pi_content_sha256 c then
         Inl (CorruptState
           (''preserved conflict input hash changed: expected '' @ pi_content_sha256 c @
            '', found '' @ hex X (so_bytes input)))
       else Inr \<lparr>cc_state_object = state_object, cc_state = st', cc_conflict = c,
                 cc_input = input\<rparr>))))"

definition load_context ::
    "'s storage_ops \<Rightarrow> ext \<Rightarrow> 's \<Rightarrow> string \<Rightarrow> string \<Rightarrow> broker_error + conflict_context" where
  "load_context ops X s document_id conflict_event_id =
     rbind (load_state ops X s document_id) (\<lambda>(object, st).
       load_context_from_state ops X s object st conflict_event_id)"

definition conflict_event :: "preserved_input \<Rightarrow> string \<Rightarrow> storage_event" where
  "conflict_event c document_id =
     \<lparr>ev_schema_version = event_schema_version, ev_event_id = pi_event_id c,
      ev_document_id = document_id, ev_source = pi_source c, ev_object_path = pi_preserved_path c,
      ev_source_generation = pi_source_generation c, ev_source_revision = pi_source_revision c,
      ev_based_on = pi_based_on c, ev_content_sha256 = pi_content_sha256 c,
      ev_payload_kind = pi_payload_kind c, ev_broker_output = None\<rparr>"

section \<open>Proposed operations\<close>

definition manifest_summary :: "operation list \<Rightarrow> usize \<Rightarrow> summary" where
  "manifest_summary operations skipped =
     \<lparr>sm_upserted = of_nat (length (filter is_upsert operations)),
      sm_deleted = of_nat (length (filter (\<lambda>o'. \<not> is_upsert o') operations)),
      sm_unchanged = 0, sm_skipped = skipped\<rparr>"

definition validate_conflict_snapshot ::
    "string \<Rightarrow> u32 \<Rightarrow> stroke_snapshot \<Rightarrow> usize \<Rightarrow> broker_error + unit" where
  "validate_conflict_snapshot uuid page s page_count =
     ensure (valid_operation_snapshot uuid page page_count s)
       (InvalidEvent
         (''preserved BOOX operation manifest contains an invalid stroke operation for '' @ uuid))"

text \<open>\<open>operation_kinds\<close>: whether a delete and an upsert of a stroke have been seen.\<close>

definition seen_kinds :: "(string, bool \<times> bool) bmap \<Rightarrow> string \<Rightarrow> bool \<times> bool" where
  "seen_kinds kinds u = (case bm_get kinds u of Some k \<Rightarrow> k | None \<Rightarrow> (False, False))"

definition validate_conflict_operation ::
    "document_state \<Rightarrow> usize \<Rightarrow> (string, bool \<times> bool) bmap \<Rightarrow> operation \<Rightarrow>
       broker_error + (string, bool \<times> bool) bmap" where
  "validate_conflict_operation st page_count kinds o' =
     (case o' of
        DeleteStroke u page before \<Rightarrow>
          if \<not> bm_has (st_strokes st) u then
            Inl (InvalidEvent
              (''preserved BOOX operation manifest deletes unknown stroke '' @ u))
          else rbind (validate_conflict_snapshot u page before page_count) (\<lambda>_.
            if fst (seen_kinds kinds u) then
              Inl (InvalidEvent
                (''preserved BOOX operation manifest contains duplicate deletes for '' @ u))
            else Inr (bm_insert u (True, snd (seen_kinds kinds u)) kinds))
      | UpsertStroke u page before after \<Rightarrow>
          if before \<noteq> None \<and> \<not> bm_has (st_strokes st) u then
            Inl (InvalidEvent
              (''preserved BOOX operation manifest updates unknown stroke '' @ u))
          else rbind (case before of
                        Some b \<Rightarrow> validate_conflict_snapshot u page b page_count
                      | None \<Rightarrow> Inr ()) (\<lambda>_.
               rbind (validate_conflict_snapshot u page after page_count) (\<lambda>_.
                 if snd (seen_kinds kinds u) then
                   Inl (InvalidEvent
                     (''preserved BOOX operation manifest contains duplicate upserts for '' @ u))
                 else Inr (bm_insert u (fst (seen_kinds kinds u), True) kinds))))"

fun validate_conflict_operations ::
    "document_state \<Rightarrow> usize \<Rightarrow> (string, bool \<times> bool) bmap \<Rightarrow> operation list \<Rightarrow>
       broker_error + operation list" where
  "validate_conflict_operations st page_count kinds [] = Inr []"
| "validate_conflict_operations st page_count kinds (o' # ops) =
     rbind (validate_conflict_operation st page_count kinds o') (\<lambda>kinds'.
     rbind (validate_conflict_operations st page_count kinds' ops) (\<lambda>ops'.
       Inr (normalize_operation o' # ops')))"

definition validate_conflict_boox_manifest ::
    "ext \<Rightarrow> f64 \<Rightarrow> document_state \<Rightarrow> bytes \<Rightarrow> broker_error + manifest" where
  "validate_conflict_boox_manifest X y_offset st bs =
     rbind (map_err (\<lambda>e. InvalidEvent
                       (''preserved BOOX operation manifest is invalid JSON: '' @ e))
              (x_manifest_of_json X bs)) (\<lambda>m.
       if mf_schema_version m \<noteq> 1 \<or> blank (mf_manifest_id m) \<or>
          mf_source m \<noteq> ''boox-neoreader-embedded-pdf'' \<or>
          blank (di_source_file_name (mf_document m)) \<or> blank (di_pdf_sha256 (mf_document m))
       then Inl (InvalidEvent
         ''preserved BOOX operation manifest has an unsupported schema or identity'')
       else if st_original_page_count st \<noteq> 0 \<and>
               di_page_count (mf_document m) \<noteq> st_original_page_count st
       then Inl (InvalidEvent
         (''preserved BOOX operation manifest page count '' @
          show_u64 (di_page_count (mf_document m)) @ '' does not match original page count '' @
          show_u64 (st_original_page_count st)))
       else rbind (validate_conflict_operations st (di_page_count (mf_document m)) []
                     (mf_operations m)) (\<lambda>ops.
              Inr (refresh_manifest_id X
                (m\<lparr>mf_operations := ops, mf_y_offset := y_offset,
                   mf_document :=
                     (mf_document m)\<lparr>di_target_file_names := [supernote_file_name st]\<rparr>,
                   mf_summary := manifest_summary ops 0\<rparr>))))"

text \<open>The operations that turn the active strokes of the covered pages into an export.\<close>

fun export_operations ::
    "stroke_snapshot list \<Rightarrow> (string, stroke_snapshot) bmap \<Rightarrow>
       operation list \<times> usize \<times> (string, stroke_snapshot) bmap" where
  "export_operations [] active = ([], 0, active)"
| "export_operations (s # ss) active =
     (let (ops, unchanged, rest) = export_operations ss (bm_remove (source_uuid s) active)
      in case bm_get active (source_uuid s) of
           Some before \<Rightarrow>
             if snapshot_eq before s then (ops, unchanged + 1, rest)
             else (UpsertStroke (source_uuid s) (page_index s) (Some before) s # ops, unchanged, rest)
         | None \<Rightarrow> (UpsertStroke (source_uuid s) (page_index s) None s # ops, unchanged, rest))"

definition supernote_conflict_operations ::
    "document_state \<Rightarrow> baseline_export \<Rightarrow> operation list \<times> usize" where
  "supernote_conflict_operations st ex =
     (let affected_pages = map bp_page_index (be_pages ex);
          active = bm_of_list
            (map (\<lambda>c. (cs_stroke_id c, cs_snapshot c))
              (filter (\<lambda>c. cs_tombstone c = None \<and> page_index (cs_snapshot c) \<in> set affected_pages)
                (bm_values (st_strokes st))));
          (upserts, unchanged, rest) = export_operations (export_strokes ex) active;
          deletes = map (\<lambda>(u, before). DeleteStroke u (page_index before) before) rest
      in (sort_key op_uuid (upserts @ deletes), unchanged))"

definition supernote_export_manifest ::
    "ext \<Rightarrow> document_state \<Rightarrow> storage_event \<Rightarrow> bytes \<Rightarrow> broker_error + manifest" where
  "supernote_export_manifest X st ev bs =
     rbind (map_err Conversion
              (parse_baseline_bytes (x_envelope_of_json X) bs ''conflict-supernote.json'')) (\<lambda>ex.
     rbind (validate_supernote_export st ev ex) (\<lambda>_.
       let (ops, unchanged) = supernote_conflict_operations st ex
       in Inr (refresh_manifest_id X
            \<lparr>mf_schema_version = 1, mf_manifest_id = ''pending'',
             mf_source = ''supernote-native-conflict-export'',
             mf_document =
               \<lparr>di_source_file_name =
                  (case be_source_file_name ex of Some n \<Rightarrow> n | None \<Rightarrow> supernote_file_name st),
                di_target_file_names = [st_original_file_name st],
                di_page_count = st_original_page_count st,
                di_pdf_sha256 = st_original_pdf_sha256 st\<rparr>,
             mf_y_offset = 0, mf_operations = ops,
             mf_summary = (manifest_summary ops 0)\<lparr>sm_unchanged := unchanged\<rparr>\<rparr>)))"

definition proposed_conflict_manifest ::
    "ext \<Rightarrow> f64 \<Rightarrow> document_state \<Rightarrow> preserved_input \<Rightarrow> bytes \<Rightarrow> broker_error + manifest" where
  "proposed_conflict_manifest X y_offset st c input =
     (let ev = conflict_event c (st_document_id st)
      in case pi_source c of
           Boox \<Rightarrow>
             (case pi_payload_kind c of
                DeviceView \<Rightarrow> boox_to_supernote X y_offset st ev input
              | BooxOperationManifest \<Rightarrow> validate_conflict_boox_manifest X y_offset st input)
         | Supernote \<Rightarrow> supernote_export_manifest X st ev input)"

end
