(* ===== verification/Conflict_Resolve.thy ===== *)
theory Conflict_Resolve
  imports Conflict
begin

text \<open>
  \<open>inkbridge-broker/src/conflict.rs\<close>, second part: the classification of proposed operations
  into safe and overlapping groups, the selection a strategy makes, and \<open>resolve_conflict\<close>
  with its superseding branch.
\<close>

section \<open>Classification\<close>

definition changed_after :: "revision_pair \<Rightarrow> revision_pair \<Rightarrow> bool" where
  "changed_after r baseline \<longleftrightarrow>
     rp_boox baseline < rp_boox r \<or> rp_supernote baseline < rp_supernote r"

definition inherited_rejected_change ::
    "document_state \<Rightarrow> preserved_input \<Rightarrow> string \<Rightarrow> bool" where
  "inherited_rejected_change st c stroke_id =
     (let canonical_revision =
            map_option (\<lambda>k. rp_get (cs_source_revisions k) (pi_source c))
              (bm_get (st_strokes st) stroke_id)
      in list_ex (\<lambda>record.
           rc_source record = pi_source c \<and>
           rp_get (rc_resulting_revisions record) (pi_source c)
             \<le> rp_get (pi_based_on c) (pi_source c) \<and>
           (case canonical_revision of
              None \<Rightarrow> True
            | Some r \<Rightarrow> r \<le> rp_get (rc_resulting_revisions record) (pi_source c)) \<and>
           stroke_id \<in> set (rc_preserved_current_stroke_ids record))
         (bm_values (st_resolved_conflicts st)))"

definition operation_matches_current ::
    "operation list \<Rightarrow> stroke_snapshot \<Rightarrow> operation \<Rightarrow> bool" where
  "operation_matches_current operations current o' =
     (case o' of
        DeleteStroke _ _ before \<Rightarrow> snapshot_eq before current
      | UpsertStroke _ _ (Some before) _ \<Rightarrow> snapshot_eq before current
      | UpsertStroke _ _ None _ \<Rightarrow>
          list_ex (\<lambda>candidate. case candidate of
                     DeleteStroke _ _ before \<Rightarrow> snapshot_eq before current
                   | UpsertStroke _ _ _ _ \<Rightarrow> False) operations)"

definition operations_match_current ::
    "operation list \<Rightarrow> stroke_snapshot option \<Rightarrow> bool" where
  "operations_match_current operations current =
     (case current of
        None \<Rightarrow> list_all (\<lambda>o'. is_upsert o' \<and> op_prior o' = None) operations
      | Some c \<Rightarrow> list_all (operation_matches_current operations c) operations)"

definition first_delete :: "operation list \<Rightarrow> stroke_snapshot option" where
  "first_delete operations = map_option op_before (find (\<lambda>o'. \<not> is_upsert o') operations)"

definition first_upsert ::
    "operation list \<Rightarrow> (stroke_snapshot option \<times> stroke_snapshot) option" where
  "first_upsert operations =
     map_option (\<lambda>o'. (op_prior o', op_after o')) (find is_upsert operations)"

definition samples_eq :: "sample list \<Rightarrow> sample list \<Rightarrow> bool" where
  "samples_eq a b = list_all2 sample_eq a b"

definition change_of ::
    "stroke_snapshot option \<Rightarrow> (stroke_snapshot option \<times> stroke_snapshot) option \<Rightarrow>
       (change_kind \<times> u32) option" where
  "change_of deleted upserted =
     (case (deleted, upserted) of
        (Some before, Some (None, after)) \<Rightarrow>
          if page_index before \<noteq> page_index after then Some (Move, page_index after) else None
      | (None, Some (None, after)) \<Rightarrow> Some (Add, page_index after)
      | (None, Some (Some before, after)) \<Rightarrow>
          if native_style before = native_style after \<and>
             (page_index before \<noteq> page_index after \<or> \<not> samples_eq (samples before) (samples after))
          then Some (Move, page_index after) else Some (Update, page_index after)
      | (Some before, None) \<Rightarrow> Some (Delete, page_index before)
      | _ \<Rightarrow> None)"

definition describe_change :: "string \<Rightarrow> operation list \<Rightarrow> broker_error + stroke_change" where
  "describe_change stroke_id operations =
     (case change_of (first_delete operations) (first_upsert operations) of
        Some (kind, page) \<Rightarrow>
          Inr \<lparr>ch_stroke_id = stroke_id, ch_kind = kind, ch_page_index = page\<rparr>
      | None \<Rightarrow>
          Inl (Conversion (''conflict contains an unsupported operation set for '' @ stroke_id)))"

definition unchanged_since_baseline ::
    "document_state \<Rightarrow> preserved_input \<Rightarrow> string \<Rightarrow> change_kind \<Rightarrow> bool" where
  "unchanged_since_baseline st c stroke_id kind =
     (case (kind, bm_get (st_strokes st) stroke_id) of
        (Add, canonical) \<Rightarrow> canonical = None
      | (_, None) \<Rightarrow> False
      | (_, Some k) \<Rightarrow>
          cs_tombstone k = None \<and> \<not> changed_after (cs_source_revisions k) (pi_based_on c))"

definition classify_group ::
    "document_state \<Rightarrow> preserved_input \<Rightarrow> string \<times> operation list \<Rightarrow>
       broker_error + operation_group" where
  "classify_group st c entry =
     (case entry of (stroke_id, operations) \<Rightarrow>
        rbind (describe_change stroke_id operations) (\<lambda>change.
          Inr \<lparr>og_change = change, og_operations = operations,
               og_safe =
                 unchanged_since_baseline st c stroke_id (ch_kind change) \<and>
                 \<not> inherited_rejected_change st c stroke_id \<and>
                 operations_match_current operations
                   (map_option cs_snapshot (bm_get (st_strokes st) stroke_id))\<rparr>))"

definition group_operation ::
    "operation \<Rightarrow> (string, operation list) bmap \<Rightarrow> (string, operation list) bmap" where
  "group_operation o' grouped =
     bm_insert (op_uuid o')
       ((case bm_get grouped (op_uuid o') of Some l \<Rightarrow> l | None \<Rightarrow> []) @ [o']) grouped"

definition classify_operations ::
    "document_state \<Rightarrow> preserved_input \<Rightarrow> operation list \<Rightarrow> broker_error + operation_group list" where
  "classify_operations st c operations =
     try_map (classify_group st c) (fold group_operation operations [])"

definition analysis_from_groups ::
    "conflict_context \<Rightarrow> operation_group list \<Rightarrow> conflict_analysis" where
  "analysis_from_groups cc groups =
     \<lparr>an_document_id = st_document_id (cc_state cc),
      an_conflict_event_id = pi_event_id (cc_conflict cc), an_source = pi_source (cc_conflict cc),
      an_source_revision = pi_source_revision (cc_conflict cc),
      an_based_on = pi_based_on (cc_conflict cc),
      an_current_revisions = revisions (cc_state cc),
      an_state_revision = st_state_revision (cc_state cc),
      an_safe_changes = map og_change (filter og_safe groups),
      an_overlapping_changes = map og_change (filter (\<lambda>g. \<not> og_safe g) groups)\<rparr>"

definition inspect_conflict ::
    "'s storage_ops \<Rightarrow> ext \<Rightarrow> f64 \<Rightarrow> 's \<Rightarrow> string \<Rightarrow> string \<Rightarrow> broker_error + conflict_analysis" where
  "inspect_conflict ops X y_offset s document_id conflict_event_id =
     rbind (load_context ops X s document_id conflict_event_id) (\<lambda>cc.
     rbind (proposed_conflict_manifest X y_offset (cc_state cc) (cc_conflict cc)
              (so_bytes (cc_input cc))) (\<lambda>m.
     rbind (classify_operations (cc_state cc) (cc_conflict cc) (mf_operations m)) (\<lambda>groups.
       Inr (analysis_from_groups cc groups))))"

section \<open>Selection\<close>

definition applies :: "strategy \<Rightarrow> operation_group \<Rightarrow> bool" where
  "applies strategy g =
     (case strategy of
        KeepCurrent \<Rightarrow> False | AcceptIncoming \<Rightarrow> True | MergePreservingCurrent \<Rightarrow> og_safe g)"

definition select_operations ::
    "operation_group list \<Rightarrow> strategy \<Rightarrow> operation list \<times> string list \<times> string list" where
  "select_operations groups strategy =
     (concat (map og_operations (filter (applies strategy) groups)),
      map (ch_stroke_id \<circ> og_change) (filter (applies strategy) groups),
      map (ch_stroke_id \<circ> og_change) (filter (\<lambda>g. \<not> applies strategy g) groups))"

section \<open>Requests\<close>

definition validate_resolution_request :: "resolution_request \<Rightarrow> broker_error + unit" where
  "validate_resolution_request rq =
     (if rq_schema_version rq \<noteq> resolution_schema_version then
        Inl (InvalidEvent (''unsupported conflict resolution schema version '' @
                           show_u32 (rq_schema_version rq)))
      else if blank (rq_resolution_id rq) \<or> blank (rq_document_id rq) \<or>
              blank (rq_conflict_event_id rq)
      then Inl (InvalidEvent ''resolution id, document id, and conflict event id are required'')
      else Inr ())"

text \<open>The answer for a conflict that is already resolved.\<close>

definition recorded_resolution ::
    "resolution_request \<Rightarrow> resolution_record \<Rightarrow> broker_error + resolution_outcome" where
  "recorded_resolution rq record =
     (if rc_resolution_id record = rq_resolution_id rq \<and> rc_strategy record = rq_strategy rq then
        Inr (DuplicateResolution (rq_document_id rq) (rq_conflict_event_id rq)
               (rq_resolution_id rq) (rc_strategy record))
      else if rc_resolution_id record = rq_resolution_id rq then
        Inl (InvalidEvent
          (''resolution ID '' @ rq_resolution_id rq @ '' already recorded strategy '' @
           show_strategy (rc_strategy record) @ ''; requested '' @ show_strategy (rq_strategy rq)))
      else Inl (InvalidEvent
          (''conflict '' @ rq_conflict_event_id rq @ '' was already resolved by '' @
           rc_resolution_id record)))"

definition check_expected_state ::
    "resolution_request \<Rightarrow> document_state \<Rightarrow> broker_error + unit" where
  "check_expected_state rq st =
     ensure (st_state_revision st = rq_expected_state_revision rq \<and>
             revisions st = rq_expected_current_revisions rq)
       (InvalidEvent
         (''conflict analysis is stale: expected state revision '' @
          show_u64 (rq_expected_state_revision rq) @ '' at '' @
          show_revisions (rq_expected_current_revisions rq) @ '', found '' @
          show_u64 (st_state_revision st) @ '' at '' @ show_revisions (revisions st)))"

text \<open>\<open>min_by_key\<close>: the first candidate with the least key.\<close>

definition earlier_conflict :: "document_state \<Rightarrow> preserved_input \<Rightarrow> preserved_input option" where
  "earlier_conflict st c =
     (let candidates = filter (\<lambda>k. pi_source k = pi_source c \<and> pi_event_id k \<noteq> pi_event_id c \<and>
                                   pi_source_revision k < pi_source_revision c) (st_conflicts st)
      in case sort_key (\<lambda>k. (pi_source_revision k, pi_event_id k)) candidates of
           [] \<Rightarrow> None
         | k # _ \<Rightarrow> Some k)"

definition ensure_incremental_conflict_resolution_order ::
    "document_state \<Rightarrow> preserved_input \<Rightarrow> broker_error + unit" where
  "ensure_incremental_conflict_resolution_order st c =
     (if pi_source c \<noteq> Supernote \<and> pi_payload_kind c \<noteq> BooxOperationManifest then Inr ()
      else case earlier_conflict st c of
        Some predecessor \<Rightarrow>
          Inl (InvalidEvent
            (''incremental conflict '' @ pi_event_id c @ '' at source revision '' @
             show_u64 (pi_source_revision c) @
             '' cannot be resolved before earlier active conflict '' @ pi_event_id predecessor @
             '' at source revision '' @ show_u64 (pi_source_revision predecessor) @
             ''; resolve the earlier conflict first''))
      | None \<Rightarrow>
          let current = dr_revision (device st (pi_source c));
              required = rp_get (pi_based_on c) (pi_source c)
          in if current < pi_source_revision c \<and> current \<noteq> required then
               Inl (InvalidEvent
                 (''incremental conflict '' @ pi_event_id c @ '' at source revision '' @
                  show_u64 (pi_source_revision c) @ '' cannot be resolved while the current '' @
                  show_side (pi_source c) @ '' revision is '' @ show_u64 current @
                  ''; wait for its immediate predecessor revision '' @ show_u64 required))
             else Inr ())"

section \<open>Resolution\<close>

definition conflict_resolution_path :: "sha \<Rightarrow> string \<Rightarrow> string \<Rightarrow> string" where
  "conflict_resolution_path sha document_id conflict_event_id =
     ''Conflicts/'' @ document_id @ ''/'' @ event_path_segment sha conflict_event_id @
     ''/resolution.json''"

definition remove_conflict :: "string \<Rightarrow> document_state \<Rightarrow> document_state" where
  "remove_conflict conflict_event_id st =
     st\<lparr>st_conflicts := filter (\<lambda>c. pi_event_id c \<noteq> conflict_event_id) (st_conflicts st)\<rparr>"

definition record_resolution :: "resolution_record \<Rightarrow> document_state \<Rightarrow> document_state" where
  "record_resolution record st =
     st\<lparr>st_resolved_conflicts :=
          bm_insert (rc_conflict_event_id record) record (st_resolved_conflicts st)\<rparr>"

text \<open>The write of the resolution marker, a JSON copy of the record.\<close>

definition marker_write ::
    "ext \<Rightarrow> resolution_request \<Rightarrow> resolution_record \<Rightarrow> broker_error + conditional_write" where
  "marker_write X rq record =
     rbind (map_err CorruptState (x_resolution_to_json X record)) (\<lambda>bs.
       Inr \<lparr>cw_path = rc_marker_path record, cw_bytes = add_newline bs,
            cw_metadata =
              bm_of_list
                [(generated_by_key, broker_producer),
                 (generated_document_key, rq_document_id rq),
                 (generated_event_key, rq_resolution_id rq),
                 (''inkbridge-kind'', ''conflict-resolution''),
                 (''inkbridge-conflict-event-id'', rq_conflict_event_id rq)],
            cw_precondition = DoesNotExist\<rparr>)"

definition superseded_record ::
    "ext \<Rightarrow> resolution_request \<Rightarrow> conflict_context \<Rightarrow> resolution_record" where
  "superseded_record X rq cc =
     \<lparr>rc_resolution_id = rq_resolution_id rq, rc_conflict_event_id = rq_conflict_event_id rq,
      rc_strategy = rq_strategy rq, rc_superseded = True, rc_source = pi_source (cc_conflict cc),
      rc_previous_revisions = revisions (cc_state cc),
      rc_resulting_revisions = revisions (cc_state cc),
      rc_applied_stroke_ids = [], rc_preserved_current_stroke_ids = [],
      rc_marker_path =
        conflict_resolution_path (x_sha X) (rq_document_id rq) (rq_conflict_event_id rq)\<rparr>"

definition superseded_state ::
    "ext \<Rightarrow> resolution_request \<Rightarrow> conflict_context \<Rightarrow> document_state" where
  "superseded_state X rq cc =
     record_resolution (superseded_record X rq cc)
       (remove_conflict (rq_conflict_event_id rq)
         ((cc_state cc)\<lparr>st_state_revision := st_state_revision (cc_state cc) + 1\<rparr>))"

definition supersede_conflict ::
    "'s storage_ops \<Rightarrow> ext \<Rightarrow> 's \<Rightarrow> conflict_context \<Rightarrow> resolution_request \<Rightarrow>
       's \<times> (broker_error + resolution_outcome)" where
  "supersede_conflict ops X s cc rq =
     attempt s (marker_write X rq (superseded_record X rq cc)) (\<lambda>marker.
     attempt s (state_write X (state_path (rq_document_id rq)) (superseded_state X rq cc)
                  (Match (so_generation (cc_state_object cc)))) (\<lambda>w.
     and_then (commit ops s [marker, w]) (\<lambda>s' _.
       (s', Inr (Superseded (rq_document_id rq) (rq_conflict_event_id rq) (rq_resolution_id rq)
                   (revisions (cc_state cc)))))))"

text \<open>An advancing resolution consumes the preserved source revision.\<close>

definition consumed_device ::
    "conflict_context \<Rightarrow> manifest \<Rightarrow> device_revision \<Rightarrow> device_revision" where
  "consumed_device cc proposed d =
     d\<lparr>dr_revision := pi_source_revision (cc_conflict cc),
       dr_content_sha256 := pi_content_sha256 (cc_conflict cc),
       dr_source_generation := so_generation (cc_input cc),
       dr_source_object_path := pi_preserved_path (cc_conflict cc),
       dr_accepted_object_path := [],
       dr_source_file_name := Some (di_source_file_name (mf_document proposed))\<rparr>"

definition consume_conflict ::
    "conflict_context \<Rightarrow> manifest \<Rightarrow> document_state \<Rightarrow> document_state" where
  "consume_conflict cc proposed st =
     (update_device (pi_source (cc_conflict cc)) (consumed_device cc proposed) st)
       \<lparr>st_source_generations :=
          bm_insert (pi_preserved_path (cc_conflict cc)) (so_generation (cc_input cc))
            (st_source_generations st)\<rparr>"

definition resolution_event :: "resolution_request \<Rightarrow> conflict_context \<Rightarrow> storage_event" where
  "resolution_event rq cc =
     (conflict_event (cc_conflict cc) (rq_document_id rq))
       \<lparr>ev_event_id := rq_resolution_id rq, ev_based_on := revisions (cc_state cc)\<rparr>"

definition selected_manifest ::
    "ext \<Rightarrow> manifest \<Rightarrow> operation list \<Rightarrow> string list \<Rightarrow> manifest" where
  "selected_manifest X proposed ops preserved_ids =
     refresh_manifest_id X
       (proposed\<lparr>mf_operations := ops,
                 mf_summary := manifest_summary ops (of_nat (length preserved_ids))\<rparr>)"

definition applied_selection ::
    "ext \<Rightarrow> resolution_request \<Rightarrow> conflict_context \<Rightarrow> manifest \<Rightarrow> operation_group list \<Rightarrow>
       document_state" where
  "applied_selection X rq cc proposed groups =
     (let (ops, applied, preserved) = select_operations groups (rq_strategy rq)
      in if rq_strategy rq = KeepCurrent then cc_state cc
         else apply_manifest (resolution_event rq cc) (selected_manifest X proposed ops preserved)
                (cc_state cc))"

definition is_equal_revision :: "conflict_context \<Rightarrow> bool" where
  "is_equal_revision cc \<longleftrightarrow>
     pi_source_revision (cc_conflict cc) = dr_revision (device (cc_state cc) (pi_source (cc_conflict cc)))"

definition resolved_ink ::
    "ext \<Rightarrow> resolution_request \<Rightarrow> conflict_context \<Rightarrow> manifest \<Rightarrow> operation_group list \<Rightarrow>
       document_state" where
  "resolved_ink X rq cc proposed groups =
     (let selected = applied_selection X rq cc proposed groups;
          st = (if is_equal_revision cc then selected else consume_conflict cc proposed selected)
      in remove_conflict (rq_conflict_event_id rq)
           (st\<lparr>st_last_common_revisions := revisions st,
               st_state_revision := st_state_revision st + 1\<rparr>))"

definition resolution_destination_precondition ::
    "ext \<Rightarrow> document_state \<Rightarrow> preserved_input \<Rightarrow> string \<Rightarrow> stored_object option \<Rightarrow>
       broker_error + precondition" where
  "resolution_destination_precondition X previous c path destination =
     (case destination of
        Some object \<Rightarrow>
          if pi_source c = Boox \<and> pi_payload_kind c = DeviceView \<and> pi_object_path c = path \<and>
             so_generation object = pi_source_generation c \<and>
             hex X (so_bytes object) = pi_content_sha256 c
          then Inr (Match (so_generation object))
          else destination_precondition X previous path destination
      | None \<Rightarrow> destination_precondition X previous path destination)"

text \<open>\<open>build_resolution_manifest\<close>: a page file of the export overwrites the one of the previous
  state, and its path is added once.\<close>

definition add_path :: "string list \<Rightarrow> string \<Rightarrow> string list" where
  "add_path baselines path = (if path \<in> set baselines then baselines else baselines @ [path])"

definition resolution_baselines ::
    "ext \<Rightarrow> document_state \<Rightarrow> preserved_input \<Rightarrow> bytes \<Rightarrow> broker_error + string list \<times> files" where
  "resolution_baselines X previous c input =
     rbind (write_baselines X previous []) (\<lambda>(baselines, fs).
       if pi_source c = Supernote then
         rbind (map_err Conversion
                  (parse_baseline_bytes (x_envelope_of_json X) input (pi_object_path c))) (\<lambda>ex.
         rbind (write_baseline_export_pages X
                  (case be_source_file_name ex of
                     Some n \<Rightarrow> n | None \<Rightarrow> supernote_file_name previous) (be_pages ex) fs)
           (\<lambda>(paths, fs'). Inr (foldl add_path baselines paths, fs')))
       else Inr (baselines, fs))"

definition build_resolution_manifest ::
    "ext \<Rightarrow> f64 \<Rightarrow> document_state \<Rightarrow> document_state \<Rightarrow> preserved_input \<Rightarrow> bytes \<Rightarrow> bytes \<Rightarrow>
       broker_error + manifest" where
  "build_resolution_manifest X y_offset previous resulting c input boox_pdf =
     rbind (resolution_baselines X previous c input) (\<lambda>baselines.
     rbind (convert_pdf X y_offset ''resolved.pdf'' boox_pdf baselines) (\<lambda>m.
       Inr (refresh_manifest_id X
         (m\<lparr>mf_document :=
             (mf_document m)\<lparr>di_target_file_names := [supernote_file_name resulting]\<rparr>\<rparr>))))"

definition resolved_record ::
    "ext \<Rightarrow> resolution_request \<Rightarrow> conflict_context \<Rightarrow> operation_group list \<Rightarrow> revision_pair \<Rightarrow>
       resolution_record" where
  "resolved_record X rq cc groups resulting =
     (case select_operations groups (rq_strategy rq) of (ops, applied, preserved) \<Rightarrow>
        \<lparr>rc_resolution_id = rq_resolution_id rq, rc_conflict_event_id = rq_conflict_event_id rq,
         rc_strategy = rq_strategy rq, rc_superseded = False, rc_source = pi_source (cc_conflict cc),
         rc_previous_revisions = revisions (cc_state cc), rc_resulting_revisions = resulting,
         rc_applied_stroke_ids = applied, rc_preserved_current_stroke_ids = preserved,
         rc_marker_path =
           conflict_resolution_path (x_sha X) (rq_document_id rq) (rq_conflict_event_id rq)\<rparr>)"

text \<open>The output for the Supernote, when the resolution changes anything there.\<close>

definition supernote_resolution_output ::
    "ext \<Rightarrow> resolution_request \<Rightarrow> output_marker \<Rightarrow> manifest \<Rightarrow> document_state \<Rightarrow>
       broker_error + conditional_write list \<times> document_state" where
  "supernote_resolution_output X rq marker m st =
     (if mf_operations m = [] then Inr ([], st)
      else rbind (map_err Conversion (x_manifest_to_json X m)) (\<lambda>json.
        let path = supernote_manifest_path (x_sha X) (rq_document_id rq) (rq_resolution_id rq);
            bs = add_newline json; hash = hex X bs
        in Inr ([\<lparr>cw_path = path, cw_bytes = bs, cw_metadata = output_metadata marker hash,
                  cw_precondition = DoesNotExist\<rparr>],
                record_view path hash (rq_resolution_id rq) (om_source_revisions marker) st)))"

definition resolution_outputs :: "conditional_write list \<Rightarrow> stored_object list \<Rightarrow> resolution_output list" where
  "resolution_outputs writes objs =
     map (\<lambda>(side, w, obj). \<lparr>ro_side = side, ro_object_path = cw_path w,
                             ro_generation = so_generation obj\<rparr>)
       (zip [Boox, Supernote] (zip writes objs))"

definition resolution_marker :: "resolution_request \<Rightarrow> revision_pair \<Rightarrow> output_marker" where
  "resolution_marker rq resulting =
     \<lparr>om_producer = broker_producer, om_event_id = rq_resolution_id rq,
      om_document_id = rq_document_id rq, om_source_revisions = resulting\<rparr>"

text \<open>From the resolved state on: views, marker, state and their commit.\<close>

definition commit_resolution ::
    "'s storage_ops \<Rightarrow> ext \<Rightarrow> f64 \<Rightarrow> 's \<Rightarrow> conflict_context \<Rightarrow> resolution_request \<Rightarrow>
       operation_group list \<Rightarrow> document_state \<Rightarrow> 's \<times> (broker_error + resolution_outcome)" where
  "commit_resolution ops X y_offset s cc rq groups st =
     (let resulting = revisions st;
          marker = resolution_marker rq resulting;
          record = resolved_record X rq cc groups resulting;
          boox_path = boox_view_path st
      in attempt s (read_original ops X s st) (\<lambda>original.
         attempt s (map_err Conversion
           (x_write_boox_view X (so_bytes original) (active_strokes st) (tombstone_ids st))) (\<lambda>pdf.
         attempt s (build_resolution_manifest X y_offset (cc_state cc) st (cc_conflict cc)
                      (so_bytes (cc_input cc)) pdf) (\<lambda>m.
         attempt s (map_err StorageError (bs_read ops s boox_path)) (\<lambda>destination.
         attempt s (resolution_destination_precondition X (cc_state cc) (cc_conflict cc) boox_path
                      destination) (\<lambda>pre.
           let hash = hex X pdf;
               view = \<lparr>cw_path = boox_path, cw_bytes = pdf,
                       cw_metadata = output_metadata marker hash, cw_precondition = pre\<rparr>
           in attempt s (supernote_resolution_output X rq marker m
                (record_view boox_path hash (rq_resolution_id rq) resulting st)) (\<lambda>(extra, st').
              attempt s (marker_write X rq record) (\<lambda>mark.
              attempt s (state_write X (state_path (rq_document_id rq)) (record_resolution record st')
                           (Match (so_generation (cc_state_object cc)))) (\<lambda>w.
              and_then (commit ops s (view # extra @ [mark, w])) (\<lambda>s' objs.
                (s', Inr (Resolved (rq_document_id rq) (rq_conflict_event_id rq)
                       (rq_resolution_id rq) (rq_strategy rq) resulting
                       (rc_applied_stroke_ids record) (rc_preserved_current_stroke_ids record)
                       (resolution_outputs (view # extra) objs)))))))))))))"

definition resolve_in_context ::
    "'s storage_ops \<Rightarrow> ext \<Rightarrow> f64 \<Rightarrow> 's \<Rightarrow> conflict_context \<Rightarrow> resolution_request \<Rightarrow>
       's \<times> (broker_error + resolution_outcome)" where
  "resolve_in_context ops X y_offset s cc rq =
     (let c = cc_conflict cc; current = dr_revision (device (cc_state cc) (pi_source c))
      in if pi_source_revision c < current then supersede_conflict ops X s cc rq
         else if is_equal_revision cc \<and> rq_strategy rq \<noteq> KeepCurrent then
           (s, Inl (InvalidEvent
             (''conflict '' @ pi_event_id c @ '' is an alternate payload for already accepted '' @
              show_side (pi_source c) @ '' revision '' @ show_u64 current @
              ''; only keep_current is safe, and incoming changes must be re-exported as a newer revision'')))
         else attempt s (ensure_incremental_conflict_resolution_order (cc_state cc) c) (\<lambda>_.
              attempt s (proposed_conflict_manifest X y_offset (cc_state cc) c
                           (so_bytes (cc_input cc))) (\<lambda>proposed.
              attempt s (classify_operations (cc_state cc) c (mf_operations proposed)) (\<lambda>groups.
                commit_resolution ops X y_offset s cc rq groups
                  (resolved_ink X rq cc proposed groups)))))"

definition resolve_conflict ::
    "'s storage_ops \<Rightarrow> ext \<Rightarrow> f64 \<Rightarrow> 's \<Rightarrow> resolution_request \<Rightarrow>
       's \<times> (broker_error + resolution_outcome)" where
  "resolve_conflict ops X y_offset s rq =
     attempt s (validate_resolution_request rq) (\<lambda>_.
     attempt s (load_state ops X s (rq_document_id rq)) (\<lambda>(object, st).
       case bm_get (st_resolved_conflicts st) (rq_conflict_event_id rq) of
         Some record \<Rightarrow> (s, recorded_resolution rq record)
       | None \<Rightarrow>
           attempt s (check_expected_state rq st) (\<lambda>_.
           attempt s (load_context_from_state ops X s object st (rq_conflict_event_id rq)) (\<lambda>cc.
             resolve_in_context ops X y_offset s cc rq))))"

end
