(* ===== verification/Document_Facts.thy ===== *)
theory Document_Facts
  imports Broker_Facts Conflict_Resolve
begin

text \<open>
  Facts about single steps on a canonical document: which strokes an accepted input touches
  and how it stamps them, that no stroke is ever dropped, and what \<open>resolve_conflict\<close> commits
  (\<open>resolution_plan\<close>, the counterpart of \<open>event_plan\<close>).
\<close>

section \<open>Stamps\<close>

text \<open>A stroke written or deleted for an event.\<close>

definition stamped :: "storage_event \<Rightarrow> canonical_stroke \<Rightarrow> bool" where
  "stamped ev c \<longleftrightarrow>
     cs_source_revisions c = next_revisions ev \<and> cs_last_modified_by c = ev_source ev \<and>
     (cs_tombstone c = None \<or> cs_tombstone c = Some (event_tombstone ev))"

lemma stamped_intros [simp]: "stamped ev (written_stroke ev u s)" "stamped ev (tombstone_stroke ev c)"
  by (simp_all add: stamped_def written_stroke_def tombstone_stroke_def)

definition touches_only :: "storage_event \<Rightarrow> document_state \<Rightarrow> document_state \<Rightarrow> bool" where
  "touches_only ev st st' \<longleftrightarrow>
     (\<forall>u. (bm_get (st_strokes st') u = bm_get (st_strokes st) u \<or>
           (\<exists>c. bm_get (st_strokes st') u = Some c \<and> stamped ev c)))"

lemma touches_only_cases:
  "touches_only ev st st' \<Longrightarrow> bm_get (st_strokes st') u = Some c \<Longrightarrow>
     bm_get (st_strokes st) u = Some c \<or> stamped ev c"
  by (auto simp: touches_only_def) (metis option.inject)

lemma touches_only_keeps:
  "touches_only ev st st' \<Longrightarrow> bm_has (st_strokes st) u \<Longrightarrow> bm_has (st_strokes st') u"
  by (auto simp: touches_only_def bm_has_iff) metis

lemma apply_manifest_touches: "touches_only ev st (apply_manifest ev m st)"
  by (auto simp: touches_only_def apply_manifest_get stroke_after_manifest_def split: option.splits)

lemma apply_supernote_export_lookup:
  assumes "apply_supernote_export X ev bs st = Inr st'"
  shows "\<exists>ex. parse_baseline_bytes (x_envelope_of_json X) bs (ev_object_path ev) = Inr ex \<and>
    validate_supernote_export st ev ex = Inr () \<and>
    (\<forall>u. bm_get (st_strokes st') u = stroke_after_export ev ex u (bm_get (st_strokes st) u))"
  by (rule apply_supernote_export_ok [OF assms]) auto

lemma apply_supernote_export_strokes_wf:
  assumes "apply_supernote_export X ev bs st = Inr st'" and "bm_wf (st_strokes st)"
  shows "bm_wf (st_strokes st')"
  by (rule apply_supernote_export_ok [OF assms(1)]) (use assms(2) in auto)

lemma apply_supernote_export_frame:
  assumes "apply_supernote_export X ev bs st = Inr st'"
  shows "\<exists>n. st' = (case n of
      Some n \<Rightarrow> update_device Supernote (\<lambda>d. d\<lparr>dr_source_file_name := Some n\<rparr>) st
    | None \<Rightarrow> st)\<lparr>st_strokes := st_strokes st'\<rparr>"
  by (rule apply_supernote_export_ok [OF assms]) (rule exI)

lemma apply_supernote_export_touches:
  assumes "apply_supernote_export X ev bs st = Inr st'"
  shows "touches_only ev st st'"
proof -
  obtain ex where
    get: "\<And>u. bm_get (st_strokes st') u = stroke_after_export ev ex u (bm_get (st_strokes st) u)"
    using apply_supernote_export_lookup [OF assms] by auto
  have "stroke_after_export ev ex u cur = cur \<or>
      (\<exists>c. stroke_after_export ev ex u cur = Some c \<and> stamped ev c)" for u cur
    by (cases cur) (auto simp: stroke_after_export_def tombstone_missing_def split: option.splits)
  then show ?thesis by (simp add: touches_only_def get)
qed

lemma apply_supernote_export_ids:
  assumes "apply_supernote_export X ev bs st = Inr st'"
    and "\<And>u c. bm_get (st_strokes st) u = Some c \<Longrightarrow> cs_stroke_id c = u"
    and "bm_get (st_strokes st') u = Some c"
  shows "cs_stroke_id c = u"
proof -
  obtain ex where
    get: "\<And>u. bm_get (st_strokes st') u = stroke_after_export ev ex u (bm_get (st_strokes st) u)"
    using apply_supernote_export_lookup [OF assms(1)] by auto
  show ?thesis
    using assms(2,3) unfolding get
    by (auto simp: stroke_after_export_def tombstone_missing_def tombstone_stroke_def
        written_stroke_def split: option.splits if_splits)
qed

section \<open>The output of an accepted input\<close>

text \<open>What \<open>device_output\<close> may change: strokes, and the name of the Supernote document.\<close>

definition ink_only :: "document_state \<Rightarrow> document_state \<Rightarrow> bool" where
  "ink_only st st' \<longleftrightarrow>
     (\<exists>strokes name. st' = (update_device Supernote (\<lambda>d. d\<lparr>dr_source_file_name := name\<rparr>) st)
                            \<lparr>st_strokes := strokes\<rparr>)"

lemma update_name_same:
  "update_device Supernote
     (\<lambda>d. d\<lparr>dr_source_file_name := dr_source_file_name (st_supernote st)\<rparr>) st = st"
  by (simp add: update_device_def)

lemma ink_only_strokes: "ink_only st (st\<lparr>st_strokes := strokes\<rparr>)"
  unfolding ink_only_def
  by (intro exI [of _ strokes] exI [of _ "dr_source_file_name (st_supernote st)"])
    (simp add: update_name_same)

lemma ink_only_manifest: "ink_only st (apply_manifest ev m st)"
  by (simp add: apply_manifest_def Let_def ink_only_strokes)

lemma ink_only_export:
  assumes "apply_supernote_export X ev bs st = Inr st'"
  shows "ink_only st st'"
proof -
  from apply_supernote_export_frame [OF assms] obtain n where
    st': "st' = (case n of
      Some n \<Rightarrow> update_device Supernote (\<lambda>d. d\<lparr>dr_source_file_name := Some n\<rparr>) st
    | None \<Rightarrow> st)\<lparr>st_strokes := st_strokes st'\<rparr>" ..
  show ?thesis
  proof (cases n)
    case None
    then show ?thesis using st' ink_only_strokes by (metis option.simps(4))
  next
    case (Some n)
    then show ?thesis using st' by (auto simp: ink_only_def)
  qed
qed

lemma device_output_cases:
  assumes "device_output ops X y s st ev input = Inr (st', path, bs, name)"
  obtains
    (boox) m where "ev_source ev = Boox" "st' = apply_manifest ev m st"
      "path = supernote_manifest_path (x_sha X) (ev_document_id ev) (ev_event_id ev)"
      "case ev_payload_kind ev of
         DeviceView \<Rightarrow> boox_to_supernote X y st ev input = Inr m
       | BooxOperationManifest \<Rightarrow> validate_boox_manifest X y st input = Inr m"
  | (supernote) original where "ev_source ev = Supernote"
      "apply_supernote_export X ev input st = Inr st'" "path = boox_view_path st'"
      "read_original ops X s st' = Inr original"
      "x_write_boox_view X (so_bytes original) (active_strokes st') (tombstone_ids st') = Inr bs"
proof (cases "ev_source ev")
  case Boox
  with assms boox show thesis
    by (cases "ev_payload_kind ev")
      (auto simp: device_output_def boox_output_def rbind_eq_Inr_iff map_err_eq_Inr_iff)
next
  case Supernote
  with assms supernote show thesis
    by (auto simp: device_output_def supernote_output_def rbind_eq_Inr_iff map_err_eq_Inr_iff)
qed

lemma device_output_touches:
  "device_output ops X y s st ev input = Inr (st', path, bs, name) \<Longrightarrow> touches_only ev st st'"
  by (erule device_output_cases) (auto intro: apply_manifest_touches apply_supernote_export_touches)

lemma device_output_ink_only:
  "device_output ops X y s st ev input = Inr (st', path, bs, name) \<Longrightarrow> ink_only st st'"
  by (erule device_output_cases) (auto intro: ink_only_manifest ink_only_export)

lemma ink_only_frame:
  assumes "ink_only st st'"
  shows "revisions st' = revisions st"
    and "dr_revision (device st' side) = dr_revision (device st side)"
    and "st_document_id st' = st_document_id st" "st_schema_version st' = st_schema_version st"
    and "st_state_revision st' = st_state_revision st" "st_conflicts st' = st_conflicts st"
    and "st_processed_event_ids st' = st_processed_event_ids st"
    and "st_resolved_conflicts st' = st_resolved_conflicts st"
    and "st_generated_views st' = st_generated_views st"
    and "st_source_generations st' = st_source_generations st"
    and "st_last_common_revisions st' = st_last_common_revisions st"
  using assms by (auto simp: ink_only_def revisions_def update_device_def device_def
      split: device_side.split)

lemma state_wf_ink_only:
  assumes "ink_only st st'" and "state_wf st" and "bm_wf (st_strokes st')"
    and "\<And>u c. bm_get (st_strokes st') u = Some c \<Longrightarrow> cs_stroke_id c = u"
  shows "state_wf st'"
  using assms(2-4) by (simp add: state_wf_def ink_only_frame [OF assms(1)])

lemma state_wf_ids: "state_wf st \<Longrightarrow> bm_get (st_strokes st) u = Some c \<Longrightarrow> cs_stroke_id c = u"
  by (simp add: state_wf_def)

lemma state_wf_strokes: "state_wf st \<Longrightarrow> bm_wf (st_strokes st)"
  by (simp add: state_wf_def)

lemma state_wf_manifest: "state_wf st \<Longrightarrow> state_wf (apply_manifest ev m st)"
  by (rule state_wf_ink_only [OF ink_only_manifest])
    (auto intro: apply_manifest_strokes_wf state_wf_strokes apply_manifest_ids state_wf_ids)

lemma state_wf_export:
  "apply_supernote_export X ev bs st = Inr st' \<Longrightarrow> state_wf st \<Longrightarrow> state_wf st'"
  by (rule state_wf_ink_only [OF ink_only_export])
    (auto intro: apply_supernote_export_strokes_wf state_wf_strokes
      elim: apply_supernote_export_ids state_wf_ids)

lemma device_output_wf:
  "device_output ops X y s st ev input = Inr (st', path, bs, name) \<Longrightarrow> state_wf st \<Longrightarrow> state_wf st'"
  by (erule device_output_cases) (auto intro: state_wf_manifest state_wf_export)

section \<open>What a resolution commits\<close>

text \<open>\<open>resolution_plan ops X y s rq cc ws out st'\<close>: for the request \<open>rq\<close> and the conflict loaded in
  \<open>cc\<close>, the broker answers \<open>out\<close> and commits \<open>ws\<close> together with the state \<open>st'\<close>.\<close>

inductive resolution_plan ::
    "'s storage_ops \<Rightarrow> ext \<Rightarrow> f64 \<Rightarrow> 's \<Rightarrow> resolution_request \<Rightarrow> conflict_context \<Rightarrow>
       conditional_write list \<Rightarrow> resolution_outcome \<Rightarrow> document_state \<Rightarrow> bool"
  for ops X y s rq cc where
  superseded:
    "pi_source_revision (cc_conflict cc) < dr_revision (device (cc_state cc) (pi_source (cc_conflict cc))) \<Longrightarrow>
     marker_write X rq (superseded_record X rq cc) = Inr mark \<Longrightarrow>
       resolution_plan ops X y s rq cc [mark]
         (Superseded (rq_document_id rq) (rq_conflict_event_id rq) (rq_resolution_id rq)
            (revisions (cc_state cc)))
         (superseded_state X rq cc)"
| resolved:
    "dr_revision (device (cc_state cc) (pi_source (cc_conflict cc))) \<le> pi_source_revision (cc_conflict cc) \<Longrightarrow>
     (is_equal_revision cc \<Longrightarrow> rq_strategy rq = KeepCurrent) \<Longrightarrow>
     proposed_conflict_manifest X y (cc_state cc) (cc_conflict cc) (so_bytes (cc_input cc)) =
       Inr proposed \<Longrightarrow>
     classify_operations (cc_state cc) (cc_conflict cc) (mf_operations proposed) = Inr groups \<Longrightarrow>
     st = resolved_ink X rq cc proposed groups \<Longrightarrow>
     bs_read ops s (boox_view_path st) = Inr destination \<Longrightarrow>
     resolution_destination_precondition X (cc_state cc) (cc_conflict cc) (boox_view_path st)
       destination = Inr pre \<Longrightarrow>
     view = \<lparr>cw_path = boox_view_path st, cw_bytes = pdf,
             cw_metadata = output_metadata (resolution_marker rq (revisions st)) (hex X pdf),
             cw_precondition = pre\<rparr> \<Longrightarrow>
     supernote_resolution_output X rq (resolution_marker rq (revisions st)) m
       (record_view (boox_view_path st) (hex X pdf) (rq_resolution_id rq) (revisions st) st) =
       Inr (extra, st') \<Longrightarrow>
     rc = resolved_record X rq cc groups (revisions st) \<Longrightarrow>
     marker_write X rq rc = Inr mark \<Longrightarrow>
       resolution_plan ops X y s rq cc (view # extra @ [mark])
         (Resolved (rq_document_id rq) (rq_conflict_event_id rq) (rq_resolution_id rq)
            (rq_strategy rq) (revisions st) (rc_applied_stroke_ids rc)
            (rc_preserved_current_stroke_ids rc) outputs)
         (record_resolution rc st')"

inductive_cases resolution_plan_superseded:
  "resolution_plan ops X y s rq cc ws (Superseded d c r revs) st'"
inductive_cases resolution_plan_resolved:
  "resolution_plan ops X y s rq cc ws (Resolved d c r k revs applied preserved outputs) st'"
inductive_simps resolution_plan_duplicate [simp]:
  "resolution_plan ops X y s rq cc ws (DuplicateResolution d c r k) st'"

lemma supersede_conflict_ok:
  assumes "supersede_conflict ops X s cc rq = (s', Inr out)"
    and older: "pi_source_revision (cc_conflict cc)
      < dr_revision (device (cc_state cc) (pi_source (cc_conflict cc)))"
  shows "\<exists>ws st' objs. resolution_plan ops X y s rq cc ws out st' \<and>
    plan_committed ops X s (rq_document_id rq) (so_generation (cc_state_object cc)) ws st' s' objs"
proof -
  from assms(1) obtain mark w objs where
    mark: "marker_write X rq (superseded_record X rq cc) = Inr mark" and
    w: "state_write X (state_path (rq_document_id rq)) (superseded_state X rq cc)
      (Match (so_generation (cc_state_object cc))) = Inr w" and
    objs: "bs_commit ops s ([mark] @ [w]) = (s', Inr objs)" and
    out: "out = Superseded (rq_document_id rq) (rq_conflict_event_id rq) (rq_resolution_id rq)
      (revisions (cc_state cc))"
    by (auto simp: supersede_conflict_def attempt_Inr_iff and_then_Inr_iff commit_Inr_iff)
  have "resolution_plan ops X y s rq cc [mark] out (superseded_state X rq cc)"
    unfolding out by (rule superseded [OF older mark])
  with plan_committedI [OF w objs] show ?thesis by blast
qed

lemma commit_resolution_ok:
  assumes "commit_resolution ops X y s cc rq groups st = (s', Inr out)"
  obtains destination pre pdf m extra st' mark objs outputs where
    "bs_read ops s (boox_view_path st) = Inr destination"
    "resolution_destination_precondition X (cc_state cc) (cc_conflict cc) (boox_view_path st)
       destination = Inr pre"
    "supernote_resolution_output X rq (resolution_marker rq (revisions st)) m
       (record_view (boox_view_path st) (hex X pdf) (rq_resolution_id rq) (revisions st) st) =
       Inr (extra, st')"
    "marker_write X rq (resolved_record X rq cc groups (revisions st)) = Inr mark"
    "out = Resolved (rq_document_id rq) (rq_conflict_event_id rq) (rq_resolution_id rq)
       (rq_strategy rq) (revisions st)
       (rc_applied_stroke_ids (resolved_record X rq cc groups (revisions st)))
       (rc_preserved_current_stroke_ids (resolved_record X rq cc groups (revisions st))) outputs"
    "plan_committed ops X s (rq_document_id rq) (so_generation (cc_state_object cc))
       (\<lparr>cw_path = boox_view_path st, cw_bytes = pdf,
         cw_metadata = output_metadata (resolution_marker rq (revisions st)) (hex X pdf),
         cw_precondition = pre\<rparr> # extra @ [mark])
       (record_resolution (resolved_record X rq cc groups (revisions st)) st') s' objs"
proof -
  let ?rc = "resolved_record X rq cc groups (revisions st)"
  from assms obtain original pdf m destination pre extra st' mark w objs where
    "bs_read ops s (boox_view_path st) = Inr destination"
    "resolution_destination_precondition X (cc_state cc) (cc_conflict cc) (boox_view_path st)
       destination = Inr pre"
    "supernote_resolution_output X rq (resolution_marker rq (revisions st)) m
       (record_view (boox_view_path st) (hex X pdf) (rq_resolution_id rq) (revisions st) st) =
       Inr (extra, st')"
    "marker_write X rq ?rc = Inr mark" and
    w: "state_write X (state_path (rq_document_id rq)) (record_resolution ?rc st')
      (Match (so_generation (cc_state_object cc))) = Inr w" and
    objs: "bs_commit ops s ((\<lparr>cw_path = boox_view_path st, cw_bytes = pdf,
         cw_metadata = output_metadata (resolution_marker rq (revisions st)) (hex X pdf),
         cw_precondition = pre\<rparr> # extra @ [mark]) @ [w]) = (s', Inr objs)" and
    "\<exists>outputs. out = Resolved (rq_document_id rq) (rq_conflict_event_id rq) (rq_resolution_id rq)
       (rq_strategy rq) (revisions st) (rc_applied_stroke_ids ?rc)
       (rc_preserved_current_stroke_ids ?rc) outputs"
    unfolding commit_resolution_def Let_def attempt_Inr_iff and_then_Inr_iff commit_Inr_iff
      map_err_eq_Inr_iff
    by (auto simp: attempt_Inr_iff and_then_Inr_iff commit_Inr_iff)
  with that plan_committedI [OF w objs] show thesis by blast
qed

lemma resolve_in_context_ok:
  assumes "resolve_in_context ops X y s cc rq = (s', Inr out)"
  obtains ws st' objs where "resolution_plan ops X y s rq cc ws out st'"
    "plan_committed ops X s (rq_document_id rq) (so_generation (cc_state_object cc)) ws st' s' objs"
proof (cases "pi_source_revision (cc_conflict cc)
    < dr_revision (device (cc_state cc) (pi_source (cc_conflict cc)))")
  case True
  with assms have "supersede_conflict ops X s cc rq = (s', Inr out)"
    by (simp add: resolve_in_context_def Let_def)
  from supersede_conflict_ok [OF this True] that show thesis by blast
next
  case False
  with assms obtain proposed groups where
    same: "is_equal_revision cc \<Longrightarrow> rq_strategy rq = KeepCurrent" and
    proposed: "proposed_conflict_manifest X y (cc_state cc) (cc_conflict cc)
      (so_bytes (cc_input cc)) = Inr proposed" and
    groups: "classify_operations (cc_state cc) (cc_conflict cc) (mf_operations proposed) =
      Inr groups" and
    commit: "commit_resolution ops X y s cc rq groups (resolved_ink X rq cc proposed groups) =
      (s', Inr out)"
    by (auto simp: resolve_in_context_def Let_def attempt_Inr_iff split: if_splits)
  from commit obtain destination pre pdf m extra st' mark objs outputs where
    destination: "bs_read ops s (boox_view_path (resolved_ink X rq cc proposed groups)) =
        Inr destination"
      "resolution_destination_precondition X (cc_state cc) (cc_conflict cc)
        (boox_view_path (resolved_ink X rq cc proposed groups)) destination = Inr pre" and
    extra: "supernote_resolution_output X rq
       (resolution_marker rq (revisions (resolved_ink X rq cc proposed groups))) m
       (record_view (boox_view_path (resolved_ink X rq cc proposed groups)) (hex X pdf)
         (rq_resolution_id rq) (revisions (resolved_ink X rq cc proposed groups))
         (resolved_ink X rq cc proposed groups)) = Inr (extra, st')" and
    mark: "marker_write X rq
      (resolved_record X rq cc groups (revisions (resolved_ink X rq cc proposed groups))) =
      Inr mark" and
    out: "out = Resolved (rq_document_id rq) (rq_conflict_event_id rq) (rq_resolution_id rq)
      (rq_strategy rq) (revisions (resolved_ink X rq cc proposed groups))
      (rc_applied_stroke_ids
        (resolved_record X rq cc groups (revisions (resolved_ink X rq cc proposed groups))))
      (rc_preserved_current_stroke_ids
        (resolved_record X rq cc groups (revisions (resolved_ink X rq cc proposed groups)))) outputs"
    and plan: "plan_committed ops X s (rq_document_id rq) (so_generation (cc_state_object cc))
       (\<lparr>cw_path = boox_view_path (resolved_ink X rq cc proposed groups), cw_bytes = pdf,
         cw_metadata = output_metadata
           (resolution_marker rq (revisions (resolved_ink X rq cc proposed groups))) (hex X pdf),
         cw_precondition = pre\<rparr> # extra @ [mark])
       (record_resolution
         (resolved_record X rq cc groups (revisions (resolved_ink X rq cc proposed groups))) st')
       s' objs"
    by (rule commit_resolution_ok)
  show thesis
    by (rule that [OF _ plan], unfold out,
        rule resolved [OF _ same proposed groups refl destination refl extra refl mark])
      (use False in simp_all)
qed

lemma resolve_conflict_ok:
  assumes "resolve_conflict ops X y s rq = (s', Inr out)"
  obtains
    (duplicate) obj st rc where
      "load_state ops X s (rq_document_id rq) = Inr (obj, st)"
      "bm_get (st_resolved_conflicts st) (rq_conflict_event_id rq) = Some rc"
      "rc_resolution_id rc = rq_resolution_id rq" "rc_strategy rc = rq_strategy rq"
      "s' = s" "out = DuplicateResolution (rq_document_id rq) (rq_conflict_event_id rq)
        (rq_resolution_id rq) (rq_strategy rq)"
  | (committed) obj st cc ws st' objs where
      "load_state ops X s (rq_document_id rq) = Inr (obj, st)"
      "bm_get (st_resolved_conflicts st) (rq_conflict_event_id rq) = None"
      "st_state_revision st = rq_expected_state_revision rq"
      "revisions st = rq_expected_current_revisions rq"
      "load_context_from_state ops X s obj st (rq_conflict_event_id rq) = Inr cc"
      "resolution_plan ops X y s rq cc ws out st'"
      "plan_committed ops X s (rq_document_id rq) (so_generation obj) ws st' s' objs"
proof -
  from assms obtain obj st where
    load: "load_state ops X s (rq_document_id rq) = Inr (obj, st)" and
    rest: "(case bm_get (st_resolved_conflicts st) (rq_conflict_event_id rq) of
        Some rc \<Rightarrow> (s, recorded_resolution rq rc)
      | None \<Rightarrow> attempt s (check_expected_state rq st) (\<lambda>_.
          attempt s (load_context_from_state ops X s obj st (rq_conflict_event_id rq)) (\<lambda>cc.
            resolve_in_context ops X y s cc rq))) = (s', Inr out)"
    unfolding resolve_conflict_def attempt_Inr_iff by auto
  show thesis
  proof (cases "bm_get (st_resolved_conflicts st) (rq_conflict_event_id rq)")
    case (Some rc)
    with rest have "s' = s" and "recorded_resolution rq rc = Inr out" by auto
    then show thesis
      using duplicate [OF load Some] by (auto simp: recorded_resolution_def split: if_splits)
  next
    case None
    with rest obtain cc where
      "st_state_revision st = rq_expected_state_revision rq"
      "revisions st = rq_expected_current_revisions rq" and
      cc: "load_context_from_state ops X s obj st (rq_conflict_event_id rq) = Inr cc" and
      r: "resolve_in_context ops X y s cc rq = (s', Inr out)"
      by (auto simp: attempt_Inr_iff check_expected_state_def ensure_eq_Inr_iff)
    moreover have "cc_state_object cc = obj"
      using cc by (auto simp: load_context_from_state_def rbind_eq_Inr_iff split: if_splits)
    ultimately show thesis
      using committed [OF load None] resolve_in_context_ok [OF r] by metis
  qed
qed

lemma load_context_ok:
  assumes "load_context_from_state ops X s obj st conflict_id = Inr cc"
  shows "cc_conflict cc \<in> set (st_conflicts st)" and "pi_event_id (cc_conflict cc) = conflict_id"
    and "\<exists>n. cc_state cc = st\<lparr>st_original_page_count := n\<rparr>"
    and "bs_read ops s (pi_preserved_path (cc_conflict cc)) = Inr (Some (cc_input cc))"
    and "hex X (so_bytes (cc_input cc)) = pi_content_sha256 (cc_conflict cc)"
proof -
  from assms obtain c st' input where
    c: "find (\<lambda>c. pi_event_id c = conflict_id) (st_conflicts st) = Some c" and
    st': "st' = st \<or> ensure_original_page_count ops X s st = Inr st'" and
    "bs_read ops s (pi_preserved_path c) = Inr (Some input)" "hex X (so_bytes input) = pi_content_sha256 c"
    and "cc = \<lparr>cc_state_object = obj, cc_state = st', cc_conflict = c, cc_input = input\<rparr>"
    by (auto simp: load_context_from_state_def result_simps split: if_splits)
  moreover have "\<exists>n. st' = st\<lparr>st_original_page_count := n\<rparr>"
    using st' ensure_original_page_count_frame [of ops X s st st']
    by (metis (no_types) document_state.surjective document_state.update_convs(6))
  ultimately show "cc_conflict cc \<in> set (st_conflicts st)" and "pi_event_id (cc_conflict cc) = conflict_id"
    and "\<exists>n. cc_state cc = st\<lparr>st_original_page_count := n\<rparr>"
    and "bs_read ops s (pi_preserved_path (cc_conflict cc)) = Inr (Some (cc_input cc))"
    and "hex X (so_bytes (cc_input cc)) = pi_content_sha256 (cc_conflict cc)"
    using find_SomeD [OF c] by simp_all
qed

end
