(* ===== verification/Document_History.thy ===== *)
theory Document_History
  imports Document_Facts
begin

text \<open>
  The life of one document: the states reachable from its registration by committed events
  and resolutions, the invariant they all have, and the abstract synchronisation document
  (revisions, processed events, preserved inputs, visible ink) whose steps the plans refine.
\<close>

section \<open>Reachable states\<close>

inductive history ::
    "'s storage_ops \<Rightarrow> ext \<Rightarrow> f64 \<Rightarrow> document_state \<Rightarrow> bool"
  for ops X y where
  registered: "history ops X y (initial_state X name original pages)"
| event_committed:
    "history ops X y st \<Longrightarrow> ev_event_id ev \<notin> set (st_processed_event_ids st) \<Longrightarrow>
     event_plan ops X y s ev st ws out st' \<Longrightarrow> history ops X y st'"
| resolution_committed:
    "history ops X y st \<Longrightarrow> bm_get (st_resolved_conflicts st) (rq_conflict_event_id rq) = None \<Longrightarrow>
     load_context_from_state ops X s obj st (rq_conflict_event_id rq) = Inr cc \<Longrightarrow>
     resolution_plan ops X y s rq cc ws out st' \<Longrightarrow> history ops X y st'"

section \<open>The invariant\<close>

definition conflict_ids :: "document_state \<Rightarrow> string list" where
  "conflict_ids st = map pi_event_id (st_conflicts st)"

definition stroke_current :: "document_state \<Rightarrow> canonical_stroke \<Rightarrow> bool" where
  "stroke_current st c \<longleftrightarrow>
     revisions_le (cs_source_revisions c) (revisions st) \<and>
     (case cs_tombstone c of
        None \<Rightarrow> True
      | Some t \<Rightarrow> tb_deleted_at_revision t \<le> rp_get (revisions st) (tb_deleted_by t))"

definition document_inv :: "document_state \<Rightarrow> bool" where
  "document_inv st \<longleftrightarrow>
     state_wf st \<and> st_schema_version st = state_schema_version \<and>
     st_last_common_revisions st = revisions st \<and>
     (\<forall>u c. bm_get (st_strokes st) u = Some c \<longrightarrow> stroke_current st c) \<and>
     distinct (conflict_ids st) \<and>
     set (conflict_ids st) \<subseteq> set (st_processed_event_ids st) \<and>
     (\<forall>c\<in>set (st_conflicts st). revisions_le (pi_current_revisions c) (revisions st)) \<and>
     (\<forall>e rc. bm_get (st_resolved_conflicts st) e = Some rc \<longrightarrow>
        e \<in> set (st_processed_event_ids st) \<and> e \<notin> set (conflict_ids st) \<and>
        rc_conflict_event_id rc = e)"

lemmas document_inv_parts = document_inv_def state_wf_def

lemma initial_state_inv: "document_inv (initial_state X name original pages)"
  by (simp add: document_inv_parts initial_state_def Let_def revisions_def default_revisions_def
      default_device_revision_def conflict_ids_def)

text \<open>A step that only acknowledges or preserves an event leaves ink and revisions alone.\<close>

lemma revisions_cong:
  "st_boox st' = st_boox st \<Longrightarrow> st_supernote st' = st_supernote st \<Longrightarrow> revisions st' = revisions st"
  by (simp add: revisions_def)

lemma marked_state_frame [simp]:
  "revisions (marked_state ev st) = revisions st" "device (marked_state ev st) side = device st side"
  "st_strokes (marked_state ev st) = st_strokes st" "st_conflicts (marked_state ev st) = st_conflicts st"
  "st_resolved_conflicts (marked_state ev st) = st_resolved_conflicts st"
  "st_schema_version (marked_state ev st) = st_schema_version st"
  "st_document_id (marked_state ev st) = st_document_id st"
  "st_last_common_revisions (marked_state ev st) = st_last_common_revisions st"
  "st_generated_views (marked_state ev st) = st_generated_views st"
  "st_state_revision (marked_state ev st) = st_state_revision st + 1"
  "st_processed_event_ids (marked_state ev st) = bs_insert (ev_event_id ev) (st_processed_event_ids st)"
  by (simp_all add: marked_state_def revisions_def device_def split: device_side.split)

lemma conflicted_state_frame [simp]:
  "revisions (conflicted_state path competing ev st) = revisions st"
  "device (conflicted_state path competing ev st) side = device st side"
  "st_strokes (conflicted_state path competing ev st) = st_strokes st"
  "st_conflicts (conflicted_state path competing ev st) =
     st_conflicts st @ [preserved_input_of path competing st ev]"
  "st_resolved_conflicts (conflicted_state path competing ev st) = st_resolved_conflicts st"
  "st_schema_version (conflicted_state path competing ev st) = st_schema_version st"
  "st_document_id (conflicted_state path competing ev st) = st_document_id st"
  "st_last_common_revisions (conflicted_state path competing ev st) = st_last_common_revisions st"
  "st_generated_views (conflicted_state path competing ev st) = st_generated_views st"
  "st_source_generations (conflicted_state path competing ev st) = st_source_generations st"
  "st_state_revision (conflicted_state path competing ev st) = st_state_revision st + 1"
  "st_processed_event_ids (conflicted_state path competing ev st) =
     bs_insert (ev_event_id ev) (st_processed_event_ids st)"
  by (simp_all add: conflicted_state_def revisions_def device_def split: device_side.split)

lemma preserved_input_of_simps [simp]:
  "pi_event_id (preserved_input_of path competing st ev) = ev_event_id ev"
  "pi_source (preserved_input_of path competing st ev) = ev_source ev"
  "pi_source_revision (preserved_input_of path competing st ev) = ev_source_revision ev"
  "pi_based_on (preserved_input_of path competing st ev) = ev_based_on ev"
  "pi_preserved_path (preserved_input_of path competing st ev) = path"
  "pi_content_sha256 (preserved_input_of path competing st ev) = ev_content_sha256 ev"
  "pi_current_revisions (preserved_input_of path competing st ev) = revisions st"
  by (simp_all add: preserved_input_of_def)

lemma stroke_current_cong: "revisions st' = revisions st \<Longrightarrow> stroke_current st' c = stroke_current st c"
  by (simp only: stroke_current_def)

lemma marked_state_wf: "state_wf st \<Longrightarrow> state_wf (marked_state ev st)"
  by (simp add: state_wf_def) (simp add: marked_state_def)

lemma conflicted_state_wf: "state_wf st \<Longrightarrow> state_wf (conflicted_state path competing ev st)"
  by (simp add: state_wf_def)

lemma marked_state_inv: "document_inv st \<Longrightarrow> document_inv (marked_state ev st)"
  by (auto simp: document_inv_def marked_state_wf conflict_ids_def
      stroke_current_cong [of "marked_state ev st" st])

lemma conflicted_state_inv:
  assumes inv: "document_inv st" and new: "ev_event_id ev \<notin> set (st_processed_event_ids st)"
  shows "document_inv (conflicted_state path competing ev st)"
proof -
  have "ev_event_id ev \<notin> set (conflict_ids st)"
    "bm_get (st_resolved_conflicts st) (ev_event_id ev) = None"
    using inv new by (auto simp: document_inv_def intro: option.exhaust_sel)
  with inv show ?thesis
    by (auto simp: document_inv_def conflicted_state_wf conflict_ids_def
        stroke_current_cong [of "conflicted_state path competing ev st" st])
qed

section \<open>Accepted inputs keep the invariant\<close>

lemma accept_input_frame [simp]:
  "st_strokes (accept_input ev name st) = st_strokes st"
  "st_conflicts (accept_input ev name st) = st_conflicts st"
  "st_resolved_conflicts (accept_input ev name st) = st_resolved_conflicts st"
  "st_schema_version (accept_input ev name st) = st_schema_version st"
  "st_document_id (accept_input ev name st) = st_document_id st"
  "st_state_revision (accept_input ev name st) = st_state_revision st + 1"
  "st_processed_event_ids (accept_input ev name st) =
     bs_insert (ev_event_id ev) (st_processed_event_ids st)"
  "st_last_common_revisions (accept_input ev name st) = revisions (accept_input ev name st)"
  "st_source_generations (accept_input ev name st) =
     bm_insert (ev_object_path ev) (ev_source_generation ev) (st_source_generations st)"
  by (simp_all add: accept_input_def Let_def revisions_def)

lemma accept_input_device:
  "device (accept_input ev name st) side =
     (if side = ev_source ev then accept_device_revision ev name (device st side) else device st side)"
  by (cases side; cases "ev_source ev") (simp_all add: accept_input_def Let_def device_def update_device_def)

lemma accept_input_revisions:
  "rp_get (revisions (accept_input ev name st)) side =
     (if side = ev_source ev then ev_source_revision ev else rp_get (revisions st) side)"
  by (simp add: accept_input_device accept_device_revision_def)

lemma accept_input_next:
  "ev_based_on ev = revisions st \<Longrightarrow> revisions (accept_input ev name st) = next_revisions ev"
  by (rule rp_eqI) (simp only: accept_input_revisions next_revisions_def rp_get_set, simp)

lemma record_view_frame [simp]:
  "revisions (record_view path hash e r st) = revisions st"
  "device (record_view path hash e r st) side = device st side"
  "st_strokes (record_view path hash e r st) = st_strokes st"
  "st_conflicts (record_view path hash e r st) = st_conflicts st"
  "st_resolved_conflicts (record_view path hash e r st) = st_resolved_conflicts st"
  "st_schema_version (record_view path hash e r st) = st_schema_version st"
  "st_document_id (record_view path hash e r st) = st_document_id st"
  "st_state_revision (record_view path hash e r st) = st_state_revision st"
  "st_processed_event_ids (record_view path hash e r st) = st_processed_event_ids st"
  "st_last_common_revisions (record_view path hash e r st) = st_last_common_revisions st"
  "st_source_generations (record_view path hash e r st) = st_source_generations st"
  by (simp_all add: record_view_def revisions_def device_def split: device_side.split)

lemma consume_view_wf: "bm_wf views \<Longrightarrow> bm_wf (consume_view ev revs views)"
  by (simp add: consume_view_def split: option.split)

lemma accept_input_wf: "state_wf st \<Longrightarrow> state_wf (accept_input ev name st)"
  by (simp add: state_wf_def) (simp add: accept_input_def Let_def consume_view_wf)

lemma record_view_wf: "state_wf st \<Longrightarrow> state_wf (record_view path hash e r st)"
  by (simp add: state_wf_def) (simp add: record_view_def)

lemma consume_view_get:
  "bm_get (consume_view ev revs views) path =
     (if path = ev_object_path ev then
        map_option (\<lambda>v. v\<lparr>gv_content_sha256 := ev_content_sha256 ev, gv_source_revisions := revs,
                          gv_event_id := ev_event_id ev\<rparr>) (bm_get views path)
      else bm_get views path)"
  by (auto simp: consume_view_def split: option.split)

lemma accept_input_views:
  "st_generated_views (accept_input ev name st) =
     consume_view ev (revisions (accept_input ev name st)) (st_generated_views st)"
  by (simp add: accept_input_def Let_def revisions_def)

text \<open>Strokes stay current when untouched strokes were and touched ones are stamped with the
  revisions the step ends at.\<close>

lemma stroke_current_mono:
  assumes "stroke_current st c" and "revisions_le (revisions st) (revisions st')"
  shows "stroke_current st' c"
  using assms unfolding stroke_current_def revisions_le_iff
  by (auto split: option.splits intro: order_trans)

lemma stroke_current_stamped:
  assumes "stamped ev c" and "revisions st = next_revisions ev"
  shows "stroke_current st c"
  using assms(1) unfolding stroke_current_def assms(2) stamped_def
  by (elim conjE disjE) (simp_all add: event_tombstone_def next_revisions_def)

lemma touches_only_current:
  assumes "touches_only ev st st'" and "revisions st'' = next_revisions ev"
    and "revisions_le (revisions st) (revisions st'')"
    and "\<forall>u c. bm_get (st_strokes st) u = Some c \<longrightarrow> stroke_current st c"
    and "bm_get (st_strokes st') u = Some c"
  shows "stroke_current st'' c"
  using touches_only_cases [OF assms(1,5)]
proof
  assume "bm_get (st_strokes st) u = Some c"
  with assms(4) have "stroke_current st c" by blast
  then show ?thesis using assms(3) by (rule stroke_current_mono)
next
  assume "stamped ev c"
  then show ?thesis using assms(2) by (rule stroke_current_stamped)
qed

lemma accepted_revisions_le:
  assumes "dr_revision (device st (ev_source ev)) < ev_source_revision ev"
  shows "revisions_le (revisions st) (revisions (accept_input ev name st))"
  using assms unfolding revisions_le_iff accept_input_revisions by auto

lemma pages_frame [simp]:
  "revisions (st\<lparr>st_original_page_count := n\<rparr>) = revisions st"
  "device (st\<lparr>st_original_page_count := n\<rparr>) side = device st side"
  by (simp_all add: revisions_def) (cases side; simp add: device_def)

lemma document_inv_pages: "document_inv (st\<lparr>st_original_page_count := n\<rparr>) = document_inv st"
  by (simp add: document_inv_def state_wf_def conflict_ids_def stroke_current_cong [OF pages_frame(1)])

lemma accepted_inv:
  assumes inv: "document_inv st" and new: "ev_event_id ev \<notin> set (st_processed_event_ids st)"
    and base: "ev_based_on ev = revisions st"
    and newer: "dr_revision (device st (ev_source ev)) < ev_source_revision ev"
    and out: "device_output ops X y s st ev input = Inr (st2, path, bs, name)"
  shows "document_inv (record_view p h e r (accept_input ev name st2))"
proof -
  let ?st' = "record_view p h e r (accept_input ev name st2)"
  note frame = ink_only_frame [OF device_output_ink_only [OF out]]
  have revs: "revisions ?st' = next_revisions ev"
    using base frame(1) by (simp add: accept_input_next)
  have le: "revisions_le (revisions st) (revisions ?st')"
    using accepted_revisions_le [of st2 ev name] newer frame by simp
  have wf: "state_wf ?st'"
    using inv device_output_wf [OF out] by (simp add: document_inv_def record_view_wf accept_input_wf)
  have current: "stroke_current ?st' c" if "bm_get (st_strokes ?st') u = Some c" for u c
    by (rule touches_only_current [OF device_output_touches [OF out] revs le])
      (use inv that in \<open>simp_all add: document_inv_def\<close>)
  have conflicts: "conflict_ids ?st' = conflict_ids st" by (simp add: conflict_ids_def frame)
  have "revisions_le (pi_current_revisions c) (revisions ?st')" if "c \<in> set (st_conflicts st)" for c
    using that inv le by (auto simp: document_inv_def intro: revisions_le_trans)
  then show ?thesis
    using inv wf current conflicts by (simp add: document_inv_def frame) blast
qed

lemma event_plan_inv:
  assumes "event_plan ops X y s ev st ws out st'" and "document_inv st"
    and "ev_event_id ev \<notin> set (st_processed_event_ids st)"
  shows "document_inv st'"
  using assms(1)
proof cases
  case (accepted st1 pages input st2 path bs name destination pre revs generation)
  have inv: "document_inv st1" using accepted(7) assms(2) by (simp add: document_inv_pages)
  show ?thesis
    unfolding accepted(3)
    by (rule accepted_inv [OF inv _ _ _ accepted(8)]) (use accepted assms(3) in simp_all)
qed (simp_all add: assms marked_state_inv conflicted_state_inv)

section \<open>Resolutions keep the invariant\<close>

lemma resolution_event_simps [simp]:
  "ev_event_id (resolution_event rq cc) = rq_resolution_id rq"
  "ev_document_id (resolution_event rq cc) = rq_document_id rq"
  "ev_source (resolution_event rq cc) = pi_source (cc_conflict cc)"
  "ev_source_revision (resolution_event rq cc) = pi_source_revision (cc_conflict cc)"
  "ev_based_on (resolution_event rq cc) = revisions (cc_state cc)"
  by (simp_all add: resolution_event_def conflict_event_def)

lemma applied_selection_cases:
  "applied_selection X rq cc proposed groups =
     (if rq_strategy rq = KeepCurrent then cc_state cc
      else apply_manifest (resolution_event rq cc)
             (selected_manifest X proposed (fst (select_operations groups (rq_strategy rq)))
               (snd (snd (select_operations groups (rq_strategy rq))))) (cc_state cc))"
  by (simp add: applied_selection_def Let_def case_prod_beta)

lemma applied_selection_touches:
  "touches_only (resolution_event rq cc) (cc_state cc) (applied_selection X rq cc proposed groups)"
  by (simp add: applied_selection_cases apply_manifest_touches) (simp add: touches_only_def)

lemma applied_selection_ink_only:
  "ink_only (cc_state cc) (applied_selection X rq cc proposed groups)"
  using ink_only_strokes [of "cc_state cc" "st_strokes (cc_state cc)"]
  by (simp add: applied_selection_cases ink_only_manifest)

lemma applied_selection_wf:
  "state_wf (cc_state cc) \<Longrightarrow> state_wf (applied_selection X rq cc proposed groups)"
  by (simp add: applied_selection_cases state_wf_manifest)

lemmas applied_selection_frame = ink_only_frame [OF applied_selection_ink_only]

lemma consume_conflict_frame [simp]:
  "st_strokes (consume_conflict cc m st) = st_strokes st"
  "st_conflicts (consume_conflict cc m st) = st_conflicts st"
  "st_resolved_conflicts (consume_conflict cc m st) = st_resolved_conflicts st"
  "st_schema_version (consume_conflict cc m st) = st_schema_version st"
  "st_document_id (consume_conflict cc m st) = st_document_id st"
  "st_state_revision (consume_conflict cc m st) = st_state_revision st"
  "st_processed_event_ids (consume_conflict cc m st) = st_processed_event_ids st"
  "st_generated_views (consume_conflict cc m st) = st_generated_views st"
  by (simp_all add: consume_conflict_def)

lemma consume_conflict_device:
  "device (consume_conflict cc m st) side =
     (if side = pi_source (cc_conflict cc) then consumed_device cc m (device st side)
      else device st side)"
  by (cases side; cases "pi_source (cc_conflict cc)")
    (simp_all add: consume_conflict_def device_def update_device_def)

lemma resolved_ink_frame [simp]:
  "st_strokes (resolved_ink X rq cc m groups) = st_strokes (applied_selection X rq cc m groups)"
  "st_conflicts (resolved_ink X rq cc m groups) =
     filter (\<lambda>c. pi_event_id c \<noteq> rq_conflict_event_id rq) (st_conflicts (cc_state cc))"
  "st_resolved_conflicts (resolved_ink X rq cc m groups) = st_resolved_conflicts (cc_state cc)"
  "st_schema_version (resolved_ink X rq cc m groups) = st_schema_version (cc_state cc)"
  "st_document_id (resolved_ink X rq cc m groups) = st_document_id (cc_state cc)"
  "st_state_revision (resolved_ink X rq cc m groups) = st_state_revision (cc_state cc) + 1"
  "st_processed_event_ids (resolved_ink X rq cc m groups) = st_processed_event_ids (cc_state cc)"
  "st_generated_views (resolved_ink X rq cc m groups) = st_generated_views (cc_state cc)"
  by (simp_all add: resolved_ink_def Let_def remove_conflict_def applied_selection_frame)

lemma resolved_ink_device:
  "device (resolved_ink X rq cc m groups) side =
     device (if is_equal_revision cc then applied_selection X rq cc m groups
             else consume_conflict cc m (applied_selection X rq cc m groups)) side"
  by (cases side) (simp_all add: resolved_ink_def Let_def remove_conflict_def device_def)

lemma resolved_ink_revisions:
  "rp_get (revisions (resolved_ink X rq cc m groups)) side =
     (if side = pi_source (cc_conflict cc) then pi_source_revision (cc_conflict cc)
      else rp_get (revisions (cc_state cc)) side)"
  by (auto simp: resolved_ink_device consume_conflict_device consumed_device_def
      applied_selection_frame is_equal_revision_def)

lemma resolved_ink_next: "revisions (resolved_ink X rq cc m groups) = next_revisions (resolution_event rq cc)"
  by (rule rp_eqI) (simp only: resolved_ink_revisions next_revisions_def rp_get_set, simp)

lemma resolved_ink_last_common:
  "st_last_common_revisions (resolved_ink X rq cc m groups) = revisions (resolved_ink X rq cc m groups)"
  by (simp add: resolved_ink_def Let_def remove_conflict_def revisions_def)

lemma resolved_ink_wf:
  assumes "state_wf (cc_state cc)"
  shows "state_wf (resolved_ink X rq cc m groups)"
proof -
  have "bm_wf (st_source_generations (resolved_ink X rq cc m groups))"
    using assms
    by (simp add: resolved_ink_def Let_def remove_conflict_def consume_conflict_def
        applied_selection_frame state_wf_def)
  with assms applied_selection_wf [OF assms, of X rq m groups] show ?thesis
    by (simp add: state_wf_def)
qed

lemma record_resolution_frame [simp]:
  "revisions (record_resolution rc st) = revisions st"
  "device (record_resolution rc st) side = device st side"
  "st_strokes (record_resolution rc st) = st_strokes st"
  "st_conflicts (record_resolution rc st) = st_conflicts st"
  "st_resolved_conflicts (record_resolution rc st) =
     bm_insert (rc_conflict_event_id rc) rc (st_resolved_conflicts st)"
  "st_schema_version (record_resolution rc st) = st_schema_version st"
  "st_document_id (record_resolution rc st) = st_document_id st"
  "st_state_revision (record_resolution rc st) = st_state_revision st"
  "st_processed_event_ids (record_resolution rc st) = st_processed_event_ids st"
  "st_last_common_revisions (record_resolution rc st) = st_last_common_revisions st"
  "st_generated_views (record_resolution rc st) = st_generated_views st"
  "st_source_generations (record_resolution rc st) = st_source_generations st"
  by (simp_all add: record_resolution_def revisions_def device_def split: device_side.split)

lemma record_resolution_wf: "state_wf st \<Longrightarrow> state_wf (record_resolution rc st)"
  by (simp add: state_wf_def)

lemma supernote_resolution_output_state:
  "supernote_resolution_output X rq marker m st = Inr (extra, st') \<Longrightarrow>
     st' = st \<or> (\<exists>p h e r. st' = record_view p h e r st)"
  by (auto simp: supernote_resolution_output_def Let_def rbind_eq_Inr_iff split: if_splits)

text \<open>Recording the resolution of an active conflict over a state that has dropped it.\<close>

lemma recorded_inv:
  assumes inv: "document_inv st0" and wf: "state_wf st" and c: "c \<in> set (st_conflicts st0)"
    and e: "e = pi_event_id c" "rc_conflict_event_id rc = e"
    and schema: "st_schema_version st = st_schema_version st0"
    and common: "st_last_common_revisions st = revisions st"
    and ids: "st_processed_event_ids st = st_processed_event_ids st0"
    and resolved: "st_resolved_conflicts st = st_resolved_conflicts st0"
    and conflicts: "st_conflicts st = filter (\<lambda>c. pi_event_id c \<noteq> e) (st_conflicts st0)"
    and le: "revisions_le (revisions st0) (revisions st)"
    and current: "\<And>u c. bm_get (st_strokes st) u = Some c \<Longrightarrow> stroke_current st c"
  shows "document_inv (record_resolution rc st)"
proof -
  have ids': "set (conflict_ids st) = set (conflict_ids st0) - {e}" "distinct (conflict_ids st)"
    using inv by (auto simp: conflict_ids_def conflicts document_inv_def distinct_map_filter)
  have "e \<in> set (st_processed_event_ids st)"
    using inv c e ids by (auto simp: document_inv_def conflict_ids_def)
  moreover have "revisions_le (pi_current_revisions c') (revisions st)"
    if "c' \<in> set (st_conflicts st)" for c'
    using that inv le by (auto simp: document_inv_def conflicts intro: revisions_le_trans)
  moreover have "conflict_ids (record_resolution rc st) = conflict_ids st"
    by (simp add: conflict_ids_def)
  ultimately show ?thesis
    using inv wf current common ids' e
    by (auto simp: document_inv_def record_resolution_wf schema ids resolved
        stroke_current_cong [of "record_resolution rc st" st])
qed

definition dropped_state :: "string \<Rightarrow> document_state \<Rightarrow> document_state" where
  "dropped_state e st = remove_conflict e (st\<lparr>st_state_revision := st_state_revision st + 1\<rparr>)"

lemma dropped_state_frame [simp]:
  "revisions (dropped_state e st) = revisions st"
  "st_strokes (dropped_state e st) = st_strokes st"
  "st_conflicts (dropped_state e st) = filter (\<lambda>c. pi_event_id c \<noteq> e) (st_conflicts st)"
  "st_resolved_conflicts (dropped_state e st) = st_resolved_conflicts st"
  "st_schema_version (dropped_state e st) = st_schema_version st"
  "st_processed_event_ids (dropped_state e st) = st_processed_event_ids st"
  "st_last_common_revisions (dropped_state e st) = st_last_common_revisions st"
  "st_generated_views (dropped_state e st) = st_generated_views st"
  "st_source_generations (dropped_state e st) = st_source_generations st"
  by (simp_all add: dropped_state_def remove_conflict_def revisions_def)

lemma resolved_ink_current:
  assumes inv: "document_inv (cc_state cc)"
    and le: "dr_revision (device (cc_state cc) (pi_source (cc_conflict cc)))
      \<le> pi_source_revision (cc_conflict cc)"
  shows "revisions_le (revisions (cc_state cc)) (revisions (resolved_ink X rq cc m groups))"
    and "bm_get (st_strokes (resolved_ink X rq cc m groups)) u = Some c \<Longrightarrow>
      stroke_current (resolved_ink X rq cc m groups) c"
proof -
  show rle: "revisions_le (revisions (cc_state cc)) (revisions (resolved_ink X rq cc m groups))"
    unfolding revisions_le_iff resolved_ink_revisions using le by auto
  show "stroke_current (resolved_ink X rq cc m groups) c"
    if "bm_get (st_strokes (resolved_ink X rq cc m groups)) u = Some c"
    by (rule touches_only_current [OF applied_selection_touches resolved_ink_next rle])
      (use inv that in \<open>simp_all add: document_inv_def\<close>)
qed

lemma resolution_plan_inv:
  assumes "resolution_plan ops X y s rq cc ws out st'" and inv: "document_inv (cc_state cc)"
    and c: "cc_conflict cc \<in> set (st_conflicts (cc_state cc))"
    and e: "rq_conflict_event_id rq = pi_event_id (cc_conflict cc)"
  shows "document_inv st'"
  using assms(1)
proof cases
  case (superseded mark)
  let ?st = "dropped_state (rq_conflict_event_id rq) (cc_state cc)"
  have st': "st' = record_resolution (superseded_record X rq cc) ?st"
    by (simp add: superseded(3) superseded_state_def dropped_state_def)
  show ?thesis
    unfolding st'
    by (rule recorded_inv [OF inv _ c e])
      (use inv in \<open>simp_all add: superseded_record_def e document_inv_def state_wf_def
        stroke_current_cong [OF dropped_state_frame(1)]\<close>)
next
  case (resolved proposed groups st destination pre view pdf m extra st1 rc mark outputs)
  note current = resolved_ink_current [OF inv resolved(4)]
  have st1: "st1 = record_view (boox_view_path st) (hex X pdf) (rq_resolution_id rq) (revisions st) st \<or>
      (\<exists>p h e r. st1 = record_view p h e r
        (record_view (boox_view_path st) (hex X pdf) (rq_resolution_id rq) (revisions st) st))"
    by (rule supernote_resolution_output_state) fact
  then have frame: "revisions st1 = revisions st" "st_strokes st1 = st_strokes st"
      "st_conflicts st1 = st_conflicts st" "st_resolved_conflicts st1 = st_resolved_conflicts st"
      "st_schema_version st1 = st_schema_version st"
      "st_processed_event_ids st1 = st_processed_event_ids st"
      "st_last_common_revisions st1 = st_last_common_revisions st"
    by auto
  have wf: "state_wf st1"
    using st1 inv by (auto simp: resolved(8) document_inv_def record_view_wf resolved_ink_wf)
  show ?thesis
    unfolding resolved(3)
  proof (rule recorded_inv [OF inv wf c e])
    show "rc_conflict_event_id rc = rq_conflict_event_id rq"
      by (simp add: resolved resolved_record_def case_prod_beta)
    show "st_conflicts st1 = filter (\<lambda>c. pi_event_id c \<noteq> rq_conflict_event_id rq) (st_conflicts (cc_state cc))"
      by (simp add: frame resolved(8))
    show "revisions_le (revisions (cc_state cc)) (revisions st1)"
      using current(1) by (simp add: frame resolved(8))
    show "stroke_current st1 k" if "bm_get (st_strokes st1) u = Some k" for u k
      using that current(2) unfolding frame resolved(8) stroke_current_cong [OF frame(1)] by blast
  qed (simp_all add: frame resolved(8) resolved_ink_last_common)
qed

theorem history_inv: "history ops X y st \<Longrightarrow> document_inv st"
proof (induction rule: history.induct)
  case (registered name original pages)
  show ?case by (rule initial_state_inv)
next
  case (event_committed st ev s ws out st')
  then show ?case by (blast intro: event_plan_inv)
next
  case (resolution_committed st rq s obj cc ws out st')
  note loaded = load_context_ok [OF resolution_committed(3)]
  then obtain n where n: "cc_state cc = st\<lparr>st_original_page_count := n\<rparr>" by blast
  show ?case
    by (rule resolution_plan_inv [OF resolution_committed(4)])
      (use resolution_committed loaded n in \<open>simp_all add: document_inv_pages\<close>)
qed

end
