(* ===== verification/Sync_Spec.thy ===== *)
theory Sync_Spec
  imports Document_History
begin

text \<open>
  The abstract specification of the broker: a document is the revision of each device, the
  events seen, the events whose input is preserved as a conflict, and the visible ink.  An
  input is acknowledged, set aside or accepted; it is accepted only when it was made on the
  current revision of both devices.  The plans of the broker refine these steps.
\<close>

section \<open>The specification\<close>

record sync_doc =
  sy_revision :: "device_side \<Rightarrow> nat"
  sy_seen :: "string set"
  sy_preserved :: "string set"
  sy_ink :: "string \<Rightarrow> stroke_snapshot option"

text \<open>A manifest shows the upserted snapshots and hides the other deleted strokes; an export
  shows its strokes and hides everything else on the pages it covers.\<close>

definition ink_after_operations ::
    "operation list \<Rightarrow> (string \<Rightarrow> stroke_snapshot option) \<Rightarrow> string \<Rightarrow> stroke_snapshot option" where
  "ink_after_operations ops ink u =
     (case find (upserts u) (rev ops) of
        Some o' \<Rightarrow> Some (op_after o')
      | None \<Rightarrow> if \<exists>o'\<in>set ops. deletes u o' then None else ink u)"

definition ink_after_export ::
    "u32 set \<Rightarrow> stroke_snapshot list \<Rightarrow> (string \<Rightarrow> stroke_snapshot option) \<Rightarrow> string \<Rightarrow>
       stroke_snapshot option" where
  "ink_after_export pages shown ink u =
     (case find (\<lambda>s. source_uuid s = u) (rev shown) of
        Some s \<Rightarrow> Some s
      | None \<Rightarrow> (case ink u of
                   Some s \<Rightarrow> if page_index s \<in> pages then None else Some s
                 | None \<Rightarrow> None))"

inductive ink_step ::
    "device_side \<Rightarrow> (string \<Rightarrow> stroke_snapshot option) \<Rightarrow> (string \<Rightarrow> stroke_snapshot option) \<Rightarrow> bool" where
  operations: "ink_step Boox ink (ink_after_operations ops ink)"
| export: "ink_step Supernote ink (ink_after_export pages shown ink)"

inductive sync_step :: "storage_event \<Rightarrow> sync_doc \<Rightarrow> sync_doc \<Rightarrow> bool"
  for ev d where
  acknowledged:
    "ev_event_id ev \<notin> sy_seen d \<Longrightarrow> sync_step ev d (d\<lparr>sy_seen := insert (ev_event_id ev) (sy_seen d)\<rparr>)"
| set_aside:
    "ev_event_id ev \<notin> sy_seen d \<Longrightarrow>
     (\<exists>side. unat (rp_get (ev_based_on ev) side) \<noteq> sy_revision d side) \<Longrightarrow>
       sync_step ev d (d\<lparr>sy_seen := insert (ev_event_id ev) (sy_seen d),
                         sy_preserved := insert (ev_event_id ev) (sy_preserved d)\<rparr>)"
| accepted:
    "ev_event_id ev \<notin> sy_seen d \<Longrightarrow>
     (\<forall>side. unat (rp_get (ev_based_on ev) side) = sy_revision d side) \<Longrightarrow>
     sy_revision d (ev_source ev) < unat (ev_source_revision ev) \<Longrightarrow>
     ink_step (ev_source ev) (sy_ink d) ink' \<Longrightarrow>
       sync_step ev d
         (d\<lparr>sy_revision := (sy_revision d)(ev_source ev := unat (ev_source_revision ev)),
            sy_seen := insert (ev_event_id ev) (sy_seen d), sy_ink := ink'\<rparr>)"

inductive_cases ink_step_boox: "ink_step Boox ink ink'"
inductive_cases ink_step_supernote: "ink_step Supernote ink ink'"

section \<open>The abstraction\<close>

definition shown_ink :: "document_state \<Rightarrow> string \<Rightarrow> stroke_snapshot option" where
  "shown_ink st u = map_option cs_snapshot (active_stroke st u)"

definition abs_doc :: "document_state \<Rightarrow> sync_doc" where
  "abs_doc st =
     \<lparr>sy_revision = (\<lambda>side. unat (dr_revision (device st side))),
      sy_seen = set (st_processed_event_ids st), sy_preserved = set (conflict_ids st),
      sy_ink = shown_ink st\<rparr>"

lemma shown_ink_cong: "st_strokes st' = st_strokes st \<Longrightarrow> shown_ink st' = shown_ink st"
  by (simp add: shown_ink_def active_stroke_def fun_eq_iff)

lemma shown_ink_get:
  "shown_ink st u =
     (case bm_get (st_strokes st) u of
        Some c \<Rightarrow> if cs_tombstone c = None then Some (cs_snapshot c) else None
      | None \<Rightarrow> None)"
  by (simp add: shown_ink_def active_stroke_def split: option.split)

lemma shown_ink_manifest:
  "shown_ink (apply_manifest ev m st) = ink_after_operations (mf_operations m) (shown_ink st)"
proof
  fix u
  have "(\<exists>o'\<in>set (mf_operations m). deletes u o') \<longleftrightarrow> find (deletes u) (mf_operations m) \<noteq> None"
    by (auto simp: find_None_iff)
  then show "shown_ink (apply_manifest ev m st) u =
      ink_after_operations (mf_operations m) (shown_ink st) u"
    by (simp add: shown_ink_get apply_manifest_get stroke_after_manifest_def
        ink_after_operations_def written_stroke_def tombstone_stroke_def split: option.split)
qed

lemma shown_ink_export:
  assumes "apply_supernote_export X ev bs st = Inr st'" and wf: "state_wf st"
    and ex: "parse_baseline_bytes (x_envelope_of_json X) bs (ev_object_path ev) = Inr ex"
  shows "shown_ink st' =
    ink_after_export (set (map bp_page_index (be_pages ex))) (export_strokes ex) (shown_ink st)"
proof
  fix u
  have get: "bm_get (st_strokes st') u = stroke_after_export ev ex u (bm_get (st_strokes st) u)"
    using apply_supernote_export_lookup [OF assms(1)] ex by auto
  have unlisted: "u \<notin> set (map source_uuid (export_strokes ex))"
    if "find (\<lambda>s. source_uuid s = u) (rev (export_strokes ex)) = None"
    using that by (auto simp: find_None_iff)
  show "shown_ink st' u =
    ink_after_export (set (map bp_page_index (be_pages ex))) (export_strokes ex) (shown_ink st) u"
  proof (cases "find (\<lambda>s. source_uuid s = u) (rev (export_strokes ex))")
    case (Some s)
    then show ?thesis
      by (simp add: shown_ink_get get stroke_after_export_def ink_after_export_def written_stroke_def)
  next
    case None
    show ?thesis
    proof (cases "bm_get (st_strokes st) u")
      case None2: None
      with None show ?thesis
        by (simp add: shown_ink_get get stroke_after_export_def ink_after_export_def)
    next
      case (Some c)
      then have "cs_stroke_id c = u" using wf by (rule state_wf_ids [rotated])
      with None Some unlisted [OF None] show ?thesis
        by (simp add: shown_ink_get get stroke_after_export_def ink_after_export_def
            tombstone_missing_def tombstone_stroke_def)
    qed
  qed
qed

lemma device_output_ink_step:
  assumes "device_output ops X y s st ev input = Inr (st', path, bs, name)" and "state_wf st"
  shows "ink_step (ev_source ev) (shown_ink st) (shown_ink st')"
  using assms(1)
proof (cases rule: device_output_cases)
  case (boox m)
  then show ?thesis by (simp add: shown_ink_manifest ink_step.operations)
next
  case (supernote original)
  then obtain ex where
    "parse_baseline_bytes (x_envelope_of_json X) input (ev_object_path ev) = Inr ex"
    using apply_supernote_export_lookup by blast
  with supernote assms(2) show ?thesis by (simp only: shown_ink_export ink_step.export)
qed

section \<open>Plans refine steps\<close>

lemma event_plan_refines:
  assumes "event_plan ops X y s ev st ws out st'" and wf: "state_wf st"
    and new: "ev_event_id ev \<notin> set (st_processed_event_ids st)"
  shows "sync_step ev (abs_doc st) (abs_doc st')"
  using assms(1)
proof cases
  case (preserved competing input)
  have "\<exists>side. unat (rp_get (ev_based_on ev) side) \<noteq> sy_revision (abs_doc st) side"
  proof (rule ccontr)
    assume "\<not> ?thesis"
    then have "ev_based_on ev = revisions st"
      by (intro rp_eqI) (simp add: abs_doc_def word_unat_eq_iff)
    with preserved(4,5) show False by auto
  qed
  then have "sync_step ev (abs_doc st)
      ((abs_doc st)\<lparr>sy_seen := insert (ev_event_id ev) (sy_seen (abs_doc st)),
                    sy_preserved := insert (ev_event_id ev) (sy_preserved (abs_doc st))\<rparr>)"
    by (intro sync_step.set_aside) (simp_all add: abs_doc_def new)
  then show ?thesis
    by (simp add: preserved(3) abs_doc_def conflict_ids_def shown_ink_cong [of "conflicted_state _ _ _ st" st])
next
  case (accepted st1 pages input st2 path bs name destination pre revs generation)
  have wf1: "state_wf st1" using wf accepted(7) by (simp add: state_wf_def)
  note frame = ink_only_frame [OF device_output_ink_only [OF accepted(8)]]
  have "shown_ink st1 = shown_ink st" by (rule shown_ink_cong) (simp add: accepted(7))
  with device_output_ink_step [OF accepted(8) wf1]
  have ink: "ink_step (ev_source ev) (sy_ink (abs_doc st)) (shown_ink st2)"
    by (simp add: abs_doc_def)
  have "sync_step ev (abs_doc st)
      ((abs_doc st)\<lparr>sy_revision := (sy_revision (abs_doc st))(ev_source ev := unat (ev_source_revision ev)),
         sy_seen := insert (ev_event_id ev) (sy_seen (abs_doc st)), sy_ink := shown_ink st2\<rparr>)"
    by (rule sync_step.accepted [OF _ _ _ ink])
      (use new accepted(4,5) in \<open>simp_all add: abs_doc_def word_less_nat_alt\<close>)
  moreover have "abs_doc st' =
      (abs_doc st)\<lparr>sy_revision := (sy_revision (abs_doc st))(ev_source ev := unat (ev_source_revision ev)),
         sy_seen := insert (ev_event_id ev) (sy_seen (abs_doc st)), sy_ink := shown_ink st2\<rparr>"
    using accepted(7) frame
    by (simp add: accepted(3) abs_doc_def conflict_ids_def fun_eq_iff accept_input_device
        accept_device_revision_def shown_ink_cong [of "record_view _ _ _ _ (accept_input ev name st2)" st2])
  ultimately show ?thesis by simp
qed (use sync_step.acknowledged [of ev "abs_doc st"] new in \<open>simp_all add: abs_doc_def conflict_ids_def
      shown_ink_cong [of "marked_state ev st" st]\<close>)

lemma sync_step_cong:
  assumes "sync_step ev d d'" and "ev_event_id ev' = ev_event_id ev"
    and "ev_based_on ev' = ev_based_on ev" and "ev_source ev' = ev_source ev"
    and "ev_source_revision ev' = ev_source_revision ev"
  shows "sync_step ev' d d'"
  using assms(1)
proof cases
  case acknowledged
  then show ?thesis using sync_step.acknowledged [of ev' d] assms by simp
next
  case set_aside
  then show ?thesis using sync_step.set_aside [of ev' d] assms by simp
next
  case (accepted ink')
  then show ?thesis using sync_step.accepted [of ev' d ink'] assms by simp
qed

lemma sync_step_read_event:
  "sync_step (read_event ops X s ev) d d' \<Longrightarrow> sync_step ev d d'"
  by (erule sync_step_cong) simp_all

text \<open>What every plan records, whatever it decides.\<close>

definition event_recorded :: "storage_event \<Rightarrow> document_state \<Rightarrow> document_state \<Rightarrow> bool" where
  "event_recorded ev st st' \<longleftrightarrow>
     set (st_processed_event_ids st') = insert (ev_event_id ev) (set (st_processed_event_ids st)) \<and>
     st_document_id st' = st_document_id st \<and>
     st_state_revision st' = st_state_revision st + 1 \<and>
     revisions_le (revisions st) (revisions st')"

lemma event_plan_recorded:
  assumes "event_plan ops X y s ev st ws out st'"
  shows "event_recorded ev st st'"
  using assms
proof cases
  case (accepted st1 pages input st2 path bs name destination pre revs generation)
  note frame = ink_only_frame [OF device_output_ink_only [OF accepted(8)]]
  have "revisions_le (revisions st2) (revisions (accept_input ev name st2))"
    by (rule accepted_revisions_le) (use accepted(5,7) frame in simp)
  then show ?thesis
    using frame accepted(7) by (simp add: accepted(3) event_recorded_def)
qed (simp_all add: event_recorded_def)

section \<open>Resolutions refine the specification too\<close>

inductive sync_resolution :: "resolution_request \<Rightarrow> preserved_input \<Rightarrow> sync_doc \<Rightarrow> sync_doc \<Rightarrow> bool"
  for rq c d where
  outdated:
    "unat (pi_source_revision c) < sy_revision d (pi_source c) \<Longrightarrow>
       sync_resolution rq c d (d\<lparr>sy_preserved := sy_preserved d - {pi_event_id c}\<rparr>)"
| kept:
    "rq_strategy rq = KeepCurrent \<Longrightarrow> sy_revision d (pi_source c) \<le> unat (pi_source_revision c) \<Longrightarrow>
       sync_resolution rq c d
         (d\<lparr>sy_revision := (sy_revision d)(pi_source c := unat (pi_source_revision c)),
            sy_preserved := sy_preserved d - {pi_event_id c}\<rparr>)"
| merged:
    "rq_strategy rq \<noteq> KeepCurrent \<Longrightarrow> sy_revision d (pi_source c) < unat (pi_source_revision c) \<Longrightarrow>
       sync_resolution rq c d
         (d\<lparr>sy_revision := (sy_revision d)(pi_source c := unat (pi_source_revision c)),
            sy_preserved := sy_preserved d - {pi_event_id c},
            sy_ink := ink_after_operations ops (sy_ink d)\<rparr>)"

lemma abs_doc_resolved_ink:
  "abs_doc (resolved_ink X rq cc m groups) =
     (abs_doc (cc_state cc))\<lparr>
       sy_revision := (sy_revision (abs_doc (cc_state cc)))
         (pi_source (cc_conflict cc) := unat (pi_source_revision (cc_conflict cc))),
       sy_preserved := sy_preserved (abs_doc (cc_state cc)) - {rq_conflict_event_id rq},
       sy_ink := shown_ink (applied_selection X rq cc m groups)\<rparr>"
proof -
  have "dr_revision (device (resolved_ink X rq cc m groups) side) =
      (if side = pi_source (cc_conflict cc) then pi_source_revision (cc_conflict cc)
       else dr_revision (device (cc_state cc) side))" for side
    using resolved_ink_revisions [of X rq cc m groups side] by simp
  then show ?thesis
    by (auto simp: abs_doc_def conflict_ids_def fun_eq_iff
        shown_ink_cong [of "resolved_ink X rq cc m groups" "applied_selection X rq cc m groups"])
qed

lemma abs_doc_cong:
  "revisions st' = revisions st \<Longrightarrow> st_processed_event_ids st' = st_processed_event_ids st \<Longrightarrow>
   st_conflicts st' = st_conflicts st \<Longrightarrow> st_strokes st' = st_strokes st \<Longrightarrow> abs_doc st' = abs_doc st"
  by (simp add: abs_doc_def conflict_ids_def shown_ink_cong [of st' st])
    (metis rp_get_revisions)

lemma applied_selection_ink:
  "\<exists>ops. shown_ink (applied_selection X rq cc m groups) =
     (if rq_strategy rq = KeepCurrent then shown_ink (cc_state cc)
      else ink_after_operations ops (shown_ink (cc_state cc)))"
  by (auto simp: applied_selection_cases shown_ink_manifest)

lemma dropped_state_device: "device (dropped_state e st) side = device st side"
  by (cases side) (simp_all add: dropped_state_def remove_conflict_def device_def)

lemma resolution_plan_refines:
  assumes "resolution_plan ops X y s rq cc ws out st'"
    and e: "rq_conflict_event_id rq = pi_event_id (cc_conflict cc)"
  shows "sync_resolution rq (cc_conflict cc) (abs_doc (cc_state cc)) (abs_doc st')"
  using assms(1)
proof cases
  case (superseded mark)
  have "abs_doc st' = (abs_doc (cc_state cc))\<lparr>
      sy_preserved := sy_preserved (abs_doc (cc_state cc)) - {pi_event_id (cc_conflict cc)}\<rparr>"
    unfolding superseded(3) superseded_state_def dropped_state_def [symmetric]
    by (auto simp: abs_doc_def conflict_ids_def e dropped_state_device shown_ink_get fun_eq_iff)
  moreover have "unat (pi_source_revision (cc_conflict cc))
      < sy_revision (abs_doc (cc_state cc)) (pi_source (cc_conflict cc))"
    using superseded(4) by (simp add: abs_doc_def word_less_nat_alt)
  ultimately show ?thesis by (simp only: sync_resolution.outdated)
next
  case (resolved proposed groups st destination pre view pdf m extra st1 rc mark outputs)
  have "st1 = record_view (boox_view_path st) (hex X pdf) (rq_resolution_id rq) (revisions st) st \<or>
      (\<exists>p h e r. st1 = record_view p h e r
        (record_view (boox_view_path st) (hex X pdf) (rq_resolution_id rq) (revisions st) st))"
    by (rule supernote_resolution_output_state) fact
  then have "abs_doc st' = abs_doc st"
    unfolding resolved(3) by (intro abs_doc_cong) auto
  then have abs: "abs_doc st' = abs_doc (resolved_ink X rq cc proposed groups)"
    by (simp add: resolved(8))
  obtain ops where ops: "shown_ink (applied_selection X rq cc proposed groups) =
     (if rq_strategy rq = KeepCurrent then shown_ink (cc_state cc)
      else ink_after_operations ops (shown_ink (cc_state cc)))"
    using applied_selection_ink by blast
  have le: "sy_revision (abs_doc (cc_state cc)) (pi_source (cc_conflict cc))
      \<le> unat (pi_source_revision (cc_conflict cc))"
    using resolved(4) by (simp add: abs_doc_def word_le_nat_alt)
  show ?thesis
  proof (cases "rq_strategy rq = KeepCurrent")
    case True
    then show ?thesis
      using sync_resolution.kept [OF True le] ops
      by (simp add: abs abs_doc_resolved_ink e) (simp add: abs_doc_def)
  next
    case False
    then have "sy_revision (abs_doc (cc_state cc)) (pi_source (cc_conflict cc))
        \<noteq> unat (pi_source_revision (cc_conflict cc))"
      using resolved(5) by (auto simp: abs_doc_def is_equal_revision_def word_unat_eq_iff)
    with le have "sy_revision (abs_doc (cc_state cc)) (pi_source (cc_conflict cc))
        < unat (pi_source_revision (cc_conflict cc))" by simp
    from sync_resolution.merged [OF False this, of ops] ops False show ?thesis
      by (simp add: abs abs_doc_resolved_ink e) (simp add: abs_doc_def)
  qed
qed

end
