(* ===== verification/Broker_Commit.thy ===== *)
theory Broker_Commit
  imports Sync_Spec
begin

text \<open>
  What the commit of a plan means for the next handler, over any storage with the contract of
  \<open>broker_storage\<close>: the state that was committed is the state that is loaded next, the
  objects written are found, and a second plan made on the same generation is refused.
\<close>

section \<open>The paths of a plan\<close>

definition separate_paths :: "string \<Rightarrow> conditional_write list \<Rightarrow> bool" where
  "separate_paths document_id ws \<longleftrightarrow>
     distinct (map cw_path ws) \<and> state_path document_id \<notin> cw_path ` set ws"

lemma conflict_write_path [simp]: "cw_path (conflict_write path bs kind ev) = path"
  by (simp add: conflict_write_def)

lemma competing_write_paths:
  assumes "competing_write ops X s st ev side = Inr ws"
  shows "ws = [] \<or> (\<exists>w ext. ws = [w] \<and>
    cw_path w = conflict_directory X (ev_document_id ev) (ev_event_id ev) @ ''current-'' @
      side_name side @ ''.'' @ ext)"
  using assms by (auto simp: competing_write_def Let_def rbind_eq_Inr_iff split: if_splits)

lemma conflict_directory_conflicts:
  "conflict_directory X d e = ''Conflicts/'' @ d @ ''/'' @ event_path_segment (x_sha X) e @ ''/''"
  by (simp add: conflict_directory_def)

lemma conflict_paths_separate:
  assumes "try_map (competing_write ops X s st ev) [Boox, Supernote] = Inr competing"
  shows "separate_paths d
    (conflict_write (conflict_input_path X ev) input kind ev # concat competing)"
proof -
  from assms obtain b n where competing: "competing = [b, n]" and
    b: "competing_write ops X s st ev Boox = Inr b" and
    n: "competing_write ops X s st ev Supernote = Inr n"
    by (auto simp: rbind_eq_Inr_iff)
  from competing_write_paths [OF b] competing_write_paths [OF n] show ?thesis
    by (elim disjE exE conjE)
      (simp_all add: separate_paths_def competing conflict_input_path_def
        conflict_directory_conflicts state_path_def side_name_def)
qed

lemma output_path_separate:
  "state_path d \<noteq> supernote_manifest_path sha d' e" "state_path d \<noteq> boox_view_path st"
  by (simp_all add: state_path_def supernote_manifest_path_def boox_view_path_def)

lemma event_plan_separate:
  assumes "event_plan ops X y s ev st ws out st'"
  shows "separate_paths d ws"
  using assms
proof cases
  case (preserved competing input)
  then show ?thesis by (simp only: conflict_paths_separate)
next
  case (accepted st1 pages input st2 path bs name destination pre revs generation)
  have "state_path d \<noteq> path"
    by (rule device_output_cases [OF accepted(8)]) (simp_all add: output_path_separate)
  then show ?thesis by (simp add: accepted(1) separate_paths_def)
qed (simp_all add: separate_paths_def)

text \<open>At most three objects besides the state.\<close>

lemma event_plan_length:
  assumes "event_plan ops X y s ev st ws out st'"
  shows "length ws \<le> 3"
  using assms
proof cases
  case (preserved competing input)
  then obtain b n where "competing = [b, n]" and
    "competing_write ops X s st ev Boox = Inr b" "competing_write ops X s st ev Supernote = Inr n"
    by (auto simp: rbind_eq_Inr_iff)
  with competing_write_paths [of ops X s st ev Boox b] competing_write_paths [of ops X s st ev Supernote n]
  show ?thesis by (auto simp: preserved(1))
qed simp_all

lemma marker_write_path:
  "marker_write X rq rc = Inr mark \<Longrightarrow> cw_path mark = rc_marker_path rc"
  by (auto simp: marker_write_def rbind_eq_Inr_iff)

lemma resolution_plan_separate:
  assumes "resolution_plan ops X y s rq cc ws out st'"
  shows "separate_paths d ws"
  using assms
proof cases
  case (superseded mark)
  then show ?thesis
    by (auto simp: separate_paths_def marker_write_path superseded_record_def
        conflict_resolution_path_def state_path_def)
next
  case (resolved proposed groups st destination pre view pdf m extra st1 rc mark outputs)
  have mark: "cw_path mark = conflict_resolution_path (x_sha X) (rq_document_id rq) (rq_conflict_event_id rq)"
    using marker_write_path [OF resolved(14)] resolved(13)
    by (simp add: resolved_record_def case_prod_beta)
  have "extra = [] \<or> (\<exists>w. extra = [w] \<and>
      cw_path w = supernote_manifest_path (x_sha X) (rq_document_id rq) (rq_resolution_id rq))"
    using resolved(12)
    by (auto simp: supernote_resolution_output_def Let_def rbind_eq_Inr_iff split: if_splits)
  with mark show ?thesis
    by (auto simp: resolved(1,11) separate_paths_def boox_view_path_def supernote_manifest_path_def
        conflict_resolution_path_def state_path_def)
qed

section \<open>Clients of a broker storage\<close>

text \<open>The codec reads back the state it wrote; the documented behaviour of \<open>serde_json\<close> on a
  state it can represent.\<close>

definition codec_keeps :: "ext \<Rightarrow> document_state \<Rightarrow> bool" where
  "codec_keeps X st \<longleftrightarrow>
     (\<forall>bs. x_state_to_json X st = Inr bs \<longrightarrow> decode_state X (add_newline bs) = Inr st)"

context broker_storage
begin

lemma plan_reload:
  assumes "plan_committed ops X s d g ws st' s' objs" and "separate_paths d ws"
    and "codec_keeps X st'"
  shows "\<exists>obj. load_state ops X s' d = Inr (obj, st')"
proof -
  from assms(1) obtain w where
    w: "state_write X (state_path d) st' (Match g) = Inr w" and
    commit: "bs_commit ops s (ws @ [w]) = (s', Inr objs)"
    by (auto simp: plan_committed_def)
  note stored = state_write_ok [OF w]
  have paths: "distinct (map cw_path (ws @ [w]))"
    using assms(2) stored(1) by (auto simp: separate_paths_def)
  have len: "length objs = length ws + 1" using commit_length [OF commit] by simp
  have "bs_read ops s' (cw_path ((ws @ [w]) ! length ws)) = Inr (Some (objs ! length ws))"
    by (rule commit_read [OF commit paths]) simp
  then have read: "bs_read ops s' (state_path d) = Inr (Some (objs ! length ws))"
    by (simp add: stored(1))
  have "so_bytes (objs ! length ws) = cw_bytes w"
    using list_all2_nthD2 [OF commit_objects [OF commit], of "length ws"] len by simp
  then have "decode_state X (so_bytes (objs ! length ws)) = Inr st'"
    using stored(3) assms(3) by (auto simp: codec_keeps_def)
  with read show ?thesis by (auto simp: load_state_read)
qed

lemma plan_write_read:
  assumes "plan_committed ops X s d g ws st' s' objs" and "separate_paths d ws" and "w \<in> set ws"
  shows "\<exists>obj. bs_read ops s' (cw_path w) = Inr (Some obj) \<and> so_bytes obj = cw_bytes w \<and>
    so_metadata obj = cw_metadata w"
proof -
  from assms(1) obtain w' where
    w': "state_write X (state_path d) st' (Match g) = Inr w'" and
    commit: "bs_commit ops s (ws @ [w']) = (s', Inr objs)"
    by (auto simp: plan_committed_def)
  have paths: "distinct (map cw_path (ws @ [w']))"
    using assms(2) state_write_ok(1) [OF w'] by (auto simp: separate_paths_def)
  from assms(3) obtain i where i: "i < length ws" "ws ! i = w" by (auto simp: in_set_conv_nth)
  have "bs_read ops s' (cw_path ((ws @ [w']) ! i)) = Inr (Some (objs ! i))"
    by (rule commit_read [OF commit paths]) (use i in simp)
  moreover have "so_bytes (objs ! i) = cw_bytes w \<and> so_metadata (objs ! i) = cw_metadata w"
    using list_all2_nthD [OF commit_objects [OF commit], of i] i by (simp add: nth_append)
  ultimately show ?thesis using i by (auto simp: nth_append)
qed

lemma plan_frame:
  assumes "plan_committed ops X s d g ws st' s' objs" and "p \<notin> cw_path ` set ws"
    and "p \<noteq> state_path d"
  shows "bs_read ops s' p = bs_read ops s p"
  using assms commit_frame by (auto simp: plan_committed_def dest: state_write_ok(1))

lemma plan_generation:
  assumes "plan_committed ops X s d g ws st' s' objs"
  shows "\<exists>obj. bs_read ops s (state_path d) = Inr (Some obj) \<and> so_generation obj = g"
proof -
  from assms obtain w where
    w: "state_write X (state_path d) st' (Match g) = Inr w" and
    commit: "bs_commit ops s (ws @ [w]) = (s', Inr objs)"
    by (auto simp: plan_committed_def)
  from commit_match [OF commit, of w g] state_write_ok [OF w] show ?thesis by simp
qed

text \<open>A plan made on a state that another plan has replaced is refused, whole.\<close>

lemma stale_plan_refused:
  assumes first: "plan_committed ops X s d g ws st1 s1 objs" and sep: "separate_paths d ws"
    and room: "room s (length ws + 1)"
    and second: "state_write X (state_path d) st2 (Match g) = Inr w2"
  shows "\<exists>e. bs_commit ops s1 (ws2 @ [w2]) = (s1, Inl e)"
proof -
  from first obtain w where
    w: "state_write X (state_path d) st1 (Match g) = Inr w" and
    commit: "bs_commit ops s (ws @ [w]) = (s1, Inr objs)"
    by (auto simp: plan_committed_def)
  obtain old where old: "bs_read ops s (state_path d) = Inr (Some old)" "so_generation old = g"
    using plan_generation [OF first] by blast
  have paths: "distinct (map cw_path (ws @ [w]))"
    using sep state_write_ok(1) [OF w] by (auto simp: separate_paths_def)
  show ?thesis
    by (rule stale_commit_fails [OF commit paths _ old(1), of w2])
      (use room old state_write_ok [OF w] state_write_ok [OF second] in simp_all)
qed

end

end
