(* ===== verification/Example_World.thy ===== *)
theory Example_World
  imports Broker_Commit
begin

text \<open>
  One small concrete world: a document with one page and one stroke, its storage, events from
  both devices, and a concrete instance of the external code (a hash, a codec of states by
  their revision number, a PDF reader and writer).  The properties are applied to it.
\<close>

section \<open>A document\<close>

definition ink_a :: stroke_snapshot where
  "ink_a = \<lparr>source_uuid = ''a'', origin = ''supernote-native'', page_index = 0,
            native_style = default_native_style, samples = [(0, 0, 0), (0, 0, 0)],
            fingerprint = ''f''\<rparr>"

definition stroke_a :: canonical_stroke where
  "stroke_a = \<lparr>cs_stroke_id = ''a'', cs_snapshot = ink_a, cs_last_modified_by = Supernote,
               cs_source_revisions = default_revisions, cs_tombstone = None\<rparr>"

definition doc0 :: document_state where
  "doc0 = \<lparr>st_schema_version = 1, st_document_id = ''d'', st_original_object_path = ''o'',
           st_original_pdf_sha256 = ''50'', st_original_file_name = ''n.pdf'',
           st_original_page_count = 1, st_state_revision = 0, st_boox = default_device_revision,
           st_supernote = default_device_revision, st_last_common_revisions = default_revisions,
           st_processed_event_ids = [], st_strokes = [(''a'', stroke_a)],
           st_source_generations = [], st_generated_views = [], st_conflicts = [],
           st_resolved_conflicts = []\<rparr>"

section \<open>Events\<close>

text \<open>The first Supernote export of the page, empty; a BOOX manifest made on the same base; a
  second Supernote export with the same revision but other bytes.\<close>

definition export_event :: storage_event where
  "export_event =
     \<lparr>ev_schema_version = 1, ev_event_id = ''e1'', ev_document_id = ''d'', ev_source = Supernote,
      ev_object_path = ''x'', ev_source_generation = 3, ev_source_revision = 1,
      ev_based_on = default_revisions, ev_content_sha256 = [], ev_payload_kind = DeviceView,
      ev_broker_output = None\<rparr>"

definition boox_event :: storage_event where
  "boox_event =
     \<lparr>ev_schema_version = 1, ev_event_id = ''e2'', ev_document_id = ''d'', ev_source = Boox,
      ev_object_path = ''m'', ev_source_generation = 4, ev_source_revision = 1,
      ev_based_on = default_revisions, ev_content_sha256 = [],
      ev_payload_kind = BooxOperationManifest, ev_broker_output = None\<rparr>"

definition empty_export :: export_envelope where
  "empty_export =
     \<lparr>ee_schema_version = None, ee_source_file_name = None, ee_document_id = None,
      ee_based_on = None, ee_page_index = Some 0, ee_strokes = Some [], ee_pages = None\<rparr>"

definition boox_manifest :: manifest where
  "boox_manifest =
     \<lparr>mf_schema_version = 1, mf_manifest_id = ''m'', mf_source = ''boox-neoreader-embedded-pdf'',
      mf_document = \<lparr>di_source_file_name = ''n'', di_target_file_names = [], di_page_count = 1,
                     di_pdf_sha256 = ''h''\<rparr>,
      mf_y_offset = 0, mf_operations = [],
      mf_summary = \<lparr>sm_upserted = 0, sm_deleted = 0, sm_unchanged = 0, sm_skipped = 0\<rparr>\<rparr>"

section \<open>External code\<close>

text \<open>The hash is the first byte; a state is written as its revision number.\<close>

definition first_byte :: sha where
  "first_byte bs = take 1 bs"

definition bare_world :: "(bytes \<Rightarrow> document_state option) \<Rightarrow> ext" where
  "bare_world decode =
     \<lparr>x_sha = first_byte,
      x_value_of_bytes = (\<lambda>bs. Inr (JString bs)),
      x_state_of_value = (\<lambda>v. case v of
         JString bs \<Rightarrow> (case decode bs of Some st \<Rightarrow> Inr st | None \<Rightarrow> Inl ''unknown state'')
       | _ \<Rightarrow> Inl ''not a state''),
      x_state_to_json = (\<lambda>st. Inr (if st_state_revision st = 0 then ''0'' else
                              if st_conflicts st \<noteq> [] then ''2'' else ''1'')),
      x_manifest_of_json = (\<lambda>bs. Inr boox_manifest),
      x_manifest_to_json = (\<lambda>m. Inr ''{}''),
      x_resolution_to_json = (\<lambda>r. Inr ''{}''),
      x_envelope_of_json = (\<lambda>j. Inr empty_export),
      x_envelope_to_json = (\<lambda>e. Inr ''{}''),
      x_pdf_page_count = (\<lambda>bs. Inr 1),
      x_write_boox_view = (\<lambda>bs active hidden. Inr ''V''),
      x_extract_strokes = (\<lambda>bs. Inl ''unreadable''),
      x_hash_order = (\<lambda>us. us)\<rparr>"

definition read_export :: storage_event where
  "read_export = export_event\<lparr>ev_content_sha256 := ''7b''\<rparr>"

text \<open>The states after the export, and after the manifest that lost the race against it.\<close>

definition doc0_inked :: document_state where
  "doc0_inked = doc0\<lparr>st_strokes := [(''a'', tombstone_stroke read_export stroke_a)]\<rparr>"

definition doc1 :: document_state where
  "doc1 = record_view ''BOOX_Folder/d/n.pdf'' ''56'' ''e1'' \<lparr>rp_boox = 0, rp_supernote = 1\<rparr>
            (accept_input read_export None doc0_inked)"

definition decode_doc :: "bytes \<Rightarrow> document_state option" where
  "decode_doc bs = (if bs = [CHR ''0'', CHR 0x0A] then Some doc0
                    else if bs = [CHR ''1'', CHR 0x0A] then Some doc1 else None)"

definition world :: ext where
  "world = bare_world decode_doc"

section \<open>Storage\<close>

definition storage0 :: memory_storage where
  "storage0 =
     fst (mem_put ''m'' ''{}'' []
       (fst (mem_put ''x'' ''{}'' []
         (fst (mem_put ''Canonical/d/state.json'' [CHR ''0'', CHR 0x0A] []
           (fst (mem_put ''o'' ''P'' [] empty_memory)))))))"

text \<open>The storage after the export was processed.\<close>

definition storage1 :: memory_storage where
  "storage1 = fst (process mem_ops world 0 storage0 export_event)"

lemma export_applied:
  "process mem_ops world 0 storage0 export_event =
     (storage1, Inr (Applied ''d'' ''e1'' ''BOOX_Folder/d/n.pdf'' 5 \<lparr>rp_boox = 0, rp_supernote = 1\<rparr>))"
  by code_simp

definition object0 :: stored_object where
  "object0 = \<lparr>so_bytes = [CHR ''0'', CHR 0x0A], so_generation = 2, so_metadata = []\<rparr>"

lemma load_doc0: "load_state mem_ops world storage0 ''d'' = Inr (object0, doc0)"
  by code_simp

text \<open>From the first state the export admits one plan only.\<close>

lemma read_export_event: "read_event mem_ops world storage0 export_event = read_export"
  by code_simp

lemma export_checks:
  "ev_broker_output read_export = None"
  "bs_read mem_ops storage0 (ev_object_path read_export) =
     Inr (Some \<lparr>so_bytes = ''{}'', so_generation = 3, so_metadata = []\<rparr>)"
  "bs_read_generation mem_ops storage0 (ev_object_path read_export)
     (ev_source_generation read_export) =
     Inr (Some \<lparr>so_bytes = ''{}'', so_generation = 3, so_metadata = []\<rparr>)"
  "\<not> ev_source_generation read_export < 3"
  "\<not> ev_source_revision read_export \<le> dr_revision (device doc0 (ev_source read_export))"
  "ev_based_on read_export = revisions doc0"
  "ensure_original_page_count mem_ops world storage0 doc0 = Inr doc0"
  "device_output mem_ops world 0 storage0 doc0 read_export ''{}'' =
     Inr (doc0_inked, ''BOOX_Folder/d/n.pdf'', ''V'', None)"
  by code_simp+

lemma doc1_final:
  "record_view ''BOOX_Folder/d/n.pdf'' (hex world ''V'') (ev_event_id read_export)
     (revisions (accept_input read_export None doc0_inked)) (accept_input read_export None doc0_inked) =
   doc1"
  by code_simp

lemma export_plan_doc1:
  assumes "event_plan mem_ops world 0 storage0 read_export doc0 ws out st'"
  shows "st' = doc1"
  using assms
proof cases
  case (own_output metadata)
  then show ?thesis by (simp add: is_broker_output_def export_checks)
next
  case (accepted st1 pages input st2 path bs name destination pre revs generation)
  have "st1 = doc0" using accepted(13) export_checks(7) by auto
  moreover have "input = ''{}''" using accepted(12) export_checks(3) by (auto simp: source_input_def)
  ultimately have "st2 = doc0_inked \<and> path = ''BOOX_Folder/d/n.pdf'' \<and> bs = ''V'' \<and> name = None"
    using accepted(8) export_checks(8) by simp
  with doc1_final show ?thesis unfolding accepted(3,11) by simp
qed (use export_checks in auto)

lemma doc1_written:
  "x_state_to_json world doc1 = Inr ''1''" "decode_state world (add_newline ''1'') = Inr doc1"
  by code_simp+

lemma doc1_codec: "codec_keeps world doc1"
  by (simp add: codec_keeps_def doc1_written)

lemma export_plan_codec:
  "event_plan mem_ops world 0 storage0 (read_event mem_ops world storage0 export_event) doc0 ws out st' \<Longrightarrow>
     codec_keeps world st'"
  unfolding read_export_event by (drule export_plan_doc1) (simp add: doc1_codec)

lemma doc0_wf: "state_wf doc0"
  by (simp add: state_wf_def doc0_def stroke_a_def bm_wf_def)

lemma event_documents [simp]:
  "ev_document_id export_event = ''d''" "ev_document_id boox_event = ''d''"
  by (simp_all add: export_event_def boox_event_def)

definition storage2 :: memory_storage where
  "storage2 = fst (process mem_ops world 0 storage1 boox_event)"

lemma boox_conflict:
  "process mem_ops world 0 storage1 boox_event =
     (storage2, Inr (Conflict ''d'' ''e2'' (conflict_input_path world boox_event)
       \<lparr>rp_boox = 0, rp_supernote = 1\<rparr> \<lparr>rp_boox = 0, rp_supernote = 0\<rparr>))"
  by code_simp

definition object1 :: stored_object where
  "object1 = \<lparr>so_bytes = [CHR ''1'', CHR 0x0A], so_generation = 6,
             so_metadata = bm_of_list [(''inkbridge-kind'', ''canonical-state''),
                                       (''inkbridge-document-id'', ''d'')]\<rparr>"

lemma load_doc1: "load_state mem_ops world storage1 (ev_document_id boox_event) = Inr (object1, doc1)"
  by code_simp

lemma boox_source:
  "bs_read_generation mem_ops storage1 (ev_object_path boox_event) (ev_source_generation boox_event) =
     Inr (Some \<lparr>so_bytes = ''{}'', so_generation = 4, so_metadata = []\<rparr>)"
  by code_simp

lemma doc1_conflicts: "st_conflicts doc1 = []" "ev_event_id boox_event = ''e2''"
  by (simp_all add: doc1_def doc0_inked_def doc0_def boox_event_def)

lemma doc0_state_revision: "st_state_revision doc0 = 0"
  by (simp add: doc0_def)

lemma event_id_1: "ev_event_id export_event = ''e1''"
  by (simp add: export_event_def)

lemma storage0_room: "mem_room storage0 5"
  by (simp add: storage0_def mem_room_def mem_put_def empty_memory_def Let_def)

lemma storage1_changed: "storage1 \<noteq> storage0"
  by code_simp

text \<open>The acknowledgement of the BOOX event that a slower handler planned on the first state.\<close>

definition late_write :: conditional_write where
  "late_write =
     \<lparr>cw_path = ''Canonical/d/state.json'', cw_bytes = [CHR ''1'', CHR 0x0A],
      cw_metadata = bm_of_list [(''inkbridge-kind'', ''canonical-state''),
                                (''inkbridge-document-id'', ''d'')],
      cw_precondition = Match 2\<rparr>"

lemma late_write_planned:
  "state_write world (state_path (ev_document_id export_event)) (marked_state boox_event doc0)
     (Match (so_generation object0)) = Inr late_write"
  by code_simp

lemma no_view_yet:
  "bs_read mem_ops storage0 ''BOOX_Folder/d/n.pdf'' = Inr None"
  "bm_get (st_generated_views doc0) ''BOOX_Folder/d/n.pdf'' = None"
  by code_simp+

text \<open>The notification of the view the broker wrote for the export.\<close>

definition echo_event :: storage_event where
  "echo_event =
     \<lparr>ev_schema_version = 1, ev_event_id = ''e3'', ev_document_id = ''d'', ev_source = Boox,
      ev_object_path = ''BOOX_Folder/d/n.pdf'', ev_source_generation = 5, ev_source_revision = 1,
      ev_based_on = revisions doc1, ev_content_sha256 = [], ev_payload_kind = DeviceView,
      ev_broker_output = Some (output_marker_of export_event (revisions doc1))\<rparr>"

definition echo_object :: stored_object where
  "echo_object =
     \<lparr>so_bytes = ''V'', so_generation = 5,
      so_metadata = output_metadata (output_marker_of export_event (revisions doc1)) ''56''\<rparr>"

definition storage3 :: memory_storage where
  "storage3 = fst (process mem_ops world 0 storage1 echo_event)"

lemma echo_processed:
  "process mem_ops world 0 storage1 echo_event =
     (storage3, Inr (IgnoredBrokerOutput ''d'' ''e3''))"
  by code_simp

lemma echo_checks:
  "load_state mem_ops world storage1 (ev_document_id echo_event) = Inr (object1, doc1)"
  "bs_read_generation mem_ops storage1 (ev_object_path echo_event) (ev_source_generation echo_event) =
     Inr (Some echo_object)"
  "so_metadata echo_object =
     output_metadata (output_marker_of export_event (revisions doc1)) (hex world (so_bytes echo_object))"
  "ev_broker_output echo_event = Some (output_marker_of export_event (revisions doc1))"
  "om_producer (output_marker_of export_event (revisions doc1)) = broker_producer"
  "om_document_id (output_marker_of export_event (revisions doc1)) = ev_document_id echo_event"
  by code_simp+

text \<open>The stroke moved to another page.\<close>

definition ink_b :: stroke_snapshot where
  "ink_b = ink_a\<lparr>page_index := 1\<rparr>"

definition moved_manifest :: manifest where
  "moved_manifest = boox_manifest\<lparr>mf_operations :=
     [DeleteStroke ''a'' 0 ink_a, UpsertStroke ''a'' 1 None ink_b]\<rparr>"

lemma moved_operations:
  "mf_operations moved_manifest = [DeleteStroke ''a'' 0 ink_a, UpsertStroke ''a'' 1 None ink_b]"
  by (simp add: moved_manifest_def)

lemma empty_export_applied:
  "apply_supernote_export world read_export ''{}'' doc0 = Inr doc0_inked"
  by code_simp

lemma empty_export_parsed:
  "parse_baseline_bytes (x_envelope_of_json world) ''{}'' (ev_object_path read_export) =
     Inr \<lparr>be_source_file_name = None, be_document_id = None, be_based_on = None,
          be_pages = [\<lparr>bp_page_index = 0, bp_strokes = []\<rparr>]\<rparr>"
  by code_simp

end
