(* ===== verification/Broker_Properties.thy ===== *)
theory Broker_Properties
  imports Example_World
begin

text \<open>
  The properties of \<open>process\<close> and of the documents it keeps: refinement of the abstract
  specification, conflicts that preserve both sides, exact revision bookkeeping, idempotent
  redelivery, lost-update protection, loop prevention and the guard on destinations.  Each
  property is applied to the concrete world of \<open>Example_World\<close>.
\<close>

section \<open>Refinement\<close>

text \<open>C1: over any storage that keeps the contract of \<open>BrokerStorage\<close>, every successful call of
  \<open>process\<close> either finds the event already processed and leaves the storage alone, or carries
  out one step of the abstract specification (acknowledge, set aside as a conflict, accept) in
  a single commit guarded by the generation of the state it read; the next handler then loads
  exactly the state that was committed.\<close>

theorem process_refines_specification:
  assumes "broker_storage ops room"
    and "process ops X y s ev = (s', Inr out)"
    and "load_state ops X s (ev_document_id ev) = Inr (obj, st)" and "state_wf st"
  shows "(s' = s \<and> out = Duplicate (ev_document_id ev) (ev_event_id ev) \<and>
            ev_event_id ev \<in> sy_seen (abs_doc st)) \<or>
    (\<exists>st' ws objs. sync_step ev (abs_doc st) (abs_doc st') \<and>
       plan_committed ops X s (ev_document_id ev) (so_generation obj) ws st' s' objs \<and>
       (codec_keeps X st' \<longrightarrow> (\<exists>obj'. load_state ops X s' (ev_document_id ev) = Inr (obj', st'))))"
  using assms(2)
proof (cases rule: process_ok)
  case (duplicate obj' st'')
  then show ?thesis using assms(3) by (simp add: abs_doc_def)
next
  case (committed obj' st'' ws st' objs)
  then have plan: "event_plan ops X y s (read_event ops X s ev) st ws out st'"
      "ev_event_id ev \<notin> set (st_processed_event_ids st)"
      "plan_committed ops X s (ev_document_id ev) (so_generation obj) ws st' s' objs"
    using assms(3) by simp_all
  have "sync_step (read_event ops X s ev) (abs_doc st) (abs_doc st')"
    using event_plan_refines [OF plan(1) assms(4)] plan(2) by simp
  then have "sync_step ev (abs_doc st) (abs_doc st')" by (rule sync_step_read_event)
  moreover have "codec_keeps X st' \<Longrightarrow> \<exists>obj'. load_state ops X s' (ev_document_id ev) = Inr (obj', st')"
    by (rule broker_storage.plan_reload [OF assms(1) plan(3) event_plan_separate [OF plan(1)]])
  ultimately show ?thesis using plan(3) by blast
qed

theorem process_refines_specification_witness:
  "\<exists>st' ws objs. sync_step export_event (abs_doc doc0) (abs_doc st') \<and>
     plan_committed mem_ops world storage0 ''d'' 2 ws st' storage1 objs"
  using process_refines_specification [OF mem.broker_storage_axioms export_applied _ doc0_wf]
  by (simp add: load_doc0 object0_def) blast

section \<open>No latest file wins\<close>

text \<open>C2: when \<open>process\<close> answers \<open>Conflict\<close>, the committed state keeps every stroke, both device
  records and every generated view as they were, appends the event to the active conflicts, and
  the bytes of the incoming file are stored under the preserved path, where nothing was before;
  the event was made on other revisions than the current ones or repeats an accepted revision
  with different bytes.\<close>

theorem conflict_preserves_both_sides:
  assumes "broker_storage ops room"
    and "process ops X y s ev = (s', Inr (Conflict d e path current base))"
    and "load_state ops X s (ev_document_id ev) = Inr (obj, st)"
    and "bs_read_generation ops s (ev_object_path ev) (ev_source_generation ev) = Inr (Some src)"
  shows "\<exists>st' ws objs kept.
    plan_committed ops X s (ev_document_id ev) (so_generation obj) ws st' s' objs \<and>
    st_strokes st' = st_strokes st \<and> (\<forall>side. device st' side = device st side) \<and>
    st_generated_views st' = st_generated_views st \<and>
    map pi_event_id (st_conflicts st') = map pi_event_id (st_conflicts st) @ [ev_event_id ev] \<and>
    pi_preserved_path (last (st_conflicts st')) = path \<and>
    bs_read ops s path = Inr None \<and>
    bs_read ops s' path = Inr (Some kept) \<and> so_bytes kept = so_bytes src \<and>
    current = revisions st \<and> base = ev_based_on ev \<and>
    (base \<noteq> current \<or> ev_source_revision ev \<le> dr_revision (device st (ev_source ev)))"
  using assms(2)
proof (cases rule: process_ok)
  case (committed obj' st'' ws st' objs)
  then have plan: "event_plan ops X y s (read_event ops X s ev) st ws (Conflict d e path current base) st'"
      "plan_committed ops X s (ev_document_id ev) (so_generation obj) ws st' s' objs"
    using assms(3) by simp_all
  note sep = event_plan_separate [OF plan(1)]
  from plan(1) show ?thesis
  proof (cases rule: event_plan_conflict [consumes 1])
    case (1 competing input)
    let ?w = "conflict_write path input ''conflict-input'' (read_event ops X s ev)"
    have w: "?w \<in> set ws" using 1 by simp
    have "input = so_bytes src" using 1 assms(4) by (auto simp: source_input_def)
    moreover obtain kept where "bs_read ops s' path = Inr (Some kept)" "so_bytes kept = input"
      using broker_storage.plan_write_read [OF assms(1) plan(2) sep w] by (auto simp: conflict_write_def)
    moreover have "bs_read ops s path = Inr None"
      using plan(2) w broker_storage.commit_absent [OF assms(1), of s _ s' objs ?w]
      by (auto simp: plan_committed_def conflict_write_def)
    ultimately show ?thesis using 1 plan(2) by (intro exI [of _ st'] exI [of _ ws] exI) auto
  qed
qed simp

theorem conflict_preserves_both_sides_witness:
  "\<exists>(st' :: document_state) kept. st_strokes st' = st_strokes doc1 \<and>
     map pi_event_id (st_conflicts st') = [''e2''] \<and>
     bs_read mem_ops storage2 (conflict_input_path world boox_event) = Inr (Some kept) \<and>
     so_bytes kept = ''{}''"
  using conflict_preserves_both_sides
    [OF mem.broker_storage_axioms boox_conflict load_doc1 boox_source]
  unfolding doc1_conflicts stored_object.simps list.map append_Nil
  by (elim exE conjE) (rule exI, rule exI, intro conjI, assumption+)

section \<open>Exact bookkeeping\<close>

text \<open>C3: \<open>Applied\<close> means the event was made on the current revisions of both devices and names
  a newer revision of its own device (the next one, or one that follows a preserved input); the
  committed state advances exactly that revision, keeps the other device's record except the
  Supernote document name, records the event as processed, counts one state revision and makes
  the new revisions the common ones; the output it reports is in the storage, stamped with
  those revisions.\<close>

theorem applied_advances_exactly:
  assumes "broker_storage ops room"
    and "process ops X y s ev = (s', Inr (Applied d e path generation revs))"
    and "load_state ops X s (ev_document_id ev) = Inr (obj, st)"
  shows "\<exists>st' ws objs out.
    plan_committed ops X s (ev_document_id ev) (so_generation obj) ws st' s' objs \<and>
    ev_based_on ev = revisions st \<and>
    dr_revision (device st (ev_source ev)) < ev_source_revision ev \<and>
    revs = revisions st' \<and>
    revs = rp_set (ev_source ev) (ev_source_revision ev) (revisions st) \<and>
    st_last_common_revisions st' = revs \<and>
    set (st_processed_event_ids st') = insert (ev_event_id ev) (set (st_processed_event_ids st)) \<and>
    st_state_revision st' = st_state_revision st + 1 \<and>
    st_conflicts st' = st_conflicts st \<and>
    bs_read ops s' path = Inr (Some out) \<and>
    so_metadata out = output_metadata (output_marker_of ev revs) (hex X (so_bytes out)) \<and>
    bm_get (st_generated_views st') path =
      Some \<lparr>gv_object_path = path, gv_content_sha256 = hex X (so_bytes out),
            gv_source_revisions = revs, gv_event_id = ev_event_id ev\<rparr>"
  using assms(2)
proof (cases rule: process_ok)
  case (committed obj' st'' ws st' objs)
  then have plan: "event_plan ops X y s (read_event ops X s ev) st ws
        (Applied d e path generation revs) st'"
      "plan_committed ops X s (ev_document_id ev) (so_generation obj) ws st' s' objs"
    using assms(3) by simp_all
  note sep = event_plan_separate [OF plan(1)]
  from plan(1) show ?thesis
  proof (cases rule: event_plan_applied [consumes 1])
    case (1 pages input st2 bs name destination pre)
    note frame = ink_only_frame [OF device_output_ink_only [OF 1(6)]]
    let ?ev = "read_event ops X s ev"
    have "revs = next_revisions ?ev"
      unfolding 1(13) by (rule accept_input_next) (use 1 frame in simp)
    then have revs: "revs = rp_set (ev_source ev) (ev_source_revision ev) (revisions st)"
      using 1(3) by (simp add: next_revisions_def)
    have marker: "output_marker_of ?ev revs = output_marker_of ev revs"
      by (simp add: output_marker_of_def)
    have "hd ws \<in> set ws" using 1(1) by simp
    from broker_storage.plan_write_read [OF assms(1) plan(2) sep this] obtain out where
      out: "bs_read ops s' path = Inr (Some out)" "so_bytes out = bs"
        "so_metadata out = output_metadata (output_marker_of ev revs) (hex X bs)"
      using 1(1,13) marker by auto
    have "st_last_common_revisions st' = revs" "revisions st' = revs"
      using 1(2,13) by simp_all
    with plan(2) out revs show ?thesis
      using 1 frame by (intro exI [of _ st'] exI [of _ ws] exI [of _ objs] exI [of _ out])
        (simp add: record_view_def)
  qed
qed simp

theorem applied_advances_exactly_witness:
  "\<exists>(st' :: document_state) out. bs_read mem_ops storage1 ''BOOX_Folder/d/n.pdf'' = Inr (Some out) \<and>
     revisions st' = \<lparr>rp_boox = 0, rp_supernote = 1\<rparr> \<and> st_state_revision st' = 1"
  using applied_advances_exactly [OF mem.broker_storage_axioms export_applied]
  by (auto simp: load_doc0 doc0_state_revision)

section \<open>Redelivery and races\<close>

text \<open>C4: delivery is idempotent.  If the state a call commits is read back as it was written,
  then after a successful call, delivering the event again, to a handler with any
  configuration, changes nothing and answers \<open>Duplicate\<close>.\<close>

theorem redelivery_is_duplicate:
  assumes "broker_storage ops room"
    and "load_state ops X s (ev_document_id ev) = Inr (obj, st)"
    and "\<And>ws out st'. event_plan ops X y s (read_event ops X s ev) st ws out st' \<Longrightarrow>
      codec_keeps X st'"
    and "process ops X y s ev = (s', Inr out)"
  shows "process ops X y' s' ev = (s', Inr (Duplicate (ev_document_id ev) (ev_event_id ev)))"
proof -
  have valid: "validate_event ev = Inr ()"
    using assms(4) by (auto simp: process_def attempt_Inr_iff)
  show ?thesis
    using assms(4)
  proof (cases rule: process_ok)
    case (duplicate obj' st'')
    moreover have "st_document_id st = ev_document_id ev"
      using assms(2,4) by (auto simp: process_def attempt_Inr_iff split: if_splits)
    ultimately show ?thesis using valid assms(2) by (simp add: process_def)
  next
    case (committed obj' st'' ws st' objs)
    then have plan: "event_plan ops X y s (read_event ops X s ev) st ws out st'"
      using assms(2) by simp
    obtain obj1 where "load_state ops X s' (ev_document_id ev) = Inr (obj1, st')"
      using broker_storage.plan_reload
        [OF assms(1) committed(5) event_plan_separate [OF plan] assms(3) [OF plan]] by blast
    with valid committed(1,2) assms(2) event_plan_recorded [OF plan] show ?thesis
      by (simp add: process_def event_recorded_def)
  qed
qed

theorem redelivery_is_duplicate_witness:
  "process mem_ops world 0 storage1 export_event = (storage1, Inr (Duplicate ''d'' ''e1''))"
  using redelivery_is_duplicate
    [OF mem.broker_storage_axioms _ export_plan_codec export_applied]
  by (simp add: load_doc0 event_id_1)

text \<open>C5: no lost update.  Once a handler has committed for an event, a plan that another
  handler made from the same generation of the state is refused as a whole, whatever else it
  writes, and leaves the storage as the first handler left it.\<close>

theorem racing_handler_is_refused:
  assumes "broker_storage ops room" and "room s n" and "4 < n"
    and "process ops X y s ev = (s1, Inr out)" and "s1 \<noteq> s"
    and "load_state ops X s (ev_document_id ev) = Inr (obj, st)"
    and "state_write X (state_path (ev_document_id ev)) st2 (Match (so_generation obj)) = Inr w2"
  shows "\<exists>e. bs_commit ops s1 (ws2 @ [w2]) = (s1, Inl e)"
  using assms(4)
proof (cases rule: process_ok)
  case (duplicate obj' st')
  with assms(5) show ?thesis by simp
next
  case (committed obj' st' ws st1 objs)
  have plan: "plan_committed ops X s (ev_document_id ev) (so_generation obj) ws st1 s1 objs"
    using committed(1,5) assms(6) by simp
  have "room s (length ws + 1)"
    by (rule broker_storage.room_mono [OF assms(1,2)])
      (use event_plan_length [OF committed(4)] assms(3) in simp)
  from broker_storage.stale_plan_refused
    [OF assms(1) plan event_plan_separate [OF committed(4)] this assms(7)]
  show ?thesis .
qed

theorem racing_handler_is_refused_witness:
  "\<exists>e. bs_commit mem_ops storage1 ([] @ [late_write]) = (storage1, Inl e)"
  using racing_handler_is_refused
    [OF mem.broker_storage_axioms storage0_room _ export_applied storage1_changed _ late_write_planned,
      where st = doc0 and ?ws2.0 = "[]"]
  by (simp add: load_doc0)

section \<open>Destinations and loops\<close>

text \<open>C6: the broker overwrites only what it knows.  When \<open>process\<close> applies an event there are
  three cases.  Nothing was at the destination and no view was recorded for it; or the object
  there had exactly the content hash of the view recorded for it; or the destination is the very
  path the event came from, a view is recorded for it, and the object there has exactly the hash
  of the bytes the event was read from (which then replaced the recorded hash, the input having
  consumed that view).  An object of any other content is never replaced.\<close>

theorem destination_was_known:
  assumes "process ops X y s ev = (s', Inr (Applied d e path generation revs))"
    and "load_state ops X s (ev_document_id ev) = Inr (obj, st)"
  shows "(bs_read ops s path = Inr None \<and> bm_get (st_generated_views st) path = None) \<or>
    (\<exists>old view. bs_read ops s path = Inr (Some old) \<and> bm_get (st_generated_views st) path = Some view \<and>
       (hex X (so_bytes old) = gv_content_sha256 view \<or>
        path = ev_object_path ev \<and> hex X (so_bytes old) = ev_content_sha256 (read_event ops X s ev)))"
  using assms(1)
proof (cases rule: process_ok)
  case (committed obj' st'' ws st' objs)
  then have plan: "event_plan ops X y s (read_event ops X s ev) st ws
        (Applied d e path generation revs) st'"
    using assms(2) by simp
  then show ?thesis
  proof (cases rule: event_plan_applied [consumes 1])
    case (1 pages input st2 bs name destination pre)
    let ?ev = "read_event ops X s ev"
    note frame = ink_only_frame [OF device_output_ink_only [OF 1(6)]]
    have views: "st_generated_views (accept_input ?ev name st2) =
        consume_view ?ev (revisions (accept_input ?ev name st2)) (st_generated_views st)"
      using frame by (simp add: accept_input_views)
    show ?thesis
    proof (cases "bm_get (st_generated_views st) path")
      case None
      then show ?thesis
        using 1(7,8) by (auto simp: destination_precondition_ok views consume_view_get split: if_splits)
    next
      case (Some view)
      then show ?thesis
        using 1(7,8)
        by (auto simp: destination_precondition_ok views consume_view_get split: if_splits)
    qed
  qed
qed simp

theorem destination_was_known_witness:
  "(bs_read mem_ops storage0 ''BOOX_Folder/d/n.pdf'' = Inr None \<and>
      bm_get (st_generated_views doc0) ''BOOX_Folder/d/n.pdf'' = None) \<or>
    (\<exists>old view. bs_read mem_ops storage0 ''BOOX_Folder/d/n.pdf'' = Inr (Some old) \<and>
       bm_get (st_generated_views doc0) ''BOOX_Folder/d/n.pdf'' = Some view \<and>
       hex world (so_bytes old) = gv_content_sha256 view)"
  using destination_was_known [OF export_applied] no_view_yet by (simp add: load_doc0)

text \<open>C7: the broker does not react to itself.  An event for an object that carries the broker's
  own output metadata (producer, document, event and the hash of the very bytes that were read),
  announced with the matching marker, can only be answered \<open>Duplicate\<close>, with nothing changed, or
  \<open>IgnoredBrokerOutput\<close>, with a committed state that is the loaded one but for exactly three fields:
  the event is among the processed ones, the generation of its path is recorded, and the state
  revision is one higher.  Ink, devices, revisions, conflicts and views stay as they were, and no
  object is written.\<close>

theorem own_output_is_ignored:
  assumes "process ops X y s ev = (s', Inr out)"
    and "load_state ops X s (ev_document_id ev) = Inr (obj, st)"
    and "bs_read_generation ops s (ev_object_path ev) (ev_source_generation ev) = Inr (Some src)"
    and "so_metadata src = output_metadata marker (hex X (so_bytes src))"
    and "ev_broker_output ev = Some marker"
    and "om_producer marker = broker_producer" and "om_document_id marker = ev_document_id ev"
  shows "(s' = s \<and> out = Duplicate (ev_document_id ev) (ev_event_id ev)) \<or>
    (out = IgnoredBrokerOutput (ev_document_id ev) (ev_event_id ev) \<and>
     (\<exists>objs. plan_committed ops X s (ev_document_id ev) (so_generation obj) []
        (st\<lparr>st_processed_event_ids := bs_insert (ev_event_id ev) (st_processed_event_ids st),
            st_source_generations :=
              bm_insert (ev_object_path ev) (ev_source_generation ev) (st_source_generations st),
            st_state_revision := st_state_revision st + 1\<rparr>) s' objs))"
proof (cases "ev_event_id ev \<in> set (st_processed_event_ids st)")
  case True
  with assms(1,2) show ?thesis
    by (auto simp: process_def attempt_Inr_iff split: if_splits)
next
  case False
  have own: "is_broker_output (effective_event X ev src) (so_metadata src) (hex X (so_bytes src))"
    using assms(4-7) by (simp add: is_broker_output_def output_metadata_get effective_event_def)
  from assms(1-3) False have
    "process_source ops X y s st (so_generation obj) ev src = (s', Inr out)"
    by (auto simp: process_def attempt_Inr_iff split: if_splits)
  with own have "and_then (mark_event_only ops X s st (state_path (ev_document_id ev))
      (so_generation obj) (effective_event X ev src))
      (\<lambda>s' _. (s', Inr (IgnoredBrokerOutput (ev_document_id ev) (ev_event_id ev)))) = (s', Inr out)"
    by (simp add: process_source_def Let_def split: if_splits)
  then have "out = IgnoredBrokerOutput (ev_document_id ev) (ev_event_id ev)"
    "\<exists>objs. plan_committed ops X s (ev_document_id ev) (so_generation obj) []
       (marked_state (effective_event X ev src) st) s' objs"
    by (auto simp: and_then_Inr_iff mark_event_only_ok)
  then show ?thesis by (simp add: marked_state_def effective_event_def)
qed

theorem own_output_is_ignored_witness:
  "\<exists>objs. plan_committed mem_ops world storage1 ''d'' 6 []
     (doc1\<lparr>st_processed_event_ids := bs_insert ''e3'' (st_processed_event_ids doc1),
           st_source_generations :=
             bm_insert ''BOOX_Folder/d/n.pdf'' 5 (st_source_generations doc1),
           st_state_revision := st_state_revision doc1 + 1\<rparr>) storage3 objs"
  using own_output_is_ignored [OF echo_processed echo_checks]
  by (simp add: object1_def echo_event_def)

section \<open>Ink\<close>

text \<open>C8: a manifest acts stroke by stroke.  After \<open>apply_manifest\<close> a stroke is the last snapshot
  upserted for it; otherwise, if some operation deletes it, it is the current stroke (or the
  deleted snapshot, when unknown) under the event's tombstone; otherwise it is untouched.  A
  stroke is never dropped, and every touched stroke is stamped with the event's revisions.\<close>

theorem manifest_acts_per_stroke:
  "bm_get (st_strokes (apply_manifest ev m st)) u =
     (case find (upserts u) (rev (mf_operations m)) of
        Some o' \<Rightarrow> Some (written_stroke ev u (op_after o'))
      | None \<Rightarrow>
          (case find (deletes u) (mf_operations m) of
             Some o' \<Rightarrow>
               Some (tombstone_stroke ev
                 (case bm_get (st_strokes st) u of
                    Some c \<Rightarrow> c
                  | None \<Rightarrow> written_stroke ev u (op_before o')))
           | None \<Rightarrow> bm_get (st_strokes st) u))"
  by (simp only: apply_manifest_get stroke_after_manifest_def)

text \<open>C9: the result of a manifest does not depend on the order of its operations, when it has
  at most one upsert and one delete per stroke, as every validated manifest has; a move between
  pages (delete on one, upsert on the other) ends as the upsert in either order.\<close>

theorem manifest_order_is_irrelevant:
  assumes "compact_operations (mf_operations m)" and "mset ops' = mset (mf_operations m)"
    and "state_wf st"
  shows "apply_manifest ev (m\<lparr>mf_operations := ops'\<rparr>) st = apply_manifest ev m st"
  by (rule apply_manifest_order [OF assms(1,2)]) (use assms(3) in \<open>simp add: state_wf_def\<close>)

theorem manifest_order_is_irrelevant_witness:
  "apply_manifest boox_event
     (moved_manifest\<lparr>mf_operations :=
        [UpsertStroke ''a'' 1 None ink_b, DeleteStroke ''a'' 0 ink_a]\<rparr>) doc0 =
   apply_manifest boox_event moved_manifest doc0"
  by (rule manifest_order_is_irrelevant [OF _ _ doc0_wf])
    (simp_all add: moved_operations compact_operations_def)

text \<open>C10: a Supernote export is exact on the pages it covers and silent on the others.  After an
  accepted export the active strokes of a covered page are exactly the strokes the export lists
  for it, and a stroke the export does not name, lying on a page it does not cover, is
  untouched.\<close>

theorem export_is_exact_on_its_pages:
  assumes "apply_supernote_export X ev bs st = Inr st'" and "state_wf st"
    and "parse_baseline_bytes (x_envelope_of_json X) bs (ev_object_path ev) = Inr ex"
  shows "(\<forall>p\<in>set (be_pages ex). page_strokes st' (bp_page_index p) = set (bp_strokes p)) \<and>
    (\<forall>u c. u \<notin> source_uuid ` set (export_strokes ex) \<longrightarrow> bm_get (st_strokes st) u = Some c \<longrightarrow>
       page_index (cs_snapshot c) \<notin> bp_page_index ` set (be_pages ex) \<longrightarrow>
       bm_get (st_strokes st') u = Some c)"
  using apply_supernote_export_page [OF assms]
    apply_supernote_export_other_pages [OF assms(1,3)] by blast

theorem export_is_exact_on_its_pages_witness:
  "page_strokes doc0_inked 0 = {}"
  using export_is_exact_on_its_pages [OF empty_export_applied doc0_wf empty_export_parsed] by simp

end
