(* ===== verification/Gateway_Model.thy ===== *)
theory Gateway_Model
  imports Broker_Model
begin

text \<open>
  \<open>inkbridge-drive-gateway/src/model.rs\<close>: the configuration of the two Drive folders, the
  binding of Drive files to documents and sides, the checkpoint of the gateway with its
  validation, and the decisions of the planner.
\<close>

section \<open>Configuration\<close>

definition gateway_schema_version :: u32 where "gateway_schema_version = 1"

definition gateway_producer :: string where "gateway_producer = ''inkbridge-drive-gateway''"

record gateway_config =
  gc_schema_version :: u32
  gc_boox_folder_id :: string
  gc_supernote_folder_id :: string

definition validate_drive_id :: "string \<Rightarrow> string \<Rightarrow> string + unit" where
  "validate_drive_id label value =
     (if length value < 10 \<or> length value > 200 \<or>
         \<not> list_all (\<lambda>c. is_alphanumeric c \<or> c = CHR ''-'' \<or> c = CHR ''_'') value
      then Inl (label @ '' ID is invalid'')
      else Inr ())"

definition validate_config :: "gateway_config \<Rightarrow> string + unit" where
  "validate_config cfg =
     (if gc_schema_version cfg \<noteq> gateway_schema_version then
        Inl (''unsupported Drive gateway schema version '' @ show_u32 (gc_schema_version cfg))
      else
        rbind (validate_drive_id ''BOOX folder'' (gc_boox_folder_id cfg)) (\<lambda>_.
        rbind (validate_drive_id ''Supernote folder'' (gc_supernote_folder_id cfg)) (\<lambda>_.
          if gc_boox_folder_id cfg = gc_supernote_folder_id cfg then
            Inl ''BOOX and Supernote Drive folders must be distinct''
          else Inr ())))"

definition folder_id :: "gateway_config \<Rightarrow> device_side \<Rightarrow> string" where
  "folder_id cfg side =
     (case side of Boox \<Rightarrow> gc_boox_folder_id cfg | Supernote \<Rightarrow> gc_supernote_folder_id cfg)"

section \<open>Drive files and document bindings\<close>

record drive_file_revision =
  fr_file_id :: string
  fr_name :: string
  fr_version :: u64
  fr_mime_type :: string
  fr_parents :: "string list"
  fr_size :: u64
  fr_trashed :: bool
  fr_app_properties :: "(string, string) bmap"

record drive_change =
  dc_file :: drive_file_revision

record document_binding =
  db_document_id :: string
  db_original_pdf_sha256 :: string
  db_boox_file_ids :: "string bset"
  db_supernote_file_ids :: "string bset"

definition side_for_file :: "document_binding \<Rightarrow> string \<Rightarrow> device_side option" where
  "side_for_file b file_id =
     (case (file_id \<in> set (db_boox_file_ids b), file_id \<in> set (db_supernote_file_ids b)) of
        (True, False) \<Rightarrow> Some Boox
      | (False, True) \<Rightarrow> Some Supernote
      | _ \<Rightarrow> None)"

section \<open>The checkpoint\<close>

record pending_drive_input =
  pn_drive_event_id :: string
  pn_drive_file_id :: string
  pn_gcs_object_path :: string
  pn_gcs_generation :: u64
  pn_document_id :: string
  pn_source :: device_side
  pn_content_sha256 :: string
  pn_previous_frontier :: revision_pair
  pn_proposed_frontier :: revision_pair

record prepared_drive_output =
  po_delivery_id :: string
  po_drive_file_id :: string
  po_gcs_object_path :: string
  po_gcs_generation :: u64
  po_document_id :: string
  po_target :: device_side
  po_content_sha256 :: string
  po_source_revisions :: revision_pair
  po_parent_folder_id :: string
  po_file_name :: string
  po_app_properties :: "(string, string) bmap"

record delivered_drive_output =
  do_delivery_id :: string
  do_drive_file_id :: string
  do_drive_file_version :: u64
  do_document_id :: string
  do_target :: device_side
  do_content_sha256 :: string
  do_source_revisions :: revision_pair

record gateway_checkpoint =
  ck_schema_version :: u32
  ck_next_page_token :: "string option"
  ck_documents :: "(string, document_binding) bmap"
  ck_processed_drive_events :: "string bset"
  ck_accepted :: "(string, string) bmap"
  ck_frontiers :: "(string, revision_pair) bmap"
  ck_pending_inputs :: "(string, pending_drive_input) bmap"
  ck_pending_outputs :: "(string, prepared_drive_output) bmap"
  ck_delivered :: "(string, delivered_drive_output) bmap"

definition empty_checkpoint :: gateway_checkpoint where
  "empty_checkpoint =
     \<lparr>ck_schema_version = gateway_schema_version, ck_next_page_token = None, ck_documents = [],
      ck_processed_drive_events = [], ck_accepted = [], ck_frontiers = [],
      ck_pending_inputs = [], ck_pending_outputs = [], ck_delivered = []\<rparr>"

definition binding_for_file :: "gateway_checkpoint \<Rightarrow> string \<Rightarrow> document_binding option" where
  "binding_for_file c file_id =
     find (\<lambda>b. side_for_file b file_id \<noteq> None) (bm_values (ck_documents c))"

section \<open>Validation\<close>

text \<open>The files of a binding in the order \<open>iter().chain()\<close> visits them, and the loop that
  collects the files of all documents.\<close>

definition binding_files :: "document_binding \<Rightarrow> string list" where
  "binding_files b = db_boox_file_ids b @ db_supernote_file_ids b"

fun collect_files :: "string list \<Rightarrow> string bset \<Rightarrow> string + string bset" where
  "collect_files [] ids = Inr ids"
| "collect_files (f # fs) ids =
     (if f \<in> set ids then Inl (''Drive file '' @ f @ '' is bound to more than one document'')
      else collect_files fs (bs_insert f ids))"

definition check_binding :: "string \<Rightarrow> document_binding \<Rightarrow> string + unit" where
  "check_binding document_id b =
     (if document_id \<noteq> db_document_id b then
        Inl (''document binding key '' @ document_id @ '' does not match '' @ db_document_id b)
      else if \<not> prefix ''inkbridge-doc-v1-'' document_id \<or>
              length (db_original_pdf_sha256 b) \<noteq> 64 \<or>
              document_id \<noteq> ''inkbridge-doc-v1-'' @ db_original_pdf_sha256 b then
        Inl (''invalid stable document binding '' @ document_id)
      else if set (db_boox_file_ids b) \<inter> set (db_supernote_file_ids b) \<noteq> {} then
        Inl (''document '' @ document_id @ '' binds one Drive file to both devices'')
      else Inr ())"

fun check_documents :: "(string \<times> document_binding) list \<Rightarrow> string bset \<Rightarrow> string + string bset" where
  "check_documents [] ids = Inr ids"
| "check_documents ((document_id, b) # ds) ids =
     rbind (check_binding document_id b) (\<lambda>_.
     rbind (collect_files (binding_files b) ids) (\<lambda>ids'. check_documents ds ids'))"

definition side_folder :: "device_side \<Rightarrow> string" where
  "side_folder side = (case side of Boox \<Rightarrow> ''BOOX_Folder'' | Supernote \<Rightarrow> ''Supernote_Folder'')"

text \<open>The path of a device object: below the folder of its side and its document.\<close>

definition device_path_ok :: "device_side \<Rightarrow> string \<Rightarrow> string \<Rightarrow> bool" where
  "device_path_ok side document_id path \<longleftrightarrow>
     prefix (side_folder side @ ''/'') path \<and> sublist (''/'' @ document_id @ ''/'') path"

definition pending_output_ok :: "gateway_checkpoint \<Rightarrow> string \<Rightarrow> prepared_drive_output \<Rightarrow> bool" where
  "pending_output_ok c delivery_id p \<longleftrightarrow>
     bm_has (ck_documents c) (po_document_id p) \<and>
     \<not> blank (po_drive_file_id p) \<and>
     \<not> blank (po_gcs_object_path p) \<and>
     po_gcs_generation p \<noteq> 0 \<and>
     \<not> blank (po_parent_folder_id p) \<and>
     \<not> blank (po_file_name p) \<and>
     length (po_content_sha256 p) = 64 \<and>
     bm_get (po_app_properties p) ''inkbridgeDeliveryId'' = Some delivery_id \<and>
     bm_get (po_app_properties p) ''inkbridgeDocumentId'' = Some (po_document_id p) \<and>
     bm_get (po_app_properties p) ''inkbridgeContentSha256'' = Some (po_content_sha256 p) \<and>
     bm_get (po_app_properties p) ''inkbridgeGcsGeneration'' =
       Some (show_u64 (po_gcs_generation p)) \<and>
     device_path_ok (po_target p) (po_document_id p) (po_gcs_object_path p)"

definition check_pending_output ::
    "gateway_checkpoint \<Rightarrow> string \<times> prepared_drive_output \<Rightarrow> string + unit" where
  "check_pending_output c = (\<lambda>(delivery_id, p).
     if delivery_id \<noteq> po_delivery_id p then
       Inl (''pending Drive output key '' @ delivery_id @ '' does not match '' @ po_delivery_id p)
     else if bm_has (ck_delivered c) delivery_id then
       Inl (''Drive output '' @ delivery_id @ '' is both pending and delivered'')
     else if \<not> pending_output_ok c delivery_id p then
       Inl (''pending Drive output '' @ delivery_id @ '' is structurally invalid'')
     else Inr ())"

definition check_delivery ::
    "gateway_checkpoint \<Rightarrow> string \<times> delivered_drive_output \<Rightarrow> string + unit" where
  "check_delivery c = (\<lambda>(delivery_id, d).
     if delivery_id \<noteq> do_delivery_id d then
       Inl (''Drive delivery key '' @ delivery_id @ '' does not match '' @ do_delivery_id d)
     else if do_drive_file_version d = 0 then
       Inl (''Drive delivery '' @ delivery_id @ '' has version zero'')
     else
       rbind (ok_or (''Drive delivery '' @ delivery_id @ '' references unbound document '' @
                     do_document_id d)
                (bm_get (ck_documents c) (do_document_id d))) (\<lambda>b.
         if side_for_file b (do_drive_file_id d) \<noteq> Some (do_target d) then
           Inl (''Drive delivery '' @ delivery_id @ '' file is not bound to its target side'')
         else Inr ()))"

definition is_sha256_text :: "string \<Rightarrow> bool" where
  "is_sha256_text s \<longleftrightarrow> length s = 64 \<and> list_all is_hexdigit s"

definition check_accepted :: "string bset \<Rightarrow> string \<times> string \<Rightarrow> string + unit" where
  "check_accepted ids = (\<lambda>(file_id, hash).
     if file_id \<notin> set ids then
       Inl (''accepted content hash references unbound Drive file '' @ file_id)
     else if \<not> is_sha256_text hash then
       Inl (''accepted content hash for Drive file '' @ file_id @ '' is invalid'')
     else Inr ())"

definition check_frontiers :: "gateway_checkpoint \<Rightarrow> string bset \<Rightarrow> string + unit" where
  "check_frontiers c ids =
     rbind (try_each (\<lambda>f. ensure (bm_has (ck_frontiers c) f)
              (''bound Drive file '' @ f @ '' lacks an observed revision frontier'')) ids) (\<lambda>_.
     try_each (\<lambda>f. ensure (f \<in> set ids)
              (''observed revision frontier references unbound Drive file '' @ f))
       (bm_keys (ck_frontiers c)))"

definition check_pending_input ::
    "gateway_checkpoint \<Rightarrow> string \<Rightarrow> pending_drive_input \<Rightarrow> string + unit" where
  "check_pending_input c event_id p =
     rbind (ok_or (''pending Drive input '' @ event_id @ '' references unbound file '' @
                   pn_drive_file_id p)
              (binding_for_file c (pn_drive_file_id p))) (\<lambda>b.
       if db_document_id b \<noteq> pn_document_id p \<or>
          side_for_file b (pn_drive_file_id p) \<noteq> Some (pn_source p) then
         Inl (''pending Drive input '' @ event_id @ '' does not match its file binding'')
       else if bm_get (ck_frontiers c) (pn_drive_file_id p) \<noteq> Some (pn_previous_frontier p) then
         Inl (''pending Drive input '' @ event_id @ '' does not match its file frontier'')
       else if rp_get (pn_proposed_frontier p) (pn_source p) \<le>
                 rp_get (pn_previous_frontier p) (pn_source p) \<or>
               rp_get (pn_proposed_frontier p) (other_side (pn_source p)) \<noteq>
                 rp_get (pn_previous_frontier p) (other_side (pn_source p)) then
         Inl (''pending Drive input '' @ event_id @ '' has an invalid proposed frontier'')
       else if \<not> is_sha256_text (pn_content_sha256 p) then
         Inl (''pending Drive input '' @ event_id @ '' has an invalid content hash'')
       else if blank (pn_gcs_object_path p) \<or> pn_gcs_generation p = 0 \<or>
               \<not> device_path_ok (pn_source p) (pn_document_id p) (pn_gcs_object_path p) then
         Inl (''pending Drive input '' @ event_id @ '' has no immutable Cloud Storage evidence'')
       else Inr ())"

fun check_pending_inputs ::
    "gateway_checkpoint \<Rightarrow> (string \<times> pending_drive_input) list \<Rightarrow> string bset \<Rightarrow> string + unit" where
  "check_pending_inputs c [] files = Inr ()"
| "check_pending_inputs c ((event_id, p) # ps) files =
     (if event_id \<noteq> pn_drive_event_id p then
        Inl (''pending Drive input key '' @ event_id @ '' does not match '' @ pn_drive_event_id p)
      else if event_id \<notin> set (ck_processed_drive_events c) then
        Inl (''pending Drive input '' @ event_id @ '' is not marked processed'')
      else if pn_drive_file_id p \<in> set files then
        Inl (''Drive file '' @ pn_drive_file_id p @ '' has more than one pending input'')
      else
        rbind (check_pending_input c event_id p) (\<lambda>_.
          check_pending_inputs c ps (bs_insert (pn_drive_file_id p) files)))"

definition validate_checkpoint :: "gateway_checkpoint \<Rightarrow> string + unit" where
  "validate_checkpoint c =
     (if ck_schema_version c \<noteq> gateway_schema_version then
        Inl (''unsupported Drive gateway checkpoint schema version '' @
             show_u32 (ck_schema_version c))
      else
        rbind (check_documents (ck_documents c) []) (\<lambda>ids.
        rbind (try_each (check_pending_output c) (ck_pending_outputs c)) (\<lambda>_.
        rbind (try_each (check_delivery c) (ck_delivered c)) (\<lambda>_.
        rbind (try_each (check_accepted ids) (ck_accepted c)) (\<lambda>_.
        rbind (check_frontiers c ids) (\<lambda>_.
        check_pending_inputs c (ck_pending_inputs c) []))))))"

section \<open>Decisions\<close>

record prepared_drive_input =
  pr_drive_event_id :: string
  pr_drive_file_id :: string
  pr_gcs_object_path :: string
  pr_content_sha256 :: string
  pr_metadata :: "(string, string) bmap"
  pr_document_id :: string
  pr_source :: device_side
  pr_source_revision :: u64
  pr_based_on :: revision_pair
  pr_canonical_frontier :: revision_pair
  pr_payload_kind :: payload_kind

datatype input_decision =
    IgnoreInput string
  | DuplicateInput string
  | DeferredInput string string
  | UnboundInput string
  | UploadInput prepared_drive_input

record registration_approval =
  ra_drive_file_id :: string
  ra_drive_file_version :: u64
  ra_content_sha256 :: string

record prepared_registration =
  pg_drive_event_id :: string
  pg_drive_file_id :: string
  pg_source :: device_side
  pg_document_id :: string
  pg_original_pdf_sha256 :: string
  pg_gcs_object_path :: string
  pg_metadata :: "(string, string) bmap"

datatype registration_decision =
    IgnoreRegistration string
  | DuplicateRegistration string
  | RegisterOriginal prepared_registration

record binding_approval =
  ba_drive_file_id :: string
  ba_drive_file_version :: u64
  ba_content_sha256 :: string
  ba_document_id :: string
  ba_source :: device_side
  ba_based_on :: revision_pair

record prepared_artifact_binding =
  pb_drive_file_id :: string
  pb_drive_file_version :: u64
  pb_content_sha256 :: string
  pb_document_id :: string
  pb_source :: device_side
  pb_based_on :: revision_pair
  pb_canonical_frontier :: revision_pair

datatype artifact_decision =
    IgnoreArtifact string
  | AlreadyBound string
  | BindArtifact prepared_artifact_binding

record broker_drive_output =
  bo_gcs_object_path :: string
  bo_gcs_generation :: u64
  bo_document_id :: string
  bo_target :: device_side
  bo_event_id :: string
  bo_source_revisions :: revision_pair
  bo_content_sha256 :: string
  bo_file_extension :: string

datatype output_decision =
    DuplicateOutput string
  | ReserveOutput prepared_drive_output
  | ReconcileOutput prepared_drive_output
  | CreateOutput prepared_drive_output
  | ExistingOutput prepared_drive_output string u64

end
