(* ===== verification/Gateway_Planner.thy ===== *)
theory Gateway_Planner
  imports Gateway_Model Broker_Base
begin

text \<open>
  \<open>inkbridge-drive-gateway/src/planner.rs\<close>: the planner between the two Drive folders and the
  broker's storage.  Each kind of work is prepared on a checkpoint without changing it, carried
  out by the caller, and then committed to the checkpoint.  A commit returns the checkpoint it
  leaves behind, also when it fails: \<open>&mut checkpoint\<close> is an argument that is returned.
\<close>

section \<open>Identities of Drive revisions\<close>

definition generated_by_property :: string where
  "generated_by_property = ''inkbridgeGeneratedBy''"

definition drive_event_id_from_parts :: "sha \<Rightarrow> string \<Rightarrow> u64 \<Rightarrow> string \<Rightarrow> string" where
  "drive_event_id_from_parts sha file_id version hash =
     ''drive-v1-'' @
     sha256_hex sha (file_id @ [CHR 0x00] @ show_u64 version @ [CHR 0x00] @ hash)"

definition drive_event_id :: "sha \<Rightarrow> drive_change \<Rightarrow> bytes \<Rightarrow> string" where
  "drive_event_id sha change bs =
     drive_event_id_from_parts sha (fr_file_id (dc_file change)) (fr_version (dc_file change))
       (sha256_hex sha bs)"

definition is_generated_file :: "drive_file_revision \<Rightarrow> bool" where
  "is_generated_file file \<longleftrightarrow>
     (case bm_get (fr_app_properties file) generated_by_property of
        Some producer \<Rightarrow> producer = broker_producer \<or> producer = gateway_producer
      | None \<Rightarrow> False)"

definition supported_payload_kind :: "device_side \<Rightarrow> string \<Rightarrow> payload_kind option" where
  "supported_payload_kind source mime_type =
     (case source of
        Boox \<Rightarrow>
          if mime_type = ''application/pdf'' then Some DeviceView
          else if mime_type = ''application/json'' then Some BooxOperationManifest
          else None
      | Supernote \<Rightarrow> if mime_type = ''application/json'' then Some DeviceView else None)"

definition size_mismatch :: "bytes \<Rightarrow> drive_file_revision \<Rightarrow> string" where
  "size_mismatch bs file =
     ''Drive download length '' @ show_int (int (length bs)) @
     '' does not match declared size '' @ show_u64 (fr_size file)"

definition unsupported_mime :: "device_side \<Rightarrow> drive_file_revision \<Rightarrow> string" where
  "unsupported_mime source file =
     ''unsupported '' @ show_side source @ '' Drive MIME type '' @ fr_mime_type file"

section \<open>Device inputs\<close>

definition u64_max :: "u64 \<Rightarrow> u64 \<Rightarrow> u64" where
  "u64_max a b = (if a \<le> b then b else a)"

definition next_source_revision :: "device_side \<Rightarrow> revision_pair \<Rightarrow> revision_pair \<Rightarrow> string + u64" where
  "next_source_revision source based_on frontier =
     ok_or ''source revision overflow''
       (checked_add (u64_max (rp_get based_on source) (rp_get frontier source)) 1)"

definition payload_name :: "payload_kind \<Rightarrow> string" where
  "payload_name kind =
     (case kind of
        DeviceView \<Rightarrow> ''device_view''
      | BooxOperationManifest \<Rightarrow> ''boox_operation_manifest'')"

definition input_extension :: "device_side \<Rightarrow> payload_kind \<Rightarrow> string" where
  "input_extension source kind =
     (if kind = DeviceView \<and> source = Boox then ''pdf'' else ''json'')"

definition upload_metadata ::
    "drive_file_revision \<Rightarrow> string \<Rightarrow> string \<Rightarrow> string \<Rightarrow> u64 \<Rightarrow> revision_pair \<Rightarrow> payload_kind \<Rightarrow>
       (string, string) bmap" where
  "upload_metadata file document_id event_id hash source_revision based_on kind =
     bm_of_list
       [(''inkbridge-document-id'', document_id),
        (''inkbridge-source-revision'', show_u64 source_revision),
        (''inkbridge-based-on-boox'', show_u64 (rp_boox based_on)),
        (''inkbridge-based-on-supernote'', show_u64 (rp_supernote based_on)),
        (''inkbridge-sync-ready'', ''true''),
        (''inkbridge-payload-kind'', payload_name kind),
        (''inkbridge-content-sha256'', hash),
        (''inkbridge-drive-file-id'', fr_file_id file),
        (''inkbridge-drive-file-version'', show_u64 (fr_version file)),
        (''inkbridge-drive-event-id'', event_id)]"

text \<open>The tail of \<open>prepare_drive_input\<close>, once the file is a new revision of a bound file.\<close>

definition prepare_upload ::
    "sha \<Rightarrow> gateway_config \<Rightarrow> gateway_checkpoint \<Rightarrow> drive_file_revision \<Rightarrow> document_binding \<Rightarrow>
       string \<Rightarrow> string \<Rightarrow> revision_pair \<Rightarrow> string + input_decision" where
  "prepare_upload sha cfg c file b hash event_id frontier =
     rbind (ok_or ''ambiguous Drive file binding'' (side_for_file b (fr_file_id file))) (\<lambda>source.
       if folder_id cfg source \<notin> set (fr_parents file) then
         Inr (IgnoreInput ''bound Drive file is outside its configured device folder'')
       else (case supported_payload_kind source (fr_mime_type file) of
         None \<Rightarrow> Inr (IgnoreInput (unsupported_mime source file))
       | Some kind \<Rightarrow>
           rbind (ok_or ''bound Drive file lacks an observed revision frontier''
                    (bm_get (ck_frontiers c) (fr_file_id file))) (\<lambda>based_on.
           rbind (next_source_revision source based_on frontier) (\<lambda>source_revision.
           Inr (UploadInput
             \<lparr>pr_drive_event_id = event_id,
              pr_drive_file_id = fr_file_id file,
              pr_gcs_object_path =
                side_folder source @ ''/'' @ db_document_id b @ ''/drive/'' @
                sha256_hex sha event_id @ ''.'' @ input_extension source kind,
              pr_content_sha256 = hash,
              pr_metadata =
                upload_metadata file (db_document_id b) event_id hash source_revision based_on kind,
              pr_document_id = db_document_id b,
              pr_source = source,
              pr_source_revision = source_revision,
              pr_based_on = based_on,
              pr_canonical_frontier = frontier,
              pr_payload_kind = kind\<rparr>)))))"

definition pending_for_file :: "gateway_checkpoint \<Rightarrow> string \<Rightarrow> pending_drive_input option" where
  "pending_for_file c file_id =
     find (\<lambda>p. pn_drive_file_id p = file_id) (bm_values (ck_pending_inputs c))"

definition prepare_drive_input ::
    "sha \<Rightarrow> gateway_config \<Rightarrow> gateway_checkpoint \<Rightarrow> drive_change \<Rightarrow> bytes \<Rightarrow> revision_pair \<Rightarrow>
       string + input_decision" where
  "prepare_drive_input sha cfg c change bs frontier =
     rbind (validate_config cfg) (\<lambda>_.
     rbind (validate_checkpoint c) (\<lambda>_.
     let file = dc_file change in
     if fr_trashed file then
       Inr (IgnoreInput ''Drive file is trashed; annotation deletion must arrive as a tombstone manifest'')
     else (case binding_for_file c (fr_file_id file) of
       None \<Rightarrow>
         if is_generated_file file then
           Inr (IgnoreInput ''uncommitted InkBridge-generated Drive file is not a device input'')
         else Inr (UnboundInput (fr_file_id file))
     | Some b \<Rightarrow>
         if fr_size file \<noteq> of_nat (length bs) then Inl (size_mismatch bs file)
         else
           let hash = sha256_hex sha bs;
               event_id = drive_event_id_from_parts sha (fr_file_id file) (fr_version file) hash
           in (case pending_for_file c (fr_file_id file) of
                 Some p \<Rightarrow> Inr (DeferredInput (fr_file_id file) (pn_drive_event_id p))
               | None \<Rightarrow>
                   if bm_get (ck_accepted c) (fr_file_id file) = Some hash then
                     Inr (DuplicateInput event_id)
                   else if event_id \<in> set (ck_processed_drive_events c) then
                     Inr (DuplicateInput event_id)
                   else prepare_upload sha cfg c file b hash event_id frontier))))"

definition pending_of ::
    "prepared_drive_input \<Rightarrow> u64 \<Rightarrow> pending_drive_input" where
  "pending_of i gcs_generation =
     \<lparr>pn_drive_event_id = pr_drive_event_id i,
      pn_drive_file_id = pr_drive_file_id i,
      pn_gcs_object_path = pr_gcs_object_path i,
      pn_gcs_generation = gcs_generation,
      pn_document_id = pr_document_id i,
      pn_source = pr_source i,
      pn_content_sha256 = pr_content_sha256 i,
      pn_previous_frontier = pr_based_on i,
      pn_proposed_frontier = rp_set (pr_source i) (pr_source_revision i) (pr_based_on i)\<rparr>"

text \<open>\<open>checkpoint.validate()\<close> as the last step of a commit.\<close>

definition validated :: "gateway_checkpoint \<Rightarrow> gateway_checkpoint \<times> (string + unit)" where
  "validated c = (c, validate_checkpoint c)"

definition commit_drive_input ::
    "gateway_checkpoint \<Rightarrow> prepared_drive_input \<Rightarrow> u64 \<Rightarrow> gateway_checkpoint \<times> (string + unit)" where
  "commit_drive_input c i gcs_generation =
     (if gcs_generation = 0 then (c, Inl ''Drive input evidence generation must be nonzero'')
      else
        attempt c (ok_or (''unbound Drive input file '' @ pr_drive_file_id i)
                     (binding_for_file c (pr_drive_file_id i))) (\<lambda>b.
        if db_document_id b \<noteq> pr_document_id i \<or>
           side_for_file b (pr_drive_file_id i) \<noteq> Some (pr_source i) then
          (c, Inl (''Drive input file '' @ pr_drive_file_id i @
                   '' no longer matches its prepared binding''))
        else
          attempt c (next_source_revision (pr_source i) (pr_based_on i) (pr_canonical_frontier i))
            (\<lambda>expected.
          if pr_source_revision i \<noteq> expected then
            (c, Inl ''prepared Drive input has an invalid source revision'')
          else
            attempt c (ok_or ''Drive input file lost its observed frontier''
                         (bm_get (ck_frontiers c) (pr_drive_file_id i))) (\<lambda>current.
            if current \<noteq> pr_based_on i then
              (c, Inl ''prepared Drive input is stale against its file frontier'')
            else
              (case bm_get (ck_pending_inputs c) (pr_drive_event_id i) of
                 Some existing \<Rightarrow>
                   if existing = pending_of i gcs_generation then (c, Inr ())
                   else (c, Inl (''pending Drive event '' @ pr_drive_event_id i @
                                 '' has different content''))
               | None \<Rightarrow>
                   if pending_for_file c (pr_drive_file_id i) \<noteq> None then
                     (c, Inl (''Drive file '' @ pr_drive_file_id i @
                              '' already has a pending input''))
                   else if pr_drive_event_id i \<in> set (ck_processed_drive_events c) then
                     (if bm_get (ck_accepted c) (pr_drive_file_id i) = Some (pr_content_sha256 i)
                      then (c, Inr ())
                      else (c, Inl (''Drive event '' @ pr_drive_event_id i @
                                    '' was already finalized with different content'')))
                   else
                     validated (c\<lparr>
                       ck_processed_drive_events :=
                         bs_insert (pr_drive_event_id i) (ck_processed_drive_events c),
                       ck_pending_inputs :=
                         bm_insert (pr_drive_event_id i) (pending_of i gcs_generation)
                           (ck_pending_inputs c)\<rparr>))))))"

definition accept_drive_input ::
    "gateway_checkpoint \<Rightarrow> string \<Rightarrow> gateway_checkpoint \<times> (string + unit)" where
  "accept_drive_input c event_id =
     attempt c (validate_checkpoint c) (\<lambda>_.
       case bm_get (ck_pending_inputs c) event_id of
         None \<Rightarrow> (c, Inr ())
       | Some p \<Rightarrow>
           let c1 = c\<lparr>ck_pending_inputs := bm_remove event_id (ck_pending_inputs c)\<rparr> in
           if bm_get (ck_frontiers c1) (pn_drive_file_id p) \<noteq> Some (pn_previous_frontier p) then
             (c1\<lparr>ck_pending_inputs := bm_insert (pn_drive_event_id p) p (ck_pending_inputs c1)\<rparr>,
              Inl ''pending Drive input is stale against its file frontier'')
           else
             validated (c1\<lparr>
               ck_frontiers :=
                 bm_insert (pn_drive_file_id p) (pn_proposed_frontier p) (ck_frontiers c1),
               ck_accepted :=
                 bm_insert (pn_drive_file_id p) (pn_content_sha256 p) (ck_accepted c1)\<rparr>))"

definition reject_drive_input ::
    "gateway_checkpoint \<Rightarrow> string \<Rightarrow> gateway_checkpoint \<times> (string + unit)" where
  "reject_drive_input c event_id =
     attempt c (validate_checkpoint c) (\<lambda>_.
       validated (c\<lparr>ck_pending_inputs := bm_remove event_id (ck_pending_inputs c)\<rparr>))"

section \<open>Registration of originals\<close>

definition registration_source :: "gateway_config \<Rightarrow> drive_file_revision \<Rightarrow> device_side option" where
  "registration_source cfg file =
     (case (gc_boox_folder_id cfg \<in> set (fr_parents file),
            gc_supernote_folder_id cfg \<in> set (fr_parents file)) of
        (True, False) \<Rightarrow> Some Boox
      | (False, True) \<Rightarrow> Some Supernote
      | _ \<Rightarrow> None)"

definition prepare_original_registration ::
    "sha \<Rightarrow> gateway_config \<Rightarrow> gateway_checkpoint \<Rightarrow> drive_change \<Rightarrow> bytes \<Rightarrow>
       registration_approval \<Rightarrow> string + registration_decision" where
  "prepare_original_registration sha cfg c change bs approval =
     rbind (validate_config cfg) (\<lambda>_.
     rbind (validate_checkpoint c) (\<lambda>_.
     let file = dc_file change in
     if fr_trashed file \<or> fr_mime_type file \<noteq> ''application/pdf'' then
       Inr (IgnoreRegistration ''only a live PDF can register an original document'')
     else if is_generated_file file then
       Inr (IgnoreRegistration ''InkBridge-generated PDF cannot become an immutable original'')
     else if fr_size file \<noteq> of_nat (length bs) then Inl (size_mismatch bs file)
     else (case registration_source cfg file of
       None \<Rightarrow>
         Inr (IgnoreRegistration
                ''unbound original must be directly inside exactly one device folder'')
     | Some source \<Rightarrow>
         let actual_hash = sha256_hex sha bs in
         if ra_drive_file_id approval \<noteq> fr_file_id file \<or>
            ra_drive_file_version approval \<noteq> fr_version file \<or>
            ra_content_sha256 approval \<noteq> actual_hash then
           Inr (IgnoreRegistration
                  ''unbound PDF lacks approval for this exact clean original revision'')
         else
           let event_id = drive_event_id sha change bs in
           if event_id \<in> set (ck_processed_drive_events c) then
             Inr (DuplicateRegistration event_id)
           else
             Inr (RegisterOriginal
               \<lparr>pg_drive_event_id = event_id,
                pg_drive_file_id = fr_file_id file,
                pg_source = source,
                pg_document_id = stable_document_id sha bs,
                pg_original_pdf_sha256 = actual_hash,
                pg_gcs_object_path =
                  ''Staging/drive-'' @ sha256_hex sha event_id @ ''.pdf'',
                pg_metadata = bm_of_list
                  [(''inkbridge-register-original'', ''true''),
                   (''inkbridge-original-file-name'', fr_name file),
                   (''inkbridge-document-id'', stable_document_id sha bs),
                   (''inkbridge-content-sha256'', actual_hash),
                   (''inkbridge-drive-file-id'', fr_file_id file),
                   (''inkbridge-drive-file-version'', show_u64 (fr_version file)),
                   (''inkbridge-drive-event-id'', event_id)]\<rparr>))))"

text \<open>\<open>boox_file_ids.insert\<close> or \<open>supernote_file_ids.insert\<close> of a binding, by side.\<close>

definition bind_file :: "device_side \<Rightarrow> string \<Rightarrow> document_binding \<Rightarrow> document_binding" where
  "bind_file side file_id b =
     (case side of
        Boox \<Rightarrow> b\<lparr>db_boox_file_ids := bs_insert file_id (db_boox_file_ids b)\<rparr>
      | Supernote \<Rightarrow> b\<lparr>db_supernote_file_ids := bs_insert file_id (db_supernote_file_ids b)\<rparr>)"

definition new_binding :: "string \<Rightarrow> string \<Rightarrow> document_binding" where
  "new_binding document_id hash =
     \<lparr>db_document_id = document_id, db_original_pdf_sha256 = hash,
      db_boox_file_ids = [], db_supernote_file_ids = []\<rparr>"

text \<open>Where the event was processed, the file has no binding any more at that point, so the code
  always answers with the error.\<close>

definition commit_original_registration ::
    "gateway_checkpoint \<Rightarrow> prepared_registration \<Rightarrow> gateway_checkpoint \<times> (string + unit)" where
  "commit_original_registration c r =
     attempt c (validate_checkpoint c) (\<lambda>_.
       case binding_for_file c (pg_drive_file_id r) of
         Some existing \<Rightarrow>
           if db_document_id existing \<noteq> pg_document_id r then
             (c, Inl (''Drive file '' @ pg_drive_file_id r @ '' is already bound to '' @
                      db_document_id existing))
           else if side_for_file existing (pg_drive_file_id r) \<noteq> Some (pg_source r) then
             (c, Inl (''Drive file '' @ pg_drive_file_id r @
                      '' is already bound to the other device side''))
           else (c, Inr ())
       | None \<Rightarrow>
           if (case bm_get (ck_documents c) (pg_document_id r) of
                 Some b \<Rightarrow> db_original_pdf_sha256 b \<noteq> pg_original_pdf_sha256 r
               | None \<Rightarrow> False) then
             (c, Inl ''registration collides with a different original PDF'')
           else if pg_drive_event_id r \<in> set (ck_processed_drive_events c) then
             (c, Inl ''processed original registration lacks its file binding'')
           else
             validated (c\<lparr>
               ck_processed_drive_events :=
                 bs_insert (pg_drive_event_id r) (ck_processed_drive_events c),
               ck_accepted :=
                 bm_insert (pg_drive_file_id r) (pg_original_pdf_sha256 r) (ck_accepted c),
               ck_frontiers := bm_insert (pg_drive_file_id r) default_revisions (ck_frontiers c),
               ck_documents :=
                 bm_insert (pg_document_id r)
                   (bind_file (pg_source r) (pg_drive_file_id r)
                      (case bm_get (ck_documents c) (pg_document_id r) of
                         None \<Rightarrow> new_binding (pg_document_id r) (pg_original_pdf_sha256 r)
                       | Some b \<Rightarrow> b))
                   (ck_documents c)\<rparr>))"

section \<open>Binding device artifacts\<close>

definition prepare_device_artifact_binding ::
    "sha \<Rightarrow> gateway_config \<Rightarrow> gateway_checkpoint \<Rightarrow> drive_change \<Rightarrow> bytes \<Rightarrow> binding_approval \<Rightarrow>
       revision_pair \<Rightarrow> string + artifact_decision" where
  "prepare_device_artifact_binding sha cfg c change bs approval frontier =
     rbind (validate_config cfg) (\<lambda>_.
     rbind (validate_checkpoint c) (\<lambda>_.
     let file = dc_file change in
     if fr_trashed file then Inr (IgnoreArtifact ''trashed Drive artifact cannot be bound'')
     else (case binding_for_file c (fr_file_id file) of
       Some existing \<Rightarrow>
         if db_document_id existing = ba_document_id approval \<and>
            side_for_file existing (fr_file_id file) = Some (ba_source approval) then
           Inr (AlreadyBound (fr_file_id file))
         else Inl (''Drive file '' @ fr_file_id file @ '' is already bound elsewhere'')
     | None \<Rightarrow>
         if \<not> bm_has (ck_documents c) (ba_document_id approval) then
           Inr (IgnoreArtifact (''unknown InkBridge document '' @ ba_document_id approval))
         else if is_generated_file file then
           Inr (IgnoreArtifact ''uncommitted InkBridge-generated file cannot be registered as a device artifact'')
         else if folder_id cfg (ba_source approval) \<notin> set (fr_parents file) \<or>
                 folder_id cfg (other_side (ba_source approval)) \<in> set (fr_parents file) then
           Inr (IgnoreArtifact
                  ''device artifact is not directly inside only its approved device folder'')
         else if supported_payload_kind (ba_source approval) (fr_mime_type file) = None then
           Inr (IgnoreArtifact (unsupported_mime (ba_source approval) file))
         else if fr_size file \<noteq> of_nat (length bs) then Inl (size_mismatch bs file)
         else
           let hash = sha256_hex sha bs in
           if fr_version file = 0 \<or> ba_drive_file_id approval \<noteq> fr_file_id file \<or>
              ba_drive_file_version approval \<noteq> fr_version file \<or>
              ba_content_sha256 approval \<noteq> hash then
             Inr (IgnoreArtifact
                    ''device artifact lacks approval for this exact Drive revision'')
           else if rp_boox (ba_based_on approval) > rp_boox frontier \<or>
                   rp_supernote (ba_based_on approval) > rp_supernote frontier then
             Inr (IgnoreArtifact ''device artifact causal base is ahead of the broker frontier'')
           else
             Inr (BindArtifact
               \<lparr>pb_drive_file_id = fr_file_id file,
                pb_drive_file_version = fr_version file,
                pb_content_sha256 = hash,
                pb_document_id = ba_document_id approval,
                pb_source = ba_source approval,
                pb_based_on = ba_based_on approval,
                pb_canonical_frontier = frontier\<rparr>))))"

definition commit_device_artifact_binding ::
    "gateway_checkpoint \<Rightarrow> prepared_artifact_binding \<Rightarrow> gateway_checkpoint \<times> (string + unit)" where
  "commit_device_artifact_binding c a =
     attempt c (validate_checkpoint c) (\<lambda>_.
       if rp_boox (pb_based_on a) > rp_boox (pb_canonical_frontier a) \<or>
          rp_supernote (pb_based_on a) > rp_supernote (pb_canonical_frontier a) then
         (c, Inl ''device artifact causal base is ahead of its broker frontier'')
       else (case binding_for_file c (pb_drive_file_id a) of
         Some existing \<Rightarrow>
           if db_document_id existing = pb_document_id a \<and>
              side_for_file existing (pb_drive_file_id a) = Some (pb_source a) then (c, Inr ())
           else (c, Inl (''Drive file '' @ pb_drive_file_id a @ '' is already bound elsewhere''))
       | None \<Rightarrow>
           attempt c (ok_or (''unknown InkBridge document '' @ pb_document_id a)
                        (bm_get (ck_documents c) (pb_document_id a))) (\<lambda>b.
             validated (c\<lparr>
               ck_documents :=
                 bm_insert (pb_document_id a)
                   (bind_file (pb_source a) (pb_drive_file_id a) b) (ck_documents c),
               ck_frontiers := bm_insert (pb_drive_file_id a) (pb_based_on a) (ck_frontiers c)\<rparr>))))"

section \<open>Broker outputs\<close>

definition safe_extension :: "string \<Rightarrow> string + string" where
  "safe_extension value =
     (let trimmed = dropWhile (\<lambda>c. c = CHR ''.'') value
      in if trimmed = ''pdf'' \<or> trimmed = ''json'' then Inr trimmed
         else Inl (''unsupported Drive output extension '' @ trimmed))"

definition delivery_id_of :: "sha \<Rightarrow> broker_drive_output \<Rightarrow> string" where
  "delivery_id_of sha out =
     ''drive-delivery-v1-'' @
     sha256_hex sha
       (bo_gcs_object_path out @ [CHR 0x00] @ show_u64 (bo_gcs_generation out) @ [CHR 0x00] @
        bo_document_id out @ [CHR 0x00] @ bo_event_id out @ [CHR 0x00] @ bo_content_sha256 out)"

definition output_side_name :: "device_side \<Rightarrow> string" where
  "output_side_name side = (case side of Boox \<Rightarrow> ''boox'' | Supernote \<Rightarrow> ''supernote'')"

definition output_file_name :: "sha \<Rightarrow> broker_drive_output \<Rightarrow> string \<Rightarrow> string" where
  "output_file_name sha out extension =
     ''inkbridge-'' @ output_side_name (bo_target out) @
     ''-r'' @ show_u64 (rp_boox (bo_source_revisions out)) @
     ''-r'' @ show_u64 (rp_supernote (bo_source_revisions out)) @
     ''-'' @ take 16 (sha256_hex sha (bo_event_id out)) @ ''.'' @ extension"

definition prepared_output ::
    "sha \<Rightarrow> gateway_config \<Rightarrow> broker_drive_output \<Rightarrow> string \<Rightarrow> prepared_drive_output" where
  "prepared_output sha cfg out extension =
     \<lparr>po_delivery_id = delivery_id_of sha out,
      po_drive_file_id = [],
      po_gcs_object_path = bo_gcs_object_path out,
      po_gcs_generation = bo_gcs_generation out,
      po_document_id = bo_document_id out,
      po_target = bo_target out,
      po_content_sha256 = bo_content_sha256 out,
      po_source_revisions = bo_source_revisions out,
      po_parent_folder_id = folder_id cfg (bo_target out),
      po_file_name = output_file_name sha out extension,
      po_app_properties = bm_of_list
        [(generated_by_property, broker_producer),
         (''inkbridgeEventId'', bo_event_id out),
         (''inkbridgeDocumentId'', bo_document_id out),
         (''inkbridgeSourceRevisions'',
          show_u64 (rp_boox (bo_source_revisions out)) @ '':'' @
          show_u64 (rp_supernote (bo_source_revisions out))),
         (''inkbridgeContentSha256'', bo_content_sha256 out),
         (''inkbridgeGcsGeneration'', show_u64 (bo_gcs_generation out)),
         (''inkbridgeDeliveryId'', delivery_id_of sha out)]\<rparr>"

definition prepare_drive_output ::
    "sha \<Rightarrow> gateway_config \<Rightarrow> gateway_checkpoint \<Rightarrow> broker_drive_output \<Rightarrow> string + output_decision" where
  "prepare_drive_output sha cfg c out =
     rbind (validate_config cfg) (\<lambda>_.
     rbind (validate_checkpoint c) (\<lambda>_.
     if \<not> bm_has (ck_documents c) (bo_document_id out) then
       Inl (''broker output references unbound document '' @ bo_document_id out)
     else if bo_gcs_generation out = 0 \<or> length (bo_content_sha256 out) \<noteq> 64 \<or>
             blank (bo_event_id out) then
       Inl ''broker output marker is incomplete''
     else if bm_has (ck_delivered c) (delivery_id_of sha out) then
       Inr (DuplicateOutput (delivery_id_of sha out))
     else
       rbind (safe_extension (bo_file_extension out)) (\<lambda>extension.
       let prepared = prepared_output sha cfg out extension in
       case bm_get (ck_pending_outputs c) (po_delivery_id prepared) of
         Some pending \<Rightarrow>
           if pending \<noteq> prepared\<lparr>po_drive_file_id := po_drive_file_id pending\<rparr> then
             Inl (''pending Drive delivery '' @ po_delivery_id prepared @ '' has different content'')
           else Inr (ReconcileOutput pending)
       | None \<Rightarrow> Inr (ReserveOutput prepared))))"

definition reserve_drive_output ::
    "gateway_checkpoint \<Rightarrow> prepared_drive_output \<Rightarrow> gateway_checkpoint \<times> (string + unit)" where
  "reserve_drive_output c p =
     attempt c (validate_checkpoint c) (\<lambda>_.
       if blank (po_drive_file_id p) then
         (c, Inl ''Drive output must reserve a pre-generated file ID before create'')
       else if bm_has (ck_delivered c) (po_delivery_id p) then (c, Inr ())
       else (case bm_get (ck_pending_outputs c) (po_delivery_id p) of
         None \<Rightarrow>
           validated (c\<lparr>ck_pending_outputs :=
                           bm_insert (po_delivery_id p) p (ck_pending_outputs c)\<rparr>)
       | Some existing \<Rightarrow>
           if existing = p then validated c
           else (c, Inl (''pending Drive delivery '' @ po_delivery_id p @
                         '' has different content''))))"

definition matches_reservation :: "prepared_drive_output \<Rightarrow> drive_file_revision \<Rightarrow> bool" where
  "matches_reservation p file \<longleftrightarrow>
     \<not> (fr_file_id file \<noteq> po_drive_file_id p \<or> fr_trashed file \<or> fr_version file = 0 \<or>
        po_parent_folder_id p \<notin> set (fr_parents file) \<or>
        list_ex (\<lambda>(key, value). bm_get (fr_app_properties file) key \<noteq> Some value)
          (po_app_properties p))"

definition reconcile_drive_output ::
    "gateway_config \<Rightarrow> gateway_checkpoint \<Rightarrow> prepared_drive_output \<Rightarrow> drive_file_revision list \<Rightarrow>
       string + output_decision" where
  "reconcile_drive_output cfg c p files =
     rbind (validate_config cfg) (\<lambda>_.
     rbind (validate_checkpoint c) (\<lambda>_.
     if po_parent_folder_id p \<noteq> folder_id cfg (po_target p) then
       Inl (''Drive delivery '' @ po_delivery_id p @ '' targets an unexpected folder'')
     else
       rbind (ok_or (''Drive delivery '' @ po_delivery_id p @ '' is not reserved'')
                (bm_get (ck_pending_outputs c) (po_delivery_id p))) (\<lambda>pending.
       if pending \<noteq> p then
         Inl (''Drive delivery '' @ po_delivery_id p @ '' does not match its reservation'')
       else (case files of
         [] \<Rightarrow> Inr (CreateOutput p)
       | [file] \<Rightarrow>
           if \<not> matches_reservation p file then
             Inl (''existing Drive delivery '' @ po_delivery_id p @
                  '' does not match its reserved output'')
           else Inr (ExistingOutput p (fr_file_id file) (fr_version file))
       | _ \<Rightarrow>
           Inl (''Drive delivery '' @ po_delivery_id p @
                '' has multiple matching files; refusing to create or bind another'')))))"

definition delivered_of :: "prepared_drive_output \<Rightarrow> string \<Rightarrow> u64 \<Rightarrow> delivered_drive_output" where
  "delivered_of p file_id version =
     \<lparr>do_delivery_id = po_delivery_id p, do_drive_file_id = file_id,
      do_drive_file_version = version, do_document_id = po_document_id p,
      do_target = po_target p, do_content_sha256 = po_content_sha256 p,
      do_source_revisions = po_source_revisions p\<rparr>"

definition commit_drive_output ::
    "sha \<Rightarrow> gateway_checkpoint \<Rightarrow> prepared_drive_output \<Rightarrow> string \<Rightarrow> u64 \<Rightarrow>
       gateway_checkpoint \<times> (string + unit)" where
  "commit_drive_output sha c p file_id version =
     attempt c (validate_checkpoint c) (\<lambda>_.
       if blank file_id \<or> version = 0 then
         (c, Inl ''created Drive output identity is incomplete'')
       else if file_id \<noteq> po_drive_file_id p then
         (c, Inl (''created Drive output '' @ po_delivery_id p @
                  '' does not use its reserved file ID''))
       else (case bm_get (ck_delivered c) (po_delivery_id p) of
         Some existing \<Rightarrow>
           if existing = delivered_of p file_id version then (c, Inr ())
           else (c, Inl (''Drive delivery '' @ po_delivery_id p @
                         '' was already committed to another file revision''))
       | None \<Rightarrow>
           if bm_get (ck_pending_outputs c) (po_delivery_id p) \<noteq> Some p then
             (c, Inl (''Drive delivery '' @ po_delivery_id p @
                      '' was not durably reserved before create/reconciliation''))
           else if (case binding_for_file c file_id of
                      Some existing \<Rightarrow>
                        db_document_id existing \<noteq> po_document_id p \<or>
                        side_for_file existing file_id \<noteq> Some (po_target p)
                    | None \<Rightarrow> False) then
             (c, Inl (''created Drive file '' @ file_id @ '' is already bound elsewhere''))
           else
             attempt c (ok_or (''unbound output document '' @ po_document_id p)
                          (bm_get (ck_documents c) (po_document_id p))) (\<lambda>b.
               validated (c\<lparr>
                 ck_documents :=
                   bm_insert (po_document_id p) (bind_file (po_target p) file_id b)
                     (ck_documents c),
                 ck_processed_drive_events :=
                   bs_insert (drive_event_id_from_parts sha file_id version (po_content_sha256 p))
                     (ck_processed_drive_events c),
                 ck_accepted := bm_insert file_id (po_content_sha256 p) (ck_accepted c),
                 ck_frontiers := bm_insert file_id (po_source_revisions p) (ck_frontiers c),
                 ck_delivered :=
                   bm_insert (po_delivery_id p) (delivered_of p file_id version) (ck_delivered c),
                 ck_pending_outputs :=
                   bm_remove (po_delivery_id p) (ck_pending_outputs c)\<rparr>))))"

definition commit_page_token :: "string \<Rightarrow> gateway_checkpoint \<Rightarrow> gateway_checkpoint" where
  "commit_page_token token c = c\<lparr>ck_next_page_token := Some token\<rparr>"

end
