(* ===== verification/Gateway_Facts.thy ===== *)
theory Gateway_Facts
  imports Gateway_Planner
begin

text \<open>
  What a valid checkpoint is: \<open>owner_of\<close> reads the bindings as a partial function from Drive
  files to a document and a side, and \<open>checkpoint_ok\<close> states what \<open>validate\<close> accepts in terms
  of lookups (\<open>validate_checkpoint_iff\<close>).  \<open>docs_ok_bind\<close> is the effect of binding one file.
\<close>

section \<open>Bindings\<close>

definition side_files :: "document_binding \<Rightarrow> device_side \<Rightarrow> string list" where
  "side_files b s = (case s of Boox \<Rightarrow> db_boox_file_ids b | Supernote \<Rightarrow> db_supernote_file_ids b)"

definition owner_of :: "(string, document_binding) bmap \<Rightarrow> string \<Rightarrow> (string \<times> device_side) option" where
  "owner_of docs f =
     (case find (\<lambda>b. side_for_file b f \<noteq> None) (bm_values docs) of
        None \<Rightarrow> None
      | Some b \<Rightarrow> map_option (Pair (db_document_id b)) (side_for_file b f))"

abbreviation owner :: "gateway_checkpoint \<Rightarrow> string \<Rightarrow> (string \<times> device_side) option" where
  "owner c \<equiv> owner_of (ck_documents c)"

definition stable_binding :: "document_binding \<Rightarrow> bool" where
  "stable_binding b \<longleftrightarrow>
     length (db_original_pdf_sha256 b) = 64 \<and>
     db_document_id b = ''inkbridge-doc-v1-'' @ db_original_pdf_sha256 b"

definition binding_wf :: "document_binding \<Rightarrow> bool" where
  "binding_wf b \<longleftrightarrow> bs_wf (db_boox_file_ids b) \<and> bs_wf (db_supernote_file_ids b)"

definition docs_ok :: "(string, document_binding) bmap \<Rightarrow> bool" where
  "docs_ok docs \<longleftrightarrow>
     (\<forall>d b. bm_get docs d = Some b \<longrightarrow>
        db_document_id b = d \<and> stable_binding b \<and> (\<forall>f. f \<in> set (side_files b Boox) \<longrightarrow>
          f \<notin> set (side_files b Supernote))) \<and>
     (\<forall>d b d' b' f. bm_get docs d = Some b \<longrightarrow> bm_get docs d' = Some b' \<longrightarrow>
        f \<in> set (binding_files b) \<longrightarrow> f \<in> set (binding_files b') \<longrightarrow> d = d')"

lemma side_for_file_iff:
  "side_for_file b f = Some s \<longleftrightarrow> f \<in> set (side_files b s) \<and> f \<notin> set (side_files b (other_side s))"
  by (cases s) (auto simp: side_for_file_def side_files_def split: bool.splits)

lemma binding_files_iff: "f \<in> set (binding_files b) \<longleftrightarrow> (\<exists>s. f \<in> set (side_files b s))"
proof
  assume "\<exists>s. f \<in> set (side_files b s)"
  then obtain s where "f \<in> set (side_files b s)" ..
  then show "f \<in> set (binding_files b)"
    by (cases s) (auto simp: binding_files_def side_files_def)
next
  assume "f \<in> set (binding_files b)"
  then have "f \<in> set (side_files b Boox) \<or> f \<in> set (side_files b Supernote)"
    by (auto simp: binding_files_def side_files_def)
  then show "\<exists>s. f \<in> set (side_files b s)" by blast
qed

lemma docs_okD:
  assumes "docs_ok docs" and "bm_get docs d = Some b"
  shows "db_document_id b = d" and "stable_binding b"
    and "f \<in> set (side_files b s) \<Longrightarrow> f \<notin> set (side_files b (other_side s))"
proof -
  have "db_document_id b = d \<and> stable_binding b \<and> (\<forall>f. f \<in> set (side_files b Boox) \<longrightarrow>
          f \<notin> set (side_files b Supernote))"
    using assms unfolding docs_ok_def by blast
  then show "db_document_id b = d" and "stable_binding b"
    and "f \<in> set (side_files b s) \<Longrightarrow> f \<notin> set (side_files b (other_side s))"
    by (auto, cases s) auto
qed

lemma docs_ok_unique:
  "docs_ok docs \<Longrightarrow> bm_get docs d = Some b \<Longrightarrow> bm_get docs d' = Some b' \<Longrightarrow>
     f \<in> set (side_files b s) \<Longrightarrow> f \<in> set (side_files b' s') \<Longrightarrow> d = d'"
  unfolding docs_ok_def binding_files_iff by blast

lemma docs_ok_side:
  assumes "docs_ok docs" and "bm_get docs d = Some b"
  shows "side_for_file b f = Some s \<longleftrightarrow> f \<in> set (side_files b s)"
  using docs_okD(3) [OF assms, of f s] by (auto simp: side_for_file_iff)

text \<open>In valid bindings the search of \<open>binding_for_file\<close> is a lookup.\<close>

lemma owner_of_iff:
  assumes "bm_wf docs" and "docs_ok docs"
  shows "owner_of docs f = Some (d, s) \<longleftrightarrow>
    (\<exists>b. bm_get docs d = Some b \<and> f \<in> set (side_files b s))"
proof (cases "find (\<lambda>b. side_for_file b f \<noteq> None) (bm_values docs)")
  case None
  then have "side_for_file b f = None" if "bm_get docs d = Some b" for b d
    using that bm_values_iff [OF assms(1)] by (auto simp: find_None_iff_all)
  then have "f \<notin> set (side_files b s)" if "bm_get docs d = Some b" for b d
    using that docs_ok_side [OF assms(2) that, of f s] by auto
  then show ?thesis
    using None by (auto simp: owner_of_def)
next
  case (Some b)
  then obtain d0 where b: "bm_get docs d0 = Some b" "side_for_file b f \<noteq> None"
    using find_SomeD [OF Some] bm_values_iff [OF assms(1)] by auto
  then obtain s0 where s0: "side_for_file b f = Some s0" by blast
  with b docs_ok_side [OF assms(2) b(1)] have f: "f \<in> set (side_files b s0)" by simp
  have owner: "owner_of docs f = Some (d0, s0)"
    using Some s0 docs_okD(1) [OF assms(2) b(1)] by (simp add: owner_of_def)
  show ?thesis
  proof
    assume "owner_of docs f = Some (d, s)"
    with owner b f show "\<exists>b. bm_get docs d = Some b \<and> f \<in> set (side_files b s)" by auto
  next
    assume "\<exists>b. bm_get docs d = Some b \<and> f \<in> set (side_files b s)"
    then obtain b' where b': "bm_get docs d = Some b'" "f \<in> set (side_files b' s)" by blast
    then have "d = d0" using docs_ok_unique [OF assms(2)] b f by blast
    with b b' s0 docs_ok_side [OF assms(2) b(1)] have "side_for_file b f = Some s" by simp
    with owner s0 \<open>d = d0\<close> show "owner_of docs f = Some (d, s)" by simp
  qed
qed

lemma owner_of_None_iff:
  assumes "bm_wf docs" and "docs_ok docs"
  shows "owner_of docs f = None \<longleftrightarrow> (\<forall>d b. bm_get docs d = Some b \<longrightarrow> f \<notin> set (binding_files b))"
proof -
  have "owner_of docs f = None \<longleftrightarrow> (\<forall>d s. owner_of docs f \<noteq> Some (d, s))"
    by (cases "owner_of docs f") auto
  then show ?thesis
    unfolding owner_of_iff [OF assms] binding_files_iff by blast
qed

lemma side_files_bind [simp]:
  "set (side_files (bind_file s f b) t) = (if s = t then insert f (set (side_files b t)) else set (side_files b t))"
  by (cases s; cases t) (simp_all add: side_files_def bind_file_def)

lemma bind_file_frame [simp]:
  "db_document_id (bind_file s f b) = db_document_id b"
  "db_original_pdf_sha256 (bind_file s f b) = db_original_pdf_sha256 b"
  "stable_binding (bind_file s f b) = stable_binding b"
  "binding_wf b \<Longrightarrow> binding_wf (bind_file s f b)"
  by (cases s; simp add: bind_file_def stable_binding_def binding_wf_def)+

lemma new_binding_facts [simp]:
  "side_files (new_binding d h) s = []" "db_document_id (new_binding d h) = d"
  "db_original_pdf_sha256 (new_binding d h) = h" "binding_wf (new_binding d h)"
  by (cases s; simp add: new_binding_def side_files_def binding_wf_def)+

text \<open>Binding a file that is free, or already where it is to be bound, to a document that is
  registered or new.\<close>

lemma docs_ok_bind:
  assumes wf: "bm_wf docs" and ok: "docs_ok docs"
    and free: "owner_of docs f = None \<or> owner_of docs f = Some (d, s)"
    and b: "bm_get docs d = Some b \<or>
      bm_get docs d = None \<and> stable_binding b \<and> db_document_id b = d \<and> binding_files b = []"
  defines "docs' \<equiv> bm_insert d (bind_file s f b) docs"
  shows "docs_ok docs'" and "owner_of docs' = (owner_of docs)(f \<mapsto> (d, s))"
proof -
  have facts: "stable_binding b" "db_document_id b = d"
    and apart: "g \<in> set (side_files b t) \<Longrightarrow> g \<notin> set (side_files b (other_side t))" for g t
    using b docs_okD [OF ok] binding_files_iff [of _ b] by auto
  have here: "f \<notin> set (side_files b (other_side s))"
  proof
    assume in': "f \<in> set (side_files b (other_side s))"
    then have "bm_get docs d = Some b" using b binding_files_iff [of f b] by auto
    then have "owner_of docs f = Some (d, other_side s)"
      using in' owner_of_iff [OF wf ok] by blast
    then show False using free by auto
  qed
  have elsewhere: "f \<notin> set (side_files b' t)" if "bm_get docs d' = Some b'" "d' \<noteq> d" for d' b' t
  proof
    assume "f \<in> set (side_files b' t)"
    then have "owner_of docs f = Some (d', t)" using that(1) owner_of_iff [OF wf ok] by blast
    then show False using free that(2) by auto
  qed
  have unique: "d' = d" if "bm_get docs d' = Some b'" "g \<in> set (side_files b' t)"
      "g \<in> set (side_files b u)" for g b' d' t u
    using b that docs_ok_unique [OF ok that(1) _ that(2), of d b u] binding_files_iff [of g b]
    by auto
  let ?b = "bind_file s f b"
  have get: "bm_get docs' x = (if x = d then Some ?b else bm_get docs x)" for x
    by (simp add: docs'_def)
  show ok': "docs_ok docs'"
    unfolding docs_ok_def
  proof (intro conjI allI impI)
    fix d0 b0 assume "bm_get docs' d0 = Some b0"
    then have cases: "(d0 = d \<and> b0 = ?b) \<or> (d0 \<noteq> d \<and> bm_get docs d0 = Some b0)"
      by (auto simp: get split: if_splits)
    show "db_document_id b0 = d0" and "stable_binding b0"
      using cases facts docs_okD [OF ok] by auto
    fix g assume "g \<in> set (side_files b0 Boox)"
    then show "g \<notin> set (side_files b0 Supernote)"
      using cases apart [of g Boox] here docs_okD(3) [OF ok, of d0 b0 g Boox]
      by (cases s) (auto split: if_splits)
  next
    fix d1 b1 d2 b2 g
    assume 1: "bm_get docs' d1 = Some b1" and 2: "bm_get docs' d2 = Some b2"
      and g: "g \<in> set (binding_files b1)" "g \<in> set (binding_files b2)"
    from g obtain t u where tu: "g \<in> set (side_files b1 t)" "g \<in> set (side_files b2 u)"
      by (auto simp: binding_files_iff)
    consider "d1 = d" "d2 = d" | "d1 = d" "d2 \<noteq> d" | "d1 \<noteq> d" "d2 = d" | "d1 \<noteq> d" "d2 \<noteq> d"
      by blast
    then show "d1 = d2"
    proof cases
      case 2
      then have "b1 = ?b" "bm_get docs d2 = Some b2" using 1 \<open>bm_get docs' d2 = Some b2\<close> by (auto simp: get)
      then show ?thesis
        using tu elsewhere [of d2 b2 u] unique [of d2 b2 g u t] 2 by (auto split: if_splits)
    next
      case 3
      then have "b2 = ?b" "bm_get docs d1 = Some b1" using 1 2 by (auto simp: get)
      then show ?thesis
        using tu elsewhere [of d1 b1 t] unique [of d1 b1 g t u] 3 by (auto split: if_splits)
    next
      case 4
      then have "bm_get docs d1 = Some b1" "bm_get docs d2 = Some b2" using 1 2 by (auto simp: get)
      then show ?thesis using tu docs_ok_unique [OF ok] by blast
    qed simp
  qed
  have wf': "bm_wf docs'" using wf by (simp add: docs'_def)
  show "owner_of docs' = (owner_of docs)(f \<mapsto> (d, s))"
  proof
    fix g
    have "owner_of docs' g = Some (e, t) \<longleftrightarrow> ((owner_of docs)(f \<mapsto> (d, s))) g = Some (e, t)" for e t
    proof (cases "g = f")
      case True
      have "owner_of docs' f = Some (d, s)"
        unfolding owner_of_iff [OF wf' ok'] get by simp
      then show ?thesis using True by auto
    next
      case False
      have "(\<exists>b0. bm_get docs' e = Some b0 \<and> g \<in> set (side_files b0 t)) \<longleftrightarrow>
        (\<exists>b0. bm_get docs e = Some b0 \<and> g \<in> set (side_files b0 t))"
        using False b binding_files_iff [of g b] by (cases "e = d") (auto simp: get)
      then show ?thesis
        unfolding owner_of_iff [OF wf' ok'] using owner_of_iff [OF wf ok, of g e t] False by simp
    qed
    then show "owner_of docs' g = ((owner_of docs)(f \<mapsto> (d, s))) g"
      by (metis option.exhaust surj_pair)
  qed
qed

section \<open>What validation accepts\<close>

definition checkpoint_wf :: "gateway_checkpoint \<Rightarrow> bool" where
  "checkpoint_wf c \<longleftrightarrow>
     bm_wf (ck_documents c) \<and> bs_wf (ck_processed_drive_events c) \<and> bm_wf (ck_accepted c) \<and>
     bm_wf (ck_frontiers c) \<and> bm_wf (ck_pending_inputs c) \<and> bm_wf (ck_pending_outputs c) \<and>
     bm_wf (ck_delivered c) \<and>
     (\<forall>d b. bm_get (ck_documents c) d = Some b \<longrightarrow> binding_wf b)"

definition pending_input_ok :: "gateway_checkpoint \<Rightarrow> pending_drive_input \<Rightarrow> bool" where
  "pending_input_ok c p \<longleftrightarrow>
     owner c (pn_drive_file_id p) = Some (pn_document_id p, pn_source p) \<and>
     bm_get (ck_frontiers c) (pn_drive_file_id p) = Some (pn_previous_frontier p) \<and>
     rp_get (pn_previous_frontier p) (pn_source p) < rp_get (pn_proposed_frontier p) (pn_source p) \<and>
     rp_get (pn_proposed_frontier p) (other_side (pn_source p)) =
       rp_get (pn_previous_frontier p) (other_side (pn_source p)) \<and>
     is_sha256_text (pn_content_sha256 p) \<and>
     \<not> blank (pn_gcs_object_path p) \<and> pn_gcs_generation p \<noteq> 0 \<and>
     device_path_ok (pn_source p) (pn_document_id p) (pn_gcs_object_path p)"

definition inputs_ok :: "gateway_checkpoint \<Rightarrow> bool" where
  "inputs_ok c \<longleftrightarrow>
     (\<forall>e p. bm_get (ck_pending_inputs c) e = Some p \<longrightarrow>
        e = pn_drive_event_id p \<and> e \<in> set (ck_processed_drive_events c) \<and> pending_input_ok c p) \<and>
     (\<forall>e p e' p'. bm_get (ck_pending_inputs c) e = Some p \<longrightarrow>
        bm_get (ck_pending_inputs c) e' = Some p' \<longrightarrow>
        pn_drive_file_id p = pn_drive_file_id p' \<longrightarrow> e = e')"

definition outputs_ok :: "gateway_checkpoint \<Rightarrow> bool" where
  "outputs_ok c \<longleftrightarrow>
     (\<forall>i p. bm_get (ck_pending_outputs c) i = Some p \<longrightarrow>
        i = po_delivery_id p \<and> bm_get (ck_delivered c) i = None \<and> pending_output_ok c i p) \<and>
     (\<forall>i d. bm_get (ck_delivered c) i = Some d \<longrightarrow>
        i = do_delivery_id d \<and> do_drive_file_version d \<noteq> 0 \<and>
        owner c (do_drive_file_id d) = Some (do_document_id d, do_target d))"

definition files_ok :: "gateway_checkpoint \<Rightarrow> bool" where
  "files_ok c \<longleftrightarrow>
     (\<forall>f h. bm_get (ck_accepted c) f = Some h \<longrightarrow> owner c f \<noteq> None \<and> is_sha256_text h) \<and>
     dom (bm_get (ck_frontiers c)) = dom (owner c)"

definition checkpoint_ok :: "gateway_checkpoint \<Rightarrow> bool" where
  "checkpoint_ok c \<longleftrightarrow>
     ck_schema_version c = gateway_schema_version \<and> docs_ok (ck_documents c) \<and>
     files_ok c \<and> inputs_ok c \<and> outputs_ok c"

lemma collect_files_ok:
  "collect_files fs ids = Inr ids' \<longleftrightarrow>
     distinct fs \<and> set fs \<inter> set ids = {} \<and> ids' = fold bs_insert fs ids"
  by (induction fs ids rule: collect_files.induct) auto

lemma check_documents_ok:
  "check_documents ds ids = Inr ids' \<longleftrightarrow>
     (\<forall>(d, b)\<in>set ds. check_binding d b = Inr ()) \<and>
     distinct (concat (map (binding_files \<circ> snd) ds)) \<and>
     set (concat (map (binding_files \<circ> snd) ds)) \<inter> set ids = {} \<and>
     ids' = fold bs_insert (concat (map (binding_files \<circ> snd) ds)) ids"
proof (induction ds ids rule: check_documents.induct)
  case (2 d b ds ids)
  show ?case
    by (auto simp: result_simps collect_files_ok 2 set_fold_bs_insert)
qed auto

lemma check_pending_inputs_ok:
  "check_pending_inputs c ps files = Inr () \<longleftrightarrow>
     (\<forall>(e, p)\<in>set ps. e = pn_drive_event_id p \<and> e \<in> set (ck_processed_drive_events c) \<and>
        check_pending_input c e p = Inr ()) \<and>
     distinct (map (pn_drive_file_id \<circ> snd) ps) \<and>
     set (map (pn_drive_file_id \<circ> snd) ps) \<inter> set files = {}"
proof (induction c ps files rule: check_pending_inputs.induct)
  case (2 c e p ps files)
  show ?case by (auto simp: result_simps 2)
qed simp

lemma check_binding_ok:
  "check_binding d b = Inr () \<longleftrightarrow>
     db_document_id b = d \<and> stable_binding b \<and>
     (\<forall>f. f \<in> set (side_files b Boox) \<longrightarrow> f \<notin> set (side_files b Supernote))"
  by (auto simp: check_binding_def stable_binding_def side_files_def)

lemma distinct_files_iff:
  assumes "bm_wf docs" and "\<forall>d b. bm_get docs d = Some b \<longrightarrow> distinct (binding_files b)"
  shows "distinct (concat (map (binding_files \<circ> snd) docs)) \<longleftrightarrow>
    (\<forall>d b d' b' f. bm_get docs d = Some b \<longrightarrow> bm_get docs d' = Some b' \<longrightarrow>
        f \<in> set (binding_files b) \<longrightarrow> f \<in> set (binding_files b') \<longrightarrow> d = d')"
  using assms
proof (induction docs)
  case (Cons e docs)
  obtain d b where e: "e = (d, b)" by (cases e)
  have wf: "bm_wf docs" and fresh: "bm_get docs d = None"
    using Cons.prems(1) by (force simp: e bm_wf_Cons map_of_eq_None_iff)+
  have get: "bm_get (e # docs) x = (if x = d then Some b else bm_get docs x)" for x
    by (simp add: e)
  have old: "d' \<noteq> d \<and> bm_get (e # docs) d' = Some b'" if "bm_get docs d' = Some b'" for d' b'
    using that fresh by (auto simp: e)
  then have "\<forall>d' b'. bm_get docs d' = Some b' \<longrightarrow> distinct (binding_files b')"
    using Cons.prems(2) by blast
  note IH = Cons.IH [OF wf this]
  have mem: "(\<exists>x\<in>set docs. f \<in> set (binding_files (snd x))) \<longleftrightarrow>
      (\<exists>d' b'. bm_get docs d' = Some b' \<and> f \<in> set (binding_files b'))" for f
    using bm_get_mem [OF wf] by force
  have "bm_get (e # docs) d = Some b" by (simp add: e)
  with Cons.prems(2) have "distinct (binding_files b)" by blast
  then have "distinct (concat (map (binding_files \<circ> snd) (e # docs))) \<longleftrightarrow>
      (\<forall>f\<in>set (binding_files b). \<forall>d' b'. bm_get docs d' = Some b' \<longrightarrow> f \<notin> set (binding_files b')) \<and>
      distinct (concat (map (binding_files \<circ> snd) docs))"
    using mem by (auto simp: e)
  also have "\<dots> \<longleftrightarrow> (\<forall>d1 b1 d2 b2 f. bm_get (e # docs) d1 = Some b1 \<longrightarrow> bm_get (e # docs) d2 = Some b2 \<longrightarrow>
        f \<in> set (binding_files b1) \<longrightarrow> f \<in> set (binding_files b2) \<longrightarrow> d1 = d2)"
    (is "?fresh \<and> _ \<longleftrightarrow> ?all")
  proof
    assume both: "?fresh \<and> distinct (concat (map (binding_files \<circ> snd) docs))"
    show ?all
    proof (intro allI impI)
      fix d1 b1 d2 b2 f
      assume "bm_get (e # docs) d1 = Some b1" "bm_get (e # docs) d2 = Some b2"
        and f: "f \<in> set (binding_files b1)" "f \<in> set (binding_files b2)"
      then have "d1 = d \<and> b1 = b \<or> bm_get docs d1 = Some b1" "d2 = d \<and> b2 = b \<or> bm_get docs d2 = Some b2"
        by (auto simp: e split: if_splits)
      with both f show "d1 = d2" unfolding IH by blast
    qed
  next
    assume all: ?all
    have ?fresh
    proof (intro ballI allI impI notI)
      fix f d' b'
      assume f: "f \<in> set (binding_files b)" "bm_get docs d' = Some b'" "f \<in> set (binding_files b')"
      have "bm_get (e # docs) d = Some b" by (simp add: e)
      with all f old [OF f(2)] show False by blast
    qed
    moreover have "distinct (concat (map (binding_files \<circ> snd) docs))"
      unfolding IH using all old by blast
    ultimately show "?fresh \<and> distinct (concat (map (binding_files \<circ> snd) docs))" ..
  qed
  finally show ?case .
qed simp

lemma check_pending_input_ok:
  "check_pending_input c e p = Inr () \<longleftrightarrow> pending_input_ok c p"
  by (auto simp: check_pending_input_def pending_input_ok_def result_simps owner_of_def
      binding_for_file_def not_le split: option.splits if_splits)

lemma distinct_pending_iff:
  "bm_wf m \<Longrightarrow> distinct (map (g \<circ> snd) m) \<longleftrightarrow>
     (\<forall>e p e' p'. bm_get m e = Some p \<longrightarrow> bm_get m e' = Some p' \<longrightarrow> g p = g p' \<longrightarrow> e = e')"
proof -
  assume wf: "bm_wf m"
  have "distinct m" using bm_wf_distinct [OF wf] by (simp add: distinct_map)
  then have "distinct (map (g \<circ> snd) m) \<longleftrightarrow> inj_on (g \<circ> snd) (set m)" by (simp add: distinct_map)
  also have "\<dots> \<longleftrightarrow> (\<forall>e p e' p'. (e, p) \<in> set m \<longrightarrow> (e', p') \<in> set m \<longrightarrow> g p = g p' \<longrightarrow> e = e')"
    (is "?inj \<longleftrightarrow> ?keys")
  proof
    show "?inj \<Longrightarrow> ?keys" by (fastforce simp: inj_on_def)
    assume keys: ?keys
    show ?inj
    proof (rule inj_onI)
      fix x y assume xy: "x \<in> set m" "y \<in> set m" "(g \<circ> snd) x = (g \<circ> snd) y"
      obtain e p e' p' where "x = (e, p)" "y = (e', p')" by (cases x; cases y)
      with xy keys have "e = e'" by auto
      with xy \<open>x = (e, p)\<close> \<open>y = (e', p')\<close> show "x = y"
        using bm_get_mem [OF wf, of e p] bm_get_mem [OF wf, of e p'] by simp
    qed
  qed
  finally show ?thesis using bm_get_mem [OF wf] by simp
qed

lemma binding_files_distinct:
  assumes "binding_wf b" and "\<And>f. f \<in> set (side_files b Boox) \<Longrightarrow> f \<notin> set (side_files b Supernote)"
  shows "distinct (binding_files b)"
  using assms
  by (auto simp: binding_wf_def bs_wf_def binding_files_def side_files_def strict_sorted_iff)

lemma ball_entries:
  assumes "bm_wf m"
  shows "(\<forall>x\<in>set m. case x of (k, v) \<Rightarrow> P k v) \<longleftrightarrow> (\<forall>k v. bm_get m k = Some v \<longrightarrow> P k v)"
  unfolding bm_get_mem [OF assms] by auto

lemma try_each_entries:
  assumes "bm_wf m"
  shows "try_each f m = Inr () \<longleftrightarrow> (\<forall>k v. bm_get m k = Some v \<longrightarrow> f (k, v) = Inr ())"
  using bm_get_mem [OF assms] by (auto simp: try_each_ok_iff)

lemma check_documents_iff:
  assumes "bm_wf docs" and "\<forall>d b. bm_get docs d = Some b \<longrightarrow> binding_wf b"
  shows "(\<exists>ids. check_documents docs [] = Inr ids) \<longleftrightarrow> docs_ok docs"
    and "check_documents docs [] = Inr ids \<Longrightarrow> f \<in> set ids \<longleftrightarrow> owner_of docs f \<noteq> None"
proof -
  have mem: "(d, b) \<in> set docs \<longleftrightarrow> bm_get docs d = Some b" for d b
    using bm_get_mem [OF assms(1)] by simp
  show iff: "(\<exists>ids. check_documents docs [] = Inr ids) \<longleftrightarrow> docs_ok docs"
  proof (cases "\<forall>(d, b)\<in>set docs. check_binding d b = Inr ()")
    case True
    then have bindings: "\<forall>d b. bm_get docs d = Some b \<longrightarrow> check_binding d b = Inr ()"
      using mem by auto
    then have "\<forall>d b. bm_get docs d = Some b \<longrightarrow> distinct (binding_files b)"
      unfolding check_binding_ok using assms(2) binding_files_distinct by blast
    note unique = distinct_files_iff [OF assms(1) this]
    with True bindings unique show ?thesis
      unfolding check_documents_ok docs_ok_def check_binding_ok by simp
  next
    case False
    then have "\<not> docs_ok docs" using mem by (auto simp: docs_ok_def check_binding_ok)
    with False show ?thesis by (auto simp: check_documents_ok)
  qed
  assume ids: "check_documents docs [] = Inr ids"
  then have "docs_ok docs" using iff by blast
  note none = owner_of_None_iff [OF assms(1) this, of f]
  have "f \<in> set ids \<longleftrightarrow> (\<exists>d b. (d, b) \<in> set docs \<and> f \<in> set (binding_files b))"
    using ids by (force simp: check_documents_ok set_fold_bs_insert)
  then show "f \<in> set ids \<longleftrightarrow> owner_of docs f \<noteq> None"
    unfolding none mem by blast
qed

lemma check_delivery_ok:
  assumes "bm_wf (ck_documents c)" and "docs_ok (ck_documents c)"
  shows "check_delivery c (i, d) = Inr () \<longleftrightarrow>
    i = do_delivery_id d \<and> do_drive_file_version d \<noteq> 0 \<and>
    owner c (do_drive_file_id d) = Some (do_document_id d, do_target d)"
proof (cases "bm_get (ck_documents c) (do_document_id d)")
  case None
  then show ?thesis by (auto simp: check_delivery_def owner_of_iff [OF assms])
next
  case (Some b)
  then show ?thesis
    using docs_ok_side [OF assms(2) Some] by (auto simp: check_delivery_def owner_of_iff [OF assms])
qed

lemma check_pending_output_ok:
  "check_pending_output c (i, p) = Inr () \<longleftrightarrow>
     i = po_delivery_id p \<and> bm_get (ck_delivered c) i = None \<and> pending_output_ok c i p"
  by (simp add: check_pending_output_def bm_has_def)

lemma check_accepted_ok:
  "check_accepted ids (f, h) = Inr () \<longleftrightarrow> f \<in> set ids \<and> is_sha256_text h"
  by (simp add: check_accepted_def)

lemma check_frontiers_ok:
  "check_frontiers c ids = Inr () \<longleftrightarrow> set ids = dom (bm_get (ck_frontiers c))"
proof -
  have "check_frontiers c ids = Inr () \<longleftrightarrow>
      set ids \<subseteq> fst ` set (ck_frontiers c) \<and> fst ` set (ck_frontiers c) \<subseteq> set ids"
    unfolding check_frontiers_def rbind_eq_Inr_iff try_each_ok_iff ensure_eq_Inr_iff bm_has_keys
      bm_keys_def
    by (auto simp: subset_iff)
  then show ?thesis by (auto simp: dom_map_of_conv_image_fst)
qed

text \<open>\<open>validate\<close> accepts a checkpoint exactly when its bindings are a function from files to
  owners and everything else it records refers to that function.\<close>

lemma validate_checkpoint_iff:
  assumes "checkpoint_wf c"
  shows "validate_checkpoint c = Inr () \<longleftrightarrow> checkpoint_ok c"
proof (cases "ck_schema_version c = gateway_schema_version \<and> docs_ok (ck_documents c)")
  case False
  then show ?thesis
    using check_documents_iff(1) [of "ck_documents c"] assms
    by (auto simp: validate_checkpoint_def checkpoint_ok_def checkpoint_wf_def result_simps)
next
  case True
  from assms have wf: "bm_wf (ck_documents c)" "bm_wf (ck_pending_outputs c)" "bm_wf (ck_delivered c)"
      "bm_wf (ck_accepted c)" "bm_wf (ck_frontiers c)" "bm_wf (ck_pending_inputs c)"
    and bwf: "\<forall>d b. bm_get (ck_documents c) d = Some b \<longrightarrow> binding_wf b"
    by (simp_all add: checkpoint_wf_def)
  have "\<exists>ids. check_documents (ck_documents c) [] = Inr ids"
    using True by (subst check_documents_iff(1) [OF wf(1) bwf]) auto
  then obtain ids where ids: "check_documents (ck_documents c) [] = Inr ids" ..
  note mem = bm_get_mem [symmetric]
  have owned: "f \<in> set ids \<longleftrightarrow> owner c f \<noteq> None" for f
    by (rule check_documents_iff(2) [OF wf(1) bwf ids])
  have outputs: "outputs_ok c \<longleftrightarrow> try_each (check_pending_output c) (ck_pending_outputs c) = Inr () \<and>
      try_each (check_delivery c) (ck_delivered c) = Inr ()"
    unfolding try_each_entries [OF wf(2)] try_each_entries [OF wf(3)] outputs_ok_def
      check_delivery_ok [OF wf(1) conjunct2 [OF True]] check_pending_output_ok ..
  have accepted: "(\<forall>f h. bm_get (ck_accepted c) f = Some h \<longrightarrow> owner c f \<noteq> None \<and> is_sha256_text h) \<longleftrightarrow>
      try_each (check_accepted ids) (ck_accepted c) = Inr ()"
    unfolding try_each_entries [OF wf(4)] check_accepted_ok owned ..
  have frontiers: "dom (bm_get (ck_frontiers c)) = dom (owner c) \<longleftrightarrow> check_frontiers c ids = Inr ()"
  proof -
    have "set ids = dom (owner c)" using owned by (auto simp: dom_def)
    then show ?thesis unfolding check_frontiers_ok by auto
  qed
  have inputs: "inputs_ok c \<longleftrightarrow> check_pending_inputs c (ck_pending_inputs c) [] = Inr ()"
    unfolding check_pending_inputs_ok inputs_ok_def distinct_pending_iff [OF wf(6)]
      check_pending_input_ok ball_entries [OF wf(6)] by simp
  show ?thesis
    unfolding validate_checkpoint_def checkpoint_ok_def files_ok_def outputs accepted frontiers inputs
    using True ids by (simp add: rbind_eq_Inr_iff) blast
qed

end
