(* ===== verification/Gateway_Steps.thy ===== *)
theory Gateway_Steps
  imports Gateway_Facts
begin

text \<open>
  The commits of the planner as steps of an abstract gateway: a gateway is a function from Drive
  files to their owners, the events it has seen, and for each file the accepted content and the
  revisions its bytes were derived from.  One effect lemma per commit, \<open>commit_refines\<close> for all
  of them.
\<close>

section \<open>The abstract gateway\<close>

record gateway =
  gw_owner :: "string \<Rightarrow> (string \<times> device_side) option"
  gw_seen :: "string set"
  gw_accepted :: "string \<Rightarrow> string option"
  gw_frontier :: "string \<Rightarrow> revision_pair option"
  gw_pending :: "string \<Rightarrow> pending_drive_input option"
  gw_reserved :: "string \<Rightarrow> prepared_drive_output option"
  gw_delivered :: "string \<Rightarrow> delivered_drive_output option"

definition abs_gateway :: "gateway_checkpoint \<Rightarrow> gateway" where
  "abs_gateway c =
     \<lparr>gw_owner = owner c, gw_seen = set (ck_processed_drive_events c),
      gw_accepted = bm_get (ck_accepted c), gw_frontier = bm_get (ck_frontiers c),
      gw_pending = bm_get (ck_pending_inputs c), gw_reserved = bm_get (ck_pending_outputs c),
      gw_delivered = bm_get (ck_delivered c)\<rparr>"

lemma abs_gateway_sel [simp]:
  "gw_owner (abs_gateway c) = owner c"
  "gw_seen (abs_gateway c) = set (ck_processed_drive_events c)"
  "gw_accepted (abs_gateway c) = bm_get (ck_accepted c)"
  "gw_frontier (abs_gateway c) = bm_get (ck_frontiers c)"
  "gw_pending (abs_gateway c) = bm_get (ck_pending_inputs c)"
  "gw_reserved (abs_gateway c) = bm_get (ck_pending_outputs c)"
  "gw_delivered (abs_gateway c) = bm_get (ck_delivered c)"
  by (simp_all add: abs_gateway_def)

text \<open>The work a caller commits, and the step of the abstract gateway it is.\<close>

datatype gateway_command =
    CommitInput prepared_drive_input u64
  | AcceptInput string
  | RejectInput string
  | CommitRegistration prepared_registration
  | CommitArtifact prepared_artifact_binding
  | ReserveDelivery prepared_drive_output
  | CommitDelivery prepared_drive_output string u64

definition commit_command ::
    "sha \<Rightarrow> gateway_command \<Rightarrow> gateway_checkpoint \<Rightarrow> gateway_checkpoint \<times> (string + unit)" where
  "commit_command sha cmd c =
     (case cmd of
        CommitInput i g \<Rightarrow> commit_drive_input c i g
      | AcceptInput e \<Rightarrow> accept_drive_input c e
      | RejectInput e \<Rightarrow> reject_drive_input c e
      | CommitRegistration r \<Rightarrow> commit_original_registration c r
      | CommitArtifact a \<Rightarrow> commit_device_artifact_binding c a
      | ReserveDelivery p \<Rightarrow> reserve_drive_output c p
      | CommitDelivery p f v \<Rightarrow> commit_drive_output sha c p f v)"

inductive gateway_step :: "sha \<Rightarrow> gateway_command \<Rightarrow> gateway \<Rightarrow> gateway \<Rightarrow> bool" for sha where
  repeated: "gateway_step sha cmd g g"
| offered: "gw_owner g (pr_drive_file_id i) = Some (pr_document_id i, pr_source i) \<Longrightarrow>
    gw_frontier g (pr_drive_file_id i) = Some (pr_based_on i) \<Longrightarrow>
    (\<forall>e p. gw_pending g e = Some p \<longrightarrow> pn_drive_file_id p \<noteq> pr_drive_file_id i) \<Longrightarrow>
    pr_drive_event_id i \<notin> gw_seen g \<Longrightarrow>
    gateway_step sha (CommitInput i gen) g
      (g\<lparr>gw_seen := insert (pr_drive_event_id i) (gw_seen g),
         gw_pending := (gw_pending g)(pr_drive_event_id i \<mapsto> pending_of i gen)\<rparr>)"
| accepted: "gw_pending g e = Some p \<Longrightarrow>
    gateway_step sha (AcceptInput e) g
      (g\<lparr>gw_pending := (gw_pending g)(e := None),
         gw_frontier := (gw_frontier g)(pn_drive_file_id p \<mapsto> pn_proposed_frontier p),
         gw_accepted := (gw_accepted g)(pn_drive_file_id p \<mapsto> pn_content_sha256 p)\<rparr>)"
| rejected: "gateway_step sha (RejectInput e) g (g\<lparr>gw_pending := (gw_pending g)(e := None)\<rparr>)"
| registered: "gw_owner g (pg_drive_file_id r) = None \<Longrightarrow> pg_drive_event_id r \<notin> gw_seen g \<Longrightarrow>
    gateway_step sha (CommitRegistration r) g
      (g\<lparr>gw_owner := (gw_owner g)(pg_drive_file_id r \<mapsto> (pg_document_id r, pg_source r)),
         gw_seen := insert (pg_drive_event_id r) (gw_seen g),
         gw_accepted := (gw_accepted g)(pg_drive_file_id r \<mapsto> pg_original_pdf_sha256 r),
         gw_frontier := (gw_frontier g)(pg_drive_file_id r \<mapsto> default_revisions)\<rparr>)"
| bound: "gw_owner g (pb_drive_file_id a) = None \<Longrightarrow>
    gateway_step sha (CommitArtifact a) g
      (g\<lparr>gw_owner := (gw_owner g)(pb_drive_file_id a \<mapsto> (pb_document_id a, pb_source a)),
         gw_frontier := (gw_frontier g)(pb_drive_file_id a \<mapsto> pb_based_on a)\<rparr>)"
| reserved: "gw_reserved g (po_delivery_id p) = None \<Longrightarrow> gw_delivered g (po_delivery_id p) = None \<Longrightarrow>
    gateway_step sha (ReserveDelivery p) g
      (g\<lparr>gw_reserved := (gw_reserved g)(po_delivery_id p \<mapsto> p)\<rparr>)"
| delivered: "gw_reserved g (po_delivery_id p) = Some p \<Longrightarrow> f = po_drive_file_id p \<Longrightarrow>
    gw_owner g f = None \<or> gw_owner g f = Some (po_document_id p, po_target p) \<Longrightarrow>
    gateway_step sha (CommitDelivery p f v) g
      (g\<lparr>gw_owner := (gw_owner g)(f \<mapsto> (po_document_id p, po_target p)),
         gw_seen := insert (drive_event_id_from_parts sha f v (po_content_sha256 p)) (gw_seen g),
         gw_accepted := (gw_accepted g)(f \<mapsto> po_content_sha256 p),
         gw_frontier := (gw_frontier g)(f \<mapsto> po_source_revisions p),
         gw_delivered := (gw_delivered g)(po_delivery_id p \<mapsto> delivered_of p f v),
         gw_reserved := (gw_reserved g)(po_delivery_id p := None)\<rparr>)"

section \<open>Effects of the commits\<close>

lemma binding_owner:
  "binding_for_file c f = Some b \<Longrightarrow>
     owner c f = Some (d, s) \<longleftrightarrow> db_document_id b = d \<and> side_for_file b f = Some s"
  by (auto simp: owner_of_def binding_for_file_def)

lemma binding_none: "binding_for_file c f = None \<longleftrightarrow> owner c f = None"
  by (auto simp: owner_of_def binding_for_file_def split: option.splits dest: find_SomeD)

lemma owner_binding:
  assumes "owner c f = Some (d, s)"
  obtains b where "binding_for_file c f = Some b" and "db_document_id b = d"
    and "side_for_file b f = Some s"
proof -
  obtain b where b: "binding_for_file c f = Some b"
    using assms binding_none [of c f] by (cases "binding_for_file c f") auto
  with assms binding_owner [OF b] that show thesis by blast
qed

lemma pending_for_file_None:
  "bm_wf (ck_pending_inputs c) \<Longrightarrow> pending_for_file c f = None \<longleftrightarrow>
     (\<forall>e p. bm_get (ck_pending_inputs c) e = Some p \<longrightarrow> pn_drive_file_id p \<noteq> f)"
  unfolding pending_for_file_def find_None_iff_all using bm_values_iff [of "ck_pending_inputs c"] by blast

lemma validated_ok [result_simps]:
  "validated c = (c', Inr ()) \<longleftrightarrow> c' = c \<and> validate_checkpoint c = Inr ()"
  by (auto simp: validated_def)

text \<open>What committing an input checks before it changes anything.\<close>

definition input_committable :: "gateway_checkpoint \<Rightarrow> prepared_drive_input \<Rightarrow> u64 \<Rightarrow> bool" where
  "input_committable c i gen \<longleftrightarrow>
     gen \<noteq> 0 \<and> owner c (pr_drive_file_id i) = Some (pr_document_id i, pr_source i) \<and>
     next_source_revision (pr_source i) (pr_based_on i) (pr_canonical_frontier i) =
       Inr (pr_source_revision i) \<and>
     bm_get (ck_frontiers c) (pr_drive_file_id i) = Some (pr_based_on i)"

definition with_input :: "gateway_checkpoint \<Rightarrow> prepared_drive_input \<Rightarrow> u64 \<Rightarrow> gateway_checkpoint" where
  "with_input c i gen =
     c\<lparr>ck_processed_drive_events := bs_insert (pr_drive_event_id i) (ck_processed_drive_events c),
       ck_pending_inputs := bm_insert (pr_drive_event_id i) (pending_of i gen) (ck_pending_inputs c)\<rparr>"

lemma commit_drive_input_eq:
  assumes "input_committable c i gen"
  shows "commit_drive_input c i gen =
     (case bm_get (ck_pending_inputs c) (pr_drive_event_id i) of
        Some existing \<Rightarrow>
          if existing = pending_of i gen then (c, Inr ())
          else (c, Inl (''pending Drive event '' @ pr_drive_event_id i @ '' has different content''))
      | None \<Rightarrow>
          if pending_for_file c (pr_drive_file_id i) \<noteq> None then
            (c, Inl (''Drive file '' @ pr_drive_file_id i @ '' already has a pending input''))
          else if pr_drive_event_id i \<in> set (ck_processed_drive_events c) then
            (if bm_get (ck_accepted c) (pr_drive_file_id i) = Some (pr_content_sha256 i)
             then (c, Inr ())
             else (c, Inl (''Drive event '' @ pr_drive_event_id i @
                           '' was already finalized with different content'')))
          else validated (with_input c i gen))"
proof -
  from assms obtain b where "binding_for_file c (pr_drive_file_id i) = Some b"
      "db_document_id b = pr_document_id i" "side_for_file b (pr_drive_file_id i) = Some (pr_source i)"
    unfolding input_committable_def by (blast elim: owner_binding)
  with assms show ?thesis
    by (auto simp: commit_drive_input_def input_committable_def with_input_def split: option.split)
qed

lemma commit_drive_input_committable:
  assumes "commit_drive_input c i gen = (c', Inr ())"
  shows "input_committable c i gen"
proof -
  from assms obtain b where b: "binding_for_file c (pr_drive_file_id i) = Some b"
    by (auto simp: commit_drive_input_def result_simps split: if_splits)
  with assms show ?thesis
    by (auto simp: commit_drive_input_def result_simps input_committable_def binding_owner [OF b]
        split: if_splits)
qed

lemma commit_drive_input_ok:
  assumes "commit_drive_input c i gen = (c', Inr ())"
  obtains (repeated) "c' = c" and "input_committable c i gen"
    | (inserted) "c' = with_input c i gen" and "input_committable c i gen"
        and "pending_for_file c (pr_drive_file_id i) = None"
        and "pr_drive_event_id i \<notin> set (ck_processed_drive_events c)"
        and "validate_checkpoint c' = Inr ()"
proof -
  note ok = commit_drive_input_committable [OF assms]
  from assms [unfolded commit_drive_input_eq [OF ok]] ok that show thesis
    by (auto simp: result_simps split: option.splits if_splits)
qed

lemma accept_drive_input_ok:
  assumes "accept_drive_input c e = (c', Inr ())"
  obtains (repeated) "c' = c" and "bm_get (ck_pending_inputs c) e = None"
    | (accepted) p where "bm_get (ck_pending_inputs c) e = Some p"
        and "c' = c\<lparr>ck_pending_inputs := bm_remove e (ck_pending_inputs c),
                   ck_frontiers := bm_insert (pn_drive_file_id p) (pn_proposed_frontier p) (ck_frontiers c),
                   ck_accepted := bm_insert (pn_drive_file_id p) (pn_content_sha256 p) (ck_accepted c)\<rparr>"
        and "bm_get (ck_frontiers c) (pn_drive_file_id p) = Some (pn_previous_frontier p)"
        and "validate_checkpoint c' = Inr ()"
  using assms that
  by (auto simp: accept_drive_input_def result_simps Let_def split: option.splits if_splits)

lemma reject_drive_input_ok:
  "reject_drive_input c e = (c', Inr ()) \<longleftrightarrow>
     validate_checkpoint c = Inr () \<and>
     c' = c\<lparr>ck_pending_inputs := bm_remove e (ck_pending_inputs c)\<rparr> \<and> validate_checkpoint c' = Inr ()"
  by (auto simp: reject_drive_input_def result_simps)

definition with_registration :: "gateway_checkpoint \<Rightarrow> prepared_registration \<Rightarrow> gateway_checkpoint" where
  "with_registration c r =
     c\<lparr>ck_processed_drive_events := bs_insert (pg_drive_event_id r) (ck_processed_drive_events c),
       ck_accepted := bm_insert (pg_drive_file_id r) (pg_original_pdf_sha256 r) (ck_accepted c),
       ck_frontiers := bm_insert (pg_drive_file_id r) default_revisions (ck_frontiers c),
       ck_documents :=
         bm_insert (pg_document_id r)
           (bind_file (pg_source r) (pg_drive_file_id r)
              (case bm_get (ck_documents c) (pg_document_id r) of
                 None \<Rightarrow> new_binding (pg_document_id r) (pg_original_pdf_sha256 r)
               | Some b \<Rightarrow> b))
           (ck_documents c)\<rparr>"

lemma commit_registration_eq:
  "validate_checkpoint c = Inr () \<Longrightarrow> owner c (pg_drive_file_id r) = None \<Longrightarrow>
     commit_original_registration c r =
       (if (\<exists>b. bm_get (ck_documents c) (pg_document_id r) = Some b \<and>
                db_original_pdf_sha256 b \<noteq> pg_original_pdf_sha256 r)
        then (c, Inl ''registration collides with a different original PDF'')
        else if pg_drive_event_id r \<in> set (ck_processed_drive_events c)
        then (c, Inl ''processed original registration lacks its file binding'')
        else validated (with_registration c r))"
  by (auto simp: commit_original_registration_def with_registration_def binding_none [symmetric]
      split: option.split)

lemma commit_registration_owned:
  "validate_checkpoint c = Inr () \<Longrightarrow>
     owner c (pg_drive_file_id r) = Some (pg_document_id r, pg_source r) \<Longrightarrow>
     commit_original_registration c r = (c, Inr ())"
  by (erule owner_binding) (simp add: commit_original_registration_def)

lemma commit_registration_ok:
  assumes "commit_original_registration c r = (c', Inr ())"
  obtains (repeated) "c' = c" and "owner c (pg_drive_file_id r) = Some (pg_document_id r, pg_source r)"
    | (registered) "c' = with_registration c r" and "owner c (pg_drive_file_id r) = None"
        and "pg_drive_event_id r \<notin> set (ck_processed_drive_events c)"
        and "\<And>b. bm_get (ck_documents c) (pg_document_id r) = Some b \<Longrightarrow>
               db_original_pdf_sha256 b = pg_original_pdf_sha256 r"
        and "validate_checkpoint c' = Inr ()"
proof (cases "binding_for_file c (pg_drive_file_id r)")
  case None
  moreover have "validate_checkpoint c = Inr ()"
    using assms by (auto simp: commit_original_registration_def result_simps)
  ultimately show thesis
    using assms that commit_registration_eq [of c r]
    by (auto simp: binding_none result_simps split: if_splits)
next
  case (Some b)
  with assms that(1) show thesis
    by (auto simp: commit_original_registration_def result_simps binding_owner [OF Some] split: if_splits)
qed

definition with_artifact ::
    "gateway_checkpoint \<Rightarrow> prepared_artifact_binding \<Rightarrow> document_binding \<Rightarrow> gateway_checkpoint" where
  "with_artifact c a b =
     c\<lparr>ck_documents :=
         bm_insert (pb_document_id a) (bind_file (pb_source a) (pb_drive_file_id a) b) (ck_documents c),
       ck_frontiers := bm_insert (pb_drive_file_id a) (pb_based_on a) (ck_frontiers c)\<rparr>"

lemma commit_artifact_eq:
  "validate_checkpoint c = Inr () \<Longrightarrow> owner c (pb_drive_file_id a) = None \<Longrightarrow>
     \<not> (rp_boox (pb_based_on a) > rp_boox (pb_canonical_frontier a) \<or>
        rp_supernote (pb_based_on a) > rp_supernote (pb_canonical_frontier a)) \<Longrightarrow>
     bm_get (ck_documents c) (pb_document_id a) = Some b \<Longrightarrow>
     commit_device_artifact_binding c a = validated (with_artifact c a b)"
  by (simp add: commit_device_artifact_binding_def with_artifact_def binding_none [symmetric])

lemma commit_artifact_ok:
  assumes "commit_device_artifact_binding c a = (c', Inr ())"
  obtains (repeated) "c' = c" and "owner c (pb_drive_file_id a) = Some (pb_document_id a, pb_source a)"
    | (bound) b where "c' = with_artifact c a b" and "owner c (pb_drive_file_id a) = None"
        and "bm_get (ck_documents c) (pb_document_id a) = Some b"
        and "validate_checkpoint c' = Inr ()"
proof (cases "binding_for_file c (pb_drive_file_id a)")
  case None
  with assms that(2) None [unfolded binding_none] show thesis
    by (auto simp: commit_device_artifact_binding_def result_simps with_artifact_def
        split: if_splits)
next
  case (Some b)
  with assms that(1) show thesis
    by (auto simp: commit_device_artifact_binding_def result_simps binding_owner [OF Some]
        split: if_splits)
qed

lemma reserve_drive_output_ok:
  assumes "reserve_drive_output c p = (c', Inr ())"
  obtains (repeated) "c' = c" and "bm_get (ck_delivered c) (po_delivery_id p) \<noteq> None \<or>
        bm_get (ck_pending_outputs c) (po_delivery_id p) = Some p"
    | (reserved) "c' = c\<lparr>ck_pending_outputs := bm_insert (po_delivery_id p) p (ck_pending_outputs c)\<rparr>"
        and "bm_get (ck_delivered c) (po_delivery_id p) = None"
        and "bm_get (ck_pending_outputs c) (po_delivery_id p) = None"
        and "validate_checkpoint c' = Inr ()"
  using assms that
  by (auto simp: reserve_drive_output_def result_simps bm_has_def split: option.splits if_splits)

definition with_delivery ::
    "sha \<Rightarrow> gateway_checkpoint \<Rightarrow> prepared_drive_output \<Rightarrow> string \<Rightarrow> u64 \<Rightarrow> document_binding \<Rightarrow>
       gateway_checkpoint" where
  "with_delivery sha c p f v b =
     c\<lparr>ck_documents := bm_insert (po_document_id p) (bind_file (po_target p) f b) (ck_documents c),
       ck_processed_drive_events :=
         bs_insert (drive_event_id_from_parts sha f v (po_content_sha256 p))
           (ck_processed_drive_events c),
       ck_accepted := bm_insert f (po_content_sha256 p) (ck_accepted c),
       ck_frontiers := bm_insert f (po_source_revisions p) (ck_frontiers c),
       ck_delivered := bm_insert (po_delivery_id p) (delivered_of p f v) (ck_delivered c),
       ck_pending_outputs := bm_remove (po_delivery_id p) (ck_pending_outputs c)\<rparr>"

lemma commit_drive_output_ok:
  assumes "commit_drive_output sha c p f v = (c', Inr ())"
  obtains (repeated) "c' = c" and "bm_get (ck_delivered c) (po_delivery_id p) = Some (delivered_of p f v)"
    | (delivered) b where "c' = with_delivery sha c p f v b"
        and "bm_get (ck_delivered c) (po_delivery_id p) = None"
        and "bm_get (ck_pending_outputs c) (po_delivery_id p) = Some p" and "f = po_drive_file_id p"
        and "owner c f = None \<or> owner c f = Some (po_document_id p, po_target p)"
        and "bm_get (ck_documents c) (po_document_id p) = Some b"
        and "validate_checkpoint c' = Inr ()"
proof (cases "bm_get (ck_delivered c) (po_delivery_id p)")
  case None
  have "owner c f = None \<or> owner c f = Some (po_document_id p, po_target p)"
    using assms None binding_owner [of c f] binding_none [of c f]
    by (cases "binding_for_file c f") (auto simp: commit_drive_output_def result_simps split: if_splits)
  with assms None that(2) show thesis
    by (auto simp: commit_drive_output_def result_simps with_delivery_def split: if_splits)
next
  case (Some d)
  with assms that(1) show thesis
    by (auto simp: commit_drive_output_def result_simps split: if_splits)
qed

section \<open>Refinement\<close>

lemma checkpoint_okD:
  assumes "checkpoint_wf c" and "validate_checkpoint c = Inr ()"
  shows "checkpoint_ok c" and "docs_ok (ck_documents c)" and "bm_wf (ck_documents c)"
  using assms validate_checkpoint_iff [OF assms(1)]
  by (simp_all add: checkpoint_ok_def checkpoint_wf_def)

text \<open>Binding a free file to the document of an operation.\<close>

lemma registration_binding:
  assumes "checkpoint_wf c" and "validate_checkpoint c = Inr ()"
    and "owner c (pg_drive_file_id r) = None"
    and "\<And>b. bm_get (ck_documents c) (pg_document_id r) = Some b \<Longrightarrow>
      db_original_pdf_sha256 b = pg_original_pdf_sha256 r"
    and "stable_binding (new_binding (pg_document_id r) (pg_original_pdf_sha256 r))"
  shows "docs_ok (ck_documents (with_registration c r))"
    and "owner (with_registration c r) = (owner c)(pg_drive_file_id r \<mapsto> (pg_document_id r, pg_source r))"
proof -
  let ?b = "case bm_get (ck_documents c) (pg_document_id r) of
      None \<Rightarrow> new_binding (pg_document_id r) (pg_original_pdf_sha256 r) | Some b \<Rightarrow> b"
  note c = checkpoint_okD [OF assms(1,2)]
  have "bm_get (ck_documents c) (pg_document_id r) = Some ?b \<or>
      bm_get (ck_documents c) (pg_document_id r) = None \<and> stable_binding ?b \<and>
      db_document_id ?b = pg_document_id r \<and> binding_files ?b = []"
    using assms(5) by (cases "bm_get (ck_documents c) (pg_document_id r)")
      (auto simp: binding_files_def new_binding_def)
  from docs_ok_bind [OF c(3,2) disjI1 [OF assms(3)] this]
  show "docs_ok (ck_documents (with_registration c r))"
    and "owner (with_registration c r) = (owner c)(pg_drive_file_id r \<mapsto> (pg_document_id r, pg_source r))"
    by (simp_all add: with_registration_def)
qed

lemma artifact_binding:
  assumes "checkpoint_wf c" and "validate_checkpoint c = Inr ()"
    and "owner c (pb_drive_file_id a) = None" and "bm_get (ck_documents c) (pb_document_id a) = Some b"
  shows "docs_ok (ck_documents (with_artifact c a b))"
    and "owner (with_artifact c a b) = (owner c)(pb_drive_file_id a \<mapsto> (pb_document_id a, pb_source a))"
  using docs_ok_bind [OF checkpoint_okD(3,2) [OF assms(1,2)] disjI1 [OF assms(3)] disjI1 [OF assms(4)]]
  by (simp_all add: with_artifact_def)

lemma delivery_binding:
  assumes "checkpoint_wf c" and "validate_checkpoint c = Inr ()"
    and "owner c f = None \<or> owner c f = Some (po_document_id p, po_target p)"
    and "bm_get (ck_documents c) (po_document_id p) = Some b"
  shows "docs_ok (ck_documents (with_delivery sha c p f v b))"
    and "owner (with_delivery sha c p f v b) = (owner c)(f \<mapsto> (po_document_id p, po_target p))"
  using docs_ok_bind [OF checkpoint_okD(3,2) [OF assms(1,2)] assms(3) disjI1 [OF assms(4)]]
  by (simp_all add: with_delivery_def)

lemma checkpoint_wf_docs:
  "checkpoint_wf c \<Longrightarrow> bm_get (ck_documents c) d = Some b \<Longrightarrow> binding_wf b"
  by (auto simp: checkpoint_wf_def)

lemma commit_validated:
  assumes "commit_command sha cmd c = (c', Inr ())"
  shows "c' = c \<or> validate_checkpoint c' = Inr ()"
  using assms
  by (cases cmd)
    (auto simp: commit_command_def reject_drive_input_ok
      elim: commit_drive_input_ok accept_drive_input_ok commit_registration_ok commit_artifact_ok
        reserve_drive_output_ok commit_drive_output_ok)

text \<open>Commits keep the containers well formed.\<close>

lemma commit_keeps_wf:
  assumes "commit_command sha cmd c = (c', Inr ())" and "checkpoint_wf c"
  shows "checkpoint_wf c'"
proof (cases cmd)
  case (CommitInput i gen)
  then show ?thesis
    using assms by (auto simp: commit_command_def checkpoint_wf_def with_input_def elim!: commit_drive_input_ok)
next
  case (AcceptInput e)
  then show ?thesis
    using assms by (auto simp: commit_command_def checkpoint_wf_def elim!: accept_drive_input_ok)
next
  case (RejectInput e)
  then show ?thesis
    using assms by (auto simp: commit_command_def checkpoint_wf_def reject_drive_input_ok)
next
  case (CommitRegistration r)
  then show ?thesis
    using assms
    by (auto simp: commit_command_def checkpoint_wf_def with_registration_def split: if_splits
        option.splits elim!: commit_registration_ok)
next
  case (CommitArtifact a)
  then show ?thesis
    using assms
    by (auto simp: commit_command_def checkpoint_wf_def with_artifact_def split: if_splits
        elim!: commit_artifact_ok)
next
  case (ReserveDelivery p)
  then show ?thesis
    using assms by (auto simp: commit_command_def checkpoint_wf_def elim!: reserve_drive_output_ok)
next
  case (CommitDelivery p f v)
  then show ?thesis
    using assms
    by (auto simp: commit_command_def checkpoint_wf_def with_delivery_def split: if_splits
        elim!: commit_drive_output_ok)
qed

text \<open>Every successful commit is a step of the abstract gateway.\<close>

lemma commit_refines:
  assumes "commit_command sha cmd c = (c', Inr ())"
    and wf: "checkpoint_wf c" and valid: "validate_checkpoint c = Inr ()"
  shows "gateway_step sha cmd (abs_gateway c) (abs_gateway c')"
proof (cases "c' = c")
  case True
  then show ?thesis by (simp add: gateway_step.repeated)
next
  case changed: False
  with commit_validated [OF assms(1)] have valid': "validate_checkpoint c' = Inr ()" by simp
  note wf' = commit_keeps_wf [OF assms(1) wf]
  show ?thesis
  proof (cases cmd)
    case (CommitInput i gen)
    with assms(1) have "commit_drive_input c i gen = (c', Inr ())" by (simp add: commit_command_def)
    then show ?thesis
    proof (cases rule: commit_drive_input_ok)
      case inserted
      then have "abs_gateway c' = (abs_gateway c)
          \<lparr>gw_seen := insert (pr_drive_event_id i) (gw_seen (abs_gateway c)),
           gw_pending := (gw_pending (abs_gateway c))(pr_drive_event_id i \<mapsto> pending_of i gen)\<rparr>"
        by (simp add: abs_gateway_def with_input_def)
      moreover have "bm_wf (ck_pending_inputs c)" using wf by (simp add: checkpoint_wf_def)
      ultimately show ?thesis
        using inserted gateway_step.offered [of "abs_gateway c" i sha gen] unfolding CommitInput
        by (simp add: input_committable_def pending_for_file_None)
    qed (use changed in simp)
  next
    case (AcceptInput e)
    with assms(1) have "accept_drive_input c e = (c', Inr ())" by (simp add: commit_command_def)
    then show ?thesis
    proof (cases rule: accept_drive_input_ok)
      case (accepted p)
      then show ?thesis
        using gateway_step.accepted [of "abs_gateway c" e p sha] unfolding AcceptInput
        by (simp add: abs_gateway_def)
    qed (use changed in simp)
  next
    case (RejectInput e)
    with assms(1) show ?thesis
      using gateway_step.rejected [of sha e "abs_gateway c"]
      by (simp add: abs_gateway_def commit_command_def reject_drive_input_ok)
  next
    case (CommitRegistration r)
    with assms(1) have "commit_original_registration c r = (c', Inr ())" by (simp add: commit_command_def)
    then show ?thesis
    proof (cases rule: commit_registration_ok)
      case registered
      let ?b = "case bm_get (ck_documents c) (pg_document_id r) of
          None \<Rightarrow> new_binding (pg_document_id r) (pg_original_pdf_sha256 r) | Some b \<Rightarrow> b"
      have "bm_get (ck_documents c') (pg_document_id r) =
          Some (bind_file (pg_source r) (pg_drive_file_id r) ?b)"
        using registered(1) by (simp add: with_registration_def)
      from docs_okD(1,2) [OF checkpoint_okD(2) [OF wf' valid'] this]
      have "db_document_id ?b = pg_document_id r" "stable_binding ?b" by simp_all
      then have "stable_binding (new_binding (pg_document_id r) (pg_original_pdf_sha256 r))"
        using registered(4) by (cases "bm_get (ck_documents c) (pg_document_id r)")
          (auto simp: stable_binding_def)
      from registration_binding(2) [OF wf valid registered(2,4) this] registered(1,2,3)
      show ?thesis
        using gateway_step.registered [of "abs_gateway c" r sha] unfolding CommitRegistration
        by (simp add: abs_gateway_def with_registration_def)
    qed (use changed in simp)
  next
    case (CommitArtifact a)
    with assms(1) have "commit_device_artifact_binding c a = (c', Inr ())" by (simp add: commit_command_def)
    then show ?thesis
    proof (cases rule: commit_artifact_ok)
      case (bound b)
      from artifact_binding(2) [OF wf valid bound(2,3)] bound(1,2) show ?thesis
        using gateway_step.bound [of "abs_gateway c" a sha] unfolding CommitArtifact
        by (simp add: abs_gateway_def with_artifact_def)
    qed (use changed in simp)
  next
    case (ReserveDelivery p)
    with assms(1) have "reserve_drive_output c p = (c', Inr ())" by (simp add: commit_command_def)
    then show ?thesis
    proof (cases rule: reserve_drive_output_ok)
      case reserved
      then show ?thesis
        using gateway_step.reserved [of "abs_gateway c" p sha] unfolding ReserveDelivery
        by (simp add: abs_gateway_def)
    qed (use changed in simp)
  next
    case (CommitDelivery p f v)
    with assms(1) have "commit_drive_output sha c p f v = (c', Inr ())" by (simp add: commit_command_def)
    then show ?thesis
    proof (cases rule: commit_drive_output_ok)
      case (delivered b)
      from delivery_binding(2) [OF wf valid delivered(5,6)] delivered(1,3-5) show ?thesis
        using gateway_step.delivered [of "abs_gateway c" p f sha v] unfolding CommitDelivery
        by (simp add: abs_gateway_def with_delivery_def)
    qed (use changed in simp)
  qed
qed

section \<open>Retries\<close>

lemma owner_input [simp]: "owner (with_input c i gen) = owner c"
  by (simp add: with_input_def)

text \<open>A commit that succeeded succeeds again and changes nothing: the caller may repeat it after
  a crash that hid its result.\<close>

lemma commit_idempotent:
  assumes "commit_command sha cmd c = (c', Inr ())"
    and wf: "checkpoint_wf c" and valid: "validate_checkpoint c = Inr ()"
  shows "commit_command sha cmd c' = (c', Inr ())"
proof (cases "c' = c")
  case True
  with assms(1) show ?thesis by simp
next
  case changed: False
  with commit_validated [OF assms(1)] have valid': "validate_checkpoint c' = Inr ()" by simp
  have step: "gateway_step sha cmd (abs_gateway c) (abs_gateway c')"
    by (rule commit_refines [OF assms])
  show ?thesis
  proof (cases cmd)
    case (CommitInput i gen)
    with assms(1) have "commit_drive_input c i gen = (c', Inr ())" by (simp add: commit_command_def)
    then show ?thesis
    proof (cases rule: commit_drive_input_ok)
      case inserted
      then have "input_committable c' i gen"
        by (simp add: input_committable_def) (simp add: with_input_def)
      with inserted show ?thesis
        unfolding CommitInput by (simp add: commit_command_def commit_drive_input_eq with_input_def)
    qed (use changed in simp)
  next
    case (AcceptInput e)
    with assms(1) have "accept_drive_input c e = (c', Inr ())" by (simp add: commit_command_def)
    then show ?thesis
    proof (cases rule: accept_drive_input_ok)
      case (accepted p)
      then have "bm_get (ck_pending_inputs c') e = None" by simp
      with valid' show ?thesis
        unfolding AcceptInput by (simp add: commit_command_def accept_drive_input_def)
    qed (use changed in simp)
  next
    case (RejectInput e)
    with assms(1) valid' show ?thesis
      by (auto simp: commit_command_def reject_drive_input_ok bm_remove_def)
  next
    case (CommitRegistration r)
    with assms(1) have "commit_original_registration c r = (c', Inr ())" by (simp add: commit_command_def)
    then have "owner c' (pg_drive_file_id r) = Some (pg_document_id r, pg_source r)"
    proof (cases rule: commit_registration_ok)
      case registered
      from step [unfolded CommitRegistration] show ?thesis
      proof cases
        case repeated
        then have "gw_seen (abs_gateway c') = gw_seen (abs_gateway c)" by simp
        with registered show ?thesis by (auto simp: with_registration_def)
      qed (auto dest: arg_cong [of _ _ gw_owner])
    qed (use changed in simp)
    with valid' show ?thesis
      unfolding CommitRegistration by (simp add: commit_command_def commit_registration_owned)
  next
    case (CommitArtifact a)
    with assms(1) have "commit_device_artifact_binding c a = (c', Inr ())" by (simp add: commit_command_def)
    then show ?thesis
    proof (cases rule: commit_artifact_ok)
      case (bound b)
      from artifact_binding(2) [OF wf valid bound(2,3)] bound(1)
      have "owner c' (pb_drive_file_id a) = Some (pb_document_id a, pb_source a)" by simp
      then show ?thesis
        using assms(1) valid' unfolding CommitArtifact
        by (elim owner_binding)
          (auto simp: commit_command_def commit_device_artifact_binding_def result_simps split: if_splits)
    qed (use changed in simp)
  next
    case (ReserveDelivery p)
    with assms(1) have "reserve_drive_output c p = (c', Inr ())" by (simp add: commit_command_def)
    then show ?thesis
      using valid' changed assms(1) unfolding ReserveDelivery
      by (cases rule: reserve_drive_output_ok)
        (auto simp: commit_command_def reserve_drive_output_def result_simps bm_has_def)
  next
    case (CommitDelivery p f v)
    with assms(1) have "commit_drive_output sha c p f v = (c', Inr ())" by (simp add: commit_command_def)
    then show ?thesis
    proof (cases rule: commit_drive_output_ok)
      case (delivered b)
      then have "bm_get (ck_delivered c') (po_delivery_id p) = Some (delivered_of p f v)"
        by (simp add: with_delivery_def)
      with valid' assms(1) show ?thesis
        unfolding CommitDelivery
        by (auto simp: commit_command_def commit_drive_output_def result_simps split: if_splits)
    qed (use changed in simp)
  qed
qed

section \<open>Progress of an upload\<close>

lemma prepare_upload_ok:
  assumes "prepare_drive_input sha cfg c change bs frontier = Inr (UploadInput i)"
  shows "validate_config cfg = Inr ()" and "validate_checkpoint c = Inr ()"
    and "\<not> fr_trashed (dc_file change)" and "fr_size (dc_file change) = of_nat (length bs)"
    and "pr_drive_file_id i = fr_file_id (dc_file change)"
    and "pr_content_sha256 i = sha256_hex sha bs"
    and "pr_drive_event_id i = drive_event_id sha change bs"
    and "pr_canonical_frontier i = frontier"
    and "owner c (pr_drive_file_id i) = Some (pr_document_id i, pr_source i)"
    and "bm_get (ck_frontiers c) (pr_drive_file_id i) = Some (pr_based_on i)"
    and "next_source_revision (pr_source i) (pr_based_on i) frontier = Inr (pr_source_revision i)"
    and "pending_for_file c (pr_drive_file_id i) = None"
    and "pr_drive_event_id i \<notin> set (ck_processed_drive_events c)"
    and "bm_get (ck_accepted c) (pr_drive_file_id i) \<noteq> Some (pr_content_sha256 i)"
    and "folder_id cfg (pr_source i) \<in> set (fr_parents (dc_file change))"
    and "\<exists>rest. pr_gcs_object_path i =
      side_folder (pr_source i) @ ''/'' @ pr_document_id i @ ''/drive/'' @ rest"
proof -
  let ?f = "fr_file_id (dc_file change)"
  from assms obtain b where b: "binding_for_file c ?f = Some b"
    by (auto simp: prepare_drive_input_def Let_def result_simps split: if_splits option.splits)
  let ?e = "drive_event_id_from_parts sha ?f (fr_version (dc_file change)) (sha256_hex sha bs)"
  from assms b have pre: "validate_config cfg = Inr ()" "validate_checkpoint c = Inr ()"
      "\<not> fr_trashed (dc_file change)" "fr_size (dc_file change) = of_nat (length bs)"
      "pending_for_file c ?f = None" "bm_get (ck_accepted c) ?f \<noteq> Some (sha256_hex sha bs)"
      "?e \<notin> set (ck_processed_drive_events c)"
      "prepare_upload sha cfg c (dc_file change) b (sha256_hex sha bs) ?e frontier = Inr (UploadInput i)"
    by (auto simp: prepare_drive_input_def Let_def result_simps split: if_splits option.splits)
  from pre(8) obtain kind where i: "i = \<lparr>pr_drive_event_id = ?e, pr_drive_file_id = ?f,
      pr_gcs_object_path = side_folder (pr_source i) @ ''/'' @ db_document_id b @ ''/drive/'' @
        sha256_hex sha ?e @ ''.'' @ input_extension (pr_source i) kind,
      pr_content_sha256 = sha256_hex sha bs,
      pr_metadata = upload_metadata (dc_file change) (db_document_id b) ?e (sha256_hex sha bs)
        (pr_source_revision i) (pr_based_on i) kind,
      pr_document_id = db_document_id b, pr_source = pr_source i,
      pr_source_revision = pr_source_revision i, pr_based_on = pr_based_on i,
      pr_canonical_frontier = frontier, pr_payload_kind = kind\<rparr>"
    and facts: "side_for_file b ?f = Some (pr_source i)"
      "folder_id cfg (pr_source i) \<in> set (fr_parents (dc_file change))"
      "bm_get (ck_frontiers c) ?f = Some (pr_based_on i)"
      "next_source_revision (pr_source i) (pr_based_on i) frontier = Inr (pr_source_revision i)"
    by (auto simp: prepare_upload_def result_simps split: if_splits option.splits)
  have sel: "pr_drive_file_id i = ?f" "pr_content_sha256 i = sha256_hex sha bs"
    "pr_drive_event_id i = ?e" "pr_canonical_frontier i = frontier"
    "pr_document_id i = db_document_id b"
    "pr_gcs_object_path i = side_folder (pr_source i) @ ''/'' @ db_document_id b @ ''/drive/'' @
        sha256_hex sha ?e @ ''.'' @ input_extension (pr_source i) kind"
    by (subst i, simp)+
  have "owner c ?f = Some (pr_document_id i, pr_source i)"
    using binding_owner [OF b] facts(1) sel(5) by simp
  with pre facts sel show "validate_config cfg = Inr ()" and "validate_checkpoint c = Inr ()"
    and "\<not> fr_trashed (dc_file change)" and "fr_size (dc_file change) = of_nat (length bs)"
    and "pr_drive_file_id i = fr_file_id (dc_file change)"
    and "pr_content_sha256 i = sha256_hex sha bs"
    and "pr_drive_event_id i = drive_event_id sha change bs"
    and "pr_canonical_frontier i = frontier"
    and "owner c (pr_drive_file_id i) = Some (pr_document_id i, pr_source i)"
    and "bm_get (ck_frontiers c) (pr_drive_file_id i) = Some (pr_based_on i)"
    and "next_source_revision (pr_source i) (pr_based_on i) frontier = Inr (pr_source_revision i)"
    and "pending_for_file c (pr_drive_file_id i) = None"
    and "pr_drive_event_id i \<notin> set (ck_processed_drive_events c)"
    and "bm_get (ck_accepted c) (pr_drive_file_id i) \<noteq> Some (pr_content_sha256 i)"
    and "folder_id cfg (pr_source i) \<in> set (fr_parents (dc_file change))"
    and "\<exists>rest. pr_gcs_object_path i =
      side_folder (pr_source i) @ ''/'' @ pr_document_id i @ ''/drive/'' @ rest"
    by (simp_all add: drive_event_id_def)
qed

lemma side_folder_visible: "\<not> blank (side_folder s @ rest)"
  by (cases s) (simp_all add: side_folder_def blank_Cons_visible byte_def)

lemma drive_path_ok:
  assumes "path = side_folder s @ ''/'' @ d @ ''/drive/'' @ rest"
  shows "device_path_ok s d path" and "\<not> blank path"
proof -
  have "path = (side_folder s @ ''/'') @ (d @ ''/drive/'' @ rest)" using assms by simp
  then have 1: "prefix (side_folder s @ ''/'') path" by (metis prefixI)
  have "path = side_folder s @ (''/'' @ d @ ''/'') @ (''drive/'' @ rest)" using assms by simp
  then have "sublist (''/'' @ d @ ''/'') path" by (metis sublist_appendI)
  with 1 show "device_path_ok s d path" by (simp add: device_path_ok_def)
  show "\<not> blank path" using assms by (simp add: side_folder_visible)
qed

lemma next_source_revision_ok:
  assumes "next_source_revision s base frontier = Inr r"
  shows "rp_get base s < r" and "rp_get frontier s < r"
    and "r = u64_max (rp_get base s) (rp_get frontier s) + 1"
proof -
  from assms have r: "checked_add (u64_max (rp_get base s) (rp_get frontier s)) 1 = Some r"
    by (simp add: next_source_revision_def result_simps)
  have "rp_get base s \<le> u64_max (rp_get base s) (rp_get frontier s)"
    "rp_get frontier s \<le> u64_max (rp_get base s) (rp_get frontier s)"
    by (auto simp: u64_max_def)
  with checked_add_one_less [OF r] show "rp_get base s < r" and "rp_get frontier s < r" by auto
  show "r = u64_max (rp_get base s) (rp_get frontier s) + 1" using checked_add_Some [OF r] by simp
qed

lemma sha256_hex_text: "sha_digest_size sha \<Longrightarrow> is_sha256_text (sha256_hex sha bs)"
  by (simp add: is_sha256_text_def length_sha256_hex sha256_hex_hexdigits)

lemma checkpoint_ok_inputs: "checkpoint_ok c \<Longrightarrow> inputs_ok c"
  by (simp add: checkpoint_ok_def)

lemma inputs_okD:
  assumes "inputs_ok c" and "bm_get (ck_pending_inputs c) e = Some p"
  shows "pn_drive_event_id p = e" and "e \<in> set (ck_processed_drive_events c)"
    and "pending_input_ok c p"
    and "bm_get (ck_pending_inputs c) e' = Some p' \<Longrightarrow>
      pn_drive_file_id p = pn_drive_file_id p' \<Longrightarrow> e = e'"
  using assms unfolding inputs_ok_def by blast+

lemma with_input_checkpoint_ok:
  assumes ok: "checkpoint_ok c" and "bm_wf (ck_pending_inputs c)"
    and "input_committable c i gen" and "pending_for_file c (pr_drive_file_id i) = None"
    and "is_sha256_text (pr_content_sha256 i)"
    and "device_path_ok (pr_source i) (pr_document_id i) (pr_gcs_object_path i)"
    and "\<not> blank (pr_gcs_object_path i)"
  shows "checkpoint_ok (with_input c i gen)"
proof -
  let ?c = "with_input c i gen"
  have frame: "owner ?c = owner c" "ck_frontiers ?c = ck_frontiers c" "ck_accepted ?c = ck_accepted c"
    "ck_documents ?c = ck_documents c" "ck_delivered ?c = ck_delivered c"
    "ck_pending_outputs ?c = ck_pending_outputs c" "ck_schema_version ?c = ck_schema_version c"
    by (simp_all add: with_input_def)
  have get: "bm_get (ck_pending_inputs ?c) e =
      (if e = pr_drive_event_id i then Some (pending_of i gen) else bm_get (ck_pending_inputs c) e)" for e
    by (simp add: with_input_def)
  have new: "pending_input_ok ?c (pending_of i gen)"
    using assms(3,5,6,7) next_source_revision_ok(1)
    by (auto simp: pending_input_ok_def input_committable_def pending_of_def frame)
  have others: "pn_drive_file_id p \<noteq> pr_drive_file_id i"
    if "bm_get (ck_pending_inputs c) e = Some p" for e p
    using that assms(4) pending_for_file_None [OF assms(2)] by blast
  have old: "pending_input_ok ?c p = pending_input_ok c p" for p
    by (simp add: pending_input_ok_def frame)
  have "inputs_ok ?c"
    unfolding inputs_ok_def
  proof (intro conjI allI impI)
    fix e p assume "bm_get (ck_pending_inputs ?c) e = Some p"
    then have "e = pr_drive_event_id i \<and> p = pending_of i gen \<or> bm_get (ck_pending_inputs c) e = Some p"
      by (auto simp: get split: if_splits)
    then show "e = pn_drive_event_id p" "e \<in> set (ck_processed_drive_events ?c)" "pending_input_ok ?c p"
      using inputs_okD [OF checkpoint_ok_inputs [OF ok], of e p] new old
      by (auto simp: with_input_def pending_of_def)
  next
    fix e p e' p'
    assume "bm_get (ck_pending_inputs ?c) e = Some p" "bm_get (ck_pending_inputs ?c) e' = Some p'"
      and same: "pn_drive_file_id p = pn_drive_file_id p'"
    then have "e = pr_drive_event_id i \<and> p = pending_of i gen \<or> bm_get (ck_pending_inputs c) e = Some p"
      "e' = pr_drive_event_id i \<and> p' = pending_of i gen \<or> bm_get (ck_pending_inputs c) e' = Some p'"
      by (auto simp: get split: if_splits)
    moreover have "pn_drive_file_id (pending_of i gen) = pr_drive_file_id i"
      by (simp add: pending_of_def)
    ultimately show "e = e'"
      using same others inputs_okD(4) [OF checkpoint_ok_inputs [OF ok], of e p e' p'] by auto
  qed
  moreover have "outputs_ok ?c" "files_ok ?c"
    using ok by (simp_all add: checkpoint_ok_def outputs_ok_def files_ok_def frame pending_output_ok_def)
  ultimately show ?thesis using ok by (simp add: checkpoint_ok_def frame)
qed

text \<open>An upload that was prepared on the checkpoint can be committed to it.\<close>

lemma upload_commits:
  assumes "prepare_drive_input sha cfg c change bs frontier = Inr (UploadInput i)"
    and wf: "checkpoint_wf c" and "sha_digest_size sha" and "gen \<noteq> 0"
  shows "commit_drive_input c i gen = (with_input c i gen, Inr ())"
    and "validate_checkpoint (with_input c i gen) = Inr ()" and "checkpoint_wf (with_input c i gen)"
proof -
  note up = prepare_upload_ok [OF assms(1)]
  have ready: "input_committable c i gen"
    using up assms(4) by (simp add: input_committable_def)
  note ok = checkpoint_okD(1) [OF wf up(2)]
  from up(16) obtain rest where path: "pr_gcs_object_path i =
      side_folder (pr_source i) @ ''/'' @ pr_document_id i @ ''/drive/'' @ rest" ..
  have bm: "bm_wf (ck_pending_inputs c)" using wf by (simp add: checkpoint_wf_def)
  have "is_sha256_text (pr_content_sha256 i)" using up(6) assms(3) by (simp add: sha256_hex_text)
  from with_input_checkpoint_ok [OF ok bm ready up(12) this drive_path_ok [OF path]]
  have ok': "checkpoint_ok (with_input c i gen)" .
  show wf': "checkpoint_wf (with_input c i gen)"
    using wf by (simp add: checkpoint_wf_def with_input_def)
  show valid': "validate_checkpoint (with_input c i gen) = Inr ()"
    using ok' validate_checkpoint_iff [OF wf'] by simp
  have "bm_get (ck_pending_inputs c) (pr_drive_event_id i) = None"
    using inputs_okD(2) [OF checkpoint_ok_inputs [OF ok]] up(13)
    by (cases "bm_get (ck_pending_inputs c) (pr_drive_event_id i)") auto
  then show "commit_drive_input c i gen = (with_input c i gen, Inr ())"
    using up(12,13) valid' by (simp add: commit_drive_input_eq [OF ready] validated_def)
qed

section \<open>Acceptance\<close>

definition with_acceptance :: "gateway_checkpoint \<Rightarrow> string \<Rightarrow> pending_drive_input \<Rightarrow> gateway_checkpoint" where
  "with_acceptance c e p =
     c\<lparr>ck_pending_inputs := bm_remove e (ck_pending_inputs c),
       ck_frontiers := bm_insert (pn_drive_file_id p) (pn_proposed_frontier p) (ck_frontiers c),
       ck_accepted := bm_insert (pn_drive_file_id p) (pn_content_sha256 p) (ck_accepted c)\<rparr>"

lemma with_acceptance_wf [simp]: "checkpoint_wf c \<Longrightarrow> checkpoint_wf (with_acceptance c e p)"
  by (simp add: checkpoint_wf_def with_acceptance_def)

lemma with_acceptance_ok:
  assumes ok: "checkpoint_ok c" and p: "bm_get (ck_pending_inputs c) e = Some p"
  shows "checkpoint_ok (with_acceptance c e p)"
proof -
  let ?c = "with_acceptance c e p"
  have frame: "owner ?c = owner c" "ck_processed_drive_events ?c = ck_processed_drive_events c"
    "ck_documents ?c = ck_documents c" "ck_delivered ?c = ck_delivered c"
    "ck_pending_outputs ?c = ck_pending_outputs c" "ck_schema_version ?c = ck_schema_version c"
    by (simp_all add: with_acceptance_def)
  note in' = inputs_okD [OF checkpoint_ok_inputs [OF ok]]
  have mine: "pending_input_ok c p" by (rule in'(3) [OF p])
  have get: "bm_get (ck_pending_inputs ?c) e' = Some p' \<longleftrightarrow>
      e' \<noteq> e \<and> bm_get (ck_pending_inputs c) e' = Some p'" for e' p'
    by (simp add: with_acceptance_def)
  have keep: "pending_input_ok ?c p'" if "bm_get (ck_pending_inputs ?c) e' = Some p'" for e' p'
  proof -
    from that have e': "e' \<noteq> e" "bm_get (ck_pending_inputs c) e' = Some p'" by (simp_all add: get)
    with in'(4) [OF e'(2) p] have "pn_drive_file_id p' \<noteq> pn_drive_file_id p" by auto
    with in'(3) [OF e'(2)] show ?thesis
      by (simp add: pending_input_ok_def frame) (simp add: with_acceptance_def)
  qed
  have "inputs_ok ?c"
    unfolding inputs_ok_def
  proof (intro conjI allI impI)
    fix e' p' assume "bm_get (ck_pending_inputs ?c) e' = Some p'"
    then show "e' = pn_drive_event_id p'" "e' \<in> set (ck_processed_drive_events ?c)"
      and "pending_input_ok ?c p'"
      using in'(1,2) keep by (auto simp: get frame)
  next
    fix e1 p1 e2 p2
    assume "bm_get (ck_pending_inputs ?c) e1 = Some p1" "bm_get (ck_pending_inputs ?c) e2 = Some p2"
      "pn_drive_file_id p1 = pn_drive_file_id p2"
    then show "e1 = e2" using in'(4) by (auto simp: get)
  qed
  moreover have "files_ok ?c"
  proof -
    have "owner c (pn_drive_file_id p) \<noteq> None" "pn_drive_file_id p \<in> dom (bm_get (ck_frontiers c))"
      "is_sha256_text (pn_content_sha256 p)"
      using mine by (auto simp: pending_input_ok_def)
    moreover have "bm_get (ck_accepted ?c) =
        (bm_get (ck_accepted c))(pn_drive_file_id p \<mapsto> pn_content_sha256 p)"
      "dom (bm_get (ck_frontiers ?c)) = insert (pn_drive_file_id p) (dom (bm_get (ck_frontiers c)))"
      by (simp_all add: with_acceptance_def)
    ultimately show ?thesis
      using ok by (simp add: checkpoint_ok_def files_ok_def frame insert_absorb)
  qed
  moreover have "outputs_ok ?c"
    using ok by (simp add: checkpoint_ok_def outputs_ok_def frame pending_output_ok_def)
  ultimately show ?thesis using ok by (simp add: checkpoint_ok_def frame)
qed

text \<open>A pending input can always be accepted.\<close>

lemma acceptance_commits:
  assumes "checkpoint_wf c" and "validate_checkpoint c = Inr ()"
    and p: "bm_get (ck_pending_inputs c) e = Some p"
  shows "accept_drive_input c e = (with_acceptance c e p, Inr ())"
    and "validate_checkpoint (with_acceptance c e p) = Inr ()"
proof -
  note ok = checkpoint_okD(1) [OF assms(1,2)]
  show valid': "validate_checkpoint (with_acceptance c e p) = Inr ()"
    using with_acceptance_ok [OF ok p] validate_checkpoint_iff [of "with_acceptance c e p"] assms(1)
    by simp
  have "pending_input_ok c p" by (rule inputs_okD(3) [OF checkpoint_ok_inputs [OF ok] p])
  with assms(2) p valid' show "accept_drive_input c e = (with_acceptance c e p, Inr ())"
    by (simp add: accept_drive_input_def Let_def pending_input_ok_def validated_def with_acceptance_def)
qed

section \<open>What the planner does not take in again\<close>

text \<open>Bytes a bound file is known to hold are a duplicate, whatever revision reports them.\<close>

lemma known_bytes_duplicate:
  assumes "validate_config cfg = Inr ()" and "validate_checkpoint c = Inr ()"
    and "\<not> fr_trashed (dc_file change)" and "fr_size (dc_file change) = of_nat (length bs)"
    and "owner c (fr_file_id (dc_file change)) \<noteq> None"
    and "pending_for_file c (fr_file_id (dc_file change)) = None"
    and "bm_get (ck_accepted c) (fr_file_id (dc_file change)) = Some (sha256_hex sha bs)"
  shows "prepare_drive_input sha cfg c change bs frontier =
    Inr (DuplicateInput (drive_event_id sha change bs))"
proof -
  obtain b where "binding_for_file c (fr_file_id (dc_file change)) = Some b"
    using assms(5) binding_none [of c "fr_file_id (dc_file change)"]
    by (cases "binding_for_file c (fr_file_id (dc_file change))") auto
  with assms show ?thesis by (simp add: prepare_drive_input_def Let_def drive_event_id_def)
qed

text \<open>While an input of a file is pending, later revisions of the file wait for it.\<close>

lemma pending_bytes_deferred:
  assumes "validate_config cfg = Inr ()" and "validate_checkpoint c = Inr ()"
    and "\<not> fr_trashed (dc_file change)" and "fr_size (dc_file change) = of_nat (length bs)"
    and "owner c (fr_file_id (dc_file change)) \<noteq> None"
    and "pending_for_file c (fr_file_id (dc_file change)) = Some p"
  shows "prepare_drive_input sha cfg c change bs frontier =
    Inr (DeferredInput (fr_file_id (dc_file change)) (pn_drive_event_id p))"
proof -
  obtain b where "binding_for_file c (fr_file_id (dc_file change)) = Some b"
    using assms(5) binding_none [of c "fr_file_id (dc_file change)"]
    by (cases "binding_for_file c (fr_file_id (dc_file change))") auto
  with assms show ?thesis by (simp add: prepare_drive_input_def Let_def)
qed

lemma pending_for_file_with_input:
  assumes "bm_wf (ck_pending_inputs c)" and "pending_for_file c (pr_drive_file_id i) = None"
  shows "pending_for_file (with_input c i gen) (pr_drive_file_id i) = Some (pending_of i gen)"
proof -
  let ?c = "with_input c i gen"
  have wf': "bm_wf (ck_pending_inputs ?c)" using assms(1) by (simp add: with_input_def)
  have only: "p = pending_of i gen"
    if "bm_get (ck_pending_inputs ?c) e = Some p" "pn_drive_file_id p = pr_drive_file_id i" for e p
    using that assms(2) [unfolded pending_for_file_None [OF assms(1)]]
    by (auto simp: with_input_def split: if_splits)
  have "bm_get (ck_pending_inputs ?c) (pr_drive_event_id i) = Some (pending_of i gen)"
    "pn_drive_file_id (pending_of i gen) = pr_drive_file_id i"
    by (simp_all add: with_input_def pending_of_def)
  then have "pending_for_file ?c (pr_drive_file_id i) \<noteq> None"
    unfolding pending_for_file_None [OF wf'] by blast
  then obtain p where p: "pending_for_file ?c (pr_drive_file_id i) = Some p" by blast
  then have "pn_drive_file_id p = pr_drive_file_id i" "p \<in> set (bm_values (ck_pending_inputs ?c))"
    unfolding pending_for_file_def by (auto dest: find_SomeD)
  with only bm_values_iff [OF wf'] p show ?thesis by blast
qed

lemma pending_for_file_accepted:
  assumes "checkpoint_wf c" and "checkpoint_ok c" and p: "bm_get (ck_pending_inputs c) e = Some p"
  shows "pending_for_file (with_acceptance c e p) (pn_drive_file_id p) = None"
proof -
  have "bm_wf (ck_pending_inputs (with_acceptance c e p))"
    using assms(1) by (simp add: checkpoint_wf_def with_acceptance_def)
  moreover have "pn_drive_file_id p' \<noteq> pn_drive_file_id p"
    if "bm_get (ck_pending_inputs c) e' = Some p'" "e' \<noteq> e" for e' p'
    using inputs_okD(4) [OF checkpoint_ok_inputs [OF assms(2)] that(1) p] that(2) by auto
  ultimately show ?thesis
    by (auto simp: pending_for_file_None with_acceptance_def split: if_splits)
qed

end
