(* ===== verification/Gateway_Run.thy ===== *)
theory Gateway_Run
  imports Gateway_Steps
begin

text \<open>
  Runs of the gateway: sequences of successful commits and page tokens.  Every reachable
  checkpoint is valid, bindings are permanent, events stay seen, and the revisions a file was
  derived from never go back, unless a broker output is delivered to that very file.
\<close>

inductive gateway_run ::
    "sha \<Rightarrow> gateway_checkpoint \<Rightarrow> gateway_command list \<Rightarrow> gateway_checkpoint \<Rightarrow> bool" for sha c where
  start: "gateway_run sha c [] c"
| committed: "gateway_run sha c cmds c1 \<Longrightarrow> commit_command sha cmd c1 = (c2, Inr ()) \<Longrightarrow>
    gateway_run sha c (cmds @ [cmd]) c2"
| token: "gateway_run sha c cmds c1 \<Longrightarrow> gateway_run sha c cmds (commit_page_token t c1)"

lemma pending_input_le: "pending_input_ok c p \<Longrightarrow> revisions_le (pn_previous_frontier p) (pn_proposed_frontier p)"
  unfolding revisions_le_iff
proof
  fix s assume p: "pending_input_ok c p"
  show "rp_get (pn_previous_frontier p) s \<le> rp_get (pn_proposed_frontier p) s"
  proof (cases "s = pn_source p")
    case False
    then have "s = other_side (pn_source p)" by (cases s; cases "pn_source p") auto
    with p show ?thesis by (simp add: pending_input_ok_def)
  next
    case True
    with p show ?thesis by (simp add: pending_input_ok_def less_imp_le)
  qed
qed

lemma token_frame [simp]:
  "checkpoint_wf (commit_page_token t c) = checkpoint_wf c"
  "checkpoint_ok (commit_page_token t c) = checkpoint_ok c"
  "owner (commit_page_token t c) = owner c"
  "ck_frontiers (commit_page_token t c) = ck_frontiers c"
  "ck_processed_drive_events (commit_page_token t c) = ck_processed_drive_events c"
  by (simp_all add: commit_page_token_def checkpoint_wf_def checkpoint_ok_def files_ok_def inputs_ok_def
      outputs_ok_def pending_input_ok_def pending_output_ok_def)

lemma empty_checkpoint_valid:
  "checkpoint_wf empty_checkpoint" "validate_checkpoint empty_checkpoint = Inr ()"
  by (simp_all add: checkpoint_wf_def empty_checkpoint_def validate_checkpoint_def check_frontiers_def
      bm_keys_def)

section \<open>Steps\<close>

lemma step_owner: "gateway_step sha cmd g g' \<Longrightarrow> gw_owner g f = Some x \<Longrightarrow> gw_owner g' f = Some x"
  by (induction rule: gateway_step.induct) auto

lemma step_seen: "gateway_step sha cmd g g' \<Longrightarrow> gw_seen g \<subseteq> gw_seen g'"
  by (induction rule: gateway_step.induct) auto

lemma commit_frontier_le:
  assumes "commit_command sha cmd c = (c', Inr ())"
    and wf: "checkpoint_wf c" and valid: "validate_checkpoint c = Inr ()"
    and "\<And>p v. cmd \<noteq> CommitDelivery p f v"
    and r: "bm_get (ck_frontiers c) f = Some r"
  shows "\<exists>r'. bm_get (ck_frontiers c') f = Some r' \<and> revisions_le r r'"
proof -
  note ok = checkpoint_okD(1) [OF wf valid]
  have "dom (bm_get (ck_frontiers c)) = dom (owner c)" using ok by (simp add: checkpoint_ok_def files_ok_def)
  then have owned: "owner c f \<noteq> None" using r by blast
  have "gateway_step sha cmd (abs_gateway c) (abs_gateway c')"
    by (rule commit_refines [OF assms(1-3)])
  then show ?thesis
  proof cases
    case repeated
    then have "bm_get (ck_frontiers c') = bm_get (ck_frontiers c)"
      using abs_gateway_sel(4) by metis
    with r show ?thesis by simp
  next
    case (offered i gen)
    then have "bm_get (ck_frontiers c') = bm_get (ck_frontiers c)"
      using abs_gateway_sel(4) [of c'] by simp
    with r show ?thesis by simp
  next
    case (accepted e p)
    then have p: "pending_input_ok c p"
      using inputs_okD(3) [OF checkpoint_ok_inputs [OF ok]] by simp
    have "bm_get (ck_frontiers c') = (bm_get (ck_frontiers c))(pn_drive_file_id p \<mapsto> pn_proposed_frontier p)"
      using accepted abs_gateway_sel(4) [of c'] by simp
    then show ?thesis
      using r p pending_input_le [OF p] by (auto simp: pending_input_ok_def)
  next
    case (rejected e)
    then have "bm_get (ck_frontiers c') = bm_get (ck_frontiers c)"
      using abs_gateway_sel(4) [of c'] by simp
    with r show ?thesis by simp
  next
    case (registered g)
    then have "bm_get (ck_frontiers c') =
        (bm_get (ck_frontiers c))(pg_drive_file_id g \<mapsto> default_revisions)"
      using abs_gateway_sel(4) [of c'] by simp
    with r registered owned show ?thesis by auto
  next
    case (bound a)
    then have "bm_get (ck_frontiers c') = (bm_get (ck_frontiers c))(pb_drive_file_id a \<mapsto> pb_based_on a)"
      using abs_gateway_sel(4) [of c'] by simp
    with r bound owned show ?thesis by auto
  next
    case (reserved p)
    then have "bm_get (ck_frontiers c') = bm_get (ck_frontiers c)"
      using abs_gateway_sel(4) [of c'] by simp
    with r show ?thesis by simp
  next
    case (delivered p f' v)
    then have "bm_get (ck_frontiers c') = (bm_get (ck_frontiers c))(f' \<mapsto> po_source_revisions p)"
      using abs_gateway_sel(4) [of c'] by simp
    with r delivered assms(4) [of p v] show ?thesis by auto
  qed
qed

section \<open>Runs\<close>

lemma run_valid:
  assumes "gateway_run sha c cmds c'" and "checkpoint_wf c" and "validate_checkpoint c = Inr ()"
  shows "checkpoint_wf c' \<and> validate_checkpoint c' = Inr ()"
  using assms
proof (induction rule: gateway_run.induct)
  case (committed cmds c1 cmd c2)
  then show ?case
    using commit_keeps_wf [OF committed(2)] commit_validated [OF committed(2)] by auto
next
  case (token cmds c1 t)
  then show ?case using validate_checkpoint_iff [of c1] validate_checkpoint_iff [of "commit_page_token t c1"]
    by simp
qed simp

lemma run_owner:
  assumes "gateway_run sha c cmds c'" and "checkpoint_wf c" and "validate_checkpoint c = Inr ()"
    and "owner c f = Some x"
  shows "owner c' f = Some x"
  using assms
proof (induction rule: gateway_run.induct)
  case (committed cmds c1 cmd c2)
  then have c1: "checkpoint_wf c1" "validate_checkpoint c1 = Inr ()" using run_valid by blast+
  from step_owner [OF commit_refines [OF committed(2) c1], of f x] committed show ?case by simp
qed simp_all

lemma run_seen:
  assumes "gateway_run sha c cmds c'" and "checkpoint_wf c" and "validate_checkpoint c = Inr ()"
  shows "set (ck_processed_drive_events c) \<subseteq> set (ck_processed_drive_events c')"
  using assms
proof (induction rule: gateway_run.induct)
  case (committed cmds c1 cmd c2)
  then have c1: "checkpoint_wf c1" "validate_checkpoint c1 = Inr ()" using run_valid by blast+
  from step_seen [OF commit_refines [OF committed(2) c1]] committed show ?case by auto
qed simp_all

lemma run_frontier:
  assumes "gateway_run sha c cmds c'" and "checkpoint_wf c" and "validate_checkpoint c = Inr ()"
    and "\<And>p v. CommitDelivery p f v \<notin> set cmds" and "bm_get (ck_frontiers c) f = Some r"
  shows "\<exists>r'. bm_get (ck_frontiers c') f = Some r' \<and> revisions_le r r'"
  using assms
proof (induction rule: gateway_run.induct)
  case (committed cmds c1 cmd c2)
  then have c1: "checkpoint_wf c1" "validate_checkpoint c1 = Inr ()" using run_valid by blast+
  from committed obtain r1 where r1: "bm_get (ck_frontiers c1) f = Some r1" "revisions_le r r1"
    by auto
  have "cmd \<noteq> CommitDelivery p f v" for p v using committed.prems(3) by auto
  from commit_frontier_le [OF committed(2) c1 this r1(1)] r1(2) show ?case
    using revisions_le_trans by blast
qed simp_all

section \<open>Delivery\<close>

lemma delivery_checkpoint_ok:
  assumes wf: "checkpoint_wf c" and valid: "validate_checkpoint c = Inr ()"
    and p: "bm_get (ck_pending_outputs c) (po_delivery_id p) = Some p"
    and free: "owner c f = None" and b: "bm_get (ck_documents c) (po_document_id p) = Some b"
    and "is_sha256_text (po_content_sha256 p)" and "v \<noteq> 0"
  shows "checkpoint_ok (with_delivery sha c p f v b)"
proof -
  let ?c = "with_delivery sha c p f v b"
  note ok = checkpoint_okD(1) [OF wf valid]
  note bind = delivery_binding [OF wf valid disjI1 [OF free] b, of sha v]
  have "files_ok ?c"
  proof -
    have "dom (bm_get (ck_frontiers ?c)) = insert f (dom (bm_get (ck_frontiers c)))"
      "bm_get (ck_accepted ?c) = (bm_get (ck_accepted c))(f \<mapsto> po_content_sha256 p)"
      by (simp_all add: with_delivery_def)
    then show ?thesis
      using ok bind(2) assms(6) by (auto simp: checkpoint_ok_def files_ok_def)
  qed
  moreover have "inputs_ok ?c"
  proof -
    have "pending_input_ok ?c q" if "pending_input_ok c q" for q
    proof -
      have "pn_drive_file_id q \<noteq> f" using that free by (auto simp: pending_input_ok_def)
      moreover have "bm_get (ck_frontiers ?c) = (bm_get (ck_frontiers c))(f \<mapsto> po_source_revisions p)"
        by (simp add: with_delivery_def)
      ultimately show ?thesis using that bind(2) by (simp add: pending_input_ok_def)
    qed
    moreover have "ck_pending_inputs ?c = ck_pending_inputs c"
      "set (ck_processed_drive_events c) \<subseteq> set (ck_processed_drive_events ?c)"
      by (auto simp: with_delivery_def)
    ultimately show ?thesis
      using checkpoint_ok_inputs [OF ok] unfolding inputs_ok_def by (metis subsetD)
  qed
  moreover have "outputs_ok ?c"
  proof -
    have reserved: "bm_get (ck_pending_outputs ?c) = (bm_get (ck_pending_outputs c))(po_delivery_id p := None)"
      "bm_get (ck_delivered ?c) = (bm_get (ck_delivered c))(po_delivery_id p \<mapsto> delivered_of p f v)"
      "\<And>d. bm_has (ck_documents c) d \<Longrightarrow> bm_has (ck_documents ?c) d"
      by (simp_all add: with_delivery_def bm_has_def)
    have out: "outputs_ok c" using ok by (simp add: checkpoint_ok_def)
    have "bm_get (ck_delivered c) (po_delivery_id p) = None"
      using out p unfolding outputs_ok_def by blast
    show ?thesis
      unfolding outputs_ok_def
    proof (intro conjI allI impI)
      fix i q assume "bm_get (ck_pending_outputs ?c) i = Some q"
      then have q: "i \<noteq> po_delivery_id p" "bm_get (ck_pending_outputs c) i = Some q"
        by (auto simp: reserved split: if_splits)
      then have "i = po_delivery_id q \<and> bm_get (ck_delivered c) i = None \<and> pending_output_ok c i q"
        using out unfolding outputs_ok_def by blast
      then show "i = po_delivery_id q" "bm_get (ck_delivered ?c) i = None" "pending_output_ok ?c i q"
        using q(1) reserved(3) by (auto simp: reserved(2) pending_output_ok_def)
    next
      fix i d assume "bm_get (ck_delivered ?c) i = Some d"
      then have "i = po_delivery_id p \<and> d = delivered_of p f v \<or> bm_get (ck_delivered c) i = Some d"
        by (auto simp: reserved split: if_splits)
      moreover have "owner c (do_drive_file_id e) = Some (do_document_id e, do_target e) \<and>
          i = do_delivery_id e \<and> do_drive_file_version e \<noteq> 0"
        if "bm_get (ck_delivered c) i = Some e" for e i
        using out that unfolding outputs_ok_def by blast
      ultimately show "i = do_delivery_id d" "do_drive_file_version d \<noteq> 0"
        and "owner ?c (do_drive_file_id d) = Some (do_document_id d, do_target d)"
        using assms(7) free bind(2) by (auto simp: delivered_of_def)
    qed
  qed
  moreover have "ck_schema_version ?c = ck_schema_version c" by (simp add: with_delivery_def)
  ultimately show ?thesis using ok bind(1) by (simp add: checkpoint_ok_def)
qed

text \<open>A reserved delivery to a free file can be committed.\<close>

lemma delivery_commits:
  assumes wf: "checkpoint_wf c" and valid: "validate_checkpoint c = Inr ()"
    and p: "bm_get (ck_pending_outputs c) (po_delivery_id p) = Some p"
    and free: "owner c (po_drive_file_id p) = None"
    and "is_sha256_text (po_content_sha256 p)" and "v \<noteq> 0"
  obtains b where "commit_drive_output sha c p (po_drive_file_id p) v =
      (with_delivery sha c p (po_drive_file_id p) v b, Inr ())"
    and "bm_get (ck_documents c) (po_document_id p) = Some b"
    and "checkpoint_wf (with_delivery sha c p (po_drive_file_id p) v b)"
    and "validate_checkpoint (with_delivery sha c p (po_drive_file_id p) v b) = Inr ()"
proof -
  have out: "bm_get (ck_delivered c) (po_delivery_id p) = None" "pending_output_ok c (po_delivery_id p) p"
    using checkpoint_okD(1) [OF wf valid] p unfolding checkpoint_ok_def outputs_ok_def by blast+
  then obtain b where b: "bm_get (ck_documents c) (po_document_id p) = Some b"
    by (auto simp: pending_output_ok_def bm_has_def)
  let ?c = "with_delivery sha c p (po_drive_file_id p) v b"
  have wf': "checkpoint_wf ?c"
    using wf b by (auto simp: checkpoint_wf_def with_delivery_def split: if_splits)
  have valid': "validate_checkpoint ?c = Inr ()"
    using delivery_checkpoint_ok [OF wf valid p free b assms(5,6)] validate_checkpoint_iff [OF wf'] by simp
  moreover have "binding_for_file c (po_drive_file_id p) = None" using free by (simp add: binding_none)
  ultimately have "commit_drive_output sha c p (po_drive_file_id p) v = (?c, Inr ())"
    using valid p out b assms(6)
    by (simp add: commit_drive_output_def validated_def pending_output_ok_def with_delivery_def)
  from that [OF this b wf' valid'] show thesis .
qed

lemma pending_for_file_free:
  assumes "checkpoint_wf c" and "checkpoint_ok c" and "owner c f = None"
  shows "pending_for_file c f = None"
proof -
  have "bm_wf (ck_pending_inputs c)" using assms(1) by (simp add: checkpoint_wf_def)
  moreover have "pn_drive_file_id p \<noteq> f" if "bm_get (ck_pending_inputs c) e = Some p" for e p
    using inputs_okD(3) [OF checkpoint_ok_inputs [OF assms(2)] that] assms(3)
    by (auto simp: pending_input_ok_def)
  ultimately show ?thesis using pending_for_file_None by blast
qed

end
