(* ===== verification/Gateway_Example.thy ===== *)
theory Gateway_Example
  imports Gateway_Run
begin

text \<open>
  One concrete run of the gateway, evaluated by \<open>code_simp\<close>: an original is registered, a later
  revision of the file is uploaded and accepted, and a broker output is delivered.  The hash is
  the input padded to 32 bytes.
\<close>

definition pad_sha :: sha where
  "pad_sha bs = take 32 (bs @ replicate 32 (CHR 0x00))"

lemma pad_sha_size: "sha_digest_size pad_sha"
  by (auto simp: sha_digest_size_def pad_sha_def min_def)

definition cfg0 :: gateway_config where
  "cfg0 = \<lparr>gc_schema_version = 1, gc_boox_folder_id = ''boox-folder'',
           gc_supernote_folder_id = ''supernote-folder''\<rparr>"

definition pdf_file :: "string \<Rightarrow> u64 \<Rightarrow> drive_change" where
  "pdf_file f v =
     \<lparr>dc_file = \<lparr>fr_file_id = f, fr_name = ''n.pdf'', fr_version = v,
                 fr_mime_type = ''application/pdf'', fr_parents = [''boox-folder''], fr_size = 1,
                 fr_trashed = False, fr_app_properties = []\<rparr>\<rparr>"

definition approval0 :: registration_approval where
  "approval0 = \<lparr>ra_drive_file_id = ''f'', ra_drive_file_version = 1,
                ra_content_sha256 = sha256_hex pad_sha ''P''\<rparr>"

definition registration0 :: prepared_registration where
  "registration0 =
     \<lparr>pg_drive_event_id = drive_event_id pad_sha (pdf_file ''f'' 1) ''P'', pg_drive_file_id = ''f'',
      pg_source = Boox, pg_document_id = stable_document_id pad_sha ''P'',
      pg_original_pdf_sha256 = sha256_hex pad_sha ''P'', pg_gcs_object_path = [], pg_metadata = []\<rparr>"

definition checkpoint1 :: gateway_checkpoint where
  "checkpoint1 = fst (commit_original_registration empty_checkpoint registration0)"

lemma registration0_committed:
  "commit_original_registration empty_checkpoint registration0 = (checkpoint1, Inr ())"
  by code_simp

lemma checkpoint1_run: "gateway_run pad_sha empty_checkpoint ([] @ [CommitRegistration registration0]) checkpoint1"
  by (rule gateway_run.committed [OF gateway_run.start])
    (simp add: commit_command_def registration0_committed)

lemmas checkpoint1_valid = run_valid [OF checkpoint1_run empty_checkpoint_valid]

definition input1 :: prepared_drive_input where
  "input1 =
     (case prepare_drive_input pad_sha cfg0 checkpoint1 (pdf_file ''f'' 2) ''Q'' default_revisions of
        Inr (UploadInput i) \<Rightarrow> i
      | _ \<Rightarrow> \<lparr>pr_drive_event_id = [], pr_drive_file_id = [], pr_gcs_object_path = [],
              pr_content_sha256 = [], pr_metadata = [], pr_document_id = [], pr_source = Boox,
              pr_source_revision = 0, pr_based_on = default_revisions,
              pr_canonical_frontier = default_revisions, pr_payload_kind = DeviceView\<rparr>)"

lemma input1_prepared:
  "prepare_drive_input pad_sha cfg0 checkpoint1 (pdf_file ''f'' 2) ''Q'' default_revisions =
     Inr (UploadInput input1)"
  by code_simp

definition output1 :: broker_drive_output where
  "output1 =
     \<lparr>bo_gcs_object_path = ''BOOX_Folder/'' @ stable_document_id pad_sha ''P'' @ ''/v.pdf'',
      bo_gcs_generation = 7, bo_document_id = stable_document_id pad_sha ''P'', bo_target = Boox,
      bo_event_id = ''e'', bo_source_revisions = \<lparr>rp_boox = 1, rp_supernote = 0\<rparr>,
      bo_content_sha256 = sha256_hex pad_sha ''V'', bo_file_extension = ''pdf''\<rparr>"

definition delivery1 :: prepared_drive_output where
  "delivery1 = (prepared_output pad_sha cfg0 output1 ''pdf'')\<lparr>po_drive_file_id := ''new''\<rparr>"

definition checkpoint2 :: gateway_checkpoint where
  "checkpoint2 = fst (reserve_drive_output checkpoint1 delivery1)"

lemma delivery1_reserved:
  "prepare_drive_output pad_sha cfg0 checkpoint1 output1 =
     Inr (ReserveOutput (delivery1\<lparr>po_drive_file_id := []\<rparr>))"
  "reserve_drive_output checkpoint1 delivery1 = (checkpoint2, Inr ())"
  by code_simp+

definition checkpoint3 :: gateway_checkpoint where
  "checkpoint3 = fst (commit_drive_output pad_sha checkpoint2 delivery1 ''new'' 1)"

lemma delivery1_committed:
  "commit_drive_output pad_sha checkpoint2 delivery1 ''new'' 1 = (checkpoint3, Inr ())"
  by code_simp

lemma checkpoint1_owner: "owner checkpoint1 ''f'' = Some (stable_document_id pad_sha ''P'', Boox)"
  by code_simp

lemma other_event: "drive_event_id pad_sha (pdf_file ''f'' 3) ''R'' \<noteq> pr_drive_event_id input1"
  by code_simp

lemma new_file_visible: "\<not> blank ''new''"
  by (simp add: blank_Cons_visible byte_def)

lemma new_file_free: "owner checkpoint1 ''new'' = None"
  by code_simp

lemma output1_path:
  "device_path_ok (bo_target output1) (bo_document_id output1) (bo_gcs_object_path output1)"
  by code_simp

lemma output1_hash: "is_sha256_text (bo_content_sha256 output1)"
  by (simp add: output1_def sha256_hex_text [OF pad_sha_size])

lemma checkpoint2_run:
  "gateway_run pad_sha empty_checkpoint
     (([] @ [CommitRegistration registration0]) @ [ReserveDelivery delivery1]) checkpoint2"
  by (rule gateway_run.committed [OF checkpoint1_run]) (simp add: commit_command_def delivery1_reserved)

lemmas checkpoint2_valid =
  conjunct1 [OF run_valid [OF checkpoint2_run empty_checkpoint_valid]]
  conjunct2 [OF run_valid [OF checkpoint2_run empty_checkpoint_valid]]

lemma checkpoint2_free: "owner checkpoint2 ''new'' = None"
  by code_simp

lemma cfg0_valid: "validate_config cfg0 = Inr ()"
  by code_simp

lemma delivery1_content: "sha256_hex pad_sha ''V'' = po_content_sha256 delivery1"
  by code_simp

end
