(* ===== verification/Gateway_Delivery.thy ===== *)
theory Gateway_Delivery
  imports Gateway_Run
begin

text \<open>
  The life of a delivery: what \<open>prepare_drive_output\<close> guarantees, and that reserving it, and then
  committing the created file, succeeds.
\<close>

definition with_reservation :: "gateway_checkpoint \<Rightarrow> prepared_drive_output \<Rightarrow> gateway_checkpoint" where
  "with_reservation c p =
     c\<lparr>ck_pending_outputs := bm_insert (po_delivery_id p) p (ck_pending_outputs c)\<rparr>"

lemma with_reservation_ok:
  assumes wf: "checkpoint_wf c" and valid: "validate_checkpoint c = Inr ()"
    and "bm_get (ck_delivered c) (po_delivery_id p) = None"
    and "pending_output_ok c (po_delivery_id p) p"
  shows "checkpoint_wf (with_reservation c p)" and "validate_checkpoint (with_reservation c p) = Inr ()"
proof -
  let ?c = "with_reservation c p"
  show wf': "checkpoint_wf ?c" using wf by (simp add: checkpoint_wf_def with_reservation_def)
  note ok = checkpoint_okD(1) [OF wf valid]
  have get: "bm_get (ck_pending_outputs ?c) i = Some q \<longleftrightarrow>
      (if i = po_delivery_id p then q = p else bm_get (ck_pending_outputs c) i = Some q)" for i q
    by (auto simp: with_reservation_def)
  have same: "pending_output_ok ?c = pending_output_ok c" "ck_delivered ?c = ck_delivered c"
    "ck_documents ?c = ck_documents c" "ck_accepted ?c = ck_accepted c"
    "ck_frontiers ?c = ck_frontiers c" "ck_pending_inputs ?c = ck_pending_inputs c"
    "ck_processed_drive_events ?c = ck_processed_drive_events c"
    "ck_schema_version ?c = ck_schema_version c"
    by (auto simp: with_reservation_def pending_output_ok_def fun_eq_iff)
  have "outputs_ok c" using ok by (simp add: checkpoint_ok_def)
  then have "outputs_ok ?c"
    using assms(3,4) unfolding outputs_ok_def get same by metis
  moreover have "pending_input_ok ?c = pending_input_ok c"
    by (rule ext) (simp only: pending_input_ok_def same)
  ultimately have "checkpoint_ok ?c"
    using ok by (simp only: checkpoint_ok_def files_ok_def inputs_ok_def same) blast
  then show "validate_checkpoint ?c = Inr ()" using validate_checkpoint_iff [OF wf'] by simp
qed

text \<open>An additional processed event does not invalidate a checkpoint.\<close>

lemma processed_more_ok:
  assumes "checkpoint_ok c"
  shows "checkpoint_ok (c\<lparr>ck_processed_drive_events := bs_insert e (ck_processed_drive_events c)\<rparr>)"
    (is "checkpoint_ok ?c")
proof -
  have same: "pending_input_ok ?c = pending_input_ok c" "pending_output_ok ?c = pending_output_ok c"
    "ck_documents ?c = ck_documents c" "ck_accepted ?c = ck_accepted c"
    "ck_frontiers ?c = ck_frontiers c" "ck_pending_inputs ?c = ck_pending_inputs c"
    "ck_pending_outputs ?c = ck_pending_outputs c" "ck_delivered ?c = ck_delivered c"
    "ck_schema_version ?c = ck_schema_version c"
    by (simp_all add: fun_eq_iff pending_input_ok_def pending_output_ok_def)
  have "set (ck_processed_drive_events c) \<subseteq> set (ck_processed_drive_events ?c)" by auto
  then have "inputs_ok ?c"
    using checkpoint_ok_inputs [OF assms] unfolding inputs_ok_def same by blast
  moreover have "outputs_ok ?c = outputs_ok c" "files_ok ?c = files_ok c"
    by (simp_all only: outputs_ok_def files_ok_def same)
  ultimately show ?thesis using assms by (simp add: checkpoint_ok_def)
qed

lemma drive_id_visible:
  assumes "validate_drive_id label v = Inr ()"
  shows "\<not> blank v"
proof (cases v)
  case Nil
  with assms show ?thesis by (simp add: validate_drive_id_def)
next
  case (Cons c rest)
  with assms have "is_alphanumeric c \<or> c = CHR ''-'' \<or> c = CHR ''_''"
    by (simp add: validate_drive_id_def split: if_splits)
  moreover have "32 < byte (CHR ''-'')" "byte (CHR ''-'') < 128" "32 < byte (CHR ''_'')" "byte (CHR ''_'') < 128"
    by (simp_all add: byte_def)
  ultimately have "32 < byte c \<and> byte c < 128"
    by (auto simp: is_alphanumeric_def is_digit_def)
  with Cons show ?thesis by (simp add: blank_Cons_visible)
qed

lemma folder_visible: "validate_config cfg = Inr () \<Longrightarrow> \<not> blank (folder_id cfg side)"
  using drive_id_visible [of "''BOOX folder''" "gc_boox_folder_id cfg"]
    drive_id_visible [of "''Supernote folder''" "gc_supernote_folder_id cfg"]
  by (cases side) (auto simp: validate_config_def result_simps folder_id_def split: if_splits)

lemma device_path_visible: "device_path_ok s d path \<Longrightarrow> \<not> blank path"
  by (auto simp: device_path_ok_def prefix_def side_folder_visible)

lemma prepare_reserve_ok:
  assumes "prepare_drive_output sha cfg c out = Inr (ReserveOutput q)"
  obtains extension where "validate_config cfg = Inr ()" and "validate_checkpoint c = Inr ()"
    and "bm_has (ck_documents c) (bo_document_id out)" and "bo_gcs_generation out \<noteq> 0"
    and "length (bo_content_sha256 out) = 64" and "\<not> blank (bo_event_id out)"
    and "bm_get (ck_delivered c) (delivery_id_of sha out) = None"
    and "safe_extension (bo_file_extension out) = Inr extension"
    and "q = prepared_output sha cfg out extension"
    and "bm_get (ck_pending_outputs c) (delivery_id_of sha out) = None"
  using assms that
  by (auto simp: prepare_drive_output_def result_simps Let_def bm_has_def prepared_output_def
      split: if_splits option.splits)

lemma prepared_output_valid:
  assumes "prepare_drive_output sha cfg c out = Inr (ReserveOutput q)" and "\<not> blank f"
    and "device_path_ok (bo_target out) (bo_document_id out) (bo_gcs_object_path out)"
  shows "pending_output_ok c (po_delivery_id q) (q\<lparr>po_drive_file_id := f\<rparr>)"
  using assms(1)
proof (rule prepare_reserve_ok)
  fix extension
  assume "validate_config cfg = Inr ()" "bm_has (ck_documents c) (bo_document_id out)"
    "bo_gcs_generation out \<noteq> 0" "length (bo_content_sha256 out) = 64"
    and q: "q = prepared_output sha cfg out extension"
  moreover have "\<not> blank (output_file_name sha out extension)"
    by (simp add: output_file_name_def blank_Cons_visible byte_def)
  ultimately show ?thesis
    using assms(2,3) device_path_visible [OF assms(3)]
    by (simp add: pending_output_ok_def prepared_output_def folder_visible bm_of_list_def
        generated_by_property_def)
qed

text \<open>From the preparation to the reservation.\<close>

lemma reservation_commits:
  assumes "prepare_drive_output sha cfg c out = Inr (ReserveOutput q)" and "checkpoint_wf c"
    and "\<not> blank f" and "device_path_ok (bo_target out) (bo_document_id out) (bo_gcs_object_path out)"
  defines "p \<equiv> q\<lparr>po_drive_file_id := f\<rparr>"
  shows "reserve_drive_output c p = (with_reservation c p, Inr ())"
    and "checkpoint_wf (with_reservation c p)" and "validate_checkpoint (with_reservation c p) = Inr ()"
    and "prepare_drive_output sha cfg (with_reservation c p) out = Inr (ReconcileOutput p)"
    and "reconcile_drive_output cfg (with_reservation c p) p [] = Inr (CreateOutput p)"
proof -
  from assms(1) obtain extension where q: "validate_config cfg = Inr ()" "validate_checkpoint c = Inr ()"
      "bm_has (ck_documents c) (bo_document_id out)" "bo_gcs_generation out \<noteq> 0"
      "length (bo_content_sha256 out) = 64" "\<not> blank (bo_event_id out)"
      "bm_get (ck_delivered c) (delivery_id_of sha out) = None"
      "safe_extension (bo_file_extension out) = Inr extension"
      "q = prepared_output sha cfg out extension"
      "bm_get (ck_pending_outputs c) (delivery_id_of sha out) = None"
    by (rule prepare_reserve_ok)
  have id: "po_delivery_id p = delivery_id_of sha out" by (simp add: p_def q(9) prepared_output_def)
  have file_id: "po_drive_file_id p = f" by (simp add: p_def)
  have "pending_output_ok c (po_delivery_id p) p"
    using prepared_output_valid [OF assms(1,3,4)] by (simp add: p_def)
  with q(7) id have "bm_get (ck_delivered c) (po_delivery_id p) = None" by simp
  from with_reservation_ok [OF assms(2) q(2) this \<open>pending_output_ok c (po_delivery_id p) p\<close>]
  show wf': "checkpoint_wf (with_reservation c p)"
    and valid': "validate_checkpoint (with_reservation c p) = Inr ()" .
  show "reserve_drive_output c p = (with_reservation c p, Inr ())"
    using q(2,7,10) assms(3) valid'
    by (simp add: reserve_drive_output_def id file_id bm_has_def validated_def with_reservation_def)
  have same: "ck_documents (with_reservation c p) = ck_documents c"
    "ck_delivered (with_reservation c p) = ck_delivered c"
    "bm_get (ck_pending_outputs (with_reservation c p)) (delivery_id_of sha out) = Some p"
    by (simp_all add: with_reservation_def id)
  have "prepared_output sha cfg out extension = q" using q(9) by simp
  then show "prepare_drive_output sha cfg (with_reservation c p) out = Inr (ReconcileOutput p)"
    using q(1,3-8) valid' same id
    by (simp add: prepare_drive_output_def bm_has_def Let_def p_def)
  have "po_parent_folder_id p = folder_id cfg (po_target p)"
    by (simp add: p_def q(9) prepared_output_def)
  then show "reconcile_drive_output cfg (with_reservation c p) p [] = Inr (CreateOutput p)"
    using q(1) valid' same id by (simp add: reconcile_drive_output_def)
qed

end
