(* ===== verification/Gateway_Properties.thy ===== *)
theory Gateway_Properties
  imports Gateway_Example Gateway_Delivery
begin

text \<open>
  The properties of the Drive gateway: what its checkpoints guarantee at every moment, that its
  commits refine the abstract gateway and may be retried, that prepared work can be committed,
  and that neither a device input nor a broker output is taken in twice.
\<close>

section \<open>Checkpoints\<close>

text \<open>C17: \<open>validate\<close> accepts exactly the checkpoints in which the bindings are a function from
  files to a document and a side, precisely the bound files have an observed frontier, every
  accepted hash, pending input and delivery is about a bound file, a pending input is processed
  and raises only the revision of its own side, and no file has two pending inputs.\<close>

theorem validate_characterised:
  assumes "checkpoint_wf c"
  shows "validate_checkpoint c = Inr () \<longleftrightarrow>
    ck_schema_version c = gateway_schema_version \<and> docs_ok (ck_documents c) \<and>
    files_ok c \<and> inputs_ok c \<and> outputs_ok c"
  unfolding validate_checkpoint_iff [OF assms] checkpoint_ok_def ..

theorem validate_characterised_witness:
  "docs_ok (ck_documents checkpoint1) \<and> files_ok checkpoint1"
  using validate_characterised [of checkpoint1] checkpoint1_valid by simp

text \<open>C11: every checkpoint the gateway reaches from the empty one is valid and its containers are
  well formed; and from any reachable checkpoint on, a file stays bound to its document and
  side, a processed event stays processed, and the revisions a file was derived from never go
  back, except where a broker output is delivered to the file itself.\<close>

theorem gateway_runs_are_consistent:
  assumes "gateway_run sha empty_checkpoint cmds c" and "gateway_run sha c cmds' c'"
  shows "checkpoint_wf c' \<and> validate_checkpoint c' = Inr () \<and>
    (\<forall>f x. owner c f = Some x \<longrightarrow> owner c' f = Some x) \<and>
    set (ck_processed_drive_events c) \<subseteq> set (ck_processed_drive_events c') \<and>
    (\<forall>f r. bm_get (ck_frontiers c) f = Some r \<longrightarrow> (\<forall>p v. CommitDelivery p f v \<notin> set cmds') \<longrightarrow>
       (\<exists>r'. bm_get (ck_frontiers c') f = Some r' \<and> revisions_le r r'))"
proof -
  have c: "checkpoint_wf c" "validate_checkpoint c = Inr ()"
    using run_valid [OF assms(1) empty_checkpoint_valid] by simp_all
  show ?thesis
    using run_valid [OF assms(2) c] run_owner [OF assms(2) c] run_seen [OF assms(2) c]
      run_frontier [OF assms(2) c] by blast
qed

theorem gateway_runs_are_consistent_witness:
  "owner (commit_page_token ''t'' checkpoint1) ''f'' = Some (stable_document_id pad_sha ''P'', Boox)"
  using gateway_runs_are_consistent [OF checkpoint1_run gateway_run.token [OF gateway_run.start]]
    checkpoint1_owner by blast

section \<open>Commits\<close>

text \<open>C12: every commit that succeeds on a valid checkpoint is one step of the abstract gateway
  and leaves a valid checkpoint.\<close>

theorem gateway_commits_refine:
  assumes "commit_command sha cmd c = (c', Inr ())" and "checkpoint_wf c"
    and "validate_checkpoint c = Inr ()"
  shows "gateway_step sha cmd (abs_gateway c) (abs_gateway c') \<and>
    checkpoint_wf c' \<and> validate_checkpoint c' = Inr ()"
  using commit_refines [OF assms] commit_keeps_wf [OF assms(1,2)] commit_validated [OF assms(1)] assms(3)
  by auto

theorem gateway_commits_refine_witness:
  "gateway_step pad_sha (CommitRegistration registration0) (abs_gateway empty_checkpoint)
     (abs_gateway checkpoint1)"
  using gateway_commits_refine [of pad_sha "CommitRegistration registration0" empty_checkpoint checkpoint1]
    registration0_committed empty_checkpoint_valid by (simp add: commit_command_def)

text \<open>C13: commits are idempotent: after a commit succeeded, committing the same work again
  succeeds and leaves the checkpoint as it is, so a caller that lost the answer may retry.\<close>

theorem gateway_commits_are_idempotent:
  assumes "commit_command sha cmd c = (c', Inr ())" and "checkpoint_wf c"
    and "validate_checkpoint c = Inr ()"
  shows "commit_command sha cmd c' = (c', Inr ())"
  by (rule commit_idempotent [OF assms])

theorem gateway_commits_are_idempotent_witness:
  "commit_command pad_sha (CommitRegistration registration0) checkpoint1 = (checkpoint1, Inr ())"
  using gateway_commits_are_idempotent [of pad_sha "CommitRegistration registration0" empty_checkpoint]
    registration0_committed empty_checkpoint_valid by (simp add: commit_command_def)

section \<open>Device inputs\<close>

text \<open>C14: an upload that was prepared can be committed and then accepted.  While it is pending the
  same revision is deferred, afterwards it is a duplicate; acceptance raises exactly the
  revision of the file's side, above both the file's own frontier and the broker's.\<close>

theorem upload_lifecycle:
  assumes "prepare_drive_input sha cfg c change bs frontier = Inr (UploadInput i)"
    and "checkpoint_wf c" and "sha_digest_size sha" and "gen \<noteq> 0"
  shows "\<exists>c1 c2. commit_drive_input c i gen = (c1, Inr ()) \<and>
    prepare_drive_input sha cfg c1 change bs frontier =
      Inr (DeferredInput (fr_file_id (dc_file change)) (pr_drive_event_id i)) \<and>
    accept_drive_input c1 (pr_drive_event_id i) = (c2, Inr ()) \<and>
    bm_get (ck_frontiers c2) (fr_file_id (dc_file change)) =
      Some (rp_set (pr_source i) (pr_source_revision i) (pr_based_on i)) \<and>
    rp_get (pr_based_on i) (pr_source i) < pr_source_revision i \<and>
    rp_get frontier (pr_source i) < pr_source_revision i \<and>
    (\<forall>frontier'. prepare_drive_input sha cfg c2 change bs frontier' =
      Inr (DuplicateInput (pr_drive_event_id i)))"
proof -
  note up = prepare_upload_ok [OF assms(1)]
  let ?c1 = "with_input c i gen" and ?p = "pending_of i gen"
  let ?c2 = "with_acceptance ?c1 (pr_drive_event_id i) ?p"
  note commit = upload_commits [OF assms]
  have p: "bm_get (ck_pending_inputs ?c1) (pr_drive_event_id i) = Some ?p"
    by (simp add: with_input_def)
  note accept = acceptance_commits [OF commit(3,2) p]
  have "bm_wf (ck_pending_inputs c)" using assms(2) by (simp add: checkpoint_wf_def)
  note pending = pending_for_file_with_input [OF this up(12), of gen]
  have fields: "pn_drive_file_id ?p = fr_file_id (dc_file change)" "pn_content_sha256 ?p = sha256_hex sha bs"
    "pn_drive_event_id ?p = pr_drive_event_id i"
    using up(5,6) by (simp_all add: pending_of_def)
  have owned: "owner ?c1 (fr_file_id (dc_file change)) \<noteq> None" "owner ?c2 (fr_file_id (dc_file change)) \<noteq> None"
    using up(5,9) by (simp_all add: with_acceptance_def with_input_def)
  have "prepare_drive_input sha cfg ?c1 change bs frontier =
      Inr (DeferredInput (fr_file_id (dc_file change)) (pr_drive_event_id i))"
    using pending_bytes_deferred [OF up(1) commit(2) up(3,4) owned(1)] pending up(5) fields(3) by simp
  moreover have "pending_for_file ?c2 (fr_file_id (dc_file change)) = None"
    using pending_for_file_accepted [OF commit(3) checkpoint_okD(1) [OF commit(3,2)] p] fields(1) by simp
  then have "prepare_drive_input sha cfg ?c2 change bs frontier' =
      Inr (DuplicateInput (pr_drive_event_id i))" for frontier'
    using known_bytes_duplicate [OF up(1) accept(2) up(3,4) owned(2)] fields up(7)
    by (simp add: with_acceptance_def)
  moreover have "bm_get (ck_frontiers ?c2) (fr_file_id (dc_file change)) =
      Some (rp_set (pr_source i) (pr_source_revision i) (pr_based_on i))"
    using fields(1) by (simp add: with_acceptance_def pending_of_def)
  ultimately show ?thesis
    using commit(1) accept(1) next_source_revision_ok [OF up(11)] by blast
qed

theorem upload_lifecycle_witness:
  "\<exists>c1. commit_drive_input checkpoint1 input1 9 = (c1, Inr ())"
  using upload_lifecycle [OF input1_prepared conjunct1 [OF checkpoint1_valid] pad_sha_size, of 9] by auto

text \<open>Rejecting an upload leaves no trace but its event: every file, and every other
  revision of the same file, is prepared after the rejection exactly as it was before the
  upload.\<close>

theorem rejection_restores_the_gateway:
  assumes "prepare_drive_input sha cfg c change bs frontier = Inr (UploadInput i)"
    and "checkpoint_wf c" and "sha_digest_size sha" and "gen \<noteq> 0"
    and "drive_event_id sha change' bs' \<noteq> pr_drive_event_id i"
  shows "\<exists>c1 c2. commit_drive_input c i gen = (c1, Inr ()) \<and>
    reject_drive_input c1 (pr_drive_event_id i) = (c2, Inr ()) \<and>
    ck_frontiers c2 = ck_frontiers c \<and> ck_accepted c2 = ck_accepted c \<and>
    prepare_drive_input sha cfg c2 change' bs' frontier' =
      prepare_drive_input sha cfg c change' bs' frontier'"
proof -
  note up = prepare_upload_ok [OF assms(1)]
  let ?c1 = "with_input c i gen"
  let ?c2 = "c\<lparr>ck_processed_drive_events := bs_insert (pr_drive_event_id i) (ck_processed_drive_events c)\<rparr>"
  note commit = upload_commits [OF assms(1-4)]
  have wf: "bm_wf (ck_pending_inputs c)" using assms(2) by (simp add: checkpoint_wf_def)
  note ok = checkpoint_okD(1) [OF assms(2) up(2)]
  have fresh: "bm_get (ck_pending_inputs c) (pr_drive_event_id i) = None"
    using inputs_okD(2) [OF checkpoint_ok_inputs [OF ok]] up(13)
    by (cases "bm_get (ck_pending_inputs c) (pr_drive_event_id i)") auto
  have removed: "?c1\<lparr>ck_pending_inputs := bm_remove (pr_drive_event_id i) (ck_pending_inputs ?c1)\<rparr> = ?c2"
    using bm.del_put [OF wf fresh] by (simp add: with_input_def)
  have wf2: "checkpoint_wf ?c2" using assms(2) by (simp add: checkpoint_wf_def)
  have "checkpoint_ok ?c2" by (rule processed_more_ok [OF ok])
  then have valid2: "validate_checkpoint ?c2 = Inr ()" using validate_checkpoint_iff [OF wf2] by simp
  have "reject_drive_input ?c1 (pr_drive_event_id i) = (?c2, Inr ())"
    using commit(2) valid2 removed by (simp add: reject_drive_input_ok)
  moreover have "prepare_drive_input sha cfg ?c2 change' bs' frontier' =
      prepare_drive_input sha cfg c change' bs' frontier'"
    using assms(5) up(2) valid2
    by (simp add: prepare_drive_input_def binding_for_file_def pending_for_file_def Let_def
        prepare_upload_def drive_event_id_def cong: option.case_cong if_cong)
  ultimately show ?thesis using commit(1) by (intro exI [of _ ?c1] exI [of _ ?c2]) simp
qed

theorem rejection_restores_the_gateway_witness:
  "\<exists>c1 c2. commit_drive_input checkpoint1 input1 9 = (c1, Inr ()) \<and>
     reject_drive_input c1 (pr_drive_event_id input1) = (c2, Inr ()) \<and>
     ck_frontiers c2 = ck_frontiers checkpoint1 \<and> ck_accepted c2 = ck_accepted checkpoint1 \<and>
     prepare_drive_input pad_sha cfg0 c2 (pdf_file ''f'' 3) ''R'' default_revisions =
       prepare_drive_input pad_sha cfg0 checkpoint1 (pdf_file ''f'' 3) ''R'' default_revisions"
  by (rule rejection_restores_the_gateway
      [OF input1_prepared conjunct1 [OF checkpoint1_valid] pad_sha_size _ other_event]) simp

section \<open>Broker outputs\<close>

text \<open>C15: a broker output prepared for a file identifier that is free can be reserved, created and
  committed; between reservation and commit a retry finds the reservation again and creates
  only where no file exists yet; after the commit every retry is a duplicate.\<close>

theorem delivery_lifecycle:
  assumes "prepare_drive_output sha cfg c out = Inr (ReserveOutput q)" and "checkpoint_wf c"
    and "\<not> blank f" and "owner c f = None" and "v \<noteq> 0"
    and "device_path_ok (bo_target out) (bo_document_id out) (bo_gcs_object_path out)"
    and "is_sha256_text (bo_content_sha256 out)"
  shows "\<exists>p c1 c2. p = q\<lparr>po_drive_file_id := f\<rparr> \<and>
    reserve_drive_output c p = (c1, Inr ()) \<and>
    prepare_drive_output sha cfg c1 out = Inr (ReconcileOutput p) \<and>
    reconcile_drive_output cfg c1 p [] = Inr (CreateOutput p) \<and>
    commit_drive_output sha c1 p f v = (c2, Inr ()) \<and>
    owner c2 f = Some (bo_document_id out, bo_target out) \<and>
    prepare_drive_output sha cfg c2 out = Inr (DuplicateOutput (po_delivery_id p))"
proof -
  let ?p = "q\<lparr>po_drive_file_id := f\<rparr>"
  let ?c1 = "with_reservation c ?p"
  note res = reservation_commits [OF assms(1-3,6)]
  from assms(1) obtain extension where q: "validate_config cfg = Inr ()"
      "bm_has (ck_documents c) (bo_document_id out)" "bo_gcs_generation out \<noteq> 0"
      "length (bo_content_sha256 out) = 64" "\<not> blank (bo_event_id out)"
      "q = prepared_output sha cfg out extension"
    by (rule prepare_reserve_ok)
  have sel: "po_drive_file_id ?p = f" "po_content_sha256 ?p = bo_content_sha256 out"
    "po_document_id ?p = bo_document_id out" "po_target ?p = bo_target out"
    "po_delivery_id ?p = delivery_id_of sha out"
    using q(6) by (simp_all add: prepared_output_def)
  have "bm_get (ck_pending_outputs ?c1) (po_delivery_id ?p) = Some ?p"
    by (simp add: with_reservation_def)
  moreover have free: "owner ?c1 f = None" using assms(4) by (simp add: with_reservation_def)
  ultimately obtain b where fin: "commit_drive_output sha ?c1 ?p f v = (with_delivery sha ?c1 ?p f v b, Inr ())"
      "bm_get (ck_documents ?c1) (bo_document_id out) = Some b"
      "validate_checkpoint (with_delivery sha ?c1 ?p f v b) = Inr ()"
    using delivery_commits [OF res(2,3), of ?p v sha] assms(5,7) unfolding sel by blast
  let ?c2 = "with_delivery sha ?c1 ?p f v b"
  have "owner ?c2 f = Some (bo_document_id out, bo_target out)"
    using delivery_binding(2) [OF res(2,3) disjI1 [OF free], of ?p b sha v] fin(2) unfolding sel by simp
  moreover have "prepare_drive_output sha cfg ?c2 out = Inr (DuplicateOutput (delivery_id_of sha out))"
  proof -
    have "bm_has (ck_documents ?c2) (bo_document_id out)" "bm_has (ck_delivered ?c2) (delivery_id_of sha out)"
      unfolding with_delivery_def sel by (simp_all add: bm_has_def)
    with q fin(3) show ?thesis by (simp add: prepare_drive_output_def)
  qed
  ultimately show ?thesis
    using res(1,4,5) fin(1) sel(5) by (intro exI [of _ ?p] exI [of _ ?c1] exI [of _ ?c2]) simp
qed

theorem delivery_lifecycle_witness:
  "\<exists>p c1. reserve_drive_output checkpoint1 p = (c1, Inr ()) \<and> po_drive_file_id p = ''new''"
  using delivery_lifecycle [OF delivery1_reserved(1) conjunct1 [OF checkpoint1_valid],
      of "''new''" 1, OF new_file_visible new_file_free _ output1_path output1_hash] by auto

text \<open>C16: no echo.  Once a broker output is committed to a new Drive file, the Drive
  notification of those bytes is a duplicate, whatever revision of the file reports them: the
  gateway never uploads what it delivered.\<close>

theorem delivered_output_is_not_taken_in:
  assumes "commit_drive_output sha c p f v = (c', Inr ())" and "checkpoint_wf c"
    and "validate_checkpoint c = Inr ()" and "owner c f = None"
    and "validate_config cfg = Inr ()" and "fr_file_id (dc_file change) = f"
    and "\<not> fr_trashed (dc_file change)" and "fr_size (dc_file change) = of_nat (length bs)"
    and "sha256_hex sha bs = po_content_sha256 p"
  shows "prepare_drive_input sha cfg c' change bs frontier =
    Inr (DuplicateInput (drive_event_id sha change bs))"
  using assms(1)
proof (cases rule: commit_drive_output_ok)
  case repeated
  then have "owner c f \<noteq> None"
    using checkpoint_okD(1) [OF assms(2,3)]
    by (force simp: checkpoint_ok_def outputs_ok_def delivered_of_def)
  with assms(4) show ?thesis by simp
next
  case (delivered b)
  have "owner c' f = Some (po_document_id p, po_target p)"
    using delivery_binding(2) [OF assms(2,3) disjI1 [OF assms(4)] delivered(6), of sha v] delivered(1)
    by simp
  moreover have "pending_for_file c' f = None"
    using pending_for_file_free [OF assms(2) checkpoint_okD(1) [OF assms(2,3)] assms(4)] delivered(1)
    by (simp add: pending_for_file_def with_delivery_def)
  moreover have "bm_get (ck_accepted c') f = Some (sha256_hex sha bs)"
    using delivered(1) assms(9) by (simp add: with_delivery_def)
  ultimately show ?thesis
    using known_bytes_duplicate [OF assms(5) delivered(7) assms(7,8)] assms(6) by simp
qed

theorem delivered_output_is_not_taken_in_witness:
  "prepare_drive_input pad_sha cfg0 checkpoint3 (pdf_file ''new'' 5) ''V'' default_revisions =
     Inr (DuplicateInput (drive_event_id pad_sha (pdf_file ''new'' 5) ''V''))"
  by (rule delivered_output_is_not_taken_in [OF delivery1_committed checkpoint2_valid checkpoint2_free cfg0_valid])
    (simp_all add: pdf_file_def delivery1_content)

end
