(* ===== verification/Outbox.thy ===== *)
theory Outbox
  imports Broker_Base
begin

text \<open>
  \<open>inkbridge-cloud-runtime/src/outbox.rs\<close>: \<open>CloudBrokerStorage\<close>, the broker storage over an
  object store that writes one object at a time and a store of canonical states.  A commit is
  staged as immutable payloads, reserved as the one pending commit of its document, delivered
  object by object, and only then made the active state; \<open>recover\<close> finishes a pending commit.
  The traits \<open>ObjectStore\<close> and \<open>CanonicalStateStore\<close> are the fields of \<open>cloud_ops\<close> over a state
  type that holds both stores.
\<close>

section \<open>Records\<close>

record payload_ref =
  pl_path :: string
  pl_generation :: u64
  pl_content_sha256 :: string
  pl_size :: u64

record outbox_write =
  ow_path :: string
  ow_payload :: payload_ref
  ow_metadata :: "(string, string) bmap"
  ow_precondition :: precondition

record active_state =
  ac_payload :: payload_ref
  ac_generation :: u64
  ac_metadata :: "(string, string) bmap"

record pending_commit =
  pc_commit_id :: string
  pc_document_id :: string
  pc_state_write :: outbox_write
  pc_object_writes :: "outbox_write list"
  pc_release_writes :: "outbox_write list"
  pc_delivered :: "(string, payload_ref) bmap"

record state_record =
  sr_active :: "active_state option"
  sr_pending :: "pending_commit option"
  sr_update_token :: "string option"

definition default_record :: state_record where
  "default_record = \<lparr>sr_active = None, sr_pending = None, sr_update_token = None\<rparr>"

definition is_active :: "active_state \<Rightarrow> pending_commit \<Rightarrow> bool" where
  "is_active active p \<longleftrightarrow>
     ac_payload active = ow_payload (pc_state_write p) \<and>
     ac_metadata active = ow_metadata (pc_state_write p)"

section \<open>The stores\<close>

record 'w cloud_ops =
  co_read :: "'w \<Rightarrow> string \<Rightarrow> string + stored_object option"
  co_read_generation :: "'w \<Rightarrow> string \<Rightarrow> u64 \<Rightarrow> string + stored_object option"
  co_write :: "'w \<Rightarrow> conditional_write \<Rightarrow> 'w \<times> (commit_error + stored_object)"
  co_delete :: "'w \<Rightarrow> string \<Rightarrow> u64 \<Rightarrow> 'w \<times> (string + unit)"
  co_load :: "'w \<Rightarrow> string \<Rightarrow> string + state_record"
  co_reserve :: "'w \<Rightarrow> pending_commit \<Rightarrow> 'w \<times> (string + pending_commit)"
  co_save :: "'w \<Rightarrow> pending_commit \<Rightarrow> 'w \<times> (string + unit)"
  co_finalize :: "'w \<Rightarrow> pending_commit \<Rightarrow> 'w \<times> (string + active_state)"
  co_complete :: "'w \<Rightarrow> pending_commit \<Rightarrow> 'w \<times> (string + unit)"

subsection \<open>Canonical states in memory\<close>

text \<open>A poisoned lock is not modelled: no operation panics while it holds one.\<close>

type_synonym state_memory = "(string, state_record) bmap"

definition show_precondition :: "precondition \<Rightarrow> string" where
  "show_precondition pre =
     (case pre of
        DoesNotExist \<Rightarrow> ''DoesNotExist''
      | Match g \<Rightarrow> ''Match('' @ show_u64 g @ '')'')"

definition show_generation :: "u64 option \<Rightarrow> string" where
  "show_generation g = (case g of None \<Rightarrow> ''None'' | Some n \<Rightarrow> ''Some('' @ show_u64 n @ '')'')"

definition check_state_precondition :: "active_state option \<Rightarrow> precondition \<Rightarrow> string + unit" where
  "check_state_precondition active pre =
     (let actual = map_option ac_generation active in
      if precondition_holds pre actual then Inr ()
      else Inl (''canonical state generation precondition failed: expected '' @
                show_precondition pre @ '', actual '' @ show_generation actual))"

definition ms_load :: "state_memory \<Rightarrow> string \<Rightarrow> string + state_record" where
  "ms_load m d = Inr (case bm_get m d of Some r \<Rightarrow> r | None \<Rightarrow> default_record)"

definition ms_reserve :: "state_memory \<Rightarrow> pending_commit \<Rightarrow> state_memory \<times> (string + pending_commit)" where
  "ms_reserve m p =
     (let d = pc_document_id p;
          r = (case bm_get m d of Some r \<Rightarrow> r | None \<Rightarrow> default_record);
          m1 = bm_insert d r m
      in case sr_pending r of
           Some existing \<Rightarrow>
             if pc_commit_id existing = pc_commit_id p then (m1, Inr existing)
             else (m1, Inl (''document '' @ d @ '' already has pending commit '' @
                            pc_commit_id existing))
         | None \<Rightarrow>
             (case check_state_precondition (sr_active r) (ow_precondition (pc_state_write p)) of
                Inl e \<Rightarrow> (m1, Inl e)
              | Inr _ \<Rightarrow> (bm_insert d (r\<lparr>sr_pending := Some p\<rparr>) m1, Inr p)))"

definition ms_save_pending :: "state_memory \<Rightarrow> pending_commit \<Rightarrow> state_memory \<times> (string + unit)" where
  "ms_save_pending m p =
     (case bm_get m (pc_document_id p) of
        None \<Rightarrow> (m, Inl ''pending state record disappeared'')
      | Some r \<Rightarrow>
          (case sr_pending r of
             Some existing \<Rightarrow>
               if pc_commit_id existing = pc_commit_id p
               then (bm_insert (pc_document_id p) (r\<lparr>sr_pending := Some p\<rparr>) m, Inr ())
               else (m, Inl ''pending commit changed before delivery checkpoint'')
           | None \<Rightarrow> (m, Inl ''pending commit changed before delivery checkpoint'')))"

definition all_delivered :: "outbox_write list \<Rightarrow> pending_commit \<Rightarrow> bool" where
  "all_delivered ws p \<longleftrightarrow> list_all (\<lambda>w. bm_has (pc_delivered p) (ow_path w)) ws"

definition ms_finalize :: "state_memory \<Rightarrow> pending_commit \<Rightarrow> state_memory \<times> (string + active_state)" where
  "ms_finalize m p =
     (case bm_get m (pc_document_id p) of
        None \<Rightarrow> (m, Inl ''pending state record disappeared'')
      | Some r \<Rightarrow>
          (case sr_pending r of
             None \<Rightarrow> (m, Inl ''pending commit was already cleared'')
           | Some current \<Rightarrow>
               if pc_commit_id current \<noteq> pc_commit_id p then
                 (m, Inl ''a different pending commit replaced this one'')
               else if \<not> all_delivered (pc_object_writes p) p then
                 (m, Inl ''cannot publish state before every object is delivered'')
               else
                 let activate =
                   (let generation = (case sr_active r of None \<Rightarrow> 1 | Some a \<Rightarrow> ac_generation a + 1);
                        active = \<lparr>ac_payload = ow_payload (pc_state_write p),
                                  ac_generation = generation,
                                  ac_metadata = ow_metadata (pc_state_write p)\<rparr>;
                        r' = r\<lparr>sr_active := Some active,
                               sr_pending := (if pc_release_writes p = [] then None else sr_pending r)\<rparr>
                    in (bm_insert (pc_document_id p) r' m, Inr active))
                 in (case sr_active r of
                       Some active \<Rightarrow> if is_active active p then (m, Inr active) else activate
                     | None \<Rightarrow> activate)))"

definition ms_complete :: "state_memory \<Rightarrow> pending_commit \<Rightarrow> state_memory \<times> (string + unit)" where
  "ms_complete m p =
     (case bm_get m (pc_document_id p) of
        None \<Rightarrow> (m, Inl ''pending state record disappeared'')
      | Some r \<Rightarrow>
          (case sr_pending r of
             None \<Rightarrow> (m, Inl ''pending commit disappeared before completion'')
           | Some current \<Rightarrow>
               if pc_commit_id current \<noteq> pc_commit_id p then
                 (m, Inl ''a different pending commit replaced this one'')
               else
                 (case sr_active r of
                    None \<Rightarrow> (m, Inl ''canonical state was not finalized before completion'')
                  | Some active \<Rightarrow>
                      if \<not> is_active active p \<or> \<not> all_delivered (pc_release_writes p) p then
                        (m, Inl ''cannot complete commit before every release signal is delivered'')
                      else (bm_insert (pc_document_id p) (r\<lparr>sr_pending := None\<rparr>) m, Inr ()))))"

subsection \<open>Objects in memory\<close>

text \<open>The read counters, which only the tests of the crate observe, are left out.\<close>

record object_memory =
  mo_objects :: "(string, stored_object) bmap"
  mo_versions :: "(string \<times> u64, stored_object) bmap"
  mo_next_generation :: u64
  mo_fail_after_writes :: "usize option"
  mo_successful_writes :: usize

definition empty_objects :: object_memory where
  "empty_objects =
     \<lparr>mo_objects = [], mo_versions = [], mo_next_generation = 0, mo_fail_after_writes = None,
      mo_successful_writes = 0\<rparr>"

text \<open>The step \<open>put\<close> and \<open>conditional_write\<close> share: a new generation of an object.\<close>

definition mo_store ::
    "string \<Rightarrow> bytes \<Rightarrow> (string, string) bmap \<Rightarrow> object_memory \<Rightarrow> object_memory \<times> stored_object" where
  "mo_store path bs meta m =
     (let g = mo_next_generation m + 1;
          obj = \<lparr>so_bytes = bs, so_generation = g, so_metadata = meta\<rparr>
      in (m\<lparr>mo_next_generation := g,
            mo_objects := bm_insert path obj (mo_objects m),
            mo_versions := bm_insert (path, g) obj (mo_versions m)\<rparr>, obj))"

definition mo_put :: "string \<Rightarrow> bytes \<Rightarrow> object_memory \<Rightarrow> object_memory \<times> stored_object" where
  "mo_put path bs m = mo_store path bs [] m"

definition mo_fail_after :: "usize \<Rightarrow> object_memory \<Rightarrow> object_memory" where
  "mo_fail_after n m = m\<lparr>mo_fail_after_writes := Some n, mo_successful_writes := 0\<rparr>"

definition mo_clear_failure :: "object_memory \<Rightarrow> object_memory" where
  "mo_clear_failure m = m\<lparr>mo_fail_after_writes := None\<rparr>"

definition mo_conditional_write ::
    "object_memory \<Rightarrow> conditional_write \<Rightarrow> object_memory \<times> (commit_error + stored_object)" where
  "mo_conditional_write m w =
     (if (case mo_fail_after_writes m of Some limit \<Rightarrow> limit \<le> mo_successful_writes m | None \<Rightarrow> False)
      then (m, Inl (OtherCommitError ''injected object delivery failure''))
      else
        let actual = map_option so_generation (bm_get (mo_objects m) (cw_path w)) in
        if \<not> precondition_holds (cw_precondition w) actual then
          (m, Inl (PreconditionFailed (cw_path w) (cw_precondition w) actual))
        else
          let (m', obj) = mo_store (cw_path w) (cw_bytes w) (cw_metadata w)
                            (m\<lparr>mo_successful_writes := mo_successful_writes m + 1\<rparr>)
          in (m', Inr obj))"

definition mo_delete_generation :: "object_memory \<Rightarrow> string \<Rightarrow> u64 \<Rightarrow> object_memory \<times> (string + unit)" where
  "mo_delete_generation m path generation =
     (m\<lparr>mo_objects :=
          (case bm_get (mo_objects m) path of
             Some obj \<Rightarrow> if so_generation obj = generation then bm_remove path (mo_objects m)
                         else mo_objects m
           | None \<Rightarrow> mo_objects m),
        mo_versions := bm_remove (path, generation) (mo_versions m)\<rparr>, Inr ())"

text \<open>Both memory stores as one provider of the traits.\<close>

type_synonym cloud_memory = "object_memory \<times> state_memory"

definition on_objects :: "(object_memory \<times> 'r) \<Rightarrow> state_memory \<Rightarrow> cloud_memory \<times> 'r" where
  "on_objects r states = ((fst r, states), snd r)"

definition on_states :: "object_memory \<Rightarrow> (state_memory \<times> 'r) \<Rightarrow> cloud_memory \<times> 'r" where
  "on_states objects r = ((objects, fst r), snd r)"

definition memory_cloud :: "cloud_memory cloud_ops" where
  "memory_cloud =
     \<lparr>co_read = (\<lambda>(os, _) path. Inr (bm_get (mo_objects os) path)),
      co_read_generation = (\<lambda>(os, _) path g. Inr (bm_get (mo_versions os) (path, g))),
      co_write = (\<lambda>(os, ss) w. on_objects (mo_conditional_write os w) ss),
      co_delete = (\<lambda>(os, ss) path g. on_objects (mo_delete_generation os path g) ss),
      co_load = (\<lambda>(_, ss) d. ms_load ss d),
      co_reserve = (\<lambda>(os, ss) p. on_states os (ms_reserve ss p)),
      co_save = (\<lambda>(os, ss) p. on_states os (ms_save_pending ss p)),
      co_finalize = (\<lambda>(os, ss) p. on_states os (ms_finalize ss p)),
      co_complete = (\<lambda>(os, ss) p. on_states os (ms_complete ss p))\<rparr>"

section \<open>Commit identities\<close>

definition u64_to_be_bytes :: "u64 \<Rightarrow> bytes" where
  "u64_to_be_bytes n = map (\<lambda>i. char_of (uint (drop_bit (8 * i) n) mod 256)) [7, 6, 5, 4, 3, 2, 1, 0]"

definition hash_field :: "bytes \<Rightarrow> bytes" where
  "hash_field bs = u64_to_be_bytes (of_nat (length bs)) @ bs"

definition hash_precondition :: "precondition \<Rightarrow> bytes" where
  "hash_precondition pre =
     (case pre of DoesNotExist \<Rightarrow> [CHR 0x00] | Match g \<Rightarrow> CHR 0x01 # u64_to_be_bytes g)"

definition hash_write :: "conditional_write \<Rightarrow> bytes" where
  "hash_write w =
     hash_field (cw_path w) @ hash_precondition (cw_precondition w) @
     u64_to_be_bytes (of_nat (length (cw_metadata w))) @
     concat (map (\<lambda>(key, v). hash_field key @ hash_field v) (cw_metadata w)) @
     hash_field (cw_bytes w)"

text \<open>\<open>Digest::update\<close> feeds the concatenation of its arguments to the hash.\<close>

definition commit_id_input :: "string \<Rightarrow> conditional_write \<Rightarrow> conditional_write list \<Rightarrow> bytes" where
  "commit_id_input document_id sw object_writes =
     hash_field document_id @ hash_write sw @ u64_to_be_bytes (of_nat (length object_writes)) @
     concat (map hash_write object_writes)"

definition commit_id :: "sha \<Rightarrow> string \<Rightarrow> conditional_write \<Rightarrow> conditional_write list \<Rightarrow> string" where
  "commit_id sha document_id sw object_writes =
     ''commit-'' @ hex_lower (sha (commit_id_input document_id sw object_writes))"

definition is_post_finalize_release :: "conditional_write \<Rightarrow> bool" where
  "is_post_finalize_release w \<longleftrightarrow>
     prefix ''Conflicts/'' (cw_path w) \<and> suffix ''/resolution.json'' (cw_path w) \<and>
     bm_get (cw_metadata w) ''inkbridge-kind'' = Some ''conflict-resolution''"

definition document_id_from_state_path :: "string \<Rightarrow> string option" where
  "document_id_from_state_path path =
     Option.bind (strip_prefix ''Canonical/'' path) (\<lambda>rest.
     Option.bind (strip_suffix ''/state.json'' rest) (\<lambda>document_id.
       if document_id \<noteq> [] \<and> state_path document_id = path then Some document_id else None))"

definition is_state_path :: "string \<Rightarrow> bool" where
  "is_state_path path \<longleftrightarrow> document_id_from_state_path path \<noteq> None"

section \<open>Payloads\<close>

definition read_payload ::
    "'w cloud_ops \<Rightarrow> sha \<Rightarrow> 'w \<Rightarrow> payload_ref \<Rightarrow> commit_error + bytes" where
  "read_payload ops sha w payload =
     rbind (map_err OtherCommitError
              (co_read_generation ops w (pl_path payload) (pl_generation payload))) (\<lambda>found.
     rbind (ok_or (OtherCommitError (''outbox payload '' @ pl_path payload @ '' disappeared'')) found)
       (\<lambda>obj.
        if so_generation obj \<noteq> pl_generation payload \<or>
           sha256_hex sha (so_bytes obj) \<noteq> pl_content_sha256 payload \<or>
           of_nat (length (so_bytes obj)) \<noteq> pl_size payload then
          Inl (OtherCommitError (''outbox payload '' @ pl_path payload @
                                 '' failed its immutable generation/hash check''))
        else Inr (so_bytes obj)))"

definition materialize_write :: "outbox_write \<Rightarrow> bytes \<Rightarrow> conditional_write" where
  "materialize_write w bs =
     \<lparr>cw_path = ow_path w, cw_bytes = bs, cw_metadata = ow_metadata w,
      cw_precondition = ow_precondition w\<rparr>"

definition show_index :: "nat \<Rightarrow> string" where
  "show_index i = (let s = show_int (int i) in replicate (4 - length s) (CHR ''0'') @ s)"

definition payload_path :: "string \<Rightarrow> string \<Rightarrow> nat \<Rightarrow> bool \<Rightarrow> string" where
  "payload_path document_id cid index is_state =
     (if is_state then ''Canonical/'' @ document_id @ ''/states/'' @ cid @ ''.json''
      else ''BrokerOutbox/'' @ document_id @ ''/'' @ cid @ ''/'' @ show_index index @ ''.payload'')"

definition payload_write :: "sha \<Rightarrow> string \<Rightarrow> string \<Rightarrow> bytes \<Rightarrow> conditional_write" where
  "payload_write sha path cid bs =
     \<lparr>cw_path = path, cw_bytes = bs,
      cw_metadata = bm_of_list
        [(''inkbridge-kind'', ''outbox-payload''), (''inkbridge-commit-id'', cid),
         (''inkbridge-content-sha256'', sha256_hex sha bs)],
      cw_precondition = DoesNotExist\<rparr>"

definition stage_payload ::
    "'w cloud_ops \<Rightarrow> sha \<Rightarrow> 'w \<Rightarrow> string \<Rightarrow> string \<Rightarrow> nat \<Rightarrow> conditional_write \<Rightarrow> bool \<Rightarrow>
       'w \<times> (commit_error + outbox_write)" where
  "stage_payload ops sha w document_id cid index cw is_state =
     (let pw = payload_write sha (payload_path document_id cid index is_state) cid (cw_bytes cw) in
      and_then
        (attempt w (map_err OtherCommitError (co_read ops w (cw_path pw))) (\<lambda>found.
           case found of
             Some existing \<Rightarrow>
               if so_bytes existing = cw_bytes pw \<and> so_metadata existing = cw_metadata pw
               then (w, Inr existing)
               else (w, Inl (PreconditionFailed (cw_path pw) DoesNotExist
                               (Some (so_generation existing))))
           | None \<Rightarrow> co_write ops w pw))
        (\<lambda>w' payload.
           (w', Inr \<lparr>ow_path = cw_path cw,
                     ow_payload = \<lparr>pl_path = cw_path pw, pl_generation = so_generation payload,
                                   pl_content_sha256 = sha256_hex sha (cw_bytes cw),
                                   pl_size = of_nat (length (so_bytes payload))\<rparr>,
                     ow_metadata = cw_metadata cw,
                     ow_precondition = cw_precondition cw\<rparr>)))"

section \<open>Delivery\<close>

definition delivered_ref :: "sha \<Rightarrow> outbox_write \<Rightarrow> stored_object \<Rightarrow> payload_ref" where
  "delivered_ref sha ow obj =
     \<lparr>pl_path = ow_path ow, pl_generation = so_generation obj,
      pl_content_sha256 = sha256_hex sha (so_bytes obj), pl_size = of_nat (length (so_bytes obj))\<rparr>"

definition place_object ::
    "'w cloud_ops \<Rightarrow> 'w \<Rightarrow> pending_commit \<Rightarrow> outbox_write \<Rightarrow> bytes \<Rightarrow>
       'w \<times> (commit_error + stored_object)" where
  "place_object ops w p ow bs =
     attempt w (map_err OtherCommitError (co_read ops w (ow_path ow))) (\<lambda>found.
     case bm_get (pc_delivered p) (ow_path ow) of
       Some delivered \<Rightarrow>
         attempt w (ok_or (OtherCommitError (''delivered object '' @ ow_path ow @ '' disappeared'')) found)
           (\<lambda>current.
            if so_generation current \<noteq> pl_generation delivered \<or> so_bytes current \<noteq> bs \<or>
               so_metadata current \<noteq> ow_metadata ow then
              (w, Inl (OtherCommitError (''delivered object '' @ ow_path ow @
                                         '' changed before outbox finalization'')))
            else (w, Inr current))
     | None \<Rightarrow>
         (case found of
            Some current \<Rightarrow>
              if so_bytes current = bs \<and> so_metadata current = ow_metadata ow
              then (w, Inr current)
              else co_write ops w (materialize_write ow bs)
          | None \<Rightarrow> co_write ops w (materialize_write ow bs)))"

definition deliver_write ::
    "'w cloud_ops \<Rightarrow> sha \<Rightarrow> 'w \<Rightarrow> pending_commit \<Rightarrow> outbox_write \<Rightarrow>
       'w \<times> (commit_error + pending_commit \<times> stored_object)" where
  "deliver_write ops sha w p ow =
     attempt w (read_payload ops sha w (ow_payload ow)) (\<lambda>bs.
     and_then (place_object ops w p ow bs) (\<lambda>w1 obj.
       let p' = p\<lparr>pc_delivered := bm_insert (ow_path ow) (delivered_ref sha ow obj) (pc_delivered p)\<rparr> in
       case co_save ops w1 p' of
         (w2, Inl e) \<Rightarrow> (w2, Inl (OtherCommitError e))
       | (w2, Inr _) \<Rightarrow> (w2, Inr (p', obj))))"

fun deliver_writes ::
    "'w cloud_ops \<Rightarrow> sha \<Rightarrow> 'w \<Rightarrow> pending_commit \<Rightarrow> outbox_write list \<Rightarrow>
       'w \<times> (commit_error + pending_commit \<times> stored_object list)" where
  "deliver_writes ops sha w p [] = (w, Inr (p, []))"
| "deliver_writes ops sha w p (ow # ows) =
     and_then (deliver_write ops sha w p ow) (\<lambda>w1 (p1, obj).
     and_then (deliver_writes ops sha w1 p1 ows) (\<lambda>w2 (p2, objs). (w2, Inr (p2, obj # objs))))"

text \<open>Best-effort clean-up: errors are printed and dropped.\<close>

definition clean_up :: "'w cloud_ops \<Rightarrow> outbox_write list \<Rightarrow> 'w \<Rightarrow> 'w" where
  "clean_up ops ows w =
     fold (\<lambda>ow w. fst (co_delete ops w (pl_path (ow_payload ow)) (pl_generation (ow_payload ow)))) ows w"

definition deliver ::
    "'w cloud_ops \<Rightarrow> sha \<Rightarrow> 'w \<Rightarrow> pending_commit \<Rightarrow> bool \<Rightarrow>
       'w \<times> (commit_error + stored_object list)" where
  "deliver ops sha w p canonical_already_active =
     and_then
       (if canonical_already_active then (w, Inr (p, []))
        else deliver_writes ops sha w p (pc_object_writes p)) (\<lambda>w1 (p1, objs).
     case co_finalize ops w1 p1 of
       (w2, Inl e) \<Rightarrow> (w2, Inl (OtherCommitError e))
     | (w2, Inr _) \<Rightarrow>
         and_then (deliver_writes ops sha w2 p1 (pc_release_writes p1)) (\<lambda>w3 (p3, released).
         let finish = (\<lambda>w4. (clean_up ops (pc_object_writes p3 @ pc_release_writes p3) w4,
                             Inr (objs @ released)))
         in if pc_release_writes p3 = [] then finish w3
            else (case co_complete ops w3 p3 of
                    (w4, Inl e) \<Rightarrow> (w4, Inl (OtherCommitError e))
                  | (w4, Inr _) \<Rightarrow> finish w4)))"

text \<open>\<open>{:?}\<close> of a commit error inside the message of a failed recovery is left abstract.\<close>

definition recover ::
    "'w cloud_ops \<Rightarrow> sha \<Rightarrow> (commit_error \<Rightarrow> string) \<Rightarrow> 'w \<Rightarrow> string \<Rightarrow> 'w \<times> (string + bool)" where
  "recover ops sha show_error w document_id =
     attempt w (co_load ops w document_id) (\<lambda>r.
     case sr_pending r of
       None \<Rightarrow> (w, Inr False)
     | Some p \<Rightarrow>
         (case deliver ops sha w p
                 (case sr_active r of Some active \<Rightarrow> is_active active p | None \<Rightarrow> False) of
            (w', Inl e) \<Rightarrow> (w', Inl (''pending outbox recovery failed: '' @ show_error e))
          | (w', Inr _) \<Rightarrow> (w', Inr True)))"

section \<open>The broker storage\<close>

definition cloud_read ::
    "'w cloud_ops \<Rightarrow> sha \<Rightarrow> (commit_error \<Rightarrow> string) \<Rightarrow> 'w \<Rightarrow> string \<Rightarrow>
       string + stored_object option" where
  "cloud_read ops sha show_error w path =
     (case document_id_from_state_path path of
        Some document_id \<Rightarrow>
          rbind (co_load ops w document_id) (\<lambda>r.
          case sr_active r of
            None \<Rightarrow> Inr None
          | Some active \<Rightarrow>
              rbind (map_err show_error (read_payload ops sha w (ac_payload active))) (\<lambda>bs.
                Inr (Some \<lparr>so_bytes = bs, so_generation = ac_generation active,
                           so_metadata = ac_metadata active\<rparr>)))
      | None \<Rightarrow> co_read ops w path)"

definition cloud_read_generation ::
    "'w cloud_ops \<Rightarrow> sha \<Rightarrow> (commit_error \<Rightarrow> string) \<Rightarrow> 'w \<Rightarrow> string \<Rightarrow> u64 \<Rightarrow>
       string + stored_object option" where
  "cloud_read_generation ops sha show_error w path generation =
     (if is_state_path path then
        rbind (cloud_read ops sha show_error w path) (\<lambda>found.
          Inr (case found of
                 Some obj \<Rightarrow> if so_generation obj = generation then Some obj else None
               | None \<Rightarrow> None))
      else co_read_generation ops w path generation)"

text \<open>The check of every object write against one state of the store, before anything is
  staged.\<close>

definition check_destination ::
    "'w cloud_ops \<Rightarrow> 'w \<Rightarrow> conditional_write \<Rightarrow> commit_error + unit" where
  "check_destination ops w cw =
     rbind (map_err OtherCommitError (co_read ops w (cw_path cw))) (\<lambda>current.
       let already_delivered =
             (case current of
                Some obj \<Rightarrow> so_bytes obj = cw_bytes cw \<and> so_metadata obj = cw_metadata cw
              | None \<Rightarrow> False);
           actual = map_option so_generation current
       in if \<not> precondition_holds (cw_precondition cw) actual \<and> \<not> already_delivered then
            Inl (PreconditionFailed (cw_path cw) (cw_precondition cw) actual)
          else Inr ())"

fun stage_objects ::
    "'w cloud_ops \<Rightarrow> sha \<Rightarrow> 'w \<Rightarrow> string \<Rightarrow> string \<Rightarrow> nat \<Rightarrow> conditional_write list \<Rightarrow>
       'w \<times> (commit_error + outbox_write list \<times> outbox_write list)" where
  "stage_objects ops sha w document_id cid index [] = (w, Inr ([], []))"
| "stage_objects ops sha w document_id cid index (cw # cws) =
     and_then (stage_payload ops sha w document_id cid index cw False) (\<lambda>w1 staged.
     and_then (stage_objects ops sha w1 document_id cid (index + 1) cws) (\<lambda>w2 (objs, releases).
       (w2, Inr (if is_post_finalize_release cw then (objs, staged # releases)
                 else (staged # objs, releases)))))"

definition position :: "('a \<Rightarrow> bool) \<Rightarrow> 'a list \<Rightarrow> nat option" where
  "position P xs = (case filter (\<lambda>i. P (xs ! i)) [0..<length xs] of [] \<Rightarrow> None | i # _ \<Rightarrow> Some i)"

definition without_index :: "nat \<Rightarrow> 'a list \<Rightarrow> 'a list" where
  "without_index i xs = take i xs @ drop (i + 1) xs"

text \<open>The answer of a commit: the delivered objects are matched to the writes by position.\<close>

definition collect_objects ::
    "nat \<Rightarrow> conditional_write list \<Rightarrow> stored_object list \<Rightarrow> stored_object \<Rightarrow>
       commit_error + stored_object list" where
  "collect_objects state_index cws delivered state =
     (let by_path = bm_of_list (zip (map cw_path (without_index state_index cws)) delivered)
      in try_map (\<lambda>(index, cw).
           if index = state_index then Inr state
           else ok_or (OtherCommitError (''missing delivered object '' @ cw_path cw))
                  (bm_get by_path (cw_path cw)))
         (zip [0..<length cws] cws))"

definition cloud_commit ::
    "'w cloud_ops \<Rightarrow> sha \<Rightarrow> 'w \<Rightarrow> conditional_write list \<Rightarrow>
       'w \<times> (commit_error + stored_object list)" where
  "cloud_commit ops sha w cws =
     attempt w (ok_or (OtherCommitError ''broker commit has no canonical state write'')
                  (position (\<lambda>cw. is_state_path (cw_path cw)) cws)) (\<lambda>i.
     let sw = cws ! i; others = without_index i cws in
     if list_ex (\<lambda>cw. is_state_path (cw_path cw)) others then
       (w, Inl (OtherCommitError ''broker commit has more than one canonical state write''))
     else
       let document_id = the (document_id_from_state_path (cw_path sw)) in
       attempt w (try_each (check_destination ops w) others) (\<lambda>_.
       let cid = commit_id sha document_id sw others in
       and_then (stage_payload ops sha w document_id cid i sw True) (\<lambda>w1 staged_state.
       and_then (stage_objects ops sha w1 document_id cid 0 others) (\<lambda>w2 (objs, releases).
       case co_reserve ops w2
              \<lparr>pc_commit_id = cid, pc_document_id = document_id, pc_state_write = staged_state,
               pc_object_writes = objs, pc_release_writes = releases, pc_delivered = []\<rparr> of
         (w3, Inl e) \<Rightarrow> (w3, Inl (OtherCommitError e))
       | (w3, Inr p) \<Rightarrow>
           and_then (deliver ops sha w3 p False) (\<lambda>w4 delivered.
           attempt w4 (map_err OtherCommitError (co_load ops w4 document_id)) (\<lambda>r.
           attempt w4 (ok_or (OtherCommitError ''outbox did not publish active state'') (sr_active r))
             (\<lambda>active.
           attempt w4 (read_payload ops sha w4 (ac_payload active)) (\<lambda>bs.
             (w4, collect_objects i cws delivered
                    \<lparr>so_bytes = bs, so_generation = ac_generation active,
                     so_metadata = ac_metadata active\<rparr>)))))))))"

end
