(* ===== verification/Outbox_Stores.thy ===== *)
theory Outbox_Stores
  imports Outbox
begin

text \<open>
  The contract the outbox relies on, as the locale \<open>cloud_stores\<close>: an object store that writes
  one object at a time under a generation precondition and keeps versions, and a store of state
  records whose operations touch one record.  Operations may fail at any time without an effect,
  unless the stores are \<open>healthy\<close>; \<open>room w n\<close> says that the stores are consistent and \<open>n\<close> more
  generations fit the counter.  The memory stores of the crate, with their injected failures,
  are the provider.
\<close>

locale cloud_stores =
  fixes ops :: "'w cloud_ops"
    and healthy :: "'w \<Rightarrow> bool"
    and room :: "'w \<Rightarrow> nat \<Rightarrow> bool"
  assumes write_failed: "co_write ops w cw = (w', Inl e) \<Longrightarrow> w' = w"
    and write_object: "co_write ops w cw = (w', Inr obj) \<Longrightarrow>
      so_bytes obj = cw_bytes cw \<and> so_metadata obj = cw_metadata cw"
    and write_read: "co_write ops w cw = (w', Inr obj) \<Longrightarrow>
      co_read ops w' p = (if p = cw_path cw then Inr (Some obj) else co_read ops w p)"
    and write_versions: "co_write ops w cw = (w', Inr obj) \<Longrightarrow> room w (Suc n) \<Longrightarrow>
      co_read_generation ops w p g = Inr (Some old) \<Longrightarrow> co_read_generation ops w' p g = Inr (Some old)"
    and write_room: "co_write ops w cw = (w', Inr obj) \<Longrightarrow> room w (Suc n) \<Longrightarrow> room w' n"
    and write_load: "co_write ops w cw = (w', Inr obj) \<Longrightarrow> co_load ops w' d = co_load ops w d"
    and write_healthy: "co_write ops w cw = (w', Inr obj) \<Longrightarrow> healthy w \<Longrightarrow> healthy w'"
    and write_succeeds: "healthy w \<Longrightarrow> co_read ops w (cw_path cw) = Inr cur \<Longrightarrow>
      precondition_holds (cw_precondition cw) (map_option so_generation cur) \<Longrightarrow>
      \<exists>w' obj. co_write ops w cw = (w', Inr obj)"
    and read_version: "room w n \<Longrightarrow> co_read ops w p = Inr (Some obj) \<Longrightarrow>
      co_read_generation ops w p (so_generation obj) = Inr (Some obj)"
    and delete_read: "co_delete ops w q h = (w', r) \<Longrightarrow> p \<noteq> q \<Longrightarrow> co_read ops w' p = co_read ops w p"
    and delete_versions: "co_delete ops w q h = (w', r) \<Longrightarrow> p \<noteq> q \<Longrightarrow>
      co_read_generation ops w' p g = co_read_generation ops w p g"
    and delete_load: "co_delete ops w q h = (w', r) \<Longrightarrow> co_load ops w' d = co_load ops w d"
    and room_mono: "room w n \<Longrightarrow> k \<le> n \<Longrightarrow> room w k"
    and reserve_objects: "co_reserve ops w c = (w', r1) \<Longrightarrow> co_read ops w' = co_read ops w \<and>
      co_read_generation ops w' = co_read_generation ops w \<and> room w' = room w"
    and save_objects: "co_save ops w c = (w', r2) \<Longrightarrow> co_read ops w' = co_read ops w \<and>
      co_read_generation ops w' = co_read_generation ops w \<and> room w' = room w \<and>
      (healthy w \<longrightarrow> healthy w')"
    and finalize_objects: "co_finalize ops w c = (w', r3) \<Longrightarrow> co_read ops w' = co_read ops w \<and>
      co_read_generation ops w' = co_read_generation ops w \<and> room w' = room w \<and>
      (healthy w \<longrightarrow> healthy w')"
    and complete_objects: "co_complete ops w c = (w', r4) \<Longrightarrow> co_read ops w' = co_read ops w \<and>
      co_read_generation ops w' = co_read_generation ops w \<and> room w' = room w"
    and reserve_failed: "co_reserve ops w c = (w', Inl msg) \<Longrightarrow> co_load ops w' d = co_load ops w d"
    and save_failed: "co_save ops w c = (w', Inl msg) \<Longrightarrow> co_load ops w' d = co_load ops w d"
    and finalize_failed: "co_finalize ops w c = (w', Inl msg) \<Longrightarrow> co_load ops w' d = co_load ops w d"
    and complete_failed: "co_complete ops w c = (w', Inl msg) \<Longrightarrow> co_load ops w' d = co_load ops w d"
    and reserve_ok: "co_reserve ops w c = (w', Inr c1) \<Longrightarrow> co_load ops w (pc_document_id c) = Inr r0 \<Longrightarrow>
      sr_pending r0 = None \<Longrightarrow>
      c1 = c \<and> co_load ops w' (pc_document_id c) = Inr (r0\<lparr>sr_pending := Some c\<rparr>) \<and>
      precondition_holds (ow_precondition (pc_state_write c)) (map_option ac_generation (sr_active r0))"
    and reserve_other: "co_reserve ops w c = (w', r1) \<Longrightarrow> d \<noteq> pc_document_id c \<Longrightarrow>
      co_load ops w' d = co_load ops w d"
    and save_ok: "co_save ops w c = (w', Inr u) \<Longrightarrow> co_load ops w (pc_document_id c) = Inr r0 \<Longrightarrow>
      co_load ops w' (pc_document_id c) = Inr (r0\<lparr>sr_pending := Some c\<rparr>)"
    and save_other: "co_save ops w c = (w', r2) \<Longrightarrow> d \<noteq> pc_document_id c \<Longrightarrow>
      co_load ops w' d = co_load ops w d"
    and save_succeeds: "healthy w \<Longrightarrow> co_load ops w (pc_document_id c) = Inr r0 \<Longrightarrow>
      sr_pending r0 = Some oldc \<Longrightarrow> pc_commit_id oldc = pc_commit_id c \<Longrightarrow>
      \<exists>w'. co_save ops w c = (w', Inr ())"
    and finalize_ok: "co_finalize ops w c = (w', Inr a) \<Longrightarrow> co_load ops w (pc_document_id c) = Inr r0 \<Longrightarrow>
      all_delivered (pc_object_writes c) c \<and> is_active a c \<and>
      co_load ops w' (pc_document_id c) =
        Inr (case sr_active r0 of
          Some olda \<Rightarrow>
            if is_active olda c then r0
            else r0\<lparr>sr_active := Some a,
                   sr_pending := (if pc_release_writes c = [] then None else sr_pending r0)\<rparr>
        | None \<Rightarrow> r0\<lparr>sr_active := Some a,
                     sr_pending := (if pc_release_writes c = [] then None else sr_pending r0)\<rparr>)"
    and finalize_other: "co_finalize ops w c = (w', r3) \<Longrightarrow> d \<noteq> pc_document_id c \<Longrightarrow>
      co_load ops w' d = co_load ops w d"
    and finalize_succeeds: "healthy w \<Longrightarrow> co_load ops w (pc_document_id c) = Inr r0 \<Longrightarrow>
      sr_pending r0 = Some curc \<Longrightarrow> pc_commit_id curc = pc_commit_id c \<Longrightarrow>
      all_delivered (pc_object_writes c) c \<Longrightarrow> \<exists>w' a. co_finalize ops w c = (w', Inr a)"
    and complete_ok: "co_complete ops w c = (w', Inr u) \<Longrightarrow> co_load ops w (pc_document_id c) = Inr r0 \<Longrightarrow>
      co_load ops w' (pc_document_id c) = Inr (r0\<lparr>sr_pending := None\<rparr>)"
    and complete_other: "co_complete ops w c = (w', r4) \<Longrightarrow> d \<noteq> pc_document_id c \<Longrightarrow>
      co_load ops w' d = co_load ops w d"
    and complete_succeeds: "healthy w \<Longrightarrow> co_load ops w (pc_document_id c) = Inr r0 \<Longrightarrow>
      sr_pending r0 = Some curc \<Longrightarrow> pc_commit_id curc = pc_commit_id c \<Longrightarrow>
      sr_active r0 = Some a \<Longrightarrow> is_active a c \<Longrightarrow> all_delivered (pc_release_writes c) c \<Longrightarrow>
      \<exists>w'. co_complete ops w c = (w', Inr ())"

section \<open>The memory stores\<close>

definition memory_healthy :: "cloud_memory \<Rightarrow> bool" where
  "memory_healthy w \<longleftrightarrow> mo_fail_after_writes (fst w) = None"

definition memory_room :: "cloud_memory \<Rightarrow> nat \<Rightarrow> bool" where
  "memory_room w n \<longleftrightarrow>
     (\<forall>p obj. bm_get (mo_objects (fst w)) p = Some obj \<longrightarrow>
        bm_get (mo_versions (fst w)) (p, so_generation obj) = Some obj) \<and>
     (\<forall>p g obj. bm_get (mo_versions (fst w)) (p, g) = Some obj \<longrightarrow>
        g \<le> mo_next_generation (fst w)) \<and>
     unat (mo_next_generation (fst w)) + n < 2 ^ 64"

lemma memory_cloud_sel [simp]:
  "co_read memory_cloud w p = Inr (bm_get (mo_objects (fst w)) p)"
  "co_read_generation memory_cloud w p g = Inr (bm_get (mo_versions (fst w)) (p, g))"
  "co_write memory_cloud w cw = on_objects (mo_conditional_write (fst w) cw) (snd w)"
  "co_delete memory_cloud w p g = on_objects (mo_delete_generation (fst w) p g) (snd w)"
  "co_load memory_cloud w d = ms_load (snd w) d"
  "co_reserve memory_cloud w q = on_states (fst w) (ms_reserve (snd w) q)"
  "co_save memory_cloud w q = on_states (fst w) (ms_save_pending (snd w) q)"
  "co_finalize memory_cloud w q = on_states (fst w) (ms_finalize (snd w) q)"
  "co_complete memory_cloud w q = on_states (fst w) (ms_complete (snd w) q)"
  by (simp_all add: memory_cloud_def case_prod_unfold)

lemma on_objects_iff [simp]: "on_objects r ss = (w', x) \<longleftrightarrow> (\<exists>os. r = (os, x) \<and> w' = (os, ss))"
  by (cases r) (auto simp: on_objects_def)

lemma on_states_iff [simp]: "on_states os r = (w', x) \<longleftrightarrow> (\<exists>ss. r = (ss, x) \<and> w' = (os, ss))"
  by (cases r) (auto simp: on_states_def)

lemma mo_write_ok:
  assumes "mo_conditional_write m cw = (m', Inr obj)"
  shows "obj = \<lparr>so_bytes = cw_bytes cw, so_generation = mo_next_generation m + 1,
                so_metadata = cw_metadata cw\<rparr>"
    and "mo_objects m' = bm_insert (cw_path cw) obj (mo_objects m)"
    and "mo_versions m' = bm_insert (cw_path cw, mo_next_generation m + 1) obj (mo_versions m)"
    and "mo_next_generation m' = mo_next_generation m + 1"
    and "mo_fail_after_writes m' = mo_fail_after_writes m"
  using assms by (auto simp: mo_conditional_write_def mo_store_def Let_def split: if_splits)

lemma next_generation_fresh:
  "unat (g :: u64) + Suc n < 2 ^ 64 \<Longrightarrow> unat (g + 1) = unat g + 1 \<and> g < g + 1"
  by (auto simp: word_less_nat_alt unat_word_ariths)

lemma ms_load_insert:
  "ms_load (bm_insert d r m) d' = (if d' = d then Inr r else ms_load m d')"
  by (simp add: ms_load_def)

lemma ms_load_default:
  "ms_load (bm_insert d (case bm_get m d of Some r \<Rightarrow> r | None \<Rightarrow> default_record) m) d' = ms_load m d'"
  by (simp add: ms_load_def)

lemma memory_room_states: "memory_room (fst w, ss) = memory_room w"
  by (rule ext) (simp only: memory_room_def fst_conv)

interpretation memory: cloud_stores memory_cloud memory_healthy memory_room
proof (unfold_locales, goal_cases)
  case (1 w cw w' e)
  then show ?case
    by (cases w) (auto simp: mo_conditional_write_def Let_def split: if_splits prod.splits)
next
  case (2 w cw w' obj)
  then show ?case using mo_write_ok(1) by fastforce
next
  case (3 w cw w' obj p)
  then show ?case using mo_write_ok(2) by fastforce
next
  case (4 w cw w' obj n p g old)
  then obtain os where os: "mo_conditional_write (fst w) cw = (os, Inr obj)" "w' = (os, snd w)" by auto
  have "g \<le> mo_next_generation (fst w)"
    using 4(2,3) unfolding memory_room_def memory_cloud_sel sum.inject by blast
  moreover have "mo_next_generation (fst w) < mo_next_generation (fst w) + 1"
    using 4 next_generation_fresh unfolding memory_room_def by blast
  ultimately have "g \<noteq> mo_next_generation (fst w) + 1" by auto
  then show ?case using 4 mo_write_ok(3) [OF os(1)] os(2) by simp
next
  case (5 w cw w' obj n)
  then obtain os where os: "mo_conditional_write (fst w) cw = (os, Inr obj)" "w' = (os, snd w)" by auto
  note ok = mo_write_ok [OF os(1)]
  have room: "unat (mo_next_generation (fst w)) + Suc n < 2 ^ 64"
    and objects: "\<And>p o'. bm_get (mo_objects (fst w)) p = Some o' \<Longrightarrow>
        bm_get (mo_versions (fst w)) (p, so_generation o') = Some o'"
    and versions: "\<And>p g o'. bm_get (mo_versions (fst w)) (p, g) = Some o' \<Longrightarrow>
        g \<le> mo_next_generation (fst w)"
    using 5 unfolding memory_room_def by blast+
  note fresh = next_generation_fresh [OF room]
  have "so_generation o' \<noteq> mo_next_generation (fst w) + 1"
    if "bm_get (mo_objects (fst w)) p = Some o'" for p o'
    using versions [OF objects [OF that]] fresh by auto
  moreover have "g \<le> mo_next_generation (fst w) + 1"
    if "bm_get (mo_versions (fst w)) (p, g) = Some o'" for p g o'
    using order_trans [OF versions [OF that] less_imp_le] fresh by blast
  ultimately show ?case
    using ok os(2) objects fresh room by (auto simp: memory_room_def)
next
  case (6 w cw w' obj d)
  then show ?case by auto
next
  case (7 w cw w' obj)
  then show ?case using mo_write_ok(5) by (fastforce simp: memory_healthy_def)
next
  case (8 w cw cur)
  then show ?case
    by (auto simp: memory_healthy_def mo_conditional_write_def Let_def split: prod.splits)
next
  case (9 w n p obj)
  then show ?case by (auto simp: memory_room_def)
next
  case (10 w q h w' r p)
  then show ?case by (auto simp: mo_delete_generation_def split: option.splits)
next
  case (11 w q h w' r p g)
  then show ?case by (auto simp: mo_delete_generation_def)
next
  case (12 w q h w' r d)
  then show ?case by auto
next
  case (13 w n k)
  then show ?case by (auto simp: memory_room_def)
next
  case (14 w p w' r1)
  then show ?case by (auto simp: memory_room_states fun_eq_iff)
next
  case (15 w p w' r2)
  then show ?case by (auto simp: memory_room_states memory_healthy_def fun_eq_iff)
next
  case (16 w p w' r3)
  then show ?case by (auto simp: memory_room_states memory_healthy_def fun_eq_iff)
next
  case (17 w p w' r4)
  then show ?case by (auto simp: memory_room_states fun_eq_iff)
next
  case (18 w p w' e d)
  then show ?case
    by (auto simp: ms_reserve_def Let_def ms_load_def split: option.splits sum.splits if_splits)
next
  case (19 w p w' e d)
  then show ?case by (auto simp: ms_save_pending_def split: option.splits if_splits)
next
  case (20 w p w' e d)
  then show ?case by (auto simp: ms_finalize_def Let_def split: option.splits if_splits)
next
  case (21 w p w' e d)
  then show ?case by (auto simp: ms_complete_def split: option.splits if_splits)
next
  case (22 w p w' q r)
  then show ?case
    by (auto simp: ms_reserve_def Let_def ms_load_insert ms_load_def check_state_precondition_def
        split: option.splits if_splits)
next
  case (23 w p w' r1 d)
  then show ?case
    by (auto simp: ms_reserve_def Let_def ms_load_def split: option.splits sum.splits if_splits)
next
  case (24 w p w' u r)
  then show ?case
    by (auto simp: ms_save_pending_def ms_load_insert ms_load_def split: option.splits if_splits)
next
  case (25 w p w' r2 d)
  then show ?case by (auto simp: ms_save_pending_def ms_load_insert split: option.splits if_splits)
next
  case (26 w p r old)
  then show ?case
    by (auto simp: ms_save_pending_def ms_load_def default_record_def split: option.splits)
next
  case (27 w p w' a r)
  then show ?case
    by (auto simp: ms_finalize_def Let_def ms_load_insert ms_load_def is_active_def
        split: option.splits if_splits)
next
  case (28 w p w' r3 d)
  then show ?case
    by (auto simp: ms_finalize_def Let_def ms_load_insert split: option.splits if_splits)
next
  case (29 w p r cur)
  then show ?case
    by (auto simp: ms_finalize_def ms_load_def default_record_def Let_def split: option.splits)
next
  case (30 w p w' u r)
  then show ?case
    by (auto simp: ms_complete_def ms_load_insert ms_load_def split: option.splits if_splits)
next
  case (31 w p w' r4 d)
  then show ?case by (auto simp: ms_complete_def ms_load_insert split: option.splits if_splits)
next
  case (32 w p r cur a)
  then show ?case
    by (auto simp: ms_complete_def ms_load_def default_record_def split: option.splits)
qed

end
