(* ===== verification/Outbox_Facts.thy ===== *)
theory Outbox_Facts
  imports Outbox_Stores
begin

text \<open>
  Crash safety of the outbox over any stores that keep the contract \<open>cloud_stores\<close>.  Every
  operation may fail at every point.  \<open>recoverable\<close> is the state a failed delivery leaves: the
  pending commit is in its record, its payloads are intact, what it delivered is in place, and
  the rest can still be delivered.  \<open>published\<close> is the state a delivery ends in.  \<open>B\<close> gives the
  bytes of each staged write.
\<close>

section \<open>States of a pending commit\<close>

definition placed :: "'w cloud_ops \<Rightarrow> 'w \<Rightarrow> outbox_write \<Rightarrow> bytes \<Rightarrow> bool" where
  "placed ops w ow bs \<longleftrightarrow>
     (\<exists>obj. co_read ops w (ow_path ow) = Inr (Some obj) \<and> so_bytes obj = bs \<and>
        so_metadata obj = ow_metadata ow)"

definition deliverable ::
    "'w cloud_ops \<Rightarrow> sha \<Rightarrow> (outbox_write \<Rightarrow> bytes) \<Rightarrow> 'w \<Rightarrow> pending_commit \<Rightarrow> outbox_write \<Rightarrow> bool" where
  "deliverable ops sha B w p ow \<longleftrightarrow>
     read_payload ops sha w (ow_payload ow) = Inr (B ow) \<and>
     (case bm_get (pc_delivered p) (ow_path ow) of
        Some d \<Rightarrow>
          \<exists>obj. co_read ops w (ow_path ow) = Inr (Some obj) \<and> so_generation obj = pl_generation d \<and>
            so_bytes obj = B ow \<and> so_metadata obj = ow_metadata ow
      | None \<Rightarrow>
          \<exists>cur. co_read ops w (ow_path ow) = Inr cur \<and>
            (placed ops w ow (B ow) \<or>
             precondition_holds (ow_precondition ow) (map_option so_generation cur)))"

definition in_flight ::
    "'w cloud_ops \<Rightarrow> sha \<Rightarrow> (outbox_write \<Rightarrow> bytes) \<Rightarrow> 'w \<Rightarrow> state_record \<Rightarrow> pending_commit \<Rightarrow>
       outbox_write list \<Rightarrow> bool" where
  "in_flight ops sha B w r p W \<longleftrightarrow>
     co_load ops w (pc_document_id p) = Inr r \<and> sr_pending r = Some p \<and>
     distinct (map ow_path W) \<and> (\<forall>ow\<in>set W. deliverable ops sha B w p ow)"

definition keeps ::
    "'w cloud_ops \<Rightarrow> sha \<Rightarrow> string \<Rightarrow> string set \<Rightarrow> 'w \<Rightarrow> 'w \<Rightarrow> bool" where
  "keeps ops sha d paths w w' \<longleftrightarrow>
     (\<forall>pl bs. read_payload ops sha w pl = Inr bs \<longrightarrow> read_payload ops sha w' pl = Inr bs) \<and>
     (\<forall>q. q \<notin> paths \<longrightarrow> co_read ops w' q = co_read ops w q) \<and>
     (\<forall>d'. d' \<noteq> d \<longrightarrow> co_load ops w' d' = co_load ops w d')"

definition with_delivered :: "pending_commit \<Rightarrow> pending_commit \<Rightarrow> bool" where
  "with_delivered p p' \<longleftrightarrow> (\<exists>m. p' = p\<lparr>pc_delivered := m\<rparr>) \<and>
     dom (bm_get (pc_delivered p)) \<subseteq> dom (bm_get (pc_delivered p'))"

lemma keeps_refl [simp]: "keeps ops sha d paths w w"
  by (simp add: keeps_def)

lemma keeps_trans:
  "keeps ops sha d paths w w1 \<Longrightarrow> keeps ops sha d paths w1 w2 \<Longrightarrow> keeps ops sha d paths w w2"
  by (simp add: keeps_def)

lemma with_delivered_refl [simp]: "with_delivered p p"
  unfolding with_delivered_def by (intro conjI exI [of _ "pc_delivered p"]) simp_all

lemma with_delivered_trans: "with_delivered p p1 \<Longrightarrow> with_delivered p1 p2 \<Longrightarrow> with_delivered p p2"
  unfolding with_delivered_def by (elim conjE exE) (auto intro: order_trans)

lemma with_delivered_sel:
  assumes "with_delivered p p'"
  shows "pc_commit_id p' = pc_commit_id p" and "pc_document_id p' = pc_document_id p"
    and "pc_state_write p' = pc_state_write p" and "pc_object_writes p' = pc_object_writes p"
    and "pc_release_writes p' = pc_release_writes p"
    and "all_delivered ws p \<Longrightarrow> all_delivered ws p'"
    and "is_active a p' = is_active a p"
  using assms by (auto simp: with_delivered_def all_delivered_def list_all_iff bm_has_def is_active_def)

lemma read_payload_cong:
  "co_read_generation ops w' = co_read_generation ops w \<Longrightarrow>
     read_payload ops sha w' pl = read_payload ops sha w pl"
  by (simp add: read_payload_def)

lemma placed_cong: "co_read ops w' = co_read ops w \<Longrightarrow> placed ops w' ow bs = placed ops w ow bs"
  by (simp add: placed_def)

lemma deliverable_cong:
  "co_read ops w' = co_read ops w \<Longrightarrow> co_read_generation ops w' = co_read_generation ops w \<Longrightarrow>
     deliverable ops sha B w' p ow = deliverable ops sha B w p ow"
  by (simp add: deliverable_def read_payload_cong [of ops w' w] placed_cong [of ops w' w] cong: option.case_cong)

lemma deliverable_placed:
  "deliverable ops sha B w p ow \<Longrightarrow> bm_has (pc_delivered p) (ow_path ow) \<Longrightarrow> placed ops w ow (B ow)"
  by (auto simp: deliverable_def placed_def bm_has_def)

lemma distinct_map_unique:
  "distinct (map f xs) \<Longrightarrow> x \<in> set xs \<Longrightarrow> y \<in> set xs \<Longrightarrow> f x = f y \<Longrightarrow> x = y"
  by (metis distinct_map inj_onD)

context cloud_stores
begin

section \<open>One write\<close>

lemma write_payload:
  "co_write ops w cw = (w', Inr obj) \<Longrightarrow> room w (Suc n) \<Longrightarrow>
     read_payload ops sha w pl = Inr bs \<Longrightarrow> read_payload ops sha w' pl = Inr bs"
  unfolding read_payload_def rbind_eq_Inr_iff map_err_eq_Inr_iff ok_or_eq_Inr_iff
  using write_versions by blast

lemma place_object_effect:
  assumes "place_object ops w p ow (B ow) = (w1, res)" and "room w (Suc n)"
    and "deliverable ops sha B w p ow"
  shows "keeps ops sha d {ow_path ow} w w1" and "room w1 n" and "co_load ops w1 = co_load ops w"
    and "\<And>obj. res = Inr obj \<Longrightarrow> co_read ops w1 (ow_path ow) = Inr (Some obj) \<and> so_bytes obj = B ow \<and>
      so_metadata obj = ow_metadata ow \<and>
      (\<forall>dl. bm_get (pc_delivered p) (ow_path ow) = Some dl \<longrightarrow> so_generation obj = pl_generation dl)"
    and "\<And>e. res = Inl e \<Longrightarrow> w1 = w"
    and "healthy w \<Longrightarrow> healthy w1 \<and> (\<exists>obj. res = Inr obj)"
proof -
  let ?cw = "materialize_write ow (B ow)"
  have path: "cw_path ?cw = ow_path ow" by (simp add: materialize_write_def)
  obtain cur where cur: "co_read ops w (ow_path ow) = Inr cur"
    using assms(3) by (auto simp: deliverable_def split: option.splits)
  consider (kept) obj where "w1 = w" "res = Inr obj" "cur = Some obj" "so_bytes obj = B ow"
      "so_metadata obj = ow_metadata ow"
      "\<And>dl. bm_get (pc_delivered p) (ow_path ow) = Some dl \<Longrightarrow> so_generation obj = pl_generation dl"
    | (written) "co_write ops w ?cw = (w1, res)" "bm_get (pc_delivered p) (ow_path ow) = None"
      "\<not> placed ops w ow (B ow)"
  proof (cases "bm_get (pc_delivered p) (ow_path ow)")
    case None
    then show thesis
      using assms(1) cur that
      by (auto simp: place_object_def placed_def split: option.splits if_splits)
  next
    case (Some dl)
    with assms(1,3) cur that(1) show thesis
      by (auto simp: place_object_def deliverable_def)
  qed
  then have "keeps ops sha d {ow_path ow} w w1 \<and> room w1 n \<and> co_load ops w1 = co_load ops w \<and>
    (\<forall>obj. res = Inr obj \<longrightarrow> co_read ops w1 (ow_path ow) = Inr (Some obj) \<and> so_bytes obj = B ow \<and>
      so_metadata obj = ow_metadata ow \<and>
      (\<forall>dl. bm_get (pc_delivered p) (ow_path ow) = Some dl \<longrightarrow> so_generation obj = pl_generation dl)) \<and>
    (\<forall>e. res = Inl e \<longrightarrow> w1 = w) \<and> (healthy w \<longrightarrow> healthy w1 \<and> (\<exists>obj. res = Inr obj))"
  proof cases
    case kept
    then show ?thesis using cur room_mono [OF assms(2), of n] by simp
  next
    case written
    show ?thesis
    proof (cases res)
      case (Inl e)
      then have "w1 = w" using written(1) write_failed by blast
      moreover have "\<not> healthy w"
      proof
        assume "healthy w"
        moreover have "precondition_holds (cw_precondition ?cw) (map_option so_generation cur)"
          using assms(3) written cur by (auto simp: deliverable_def materialize_write_def)
        ultimately show False
          using write_succeeds [of w ?cw cur] cur written(1) Inl path by auto
      qed
      ultimately show ?thesis using Inl room_mono [OF assms(2), of n] by simp
    next
      case (Inr obj)
      with written(1) have wr: "co_write ops w ?cw = (w1, Inr obj)" by simp
      have "keeps ops sha d {ow_path ow} w w1"
        using write_read [OF wr] write_payload [OF wr assms(2)] write_load [OF wr] path
        by (auto simp: keeps_def)
      then show ?thesis
        using Inr written(2) write_read [OF wr] write_object [OF wr] write_room [OF wr assms(2)]
          write_load [OF wr] write_healthy [OF wr] path
        by (auto simp: materialize_write_def fun_eq_iff)
    qed
  qed
  then show "keeps ops sha d {ow_path ow} w w1" and "room w1 n" and "co_load ops w1 = co_load ops w"
    and "\<And>obj. res = Inr obj \<Longrightarrow> co_read ops w1 (ow_path ow) = Inr (Some obj) \<and> so_bytes obj = B ow \<and>
      so_metadata obj = ow_metadata ow \<and>
      (\<forall>dl. bm_get (pc_delivered p) (ow_path ow) = Some dl \<longrightarrow> so_generation obj = pl_generation dl)"
    and "\<And>e. res = Inl e \<Longrightarrow> w1 = w"
    and "healthy w \<Longrightarrow> healthy w1 \<and> (\<exists>obj. res = Inr obj)"
    by blast+
qed

lemma keeps_paths: "keeps ops sha d A w w' \<Longrightarrow> A \<subseteq> B' \<Longrightarrow> keeps ops sha d B' w w'"
  by (auto simp: keeps_def)

text \<open>A write that is not the one being placed stays deliverable.\<close>

lemma deliverable_other:
  assumes "keeps ops sha d {q} w w1" and "ow_path ow \<noteq> q" and "deliverable ops sha B w p ow"
    and "bm_get (pc_delivered p') (ow_path ow) = bm_get (pc_delivered p) (ow_path ow)"
  shows "deliverable ops sha B w1 p' ow"
proof -
  have same: "co_read ops w1 (ow_path ow) = co_read ops w (ow_path ow)"
    using assms(1,2) by (simp add: keeps_def)
  have "read_payload ops sha w1 (ow_payload ow) = Inr (B ow)"
    using assms(1,3) by (simp add: keeps_def deliverable_def)
  then show ?thesis
    using assms(3,4) same by (simp add: deliverable_def placed_def cong: option.case_cong)
qed

lemma deliver_write_effect:
  assumes run: "deliver_write ops sha w p ow = (w', res)" and fl: "in_flight ops sha B w r p W"
    and ow: "ow \<in> set W" and room: "room w (Suc n)"
  shows "\<exists>p'. in_flight ops sha B w' (r\<lparr>sr_pending := Some p'\<rparr>) p' W \<and> with_delivered p p' \<and>
    keeps ops sha (pc_document_id p) (ow_path ` set W) w w' \<and> room w' n \<and>
    (\<forall>x. res = Inr x \<longrightarrow> fst x = p' \<and> bm_has (pc_delivered p') (ow_path ow)) \<and>
    (healthy w \<longrightarrow> healthy w' \<and> (\<exists>x. res = Inr x))"
proof -
  note f = fl [unfolded in_flight_def]
  have mine: "deliverable ops sha B w p ow" using f ow by blast
  then have "read_payload ops sha w (ow_payload ow) = Inr (B ow)" by (simp add: deliverable_def)
  then have run1: "and_then (place_object ops w p ow (B ow)) (\<lambda>w1 obj.
       let p' = p\<lparr>pc_delivered := bm_insert (ow_path ow) (delivered_ref sha ow obj) (pc_delivered p)\<rparr> in
       case co_save ops w1 p' of
         (w2, Inl e) \<Rightarrow> (w2, Inl (OtherCommitError e))
       | (w2, Inr _) \<Rightarrow> (w2, Inr (p', obj))) = (w', res)"
    using run by (simp add: deliver_write_def)
  have pend: "r\<lparr>sr_pending := Some p\<rparr> = r" using f by simp
  obtain w1 res1 where place: "place_object ops w p ow (B ow) = (w1, res1)" by fastforce
  note eff = place_object_effect [OF place room mine]
  have keepW: "keeps ops sha (pc_document_id p) (ow_path ` set W) w w1"
    using keeps_paths [OF eff(1)] ow by auto
  show ?thesis
  proof (cases res1)
    case (Inl e)
    then have "w' = w" "res = Inl e" using run1 place eff(5) by auto
    then show ?thesis
      using fl pend room_mono [OF room, of n] eff(6) Inl by (intro exI [of _ p]) auto
  next
    case (Inr obj)
    note obj = eff(4) [OF Inr]
    let ?p = "p\<lparr>pc_delivered := bm_insert (ow_path ow) (delivered_ref sha ow obj) (pc_delivered p)\<rparr>"
    have del: "with_delivered p ?p" unfolding with_delivered_def by auto
    have others: "deliverable ops sha B w1 q ow'"
      if "ow' \<in> set W" "ow' \<noteq> ow" "q = p \<or> q = ?p" for ow' q
    proof -
      have "ow_path ow' \<noteq> ow_path ow"
        using distinct_map_unique [of ow_path W ow' ow] f ow that(1,2) by metis
      moreover from f that(1) have "deliverable ops sha B w p ow'" by blast
      moreover have "bm_get (pc_delivered q) (ow_path ow') = bm_get (pc_delivered p) (ow_path ow')"
        using that(3) calculation(1) by auto
      ultimately show ?thesis by (rule deliverable_other [OF eff(1)])
    qed
    have "co_read ops w1 (ow_path ow) = Inr (Some obj)" using obj by simp
    moreover have pay: "read_payload ops sha w1 (ow_payload ow) = Inr (B ow)"
      using mine eff(1) by (simp add: deliverable_def keeps_def)
    ultimately have here: "deliverable ops sha B w1 p ow" "deliverable ops sha B w1 ?p ow"
      using obj
      by (cases "bm_get (pc_delivered p) (ow_path ow)";
          simp add: deliverable_def placed_def delivered_ref_def)+
    obtain w2 res2 where save: "co_save ops w1 ?p = (w2, res2)" by fastforce
    note so = save_objects [OF save]
    have load1: "co_load ops w1 (pc_document_id ?p) = Inr r" using eff(3) f by simp
    have rest: "keeps ops sha (pc_document_id p) (ow_path ` set W) w1 w2"
      if "\<And>d'. d' \<noteq> pc_document_id p \<Longrightarrow> co_load ops w2 d' = co_load ops w1 d'"
      using so that by (simp add: keeps_def read_payload_cong [of ops w2 w1])
    show ?thesis
    proof (cases res2)
      case (Inl e)
      with run1 place Inr save have w': "w' = w2" "res = Inl (OtherCommitError e)" by auto
      have loads: "co_load ops w2 d' = co_load ops w1 d'" for d'
        using save_failed save Inl by blast
      have "in_flight ops sha B w2 r p W"
        using f loads load1 others here so
        by (auto simp: in_flight_def deliverable_cong [of ops w2 w1])
      moreover have "\<not> healthy w"
      proof
        assume "healthy w"
        then have "healthy w1" using eff(6) by simp
        from save_succeeds [OF this load1, of p] f save Inl show False by auto
      qed
      ultimately show ?thesis
        using w' pend keeps_trans [OF keepW rest] loads so eff(2) by (intro exI [of _ p]) auto
    next
      case (Inr u)
      with run1 place \<open>res1 = Inr obj\<close> save have w': "w' = w2" "res = Inr (?p, obj)" by auto
      have load2: "co_load ops w2 (pc_document_id p) = Inr (r\<lparr>sr_pending := Some ?p\<rparr>)"
        using save_ok [of w1 ?p w2 u r] save Inr load1 by simp
      have others2: "co_load ops w2 d' = co_load ops w1 d'" if "d' \<noteq> pc_document_id p" for d'
        using save_other [of w1 ?p w2] save Inr that by simp
      have "in_flight ops sha B w2 (r\<lparr>sr_pending := Some ?p\<rparr>) ?p W"
        using f load2 others here so
        by (auto simp: in_flight_def deliverable_cong [of ops w2 w1])
      then show ?thesis
        using w' del keeps_trans [OF keepW rest] others2 so eff(2,6)
        by (intro exI [of _ ?p]) (auto simp: bm_has_def)
    qed
  qed
qed

lemma deliver_writes_effect:
  assumes "deliver_writes ops sha w p ows = (w', res)" and "in_flight ops sha B w r p W"
    and "set ows \<subseteq> set W" and "room w (length ows + n)"
  shows "\<exists>p'. in_flight ops sha B w' (r\<lparr>sr_pending := Some p'\<rparr>) p' W \<and> with_delivered p p' \<and>
    keeps ops sha (pc_document_id p) (ow_path ` set W) w w' \<and> room w' n \<and>
    (\<forall>x. res = Inr x \<longrightarrow> fst x = p' \<and> all_delivered ows p') \<and>
    (healthy w \<longrightarrow> healthy w' \<and> (\<exists>x. res = Inr x))"
  using assms
proof (induction ows arbitrary: w w' p r res)
  case Nil
  then have "w' = w" "res = Inr (p, [])" by simp_all
  moreover have "r\<lparr>sr_pending := Some p\<rparr> = r" using Nil by (simp add: in_flight_def)
  ultimately show ?case using Nil by (intro exI [of _ p]) (simp add: all_delivered_def)
next
  case (Cons ow ows)
  obtain w1 res1 where one: "deliver_write ops sha w p ow = (w1, res1)" by fastforce
  have "ow \<in> set W" "room w (Suc (length ows + n))" using Cons.prems(3,4) by simp_all
  from deliver_write_effect [OF one Cons.prems(2) this] obtain p1 where
    p1: "in_flight ops sha B w1 (r\<lparr>sr_pending := Some p1\<rparr>) p1 W" "with_delivered p p1"
      "keeps ops sha (pc_document_id p) (ow_path ` set W) w w1" "room w1 (length ows + n)"
      "\<forall>x. res1 = Inr x \<longrightarrow> fst x = p1 \<and> bm_has (pc_delivered p1) (ow_path ow)"
      "healthy w \<longrightarrow> healthy w1 \<and> (\<exists>x. res1 = Inr x)" by blast
  show ?case
  proof (cases res1)
    case (Inl e)
    then have "w' = w1" "res = Inl e" using Cons.prems(1) one by simp_all
    then show ?thesis
      using p1 Inl room_mono [OF p1(4), of n] by (intro exI [of _ p1]) auto
  next
    case (Inr x)
    then have x: "fst x = p1" "bm_has (pc_delivered p1) (ow_path ow)" using p1(5) by auto
    obtain w2 res2 where two: "deliver_writes ops sha w1 p1 ows = (w2, res2)" by fastforce
    have "w' = w2 \<and> (\<forall>y. res = Inr y \<longrightarrow> (\<exists>z. res2 = Inr z \<and> fst y = fst z)) \<and>
        ((\<exists>z. res2 = Inr z) \<longrightarrow> (\<exists>y. res = Inr y))"
      using Cons.prems(1) one Inr x(1) two
      by (cases res2) (auto simp: case_prod_unfold)
    moreover have sub: "set ows \<subseteq> set W" using Cons.prems(3) by simp
    obtain p2 where
      p2: "in_flight ops sha B w2 (r\<lparr>sr_pending := Some p2\<rparr>) p2 W" "with_delivered p1 p2"
        "keeps ops sha (pc_document_id p1) (ow_path ` set W) w1 w2" "room w2 n"
        "\<forall>x. res2 = Inr x \<longrightarrow> fst x = p2 \<and> all_delivered ows p2"
        "healthy w1 \<longrightarrow> healthy w2 \<and> (\<exists>x. res2 = Inr x)"
      using Cons.IH [OF two p1(1) sub p1(4)] by auto
    have "bm_has (pc_delivered p2) (ow_path ow)"
      using x(2) p2(2) unfolding with_delivered_def bm_has_def by blast
    then have "all_delivered (ow # ows) p2" if "all_delivered ows p2"
      using that by (simp add: all_delivered_def)
    moreover have "keeps ops sha (pc_document_id p) (ow_path ` set W) w w2"
      using keeps_trans [OF p1(3)] p2(3) with_delivered_sel(2) [OF p1(2)] by simp
    ultimately show ?thesis
      using p1(6) p2 with_delivered_trans [OF p1(2) p2(2)] Inr by (intro exI [of _ p2]) auto
  qed
qed

lemma clean_up_effect:
  "co_load ops (clean_up ops ows w) d = co_load ops w d \<and>
   (q \<notin> (\<lambda>ow. pl_path (ow_payload ow)) ` set ows \<longrightarrow>
      co_read ops (clean_up ops ows w) q = co_read ops w q \<and>
      co_read_generation ops (clean_up ops ows w) q g = co_read_generation ops w q g)"
proof (induction ows arbitrary: w)
  case (Cons ow ows)
  obtain w1 r1 where del: "co_delete ops w (pl_path (ow_payload ow)) (pl_generation (ow_payload ow)) = (w1, r1)"
    by fastforce
  then have "clean_up ops (ow # ows) w = clean_up ops ows w1" by (simp add: clean_up_def)
  with Cons [of w1] delete_load [OF del, of d] delete_read [OF del, of q] delete_versions [OF del, of q g]
  show ?case by simp
qed (simp add: clean_up_def)

section \<open>Delivery\<close>

end

text \<open>The writes of a commit do not touch each other or any payload.\<close>

definition commit_writes :: "pending_commit \<Rightarrow> outbox_write list" where
  "commit_writes p = pc_object_writes p @ pc_release_writes p"

definition separate :: "pending_commit \<Rightarrow> bool" where
  "separate p \<longleftrightarrow>
     distinct (map ow_path (commit_writes p)) \<and>
     (\<forall>ow\<in>set (commit_writes p). \<forall>ow'\<in>set (commit_writes p).
        ow_path ow \<noteq> pl_path (ow_payload ow')) \<and>
     (\<forall>ow\<in>set (commit_writes p). pl_path (ow_payload (pc_state_write p)) \<noteq> pl_path (ow_payload ow))"

definition state_active :: "state_record \<Rightarrow> pending_commit \<Rightarrow> bool" where
  "state_active r p \<longleftrightarrow> (case sr_active r of Some a \<Rightarrow> is_active a p | None \<Rightarrow> False)"

text \<open>\<open>A\<close> are the object writes that are still to be found in place or still to be delivered.  All
  are before the new state is active; from then on a delivery leaves the objects alone.\<close>

definition recoverable ::
    "'w cloud_ops \<Rightarrow> sha \<Rightarrow> (outbox_write \<Rightarrow> bytes) \<Rightarrow> outbox_write list \<Rightarrow> 'w \<Rightarrow> state_record \<Rightarrow>
       pending_commit \<Rightarrow> bool" where
  "recoverable ops sha B A w r p \<longleftrightarrow>
     separate p \<and>
     read_payload ops sha w (ow_payload (pc_state_write p)) = Inr (B (pc_state_write p)) \<and>
     in_flight ops sha B w r p (A @ pc_release_writes p) \<and>
     set A \<subseteq> set (pc_object_writes p) \<and>
     (if state_active r p then all_delivered (pc_object_writes p) p \<and> pc_release_writes p \<noteq> []
      else A = pc_object_writes p)"

definition published ::
    "'w cloud_ops \<Rightarrow> sha \<Rightarrow> (outbox_write \<Rightarrow> bytes) \<Rightarrow> 'w \<Rightarrow> pending_commit \<Rightarrow> outbox_write list \<Rightarrow> bool" where
  "published ops sha B w p ows \<longleftrightarrow>
     (\<exists>r a. co_load ops w (pc_document_id p) = Inr r \<and> sr_pending r = None \<and>
        sr_active r = Some a \<and> is_active a p \<and>
        read_payload ops sha w (ac_payload a) = Inr (B (pc_state_write p))) \<and>
     (\<forall>ow\<in>set ows. placed ops w ow (B ow))"

lemma separate_with_delivered: "with_delivered p p' \<Longrightarrow> separate p' = separate p"
  by (auto simp: separate_def commit_writes_def with_delivered_sel)

end
