(* ===== verification/Outbox_Delivery.thy ===== *)
theory Outbox_Delivery
  imports Outbox_Facts
begin

text \<open>
  A delivery from any recoverable state: it publishes the commit or leaves a recoverable state,
  and it publishes when the stores are healthy.
\<close>

definition release_phase ::
    "'w cloud_ops \<Rightarrow> sha \<Rightarrow> stored_object list \<Rightarrow> 'w \<Rightarrow> pending_commit \<Rightarrow>
       'w \<times> (commit_error + stored_object list)" where
  "release_phase ops sha objs w p =
     and_then (deliver_writes ops sha w p (pc_release_writes p)) (\<lambda>w3 (p3, released).
       let finish = (\<lambda>w4. (clean_up ops (pc_object_writes p3 @ pc_release_writes p3) w4,
                           Inr (objs @ released)))
       in if pc_release_writes p3 = [] then finish w3
          else (case co_complete ops w3 p3 of
                  (w4, Inl e) \<Rightarrow> (w4, Inl (OtherCommitError e))
                | (w4, Inr _) \<Rightarrow> finish w4))"

lemma deliver_phases:
  "deliver ops sha w p already =
     and_then
       (if already then (w, Inr (p, []))
        else deliver_writes ops sha w p (pc_object_writes p)) (\<lambda>w1 (p1, objs).
     case co_finalize ops w1 p1 of
       (w2, Inl e) \<Rightarrow> (w2, Inl (OtherCommitError e))
     | (w2, Inr _) \<Rightarrow> release_phase ops sha objs w2 p1)"
  unfolding deliver_def release_phase_def ..

lemma published_with_delivered:
  "with_delivered p p' \<Longrightarrow> published ops sha B w p' W = published ops sha B w p W"
  by (simp add: published_def with_delivered_sel)

lemma with_delivered_has:
  "with_delivered p p' \<Longrightarrow> bm_has (pc_delivered p) k \<Longrightarrow> bm_has (pc_delivered p') k"
  unfolding with_delivered_def bm_has_def by blast

text \<open>Nothing but the writes \<open>A\<close>, the release signals and the payloads changes.\<close>

definition untouched ::
    "'w cloud_ops \<Rightarrow> pending_commit \<Rightarrow> outbox_write list \<Rightarrow> 'w \<Rightarrow> 'w \<Rightarrow> bool" where
  "untouched ops p A w w' \<longleftrightarrow>
     (\<forall>q. q \<notin> ow_path ` set (A @ pc_release_writes p) \<longrightarrow>
        q \<notin> (\<lambda>ow. pl_path (ow_payload ow)) ` set (commit_writes p) \<longrightarrow>
        co_read ops w' q = co_read ops w q)"

context cloud_stores
begin

lemma clean_up_published:
  assumes "co_load ops w (pc_document_id p) = Inr r" and "sr_pending r = None" and "sr_active r = Some a"
    and "is_active a p" and "separate p"
    and state: "read_payload ops sha w (ow_payload (pc_state_write p)) = Inr (B (pc_state_write p))"
    and sub: "set W \<subseteq> set (commit_writes p)" and placed: "\<forall>ow\<in>set W. placed ops w ow (B ow)"
  shows "published ops sha B (clean_up ops (commit_writes p) w) p W"
proof -
  let ?w = "clean_up ops (commit_writes p) w"
  have load: "co_load ops ?w d = co_load ops w d" for d using clean_up_effect by blast
  have "pl_path (ow_payload (pc_state_write p)) \<notin> (\<lambda>ow. pl_path (ow_payload ow)) ` set (commit_writes p)"
    using assms(5) by (auto simp: separate_def)
  then have "read_payload ops sha ?w (ow_payload (pc_state_write p)) =
      read_payload ops sha w (ow_payload (pc_state_write p))"
    unfolding read_payload_def using clean_up_effect by auto
  moreover have "ac_payload a = ow_payload (pc_state_write p)"
    using assms(4) by (simp add: is_active_def)
  ultimately have active: "read_payload ops sha ?w (ac_payload a) = Inr (B (pc_state_write p))"
    using state by simp
  have "placed ops ?w ow (B ow)" if "ow \<in> set W" for ow
  proof -
    have "ow_path ow \<notin> (\<lambda>ow. pl_path (ow_payload ow)) ` set (commit_writes p)"
      using assms(5) sub that by (auto simp: separate_def)
    then show ?thesis using placed that clean_up_effect by (simp add: placed_def)
  qed
  then show ?thesis
    using assms(1-4) load active unfolding published_def by auto
qed

lemma in_flight_still:
  assumes "in_flight ops sha B w r p W" and "co_read ops w' = co_read ops w"
    and "co_read_generation ops w' = co_read_generation ops w"
    and "co_load ops w' (pc_document_id p) = Inr r'" and "sr_pending r' = Some p"
  shows "in_flight ops sha B w' r' p W"
  using assms by (simp add: in_flight_def deliverable_cong [of ops w' w])

lemma release_phase_effect:
  assumes run: "release_phase ops sha objs w p = (w', res)" and sep: "separate p"
    and load: "co_load ops w (pc_document_id p) = Inr r" and act: "sr_active r = Some a" "is_active a p"
    and state: "read_payload ops sha w (ow_payload (pc_state_write p)) = Inr (B (pc_state_write p))"
    and objs: "all_delivered (pc_object_writes p) p"
    and A: "set A \<subseteq> set (pc_object_writes p)" and dist: "distinct (map ow_path (A @ pc_release_writes p))"
    and fl: "\<forall>ow\<in>set (A @ pc_release_writes p). deliverable ops sha B w p ow"
    and pend: "sr_pending r = (if pc_release_writes p = [] then None else Some p)"
    and room: "room w (length (pc_release_writes p) + n)"
  shows "(\<forall>x. res = Inr x \<longrightarrow> published ops sha B w' p (A @ pc_release_writes p)) \<and>
    (\<forall>e. res = Inl e \<longrightarrow> (\<exists>p' r'. with_delivered p p' \<and> recoverable ops sha B A w' r' p' \<and>
       sr_active r' = Some a \<and> room w' n) \<and> (\<forall>ow\<in>set A. placed ops w' ow (B ow))) \<and>
    (healthy w \<longrightarrow> (\<exists>x. res = Inr x)) \<and> untouched ops p A w w'"
proof -
  let ?W = "A @ pc_release_writes p"
  have W: "set ?W \<subseteq> set (commit_writes p)" using A by (auto simp: commit_writes_def)
  have del: "\<forall>ow\<in>set A. bm_has (pc_delivered p) (ow_path ow)"
    using objs A by (auto simp: all_delivered_def list_all_iff)
  show ?thesis
  proof (cases "pc_release_writes p = []")
    case True
    have "published ops sha B (clean_up ops (commit_writes p) w) p ?W"
    proof (rule clean_up_published)
      show "co_load ops w (pc_document_id p) = Inr r" "sr_active r = Some a" "is_active a p"
        "separate p"
        "read_payload ops sha w (ow_payload (pc_state_write p)) = Inr (B (pc_state_write p))"
        using load act sep state by simp_all
      show "set ?W \<subseteq> set (commit_writes p)" by (rule W)
      show "sr_pending r = None" using pend True by simp
      show "\<forall>ow\<in>set ?W. placed ops w ow (B ow)"
        using W True fl(1) del deliverable_placed by fastforce
    qed
    moreover have "w' = clean_up ops (commit_writes p) w" "res = Inr (objs @ [])"
      using run True by (auto simp: release_phase_def commit_writes_def)
    ultimately show ?thesis using clean_up_effect by (auto simp: untouched_def)
  next
    case False
    then have pending: "sr_pending r = Some p" using pend by simp
    have inf: "in_flight ops sha B w r p ?W" using load pending fl dist by (simp add: in_flight_def)
    have self: "r\<lparr>sr_pending := Some p\<rparr> = r" using pending by simp
    obtain w3 res3 where rel: "deliver_writes ops sha w p (pc_release_writes p) = (w3, res3)" by fastforce
    have "set (pc_release_writes p) \<subseteq> set ?W" by simp
    from deliver_writes_effect [OF rel inf this room] obtain p3 where
      p3: "in_flight ops sha B w3 (r\<lparr>sr_pending := Some p3\<rparr>) p3 ?W" "with_delivered p p3"
        "keeps ops sha (pc_document_id p) (ow_path ` set ?W) w w3" "room w3 n"
        "\<forall>x. res3 = Inr x \<longrightarrow> fst x = p3 \<and> all_delivered (pc_release_writes p) p3"
        "healthy w \<longrightarrow> healthy w3 \<and> (\<exists>x. res3 = Inr x)" by blast
    note sel = with_delivered_sel [OF p3(2)]
    let ?r = "r\<lparr>sr_pending := Some p3\<rparr>"
    have state3: "read_payload ops sha w3 (ow_payload (pc_state_write p3)) = Inr (B (pc_state_write p3))"
      using p3(3) state sel by (simp add: keeps_def)
    have active3: "is_active a p3" using act(2) sel by simp
    have rec3: "recoverable ops sha B A w' ?r p3"
      if "in_flight ops sha B w' ?r p3 ?W" "read_payload ops sha w' (ow_payload (pc_state_write p3)) =
        Inr (B (pc_state_write p3))" for w'
      using that A sep separate_with_delivered [OF p3(2)] act(1) active3 sel False objs
      by (simp add: recoverable_def state_active_def)
    have again: "(\<exists>p' r'. with_delivered p p' \<and> recoverable ops sha B A w' r' p' \<and> sr_active r' = Some a \<and>
        room w' n) \<and> (\<forall>ow\<in>set A. placed ops w' ow (B ow))"
      if "in_flight ops sha B w' ?r p3 ?W" "read_payload ops sha w' (ow_payload (pc_state_write p3)) =
        Inr (B (pc_state_write p3))" "room w' n" for w'
    proof
      show "\<exists>p' r'. with_delivered p p' \<and> recoverable ops sha B A w' r' p' \<and> sr_active r' = Some a \<and> room w' n"
        using rec3 [OF that(1,2)] that(3) p3(2) act(1) by (intro exI [of _ p3] exI [of _ ?r]) simp
      show "\<forall>ow\<in>set A. placed ops w' ow (B ow)"
        using that(1) del with_delivered_has [OF p3(2)] deliverable_placed [of ops sha B w' p3]
        by (simp add: in_flight_def)
    qed
    have same3: "untouched ops p A w w3" using p3(3) by (auto simp: untouched_def keeps_def)
    have writes3: "commit_writes p3 = commit_writes p" using sel by (simp add: commit_writes_def)
    show ?thesis
    proof (cases res3)
      case (Inl e)
      then have "w' = w3" "res = Inl e" using run rel by (simp_all add: release_phase_def)
      then show ?thesis using again [OF p3(1) state3 p3(4)] p3(6) Inl same3 by auto
    next
      case (Inr x)
      with p3(5) have x: "fst x = p3" "all_delivered (pc_release_writes p3) p3" using sel by auto
      obtain w4 res4 where comp: "co_complete ops w3 p3 = (w4, res4)" by fastforce
      have run': "(w', res) = (case res4 of Inl e \<Rightarrow> (w4, Inl (OtherCommitError e))
          | Inr _ \<Rightarrow> (clean_up ops (commit_writes p3) w4, Inr (objs @ snd x)))"
        using run rel Inr x(1) comp False sel
        by (cases x) (auto simp: release_phase_def commit_writes_def split: sum.splits)
      note obs = complete_objects [OF comp]
      have load3: "co_load ops w3 (pc_document_id p3) = Inr ?r" using p3(1) by (simp add: in_flight_def)
      show ?thesis
      proof (cases res4)
        case (Inl msg)
        then have "in_flight ops sha B w4 ?r p3 ?W"
          using in_flight_still [OF p3(1), of w4 ?r] obs load3 complete_failed comp by simp
        moreover have "\<not> healthy w3"
          using complete_succeeds [OF _ load3, of p3 a] act(1) active3 x(2) comp Inl by auto
        ultimately show ?thesis
          using run' Inl again [of w4] state3 obs p3(4,6) read_payload_cong [of ops w4 w3] same3
          by (auto simp: untouched_def)
      next
        case (Inr u)
        let ?r4 = "?r\<lparr>sr_pending := None\<rparr>"
        have load4: "co_load ops w4 (pc_document_id p3) = Inr ?r4"
          using complete_ok [of w3 p3 w4 u ?r] comp Inr load3 by simp
        have "placed ops w4 ow (B ow)" if "ow \<in> set ?W" for ow
        proof -
          have "bm_has (pc_delivered p3) (ow_path ow)"
            using that x(2) del sel(5) with_delivered_has [OF p3(2)]
            by (auto simp: all_delivered_def list_all_iff)
          moreover have "deliverable ops sha B w3 p3 ow" using p3(1) that by (simp add: in_flight_def)
          ultimately have "placed ops w3 ow (B ow)"
            using deliverable_placed [of ops sha B w3 p3 ow] by blast
          then show ?thesis using obs placed_cong [of ops w4 w3] by simp
        qed
        then have "published ops sha B (clean_up ops (commit_writes p3) w4) p3 ?W"
          using clean_up_published [of w4 p3 ?r4 a sha B ?W] load4 active3 act(1) separate_with_delivered [OF p3(2)] sep
            state3 read_payload_cong [of ops w4 w3] obs sel W by (simp add: commit_writes_def)
        moreover have "untouched ops p A w (clean_up ops (commit_writes p3) w4)"
          using same3 obs clean_up_effect writes3 by (auto simp: untouched_def)
        ultimately show ?thesis
          using run' Inr published_with_delivered [OF p3(2), of ops sha B "clean_up ops (commit_writes p3) w4" ?W]
          by auto
      qed
    qed
  qed
qed

lemma finalized_effect:
  assumes fin: "co_finalize ops w p = (w2, Inr a)" and inf: "in_flight ops sha B w r p (commit_writes p)"
    and act: "\<not> state_active r p" and sep: "separate p"
    and state: "read_payload ops sha w (ow_payload (pc_state_write p)) = Inr (B (pc_state_write p))"
    and rel: "release_phase ops sha objs w2 p = (w', res)"
    and room: "room w (length (pc_release_writes p) + n)"
  shows "(\<forall>x. res = Inr x \<longrightarrow> published ops sha B w' p (commit_writes p)) \<and>
    (\<forall>e. res = Inl e \<longrightarrow> (\<exists>p' r'. with_delivered p p' \<and> recoverable ops sha B (pc_object_writes p) w' r' p' \<and>
       sr_active r' = Some a \<and> room w' n) \<and>
       (\<forall>ow\<in>set (pc_object_writes p). placed ops w' ow (B ow))) \<and>
    (healthy w \<longrightarrow> (\<exists>x. res = Inr x)) \<and> is_active a p"
proof -
  note obs = finalize_objects [OF fin]
  have load: "co_load ops w (pc_document_id p) = Inr r" and pend: "sr_pending r = Some p"
    using inf by (simp_all add: in_flight_def)
  note ok = finalize_ok [OF fin load]
  let ?r = "r\<lparr>sr_active := Some a, sr_pending := (if pc_release_writes p = [] then None else Some p)\<rparr>"
  have load2: "co_load ops w2 (pc_document_id p) = Inr ?r"
    using ok act pend by (auto simp: state_active_def split: option.splits)
  have del: "\<forall>ow\<in>set (pc_object_writes p). bm_has (pc_delivered p) (ow_path ow)"
    using ok by (simp add: all_delivered_def list_all_iff)
  have fl: "\<forall>ow\<in>set (commit_writes p). deliverable ops sha B w2 p ow" "distinct (map ow_path (commit_writes p))"
    using inf obs by (simp_all add: in_flight_def deliverable_cong [of ops w2 w])
  have writes: "pc_object_writes p @ pc_release_writes p = commit_writes p"
    by (simp add: commit_writes_def)
  have state2: "read_payload ops sha w2 (ow_payload (pc_state_write p)) = Inr (B (pc_state_write p))"
    using state obs read_payload_cong [of ops w2 w] by simp
  have "sr_active ?r = Some a" "is_active a p" "all_delivered (pc_object_writes p) p"
    "sr_pending ?r = (if pc_release_writes p = [] then None else Some p)"
    "room w2 (length (pc_release_writes p) + n)"
    using ok obs room by simp_all
  from release_phase_effect [where A = "pc_object_writes p" and B = B,
      OF rel sep load2 this(1,2) state2 this(3) order_refl, unfolded writes, OF fl(2,1) this(4,5)]
  show ?thesis using obs ok by blast
qed

lemma objects_phase_effect:
  assumes rec: "recoverable ops sha B (pc_object_writes p) w r p" and act: "\<not> state_active r p"
    and room: "room w (length (commit_writes p) + n)" and run: "deliver ops sha w p False = (w', res)"
  shows "(\<forall>x. res = Inr x \<longrightarrow> published ops sha B w' p (commit_writes p)) \<and>
    (\<forall>e. res = Inl e \<longrightarrow> (\<exists>p' r'. with_delivered p p' \<and> recoverable ops sha B (pc_object_writes p) w' r' p' \<and>
       (sr_active r' = sr_active r \<or>
        state_active r' p \<and> (\<forall>ow\<in>set (pc_object_writes p). placed ops w' ow (B ow))) \<and> room w' n)) \<and>
    (healthy w \<longrightarrow> (\<exists>x. res = Inr x))"
proof -
  have sep: "separate p" and state: "read_payload ops sha w (ow_payload (pc_state_write p)) = Inr (B (pc_state_write p))"
    and inf: "in_flight ops sha B w r p (commit_writes p)"
    using rec act by (simp_all add: recoverable_def commit_writes_def)
  obtain w1 res1 where objects: "deliver_writes ops sha w p (pc_object_writes p) = (w1, res1)" by fastforce
  have "set (pc_object_writes p) \<subseteq> set (commit_writes p)" by (simp add: commit_writes_def)
  moreover have "room w (length (pc_object_writes p) + (length (pc_release_writes p) + n))"
    using room by (simp add: commit_writes_def add.assoc)
  ultimately obtain p1 where
    p1: "in_flight ops sha B w1 (r\<lparr>sr_pending := Some p1\<rparr>) p1 (commit_writes p)" "with_delivered p p1"
      "keeps ops sha (pc_document_id p) (ow_path ` set (commit_writes p)) w w1"
      "room w1 (length (pc_release_writes p) + n)"
      "\<forall>x. res1 = Inr x \<longrightarrow> fst x = p1 \<and> all_delivered (pc_object_writes p) p1"
      "healthy w \<longrightarrow> healthy w1 \<and> (\<exists>x. res1 = Inr x)"
    using deliver_writes_effect [OF objects inf] by blast
  note sel = with_delivered_sel [OF p1(2)]
  let ?r = "r\<lparr>sr_pending := Some p1\<rparr>"
  have same: "commit_writes p1 = commit_writes p" using sel by (simp add: commit_writes_def)
  have act1: "\<not> state_active ?r p1"
    using act sel by (simp add: state_active_def split: option.splits)
  have state1: "read_payload ops sha w1 (ow_payload (pc_state_write p1)) = Inr (B (pc_state_write p1))"
    using p1(3) state sel by (simp add: keeps_def)
  have sep1: "separate p1" using sep separate_with_delivered [OF p1(2)] by simp
  have again: "\<exists>p' r'. with_delivered p p' \<and> recoverable ops sha B (pc_object_writes p) w' r' p' \<and>
       (sr_active r' = sr_active r \<or>
        state_active r' p \<and> (\<forall>ow\<in>set (pc_object_writes p). placed ops w' ow (B ow))) \<and> room w' n"
    if "in_flight ops sha B w' ?r p1 (commit_writes p)" "room w' n"
      "read_payload ops sha w' (ow_payload (pc_state_write p1)) = Inr (B (pc_state_write p1))" for w'
    using that p1(2) act1 sep1 same
    by (intro exI [of _ p1] exI [of _ ?r]) (simp add: recoverable_def sel commit_writes_def)
  show ?thesis
  proof (cases res1)
    case (Inl e)
    then have "w' = w1" "res = Inl e" using run objects by (simp_all add: deliver_phases)
    then show ?thesis
      using again [OF p1(1) room_mono [OF p1(4)] state1] p1(6) Inl by auto
  next
    case (Inr x)
    with p1(5) have x: "fst x = p1" "all_delivered (pc_object_writes p1) p1" using sel by auto
    obtain w2 res2 where fin: "co_finalize ops w1 p1 = (w2, res2)" by fastforce
    have run': "(w', res) = (case res2 of Inl e \<Rightarrow> (w2, Inl (OtherCommitError e))
        | Inr _ \<Rightarrow> release_phase ops sha (snd x) w2 p1)"
      using run objects Inr x(1) fin by (cases x) (auto simp: deliver_phases split: sum.splits)
    have load1: "co_load ops w1 (pc_document_id p1) = Inr ?r" using p1(1) by (simp add: in_flight_def)
    show ?thesis
    proof (cases res2)
      case (Inl msg)
      note obs = finalize_objects [OF fin]
      have "co_load ops w2 (pc_document_id p1) = Inr ?r"
        using load1 finalize_failed fin Inl by simp
      then have "in_flight ops sha B w2 ?r p1 (commit_writes p)"
        using in_flight_still [OF p1(1), of w2 ?r] obs by simp
      moreover have "\<not> healthy w1"
        using finalize_succeeds [OF _ load1, of p1] x(2) fin Inl by auto
      ultimately show ?thesis
        using run' Inl again [of w2] state1 obs room_mono [OF p1(4), of n] p1(6)
          read_payload_cong [of ops w2 w1] by auto
    next
      case (Inr a)
      obtain w3 res3 where rel: "release_phase ops sha (snd x) w2 p1 = (w3, res3)" by fastforce
      have out: "w' = w3" "res = res3" using run' Inr rel by simp_all
      have eff: "(\<forall>x. res3 = Inr x \<longrightarrow> published ops sha B w3 p1 (commit_writes p)) \<and>
          (\<forall>e. res3 = Inl e \<longrightarrow> (\<exists>p' r'. with_delivered p1 p' \<and> recoverable ops sha B (pc_object_writes p) w3 r' p' \<and>
             sr_active r' = Some a \<and> room w3 n) \<and>
             (\<forall>ow\<in>set (pc_object_writes p). placed ops w3 ow (B ow))) \<and>
          (healthy w1 \<longrightarrow> (\<exists>x. res3 = Inr x)) \<and> is_active a p1"
        using finalized_effect [of w1 p1 w2 a sha B ?r "snd x" w3 res3 n] fin Inr p1(1,4) same act1 sep1
          state1 rel sel by simp
      have "\<exists>p' r'. with_delivered p p' \<and> recoverable ops sha B (pc_object_writes p) w3 r' p' \<and>
          (sr_active r' = sr_active r \<or>
           state_active r' p \<and> (\<forall>ow\<in>set (pc_object_writes p). placed ops w3 ow (B ow))) \<and> room w3 n" if failed: "res3 = Inl e" for e
      proof -
        obtain p' r' where again: "with_delivered p1 p'" "recoverable ops sha B (pc_object_writes p) w3 r' p'"
          "sr_active r' = Some a" "room w3 n" using eff failed by blast
        moreover have "state_active r' p" using again(3) eff sel by (simp add: state_active_def)
        moreover have "\<forall>ow\<in>set (pc_object_writes p). placed ops w3 ow (B ow)" using eff failed by blast
        ultimately show ?thesis using with_delivered_trans [OF p1(2)] by blast
      qed
      moreover have "published ops sha B w3 p1 (commit_writes p) = published ops sha B w3 p (commit_writes p)"
        by (rule published_with_delivered [OF p1(2)])
      ultimately show ?thesis using eff p1(6) out Inr \<open>res1 = Inr x\<close> by (cases res3) auto
    qed
  qed
qed

text \<open>One statement for a first delivery and for a recovery.\<close>

lemma deliver_effect:
  assumes run: "deliver ops sha w p (state_active r p) = (w', res)"
    and rec: "recoverable ops sha B A w r p" and room: "room w (length (commit_writes p) + n)"
  shows "(\<forall>x. res = Inr x \<longrightarrow> published ops sha B w' p (A @ pc_release_writes p)) \<and>
    (\<forall>e. res = Inl e \<longrightarrow> (\<exists>p' r'. with_delivered p p' \<and> recoverable ops sha B A w' r' p' \<and>
       (sr_active r' = sr_active r \<or>
        state_active r' p \<and> (\<forall>ow\<in>set A. placed ops w' ow (B ow))) \<and> room w' n)) \<and>
    (healthy w \<longrightarrow> (\<exists>x. res = Inr x)) \<and> (state_active r p \<longrightarrow> untouched ops p A w w')"
proof (cases "state_active r p")
  case False
  then have "A = pc_object_writes p" using rec by (simp add: recoverable_def)
  then show ?thesis
    using objects_phase_effect [OF _ False room] rec False run by (simp add: commit_writes_def)
next
  case True
  then obtain a where a: "sr_active r = Some a" "is_active a p"
    by (auto simp: state_active_def split: option.splits)
  have sep: "separate p" and state: "read_payload ops sha w (ow_payload (pc_state_write p)) = Inr (B (pc_state_write p))"
    and inf: "in_flight ops sha B w r p (A @ pc_release_writes p)"
    and A: "set A \<subseteq> set (pc_object_writes p)"
    and objs: "all_delivered (pc_object_writes p) p" and some: "pc_release_writes p \<noteq> []"
    using rec True by (simp_all add: recoverable_def)
  have load: "co_load ops w (pc_document_id p) = Inr r" and pend: "sr_pending r = Some p"
    using inf by (simp_all add: in_flight_def)
  have self: "r\<lparr>sr_pending := Some p\<rparr> = r" using pend by simp
  have room': "room w (length (pc_release_writes p) + n)"
    by (rule room_mono [OF room]) (simp add: commit_writes_def)
  obtain w2 res2 where fin: "co_finalize ops w p = (w2, res2)" by fastforce
  note obs = finalize_objects [OF fin]
  have load2: "co_load ops w2 (pc_document_id p) = Inr r"
    using finalize_failed [of w p w2] finalize_ok [OF _ load, of w2] fin load a
    by (cases res2) auto
  have fl2: "in_flight ops sha B w2 r p (A @ pc_release_writes p)"
    using in_flight_still [OF inf] obs load2 pend by blast
  have state2: "read_payload ops sha w2 (ow_payload (pc_state_write p)) = Inr (B (pc_state_write p))"
    using state obs read_payload_cong [of ops w2 w] by simp
  show ?thesis
  proof (cases res2)
    case (Inl msg)
    then have "w' = w2" "res = Inl (OtherCommitError msg)"
      using run True fin by (simp_all add: deliver_phases)
    moreover have "recoverable ops sha B A w2 r p"
      using True sep state2 fl2 objs some A by (simp add: recoverable_def)
    moreover have "\<not> healthy w"
      using finalize_succeeds [OF _ load pend _ objs] fin Inl by auto
    moreover have "room w2 n" using obs room_mono [OF room', of n] by simp
    moreover have "untouched ops p A w w2" using obs by (simp add: untouched_def)
    ultimately show ?thesis using with_delivered_refl [of p] by blast
  next
    case (Inr a')
    then have rel: "release_phase ops sha [] w2 p = (w', res)"
      using run True fin by (simp add: deliver_phases)
    have fl: "distinct (map ow_path (A @ pc_release_writes p))"
      "\<forall>ow\<in>set (A @ pc_release_writes p). deliverable ops sha B w2 p ow"
      using fl2 by (simp_all add: in_flight_def)
    have "sr_pending r = (if pc_release_writes p = [] then None else Some p)"
      "room w2 (length (pc_release_writes p) + n)"
      using some pend obs room' by simp_all
    note eff = release_phase_effect [where B = B, OF rel sep load2 a state2 objs A fl this]
    moreover have "untouched ops p A w w'" using eff obs by (simp add: untouched_def)
    ultimately show ?thesis using a(1) obs by auto
  qed
qed

text \<open>\<open>recover\<close> finishes the pending commit of a document when the stores are healthy, and may be
  repeated whenever it fails.\<close>

lemma recover_effect:
  assumes run: "recover ops sha show_error w (pc_document_id p) = (w', res)"
    and rec: "recoverable ops sha B A w r p" and room: "room w (length (commit_writes p) + n)"
  shows "(\<forall>b. res = Inr b \<longrightarrow> b \<and> published ops sha B w' p (A @ pc_release_writes p)) \<and>
    (\<forall>e. res = Inl e \<longrightarrow> (\<exists>p' r'. with_delivered p p' \<and> recoverable ops sha B A w' r' p' \<and>
       (sr_active r' = sr_active r \<or>
        state_active r' p \<and> (\<forall>ow\<in>set A. placed ops w' ow (B ow))) \<and> room w' n)) \<and>
    (healthy w \<longrightarrow> res = Inr True) \<and> (state_active r p \<longrightarrow> untouched ops p A w w')"
proof -
  have load: "co_load ops w (pc_document_id p) = Inr r" and pend: "sr_pending r = Some p"
    using rec by (auto simp: recoverable_def in_flight_def)
  obtain w1 res1 where del: "deliver ops sha w p (state_active r p) = (w1, res1)" by fastforce
  have "w' = w1" "res = (case res1 of Inl e \<Rightarrow> Inl (''pending outbox recovery failed: '' @ show_error e)
      | Inr _ \<Rightarrow> Inr True)"
    using run load pend del by (simp_all add: recover_def state_active_def split: sum.splits)
  then show ?thesis
    using deliver_effect [OF del rec room] by (cases res1) auto
qed

end

end
