(* ===== verification/Outbox_Commit.thy ===== *)
theory Outbox_Commit
  imports Outbox_Delivery
begin

text \<open>
  The commit of the cloud storage: the staging of the payloads, the reservation and the first
  delivery.  Whatever fails, the canonical state of the document is the old one or the new one,
  the new one only when every object write is in place, and a commit that was reserved can be
  recovered.
\<close>

section \<open>Staging\<close>

text \<open>The staged write of a conditional write.\<close>

definition staged_as :: "outbox_write \<Rightarrow> conditional_write \<Rightarrow> bool" where
  "staged_as ow cw \<longleftrightarrow>
     ow_path ow = cw_path cw \<and> ow_metadata ow = cw_metadata cw \<and> ow_precondition ow = cw_precondition cw"

definition staged_in ::
    "'w cloud_ops \<Rightarrow> sha \<Rightarrow> string \<Rightarrow> string \<Rightarrow> 'w \<Rightarrow> outbox_write \<Rightarrow> conditional_write \<Rightarrow> bool" where
  "staged_in ops sha d cid w ow cw \<longleftrightarrow>
     staged_as ow cw \<and> (\<exists>j. pl_path (ow_payload ow) = payload_path d cid j False) \<and>
     read_payload ops sha w (ow_payload ow) = Inr (cw_bytes cw)"

text \<open>The paths the outbox stages payloads under; no write of a commit may use one.\<close>

definition staging_path :: "string \<Rightarrow> string \<Rightarrow> bool" where
  "staging_path d path \<longleftrightarrow>
     prefix ''BrokerOutbox/'' path \<or> prefix (''Canonical/'' @ d @ ''/states/'') path"

lemma payload_path_staging: "staging_path d (payload_path d cid i is_state)"
  by (simp add: staging_path_def payload_path_def)

lemma state_payload_path:
  "payload_path d cid i True \<noteq> payload_path d cid' j False"
  by (simp add: payload_path_def)

context cloud_stores
begin

lemma stage_payload_effect:
  assumes run: "stage_payload ops sha w d cid i cw st = (w', res)" and room: "room w (Suc n)"
  shows "keeps ops sha d' {payload_path d cid i st} w w'" and "room w' n"
    and "co_load ops w' x = co_load ops w x"
    and "\<And>ow. res = Inr ow \<Longrightarrow> staged_as ow cw \<and> pl_path (ow_payload ow) = payload_path d cid i st \<and>
      read_payload ops sha w' (ow_payload ow) = Inr (cw_bytes cw)"
    and "healthy w \<Longrightarrow> healthy w'"
proof -
  let ?pw = "payload_write sha (payload_path d cid i st) cid (cw_bytes cw)"
  have path: "cw_path ?pw = payload_path d cid i st" and bytes: "cw_bytes ?pw = cw_bytes cw"
    by (simp_all add: payload_write_def)
  let ?ow = "\<lambda>obj. \<lparr>ow_path = cw_path cw,
     ow_payload = \<lparr>pl_path = cw_path ?pw, pl_generation = so_generation obj,
                   pl_content_sha256 = sha256_hex sha (cw_bytes cw),
                   pl_size = of_nat (length (so_bytes obj))\<rparr>,
     ow_metadata = cw_metadata cw, ow_precondition = cw_precondition cw\<rparr>"
  consider (failed) "w' = w" "\<forall>ow. res \<noteq> Inr ow"
    | (kept) obj where "w' = w" "res = Inr (?ow obj)" "so_bytes obj = cw_bytes cw"
        "co_read ops w (cw_path ?pw) = Inr (Some obj)"
    | (written) obj where "co_write ops w ?pw = (w', Inr obj)" "res = Inr (?ow obj)"
    using run write_failed [of w ?pw] bytes
    by (cases "co_read ops w (cw_path ?pw)"; cases "co_write ops w ?pw"; cases "snd (co_write ops w ?pw)")
      (auto simp: stage_payload_def Let_def split: option.splits if_splits)
  then have "keeps ops sha d' {payload_path d cid i st} w w' \<and> room w' n \<and>
    co_load ops w' x = co_load ops w x \<and>
    (\<forall>ow. res = Inr ow \<longrightarrow> staged_as ow cw \<and> pl_path (ow_payload ow) = payload_path d cid i st \<and>
      read_payload ops sha w' (ow_payload ow) = Inr (cw_bytes cw)) \<and> (healthy w \<longrightarrow> healthy w')"
  proof cases
    case failed
    then show ?thesis using room_mono [OF room, of n] by simp
  next
    case kept
    then show ?thesis
      using room_mono [OF room, of n] read_version [OF room kept(4)] path
      by (auto simp: staged_as_def read_payload_def)
  next
    case written
    note obj = write_object [OF written(1)] and room' = write_room [OF written(1) room]
    have "co_read_generation ops w' (cw_path ?pw) (so_generation obj) = Inr (Some obj)"
      using read_version [OF room'] write_read [OF written(1)] by simp
    then show ?thesis
      using written(2) room' obj bytes path write_load [OF written(1)] write_healthy [OF written(1)]
        write_read [OF written(1)] write_payload [OF written(1) room]
      by (auto simp: staged_as_def read_payload_def keeps_def)
  qed
  then show "keeps ops sha d' {payload_path d cid i st} w w'" and "room w' n"
    and "co_load ops w' x = co_load ops w x"
    and "\<And>ow. res = Inr ow \<Longrightarrow> staged_as ow cw \<and> pl_path (ow_payload ow) = payload_path d cid i st \<and>
      read_payload ops sha w' (ow_payload ow) = Inr (cw_bytes cw)"
    and "healthy w \<Longrightarrow> healthy w'"
    by blast+
qed

lemma staged_in_keeps:
  "keeps ops sha d' P w w' \<Longrightarrow> staged_in ops sha d cid w ow cw \<Longrightarrow> staged_in ops sha d cid w' ow cw"
  by (simp add: staged_in_def keeps_def)

lemma stage_objects_effect:
  assumes "stage_objects ops sha w d cid i cws = (w', res)" and "room w (length cws + n)"
  shows "keeps ops sha d' {q. staging_path d q} w w' \<and> room w' n \<and> co_load ops w' = co_load ops w \<and>
    (\<forall>objs releases. res = Inr (objs, releases) \<longrightarrow>
       list_all2 (staged_in ops sha d cid w') objs (filter (\<lambda>cw. \<not> is_post_finalize_release cw) cws) \<and>
       list_all2 (staged_in ops sha d cid w') releases (filter is_post_finalize_release cws)) \<and>
    (healthy w \<longrightarrow> healthy w')"
  using assms
proof (induction cws arbitrary: w w' i res)
  case Nil
  then show ?case by auto
next
  case (Cons cw cws)
  obtain w1 res1 where one: "stage_payload ops sha w d cid i cw False = (w1, res1)" by fastforce
  have room: "room w (Suc (length cws + n))" using Cons.prems(2) by simp
  note eff = stage_payload_effect [OF one room]
  have k1: "keeps ops sha d' {q. staging_path d q} w w1"
    by (rule keeps_paths [OF eff(1)]) (simp add: payload_path_staging)
  have l1: "co_load ops w1 = co_load ops w" using eff(3) by blast
  show ?case
  proof (cases res1)
    case (Inl e)
    then have "w' = w1" "res = Inl e" using Cons.prems(1) one by simp_all
    then show ?thesis using k1 l1 eff(2,5) room_mono [of w1 "length cws + n" n] by simp
  next
    case (Inr ow)
    obtain w2 res2 where two: "stage_objects ops sha w1 d cid (i + 1) cws = (w2, res2)" by fastforce
    have out: "w' = w2" "res = (case res2 of Inl e \<Rightarrow> Inl e | Inr (objs, releases) \<Rightarrow>
        Inr (if is_post_finalize_release cw then (objs, ow # releases) else (ow # objs, releases)))"
      using Cons.prems(1) one Inr two by (cases res2; auto split: if_splits)+
    note rest = Cons.IH [OF two eff(2)]
    have "staged_in ops sha d cid w1 ow cw"
      using eff(4) [OF Inr] by (auto simp: staged_in_def)
    then have add: "staged_in ops sha d cid w2 ow cw"
      using rest staged_in_keeps by blast
    have "keeps ops sha d' {q. staging_path d q} w w2"
      using keeps_trans [OF k1] rest by blast
    then show ?thesis
      using rest out l1 eff(5) add by (auto split: sum.splits prod.splits)
  qed
qed

end

section \<open>The reserved commit\<close>

text \<open>The writes of a commit have different paths, none of them one of the outbox's own.\<close>

definition clean_paths :: "string \<Rightarrow> conditional_write list \<Rightarrow> bool" where
  "clean_paths d cws \<longleftrightarrow>
     distinct (map cw_path cws) \<and> (\<forall>cw\<in>set cws. \<not> staging_path d (cw_path cw))"

definition write_bytes :: "conditional_write list \<Rightarrow> outbox_write \<Rightarrow> bytes" where
  "write_bytes cws ow = (case find (\<lambda>cw. cw_path cw = ow_path ow) cws of Some cw \<Rightarrow> cw_bytes cw | None \<Rightarrow> [])"

lemma write_bytes_staged:
  assumes "clean_paths d cws" and "cw \<in> set cws" and "staged_as ow cw"
  shows "write_bytes cws ow = cw_bytes cw"
proof -
  have "ow_path ow = cw_path cw" using assms(3) by (simp add: staged_as_def)
  moreover obtain c where c: "find (\<lambda>cw. cw_path cw = ow_path ow) cws = Some c"
    using assms(2) calculation by (cases "find (\<lambda>cw. cw_path cw = ow_path ow) cws") (auto simp: find_None_iff)
  ultimately have "c = cw"
    using assms(1,2) distinct_map_unique [of cw_path cws c cw] unfolding clean_paths_def find_Some_iff
    by (metis nth_mem)
  then show ?thesis using c by (simp add: write_bytes_def)
qed

lemma list_all2_map_eq:
  "list_all2 P xs ys \<Longrightarrow> (\<And>x y. P x y \<Longrightarrow> f x = g y) \<Longrightarrow> map f xs = map g ys"
  by (induction xs ys rule: list_all2_induct) auto

lemma list_all2_sets:
  "list_all2 P xs ys \<Longrightarrow> (\<forall>x\<in>set xs. \<exists>y\<in>set ys. P x y) \<and> (\<forall>y\<in>set ys. \<exists>x\<in>set xs. P x y)"
  by (induction xs ys rule: list_all2_induct) auto

lemma staged_partition:
  assumes "list_all2 P objs (filter (\<lambda>c. \<not> R c) cws)" and "list_all2 P rels (filter R cws)"
  shows "\<forall>ow\<in>set (objs @ rels). \<exists>cw\<in>set cws. P ow cw"
    and "\<forall>cw\<in>set cws. \<exists>ow\<in>set (objs @ rels). P ow cw"
    and "length (objs @ rels) = length cws"
proof -
  have all: "list_all2 P (objs @ rels) (filter (\<lambda>c. \<not> R c) cws @ filter R cws)"
    using assms by (rule list_all2_appendI)
  have "set (filter (\<lambda>c. \<not> R c) cws @ filter R cws) = set cws" by auto
  then show "\<forall>ow\<in>set (objs @ rels). \<exists>cw\<in>set cws. P ow cw"
    and "\<forall>cw\<in>set cws. \<exists>ow\<in>set (objs @ rels). P ow cw"
    using list_all2_sets [OF all] by auto
  show "length (objs @ rels) = length cws"
    using list_all2_lengthD [OF all] sum_length_filter_compl [of R cws] by simp
qed

lemma staged_paths:
  assumes "list_all2 P objs (filter (\<lambda>c. \<not> R c) cws)" and "list_all2 P rels (filter R cws)"
    and "\<And>ow cw. P ow cw \<Longrightarrow> ow_path ow = cw_path cw" and "distinct (map cw_path cws)"
  shows "distinct (map ow_path (objs @ rels))"
proof -
  have "list_all2 P (objs @ rels) (filter (\<lambda>c. \<not> R c) cws @ filter R cws)"
    using assms(1,2) by (rule list_all2_appendI)
  then have "map ow_path (objs @ rels) = map cw_path (filter (\<lambda>c. \<not> R c) cws @ filter R cws)"
    by (rule list_all2_map_eq) (rule assms(3))
  moreover have "distinct (map cw_path (filter (\<lambda>c. \<not> R c) cws @ filter R cws))"
    using assms(4) by (auto simp: distinct_map inj_on_def)
  ultimately show ?thesis by simp
qed

text \<open>What \<open>commit\<close> reserves.\<close>

definition reserved_commit ::
    "string \<Rightarrow> string \<Rightarrow> outbox_write \<Rightarrow> outbox_write list \<Rightarrow> outbox_write list \<Rightarrow> pending_commit" where
  "reserved_commit cid d sow objs rels =
     \<lparr>pc_commit_id = cid, pc_document_id = d, pc_state_write = sow,
      pc_object_writes = objs, pc_release_writes = rels, pc_delivered = []\<rparr>"

context cloud_stores
begin

lemma check_destination_ok:
  assumes "check_destination ops w cw = Inr ()"
  shows "\<exists>cur. co_read ops w (cw_path cw) = Inr cur \<and>
    ((\<exists>obj. cur = Some obj \<and> so_bytes obj = cw_bytes cw \<and> so_metadata obj = cw_metadata cw) \<or>
     precondition_holds (cw_precondition cw) (map_option so_generation cur))"
  using assms
  by (cases "co_read ops w (cw_path cw)")
    (auto simp: check_destination_def Let_def split: if_splits option.splits)

lemma reserved_recoverable:
  assumes clean: "clean_paths d cws" and cws: "set cws = insert sw (set others)"
    and others: "distinct (map cw_path others)"
    and dest: "\<forall>cw\<in>set others. check_destination ops w cw = Inr ()"
    and keeps: "keeps ops sha d' {q. staging_path d q} w w1"
    and all: "list_all2 (staged_in ops sha d cid w1) objs
        (filter (\<lambda>cw. \<not> is_post_finalize_release cw) others)"
      "list_all2 (staged_in ops sha d cid w1) rels (filter is_post_finalize_release others)"
    and sow: "staged_as sow sw" "pl_path (ow_payload sow) = payload_path d cid i True"
      "read_payload ops sha w1 (ow_payload sow) = Inr (cw_bytes sw)"
    and load: "co_load ops w1 d = Inr r" "sr_pending r = Some (reserved_commit cid d sow objs rels)"
    and act: "\<not> state_active r (reserved_commit cid d sow objs rels)"
  shows "recoverable ops sha (write_bytes cws) objs w1 r (reserved_commit cid d sow objs rels)"
proof -
  let ?p = "reserved_commit cid d sow objs rels"
  note part = staged_partition [OF all]
  have writes: "commit_writes ?p = objs @ rels" by (simp add: commit_writes_def reserved_commit_def)
  have dist: "distinct (map ow_path (objs @ rels))"
    by (rule staged_paths [OF all _ others]) (simp add: staged_in_def staged_as_def)
  have free: "\<not> staging_path d (ow_path ow) \<and> (\<exists>j. pl_path (ow_payload ow) = payload_path d cid j False)"
    if "ow \<in> set (objs @ rels)" for ow
  proof -
    from part(1) that obtain cw where "cw \<in> set others" "staged_in ops sha d cid w1 ow cw" by blast
    then show ?thesis using clean cws unfolding clean_paths_def staged_in_def staged_as_def by auto
  qed
  have sep: "separate ?p"
    unfolding separate_def writes
  proof (intro conjI ballI)
    fix ow ow' assume *: "ow \<in> set (objs @ rels)" "ow' \<in> set (objs @ rels)"
    show "ow_path ow \<noteq> pl_path (ow_payload ow')"
      using free [OF *(1)] free [OF *(2)] payload_path_staging by metis
  next
    fix ow assume "ow \<in> set (objs @ rels)"
    then show "pl_path (ow_payload (pc_state_write ?p)) \<noteq> pl_path (ow_payload ow)"
      using free sow(2) state_payload_path by (metis pending_commit.select_convs(3) reserved_commit_def)
  qed (rule dist)
  have dlv: "deliverable ops sha (write_bytes cws) w1 ?p ow" if "ow \<in> set (objs @ rels)" for ow
  proof -
    from part(1) that obtain cw where cw: "cw \<in> set others" "staged_in ops sha d cid w1 ow cw" by blast
    then have bs: "write_bytes cws ow = cw_bytes cw"
      using write_bytes_staged [OF clean, of cw ow] cws by (simp add: staged_in_def)
    have same: "co_read ops w1 (cw_path cw) = co_read ops w (cw_path cw)"
      using keeps free [OF that] cw(2) by (auto simp: keeps_def staged_in_def staged_as_def)
    have "check_destination ops w cw = Inr ()" using dest cw(1) by blast
    from check_destination_ok [OF this] show ?thesis
      using cw(2) bs same
      by (auto simp: deliverable_def placed_def staged_in_def staged_as_def reserved_commit_def)
  qed
  have "sow_bytes = cw_bytes sw" if "sow_bytes = write_bytes cws sow" for sow_bytes
    using write_bytes_staged [OF clean _ sow(1)] cws that by simp
  then show ?thesis
    using sep dlv dist load act sow(3) writes
    by (simp add: recoverable_def in_flight_def reserved_commit_def)
qed

end

section \<open>The answer\<close>

lemma deliver_writes_length:
  "deliver_writes ops sha w p ows = (w', Inr (p', objs)) \<Longrightarrow>
     length objs = length ows \<and> pc_release_writes p' = pc_release_writes p"
proof (induction ows arbitrary: w p p' objs w')
  case (Cons ow ows)
  obtain w1 r1 where one: "deliver_write ops sha w p ow = (w1, r1)" by fastforce
  with Cons.prems obtain p1 obj where r1: "r1 = Inr (p1, obj)" by (cases r1) auto
  obtain w2 r2 where two: "deliver_writes ops sha w1 p1 ows = (w2, r2)" by fastforce
  with Cons.prems one r1 obtain objs' where r2: "r2 = Inr (p', objs')" "objs = obj # objs'"
    by (cases r2) auto
  have "pc_release_writes p1 = pc_release_writes p"
    using one r1
    by (cases "read_payload ops sha w (ow_payload ow)")
      (auto simp: deliver_write_def Let_def and_then_def split: sum.splits prod.splits)
  then show ?case using Cons.IH [of w1 p1 w2 p' objs'] two r2 by simp
qed simp

lemma deliver_length:
  assumes "deliver ops sha w p False = (w', Inr objs)"
  shows "length objs = length (pc_object_writes p) + length (pc_release_writes p)"
proof -
  obtain w1 r1 where one: "deliver_writes ops sha w p (pc_object_writes p) = (w1, r1)" by fastforce
  with assms obtain p1 os where r1: "r1 = Inr (p1, os)" by (cases r1) (auto simp: deliver_phases)
  obtain w2 r2 where fin: "co_finalize ops w1 p1 = (w2, r2)" by fastforce
  with assms one r1 obtain a where r2: "r2 = Inr a" by (cases r2) (auto simp: deliver_phases)
  obtain w3 r3 where three: "deliver_writes ops sha w2 p1 (pc_release_writes p1) = (w3, r3)" by fastforce
  with assms one r1 fin r2 obtain p3 rs where r3: "r3 = Inr (p3, rs)"
    by (cases r3) (auto simp: deliver_phases release_phase_def)
  have "objs = os @ rs"
    using assms one r1 fin r2 three r3
    by (auto simp: deliver_phases release_phase_def split: if_splits sum.splits prod.splits)
  then show ?thesis
    using deliver_writes_length [of ops sha w p] one r1 deliver_writes_length [of ops sha w2 p1] three r3
    by simp
qed

lemma bm_of_list_has: "bm_has (bm_of_list es) k \<longleftrightarrow> k \<in> fst ` set es"
proof -
  have "bm_has (fold (\<lambda>(k, v). bm_insert k v) es m) k \<longleftrightarrow> bm_has m k \<or> k \<in> fst ` set es" for m
    by (induction es arbitrary: m) (auto simp: bm_has_def)
  then show ?thesis by (simp add: bm_of_list_def bm_has_def)
qed

lemma position_Some:
  assumes "position P xs = Some i"
  shows "i < length xs" and "P (xs ! i)"
proof -
  have "i \<in> set (filter (\<lambda>i. P (xs ! i)) [0..<length xs])"
    using assms by (cases "filter (\<lambda>i. P (xs ! i)) [0..<length xs]") (auto simp: position_def)
  then show "i < length xs" and "P (xs ! i)" by auto
qed

lemma without_index_split:
  assumes "i < length xs"
  shows "set xs = insert (xs ! i) (set (without_index i xs))"
    and "distinct (map f xs) \<Longrightarrow> distinct (map f (without_index i xs))"
    and "length xs = Suc (length (without_index i xs))"
proof -
  have xs: "xs = take i xs @ xs ! i # drop (i + 1) xs" using assms by (simp add: id_take_nth_drop)
  show "set xs = insert (xs ! i) (set (without_index i xs))"
    by (subst xs) (simp add: without_index_def)
  show "distinct (map f xs) \<Longrightarrow> distinct (map f (without_index i xs))"
    by (subst (asm) xs) (auto simp: without_index_def)
  show "length xs = Suc (length (without_index i xs))" using assms by (simp add: without_index_def)
qed

lemma without_index_mem: "j < length xs \<Longrightarrow> j \<noteq> i \<Longrightarrow> xs ! j \<in> set (without_index i xs)"
proof -
  assume *: "j < length xs" "j \<noteq> i"
  then consider "j < i" | "i < j" by linarith
  then show ?thesis
  proof cases
    case 1
    then have "take i xs ! j = xs ! j" "j < length (take i xs)" using * by simp_all
    then show ?thesis unfolding without_index_def by (metis UnI1 nth_mem set_append)
  next
    case 2
    then have "drop (i + 1) xs ! (j - (i + 1)) = xs ! j" "j - (i + 1) < length (drop (i + 1) xs)"
      using * by (simp_all add: nth_drop)
    then show ?thesis unfolding without_index_def by (metis UnI2 nth_mem set_append)
  qed
qed

lemma collect_objects_total:
  assumes "length delivered = length (without_index i cws)"
  shows "\<exists>objs. collect_objects i cws delivered st = Inr objs \<and> length objs = length cws"
proof -
  let ?m = "bm_of_list (zip (map cw_path (without_index i cws)) delivered)"
  let ?f = "\<lambda>(index, cw). if index = i then Inr st
       else ok_or (OtherCommitError (''missing delivered object '' @ cw_path cw)) (bm_get ?m (cw_path cw))"
  have step: "\<exists>y. ?f x = Inr y" if mem: "x \<in> set (zip [0..<length cws] cws)" for x
  proof -
    from mem obtain j where "j < length (zip [0..<length cws] cws)" "zip [0..<length cws] cws ! j = x"
      by (meson in_set_conv_nth)
    then have j: "x = (j, cws ! j)" "j < length cws" by auto
    have "bm_has ?m (cw_path (cws ! j))" if "j \<noteq> i"
    proof -
      have "fst ` set (zip (map cw_path (without_index i cws)) delivered) =
          set (map cw_path (without_index i cws))"
        using assms by (simp add: image_set [symmetric] del: image_set) (simp flip: set_map)
      then show ?thesis using without_index_mem [OF j(2) that] by (simp add: bm_of_list_has)
    qed
    then show ?thesis using j by (auto simp: bm_has_def)
  qed
  have total: "\<exists>ys. try_map ?f xs = Inr ys \<and> length ys = length xs"
    if "\<And>x. x \<in> set xs \<Longrightarrow> \<exists>y. ?f x = Inr y" for xs
    using that
  proof (induction xs)
    case (Cons x xs)
    from Cons.prems [of x] obtain y where "?f x = Inr y" by auto
    with Cons show ?case by auto
  qed simp
  show ?thesis
    using total [of "zip [0..<length cws] cws"] step unfolding collect_objects_def Let_def by simp
qed

section \<open>The commit\<close>

text \<open>The document and the staged state payload of a commit.\<close>

definition commit_target :: "conditional_write list \<Rightarrow> (nat \<times> string) option" where
  "commit_target cws =
     Option.bind (position (\<lambda>cw. is_state_path (cw_path cw)) cws) (\<lambda>i.
     Option.bind (document_id_from_state_path (cw_path (cws ! i))) (\<lambda>d. Some (i, d)))"

definition commit_id_of :: "sha \<Rightarrow> conditional_write list \<Rightarrow> nat \<Rightarrow> string \<Rightarrow> string" where
  "commit_id_of sha cws i d = commit_id sha d (cws ! i) (without_index i cws)"

text \<open>Another commit is the active one.\<close>

definition not_yet_active :: "sha \<Rightarrow> conditional_write list \<Rightarrow> nat \<Rightarrow> string \<Rightarrow> state_record \<Rightarrow> bool" where
  "not_yet_active sha cws i d r \<longleftrightarrow>
     (\<forall>a. sr_active r = Some a \<longrightarrow>
        pl_path (ac_payload a) \<noteq> payload_path d (commit_id_of sha cws i d) i True)"

text \<open>The commit is kept and can be finished; its new state is active only when its objects
  are in place.\<close>

definition suspended ::
    "'w cloud_ops \<Rightarrow> sha \<Rightarrow> 'w \<Rightarrow> conditional_write list \<Rightarrow> nat \<Rightarrow> string \<Rightarrow> state_record \<Rightarrow> bool" where
  "suspended ops sha w cws i d r0 \<longleftrightarrow>
     (\<exists>p r. recoverable ops sha (write_bytes cws) (pc_object_writes p) w r p \<and> pc_document_id p = d \<and>
        pc_commit_id p = commit_id_of sha cws i d \<and> staged_as (pc_state_write p) (cws ! i) \<and>
        (\<forall>cw\<in>set (without_index i cws). \<exists>ow\<in>set (commit_writes p). staged_as ow cw) \<and>
        Suc (length (commit_writes p)) = length cws \<and>
        (\<forall>ow\<in>set (pc_release_writes p). \<exists>cw\<in>set cws. is_post_finalize_release cw \<and> staged_as ow cw) \<and>
        (\<forall>ow\<in>set (commit_writes p). staging_path d (pl_path (ow_payload ow))) \<and>
        (sr_active r = sr_active r0 \<or>
         state_active r p \<and>
           (\<forall>ow\<in>set (pc_object_writes p). placed ops w ow (write_bytes cws ow))))"

lemma recoverable_placed:
  assumes "recoverable ops sha B (pc_object_writes p) w r p" and "state_active r p"
  shows "\<forall>ow\<in>set (pc_object_writes p). placed ops w ow (B ow)"
proof
  fix ow assume ow: "ow \<in> set (pc_object_writes p)"
  have "deliverable ops sha B w p ow"
    using assms(1) ow by (simp add: recoverable_def in_flight_def)
  moreover have "bm_has (pc_delivered p) (ow_path ow)"
    using assms ow by (simp add: recoverable_def all_delivered_def list_all_iff)
  ultimately show "placed ops w ow (B ow)" by (rule deliverable_placed)
qed

text \<open>Every write of the commit reads back.\<close>

definition visible ::
    "'w cloud_ops \<Rightarrow> sha \<Rightarrow> (commit_error \<Rightarrow> string) \<Rightarrow> 'w \<Rightarrow> conditional_write \<Rightarrow> bool" where
  "visible ops sha show_error w cw \<longleftrightarrow>
     (\<exists>obj. cloud_read ops sha show_error w (cw_path cw) = Inr (Some obj) \<and>
        so_bytes obj = cw_bytes cw \<and> so_metadata obj = cw_metadata cw)"

lemma published_visible:
  assumes pub: "published ops sha (write_bytes cws) w p (commit_writes p)"
    and clean: "clean_paths d cws" and d: "document_id_from_state_path (cw_path sw) = Some d"
    and p: "pc_document_id p = d" "staged_as (pc_state_write p) sw"
    and cws: "set cws = insert sw (set others)" "\<forall>cw\<in>set others. \<not> is_state_path (cw_path cw)"
    and staged: "\<forall>cw\<in>set others. \<exists>ow\<in>set (commit_writes p). staged_as ow cw"
  shows "\<forall>cw\<in>set cws. visible ops sha show_error w cw"
proof
  fix cw assume cw: "cw \<in> set cws"
  then consider "cw = sw" | "cw \<in> set others" using cws(1) by blast
  then show "visible ops sha show_error w cw"
  proof cases
    case 1
    obtain r a where ra: "co_load ops w d = Inr r" "sr_active r = Some a" "is_active a p"
      "read_payload ops sha w (ac_payload a) = Inr (write_bytes cws (pc_state_write p))"
      using pub p(1) by (auto simp: published_def)
    moreover have "write_bytes cws (pc_state_write p) = cw_bytes sw"
      using write_bytes_staged [OF clean _ p(2)] cws by simp
    ultimately show ?thesis
      using 1 d p(2) by (simp add: visible_def cloud_read_def is_active_def staged_as_def)
  next
    case 2
    then obtain ow where ow: "ow \<in> set (commit_writes p)" "staged_as ow cw" using staged by blast
    have "placed ops w ow (write_bytes cws ow)" using pub ow(1) unfolding published_def by blast
    then have "placed ops w ow (cw_bytes cw)" using write_bytes_staged [OF clean cw ow(2)] by simp
    moreover have "document_id_from_state_path (cw_path cw) = None"
      using cws(2) 2 by (simp add: is_state_path_def)
    ultimately show ?thesis
      using ow(2) by (auto simp: visible_def cloud_read_def placed_def staged_as_def)
  qed
qed

context cloud_stores
begin

text \<open>From the reservation on.\<close>

lemma delivered_commit_effect:
  assumes clean: "clean_paths d cws" and i: "i < length cws"
    and d: "document_id_from_state_path (cw_path (cws ! i)) = Some d"
    and single: "\<forall>cw\<in>set (without_index i cws). \<not> is_state_path (cw_path cw)"
    and dest: "\<forall>cw\<in>set (without_index i cws). check_destination ops w cw = Inr ()"
    and keeps: "keeps ops sha d {q. staging_path d q} w w1"
    and all: "list_all2 (staged_in ops sha d cid w1) objs
        (filter (\<lambda>cw. \<not> is_post_finalize_release cw) (without_index i cws))"
      "list_all2 (staged_in ops sha d cid w1) rels (filter is_post_finalize_release (without_index i cws))"
    and sow: "staged_as sow (cws ! i)" "pl_path (ow_payload sow) = payload_path d cid i True"
      "read_payload ops sha w1 (ow_payload sow) = Inr (cw_bytes (cws ! i))"
    and load: "co_load ops w1 d = Inr r0" "sr_pending r0 = None"
    and cid: "cid = commit_id_of sha cws i d" and fresh: "not_yet_active sha cws i d r0"
    and res: "co_reserve ops w1 (reserved_commit cid d sow objs rels) = (w2, Inr p)"
    and room: "room w1 (length cws + n)"
    and run: "deliver ops sha w2 p False = (w', res)"
  shows "(\<forall>x. res = Inr x \<longrightarrow> length x = length (without_index i cws) \<and>
       (\<forall>cw\<in>set cws. visible ops sha show_error w' cw) \<and>
       (\<exists>r. co_load ops w' d = Inr r \<and> sr_pending r = None)) \<and>
    (\<forall>e. res = Inl e \<longrightarrow> suspended ops sha w' cws i d r0 \<and> room w' n) \<and>
    (healthy w2 \<longrightarrow> (\<exists>x. res = Inr x))"
proof -
  let ?p = "reserved_commit cid d sow objs rels"
  have sel: "pc_document_id ?p = d" "pc_state_write ?p = sow" "commit_writes ?p = objs @ rels"
    "pc_commit_id ?p = cid" "pc_object_writes ?p = objs" "pc_release_writes ?p = rels"
    by (simp_all add: reserved_commit_def commit_writes_def)
  note obs = reserve_objects [OF res]
  have p: "p = ?p" and load2: "co_load ops w2 d = Inr (r0\<lparr>sr_pending := Some ?p\<rparr>)"
    using reserve_ok [OF res, of r0] load sel(1) by simp_all
  let ?r = "r0\<lparr>sr_pending := Some ?p\<rparr>"
  have act: "\<not> state_active ?r ?p"
    using fresh sow(2) sel(2) cid
    by (auto simp: not_yet_active_def state_active_def is_active_def split: option.splits)
  have dist: "distinct (map cw_path (without_index i cws))"
    using without_index_split(2) [of i cws cw_path] i clean by (simp add: clean_paths_def)
  have pay: "read_payload ops sha w2 pl = read_payload ops sha w1 pl" for pl
    using obs read_payload_cong [of ops w2 w1] by simp
  have keeps2: "keeps ops sha d {q. staging_path d q} w w2"
    using keeps obs pay reserve_other [OF res] sel(1) by (simp add: keeps_def)
  have staged2: "staged_in ops sha d cid w2 = staged_in ops sha d cid w1"
    by (intro ext) (simp add: staged_in_def pay)
  have pend: "sr_pending ?r = Some ?p" by simp
  have rec: "recoverable ops sha (write_bytes cws) objs w2 ?r ?p"
    by (rule reserved_recoverable [OF clean without_index_split(1) [OF i] dist dest keeps2 _ _ sow(1,2)
          _ load2 pend act]) (use all staged2 sow(3) pay in simp_all)
  note part = staged_partition [OF all]
  have staged: "\<forall>cw\<in>set (without_index i cws). \<exists>ow\<in>set (commit_writes ?p). staged_as ow cw"
    using part(2) sel(3) unfolding staged_in_def by metis
  have signals: "\<forall>ow\<in>set (pc_release_writes ?p). \<exists>cw\<in>set cws. is_post_finalize_release cw \<and> staged_as ow cw"
    using list_all2_sets [OF all(2)] without_index_split(1) [OF i] sel(6) unfolding staged_in_def by auto
  have payloads: "\<forall>ow\<in>set (commit_writes ?p). staging_path d (pl_path (ow_payload ow))"
    using part(1) sel(3) payload_path_staging unfolding staged_in_def by metis
  have room2: "room w2 (length (commit_writes ?p) + n)"
    using part(3) sel(3) obs room_mono [OF room] without_index_split(3) [OF i] by simp
  have rec': "recoverable ops sha (write_bytes cws) (pc_object_writes ?p) w2 ?r ?p"
    using rec by (simp only: sel)
  note eff = objects_phase_effect [OF rec' act room2 run [unfolded p]]
  have ok: "length x = length (without_index i cws) \<and>
       (\<forall>cw\<in>set cws. visible ops sha show_error w' cw) \<and>
       (\<exists>r. co_load ops w' d = Inr r \<and> sr_pending r = None)" if "res = Inr x" for x
  proof (intro conjI)
    show "length x = length (without_index i cws)"
      using deliver_length [of ops sha w2 ?p w' x] run p that sel part(3) by simp
    have pub: "published ops sha (write_bytes cws) w' ?p (commit_writes ?p)" using eff that by blast
    then show "\<exists>r. co_load ops w' d = Inr r \<and> sr_pending r = None"
      using sel(1) by (auto simp: published_def)
    show "\<forall>cw\<in>set cws. visible ops sha show_error w' cw"
      by (rule published_visible [OF pub clean d sel(1) _ without_index_split(1) [OF i] single staged])
        (use sow(1) sel(2) in simp)
  qed
  have susp: "suspended ops sha w' cws i d r0 \<and> room w' n" if failed: "res = Inl e" for e
  proof -
    obtain p' r' where again: "with_delivered ?p p'" "recoverable ops sha (write_bytes cws) (pc_object_writes ?p) w' r' p'"
      "sr_active r' = sr_active ?r \<or> state_active r' ?p \<and>
        (\<forall>ow\<in>set (pc_object_writes ?p). placed ops w' ow (write_bytes cws ow))" "room w' n"
      using eff failed by blast
    note sel' = with_delivered_sel [OF again(1)]
    have "commit_writes p' = commit_writes ?p" using sel' by (simp add: commit_writes_def)
    moreover have "state_active r' p' = state_active r' ?p"
      using sel' by (simp add: state_active_def cong: option.case_cong)
    ultimately show ?thesis
      unfolding suspended_def
      using again sel' sel staged signals payloads sow(1) cid part(3) without_index_split(3) [OF i]
      by (intro conjI exI [of _ p'] exI [of _ r']) simp_all
  qed
  show ?thesis using ok susp eff by blast
qed

lemma commit_effect:
  assumes run: "cloud_commit ops sha w cws = (w', res)" and target: "commit_target cws = Some (i, d)"
    and clean: "clean_paths d cws" and room: "room w (2 * length cws + n)"
    and load: "co_load ops w d = Inr r0" "sr_pending r0 = None"
    and fresh: "not_yet_active sha cws i d r0"
  shows "(\<forall>objs. res = Inr objs \<longrightarrow> length objs = length cws \<and>
       (\<forall>cw\<in>set cws. visible ops sha show_error w' cw) \<and>
       (\<exists>r. co_load ops w' d = Inr r \<and> sr_pending r = None)) \<and>
    (\<forall>e. res = Inl e \<longrightarrow> co_load ops w' d = Inr r0 \<or> suspended ops sha w' cws i d r0 \<and> room w' n)"
proof -
  have pos: "position (\<lambda>cw. is_state_path (cw_path cw)) cws = Some i"
    and d: "document_id_from_state_path (cw_path (cws ! i)) = Some d"
    using target by (auto simp: commit_target_def bind_eq_Some_conv)
  have i: "i < length cws" using position_Some [OF pos] by simp
  let ?others = "without_index i cws" and ?cid = "commit_id_of sha cws i d"
  have cid: "commit_id sha d (cws ! i) ?others = ?cid" by (simp add: commit_id_of_def)
  show ?thesis
  proof (cases "list_ex (\<lambda>cw. is_state_path (cw_path cw)) ?others \<or>
      try_each (check_destination ops w) ?others \<noteq> Inr ()")
    case True
    then have "w' = w \<and> (\<exists>e. res = Inl e)"
      using run pos d
      by (cases "list_ex (\<lambda>cw. is_state_path (cw_path cw)) ?others";
          cases "try_each (check_destination ops w) ?others")
        (auto simp: cloud_commit_def Let_def)
    then show ?thesis using load by auto
  next
    case False
    then have single: "\<forall>cw\<in>set ?others. \<not> is_state_path (cw_path cw)"
      and dest: "try_each (check_destination ops w) ?others = Inr ()" by (auto simp: list_ex_iff)
    obtain w1 r1 where one: "stage_payload ops sha w d ?cid i (cws ! i) True = (w1, r1)" by fastforce
    note len = without_index_split(3) [OF i]
    have rooms: "room w (Suc (length ?others + (length cws + n)))"
      by (rule room_mono [OF room]) (simp add: len)
    note eff1 = stage_payload_effect [OF one rooms]
    have k1: "keeps ops sha d {q. staging_path d q} w w1"
      by (rule keeps_paths [OF eff1(1)]) (simp add: payload_path_staging)
    show ?thesis
    proof (cases r1)
      case (Inl e)
      then have "w' = w1 \<and> (\<exists>e. res = Inl e)"
        using run pos d single dest one cid by (auto simp: cloud_commit_def Let_def list_ex_iff)
      then show ?thesis using load eff1(3) by auto
    next
      case (Inr sow)
      obtain w2 r2 where two: "stage_objects ops sha w1 d ?cid 0 ?others = (w2, r2)" by fastforce
      note eff2 = stage_objects_effect [OF two eff1(2), of d]
      have k2: "keeps ops sha d {q. staging_path d q} w w2" using keeps_trans [OF k1] eff2 by blast
      have load2: "co_load ops w2 d = Inr r0" using eff2 eff1(3) load(1) by simp
      show ?thesis
      proof (cases r2)
        case (Inl e)
        then have "w' = w2 \<and> (\<exists>e. res = Inl e)"
          using run pos d single dest one Inr two cid by (auto simp: cloud_commit_def Let_def list_ex_iff)
        then show ?thesis using load2 by auto
      next
        case r2: (Inr lists)
        obtain objs rels where lists: "lists = (objs, rels)" by fastforce
        obtain w3 r3 where three: "co_reserve ops w2 (reserved_commit ?cid d sow objs rels) = (w3, r3)"
          by fastforce
        show ?thesis
        proof (cases r3)
          case (Inl msg)
          then have "w' = w3 \<and> (\<exists>e. res = Inl e)"
            using run pos d single dest one Inr two r2 lists three cid
            by (auto simp: cloud_commit_def Let_def list_ex_iff reserved_commit_def)
          moreover have "co_load ops w3 d = Inr r0"
            using reserve_failed [of w2 _ w3 msg d] three Inl load2 by simp
          ultimately show ?thesis by auto
        next
          case r3: (Inr p)
          obtain w4 r4 where four: "deliver ops sha w3 p False = (w4, r4)" by fastforce
          have eff: "(\<forall>x. r4 = Inr x \<longrightarrow> length x = length ?others \<and>
               (\<forall>cw\<in>set cws. visible ops sha show_error w4 cw) \<and>
               (\<exists>r. co_load ops w4 d = Inr r \<and> sr_pending r = None)) \<and>
            (\<forall>e. r4 = Inl e \<longrightarrow> suspended ops sha w4 cws i d r0 \<and> room w4 n) \<and>
            (healthy w3 \<longrightarrow> (\<exists>x. r4 = Inr x))"
          proof (rule delivered_commit_effect [OF clean i d single _ k2 _ _ _ _ _ load2 load(2) refl fresh _ _ four])
            show "\<forall>cw\<in>set ?others. check_destination ops w cw = Inr ()"
              using dest by (simp add: try_each_ok_iff)
            show "room w2 (length cws + n)" using eff2 by blast
          qed (use eff1(4) [OF Inr] eff2 r2 lists three r3 k2 in \<open>auto simp: keeps_def\<close>)
          show ?thesis
          proof (cases r4)
            case (Inl e)
            then have "w' = w4 \<and> (\<exists>e. res = Inl e)"
              using run pos d single dest one Inr two r2 lists three r3 four cid
              by (auto simp: cloud_commit_def Let_def list_ex_iff reserved_commit_def)
            then show ?thesis using eff Inl by auto
          next
            case r4: (Inr delivered)
            have vis: "visible ops sha show_error w4 (cws ! i)" using eff r4 i by simp
            obtain r a bs where active: "co_load ops w4 d = Inr r" "sr_active r = Some a"
              "read_payload ops sha w4 (ac_payload a) = Inr bs"
              using vis d
              by (cases "co_load ops w4 d")
                (auto simp: visible_def cloud_read_def rbind_eq_Inr_iff map_err_eq_Inr_iff
                  split: option.splits)
            let ?st = "\<lparr>so_bytes = bs, so_generation = ac_generation a, so_metadata = ac_metadata a\<rparr>"
            have "w' = w4" "res = collect_objects i cws delivered ?st"
              using run pos d single dest one Inr two r2 lists three r3 four r4 active cid
              by (auto simp: cloud_commit_def Let_def list_ex_iff reserved_commit_def)
            then show ?thesis
              using eff r4 collect_objects_total [of delivered i cws ?st] by auto
          qed
        qed
      qed
    qed
  qed
qed

lemma recover_suspended:
  assumes run: "recover ops sha show_error w d = (w', res)" and susp: "suspended ops sha w cws i d r0"
    and target: "commit_target cws = Some (i, d)"
    and single: "\<forall>cw\<in>set (without_index i cws). \<not> is_state_path (cw_path cw)"
    and clean: "clean_paths d cws" and room: "room w (length cws + n)"
  shows "(\<forall>b. res = Inr b \<longrightarrow> b \<and> (\<forall>cw\<in>set cws. visible ops sha show_error w' cw) \<and>
       (\<exists>r. co_load ops w' d = Inr r \<and> sr_pending r = None)) \<and>
    (\<forall>e. res = Inl e \<longrightarrow> suspended ops sha w' cws i d r0 \<and> room w' n) \<and>
    (healthy w \<longrightarrow> res = Inr True)"
proof -
  obtain p r where rec: "recoverable ops sha (write_bytes cws) (pc_object_writes p) w r p" and p: "pc_document_id p = d"
      "pc_commit_id p = commit_id_of sha cws i d" "staged_as (pc_state_write p) (cws ! i)"
      "\<forall>cw\<in>set (without_index i cws). \<exists>ow\<in>set (commit_writes p). staged_as ow cw"
      "Suc (length (commit_writes p)) = length cws"
      "\<forall>ow\<in>set (pc_release_writes p). \<exists>cw\<in>set cws. is_post_finalize_release cw \<and> staged_as ow cw"
      "\<forall>ow\<in>set (commit_writes p). staging_path d (pl_path (ow_payload ow))"
    and act: "sr_active r = sr_active r0 \<or> state_active r p"
    using susp unfolding suspended_def by blast
  have i: "i < length cws" and d: "document_id_from_state_path (cw_path (cws ! i)) = Some d"
    using target position_Some by (auto simp: commit_target_def bind_eq_Some_conv)
  have "room w (length (commit_writes p) + n)" by (rule room_mono [OF room]) (use p(5) in simp)
  note eff = recover_effect [OF run [folded p(1)] rec this, folded commit_writes_def]
  have ok: "(\<forall>cw\<in>set cws. visible ops sha show_error w' cw) \<and>
       (\<exists>r. co_load ops w' d = Inr r \<and> sr_pending r = None)" if "res = Inr b" for b
  proof
    have pub: "published ops sha (write_bytes cws) w' p (commit_writes p)" using eff that by blast
    then show "\<exists>r. co_load ops w' d = Inr r \<and> sr_pending r = None"
      using p(1) by (auto simp: published_def)
    show "\<forall>cw\<in>set cws. visible ops sha show_error w' cw"
      by (rule published_visible [OF pub clean d p(1,3) without_index_split(1) [OF i] single p(4)])
  qed
  have "suspended ops sha w' cws i d r0 \<and> room w' n" if failed: "res = Inl e" for e
  proof -
    obtain p' r' where again: "with_delivered p p'" "recoverable ops sha (write_bytes cws) (pc_object_writes p) w' r' p'"
      "sr_active r' = sr_active r \<or> state_active r' p" "room w' n"
      using eff failed by blast
    note sel = with_delivered_sel [OF again(1)]
    have writes: "commit_writes p' = commit_writes p" using sel by (simp add: commit_writes_def)
    have rec': "recoverable ops sha (write_bytes cws) (pc_object_writes p') w' r' p'"
      using again(2) sel by simp
    have active: "state_active r' p' = state_active r' p"
      using sel by (simp add: state_active_def cong: option.case_cong)
    have "sr_active r' = sr_active r0 \<or> state_active r' p'"
      using again(3) act active by (auto simp: state_active_def)
    then have "sr_active r' = sr_active r0 \<or> state_active r' p' \<and>
        (\<forall>ow\<in>set (pc_object_writes p'). placed ops w' ow (write_bytes cws ow))"
      using recoverable_placed [OF rec'] by blast
    then show ?thesis
      unfolding suspended_def
      using again(4) rec' sel p writes by (intro conjI exI [of _ p'] exI [of _ r']) simp_all
  qed
  then show ?thesis using ok eff by blast
qed

lemma write_keeps:
  "co_write ops w cw = (w1, Inr obj) \<Longrightarrow> room w (Suc n) \<Longrightarrow> keeps ops sha d {cw_path cw} w w1"
  using write_read write_payload write_load by (auto simp: keeps_def)

text \<open>A device may edit a released object before the recovery: the edit stays.\<close>

lemma recover_edited:
  assumes susp: "suspended ops sha w cws i d r0" and target: "commit_target cws = Some (i, d)"
    and clean: "clean_paths d cws" and active: "co_load ops w d = Inr r" "sr_active r \<noteq> sr_active r0"
    and edit: "co_write ops w cw = (w1, Inr obj)" "\<not> staging_path d (cw_path cw)"
      "\<forall>c\<in>set cws. is_post_finalize_release c \<longrightarrow> cw_path c \<noteq> cw_path cw"
    and run: "recover ops sha show_error w1 d = (w', res)" and room: "room w (Suc (length cws + n))"
  shows "(healthy w1 \<longrightarrow> res = Inr True) \<and>
    (\<forall>b. res = Inr b \<longrightarrow> b \<and> co_read ops w' (cw_path cw) = Inr (Some obj) \<and>
       visible ops sha show_error w' (cws ! i) \<and>
       (\<exists>r. co_load ops w' d = Inr r \<and> sr_pending r = None))"
proof -
  obtain p r1 where rec: "recoverable ops sha (write_bytes cws) (pc_object_writes p) w r1 p" and p: "pc_document_id p = d"
      "staged_as (pc_state_write p) (cws ! i)" "Suc (length (commit_writes p)) = length cws"
      "\<forall>ow\<in>set (pc_release_writes p). \<exists>cw\<in>set cws. is_post_finalize_release cw \<and> staged_as ow cw"
      "\<forall>ow\<in>set (commit_writes p). staging_path d (pl_path (ow_payload ow))"
      "sr_active r1 = sr_active r0 \<or> state_active r1 p"
    using susp unfolding suspended_def by blast
  have i: "i < length cws" and d: "document_id_from_state_path (cw_path (cws ! i)) = Some d"
    using target position_Some by (auto simp: commit_target_def bind_eq_Some_conv)
  have load: "co_load ops w d = Inr r1" and pend: "sr_pending r1 = Some p"
    and dlv: "\<forall>ow\<in>set (pc_release_writes p). deliverable ops sha (write_bytes cws) w p ow"
      "distinct (map ow_path (pc_release_writes p))"
    using rec p(1) by (auto simp: recoverable_def in_flight_def)
  have act: "state_active r1 p" using p(6) load active by auto
  note keep = write_keeps [OF edit(1) room, of sha d]
  have other: "ow_path ow \<noteq> cw_path cw" if "ow \<in> set (pc_release_writes p)" for ow
    using p(4) edit(3) that unfolding staged_as_def by fastforce
  have load1: "co_load ops w1 d = Inr r1" using write_load [OF edit(1)] load by simp
  have "\<forall>ow\<in>set (pc_release_writes p). deliverable ops sha (write_bytes cws) w1 p ow"
    using deliverable_other [OF keep other _ refl] dlv(1) by blast
  then have "in_flight ops sha (write_bytes cws) w1 r1 p ([] @ pc_release_writes p)"
    using load1 p(1) pend dlv(2) by (simp add: in_flight_def)
  then have "recoverable ops sha (write_bytes cws) [] w1 r1 p"
    using rec act keep by (auto simp: recoverable_def keeps_def)
  moreover have "room w1 (length (commit_writes p) + n)"
    by (rule room_mono [OF write_room [OF edit(1) room]]) (use p(3) in simp)
  ultimately have eff: "(\<forall>b. res = Inr b \<longrightarrow> b \<and> published ops sha (write_bytes cws) w' p ([] @ pc_release_writes p)) \<and>
    (healthy w1 \<longrightarrow> res = Inr True) \<and> (state_active r1 p \<longrightarrow> untouched ops p [] w1 w')"
    using recover_effect [of sha show_error w1 p w' res] run p(1) by blast
  have "co_read ops w' (cw_path cw) = Inr (Some obj)"
  proof -
    have "cw_path cw \<notin> ow_path ` set ([] @ pc_release_writes p)"
      unfolding append_Nil using other by (metis imageE)
    moreover have "cw_path cw \<notin> (\<lambda>ow. pl_path (ow_payload ow)) ` set (commit_writes p)"
      using p(5) edit(2) by auto
    ultimately have "co_read ops w' (cw_path cw) = co_read ops w1 (cw_path cw)"
      using eff act unfolding untouched_def by blast
    then show ?thesis using write_read [OF edit(1)] by simp
  qed
  moreover have "visible ops sha show_error w' (cws ! i) \<and> (\<exists>r. co_load ops w' d = Inr r \<and> sr_pending r = None)"
    if ok: "res = Inr b" for b
  proof -
    obtain r' a where ra: "co_load ops w' d = Inr r'" "sr_pending r' = None" "sr_active r' = Some a"
      "is_active a p" "read_payload ops sha w' (ac_payload a) = Inr (write_bytes cws (pc_state_write p))"
      using eff ok p(1) unfolding published_def by blast
    moreover have "write_bytes cws (pc_state_write p) = cw_bytes (cws ! i)"
      using write_bytes_staged [OF clean _ p(2)] i by simp
    ultimately show ?thesis
      using d p(2) by (simp add: visible_def cloud_read_def is_active_def staged_as_def)
  qed
  ultimately show ?thesis using eff by blast
qed

end

end
