(* ===== verification/Outbox_Identity.thy ===== *)
theory Outbox_Identity
  imports Outbox
begin

text \<open>
  The bytes a commit identity is the hash of determine the commit: every field is framed by its
  length and every list by its count, so that no two commits feed the same bytes to the hash.
\<close>

section \<open>Framed fields\<close>

lemma u64_to_be_bytes_length [simp]: "length (u64_to_be_bytes n) = 8"
  by (simp add: u64_to_be_bytes_def)

lemma byte_digits:
  fixes a b :: nat
  assumes "\<And>i. i < k \<Longrightarrow> a div 256 ^ i mod 256 = b div 256 ^ i mod 256"
    and "a < 256 ^ k" and "b < 256 ^ k"
  shows "a = b"
  using assms
proof (induction k arbitrary: a b)
  case (Suc k)
  have "a div 256 = b div 256"
  proof (rule Suc.IH)
    fix i assume "i < k"
    with Suc.prems(1) [of "Suc i"] show "a div 256 div 256 ^ i mod 256 = b div 256 div 256 ^ i mod 256"
      by (simp add: div_mult2_eq mult.commute)
  qed (use Suc.prems(2,3) in \<open>simp_all add: less_mult_imp_div_less mult.commute\<close>)
  moreover have "a mod 256 = b mod 256" using Suc.prems(1) [of 0] by simp
  ultimately show ?case by (metis div_mult_mod_eq)
qed simp

lemma u64_to_be_bytes_inj: "u64_to_be_bytes m = u64_to_be_bytes n \<longleftrightarrow> m = n"
proof
  assume eq: "u64_to_be_bytes m = u64_to_be_bytes n"
  have byte: "uint (drop_bit (8 * i) w) mod 256 = int (unat w div 256 ^ i mod 256)" for w :: u64 and i
  proof -
    have "uint (drop_bit (8 * i) w) = int (unat (drop_bit (8 * i) w))" by (rule uint_nat)
    also have "unat (drop_bit (8 * i) w) = unat w div 256 ^ i"
      unfolding unat_drop_bit_eq unfolding drop_bit_eq_div power_mult by simp
    finally show ?thesis by (simp only: zmod_int) simp
  qed
  have "unat m div 256 ^ i mod 256 = unat n div 256 ^ i mod 256" if "i < 8" for i
  proof -
    have "i \<in> set [7, 6, 5, 4, 3, 2, 1, 0]" using that by (simp, arith)
    then have "char_of (uint (drop_bit (8 * i) m) mod 256) = (char_of (uint (drop_bit (8 * i) n) mod 256) :: char)"
      using eq unfolding u64_to_be_bytes_def map_eq_conv by blast
    then have "(of_char (char_of (uint (drop_bit (8 * i) m) mod 256)) :: int) =
        of_char (char_of (uint (drop_bit (8 * i) n) mod 256))" by simp
    then show ?thesis unfolding byte of_char_of by simp
  qed
  then have "unat m = unat n"
    by (rule byte_digits [of 8]) (use unsigned_less [of m] unsigned_less [of n] in simp_all)
  then show "m = n" by (rule unsigned_word_eqI)
qed simp

lemma u64_to_be_bytes_append:
  "u64_to_be_bytes m @ x = u64_to_be_bytes n @ y \<longleftrightarrow> m = n \<and> x = y"
  by (simp add: append_eq_append_conv u64_to_be_bytes_inj)

lemma length_word_inj:
  "length xs < 2 ^ 64 \<Longrightarrow> length ys < 2 ^ 64 \<Longrightarrow>
     (of_nat (length xs) :: u64) = of_nat (length ys) \<longleftrightarrow> length xs = length ys"
  by (auto dest: arg_cong [where f = unat] simp: unsigned_of_nat take_bit_nat_eq_self)

lemma hash_field_append:
  assumes "length a < 2 ^ 64" and "length b < 2 ^ 64"
  shows "hash_field a @ x = hash_field b @ y \<longleftrightarrow> a = b \<and> x = y"
  using length_word_inj [OF assms]
  by (auto simp: hash_field_def u64_to_be_bytes_append append_eq_append_conv)

lemma hash_precondition_append:
  "hash_precondition p @ x = hash_precondition q @ y \<longleftrightarrow> p = q \<and> x = y"
  by (cases p; cases q) (auto simp: hash_precondition_def u64_to_be_bytes_append)

text \<open>A list of framed items of a known number is determined by its concatenation.\<close>

lemma concat_frames:
  assumes "length xs = length ys" and "concat (map f xs) @ u = concat (map f ys) @ v"
    and "\<forall>x\<in>set xs. \<forall>y\<in>set ys. \<forall>s t. f x @ s = f y @ t \<longrightarrow> x = y \<and> s = t"
  shows "xs = ys \<and> u = v"
  using assms
proof (induction xs ys arbitrary: u v rule: list_induct2)
  case (Cons x xs y ys)
  have "f x @ (concat (map f xs) @ u) = f y @ (concat (map f ys) @ v)"
    using Cons.prems(1) by (simp only: list.map concat.simps append_assoc)
  moreover have "\<forall>s t. f x @ s = f y @ t \<longrightarrow> x = y \<and> s = t"
    by (rule bspec [OF bspec [OF Cons.prems(2)]]) (rule list.set_intros)+
  ultimately have xy: "x = y" "concat (map f xs) @ u = concat (map f ys) @ v" by blast+
  have "\<forall>x\<in>set xs. \<forall>y\<in>set ys. \<forall>s t. f x @ s = f y @ t \<longrightarrow> x = y \<and> s = t"
    using Cons.prems(2) by (meson list.set_intros(2))
  with Cons.IH [OF xy(2)] xy(1) show ?case by blast
qed simp

section \<open>Commits\<close>

text \<open>No field or list is longer than a \<open>usize\<close> counts.\<close>

definition sized_write :: "conditional_write \<Rightarrow> bool" where
  "sized_write w \<longleftrightarrow>
     length (cw_path w) < 2 ^ 64 \<and> length (cw_bytes w) < 2 ^ 64 \<and> length (cw_metadata w) < 2 ^ 64 \<and>
     (\<forall>(k, v)\<in>set (cw_metadata w). length k < 2 ^ 64 \<and> length v < 2 ^ 64)"

lemma hash_write_append:
  assumes "sized_write a" and "sized_write b" and "hash_write a @ x = hash_write b @ y"
  shows "a = b \<and> x = y"
proof -
  let ?f = "\<lambda>(key, v). hash_field key @ hash_field v"
  have path: "cw_path a = cw_path b" and pre: "cw_precondition a = cw_precondition b"
    and rest: "(of_nat (length (cw_metadata a)) :: u64) = of_nat (length (cw_metadata b))"
      "concat (map ?f (cw_metadata a)) @ hash_field (cw_bytes a) @ x =
       concat (map ?f (cw_metadata b)) @ hash_field (cw_bytes b) @ y"
    using assms
    by (simp_all add: hash_write_def sized_write_def hash_field_append hash_precondition_append
        u64_to_be_bytes_append)
  have len: "length (cw_metadata a) = length (cw_metadata b)"
    using rest(1) assms(1,2) by (simp add: sized_write_def length_word_inj)
  have "cw_metadata a = cw_metadata b \<and> hash_field (cw_bytes a) @ x = hash_field (cw_bytes b) @ y"
  proof (rule concat_frames [OF len rest(2)], intro ballI allI impI)
    fix p q s t
    assume "p \<in> set (cw_metadata a)" "q \<in> set (cw_metadata b)" "?f p @ s = ?f q @ t"
    moreover obtain k v k' v' where pq: "p = (k, v)" "q = (k', v')" by (meson surj_pair)
    ultimately have "length k < 2 ^ 64" "length v < 2 ^ 64" "length k' < 2 ^ 64" "length v' < 2 ^ 64"
      "hash_field k @ hash_field v @ s = hash_field k' @ hash_field v' @ t"
      using assms(1,2) unfolding sized_write_def by auto
    then show "p = q \<and> s = t" using pq by (simp add: hash_field_append)
  qed
  moreover have "length (cw_bytes a) < 2 ^ 64" "length (cw_bytes b) < 2 ^ 64"
    using assms(1,2) by (simp_all add: sized_write_def)
  ultimately show ?thesis using path pre by (simp add: hash_field_append)
qed

lemma commit_id_input_inj:
  assumes "length d < 2 ^ 64" "sized_write sw" "length ws < 2 ^ 64" "\<forall>w\<in>set ws. sized_write w"
    and "length d' < 2 ^ 64" "sized_write sw'" "length ws' < 2 ^ 64" "\<forall>w\<in>set ws'. sized_write w"
    and eq: "commit_id_input d sw ws = commit_id_input d' sw' ws'"
  shows "d = d' \<and> sw = sw' \<and> ws = ws'"
proof -
  have "d = d'" and sw: "hash_write sw @ u64_to_be_bytes (of_nat (length ws)) @ concat (map hash_write ws) =
      hash_write sw' @ u64_to_be_bytes (of_nat (length ws')) @ concat (map hash_write ws')"
    using eq assms(1,5) by (simp_all add: commit_id_input_def hash_field_append)
  note sw' = hash_write_append [OF assms(2,6) sw]
  then have len: "length ws = length ws'" and "concat (map hash_write ws) @ [] = concat (map hash_write ws') @ []"
    using assms(3,7) by (simp_all add: u64_to_be_bytes_append length_word_inj)
  then have "ws = ws' \<and> ([] :: bytes) = []"
    by (rule concat_frames) (use assms(4,8) hash_write_append in blast)
  then show ?thesis using \<open>d = d'\<close> sw' by simp
qed

lemma hex_digit_inj:
  assumes "0 \<le> m" "m < 16" "0 \<le> n" "n < 16" and "hex_digit m = hex_digit n"
  shows "m = n"
proof -
  have val: "(of_char (hex_digit k) :: int) = (if k < 10 then 48 + k else 87 + k)" if "0 \<le> k" "k < 16" for k
    using that by (simp add: hex_digit_def)
  from assms(5) have "(of_char (hex_digit m) :: int) = of_char (hex_digit n)" by simp
  then show ?thesis using assms(1-4) by (simp add: val split: if_splits)
qed

lemma hex_lower_inj: "hex_lower a = hex_lower b \<Longrightarrow> a = b"
proof (induction a arbitrary: b)
  case Nil
  then show ?case by (cases b) (simp_all add: hex_lower_def)
next
  case (Cons x a)
  then obtain y b' where b: "b = y # b'" by (cases b) (simp_all add: hex_lower_def)
  have digits: "hex_digit (byte x div 16) = hex_digit (byte y div 16)"
      "hex_digit (byte x mod 16) = hex_digit (byte y mod 16)" and rest: "hex_lower a = hex_lower b'"
    using Cons.prems b by (simp_all add: hex_lower_def)
  have range: "0 \<le> byte c div 16" "byte c div 16 < 16" for c :: char
    using byte_nonneg [of c] byte_less_256 [of c] by linarith+
  have "byte x div 16 = byte y div 16" "byte x mod 16 = byte y mod 16"
    using digits range by (auto intro: hex_digit_inj)
  then have "byte x = byte y" by (metis div_mult_mod_eq)
  then have "x = y" by (simp add: byte_def)
  then show ?case using Cons.IH [OF rest] b by simp
qed

lemma commit_id_input_of:
  assumes "commit_id sha d sw ws = commit_id sha d' sw' ws'"
  shows "sha (commit_id_input d sw ws) = sha (commit_id_input d' sw' ws')"
  using assms by (auto simp: commit_id_def intro: hex_lower_inj)

end
