(* ===== verification/Outbox_Properties.thy ===== *)
theory Outbox_Properties
  imports Outbox_Commit Outbox_Identity
begin

text \<open>
  The properties of the cloud storage of the broker, over every provider of the store contract,
  with runs on the memory stores of the crate as their witnesses.
\<close>

section \<open>A commit on the memory stores\<close>

text \<open>A hash for the runs: the byte after the length of the first framed field.\<close>

definition short_sha :: sha where
  "short_sha bs = take 1 (drop 8 bs)"

definition object_write0 :: conditional_write where
  "object_write0 =
     \<lparr>cw_path = ''BOOX/d.pdf'', cw_bytes = ''A'', cw_metadata = [(''k'', ''v'')],
      cw_precondition = DoesNotExist\<rparr>"

definition release_write0 :: conditional_write where
  "release_write0 =
     \<lparr>cw_path = ''Conflicts/d/e/resolution.json'', cw_bytes = ''R'',
      cw_metadata = [(''inkbridge-kind'', ''conflict-resolution'')], cw_precondition = DoesNotExist\<rparr>"

definition state_write0 :: conditional_write where
  "state_write0 =
     \<lparr>cw_path = state_path ''d'', cw_bytes = ''S'', cw_metadata = [], cw_precondition = DoesNotExist\<rparr>"

definition commit0 :: "conditional_write list" where
  "commit0 = [object_write0, release_write0, state_write0]"

definition cloud0 :: cloud_memory where
  "cloud0 = (empty_objects, [])"

text \<open>The stores fail after the three payloads and the object are written: the release signal is
  what a recovery has to deliver.\<close>

definition failing_cloud :: cloud_memory where
  "failing_cloud = (mo_fail_after 4 empty_objects, [])"

definition failed_commit :: "cloud_memory \<times> (commit_error + stored_object list)" where
  "failed_commit = cloud_commit memory_cloud short_sha failing_cloud commit0"

definition repaired_cloud :: cloud_memory where
  "repaired_cloud = (mo_clear_failure (fst (fst failed_commit)), snd (fst failed_commit))"

lemma commit0_target: "commit_target commit0 = Some (2, ''d'')"
  by code_simp

lemma commit0_clean: "clean_paths ''d'' commit0"
  by code_simp

lemma commit0_fresh: "not_yet_active short_sha commit0 2 ''d'' default_record"
  by (simp add: not_yet_active_def default_record_def)

lemma cloud0_room: "n < 2 ^ 64 \<Longrightarrow> memory_room cloud0 n" "n < 2 ^ 64 \<Longrightarrow> memory_room failing_cloud n"
  by (simp_all add: memory_room_def cloud0_def failing_cloud_def mo_fail_after_def empty_objects_def)

lemma cloud0_load:
  "co_load memory_cloud cloud0 ''d'' = Inr default_record"
  "co_load memory_cloud failing_cloud ''d'' = Inr default_record"
  by (simp_all add: cloud0_def failing_cloud_def ms_load_def)

definition device_edit :: conditional_write where
  "device_edit =
     \<lparr>cw_path = ''BOOX/d.pdf'', cw_bytes = ''E'', cw_metadata = [], cw_precondition = Match 4\<rparr>"

lemma failed_commit_run:
  "case failed_commit of ((os, ss), res) \<Rightarrow>
     isl res \<and> \<not> isl (snd (mo_conditional_write (mo_clear_failure os) device_edit)) \<and>
     (case ms_load ss ''d'' of Inl _ \<Rightarrow> False | Inr r \<Rightarrow> sr_active r \<noteq> None)"
  by code_simp

lemma failed_commit_fails: "isl (snd failed_commit)"
  and failed_commit_pending: "co_load memory_cloud (fst failed_commit) ''d'' \<noteq> Inr default_record"
  using failed_commit_run by (auto simp: case_prod_unfold default_record_def)

lemma commit_record: "sr_pending default_record = None"
  by (simp add: default_record_def)

lemma failed_commit_suspended:
  "suspended memory_cloud short_sha (fst failed_commit) commit0 2 ''d'' default_record \<and>
   memory_room (fst failed_commit) 10"
proof -
  have run: "cloud_commit memory_cloud short_sha failing_cloud commit0 = (fst failed_commit, snd failed_commit)"
    by (simp add: failed_commit_def)
  have "memory_room failing_cloud (2 * length commit0 + 10)"
    by (rule cloud0_room) (simp add: commit0_def)
  from memory.commit_effect [OF run commit0_target commit0_clean this cloud0_load(2) commit_record commit0_fresh]
  show ?thesis using failed_commit_fails failed_commit_pending by (cases "snd failed_commit") auto
qed

lemma suspended_cong:
  assumes "co_read ops w' = co_read ops w" and "co_read_generation ops w' = co_read_generation ops w"
    and "co_load ops w' = co_load ops w" and "suspended ops sha w cws i d r0"
  shows "suspended ops sha w' cws i d r0"
  using assms(4)
  by (simp add: suspended_def recoverable_def in_flight_def assms(3) placed_cong [OF assms(1)]
      deliverable_cong [OF assms(1,2)] read_payload_cong [OF assms(2)])

lemma repaired_cloud_suspended:
  "suspended memory_cloud short_sha repaired_cloud commit0 2 ''d'' default_record"
  "memory_healthy repaired_cloud" "memory_room repaired_cloud 10"
proof -
  have objs: "mo_objects (fst repaired_cloud) = mo_objects (fst (fst failed_commit))"
    "mo_versions (fst repaired_cloud) = mo_versions (fst (fst failed_commit))"
    "mo_next_generation (fst repaired_cloud) = mo_next_generation (fst (fst failed_commit))"
    "snd repaired_cloud = snd (fst failed_commit)"
    by (simp_all add: repaired_cloud_def mo_clear_failure_def)
  show "suspended memory_cloud short_sha repaired_cloud commit0 2 ''d'' default_record"
    by (rule suspended_cong [of _ _ "fst failed_commit"])
      (use failed_commit_suspended objs in \<open>auto simp: fun_eq_iff\<close>)
  show "memory_healthy repaired_cloud"
    by (simp add: memory_healthy_def repaired_cloud_def mo_clear_failure_def)
  show "memory_room repaired_cloud 10"
    using failed_commit_suspended objs by (simp add: memory_room_def)
qed

lemma repaired_active:
  "\<exists>r. co_load memory_cloud repaired_cloud ''d'' = Inr r \<and> sr_active r \<noteq> sr_active default_record"
  using failed_commit_run
  by (auto simp: repaired_cloud_def default_record_def case_prod_unfold split: sum.splits)

lemma edit_succeeds: "\<exists>w1 obj. co_write memory_cloud repaired_cloud device_edit = (w1, Inr obj)"
proof -
  have "\<not> isl (snd (mo_conditional_write (fst repaired_cloud) device_edit))"
    using failed_commit_run by (simp add: repaired_cloud_def case_prod_unfold)
  then obtain obj where "snd (mo_conditional_write (fst repaired_cloud) device_edit) = Inr obj"
    by (cases "snd (mo_conditional_write (fst repaired_cloud) device_edit)") simp_all
  then show ?thesis
    by (cases "mo_conditional_write (fst repaired_cloud) device_edit") auto
qed

section \<open>Properties\<close>

text \<open>C18: Over every store that keeps the store contract, whatever fails: a commit of the cloud
  storage that succeeds makes every one of its writes readable with its bytes and metadata and
  leaves nothing pending; a commit that fails leaves the document's record as it was, or leaves
  a suspended commit that can be recovered, whose new canonical state is active only when every
  object of the commit is in place.\<close>

theorem outbox_commit_is_atomic:
  assumes "cloud_stores ops healthy room" and "cloud_commit ops sha w cws = (w', res)"
    and "commit_target cws = Some (i, d)" and "clean_paths d cws" and "room w (2 * length cws + n)"
    and "co_load ops w d = Inr r0" and "sr_pending r0 = None" and "not_yet_active sha cws i d r0"
  shows "case res of
      Inr objs \<Rightarrow> length objs = length cws \<and> (\<forall>cw\<in>set cws. visible ops sha show_error w' cw) \<and>
        (\<exists>r. co_load ops w' d = Inr r \<and> sr_pending r = None)
    | Inl e \<Rightarrow> co_load ops w' d = Inr r0 \<or> suspended ops sha w' cws i d r0"
proof (cases res)
  case (Inl e)
  then show ?thesis
    using cloud_stores.commit_effect [OF assms(1,2,3,4,5,6,7,8)] by auto
next
  case (Inr objs)
  then show ?thesis
    using cloud_stores.commit_effect [OF assms(1,2,3,4,5,6,7,8), of show_error] by auto
qed

theorem outbox_commit_is_atomic_witness:
  "(case snd failed_commit of
      Inr objs \<Rightarrow> length objs = length commit0 \<and>
        (\<forall>cw\<in>set commit0. visible memory_cloud short_sha (\<lambda>_. []) (fst failed_commit) cw) \<and>
        (\<exists>r. co_load memory_cloud (fst failed_commit) ''d'' = Inr r \<and> sr_pending r = None)
    | Inl e \<Rightarrow> co_load memory_cloud (fst failed_commit) ''d'' = Inr default_record \<or>
        suspended memory_cloud short_sha (fst failed_commit) commit0 2 ''d'' default_record) \<and>
   isl (snd failed_commit)"
proof
  show "isl (snd failed_commit)" by (rule failed_commit_fails)
  have run: "cloud_commit memory_cloud short_sha failing_cloud commit0 = (fst failed_commit, snd failed_commit)"
    by (simp add: failed_commit_def)
  have "memory_room failing_cloud (2 * length commit0 + 0)"
    by (rule cloud0_room) (simp add: commit0_def)
  from outbox_commit_is_atomic [OF memory.cloud_stores_axioms run commit0_target commit0_clean this
      cloud0_load(2) commit_record commit0_fresh]
  show "case snd failed_commit of
      Inr objs \<Rightarrow> length objs = length commit0 \<and>
        (\<forall>cw\<in>set commit0. visible memory_cloud short_sha (\<lambda>_. []) (fst failed_commit) cw) \<and>
        (\<exists>r. co_load memory_cloud (fst failed_commit) ''d'' = Inr r \<and> sr_pending r = None)
    | Inl e \<Rightarrow> co_load memory_cloud (fst failed_commit) ''d'' = Inr default_record \<or>
        suspended memory_cloud short_sha (fst failed_commit) commit0 2 ''d'' default_record" .
qed

text \<open>C19: \<open>recover\<close> finishes a suspended commit: when the stores are healthy it returns
  \<open>Ok(true)\<close>; whenever it returns a value, every write of the commit, the canonical state
  included, reads back and nothing is pending; and when it fails the commit is still suspended,
  so that it can be tried again.\<close>

theorem outbox_recovery_finishes:
  assumes "cloud_stores ops healthy room" and "recover ops sha show_error w d = (w', res)"
    and "suspended ops sha w cws i d r0" and "commit_target cws = Some (i, d)"
    and "\<forall>cw\<in>set (without_index i cws). \<not> is_state_path (cw_path cw)"
    and "clean_paths d cws" and "room w (length cws + n)"
  shows "(healthy w \<longrightarrow> res = Inr True) \<and>
    (case res of
       Inr b \<Rightarrow> b \<and> (\<forall>cw\<in>set cws. visible ops sha show_error w' cw) \<and>
         (\<exists>r. co_load ops w' d = Inr r \<and> sr_pending r = None)
     | Inl e \<Rightarrow> suspended ops sha w' cws i d r0 \<and> room w' n)"
  using cloud_stores.recover_suspended [OF assms] by (cases res) simp_all

theorem outbox_recovery_finishes_witness:
  "snd (recover memory_cloud short_sha (\<lambda>_. []) repaired_cloud ''d'') = Inr True \<and>
   list_all (visible memory_cloud short_sha (\<lambda>_. [])
      (fst (recover memory_cloud short_sha (\<lambda>_. []) repaired_cloud ''d''))) commit0"
proof -
  have "\<forall>cw\<in>set (without_index 2 commit0). \<not> is_state_path (cw_path cw)" by code_simp
  moreover have "memory_room repaired_cloud (length commit0 + 7)"
    using repaired_cloud_suspended(3) by (simp add: commit0_def)
  ultimately show ?thesis
    using outbox_recovery_finishes [where show_error = "\<lambda>_. []" and n = 7,
        OF memory.cloud_stores_axioms surjective_pairing repaired_cloud_suspended(1) commit0_target _
        commit0_clean]
      repaired_cloud_suspended(2)
    by (auto simp: list_all_iff)
qed

text \<open>C20: Once the new state of a suspended commit is active, an object it released may be edited
  by its device before the recovery: the recovery returns \<open>Ok(true)\<close> on healthy stores, the edit
  stays, and the canonical state of the commit reads back with nothing pending.\<close>

theorem outbox_recovery_keeps_edits:
  assumes "cloud_stores ops healthy room" and "suspended ops sha w cws i d r0"
    and "commit_target cws = Some (i, d)" and "clean_paths d cws"
    and "co_load ops w d = Inr r" and "sr_active r \<noteq> sr_active r0"
    and "co_write ops w cw = (w1, Inr obj)" and "\<not> staging_path d (cw_path cw)"
    and "\<forall>c\<in>set cws. is_post_finalize_release c \<longrightarrow> cw_path c \<noteq> cw_path cw"
    and "recover ops sha show_error w1 d = (w', res)" and "room w (Suc (length cws + n))"
  shows "(healthy w1 \<longrightarrow> res = Inr True) \<and>
    (\<forall>b. res = Inr b \<longrightarrow> b \<and> co_read ops w' (cw_path cw) = Inr (Some obj) \<and>
       visible ops sha show_error w' (cws ! i) \<and>
       (\<exists>r. co_load ops w' d = Inr r \<and> sr_pending r = None))"
  using cloud_stores.recover_edited [OF assms] .

theorem outbox_recovery_keeps_edits_witness:
  "\<exists>w1 obj. co_write memory_cloud repaired_cloud device_edit = (w1, Inr obj) \<and> so_bytes obj = ''E'' \<and>
     snd (recover memory_cloud short_sha (\<lambda>_. []) w1 ''d'') = Inr True \<and>
     co_read memory_cloud (fst (recover memory_cloud short_sha (\<lambda>_. []) w1 ''d'')) ''BOOX/d.pdf'' = Inr (Some obj)"
proof -
  obtain w1 obj where edit: "co_write memory_cloud repaired_cloud device_edit = (w1, Inr obj)"
    using edit_succeeds by blast
  have bytes: "so_bytes obj = ''E''" using memory.write_object [OF edit] by (simp add: device_edit_def)
  have path: "cw_path device_edit = ''BOOX/d.pdf''" by (simp add: device_edit_def)
  have apart: "\<not> staging_path ''d'' (cw_path device_edit)"
    "\<forall>c\<in>set commit0. is_post_finalize_release c \<longrightarrow> cw_path c \<noteq> cw_path device_edit"
    by code_simp+
  obtain r where r: "co_load memory_cloud repaired_cloud ''d'' = Inr r" "sr_active r \<noteq> sr_active default_record"
    using repaired_active by blast
  have room: "memory_room repaired_cloud (Suc (length commit0 + 6))"
    using repaired_cloud_suspended(3) by (simp add: commit0_def)
  have "memory_healthy w1" using memory.write_healthy [OF edit repaired_cloud_suspended(2)] .
  moreover note outbox_recovery_keeps_edits [where show_error = "\<lambda>_. []" and n = 6,
      OF memory.cloud_stores_axioms repaired_cloud_suspended(1) commit0_target commit0_clean r edit apart
        surjective_pairing room]
  ultimately have "snd (recover memory_cloud short_sha (\<lambda>_. []) w1 ''d'') = Inr True \<and>
     co_read memory_cloud (fst (recover memory_cloud short_sha (\<lambda>_. []) w1 ''d'')) ''BOOX/d.pdf'' = Inr (Some obj)"
    using path by auto
  then show ?thesis using edit bytes by blast
qed

text \<open>C21: Two commits whose digest inputs do not collide have the same commit identity exactly
  when they are the same commit: document, state write and object writes, with their paths,
  preconditions, metadata and bytes.\<close>

theorem commit_ids_identify_commits:
  assumes "length d < 2 ^ 64" and "sized_write sw" and "length ws < 2 ^ 64" and "\<forall>w\<in>set ws. sized_write w"
    and "length d' < 2 ^ 64" and "sized_write sw'" and "length ws' < 2 ^ 64" and "\<forall>w\<in>set ws'. sized_write w"
    and "sha (commit_id_input d sw ws) = sha (commit_id_input d' sw' ws') \<Longrightarrow>
      commit_id_input d sw ws = commit_id_input d' sw' ws'"
  shows "commit_id sha d sw ws = commit_id sha d' sw' ws' \<longleftrightarrow> d = d' \<and> sw = sw' \<and> ws = ws'"
proof
  assume "commit_id sha d sw ws = commit_id sha d' sw' ws'"
  then have "commit_id_input d sw ws = commit_id_input d' sw' ws'"
    using assms(9) commit_id_input_of by blast
  then show "d = d' \<and> sw = sw' \<and> ws = ws'" using commit_id_input_inj [OF assms(1-8)] by blast
qed simp

theorem commit_ids_identify_commits_witness:
  "commit_id short_sha ''d'' state_write0 [object_write0] \<noteq> commit_id short_sha ''e'' state_write0 [object_write0]"
proof -
  have sized: "sized_write state_write0" "\<forall>w\<in>set [object_write0]. sized_write w"
    by (simp_all add: sized_write_def state_write0_def object_write0_def state_path_def)
  have "short_sha (commit_id_input ''d'' state_write0 [object_write0]) \<noteq>
      short_sha (commit_id_input ''e'' state_write0 [object_write0])" by code_simp
  with commit_ids_identify_commits [of "''d''" state_write0 "[object_write0]" "''e''" state_write0
      "[object_write0]" short_sha] sized
  show ?thesis by simp
qed

section \<open>The order of the answer\<close>

text \<open>The delivered objects come with the objects first and the release signals last, and the
  answer pairs them with the writes by position: when a release write precedes an object write,
  each is answered with the other's object.  No caller orders its writes so.\<close>

lemma release_before_object_is_misanswered:
  "(case snd (cloud_commit memory_cloud short_sha cloud0 [release_write0, object_write0, state_write0]) of
      Inl _ \<Rightarrow> False | Inr objs \<Rightarrow> map so_bytes objs = [''A'', ''R'', ''S''])"
  by code_simp

end
