(* ===== verification/Cloud_Runtime.thy ===== *)
theory Cloud_Runtime
  imports Outbox Broker_Process Conflict_Resolve
begin

text \<open>
  \<open>inkbridge-cloud-runtime\<close>: the translation of a finalized Cloud Storage object into a broker
  event (\<open>eventarc.rs\<close>) and the service that runs the broker's handlers over the outbox
  (\<open>runtime.rs\<close>).  The decoder of the JSON body is the parameter \<open>body_of_json\<close>; the HTTP router
  and its JSON answers are left out, the status of an answer is modelled.
\<close>

section \<open>Finalized objects\<close>

record cloud_object =
  fo_bucket :: string
  fo_name :: string
  fo_generation :: string
  fo_metadata :: "(string, string) bmap"

record registration_event =
  rg_event_id :: string
  rg_object_path :: string
  rg_source_generation :: u64
  rg_original_file_name :: string

datatype event_translation =
    ProcessEvent storage_event
  | RegisterEvent registration_event
  | IgnoreEvent string

definition storage_finalized_event_type :: string where
  "storage_finalized_event_type = ''google.cloud.storage.object.v1.finalized''"

definition header_value :: "(string, string) bmap \<Rightarrow> string \<Rightarrow> string option" where
  "header_value headers name =
     map_option snd (find (\<lambda>(key, _). eq_ignore_ascii_case key name) headers)"

definition required_metadata :: "(string, string) bmap \<Rightarrow> string \<Rightarrow> string + string" where
  "required_metadata metadata name =
     (case bm_get metadata name of
        Some v \<Rightarrow>
          if blank v then Inl (''Cloud Storage object metadata is missing '' @ name) else Inr v
      | None \<Rightarrow> Inl (''Cloud Storage object metadata is missing '' @ name))"

definition parse_metadata_u64 :: "string \<Rightarrow> string \<Rightarrow> string + u64" where
  "parse_metadata_u64 message v =
     map_err (\<lambda>e. message @ '': '' @ show_parse_error e) (parse_u64 v)"

definition parse_revisions :: "string \<Rightarrow> string + revision_pair" where
  "parse_revisions v =
     rbind (ok_or ''broker revision metadata must use boox:supernote'' (split_once (CHR '':'') v))
       (\<lambda>(boox, supernote).
     rbind (parse_metadata_u64 ''invalid generated BOOX revision'' boox) (\<lambda>b.
     rbind (parse_metadata_u64 ''invalid generated Supernote revision'' supernote) (\<lambda>s.
       Inr \<lparr>rp_boox = b, rp_supernote = s\<rparr>)))"

definition metadata_is_true :: "(string, string) bmap \<Rightarrow> string \<Rightarrow> bool" where
  "metadata_is_true metadata name =
     (case bm_get metadata name of
        Some v \<Rightarrow> eq_ignore_ascii_case v ''true''
      | None \<Rightarrow> False)"

text \<open>An object in \<open>Staging/\<close>.\<close>

definition translate_staging ::
    "cloud_object \<Rightarrow> string \<Rightarrow> u64 \<Rightarrow> string + event_translation" where
  "translate_staging obj event_id generation =
     (if \<not> metadata_is_true (fo_metadata obj) ''inkbridge-register-original'' then
        Inr (IgnoreEvent (''staging object '' @ fo_name obj @
                          '' is not marked for document registration''))
      else
        let named = (case bm_get (fo_metadata obj) ''inkbridge-original-file-name'' of
                       Some v \<Rightarrow> if blank v then None else Some v
                     | None \<Rightarrow> None);
            last = last_segment (\<lambda>c. c = CHR ''/'') (fo_name obj)
        in rbind (ok_or ''registration object has no usable file name''
                    (case named of
                       Some v \<Rightarrow> Some v
                     | None \<Rightarrow> if blank last then None else Some last)) (\<lambda>name.
           Inr (RegisterEvent
             \<lparr>rg_event_id = event_id, rg_object_path = fo_name obj,
              rg_source_generation = generation, rg_original_file_name = name\<rparr>)))"

text \<open>The revisions of an event: those the broker recorded on its own output, or those the
  device's uploader declares.\<close>

definition event_revisions ::
    "(string, string) bmap \<Rightarrow> device_side \<Rightarrow> string \<Rightarrow> bool \<Rightarrow>
       string + u64 \<times> revision_pair \<times> output_marker option" where
  "event_revisions metadata source document_id generated =
     (if generated then
        rbind (rbind (required_metadata metadata ''inkbridge-source-revisions'') parse_revisions)
          (\<lambda>revs.
        rbind (required_metadata metadata ''inkbridge-event-id'') (\<lambda>marker_event.
          Inr (rp_get revs source, revs,
               Some \<lparr>om_producer = broker_producer, om_event_id = marker_event,
                     om_document_id = document_id, om_source_revisions = revs\<rparr>)))
      else
        rbind (rbind (required_metadata metadata ''inkbridge-source-revision'')
                 (parse_metadata_u64 ''invalid source revision'')) (\<lambda>source_revision.
        rbind (rbind (required_metadata metadata ''inkbridge-based-on-boox'')
                 (parse_metadata_u64 ''invalid BOOX base revision'')) (\<lambda>boox.
        rbind (rbind (required_metadata metadata ''inkbridge-based-on-supernote'')
                 (parse_metadata_u64 ''invalid Supernote base revision'')) (\<lambda>supernote.
          Inr (source_revision, \<lparr>rp_boox = boox, rp_supernote = supernote\<rparr>, None)))))"

definition event_payload_kind :: "(string, string) bmap \<Rightarrow> device_side \<Rightarrow> string + payload_kind" where
  "event_payload_kind metadata source =
     (case bm_get metadata ''inkbridge-payload-kind'' of
        None \<Rightarrow> Inr DeviceView
      | Some v \<Rightarrow>
          if v = ''device_view'' then Inr DeviceView
          else if v = ''boox_operation_manifest'' \<and> source = Boox then Inr BooxOperationManifest
          else Inl (''unsupported InkBridge payload kind '' @ v @ '' for '' @ show_side source))"

definition source_of_path :: "string \<Rightarrow> device_side option" where
  "source_of_path path =
     (if prefix ''BOOX_Folder/'' path then Some Boox
      else if prefix ''Supernote_Folder/'' path then Some Supernote
      else None)"

definition translate_device_object ::
    "cloud_object \<Rightarrow> string \<Rightarrow> u64 \<Rightarrow> device_side \<Rightarrow> string + event_translation" where
  "translate_device_object obj event_id generation source =
     rbind (required_metadata (fo_metadata obj) ''inkbridge-document-id'') (\<lambda>document_id.
     let generated =
           (bm_get (fo_metadata obj) ''inkbridge-generated-by'' = Some broker_producer)
     in if \<not> generated \<and> \<not> metadata_is_true (fo_metadata obj) ''inkbridge-sync-ready'' then
          Inr (IgnoreEvent (''object '' @ fo_name obj @
                            '' is not marked as a finalized InkBridge update''))
        else
          rbind (event_revisions (fo_metadata obj) source document_id generated)
            (\<lambda>(source_revision, based_on, marker).
          rbind (event_payload_kind (fo_metadata obj) source) (\<lambda>kind.
            Inr (ProcessEvent
              \<lparr>ev_schema_version = event_schema_version, ev_event_id = event_id,
               ev_document_id = document_id, ev_source = source, ev_object_path = fo_name obj,
               ev_source_generation = generation, ev_source_revision = source_revision,
               ev_based_on = based_on,
               ev_content_sha256 =
                 (case bm_get (fo_metadata obj) ''inkbridge-content-sha256'' of
                    Some h \<Rightarrow> h | None \<Rightarrow> []),
               ev_payload_kind = kind, ev_broker_output = marker\<rparr>))))"

definition translate_storage_finalized_event ::
    "(bytes \<Rightarrow> string + cloud_object) \<Rightarrow> string \<Rightarrow> (string, string) bmap \<Rightarrow> bytes \<Rightarrow>
       string + event_translation" where
  "translate_storage_finalized_event body_of_json bucket headers body =
     rbind (ok_or ''Eventarc request is missing ce-type'' (header_value headers ''ce-type''))
       (\<lambda>event_type.
     if event_type \<noteq> storage_finalized_event_type then
       Inr (IgnoreEvent (''unsupported CloudEvent type '' @ event_type))
     else
       rbind (ok_or ''Eventarc request is missing ce-id'' (header_value headers ''ce-id''))
         (\<lambda>event_id.
       rbind (map_err (\<lambda>e. ''invalid Eventarc body: '' @ e) (body_of_json body)) (\<lambda>obj.
       if fo_bucket obj \<noteq> bucket then
         Inr (IgnoreEvent (''event is for bucket '' @ fo_bucket obj @ '', not '' @ bucket))
       else
         rbind (parse_metadata_u64 ''invalid Cloud Storage generation'' (fo_generation obj))
           (\<lambda>generation.
         if prefix ''Staging/'' (fo_name obj) then translate_staging obj event_id generation
         else (case source_of_path (fo_name obj) of
                 None \<Rightarrow> Inr (IgnoreEvent (''object '' @ fo_name obj @
                                            '' is outside both device folders''))
               | Some source \<Rightarrow> translate_device_object obj event_id generation source)))))"

text \<open>Public, but not called within the repository: the broker hashes the bytes it reads itself.\<close>

definition hydrate_content_hash :: "sha \<Rightarrow> storage_event \<Rightarrow> bytes \<Rightarrow> string + storage_event" where
  "hydrate_content_hash sha ev bs =
     (let actual = sha256_hex sha bs in
      if ev_content_sha256 ev = [] then Inr (ev\<lparr>ev_content_sha256 := actual\<rparr>)
      else if ev_content_sha256 ev \<noteq> actual then
        Inl (''event metadata content hash '' @ ev_content_sha256 ev @
             '' does not match object bytes '' @ actual)
      else Inr ev)"

section \<open>The service\<close>

text \<open>The broker's storage trait, provided by the outbox.\<close>

definition cloud_storage ::
    "'w cloud_ops \<Rightarrow> sha \<Rightarrow> (commit_error \<Rightarrow> string) \<Rightarrow> 'w storage_ops" where
  "cloud_storage ops sha show_error =
     \<lparr>bs_read = cloud_read ops sha show_error,
      bs_read_generation = cloud_read_generation ops sha show_error,
      bs_commit = cloud_commit ops sha\<rparr>"

text \<open>\<open>Display\<close> of a broker error; the texts of a commit error and of an optional hash are
  \<open>Debug\<close> outputs, left abstract.\<close>

definition show_broker_error ::
    "(commit_error \<Rightarrow> string) \<Rightarrow> (string option \<Rightarrow> string) \<Rightarrow> broker_error \<Rightarrow> string" where
  "show_broker_error show_error show_hash e =
     (case e of
        InvalidEvent m \<Rightarrow> m | MissingObject m \<Rightarrow> m | CorruptState m \<Rightarrow> m | Conversion m \<Rightarrow> m
      | StorageError m \<Rightarrow> m
      | StaleDestination path expected actual \<Rightarrow>
          ''destination '' @ path @ '' changed since the broker generated it (expected '' @
          show_hash expected @ '', found '' @ show_hash actual @ '')''
      | ConditionalWriteFailed ce \<Rightarrow> ''conditional write failed: '' @ show_error ce)"

record runtime_env =
  rt_bucket :: string
  rt_ext :: ext
  rt_body_of_json :: "bytes \<Rightarrow> string + cloud_object"
  rt_show_error :: "commit_error \<Rightarrow> string"
  rt_show_hash :: "string option \<Rightarrow> string"

definition rt_storage :: "runtime_env \<Rightarrow> 'w cloud_ops \<Rightarrow> 'w storage_ops" where
  "rt_storage E ops = cloud_storage ops (x_sha (rt_ext E)) (rt_show_error E)"

definition rt_recover :: "runtime_env \<Rightarrow> 'w cloud_ops \<Rightarrow> 'w \<Rightarrow> string \<Rightarrow> 'w \<times> (string + bool)" where
  "rt_recover E ops = recover ops (x_sha (rt_ext E)) (rt_show_error E)"

definition rt_show :: "runtime_env \<Rightarrow> broker_error \<Rightarrow> string" where
  "rt_show E = show_broker_error (rt_show_error E) (rt_show_hash E)"

datatype runtime_outcome =
    IgnoredOutcome string
  | RejectedOutcome string
  | RegisteredOutcome string string string u64
  | ProcessedOutcome process_outcome

definition register_storage_event ::
    "runtime_env \<Rightarrow> 'w cloud_ops \<Rightarrow> 'w \<Rightarrow> registration_event \<Rightarrow> 'w \<times> (string + runtime_outcome)" where
  "register_storage_event E ops w rg =
     attempt w (co_read_generation ops w (rg_object_path rg) (rg_source_generation rg)) (\<lambda>found.
     attempt w (ok_or (''registration source '' @ rg_object_path rg @ '' generation '' @
                       show_u64 (rg_source_generation rg) @ '' does not exist'') found) (\<lambda>original.
     case register_document (rt_storage E ops) (rt_ext E) w (rg_original_file_name rg)
            (so_bytes original) of
       (w', Inr st) \<Rightarrow>
         (w', Inr (RegisteredOutcome (rg_event_id rg) (st_document_id st)
                     (st_original_pdf_sha256 st) (st_state_revision st)))
     | (w', Inl (InvalidEvent reason)) \<Rightarrow> (w', Inr (RejectedOutcome reason))
     | (w', Inl e) \<Rightarrow> (w', Inl (rt_show E e))))"

definition handle_storage_event ::
    "runtime_env \<Rightarrow> 'w cloud_ops \<Rightarrow> 'w \<Rightarrow> (string, string) bmap \<Rightarrow> bytes \<Rightarrow>
       'w \<times> (string + runtime_outcome)" where
  "handle_storage_event E ops w headers body =
     (case translate_storage_finalized_event (rt_body_of_json E) (rt_bucket E) headers body of
        Inl reason \<Rightarrow> (w, Inr (RejectedOutcome reason))
      | Inr (RegisterEvent rg) \<Rightarrow> register_storage_event E ops w rg
      | Inr (IgnoreEvent reason) \<Rightarrow> (w, Inr (IgnoredOutcome reason))
      | Inr (ProcessEvent ev) \<Rightarrow>
          and_then (rt_recover E ops w (ev_document_id ev)) (\<lambda>w1 _.
          case process (rt_storage E ops) (rt_ext E) default_normalized_y_offset w1 ev of
            (w2, Inr out) \<Rightarrow> (w2, Inr (ProcessedOutcome out))
          | (w2, Inl (InvalidEvent reason)) \<Rightarrow> (w2, Inr (RejectedOutcome reason))
          | (w2, Inl e) \<Rightarrow> (w2, Inl (rt_show E e))))"

record register_request =
  rr_original_object_path :: string
  rr_original_file_name :: string
  rr_source_generation :: "u64 option"

definition rt_register_document ::
    "runtime_env \<Rightarrow> 'w cloud_ops \<Rightarrow> 'w \<Rightarrow> register_request \<Rightarrow> 'w \<times> (string + document_state)" where
  "rt_register_document E ops w rq =
     attempt w (co_read ops w (rr_original_object_path rq)) (\<lambda>found.
     attempt w (ok_or (''registration source '' @ rr_original_object_path rq @ '' does not exist'')
                  found) (\<lambda>original.
     if (case rr_source_generation rq of Some g \<Rightarrow> g \<noteq> so_generation original | None \<Rightarrow> False) then
       (w, Inl (''registration source generation changed: expected '' @
                show_generation (rr_source_generation rq) @ '', found '' @
                show_u64 (so_generation original)))
     else
       (case register_document (rt_storage E ops) (rt_ext E) w (rr_original_file_name rq)
               (so_bytes original) of
          (w', Inl e) \<Rightarrow> (w', Inl (rt_show E e))
        | (w', Inr st) \<Rightarrow> (w', Inr st))))"

definition after_recovery ::
    "runtime_env \<Rightarrow> 'w cloud_ops \<Rightarrow> 'w \<Rightarrow> string \<Rightarrow> ('w \<Rightarrow> 'w \<times> (broker_error + 'a)) \<Rightarrow>
       'w \<times> (broker_error + 'a)" where
  "after_recovery E ops w document_id f =
     (case rt_recover E ops w document_id of
        (w1, Inl e) \<Rightarrow> (w1, Inl (StorageError e))
      | (w1, Inr _) \<Rightarrow> f w1)"

record resolve_request =
  vr_schema_version :: u32
  vr_resolution_id :: string
  vr_expected_state_revision :: u64
  vr_expected_current_revisions :: revision_pair
  vr_strategy :: strategy

definition rt_list_conflicts ::
    "runtime_env \<Rightarrow> 'w cloud_ops \<Rightarrow> 'w \<Rightarrow> string \<Rightarrow> 'w \<times> (broker_error + conflict_summary list)" where
  "rt_list_conflicts E ops w document_id =
     after_recovery E ops w document_id (\<lambda>w1.
       (w1, list_conflicts (rt_storage E ops) (rt_ext E) w1 document_id))"

definition rt_inspect_conflict ::
    "runtime_env \<Rightarrow> 'w cloud_ops \<Rightarrow> 'w \<Rightarrow> string \<Rightarrow> string \<Rightarrow> 'w \<times> (broker_error + conflict_analysis)" where
  "rt_inspect_conflict E ops w document_id conflict_event_id =
     after_recovery E ops w document_id (\<lambda>w1.
       (w1, inspect_conflict (rt_storage E ops) (rt_ext E) default_normalized_y_offset w1
              document_id conflict_event_id))"

definition rt_resolve_conflict ::
    "runtime_env \<Rightarrow> 'w cloud_ops \<Rightarrow> 'w \<Rightarrow> string \<Rightarrow> string \<Rightarrow> resolve_request \<Rightarrow>
       'w \<times> (broker_error + resolution_outcome)" where
  "rt_resolve_conflict E ops w document_id conflict_event_id rq =
     after_recovery E ops w document_id (\<lambda>w1.
       resolve_conflict (rt_storage E ops) (rt_ext E) default_normalized_y_offset w1
         \<lparr>rq_schema_version = vr_schema_version rq, rq_resolution_id = vr_resolution_id rq,
          rq_document_id = document_id, rq_conflict_event_id = conflict_event_id,
          rq_expected_state_revision = vr_expected_state_revision rq,
          rq_expected_current_revisions = vr_expected_current_revisions rq,
          rq_strategy = vr_strategy rq\<rparr>)"

section \<open>Answers\<close>

datatype http_status = OkStatus | NotFound | Conflict | BadRequest | InternalServerError

definition event_status :: "string + runtime_outcome \<Rightarrow> http_status" where
  "event_status r = (case r of Inr _ \<Rightarrow> OkStatus | Inl _ \<Rightarrow> InternalServerError)"

definition contains_text :: "string \<Rightarrow> string \<Rightarrow> bool" where
  "contains_text s part \<longleftrightarrow> after_first part s \<noteq> None"

definition conflict_error_status :: "broker_error \<Rightarrow> http_status" where
  "conflict_error_status e =
     (case e of
        MissingObject _ \<Rightarrow> NotFound
      | InvalidEvent m \<Rightarrow>
          if contains_text m ''not active'' then NotFound
          else if contains_text m ''stale'' \<or> contains_text m ''already resolved'' \<or>
                  contains_text m ''already recorded strategy'' then Conflict
          else BadRequest
      | StaleDestination _ _ _ \<Rightarrow> Conflict
      | ConditionalWriteFailed (PreconditionFailed _ _ _) \<Rightarrow> Conflict
      | ConditionalWriteFailed (OtherCommitError _) \<Rightarrow> InternalServerError
      | CorruptState _ \<Rightarrow> InternalServerError
      | Conversion _ \<Rightarrow> InternalServerError
      | StorageError _ \<Rightarrow> InternalServerError)"

end
