(* ===== verification/Cloud_Properties.thy ===== *)
theory Cloud_Properties
  imports Cloud_Runtime Gateway_Example
begin

text \<open>
  Properties of the cloud service (\<open>inkbridge-cloud-runtime\<close>): what the gateway uploads and what
  the broker writes comes back from the storage notification as the event it stands for.
\<close>

section \<open>Metadata of an upload\<close>

lemma show_u64_visible: "\<not> blank (show_u64 w @ xs)"
proof -
  obtain c s where s: "show_int (uint w) = c # s" using show_int_nonempty by (cases "show_int (uint w)") auto
  have "is_digit c" using show_int_digits [of "uint w"] s by simp
  then have "32 < byte c \<and> byte c < 128" by (auto simp: is_digit_def)
  with s show ?thesis by (simp add: show_u64_def blank_Cons_visible)
qed

lemma upload_metadata_get:
  "bm_get (upload_metadata f d e h r b k) ''inkbridge-document-id'' = Some d"
  "bm_get (upload_metadata f d e h r b k) ''inkbridge-source-revision'' = Some (show_u64 r)"
  "bm_get (upload_metadata f d e h r b k) ''inkbridge-based-on-boox'' = Some (show_u64 (rp_boox b))"
  "bm_get (upload_metadata f d e h r b k) ''inkbridge-based-on-supernote'' = Some (show_u64 (rp_supernote b))"
  "bm_get (upload_metadata f d e h r b k) ''inkbridge-sync-ready'' = Some ''true''"
  "bm_get (upload_metadata f d e h r b k) ''inkbridge-payload-kind'' = Some (payload_name k)"
  "bm_get (upload_metadata f d e h r b k) ''inkbridge-content-sha256'' = Some h"
  "bm_get (upload_metadata f d e h r b k) ''inkbridge-generated-by'' = None"
  by (simp_all add: upload_metadata_def bm_of_list_def)

lemma prepare_upload_metadata:
  assumes "prepare_drive_input sha cfg c change bs frontier = Inr (UploadInput i)"
  shows "pr_metadata i = upload_metadata (dc_file change) (pr_document_id i) (pr_drive_event_id i)
      (pr_content_sha256 i) (pr_source_revision i) (pr_based_on i) (pr_payload_kind i)"
    and "supported_payload_kind (pr_source i) (fr_mime_type (dc_file change)) = Some (pr_payload_kind i)"
proof -
  from assms obtain b h e where
    up: "prepare_upload sha cfg c (dc_file change) b h e frontier = Inr (UploadInput i)"
    by (auto simp: prepare_drive_input_def Let_def result_simps split: if_splits option.splits)
  then show "pr_metadata i = upload_metadata (dc_file change) (pr_document_id i) (pr_drive_event_id i)
      (pr_content_sha256 i) (pr_source_revision i) (pr_based_on i) (pr_payload_kind i)"
    and "supported_payload_kind (pr_source i) (fr_mime_type (dc_file change)) = Some (pr_payload_kind i)"
    by (auto simp: prepare_upload_def result_simps split: if_splits option.splits)
qed

text \<open>The document of an owned file is a stable one, so its id is not blank.\<close>

lemma owned_document_visible:
  assumes "checkpoint_wf c" and "validate_checkpoint c = Inr ()" and "owner c f = Some (d, s)"
  shows "\<not> blank d"
proof -
  note ok = checkpoint_okD [OF assms(1,2)]
  obtain b where b: "bm_get (ck_documents c) d = Some b"
    using assms(3) owner_of_iff [OF ok(3,2)] by blast
  have "d = ''inkbridge-doc-v1-'' @ db_original_pdf_sha256 b"
    using docs_okD(1,2) [OF ok(2) b] by (simp add: stable_binding_def)
  then show ?thesis by (simp add: blank_Cons_visible byte_def)
qed

lemma source_of_side_path: "source_of_path (side_folder s @ CHR ''/'' # rest) = Some s"
  by (cases s) (simp_all add: source_of_path_def side_folder_def)

lemma side_path_not_staging: "\<not> prefix ''Staging/'' (side_folder s @ rest)"
  by (cases s) (simp_all add: side_folder_def)

lemma required_metadata_ok:
  "bm_get m k = Some v \<Longrightarrow> \<not> blank v \<Longrightarrow> required_metadata m k = Inr v"
  by (simp add: required_metadata_def)

lemma translate_below_device_folder:
  assumes "header_value headers ''ce-type'' = Some storage_finalized_event_type"
    and "header_value headers ''ce-id'' = Some event_id"
    and "body_of_json body = Inr obj" and "fo_bucket obj = bucket" and "fo_generation obj = show_u64 g"
    and "fo_name obj = side_folder s @ ''/'' @ rest"
  shows "translate_storage_finalized_event body_of_json bucket headers body =
    translate_device_object obj event_id g s"
  using assms side_path_not_staging [of s "''/'' @ rest"]
  by (simp add: translate_storage_finalized_event_def parse_metadata_u64_def source_of_side_path)

section \<open>Round trips\<close>

text \<open>C22: an upload of the gateway comes back as the event it stands for.  The notification of the
  finalized object that the gateway wrote for a prepared Drive input is translated into exactly
  one event: the document, the device, the revision, the frontier it is based on, the content
  hash and the payload kind the gateway decided, with no marker of a broker output, and the hash
  check of the broker passes on the bytes of the Drive file.\<close>

theorem upload_becomes_its_event:
  assumes "prepare_drive_input sha cfg c change bs frontier = Inr (UploadInput i)"
    and "checkpoint_wf c"
    and "header_value headers ''ce-type'' = Some storage_finalized_event_type"
    and "header_value headers ''ce-id'' = Some event_id"
    and "body_of_json body = Inr \<lparr>fo_bucket = bucket, fo_name = pr_gcs_object_path i,
           fo_generation = show_u64 g, fo_metadata = pr_metadata i\<rparr>"
  shows "\<exists>ev. translate_storage_finalized_event body_of_json bucket headers body = Inr (ProcessEvent ev) \<and>
    ev = \<lparr>ev_schema_version = event_schema_version, ev_event_id = event_id,
      ev_document_id = pr_document_id i, ev_source = pr_source i,
      ev_object_path = pr_gcs_object_path i, ev_source_generation = g,
      ev_source_revision = pr_source_revision i, ev_based_on = pr_based_on i,
      ev_content_sha256 = sha256_hex sha bs, ev_payload_kind = pr_payload_kind i,
      ev_broker_output = None\<rparr> \<and>
    hydrate_content_hash sha ev bs = Inr ev"
proof -
  note up = prepare_upload_ok [OF assms(1)] and meta = prepare_upload_metadata [OF assms(1)]
  let ?o = "\<lparr>fo_bucket = bucket, fo_name = pr_gcs_object_path i,
           fo_generation = show_u64 g, fo_metadata = pr_metadata i\<rparr>"
  let ?m = "pr_metadata i"
  obtain rest where path: "pr_gcs_object_path i = side_folder (pr_source i) @ ''/'' @ rest"
    using up(16) by auto
  have t: "translate_storage_finalized_event body_of_json bucket headers body =
      translate_device_object ?o event_id g (pr_source i)"
    using translate_below_device_folder [where obj = ?o and body_of_json = body_of_json, OF assms(3-5)]
    by (simp add: path)
  have get: "bm_get ?m ''inkbridge-content-sha256'' = Some (sha256_hex sha bs)"
    "bm_get ?m ''inkbridge-generated-by'' = None"
    "bm_get ?m ''inkbridge-payload-kind'' = Some (payload_name (pr_payload_kind i))"
    "metadata_is_true ?m ''inkbridge-sync-ready''"
    unfolding meta(1) metadata_is_true_def
    by (simp_all add: upload_metadata_get up(6) eq_ignore_ascii_case_def)
  have req: "required_metadata ?m ''inkbridge-document-id'' = Inr (pr_document_id i)"
    "required_metadata ?m ''inkbridge-source-revision'' = Inr (show_u64 (pr_source_revision i))"
    "required_metadata ?m ''inkbridge-based-on-boox'' = Inr (show_u64 (rp_boox (pr_based_on i)))"
    "required_metadata ?m ''inkbridge-based-on-supernote'' = Inr (show_u64 (rp_supernote (pr_based_on i)))"
    using owned_document_visible [OF assms(2) up(2) up(9)] unfolding meta(1)
    by (simp_all add: required_metadata_ok upload_metadata_get show_u64_visible [where xs = "[]", simplified])
  have revs: "event_revisions ?m (pr_source i) (pr_document_id i) False =
      Inr (pr_source_revision i, pr_based_on i, None)"
    by (simp add: event_revisions_def req parse_metadata_u64_def)
  have "pr_payload_kind i = BooxOperationManifest \<Longrightarrow> pr_source i = Boox"
    using meta(2) by (cases "pr_source i") (auto simp: supported_payload_kind_def split: if_splits)
  then have kind: "event_payload_kind ?m (pr_source i) = Inr (pr_payload_kind i)"
    by (cases "pr_payload_kind i") (simp_all add: event_payload_kind_def get payload_name_def)
  show ?thesis
    by (simp add: t translate_device_object_def req get revs kind hydrate_content_hash_def Let_def)
qed

theorem upload_becomes_its_event_witness:
  "\<exists>ev. translate_storage_finalized_event
      (\<lambda>_. Inr \<lparr>fo_bucket = ''b'', fo_name = pr_gcs_object_path input1,
                 fo_generation = show_u64 7, fo_metadata = pr_metadata input1\<rparr>) ''b''
      [(''CE-Id'', ''n''), (''ce-type'', storage_finalized_event_type)] ''{}'' = Inr (ProcessEvent ev) \<and>
    ev_content_sha256 ev = sha256_hex pad_sha ''Q'' \<and> ev_source_revision ev = 1"
proof -
  have "header_value [(''CE-Id'', ''n''), (''ce-type'', storage_finalized_event_type)] ''ce-type'' =
      Some storage_finalized_event_type"
    "header_value [(''CE-Id'', ''n''), (''ce-type'', storage_finalized_event_type)] ''ce-id'' = Some ''n''"
    by code_simp+
  moreover have "pr_source_revision input1 = 1" by code_simp
  ultimately show ?thesis
    using upload_becomes_its_event [where bucket = "''b''" and g = 7 and body = "''{}''" and
        body_of_json = "\<lambda>_. Inr \<lparr>fo_bucket = ''b'', fo_name = pr_gcs_object_path input1,
          fo_generation = show_u64 7, fo_metadata = pr_metadata input1\<rparr>",
        OF input1_prepared] checkpoint1_valid by auto
qed

text \<open>C23: an output of the broker comes back as its own echo.  The notification of an object the
  broker wrote below a device folder with the metadata of its marker is translated into an event
  that carries exactly this marker, with the revision of the folder's side, and the broker's test
  recognises it as its own output.\<close>

theorem broker_output_becomes_its_echo:
  assumes "om_producer marker = broker_producer"
    and "\<not> blank (om_event_id marker)" and "\<not> blank (om_document_id marker)"
    and "header_value headers ''ce-type'' = Some storage_finalized_event_type"
    and "header_value headers ''ce-id'' = Some event_id"
    and "body_of_json body = Inr \<lparr>fo_bucket = bucket, fo_name = path,
           fo_generation = show_u64 g, fo_metadata = output_metadata marker hash\<rparr>"
    and "path = side_folder s @ ''/'' @ rest"
  shows "\<exists>ev. translate_storage_finalized_event body_of_json bucket headers body = Inr (ProcessEvent ev) \<and>
    ev_document_id ev = om_document_id marker \<and> ev_source ev = s \<and> ev_object_path ev = path \<and>
    ev_broker_output ev = Some marker \<and> ev_based_on ev = om_source_revisions marker \<and>
    ev_source_revision ev = rp_get (om_source_revisions marker) s \<and>
    is_broker_output ev (output_metadata marker hash) hash"
proof -
  let ?m = "output_metadata marker hash" and ?r = "om_source_revisions marker"
  let ?o = "\<lparr>fo_bucket = bucket, fo_name = path, fo_generation = show_u64 g, fo_metadata = ?m\<rparr>"
  have t: "translate_storage_finalized_event body_of_json bucket headers body =
      translate_device_object ?o event_id g s"
    using translate_below_device_folder [where obj = ?o and body_of_json = body_of_json, OF assms(4-6)]
      assms(7) by simp
  note get = output_metadata_get [of marker hash, unfolded generated_by_key_def generated_event_key_def
      generated_document_key_def generated_revisions_key_def generated_content_hash_key_def]
  have plain: "bm_get ?m ''inkbridge-payload-kind'' = None"
    by (simp add: output_metadata_def bm_of_list_def generated_by_key_def generated_event_key_def
      generated_document_key_def generated_revisions_key_def generated_content_hash_key_def)
  have colon: "CHR '':'' \<notin> set (show_u64 w)" for w
    using show_int_no_sign [of "uint w" "CHR '':''"] by (auto simp: show_u64_def)
  have revs: "event_revisions ?m s (om_document_id marker) True = Inr (rp_get ?r s, ?r, Some marker)"
    using assms(1,2) show_u64_visible
    by (simp add: event_revisions_def required_metadata_def get parse_revisions_def
        split_once_append [OF colon] parse_metadata_u64_def rp_get_def split: device_side.splits)
  have "required_metadata ?m ''inkbridge-document-id'' = Inr (om_document_id marker)"
    using assms(3) by (simp add: required_metadata_def get)
  then show ?thesis
    using assms(1) plain
    by (simp add: t translate_device_object_def revs get event_payload_kind_def is_broker_output_def
        output_metadata_get)
qed

definition echo_marker :: output_marker where
  "echo_marker = \<lparr>om_producer = broker_producer, om_event_id = ''e'', om_document_id = ''d'',
     om_source_revisions = \<lparr>rp_boox = 5, rp_supernote = 7\<rparr>\<rparr>"

theorem broker_output_becomes_its_echo_witness:
  "\<exists>ev. translate_storage_finalized_event
      (\<lambda>_. Inr \<lparr>fo_bucket = ''b'', fo_name = ''Supernote_Folder/d/ops.json'',
                 fo_generation = show_u64 18, fo_metadata = output_metadata echo_marker ''abc''\<rparr>) ''b''
      [(''ce-id'', ''n''), (''ce-type'', storage_finalized_event_type)] ''{}'' = Inr (ProcessEvent ev) \<and>
    ev_source_revision ev = 7 \<and> is_broker_output ev (output_metadata echo_marker ''abc'') ''abc''"
proof -
  have headers: "header_value [(''ce-id'', ''n''), (''ce-type'', storage_finalized_event_type)] ''ce-type'' =
      Some storage_finalized_event_type"
    "header_value [(''ce-id'', ''n''), (''ce-type'', storage_finalized_event_type)] ''ce-id'' = Some ''n''"
    by code_simp+
  have marker: "om_producer echo_marker = broker_producer" "\<not> blank (om_event_id echo_marker)"
    "\<not> blank (om_document_id echo_marker)" "rp_get (om_source_revisions echo_marker) Supernote = 7"
    by (simp_all add: echo_marker_def blank_Cons_visible byte_def rp_get_def)
  have path: "''Supernote_Folder/d/ops.json'' = side_folder Supernote @ ''/'' @ ''d/ops.json''"
    by (simp add: side_folder_def)
  show ?thesis
    using broker_output_becomes_its_echo [where bucket = "''b''" and g = 18 and hash = "''abc''" and body = "''{}''" and
        body_of_json = "\<lambda>_. Inr \<lparr>fo_bucket = ''b'', fo_name = ''Supernote_Folder/d/ops.json'',
          fo_generation = show_u64 18, fo_metadata = output_metadata echo_marker ''abc''\<rparr>",
        OF marker(1-3) headers _ path] marker(4) by auto
qed

end
