(* ===== verification/Actions.thy ===== *)
theory Actions
  imports Prelude
begin

text \<open>
  Programs that run in a world, the files and services around them, and may stop with an error: what
  the synchronisation of the folder transport and the job of the Drive gateway are written with.  An
  action that fails keeps what it did to the world.
\<close>

section \<open>Actions\<close>

type_synonym ('w, 'a) action = "'w \<Rightarrow> 'w \<times> (string + 'a)"

definition ok :: "'a \<Rightarrow> ('w, 'a) action" where
  "ok x w = (w, Inr x)"

definition fail :: "string \<Rightarrow> ('w, 'a) action" where
  "fail e w = (w, Inl e)"

definition answer :: "string + 'a \<Rightarrow> ('w, 'a) action" where
  "answer r w = (w, r)"

text \<open>The \<open>?\<close> operator followed by the rest of the function.\<close>

definition seq :: "('w, 'a) action \<Rightarrow> ('a \<Rightarrow> ('w, 'b) action) \<Rightarrow> ('w, 'b) action" where
  "seq m k w = (case m w of (w', Inl e) \<Rightarrow> (w', Inl e) | (w', Inr x) \<Rightarrow> k x w')"

text \<open>An action whose error is a value (\<open>let result = ...;\<close>).\<close>

definition caught :: "('w, 'a) action \<Rightarrow> ('w, string + 'a) action" where
  "caught m w = (case m w of (w', r) \<Rightarrow> (w', Inr r))"

definition unless :: "bool \<Rightarrow> ('w, unit) action \<Rightarrow> ('w, unit) action" where
  "unless c m = (if c then ok () else m)"

fun each :: "('a \<Rightarrow> ('w, unit) action) \<Rightarrow> 'a list \<Rightarrow> ('w, unit) action" where
  "each f [] = ok ()"
| "each f (x # xs) = seq (f x) (\<lambda>_. each f xs)"

text \<open>A loop whose body may end it early (\<open>return Ok(())\<close> or \<open>break\<close>): it then answers \<open>True\<close>.\<close>

fun until_hit :: "('a \<Rightarrow> ('w, bool) action) \<Rightarrow> 'a list \<Rightarrow> ('w, bool) action" where
  "until_hit f [] = ok False"
| "until_hit f (x # xs) = seq (f x) (\<lambda>hit. if hit then ok True else until_hit f xs)"

fun collect :: "('a \<Rightarrow> ('w, 'b) action) \<Rightarrow> 'a list \<Rightarrow> ('w, 'b list) action" where
  "collect f [] = ok []"
| "collect f (x # xs) = seq (f x) (\<lambda>y. seq (collect f xs) (\<lambda>ys. ok (y # ys)))"

text \<open>A loop that carries a value.\<close>

fun carry :: "('a \<Rightarrow> 'b \<Rightarrow> ('w, 'b) action) \<Rightarrow> 'a list \<Rightarrow> 'b \<Rightarrow> ('w, 'b) action" where
  "carry f [] b = ok b"
| "carry f (x # xs) b = seq (f x b) (carry f xs)"

end
