(* ===== verification/Rust_Path.thy ===== *)
theory Rust_Path
  imports Rust_Strings
begin

text \<open>
  \<open>std::path\<close> on Unix, on UTF-8 path texts: components, \<open>parent\<close>, \<open>ancestors\<close>, \<open>push\<close> and
  \<open>join\<close>, \<open>pop\<close>, \<open>with_file_name\<close>, \<open>with_extension\<close>, \<open>starts_with\<close> and the equality of
  paths, which is that of their components.
\<close>

section \<open>Components\<close>

datatype path_component = RootDir | CurDir | ParentDir | NormalPart string

definition is_absolute :: "string \<Rightarrow> bool" where
  "is_absolute p \<longleftrightarrow> p \<noteq> [] \<and> hd p = CHR ''/''"

definition trivial_segment :: "string \<Rightarrow> bool" where
  "trivial_segment s \<longleftrightarrow> s = [] \<or> s = ''.''"

definition segment_component :: "string \<Rightarrow> path_component" where
  "segment_component s = (if s = ''..'' then ParentDir else NormalPart s)"

definition segments :: "string \<Rightarrow> string list" where
  "segments p = split_char (CHR ''/'') p"

definition path_components :: "string \<Rightarrow> path_component list" where
  "path_components p =
     (if is_absolute p then [RootDir] else if hd (segments p) = ''.'' then [CurDir] else []) @
     map segment_component (filter (\<lambda>s. \<not> trivial_segment s) (segments p))"

definition same_path :: "string \<Rightarrow> string \<Rightarrow> bool" where
  "same_path p q \<longleftrightarrow> path_components p = path_components q"

definition path_starts_with :: "string \<Rightarrow> string \<Rightarrow> bool" where
  "path_starts_with p base \<longleftrightarrow> prefix (path_components base) (path_components p)"

definition component_text :: "path_component \<Rightarrow> string" where
  "component_text c =
     (case c of RootDir \<Rightarrow> ''/'' | CurDir \<Rightarrow> ''.'' | ParentDir \<Rightarrow> ''..'' | NormalPart s \<Rightarrow> s)"

section \<open>The text without its last component\<close>

fun join_segments :: "string list \<Rightarrow> string" where
  "join_segments [] = []"
| "join_segments [s] = s"
| "join_segments (s # t # ss) = s @ CHR ''/'' # join_segments (t # ss)"

text \<open>The segments of an absolute path start with the empty one before its first separator, and
  a leading \<open>.\<close> is a component; neither is ever trimmed.\<close>

definition fixed_head :: "string \<Rightarrow> string list" where
  "fixed_head p = (if is_absolute p \<or> hd (segments p) = ''.'' then [hd (segments p)] else [])"

definition body_segments :: "string \<Rightarrow> string list" where
  "body_segments p = (if fixed_head p = [] then segments p else tl (segments p))"

definition trim_right :: "string list \<Rightarrow> string list" where
  "trim_right ss = rev (dropWhile trivial_segment (rev ss))"

definition render :: "string \<Rightarrow> string list \<Rightarrow> string" where
  "render p body =
     (if is_absolute p \<and> body = [] then ''/'' else join_segments (fixed_head p @ body))"

text \<open>\<open>Path::parent\<close>: \<open>None\<close> for the root and for the empty path.\<close>

definition path_parent :: "string \<Rightarrow> string option" where
  "path_parent p =
     (let body = trim_right (body_segments p)
      in if body \<noteq> [] then Some (render p (trim_right (butlast body)))
         else if hd (segments p) = ''.'' then Some []
         else None)"

definition last_component :: "string \<Rightarrow> path_component option" where
  "last_component p = (let cs = path_components p in if cs = [] then None else Some (last cs))"

section \<open>Building paths\<close>

text \<open>\<open>PathBuf::push\<close> and \<open>Path::join\<close>.\<close>

definition path_join :: "string \<Rightarrow> string \<Rightarrow> string" where
  "path_join p q =
     (if is_absolute q then q
      else if p \<noteq> [] \<and> last p \<noteq> CHR ''/'' then p @ CHR ''/'' # q
      else p @ q)"

definition path_pop :: "string \<Rightarrow> string" where
  "path_pop p = (case path_parent p of None \<Rightarrow> p | Some q \<Rightarrow> q)"

definition with_file_name :: "string \<Rightarrow> string \<Rightarrow> string" where
  "with_file_name p name =
     path_join (if path_file_name p = None then p else path_pop p) name"

definition file_stem_of_name :: "string \<Rightarrow> string" where
  "file_stem_of_name f =
     (case rsplit_once (CHR ''.'') f of
        None \<Rightarrow> f
      | Some (stem, ext) \<Rightarrow> if stem = [] then f else stem)"

definition with_extension :: "string \<Rightarrow> string \<Rightarrow> string" where
  "with_extension p ext =
     (case path_file_name p of
        None \<Rightarrow> p
      | Some f \<Rightarrow>
          let text = render p (trim_right (body_segments p));
              kept = take (length text - length f) text @ file_stem_of_name f
          in if ext = [] then kept else kept @ CHR ''.'' # ext)"

section \<open>Parents are shorter\<close>

lemma split_char_nonempty [simp]: "split_char c s \<noteq> []"
  by (induction s) (auto split: list.splits)

lemma join_split: "join_segments (split_char (CHR ''/'') s) = s"
proof (induction s)
  case (Cons x s)
  show ?case
  proof (cases "split_char (CHR ''/'') s")
    case (Cons w ws)
    with Cons.IH show ?thesis by (cases ws) auto
  qed simp
qed simp

lemma join_segments_Cons:
  "length (join_segments (s # ss)) = length s + (if ss = [] then 0 else Suc (length (join_segments ss)))"
  by (cases ss) simp_all

lemma join_segments_take: "length (join_segments (take n ss)) \<le> length (join_segments ss)"
proof (induction ss arbitrary: n)
  case (Cons s ss)
  show ?case
  proof (cases n)
    case (Suc m)
    with Cons.IH [of m] show ?thesis by (auto simp: join_segments_Cons)
  qed simp
qed simp

lemma join_segments_shorter:
  "prefix xs (butlast ys) \<Longrightarrow> ys \<noteq> [] \<Longrightarrow> last ys \<noteq> [] \<Longrightarrow>
     length (join_segments (zs @ xs)) < length (join_segments (zs @ ys))"
proof (induction zs)
  case Nil
  then show ?case
  proof (induction xs arbitrary: ys)
    case Nil
    then show ?case by (cases ys) (auto simp: join_segments_Cons split: if_splits)
  next
    case (Cons x xs)
    then obtain ys' where ys: "ys = x # ys'" "ys' \<noteq> []" by (cases ys) (auto split: if_splits)
    with Cons.prems have "prefix xs (butlast ys')" "last ys' \<noteq> []" by auto
    with Cons.IH [of ys'] ys show ?case by (auto simp: join_segments_Cons)
  qed
next
  case (Cons z zs)
  then show ?case by (auto simp: join_segments_Cons split: if_splits)
qed

lemma trim_right_prefix: "prefix (trim_right ss) ss"
proof -
  have "suffix (dropWhile trivial_segment (rev ss)) (rev ss)" by (rule suffix_dropWhile)
  then show ?thesis by (simp add: trim_right_def suffix_to_prefix)
qed

lemma trim_right_last: "trim_right ss \<noteq> [] \<Longrightarrow> \<not> trivial_segment (last (trim_right ss))"
proof -
  assume a: "trim_right ss \<noteq> []"
  then have ne: "dropWhile trivial_segment (rev ss) \<noteq> []" by (simp add: trim_right_def)
  have "last (trim_right ss) = hd (dropWhile trivial_segment (rev ss))"
    by (simp add: trim_right_def last_rev)
  with hd_dropWhile [OF ne] show ?thesis by simp
qed

lemma text_segments: "join_segments (fixed_head p @ body_segments p) = p"
proof (cases "fixed_head p = []")
  case False
  then have "fixed_head p @ body_segments p = segments p"
    by (auto simp: fixed_head_def body_segments_def segments_def split: if_splits)
  then show ?thesis by (simp add: segments_def join_split)
qed (simp add: body_segments_def segments_def join_split)

theorem path_parent_shorter: "path_parent p = Some q \<Longrightarrow> length q < length p"
proof -
  assume a: "path_parent p = Some q"
  let ?b = "trim_right (body_segments p)"
  show ?thesis
  proof (cases "?b = []")
    case True
    with a have "hd (segments p) = ''.''" "q = []" by (auto simp: path_parent_def split: if_splits)
    then show ?thesis by (cases p) (auto simp: segments_def)
  next
    case False
    let ?c = "trim_right (butlast ?b)"
    from a False have q: "q = render p ?c" by (simp add: path_parent_def)
    have l: "last ?b \<noteq> []" using trim_right_last [OF False] by (simp add: trivial_segment_def)
    have "length (join_segments (fixed_head p @ ?c)) < length (join_segments (fixed_head p @ ?b))"
      by (rule join_segments_shorter [OF trim_right_prefix False l])
    moreover have "length (join_segments (fixed_head p @ ?b)) \<le> length p"
    proof -
      obtain r where "body_segments p = ?b @ r" using trim_right_prefix by (auto simp: prefix_def)
      then have "fixed_head p @ body_segments p = (fixed_head p @ ?b) @ r" by simp
      then have "fixed_head p @ ?b = take (length (fixed_head p @ ?b)) (fixed_head p @ body_segments p)"
        by (metis append_eq_conv_conj)
      then show ?thesis using join_segments_take text_segments by metis
    qed
    moreover have "length q < length p" if "is_absolute p" "?c = []"
    proof -
      have "fixed_head p = [[]]"
        using that(1) by (cases p) (auto simp: fixed_head_def is_absolute_def segments_def)
      moreover have "length (join_segments ([[]] @ ?b)) = Suc (length (join_segments ?b))"
        using False by (cases ?b) simp_all
      moreover have "0 < length (join_segments ?b)"
        using False l by (cases ?b) (auto simp: join_segments_Cons split: if_splits)
      moreover have "length q = 1" using that q by (simp add: render_def)
      moreover have "length (join_segments ([[]] @ ?b)) \<le> length p"
        using \<open>length (join_segments (fixed_head p @ ?b)) \<le> length p\<close> \<open>fixed_head p = [[]]\<close> by simp
      ultimately show ?thesis by linarith
    qed
    ultimately show ?thesis using q by (auto simp: render_def split: if_splits)
  qed
qed

text \<open>\<open>Path::ancestors\<close>: the path, its parent, and so on.\<close>

function path_ancestors :: "string \<Rightarrow> string list" where
  "path_ancestors p = p # (case path_parent p of None \<Rightarrow> [] | Some q \<Rightarrow> path_ancestors q)"
  by pat_completeness auto
termination
  by (relation "measure length") (auto simp: path_parent_shorter)

declare path_ancestors.simps [simp del]

section \<open>Companions of a path\<close>

lemma join_segments_append:
  "xs \<noteq> [] \<Longrightarrow> ys \<noteq> [] \<Longrightarrow>
     join_segments (xs @ ys) = join_segments xs @ CHR ''/'' # join_segments ys"
proof (induction xs)
  case (Cons x xs)
  then show ?case by (cases xs; cases ys) simp_all
qed simp

lemma last_filter: "ss \<noteq> [] \<Longrightarrow> P (last ss) \<Longrightarrow> last (filter P ss) = last ss"
  by (cases ss rule: rev_cases) simp_all

lemma file_name_body:
  assumes "path_file_name p = Some f"
  shows "trim_right (body_segments p) \<noteq> [] \<and> last (trim_right (body_segments p)) = f"
proof -
  let ?P = "\<lambda>s. s \<noteq> [] \<and> s \<noteq> ''.''"
  have P: "?P = (\<lambda>s. \<not> trivial_segment s)" by (auto simp: trivial_segment_def)
  let ?cs = "filter ?P (segments p)"
  have cs: "?cs \<noteq> []" "last ?cs = f"
    using assms by (auto simp: path_file_name_def segments_def Let_def split: if_splits)
  have body: "?cs = filter ?P (body_segments p)"
  proof (cases "fixed_head p = []")
    case False
    then have "\<not> ?P (hd (segments p))"
      by (cases p) (auto simp: fixed_head_def is_absolute_def segments_def)
    moreover have "body_segments p = tl (segments p)" using False by (simp add: body_segments_def)
    ultimately show ?thesis by (cases "segments p") (auto simp: segments_def)
  qed (simp add: body_segments_def)
  have tw: "body_segments p =
      trim_right (body_segments p) @ rev (takeWhile trivial_segment (rev (body_segments p)))"
  proof -
    have "rev (takeWhile trivial_segment (rev (body_segments p)) @
        dropWhile trivial_segment (rev (body_segments p))) = body_segments p"
      by (simp only: takeWhile_dropWhile_id rev_rev_ident)
    then show ?thesis by (simp only: rev_append trim_right_def)
  qed
  have none: "filter ?P (rev (takeWhile trivial_segment (rev (body_segments p)))) = []"
    by (auto simp: filter_empty_conv P dest: set_takeWhileD)
  have trim: "?cs = filter ?P (trim_right (body_segments p))"
  proof -
    have "filter ?P (body_segments p) = filter ?P (trim_right (body_segments p)) @
        filter ?P (rev (takeWhile trivial_segment (rev (body_segments p))))"
      using arg_cong [OF tw, of "filter ?P"] by (rule trans) (rule filter_append)
    then show ?thesis using body none by (simp only: append_Nil2)
  qed
  with cs have ne: "trim_right (body_segments p) \<noteq> []" by auto
  have "last (filter ?P (trim_right (body_segments p))) = last (trim_right (body_segments p))"
    using trim_right_last [OF ne] by (intro last_filter [OF ne]) (auto simp: trivial_segment_def)
  with ne cs trim show ?thesis by simp
qed

text \<open>The text up to the end of the file name, and what may follow it.\<close>

lemma file_name_text:
  assumes "path_file_name p = Some f"
  shows "\<exists>pre rest. render p (trim_right (body_segments p)) = pre @ f \<and> p = pre @ f @ rest \<and>
    (rest = [] \<or> hd rest = CHR ''/'') \<and> (\<forall>q. path_parent p = Some q \<longrightarrow> length q \<le> length pre)"
proof -
  let ?b = "trim_right (body_segments p)"
  have b: "?b \<noteq> []" "last ?b = f" using file_name_body [OF assms] by simp_all
  then have r: "render p ?b = join_segments (fixed_head p @ ?b)" by (simp add: render_def)
  obtain r' where r': "body_segments p = ?b @ r'" using trim_right_prefix by (auto simp: prefix_def)
  have p: "p = join_segments ((fixed_head p @ ?b) @ r')" using text_segments [of p] r' by simp
  define pre where "pre = (if fixed_head p @ butlast ?b = [] then []
    else join_segments (fixed_head p @ butlast ?b) @ ''/'')"
  have "fixed_head p @ ?b = (fixed_head p @ butlast ?b) @ [f]"
    using b by (metis append.assoc append_butlast_last_id)
  then have "render p ?b = pre @ f"
    using r join_segments_append [of "fixed_head p @ butlast ?b" "[f]"] by (auto simp: pre_def)
  moreover have "p = render p ?b @ (if r' = [] then [] else CHR ''/'' # join_segments r')"
    using p r b(1) join_segments_append [of "fixed_head p @ ?b" r'] by auto
  ultimately have whole: "p = pre @ f @ (if r' = [] then [] else CHR ''/'' # join_segments r')" by simp
  have "length q \<le> length pre" if "path_parent p = Some q" for q
  proof -
    let ?c = "trim_right (butlast ?b)"
    from that b have q: "q = render p ?c" by (simp add: path_parent_def)
    obtain c' where c': "butlast ?b = ?c @ c'"
      using trim_right_prefix [of "butlast ?b"] by (auto simp: prefix_def)
    have "length (join_segments (fixed_head p @ ?c)) \<le> length (join_segments (fixed_head p @ butlast ?b))"
    proof -
      have "take (length (fixed_head p @ ?c)) ((fixed_head p @ ?c) @ c') = fixed_head p @ ?c"
        by (metis append_eq_conv_conj)
      then show ?thesis
        using join_segments_take [of "length (fixed_head p @ ?c)" "(fixed_head p @ ?c) @ c'"] c'
        by (metis append.assoc)
    qed
    moreover have "fixed_head p \<noteq> []" if "is_absolute p" using that by (simp add: fixed_head_def)
    moreover have "?c = []" if "butlast ?b = []" using that by (simp add: trim_right_def)
    ultimately show ?thesis by (auto simp: q render_def pre_def)
  qed
  with whole \<open>render p ?b = pre @ f\<close> show ?thesis
    by (intro exI [of _ pre] exI [of _ "if r' = [] then [] else CHR ''/'' # join_segments r'"])
       simp
qed

lemma rsplit_once_Some:
  "rsplit_once c s = Some (a, b) \<Longrightarrow> s = a @ c # b \<and> c \<notin> set b"
proof -
  have once: "split_once c t = Some (x, y) \<Longrightarrow> t = x @ c # y \<and> c \<notin> set x" for t x y
    by (induction t arbitrary: x y) (auto split: if_splits)
  assume "rsplit_once c s = Some (a, b)"
  then have "split_once c (rev s) = Some (rev b, rev a)" by (auto simp: rsplit_once_def)
  from once [OF this] have "rev (rev s) = rev (rev b @ c # rev a)" "c \<notin> set b" by simp_all
  then show ?thesis by simp
qed

text \<open>A path with another extension of two parts is another path, and two such extensions give
  two paths.\<close>

lemma with_extension_differs:
  assumes "path_file_name p = Some f" and "CHR ''/'' \<notin> set ext" and "CHR ''.'' \<in> set ext"
  shows "with_extension p ext \<noteq> p"
proof
  assume eq: "with_extension p ext = p"
  obtain pre rest where t: "render p (trim_right (body_segments p)) = pre @ f" "p = pre @ f @ rest"
    and rest: "rest = [] \<or> hd rest = CHR ''/''"
    using file_name_text [OF assms(1)] by auto
  have "ext \<noteq> []" using assms(3) by auto
  with t eq have e: "file_stem_of_name f @ CHR ''.'' # ext = f @ rest"
    using assms(1) by (simp add: with_extension_def)
  show False
  proof (cases "file_stem_of_name f = f")
    case True
    with e have "rest = CHR ''.'' # ext" by simp
    with rest show False by simp
  next
    case False
    then obtain x where x: "rsplit_once (CHR ''.'') f = Some (file_stem_of_name f, x)"
      by (auto simp: file_stem_of_name_def split: option.splits prod.splits if_splits)
    then have f: "f = file_stem_of_name f @ CHR ''.'' # x" "CHR ''.'' \<notin> set x"
      using rsplit_once_Some by blast+
    then have "file_stem_of_name f @ CHR ''.'' # ext = file_stem_of_name f @ CHR ''.'' # (x @ rest)"
      using e by (metis append.assoc append_Cons)
    then have "ext = x @ rest" by simp
    with f(2) assms(2,3) rest show False by (cases rest) auto
  qed
qed

lemma parent_is_no_companion:
  assumes "path_file_name p = Some f" and "path_parent p = Some q"
  shows "with_extension p ext \<noteq> q \<or> ext = []"
proof -
  obtain pre where "render p (trim_right (body_segments p)) = pre @ f" "length q \<le> length pre"
    using file_name_text [OF assms(1)] assms(2) by auto
  then show ?thesis using assms(1) by (auto simp: with_extension_def Let_def)
qed

lemma with_extension_inject:
  assumes "path_file_name p \<noteq> None" and "a \<noteq> []" and "b \<noteq> []"
  shows "with_extension p a = with_extension p b \<longleftrightarrow> a = b"
  using assms by (auto simp: with_extension_def Let_def)

end
