(* ===== verification/Drive_Runtime.thy ===== *)
theory Drive_Runtime
  imports Actions Gateway_Planner Cloud_Runtime Rust_Path
begin

text \<open>
  \<open>inkbridge-drive-runtime/src/runtime.rs\<close>, the job: one run of the Drive gateway.  It finishes what
  an earlier run left pending, takes one page of the Drive change feed (or the first snapshot of the
  two folders), brings every change of it to the broker, and moves the page token on when all of them
  are done.  The checkpoint is swapped in the store after every step that another run must not
  repeat.  The traits the job is built from are the fields of \<open>job_ops\<close> over a state type that holds
  Drive, the checkpoint store, the evidence, the broker and the approvals.  The last part is the ports of
  the job in the cloud: the evidence store over the object store of the broker, and the broker itself,
  called in the process over the outbox.
\<close>

section \<open>What a run works with\<close>

datatype run_mode = Apply | DryRun

record change_page =
  cp_changes :: "drive_change list"
  cp_next_page_token :: "string option"
  cp_new_start_page_token :: "string option"

definition durable_successor :: "change_page \<Rightarrow> string + string" where
  "durable_successor page =
     (case (cp_next_page_token page, cp_new_start_page_token page) of
        (Some following, None) \<Rightarrow>
          if following \<noteq> [] then Inr following
          else Inl ''Drive change page must contain exactly one nonempty successor token''
      | (None, Some start) \<Rightarrow>
          if start \<noteq> [] then Inr start
          else Inl ''Drive change page must contain exactly one nonempty successor token''
      | _ \<Rightarrow> Inl ''Drive change page must contain exactly one nonempty successor token'')"

datatype onboarding_approval =
    OriginalApproval registration_approval
  | ArtifactApproval binding_approval

record versioned_checkpoint =
  vc_value :: gateway_checkpoint
  vc_version :: "string option"

datatype broker_disposition = AcceptedInput | RejectedInput string

record broker_result =
  br_disposition :: broker_disposition
  br_output :: "broker_drive_output option"

record run_report =
  rn_initialized_page_token :: bool
  rn_pages_processed :: usize
  rn_changes_seen :: usize
  rn_inputs_applied :: usize
  rn_inputs_rejected :: usize
  rn_outputs_delivered :: usize
  rn_duplicates :: usize
  rn_ignored :: usize
  rn_unbound :: "string list"
  rn_dry_run_actions :: "string list"

definition empty_report :: run_report where
  "empty_report =
     \<lparr>rn_initialized_page_token = False, rn_pages_processed = 0, rn_changes_seen = 0,
      rn_inputs_applied = 0, rn_inputs_rejected = 0, rn_outputs_delivered = 0, rn_duplicates = 0,
      rn_ignored = 0, rn_unbound = [], rn_dry_run_actions = []\<rparr>"

text \<open>The traits \<open>DriveApi\<close>, \<open>OnboardingApprovalStore\<close>, \<open>CheckpointStore\<close>, \<open>EvidenceStore\<close> and
  \<open>BrokerPort\<close>.\<close>

record 'w job_ops =
  jo_start_page_token :: "('w, string) action"
  jo_list_initial_files :: "string list \<Rightarrow> ('w, drive_file_revision list) action"
  jo_list_changes :: "string \<Rightarrow> ('w, change_page) action"
  jo_download :: "string \<Rightarrow> ('w, bytes) action"
  jo_file_revision :: "string \<Rightarrow> ('w, drive_file_revision) action"
  jo_find_delivery :: "string \<Rightarrow> ('w, drive_file_revision list) action"
  jo_generate_file_id :: "('w, string) action"
  jo_create_delivery :: "prepared_drive_output \<Rightarrow> bytes \<Rightarrow> ('w, drive_file_revision) action"
  jo_approval :: "string \<Rightarrow> ('w, onboarding_approval option) action"
  jo_load :: "('w, versioned_checkpoint) action"
  jo_swap :: "string option \<Rightarrow> gateway_checkpoint \<Rightarrow> ('w, versioned_checkpoint) action"
  jo_put_immutable :: "string \<Rightarrow> bytes \<Rightarrow> (string, string) bmap \<Rightarrow> ('w, stored_object) action"
  jo_read_generation :: "string \<Rightarrow> u64 \<Rightarrow> ('w, stored_object option) action"
  jo_register_original :: "prepared_registration \<Rightarrow> u64 \<Rightarrow> ('w, unit) action"
  jo_frontier :: "string \<Rightarrow> ('w, revision_pair) action"
  jo_frontier_if_exists :: "string \<Rightarrow> ('w, revision_pair option) action"
  jo_process :: "pending_drive_input \<Rightarrow> ('w, broker_result) action"

text \<open>A job, with the texts of the \<open>Debug\<close> format that its error messages quote.\<close>

record 'w gateway_job =
  gj_ops :: "'w job_ops"
  gj_config :: gateway_config
  gj_env :: runtime_env
  gj_show_input :: "input_decision \<Rightarrow> string"
  gj_show_output :: "output_decision \<Rightarrow> string"

definition gateway_job_new :: "'w gateway_job \<Rightarrow> string + 'w gateway_job" where
  "gateway_job_new J = rbind (validate_config (gj_config J)) (\<lambda>_. Inr J)"

definition gj_sha :: "'w gateway_job \<Rightarrow> sha" where
  "gj_sha J = x_sha (rt_ext (gj_env J))"

text \<open>The world of a run: what the traits stand for, and the report.\<close>

record 'w job_world =
  jw_env :: 'w
  jw_report :: run_report

definition on_env :: "('w, 'a) action \<Rightarrow> ('w job_world, 'a) action" where
  "on_env m w = (case m (jw_env w) of (e, r) \<Rightarrow> (w\<lparr>jw_env := e\<rparr>, r))"

definition tally :: "(run_report \<Rightarrow> run_report) \<Rightarrow> ('w job_world, unit) action" where
  "tally f w = (w\<lparr>jw_report := f (jw_report w)\<rparr>, Inr ())"

definition dry_run_action :: "string \<Rightarrow> ('w job_world, unit) action" where
  "dry_run_action s = tally (\<lambda>r. r\<lparr>rn_dry_run_actions := rn_dry_run_actions r @ [s]\<rparr>)"

text \<open>A commit of the planner on the checkpoint that was loaded; an error drops both.\<close>

definition committed ::
    "(gateway_checkpoint \<Rightarrow> gateway_checkpoint \<times> (string + unit)) \<Rightarrow> versioned_checkpoint \<Rightarrow>
       ('w job_world, versioned_checkpoint) action" where
  "committed f s =
     (case f (vc_value s) of
        (c, Inl e) \<Rightarrow> fail e
      | (c, Inr _) \<Rightarrow> ok (s\<lparr>vc_value := c\<rparr>))"

definition persist :: "'w gateway_job \<Rightarrow> versioned_checkpoint \<Rightarrow> ('w job_world, versioned_checkpoint) action" where
  "persist J s =
     seq (answer (validate_checkpoint (vc_value s))) (\<lambda>_.
     on_env (jo_swap (gj_ops J) (vc_version s) (vc_value s)))"

section \<open>Outputs\<close>

definition reserve_output ::
    "'w gateway_job \<Rightarrow> versioned_checkpoint \<Rightarrow> broker_drive_output \<Rightarrow> ('w job_world, versioned_checkpoint) action" where
  "reserve_output J s out =
     seq (answer (prepare_drive_output (gj_sha J) (gj_config J) (vc_value s) out)) (\<lambda>decision.
     case decision of
       DuplicateOutput _ \<Rightarrow> ok s
     | ReserveOutput prepared \<Rightarrow>
         seq (on_env (jo_generate_file_id (gj_ops J))) (\<lambda>file_id.
         committed (\<lambda>c. reserve_drive_output c (prepared\<lparr>po_drive_file_id := file_id\<rparr>)) s)
     | ReconcileOutput _ \<Rightarrow> ok s
     | other \<Rightarrow> fail (''unexpected output decision before reservation: '' @ gj_show_output J other))"

text \<open>The file of a reserved delivery: the one Drive already has, or a new one.\<close>

definition create_output ::
    "'w gateway_job \<Rightarrow> versioned_checkpoint \<Rightarrow> prepared_drive_output \<Rightarrow> ('w job_world, string \<times> u64) action" where
  "create_output J s out =
     seq (on_env (jo_read_generation (gj_ops J) (po_gcs_object_path out) (po_gcs_generation out))) (\<lambda>found.
     seq (answer (ok_or (''broker output '' @ po_gcs_object_path out @ '' generation '' @
                         show_u64 (po_gcs_generation out) @ '' is missing'') found)) (\<lambda>obj.
     if sha256_hex (gj_sha J) (so_bytes obj) \<noteq> po_content_sha256 out then
       fail (''broker output '' @ po_delivery_id out @ '' hash does not match its reservation'')
     else
       seq (on_env (jo_create_delivery (gj_ops J) out (so_bytes obj))) (\<lambda>created.
       seq (answer (reconcile_drive_output (gj_config J) (vc_value s) out [created])) (\<lambda>decision.
       case decision of
         ExistingOutput _ file_id version \<Rightarrow> ok (file_id, version)
       | other \<Rightarrow> fail (''created Drive delivery failed reconciliation: '' @ gj_show_output J other)))))"

definition locate_output ::
    "'w gateway_job \<Rightarrow> versioned_checkpoint \<Rightarrow> prepared_drive_output \<Rightarrow> ('w job_world, string \<times> u64) action" where
  "locate_output J s out =
     seq (on_env (jo_find_delivery (gj_ops J) (po_delivery_id out))) (\<lambda>found.
     seq (answer (reconcile_drive_output (gj_config J) (vc_value s) out found)) (\<lambda>decision.
     case decision of
       CreateOutput create \<Rightarrow> create_output J s create
     | ExistingOutput _ file_id version \<Rightarrow> ok (file_id, version)
     | other \<Rightarrow> fail (''unexpected output reconciliation decision: '' @ gj_show_output J other)))"

definition recover_output ::
    "'w gateway_job \<Rightarrow> prepared_drive_output \<Rightarrow> versioned_checkpoint \<Rightarrow> ('w job_world, versioned_checkpoint) action" where
  "recover_output J out s =
     seq (locate_output J s out) (\<lambda>(file_id, version).
     seq (committed (\<lambda>c. commit_drive_output (gj_sha J) c out file_id version) s) (\<lambda>s.
     seq (persist J s) (\<lambda>s.
     seq (tally (\<lambda>r. r\<lparr>rn_outputs_delivered := rn_outputs_delivered r + 1\<rparr>)) (\<lambda>_. ok s))))"

definition recover_pending_outputs ::
    "'w gateway_job \<Rightarrow> versioned_checkpoint \<Rightarrow> ('w job_world, versioned_checkpoint) action" where
  "recover_pending_outputs J s =
     carry (recover_output J) (bm_values (ck_pending_outputs (vc_value s))) s"

section \<open>Inputs\<close>

definition settle_input ::
    "'w gateway_job \<Rightarrow> string \<Rightarrow> broker_result \<Rightarrow> versioned_checkpoint \<Rightarrow> ('w job_world, versioned_checkpoint) action" where
  "settle_input J event_id result s =
     (case br_disposition result of
        AcceptedInput \<Rightarrow>
          seq (committed (\<lambda>c. accept_drive_input c event_id) s) (\<lambda>s.
          seq (tally (\<lambda>r. r\<lparr>rn_inputs_applied := rn_inputs_applied r + 1\<rparr>)) (\<lambda>_.
          case br_output result of
            None \<Rightarrow> ok s
          | Some out \<Rightarrow> reserve_output J s out))
      | RejectedInput _ \<Rightarrow>
          seq (committed (\<lambda>c. reject_drive_input c event_id) s) (\<lambda>s.
          seq (tally (\<lambda>r. r\<lparr>rn_inputs_rejected := rn_inputs_rejected r + 1\<rparr>)) (\<lambda>_. ok s)))"

definition finish_pending_input ::
    "'w gateway_job \<Rightarrow> pending_drive_input \<Rightarrow> versioned_checkpoint \<Rightarrow> ('w job_world, versioned_checkpoint) action" where
  "finish_pending_input J p s =
     seq (on_env (jo_process (gj_ops J) p)) (\<lambda>result.
     seq (settle_input J (pn_drive_event_id p) result s) (\<lambda>s.
     seq (persist J s) (recover_pending_outputs J)))"

definition recover_pending_inputs ::
    "'w gateway_job \<Rightarrow> versioned_checkpoint \<Rightarrow> ('w job_world, versioned_checkpoint) action" where
  "recover_pending_inputs J s =
     carry (finish_pending_input J) (bm_values (ck_pending_inputs (vc_value s))) s"

definition download_listed ::
    "'w gateway_job \<Rightarrow> drive_file_revision \<Rightarrow> ('w job_world, bytes) action" where
  "download_listed J listed =
     seq (on_env (jo_download (gj_ops J) (fr_file_id listed))) (\<lambda>bs.
     seq (on_env (jo_file_revision (gj_ops J) (fr_file_id listed))) (\<lambda>current.
     if current \<noteq> listed then
       fail (''Drive file '' @ fr_file_id listed @ '' changed while it was being downloaded; retry the job'')
     else if of_nat (length bs) \<noteq> fr_size listed then fail (size_mismatch bs listed)
     else ok bs))"

definition block_unapproved ::
    "run_mode \<Rightarrow> string \<Rightarrow> versioned_checkpoint \<Rightarrow> ('w job_world, versioned_checkpoint) action" where
  "block_unapproved mode file_id s =
     seq (tally (\<lambda>r. r\<lparr>rn_unbound := rn_unbound r @ [file_id]\<rparr>)) (\<lambda>_.
     if mode = DryRun then
       seq (dry_run_action (''require explicit onboarding approval for '' @ file_id)) (\<lambda>_. ok s)
     else
       fail (''Drive file '' @ file_id @
             '' is unbound and has no explicit onboarding approval; page token retained''))"

definition block_invalid_approval ::
    "run_mode \<Rightarrow> string \<Rightarrow> string \<Rightarrow> versioned_checkpoint \<Rightarrow> ('w job_world, versioned_checkpoint) action" where
  "block_invalid_approval mode file_id reason s =
     seq (tally (\<lambda>r. r\<lparr>rn_unbound := rn_unbound r @ [file_id]\<rparr>)) (\<lambda>_.
     if mode = DryRun then
       seq (dry_run_action (''reject onboarding approval for '' @ file_id @ '': '' @ reason)) (\<lambda>_. ok s)
     else
       fail (''Drive onboarding approval for '' @ file_id @ '' is invalid: '' @ reason @
             ''; page token retained''))"

section \<open>Changes\<close>

type_synonym simulated = "(string, revision_pair) bmap"

definition known_frontier ::
    "'w gateway_job \<Rightarrow> simulated \<Rightarrow> string \<Rightarrow> ('w job_world, revision_pair) action" where
  "known_frontier J simulated document_id =
     (case bm_get simulated document_id of
        Some frontier \<Rightarrow> ok frontier
      | None \<Rightarrow> on_env (jo_frontier (gj_ops J) document_id))"

definition upload_input ::
    "'w gateway_job \<Rightarrow> run_mode \<Rightarrow> prepared_drive_input \<Rightarrow> bytes \<Rightarrow> versioned_checkpoint \<Rightarrow>
       ('w job_world, versioned_checkpoint) action" where
  "upload_input J mode i bs s =
     (if mode = DryRun then
        seq (dry_run_action (''upload '' @ pr_drive_event_id i @ '' as immutable evidence '' @
               pr_gcs_object_path i)) (\<lambda>_. ok s)
      else
        seq (on_env (jo_put_immutable (gj_ops J) (pr_gcs_object_path i) bs (pr_metadata i))) (\<lambda>obj.
        seq (committed (\<lambda>c. commit_drive_input c i (so_generation obj)) s) (\<lambda>s.
        seq (persist J s) (\<lambda>s.
        seq (answer (ok_or ''committed Drive input disappeared''
               (bm_get (ck_pending_inputs (vc_value s)) (pr_drive_event_id i)))) (\<lambda>p.
        finish_pending_input J p s)))))"

definition process_bound_change ::
    "'w gateway_job \<Rightarrow> run_mode \<Rightarrow> simulated \<Rightarrow> drive_change \<Rightarrow> bytes \<Rightarrow> versioned_checkpoint \<Rightarrow>
       ('w job_world, versioned_checkpoint) action" where
  "process_bound_change J mode simulated change bs s =
     seq (answer (ok_or ''Drive binding disappeared''
            (binding_for_file (vc_value s) (fr_file_id (dc_file change))))) (\<lambda>b.
     seq (known_frontier J simulated (db_document_id b)) (\<lambda>frontier.
     seq (answer (prepare_drive_input (gj_sha J) (gj_config J) (vc_value s) change bs frontier)) (\<lambda>decision.
     case decision of
       IgnoreInput _ \<Rightarrow> seq (tally (\<lambda>r. r\<lparr>rn_ignored := rn_ignored r + 1\<rparr>)) (\<lambda>_. ok s)
     | DuplicateInput _ \<Rightarrow> seq (tally (\<lambda>r. r\<lparr>rn_duplicates := rn_duplicates r + 1\<rparr>)) (\<lambda>_. ok s)
     | UnboundInput file_id \<Rightarrow> fail (''bound Drive file became unbound: '' @ file_id)
     | DeferredInput _ pending \<Rightarrow> fail (''Drive input is still blocked by pending event '' @ pending)
     | UploadInput i \<Rightarrow> upload_input J mode i bs s)))"

definition register_approved ::
    "'w gateway_job \<Rightarrow> run_mode \<Rightarrow> simulated \<Rightarrow> prepared_registration \<Rightarrow> bytes \<Rightarrow> versioned_checkpoint \<Rightarrow>
       ('w job_world, versioned_checkpoint \<times> simulated) action" where
  "register_approved J mode simulated g bs s =
     (if mode = DryRun then
        seq (answer (map_err (rt_show (gj_env J)) (validate_original_pdf (rt_ext (gj_env J)) bs))) (\<lambda>_.
        seq (case bm_get simulated (pg_document_id g) of
               Some frontier \<Rightarrow> ok frontier
             | None \<Rightarrow>
                 seq (on_env (jo_frontier_if_exists (gj_ops J) (pg_document_id g))) (\<lambda>frontier.
                 ok (case frontier of None \<Rightarrow> default_revisions | Some r \<Rightarrow> r))) (\<lambda>frontier.
        seq (committed (\<lambda>c. commit_original_registration c g) s) (\<lambda>s.
        seq (dry_run_action (''register approved original '' @ pg_drive_file_id g @ '' as '' @
               pg_document_id g)) (\<lambda>_.
        ok (s, if bm_has simulated (pg_document_id g) then simulated
               else bm_insert (pg_document_id g) frontier simulated)))))
      else
        seq (on_env (jo_put_immutable (gj_ops J) (pg_gcs_object_path g) bs (pg_metadata g))) (\<lambda>obj.
        if so_generation obj = 0 then fail ''original registration evidence has generation zero''
        else
          seq (on_env (jo_register_original (gj_ops J) g (so_generation obj))) (\<lambda>_.
          seq (committed (\<lambda>c. commit_original_registration c g) s) (\<lambda>s.
          seq (persist J s) (\<lambda>s. ok (s, simulated))))))"

definition onboard_original ::
    "'w gateway_job \<Rightarrow> run_mode \<Rightarrow> simulated \<Rightarrow> drive_change \<Rightarrow> bytes \<Rightarrow> registration_approval \<Rightarrow>
       versioned_checkpoint \<Rightarrow> ('w job_world, versioned_checkpoint \<times> simulated) action" where
  "onboard_original J mode simulated change bs approval s =
     seq (answer (prepare_original_registration (gj_sha J) (gj_config J) (vc_value s) change bs approval))
       (\<lambda>decision.
     case decision of
       RegisterOriginal g \<Rightarrow> register_approved J mode simulated g bs s
     | DuplicateRegistration _ \<Rightarrow>
         seq (tally (\<lambda>r. r\<lparr>rn_duplicates := rn_duplicates r + 1\<rparr>)) (\<lambda>_. ok (s, simulated))
     | IgnoreRegistration reason \<Rightarrow>
         seq (block_invalid_approval mode (fr_file_id (dc_file change)) reason s) (\<lambda>s. ok (s, simulated)))"

text \<open>Binding an approved artifact; the change is processed as that of a bound file afterwards.\<close>

definition onboard_artifact ::
    "'w gateway_job \<Rightarrow> run_mode \<Rightarrow> simulated \<Rightarrow> drive_change \<Rightarrow> bytes \<Rightarrow> binding_approval \<Rightarrow>
       versioned_checkpoint \<Rightarrow> ('w job_world, versioned_checkpoint) action" where
  "onboard_artifact J mode simulated change bs approval s =
     seq (known_frontier J simulated (ba_document_id approval)) (\<lambda>frontier.
     seq (answer (prepare_device_artifact_binding (gj_sha J) (gj_config J) (vc_value s) change bs
            approval frontier)) (\<lambda>decision.
     let continue = process_bound_change J mode simulated change bs
     in case decision of
          BindArtifact a \<Rightarrow>
            seq (committed (\<lambda>c. commit_device_artifact_binding c a) s) (\<lambda>s.
            if mode = DryRun then
              seq (dry_run_action (''bind approved device artifact '' @ pb_drive_file_id a @ '' to '' @
                     pb_document_id a)) (\<lambda>_. continue s)
            else seq (persist J s) continue)
        | AlreadyBound _ \<Rightarrow> continue s
        | IgnoreArtifact reason \<Rightarrow> block_invalid_approval mode (fr_file_id (dc_file change)) reason s))"

definition onboard_unbound ::
    "'w gateway_job \<Rightarrow> run_mode \<Rightarrow> drive_change \<Rightarrow> versioned_checkpoint \<times> simulated \<Rightarrow>
       ('w job_world, versioned_checkpoint \<times> simulated) action" where
  "onboard_unbound J mode change st =
     (case st of (s, simulated) \<Rightarrow>
        let file_id = fr_file_id (dc_file change)
        in seq (download_listed J (dc_file change)) (\<lambda>bs.
           seq (on_env (jo_approval (gj_ops J) file_id)) (\<lambda>approval.
           case approval of
             None \<Rightarrow> seq (block_unapproved mode file_id s) (\<lambda>s. ok (s, simulated))
           | Some (OriginalApproval a) \<Rightarrow> onboard_original J mode simulated change bs a s
           | Some (ArtifactApproval a) \<Rightarrow>
               seq (onboard_artifact J mode simulated change bs a s) (\<lambda>s. ok (s, simulated)))))"

definition process_change ::
    "'w gateway_job \<Rightarrow> run_mode \<Rightarrow> drive_change \<Rightarrow> versioned_checkpoint \<times> simulated \<Rightarrow>
       ('w job_world, versioned_checkpoint \<times> simulated) action" where
  "process_change J mode change st =
     (case st of (s, simulated) \<Rightarrow>
        if binding_for_file (vc_value s) (fr_file_id (dc_file change)) = None then
          seq (answer (prepare_drive_input (gj_sha J) (gj_config J) (vc_value s) change [] default_revisions))
            (\<lambda>decision.
          case decision of
            IgnoreInput _ \<Rightarrow> seq (tally (\<lambda>r. r\<lparr>rn_ignored := rn_ignored r + 1\<rparr>)) (\<lambda>_. ok (s, simulated))
          | UnboundInput _ \<Rightarrow> onboard_unbound J mode change (s, simulated)
          | other \<Rightarrow> fail (''unbound Drive file produced an invalid decision: '' @ gj_show_input J other))
        else
          seq (if fr_trashed (dc_file change) then ok [] else download_listed J (dc_file change)) (\<lambda>bs.
          seq (process_bound_change J mode simulated change bs s) (\<lambda>s. ok (s, simulated))))"

text \<open>Approved originals come first, so that what depends on them finds their document.\<close>

definition sort_change ::
    "'w gateway_job \<Rightarrow> gateway_checkpoint \<Rightarrow> drive_change \<Rightarrow> drive_change list \<times> drive_change list \<Rightarrow>
       ('w job_world, drive_change list \<times> drive_change list) action" where
  "sort_change J c change seen =
     (case seen of (originals, remaining) \<Rightarrow>
        seq (if binding_for_file c (fr_file_id (dc_file change)) = None
             then on_env (jo_approval (gj_ops J) (fr_file_id (dc_file change))) else ok None) (\<lambda>approval.
        case approval of
          Some (OriginalApproval _) \<Rightarrow> ok (originals @ [change], remaining)
        | _ \<Rightarrow> ok (originals, remaining @ [change])))"

definition order_changes ::
    "'w gateway_job \<Rightarrow> drive_change list \<Rightarrow> gateway_checkpoint \<Rightarrow> ('w job_world, drive_change list) action" where
  "order_changes J changes c =
     seq (carry (sort_change J c) changes ([], [])) (\<lambda>(originals, remaining). ok (originals @ remaining))"

section \<open>One run\<close>

definition recover_or_report ::
    "'w gateway_job \<Rightarrow> run_mode \<Rightarrow> versioned_checkpoint \<Rightarrow> ('w job_world, versioned_checkpoint) action" where
  "recover_or_report J mode s =
     (if mode = Apply then seq (recover_pending_inputs J s) (recover_pending_outputs J)
      else
        seq (each (\<lambda>p. dry_run_action (''resume pending input '' @ pn_drive_event_id p))
               (bm_values (ck_pending_inputs (vc_value s)))) (\<lambda>_.
        seq (each (\<lambda>p. dry_run_action (''resume pending output '' @ po_delivery_id p))
               (bm_values (ck_pending_outputs (vc_value s)))) (\<lambda>_. ok s)))"

text \<open>The changes of a run, the token that follows them, and a description of where they are from.\<close>

definition first_snapshot ::
    "'w gateway_job \<Rightarrow> run_mode \<Rightarrow> ('w job_world, drive_change list \<times> string \<times> string) action" where
  "first_snapshot J mode =
     seq (on_env (jo_start_page_token (gj_ops J))) (\<lambda>start.
     if blank start then fail ''Drive returned an empty start page token''
     else
       seq (on_env (jo_list_initial_files (gj_ops J)
              [gc_boox_folder_id (gj_config J), gc_supernote_folder_id (gj_config J)])) (\<lambda>files.
       seq (tally (\<lambda>r. r\<lparr>rn_initialized_page_token := True, rn_pages_processed := 1\<rparr>)) (\<lambda>_.
       seq (if mode = DryRun then
              dry_run_action (''inspect '' @ show_int (int (length files)) @
                '' existing device-folder files before initializing Drive change cursor'')
            else ok ()) (\<lambda>_.
       ok (map drive_change.make files, start, ''initial folder snapshot'')))))"

definition fetch_changes ::
    "'w gateway_job \<Rightarrow> run_mode \<Rightarrow> gateway_checkpoint \<Rightarrow> ('w job_world, drive_change list \<times> string \<times> string) action" where
  "fetch_changes J mode c =
     (case ck_next_page_token c of
        None \<Rightarrow> first_snapshot J mode
      | Some token \<Rightarrow>
          seq (on_env (jo_list_changes (gj_ops J) token)) (\<lambda>page.
          seq (answer (durable_successor page)) (\<lambda>successor.
          seq (tally (\<lambda>r. r\<lparr>rn_pages_processed := 1\<rparr>)) (\<lambda>_.
          ok (cp_changes page, successor, ''page token '' @ token)))))"

definition run_change ::
    "'w gateway_job \<Rightarrow> run_mode \<Rightarrow> drive_change \<Rightarrow> versioned_checkpoint \<times> simulated \<Rightarrow>
       ('w job_world, versioned_checkpoint \<times> simulated) action" where
  "run_change J mode change st =
     seq (tally (\<lambda>r. r\<lparr>rn_changes_seen := rn_changes_seen r + 1\<rparr>)) (\<lambda>_. process_change J mode change st)"

definition run_page ::
    "'w gateway_job \<Rightarrow> run_mode \<Rightarrow> ('w job_world, unit) action" where
  "run_page J mode =
     seq (on_env (jo_load (gj_ops J))) (\<lambda>s.
     seq (answer (validate_checkpoint (vc_value s))) (\<lambda>_.
     seq (recover_or_report J mode s) (\<lambda>s.
     seq (fetch_changes J mode (vc_value s)) (\<lambda>(changes, successor, cursor).
     seq (order_changes J changes (vc_value s)) (\<lambda>changes.
     seq (carry (run_change J mode) changes (s, [])) (\<lambda>(s, _).
     if mode = DryRun then
       dry_run_action (''retain '' @ cursor @ ''; dry-run never checkpoints'')
     else
       seq (persist J (s\<lparr>vc_value := commit_page_token successor (vc_value s)\<rparr>)) (\<lambda>_. ok ())))))))"

definition run_once :: "'w gateway_job \<Rightarrow> run_mode \<Rightarrow> ('w, run_report) action" where
  "run_once J mode e =
     (case run_page J mode \<lparr>jw_env = e, jw_report = empty_report\<rparr> of
        (w, Inl err) \<Rightarrow> (jw_env w, Inl err)
      | (w, Inr _) \<Rightarrow> (jw_env w, Inr (jw_report w)))"

section \<open>Ports\<close>

text \<open>An operation of a store as an action: one that only reads, and one that changes it.\<close>

definition reading :: "('w \<Rightarrow> string + 'a) \<Rightarrow> ('w, 'a) action" where
  "reading f w = (w, f w)"

subsection \<open>Immutable evidence\<close>

definition same_evidence ::
    "string \<Rightarrow> bytes \<Rightarrow> (string, string) bmap \<Rightarrow> u64 \<Rightarrow> stored_object option \<Rightarrow> string + stored_object" where
  "same_evidence path bs meta generation found =
     rbind (ok_or (''immutable evidence '' @ path @ ''@'' @ show_u64 generation @ '' disappeared'') found)
       (\<lambda>existing.
     if so_bytes existing \<noteq> bs \<or> so_metadata existing \<noteq> meta then
       Inl (''immutable evidence '' @ path @ ''@'' @ show_u64 generation @
            '' differs from the retried upload'')
     else Inr existing)"

definition put_immutable ::
    "'w cloud_ops \<Rightarrow> string \<Rightarrow> bytes \<Rightarrow> (string, string) bmap \<Rightarrow> ('w, stored_object) action" where
  "put_immutable ops path bs meta w =
     (case co_write ops w \<lparr>cw_path = path, cw_bytes = bs, cw_metadata = meta, cw_precondition = DoesNotExist\<rparr> of
        (w', Inr obj) \<Rightarrow> (w', Inr obj)
      | (w', Inl (PreconditionFailed _ _ None)) \<Rightarrow>
          (w', Inl (''immutable evidence '' @ path @ '' already exists at an unknown generation''))
      | (w', Inl (PreconditionFailed _ _ (Some generation))) \<Rightarrow>
          (w', rbind (co_read_generation ops w' path generation) (same_evidence path bs meta generation))
      | (w', Inl (OtherCommitError reason)) \<Rightarrow> (w', Inl reason))"

definition evidence_read_generation ::
    "'w cloud_ops \<Rightarrow> string \<Rightarrow> u64 \<Rightarrow> ('w, stored_object option) action" where
  "evidence_read_generation ops path generation = reading (\<lambda>w. co_read_generation ops w path generation)"

subsection \<open>The broker\<close>

record 'w broker_port =
  bk_env :: runtime_env
  bk_ops :: "'w cloud_ops"
  bk_state_of_json :: "bytes \<Rightarrow> string + document_state"
  bk_body_to_json :: "cloud_object \<Rightarrow> string \<Rightarrow> string + bytes"

definition state_if_exists :: "'w broker_port \<Rightarrow> string \<Rightarrow> ('w, document_state option) action" where
  "state_if_exists P document_id = reading (\<lambda>w.
     rbind (co_load (bk_ops P) w document_id) (\<lambda>entry.
     case sr_active entry of
       None \<Rightarrow> Inr None
     | Some active \<Rightarrow>
         let payload = ac_payload active
         in rbind (co_read_generation (bk_ops P) w (pl_path payload) (pl_generation payload)) (\<lambda>found.
            rbind (ok_or (''canonical state payload '' @ pl_path payload @ ''@'' @
                          show_u64 (pl_generation payload) @ '' is missing'') found) (\<lambda>obj.
            rbind (bk_state_of_json P (so_bytes obj)) (\<lambda>st. Inr (Some st))))))"

definition canonical_state :: "'w broker_port \<Rightarrow> string \<Rightarrow> ('w, document_state) action" where
  "canonical_state P document_id =
     seq (state_if_exists P document_id) (\<lambda>st.
     answer (ok_or (''canonical state does not exist for '' @ document_id) st))"

definition view_target :: "string \<Rightarrow> string + device_side" where
  "view_target path =
     (if prefix ''BOOX_Folder/'' path then Inr Boox
      else if prefix ''Supernote_Folder/'' path then Inr Supernote
      else Inl (''generated broker view '' @ path @ '' is outside device folders''))"

definition view_output ::
    "document_state \<Rightarrow> string \<Rightarrow> sha \<Rightarrow> generated_view \<Rightarrow> stored_object \<Rightarrow> string + broker_drive_output" where
  "view_output st event_id sha view obj =
     (if sha256_hex sha (so_bytes obj) \<noteq> gv_content_sha256 view then
        Inl (''generated broker view '' @ gv_object_path view @ '' no longer matches canonical state'')
      else
        rbind (view_target (gv_object_path view)) (\<lambda>target.
        rbind (ok_or ''generated broker view has no extension'' (path_extension (gv_object_path view)))
          (\<lambda>extension.
        Inr \<lparr>bo_gcs_object_path = gv_object_path view, bo_gcs_generation = so_generation obj,
             bo_document_id = st_document_id st, bo_target = target, bo_event_id = event_id,
             bo_source_revisions = gv_source_revisions view,
             bo_content_sha256 = gv_content_sha256 view, bo_file_extension = extension\<rparr>)))"

definition output_for_event ::
    "'w broker_port \<Rightarrow> document_state \<Rightarrow> string \<Rightarrow> ('w, broker_drive_output option) action" where
  "output_for_event P st event_id = reading (\<lambda>w.
     case find (\<lambda>v. gv_event_id v = event_id) (bm_values (st_generated_views st)) of
       None \<Rightarrow> Inr None
     | Some view \<Rightarrow>
         rbind (co_read (bk_ops P) w (gv_object_path view)) (\<lambda>found.
         rbind (ok_or (''generated broker view '' @ gv_object_path view @ '' is missing'') found) (\<lambda>obj.
         rbind (view_output st event_id (x_sha (rt_ext (bk_env P))) view obj) (\<lambda>out. Inr (Some out)))))"

definition port_register_original :: "'w broker_port \<Rightarrow> prepared_registration \<Rightarrow> u64 \<Rightarrow> ('w, unit) action" where
  "port_register_original P g generation =
     seq (answer (ok_or ''original registration has no source file name''
            (case bm_get (pg_metadata g) ''inkbridge-original-file-name'' of
               None \<Rightarrow> None | Some v \<Rightarrow> if blank v then None else Some v))) (\<lambda>name.
     seq (\<lambda>w. rt_register_document (bk_env P) (bk_ops P) w
            \<lparr>rr_original_object_path = pg_gcs_object_path g, rr_original_file_name = name,
             rr_source_generation = Some generation\<rparr>) (\<lambda>st.
     if st_document_id st \<noteq> pg_document_id g \<or> st_original_pdf_sha256 st \<noteq> pg_original_pdf_sha256 g then
       fail ''broker registered a different original document identity''
     else ok ()))"

definition port_frontier :: "'w broker_port \<Rightarrow> string \<Rightarrow> ('w, revision_pair) action" where
  "port_frontier P document_id =
     seq (canonical_state P document_id) (\<lambda>st. ok (revisions st))"

definition port_frontier_if_exists :: "'w broker_port \<Rightarrow> string \<Rightarrow> ('w, revision_pair option) action" where
  "port_frontier_if_exists P document_id =
     seq (state_if_exists P document_id) (\<lambda>st. ok (map_option revisions st))"

definition outcome_event_id :: "process_outcome \<Rightarrow> string" where
  "outcome_event_id out =
     (case out of
        Applied _ event_id _ _ _ \<Rightarrow> event_id
      | Duplicate _ event_id \<Rightarrow> event_id
      | IgnoredBrokerOutput _ event_id \<Rightarrow> event_id
      | IgnoredStaleSource _ event_id \<Rightarrow> event_id
      | process_outcome.Conflict _ event_id _ _ _ \<Rightarrow> event_id)"

definition requires_output :: "process_outcome \<Rightarrow> bool" where
  "requires_output out = (case out of Applied _ _ _ _ _ \<Rightarrow> True | Duplicate _ _ \<Rightarrow> True | _ \<Rightarrow> False)"

definition is_own_output :: "process_outcome \<Rightarrow> bool" where
  "is_own_output out = (case out of IgnoredBrokerOutput _ _ \<Rightarrow> True | _ \<Rightarrow> False)"

definition processed_result ::
    "'w broker_port \<Rightarrow> pending_drive_input \<Rightarrow> process_outcome \<Rightarrow> ('w, broker_result) action" where
  "processed_result P p out =
     (let event_id = outcome_event_id out
      in if event_id \<noteq> pn_drive_event_id p then fail ''broker outcome event identity changed''
         else if is_own_output out then
           fail ''broker treated a device-originated pending input as its own output''
         else
           seq (canonical_state P (pn_document_id p)) (\<lambda>st.
           seq (output_for_event P st event_id) (\<lambda>output_found.
           if requires_output out \<and> output_found = None then
             fail (''broker accepted '' @ pn_drive_event_id p @
                   '' but its exact generated delivery is unavailable'')
           else ok \<lparr>br_disposition = AcceptedInput, br_output = output_found\<rparr>)))"

text \<open>The notification of a pending input, as Cloud Storage would have sent it.\<close>

definition pending_headers :: "pending_drive_input \<Rightarrow> (string, string) bmap" where
  "pending_headers p =
     bm_of_list [(''ce-type'', ''google.cloud.storage.object.v1.finalized''), (''ce-id'', pn_drive_event_id p)]"

definition pending_object :: "'w broker_port \<Rightarrow> pending_drive_input \<Rightarrow> stored_object \<Rightarrow> cloud_object" where
  "pending_object P p obj =
     \<lparr>fo_bucket = rt_bucket (bk_env P), fo_name = pn_gcs_object_path p,
      fo_generation = show_u64 (pn_gcs_generation p), fo_metadata = so_metadata obj\<rparr>"

definition port_process :: "'w broker_port \<Rightarrow> pending_drive_input \<Rightarrow> ('w, broker_result) action" where
  "port_process P p =
     seq (reading (\<lambda>w. co_read_generation (bk_ops P) w (pn_gcs_object_path p) (pn_gcs_generation p))) (\<lambda>found.
     seq (answer (ok_or (''pending input '' @ pn_gcs_object_path p @ ''@'' @
                         show_u64 (pn_gcs_generation p) @ '' is missing'') found)) (\<lambda>obj.
     seq (answer (bk_body_to_json P (pending_object P p obj) (show_int (int (length (so_bytes obj)))))) (\<lambda>body.
     seq (\<lambda>w. handle_storage_event (bk_env P) (bk_ops P) w (pending_headers p) body) (\<lambda>outcome.
     case outcome of
       RejectedOutcome reason \<Rightarrow> ok \<lparr>br_disposition = RejectedInput reason, br_output = None\<rparr>
     | IgnoredOutcome reason \<Rightarrow> fail (''broker unexpectedly ignored pending Drive input: '' @ reason)
     | RegisteredOutcome _ _ _ _ \<Rightarrow> fail ''broker unexpectedly registered a pending Drive input''
     | ProcessedOutcome out \<Rightarrow> processed_result P p out))))"

end
