(* ===== verification/Drive_Runtime_Facts.thy ===== *)
theory Drive_Runtime_Facts
  imports Drive_Runtime Gateway_Run
begin

text \<open>
  What a run does to the durable checkpoints.  The checkpoint store is a history: the checkpoints it
  ever held, each with its own version, the last of them the present one.  The locale
  \<open>job_environment\<close> is what the job relies on: loading answers an entry, a swap appends one when the
  version is the present one (and may lose its answer), and everything else leaves the history as it
  is, up to what other runs append.  A checkpoint in hand stays reachable from the entry it was loaded
  from, so what a run appends continues the history.
\<close>

section \<open>Histories\<close>

definition chained :: "(gateway_checkpoint \<Rightarrow> gateway_checkpoint \<Rightarrow> bool) \<Rightarrow> versioned_checkpoint list \<Rightarrow> bool" where
  "chained R vs \<longleftrightarrow> successively (\<lambda>a b. R (vc_value a) (vc_value b)) vs"

definition unmoved :: "sha \<Rightarrow> gateway_checkpoint \<Rightarrow> gateway_checkpoint \<Rightarrow> bool" where
  "unmoved sha a b \<longleftrightarrow> (\<exists>cmds. gateway_run sha a cmds b) \<and> ck_next_page_token b = ck_next_page_token a"

lemma unmoved_refl [simp]: "unmoved sha c c"
  by (auto simp: unmoved_def intro: gateway_run.start)

lemma commit_token: "commit_command sha cmd c = (c', Inr ()) \<Longrightarrow> ck_next_page_token c' = ck_next_page_token c"
  by (cases cmd)
    (auto simp: commit_command_def reject_drive_input_ok with_input_def with_registration_def
      with_artifact_def with_delivery_def
      elim!: commit_drive_input_ok accept_drive_input_ok commit_registration_ok commit_artifact_ok
        reserve_drive_output_ok commit_drive_output_ok)

lemma unmoved_commit:
  "unmoved sha a c \<Longrightarrow> commit_command sha cmd c = (c', Inr ()) \<Longrightarrow> unmoved sha a c'"
  unfolding unmoved_def by (metis gateway_run.committed commit_token)

text \<open>A history \<open>h\<close> was continued to \<open>h'\<close>, each new entry from the one before it by \<open>R\<close>.\<close>

definition continued ::
    "(gateway_checkpoint \<Rightarrow> gateway_checkpoint \<Rightarrow> bool) \<Rightarrow> versioned_checkpoint list \<Rightarrow> versioned_checkpoint list \<Rightarrow> bool" where
  "continued R h h' \<longleftrightarrow> (\<exists>new. h' = h @ new \<and> chained R (last h # new))"

lemma continued_refl [simp]: "continued R h h"
  by (auto simp: continued_def chained_def)

lemma continued_trans:
  assumes "h \<noteq> []" and "continued R h h'" and "continued R h' h''"
  shows "continued R h h''"
proof -
  obtain ys zs where ys: "h' = h @ ys" "chained R (last h # ys)" and zs: "h'' = h' @ zs" "chained R (last h' # zs)"
    using assms(2,3) by (auto simp: continued_def)
  have last: "last h' = last (last h # ys)" using assms(1) ys(1) by simp
  let ?P = "\<lambda>a b. R (vc_value a) (vc_value b)"
  have "successively ?P ((last h # ys) @ zs)"
    unfolding successively_append_iff
    using ys(2) zs(2) last by (cases zs) (simp_all add: chained_def successively_Cons)
  then have "chained R (last h # ys @ zs)" by (simp add: chained_def)
  with ys(1) zs(1) show ?thesis by (auto simp: continued_def)
qed

lemma continued_step: "R (vc_value (last h)) (vc_value s) \<Longrightarrow> continued R h (h @ [s])"
  by (auto simp: continued_def chained_def)

lemma continued_mono: "continued R h h' \<Longrightarrow> (\<And>a b. R a b \<Longrightarrow> S a b) \<Longrightarrow> continued S h h'"
  unfolding continued_def chained_def by (metis (mono_tags, lifting) successively_mono)

section \<open>The page token\<close>

text \<open>The token Drive offers to go on with: after no token the start of its change feed, after a token
  the one successor its page names.\<close>

definition offered_token :: "'w job_ops \<Rightarrow> string option \<Rightarrow> ('w, string) action" where
  "offered_token ops token =
     (case token of
        None \<Rightarrow>
          seq (jo_start_page_token ops) (\<lambda>start.
          if blank start then fail ''Drive returned an empty start page token'' else ok start)
      | Some following \<Rightarrow>
          seq (jo_list_changes ops following) (\<lambda>page. answer (durable_successor page)))"

section \<open>What the job can do to its environment\<close>

text \<open>From one state of the environment to another by calls of the job's operations.\<close>

inductive job_call :: "'w job_ops \<Rightarrow> 'w \<Rightarrow> 'w \<Rightarrow> bool" for ops where
  call_load: "job_call ops x (fst (jo_load ops x))"
| call_swap: "job_call ops x (fst (jo_swap ops v c x))"
| call_start_page_token: "job_call ops x (fst (jo_start_page_token ops x))"
| call_list_initial_files: "job_call ops x (fst (jo_list_initial_files ops folders x))"
| call_list_changes: "job_call ops x (fst (jo_list_changes ops token x))"
| call_download: "job_call ops x (fst (jo_download ops file_id x))"
| call_file_revision: "job_call ops x (fst (jo_file_revision ops file_id x))"
| call_find_delivery: "job_call ops x (fst (jo_find_delivery ops delivery_id x))"
| call_generate_file_id: "job_call ops x (fst (jo_generate_file_id ops x))"
| call_create_delivery: "job_call ops x (fst (jo_create_delivery ops out bs x))"
| call_approval: "job_call ops x (fst (jo_approval ops file_id x))"
| call_put_immutable: "job_call ops x (fst (jo_put_immutable ops path bs meta x))"
| call_read_generation: "job_call ops x (fst (jo_read_generation ops path generation x))"
| call_register_original: "job_call ops x (fst (jo_register_original ops g generation x))"
| call_frontier: "job_call ops x (fst (jo_frontier ops document_id x))"
| call_frontier_if_exists: "job_call ops x (fst (jo_frontier_if_exists ops document_id x))"
| call_process: "job_call ops x (fst (jo_process ops p x))"

abbreviation job_calls :: "'w job_ops \<Rightarrow> 'w \<Rightarrow> 'w \<Rightarrow> bool" where
  "job_calls ops \<equiv> rtranclp (job_call ops)"

lemmas one_call = job_call.intros [THEN r_into_rtranclp [where r = "job_call ops" for ops]]

section \<open>What the job relies on\<close>

text \<open>\<open>foreign\<close> is what other runs may do to the checkpoint meanwhile.\<close>

definition harmless ::
    "('w \<Rightarrow> bool) \<Rightarrow> ('w \<Rightarrow> versioned_checkpoint list) \<Rightarrow>
       (gateway_checkpoint \<Rightarrow> gateway_checkpoint \<Rightarrow> bool) \<Rightarrow> ('w, 'a) action \<Rightarrow> bool" where
  "harmless good history foreign m \<longleftrightarrow>
     (\<forall>e. good e \<longrightarrow> good (fst (m e)) \<and> continued foreign (history e) (history (fst (m e))))"

locale job_environment =
  fixes ops :: "'w job_ops"
    and good :: "'w \<Rightarrow> bool"
    and history :: "'w \<Rightarrow> versioned_checkpoint list"
    and foreign :: "gateway_checkpoint \<Rightarrow> gateway_checkpoint \<Rightarrow> bool"
  assumes history_ok: "good e \<Longrightarrow> history e \<noteq> [] \<and> distinct (map vc_version (history e))"
    and load_harmless: "harmless good history foreign (jo_load ops)"
    and load_known: "good e \<Longrightarrow> jo_load ops e = (e', Inr s) \<Longrightarrow> s \<in> set (history e')"
    and swap_good: "good e \<Longrightarrow> good (fst (jo_swap ops v c e))"
    and swap_done: "good e \<Longrightarrow> jo_swap ops v c e = (e', Inr s) \<Longrightarrow>
      v = vc_version (last (history e)) \<and> vc_value s = c \<and> history e' = history e @ [s]"
    and swap_failed: "good e \<Longrightarrow> jo_swap ops v c e = (e', Inl err) \<Longrightarrow>
      history e' = history e \<or>
      v = vc_version (last (history e)) \<and> (\<exists>s. vc_value s = c \<and> history e' = history e @ [s])"
    and drive_harmless: "harmless good history foreign (jo_start_page_token ops)"
      "harmless good history foreign (jo_list_initial_files ops folders)"
      "harmless good history foreign (jo_list_changes ops token)"
      "harmless good history foreign (jo_download ops file_id)"
      "harmless good history foreign (jo_file_revision ops file_id)"
      "harmless good history foreign (jo_find_delivery ops delivery_id)"
      "harmless good history foreign (jo_generate_file_id ops)"
      "harmless good history foreign (jo_create_delivery ops out bs)"
      "harmless good history foreign (jo_approval ops file_id)"
    and broker_harmless: "harmless good history foreign (jo_put_immutable ops path bs meta)"
      "harmless good history foreign (jo_read_generation ops path generation)"
      "harmless good history foreign (jo_register_original ops g generation)"
      "harmless good history foreign (jo_frontier ops document_id)"
      "harmless good history foreign (jo_frontier_if_exists ops document_id)"
      "harmless good history foreign (jo_process ops p)"
begin

text \<open>The step of a history that this or another run makes before the page token moves on.\<close>

definition step :: "sha \<Rightarrow> gateway_checkpoint \<Rightarrow> gateway_checkpoint \<Rightarrow> bool" where
  "step sha a b \<longleftrightarrow> foreign a b \<or> unmoved sha a b"

definition goes_on :: "sha \<Rightarrow> 'w \<Rightarrow> 'w \<Rightarrow> bool" where
  "goes_on sha e e' \<longleftrightarrow>
     good e' \<and> continued (step sha) (history e) (history e') \<and> job_calls ops e e'"

definition anchored :: "sha \<Rightarrow> versioned_checkpoint \<Rightarrow> 'w \<Rightarrow> bool" where
  "anchored sha s e \<longleftrightarrow>
     (\<exists>a \<in> set (history e). vc_version a = vc_version s \<and> unmoved sha (vc_value a) (vc_value s))"

text \<open>An action that starts with the checkpoint \<open>s\<close> in hand and ends with another one keeps it
  anchored, and keeps its page token.\<close>

definition same_token :: "versioned_checkpoint \<Rightarrow> versioned_checkpoint \<Rightarrow> bool" where
  "same_token s s' \<longleftrightarrow> ck_next_page_token (vc_value s') = ck_next_page_token (vc_value s)"

definition sound ::
    "sha \<Rightarrow> versioned_checkpoint \<Rightarrow> ('w job_world, 'a) action \<Rightarrow> ('a \<Rightarrow> versioned_checkpoint) \<Rightarrow> bool" where
  "sound sha s m held \<longleftrightarrow>
     (\<forall>w. good (jw_env w) \<longrightarrow> anchored sha s (jw_env w) \<longrightarrow>
        goes_on sha (jw_env w) (jw_env (fst (m w))) \<and>
        (\<forall>x. snd (m w) = Inr x \<longrightarrow> anchored sha (held x) (jw_env (fst (m w))) \<and> same_token s (held x)))"

lemma same_token [simp]: "same_token s s"
  by (simp add: same_token_def)

lemma goes_on_trans: "good e \<Longrightarrow> goes_on sha e e' \<Longrightarrow> goes_on sha e' e'' \<Longrightarrow> goes_on sha e e''"
  unfolding goes_on_def by (metis continued_trans history_ok rtranclp_trans)

lemma anchored_later: "anchored sha s e \<Longrightarrow> goes_on sha e e' \<Longrightarrow> anchored sha s e'"
  by (auto simp: anchored_def goes_on_def continued_def)

lemma harmless_goes_on:
  "harmless good history foreign m \<Longrightarrow> job_calls ops e (fst (m e)) \<Longrightarrow> good e \<Longrightarrow> goes_on sha e (fst (m e))"
  unfolding harmless_def goes_on_def
  by (metis (mono_tags, lifting) continued_mono step_def)

lemma sound_pure:
  "sound sha s (fail err) held" "sound sha s (answer r) (\<lambda>_. s)" "sound sha s (tally f) (\<lambda>_. s)"
  "sound sha s (dry_run_action t) (\<lambda>_. s)"
  by (simp_all add: sound_def fail_def answer_def tally_def dry_run_action_def goes_on_def)

lemma sound_ok: "held x = s \<Longrightarrow> sound sha s (ok x) held"
  by (simp add: sound_def ok_def goes_on_def)

lemma sound_env:
  assumes m: "harmless good history foreign m" and call: "\<And>x. job_calls ops x (fst (m x))"
  shows "sound sha s (on_env m) (\<lambda>_. s)"
  unfolding sound_def
proof (intro allI impI)
  fix w :: "'w job_world"
  assume w: "good (jw_env w)" "anchored sha s (jw_env w)"
  have "jw_env (fst (on_env m w)) = fst (m (jw_env w))" by (simp add: on_env_def split: prod.split)
  with harmless_goes_on [OF m call w(1)] anchored_later [OF w(2)]
  show "goes_on sha (jw_env w) (jw_env (fst (on_env m w))) \<and>
      (\<forall>x. snd (on_env m w) = Inr x \<longrightarrow> anchored sha s (jw_env (fst (on_env m w))) \<and> same_token s s)"
    by (metis same_token)
qed

lemma sound_seq:
  assumes "sound sha s m held" and "\<And>x. sound sha (held x) (k x) held'"
  shows "sound sha s (seq m k) held'"
  unfolding sound_def
proof (intro allI impI)
  fix w :: "'w job_world" assume w: "good (jw_env w)" "anchored sha s (jw_env w)"
  obtain w1 r where m: "m w = (w1, r)" by force
  with assms(1) w have first: "goes_on sha (jw_env w) (jw_env w1)"
    "\<And>x. r = Inr x \<Longrightarrow> anchored sha (held x) (jw_env w1) \<and> same_token s (held x)"
    by (auto simp: sound_def)
  show "goes_on sha (jw_env w) (jw_env (fst (seq m k w))) \<and>
      (\<forall>x. snd (seq m k w) = Inr x \<longrightarrow>
         anchored sha (held' x) (jw_env (fst (seq m k w))) \<and> same_token s (held' x))"
  proof (cases r)
    case (Inl e)
    with m first show ?thesis by (simp add: seq_def)
  next
    case (Inr x)
    have "good (jw_env w1)" using first(1) by (simp add: goes_on_def)
    with assms(2) [of x] first(2) [OF Inr]
    have "goes_on sha (jw_env w1) (jw_env (fst (k x w1))) \<and>
        (\<forall>y. snd (k x w1) = Inr y \<longrightarrow>
          anchored sha (held' y) (jw_env (fst (k x w1))) \<and> same_token (held x) (held' y))"
      unfolding sound_def by blast
    with m Inr first(1) first(2) [OF Inr] goes_on_trans [OF w(1)] show ?thesis
      by (auto simp: seq_def same_token_def)
  qed
qed

lemma sound_carry:
  assumes "\<And>x b. sound sha (held b) (f x b) held"
  shows "sound sha (held b) (carry f xs b) held"
  by (induction xs arbitrary: b) (auto intro: sound_ok sound_seq assms)

lemma sound_each: "(\<And>x. sound sha s (f x) (\<lambda>_. s)) \<Longrightarrow> sound sha s (each f xs) (\<lambda>_. s)"
  by (induction xs) (auto intro: sound_ok sound_seq)

lemma sound_committed:
  assumes "\<And>c. f c = commit_command sha cmd c"
  shows "sound sha s (committed f s) (\<lambda>x. x)"
proof -
  have "anchored sha (s\<lparr>vc_value := c\<rparr>) e" if "anchored sha s e" "f (vc_value s) = (c, Inr ())" for c e
    using that assms by (auto simp: anchored_def intro: unmoved_commit)
  moreover have "same_token s (s\<lparr>vc_value := c\<rparr>)" if "f (vc_value s) = (c, Inr ())" for c
    using that assms by (auto simp: same_token_def intro: commit_token)
  ultimately show ?thesis
    by (auto simp: sound_def committed_def ok_def fail_def goes_on_def split: prod.splits sum.splits)
qed

lemma swap_cases:
  assumes "good e" and "anchored sha s e" and "jo_swap ops (vc_version s) c e = (e', r)"
  obtains (kept) "good e'" "job_calls ops e e'" "history e' = history e" "isl r"
  | (swapped) x where "good e'" "job_calls ops e e'" "history e' = history e @ [x]" "vc_value x = c"
      "unmoved sha (vc_value (last (history e))) (vc_value s)" "r = Inr x \<or> isl r"
proof -
  have good: "good e'" using swap_good [OF assms(1), of "vc_version s" c] assms(3) by simp
  have call: "job_calls ops e e'" using one_call(2) [of ops e "vc_version s" c] assms(3) by simp
  have known: "a = last (history e)" if "a \<in> set (history e)" "vc_version a = vc_version (last (history e))" for a
    using that history_ok [OF assms(1)] by (metis distinct_map inj_on_eq_iff last_in_set)
  have from_last: "unmoved sha (vc_value (last (history e))) (vc_value s)"
    if "vc_version s = vc_version (last (history e))"
    using assms(2) that known unfolding anchored_def by metis
  show thesis
  proof (cases r)
    case (Inl err)
    from swap_failed [OF assms(1) assms(3) [unfolded Inl]] show thesis
      using kept swapped good call from_last Inl by (metis sum.disc(1))
  next
    case (Inr x)
    from swap_done [OF assms(1) assms(3) [unfolded Inr]] show thesis
      using swapped good call from_last Inr by blast
  qed
qed

lemma sound_persist: "sound sha s (on_env (jo_swap ops (vc_version s) (vc_value s))) (\<lambda>x. x)"
  unfolding sound_def
proof (intro allI impI)
  fix w :: "'w job_world" assume w: "good (jw_env w)" "anchored sha s (jw_env w)"
  obtain e' r where swap: "jo_swap ops (vc_version s) (vc_value s) (jw_env w) = (e', r)" by force
  have "goes_on sha (jw_env w) e' \<and> (\<forall>x. r = Inr x \<longrightarrow> anchored sha x e' \<and> same_token s x)"
    using w swap
    by (cases rule: swap_cases [OF w swap])
      (auto simp: goes_on_def step_def anchored_def isl_def same_token_def intro!: continued_step)
  with swap show "goes_on sha (jw_env w) (jw_env (fst (on_env (jo_swap ops (vc_version s) (vc_value s)) w))) \<and>
      (\<forall>x. snd (on_env (jo_swap ops (vc_version s) (vc_value s)) w) = Inr x \<longrightarrow>
         anchored sha x (jw_env (fst (on_env (jo_swap ops (vc_version s) (vc_value s)) w))) \<and> same_token s x)"
    by (simp add: on_env_def)
qed

end

section \<open>The job in its environment\<close>

locale running_job = job_environment "gj_ops J" good history foreign
  for J :: "'w gateway_job" and good :: "'w \<Rightarrow> bool" and history :: "'w \<Rightarrow> versioned_checkpoint list"
    and foreign :: "gateway_checkpoint \<Rightarrow> gateway_checkpoint \<Rightarrow> bool"
begin

abbreviation holds ::
    "versioned_checkpoint \<Rightarrow> ('w job_world, 'a) action \<Rightarrow> ('a \<Rightarrow> versioned_checkpoint) \<Rightarrow> bool" where
  "holds \<equiv> sound (gj_sha J)"

lemmas sound_ops =
  sound_env [OF drive_harmless(1) one_call(3)]
  sound_env [OF drive_harmless(2) one_call(4)]
  sound_env [OF drive_harmless(3) one_call(5)]
  sound_env [OF drive_harmless(4) one_call(6)]
  sound_env [OF drive_harmless(5) one_call(7)]
  sound_env [OF drive_harmless(6) one_call(8)]
  sound_env [OF drive_harmless(7) one_call(9)]
  sound_env [OF drive_harmless(8) one_call(10)]
  sound_env [OF drive_harmless(9) one_call(11)]
  sound_env [OF broker_harmless(1) one_call(12)]
  sound_env [OF broker_harmless(2) one_call(13)]
  sound_env [OF broker_harmless(3) one_call(14)]
  sound_env [OF broker_harmless(4) one_call(15)]
  sound_env [OF broker_harmless(5) one_call(16)]
  sound_env [OF broker_harmless(6) one_call(17)]

lemma persist_sound: "holds s (persist J s) (\<lambda>x. x)"
  unfolding persist_def by (rule sound_seq [OF sound_pure(2) sound_persist])

lemma committed_sound:
  "holds s (committed (\<lambda>c. commit_drive_input c i g) s) (\<lambda>x. x)"
  "holds s (committed (\<lambda>c. accept_drive_input c event_id) s) (\<lambda>x. x)"
  "holds s (committed (\<lambda>c. reject_drive_input c event_id) s) (\<lambda>x. x)"
  "holds s (committed (\<lambda>c. commit_original_registration c r) s) (\<lambda>x. x)"
  "holds s (committed (\<lambda>c. commit_device_artifact_binding c a) s) (\<lambda>x. x)"
  "holds s (committed (\<lambda>c. reserve_drive_output c p) s) (\<lambda>x. x)"
  "holds s (committed (\<lambda>c. commit_drive_output (gj_sha J) c p f v) s) (\<lambda>x. x)"
  by (rule sound_committed [where cmd = "CommitInput i g"]
      sound_committed [where cmd = "AcceptInput event_id"]
      sound_committed [where cmd = "RejectInput event_id"]
      sound_committed [where cmd = "CommitRegistration r"]
      sound_committed [where cmd = "CommitArtifact a"]
      sound_committed [where cmd = "ReserveDelivery p"]
      sound_committed [where cmd = "CommitDelivery p f v"], simp add: commit_command_def)+

lemma reserve_output_sound: "holds s (reserve_output J s out) (\<lambda>x. x)"
  unfolding reserve_output_def
  by (rule sound_seq [OF sound_pure(2)])
    (auto intro: sound_ok sound_pure sound_seq [OF sound_ops(7)] committed_sound split: output_decision.split)

lemma create_output_sound: "holds s (create_output J s out) (\<lambda>_. s)"
  unfolding create_output_def
  by (rule sound_seq [OF sound_ops(11)], rule sound_seq [OF sound_pure(2)])
    (auto intro!: sound_ok sound_pure sound_seq [OF sound_ops(8)] sound_seq [OF sound_pure(2)]
      split: output_decision.split)

lemma locate_output_sound: "holds s (locate_output J s out) (\<lambda>_. s)"
  unfolding locate_output_def
  by (rule sound_seq [OF sound_ops(6)], rule sound_seq [OF sound_pure(2)])
    (auto intro: sound_ok sound_pure create_output_sound split: output_decision.split)

lemma recover_output_sound: "holds s (recover_output J out s) (\<lambda>x. x)"
  unfolding recover_output_def
  by (rule sound_seq [OF locate_output_sound])
    (auto intro!: sound_seq [OF committed_sound(7)] sound_seq [OF persist_sound]
      sound_seq [OF sound_pure(3)] sound_ok)

lemma recover_pending_outputs_sound: "holds s (recover_pending_outputs J s) (\<lambda>x. x)"
  unfolding recover_pending_outputs_def
  by (rule sound_carry [where held = "\<lambda>x. x"]) (rule recover_output_sound)

lemma settle_input_sound: "holds s (settle_input J event_id result s) (\<lambda>x. x)"
  unfolding settle_input_def
  by (auto intro!: sound_seq [OF committed_sound(2)] sound_seq [OF committed_sound(3)]
      sound_seq [OF sound_pure(3)] sound_ok reserve_output_sound
      split: broker_disposition.split option.split)

lemma finish_pending_input_sound: "holds s (finish_pending_input J p s) (\<lambda>x. x)"
  unfolding finish_pending_input_def
  by (rule sound_seq [OF sound_ops(15)], rule sound_seq [OF settle_input_sound],
      rule sound_seq [OF persist_sound recover_pending_outputs_sound])

lemma recover_pending_inputs_sound: "holds s (recover_pending_inputs J s) (\<lambda>x. x)"
  unfolding recover_pending_inputs_def
  by (rule sound_carry [where held = "\<lambda>x. x"]) (rule finish_pending_input_sound)

lemma download_listed_sound: "holds s (download_listed J listed) (\<lambda>_. s)"
  unfolding download_listed_def
  by (rule sound_seq [OF sound_ops(4)], rule sound_seq [OF sound_ops(5)]) (auto intro: sound_ok sound_pure)

lemma block_sound:
  "holds s (block_unapproved mode file_id s) (\<lambda>x. x)"
  "holds s (block_invalid_approval mode file_id reason s) (\<lambda>x. x)"
  unfolding block_unapproved_def block_invalid_approval_def
  by (rule sound_seq [OF sound_pure(3)], auto intro!: sound_seq [OF sound_pure(4)] sound_ok sound_pure)+

lemma known_frontier_sound: "holds s (known_frontier J simulated document_id) (\<lambda>_. s)"
  unfolding known_frontier_def by (auto intro: sound_ok sound_ops split: option.split)

lemma upload_input_sound: "holds s (upload_input J mode i bs s) (\<lambda>x. x)"
  unfolding upload_input_def
  by (auto intro!: sound_seq [OF sound_pure(4)] sound_ok sound_seq [OF sound_ops(10)]
      sound_seq [OF committed_sound(1)] sound_seq [OF persist_sound] sound_seq [OF sound_pure(2)]
      finish_pending_input_sound)

lemma process_bound_change_sound: "holds s (process_bound_change J mode simulated change bs s) (\<lambda>x. x)"
  unfolding process_bound_change_def
  by (rule sound_seq [OF sound_pure(2)], rule sound_seq [OF known_frontier_sound], rule sound_seq [OF sound_pure(2)])
    (auto intro!: sound_seq [OF sound_pure(3)] sound_ok sound_pure upload_input_sound
      split: input_decision.split)

lemma register_approved_sound: "holds s (register_approved J mode simulated g bs s) fst"
proof (cases mode)
  case Apply
  then show ?thesis
    unfolding register_approved_def
    by (auto intro!: sound_seq [OF sound_ops(10)] sound_seq [OF sound_ops(12)] sound_pure
        sound_seq [OF committed_sound(4)] sound_seq [OF persist_sound] sound_ok)
next
  case DryRun
  have "holds s (case bm_get simulated (pg_document_id g) of
      Some frontier \<Rightarrow> ok frontier
    | None \<Rightarrow> seq (on_env (jo_frontier_if_exists (gj_ops J) (pg_document_id g)))
        (\<lambda>frontier. ok (case frontier of None \<Rightarrow> default_revisions | Some r \<Rightarrow> r))) (\<lambda>_. s)"
    by (auto intro!: sound_ok sound_seq [OF sound_ops(14)] split: option.split)
  note frontier = sound_seq [OF this]
  show ?thesis
    unfolding register_approved_def using DryRun
    by (auto intro!: sound_seq [OF sound_pure(2)] frontier sound_seq [OF committed_sound(4)]
        sound_seq [OF sound_pure(4)] sound_ok)
qed

lemma onboard_original_sound: "holds s (onboard_original J mode simulated change bs approval s) fst"
  unfolding onboard_original_def
  by (rule sound_seq [OF sound_pure(2)])
    (auto intro!: register_approved_sound sound_seq [OF sound_pure(3)] sound_seq [OF block_sound(2)] sound_ok
      split: registration_decision.split)

lemma onboard_artifact_sound: "holds s (onboard_artifact J mode simulated change bs approval s) (\<lambda>x. x)"
  unfolding onboard_artifact_def Let_def
  by (rule sound_seq [OF known_frontier_sound], rule sound_seq [OF sound_pure(2)])
    (auto intro!: sound_seq [OF committed_sound(5)] sound_seq [OF sound_pure(4)] sound_seq [OF persist_sound]
      process_bound_change_sound block_sound split: artifact_decision.split)

lemma onboard_unbound_sound: "holds (fst st) (onboard_unbound J mode change st) fst"
  unfolding onboard_unbound_def
  by (cases st, simp only: prod.case fst_conv Let_def, rule sound_seq [OF download_listed_sound],
      rule sound_seq [OF sound_ops(9)])
    (auto intro!: sound_seq [OF block_sound(1)] sound_seq [OF onboard_artifact_sound] onboard_original_sound
      sound_ok split: option.split onboarding_approval.split)

lemma process_change_sound: "holds (fst st) (process_change J mode change st) fst"
proof (cases st)
  case (Pair s simulated)
  have empty: "holds s (ok ([] :: bytes)) (\<lambda>_. s)" by (rule sound_ok) simp
  have unbound: "holds s (onboard_unbound J mode change (s, simulated)) fst"
    using onboard_unbound_sound [of "(s, simulated)"] by simp
  show ?thesis
    unfolding Pair process_change_def
    by (auto intro!: sound_seq [OF sound_pure(2)] sound_seq [OF sound_pure(3)] sound_ok sound_pure unbound
        sound_seq [OF empty] sound_seq [OF download_listed_sound] sound_seq [OF process_bound_change_sound] split: input_decision.split)
qed

lemma run_change_sound: "holds (fst st) (run_change J mode change st) fst"
  unfolding run_change_def by (rule sound_seq [OF sound_pure(3) process_change_sound])

lemma order_changes_sound: "holds s (order_changes J changes c) (\<lambda>_. s)"
proof -
  have "holds s (sort_change J c change seen) (\<lambda>_. s)" for change seen
  proof (cases seen)
    case (Pair originals remaining)
    have "holds s (if binding_for_file c (fr_file_id (dc_file change)) = None
        then on_env (jo_approval (gj_ops J) (fr_file_id (dc_file change))) else ok None) (\<lambda>_. s)"
      by (auto intro: sound_ok sound_ops)
    then show ?thesis
      unfolding Pair sort_change_def prod.case
      by (rule sound_seq) (auto intro!: sound_ok split: option.split onboarding_approval.split)
  qed
  then show ?thesis
    unfolding order_changes_def
    by (intro sound_seq [OF sound_carry [where held = "\<lambda>_. s"]]) (auto intro: sound_ok)
qed

lemma fetch_changes_sound: "holds s (fetch_changes J mode c) (\<lambda>_. s)"
proof -
  have "holds s (if mode = DryRun then dry_run_action t else ok ()) (\<lambda>_. s)" for t
    by (auto intro: sound_ok sound_pure)
  note report = sound_seq [OF this]
  have "holds s (first_snapshot J mode) (\<lambda>_. s)"
    unfolding first_snapshot_def
    by (rule sound_seq [OF sound_ops(1)])
      (auto intro!: sound_pure sound_seq [OF sound_ops(2)] sound_seq [OF sound_pure(3)] report sound_ok)
  then show ?thesis
    unfolding fetch_changes_def
    by (auto intro!: sound_seq [OF sound_ops(3)] sound_seq [OF sound_pure(2)] sound_seq [OF sound_pure(3)]
        sound_ok split: option.split)
qed

lemma recover_or_report_sound: "holds s (recover_or_report J mode s) (\<lambda>x. x)"
  unfolding recover_or_report_def
  by (auto intro!: sound_seq [OF recover_pending_inputs_sound recover_pending_outputs_sound]
      sound_seq [OF sound_each] sound_pure sound_ok)

section \<open>The end of a run\<close>

text \<open>A run continues the history with its own steps and those of others, and appends at most one
  entry more, with the new page token; when it answered that it is done, it did append it.  The new
  token is one that \<open>R\<close> allows after the token it replaces.\<close>

definition page_end ::
    "(string option \<Rightarrow> string \<Rightarrow> bool) \<Rightarrow> run_mode \<Rightarrow> 'w \<Rightarrow> 'w \<Rightarrow> bool \<Rightarrow> bool" where
  "page_end R mode e e' done \<longleftrightarrow> good e' \<and> job_calls (gj_ops J) e e' \<and>
     (\<exists>mid moved. continued (step (gj_sha J)) (history e) mid \<and> history e' = mid @ moved \<and>
        (if moved = [] then \<not> done \<or> mode = DryRun
         else mode = Apply \<and> (\<exists>c t s. moved = [s] \<and> unmoved (gj_sha J) (vc_value (last mid)) c \<and>
                vc_value s = commit_page_token t c \<and> R (ck_next_page_token c) t)))"

definition ends ::
    "('w \<Rightarrow> 'w \<Rightarrow> string option \<Rightarrow> string \<Rightarrow> bool) \<Rightarrow> run_mode \<Rightarrow> versioned_checkpoint \<Rightarrow>
       ('w job_world, unit) action \<Rightarrow> bool" where
  "ends R mode s m \<longleftrightarrow>
     (\<forall>w. good (jw_env w) \<longrightarrow> anchored (gj_sha J) s (jw_env w) \<longrightarrow>
        page_end (R (jw_env w) (jw_env (fst (m w)))) mode (jw_env w) (jw_env (fst (m w))) (\<not> isl (snd (m w))))"

text \<open>The token Drive offered on the way from \<open>e\<close> to \<open>e'\<close>.\<close>

definition offered :: "'w \<Rightarrow> 'w \<Rightarrow> string option \<Rightarrow> string \<Rightarrow> bool" where
  "offered e e' token t \<longleftrightarrow>
     (\<exists>x. job_calls (gj_ops J) e x \<and> snd (offered_token (gj_ops J) token x) = Inr t \<and>
        job_calls (gj_ops J) (fst (offered_token (gj_ops J) token x)) e')"

definition earlier :: "('w \<Rightarrow> 'w \<Rightarrow> string option \<Rightarrow> string \<Rightarrow> bool) \<Rightarrow> bool" where
  "earlier R \<longleftrightarrow>
     (\<forall>e e1 e' token t. job_calls (gj_ops J) e e1 \<longrightarrow> R e1 e' token t \<longrightarrow> R e e' token t)"

lemma earlier_rules: "earlier offered" "earlier (\<lambda>_ _. Q)"
  by (auto simp: earlier_def offered_def intro: rtranclp_trans)

lemma page_end_quiet: "goes_on (gj_sha J) e e' \<Longrightarrow> page_end R mode e e' False"
  unfolding page_end_def goes_on_def by (intro conjI exI [of _ "history e'"] exI [of _ "[]"]) simp_all

lemma page_end_mono:
  assumes "page_end R mode e e' d" and "\<And>token t. R token t \<Longrightarrow> Q token t"
  shows "page_end Q mode e e' d"
proof -
  obtain mid moved where ended: "good e' \<and> job_calls (gj_ops J) e e'" "continued (step (gj_sha J)) (history e) mid" "history e' = mid @ moved"
    "if moved = [] then \<not> d \<or> mode = DryRun
     else mode = Apply \<and> (\<exists>c t s. moved = [s] \<and> unmoved (gj_sha J) (vc_value (last mid)) c \<and>
            vc_value s = commit_page_token t c \<and> R (ck_next_page_token c) t)"
    using assms(1) by (auto simp: page_end_def)
  from ended(4) have "if moved = [] then \<not> d \<or> mode = DryRun
     else mode = Apply \<and> (\<exists>c t s. moved = [s] \<and> unmoved (gj_sha J) (vc_value (last mid)) c \<and>
            vc_value s = commit_page_token t c \<and> Q (ck_next_page_token c) t)"
    using assms(2) by (metis (no_types, lifting))
  with ended(1-3) show ?thesis unfolding page_end_def by blast
qed

lemma page_end_later:
  assumes "earlier R" and "good e" and "goes_on (gj_sha J) e e1" and "page_end (R e1 e') mode e1 e' d"
  shows "page_end (R e e') mode e e' d"
proof -
  have "page_end (R e e') mode e1 e' d"
    by (rule page_end_mono [OF assms(4)]) (use assms(1-3) in \<open>auto simp: earlier_def goes_on_def\<close>)
  then obtain mid moved where ended: "good e'" "job_calls (gj_ops J) e1 e'"
    "continued (step (gj_sha J)) (history e1) mid" "history e' = mid @ moved"
    "if moved = [] then \<not> d \<or> mode = DryRun
     else mode = Apply \<and> (\<exists>c t s. moved = [s] \<and> unmoved (gj_sha J) (vc_value (last mid)) c \<and>
            vc_value s = commit_page_token t c \<and> R e e' (ck_next_page_token c) t)"
    by (auto simp: page_end_def)
  have "continued (step (gj_sha J)) (history e) mid"
    using assms(2,3) ended(3) continued_trans history_ok unfolding goes_on_def by blast
  moreover have "job_calls (gj_ops J) e e'"
    using assms(3) ended(2) by (auto simp: goes_on_def intro: rtranclp_trans)
  ultimately show ?thesis using ended(1,4,5) unfolding page_end_def by blast
qed

lemma ends_seq:
  assumes "earlier R" and "holds s m held" and "\<And>x. same_token s (held x) \<Longrightarrow> ends R mode (held x) (k x)"
  shows "ends R mode s (seq m k)"
  unfolding ends_def
proof (intro allI impI)
  fix w :: "'w job_world" assume w: "good (jw_env w)" "anchored (gj_sha J) s (jw_env w)"
  obtain w1 r where m: "m w = (w1, r)" by force
  with assms(2) w have first: "goes_on (gj_sha J) (jw_env w) (jw_env w1)"
    "\<And>x. r = Inr x \<Longrightarrow> anchored (gj_sha J) (held x) (jw_env w1) \<and> same_token s (held x)"
    by (auto simp: sound_def)
  show "page_end (R (jw_env w) (jw_env (fst (seq m k w)))) mode (jw_env w) (jw_env (fst (seq m k w)))
      (\<not> isl (snd (seq m k w)))"
  proof (cases r)
    case (Inl err)
    with m page_end_quiet [OF first(1)] show ?thesis by (simp add: seq_def)
  next
    case (Inr x)
    have "good (jw_env w1)" using first(1) by (simp add: goes_on_def)
    with assms(3) [of x] first(2) [OF Inr]
    have "page_end (R (jw_env w1) (jw_env (fst (k x w1)))) mode (jw_env w1) (jw_env (fst (k x w1)))
        (\<not> isl (snd (k x w1)))"
      unfolding ends_def by blast
    with m Inr page_end_later [OF assms(1) w(1) first(1)] show ?thesis by (simp add: seq_def)
  qed
qed

lemma ends_dry_run: "holds s m held \<Longrightarrow> ends R DryRun s m"
  unfolding ends_def sound_def page_end_def goes_on_def
  by (metis append_Nil2)

lemma ends_token:
  "ends (\<lambda>_ _ token t'. token = ck_next_page_token (vc_value s) \<and> t' = t) Apply s
     (seq (persist J (s\<lparr>vc_value := commit_page_token t (vc_value s)\<rparr>)) (\<lambda>_. ok ()))"
  unfolding ends_def
proof (intro allI impI)
  fix w :: "'w job_world" assume w: "good (jw_env w)" "anchored (gj_sha J) s (jw_env w)"
  let ?R = "\<lambda>token t'. token = ck_next_page_token (vc_value s) \<and> t' = t"
  let ?c = "commit_page_token t (vc_value s)"
  let ?m = "seq (persist J (s\<lparr>vc_value := ?c\<rparr>)) (\<lambda>_. ok ())"
  show "page_end ?R Apply (jw_env w) (jw_env (fst (?m w))) (\<not> isl (snd (?m w)))"
  proof (cases "validate_checkpoint ?c")
    case (Inl err)
    then have "?m w = (w, Inl err)" by (simp add: persist_def seq_def answer_def)
    then show ?thesis using w(1) page_end_quiet [of "jw_env w"] by (simp add: goes_on_def)
  next
    case (Inr u)
    obtain e' r where swap: "jo_swap (gj_ops J) (vc_version s) ?c (jw_env w) = (e', r)" by force
    then have run: "jw_env (fst (?m w)) = e'" "isl (snd (?m w)) = isl r"
      using Inr by (auto simp: persist_def seq_def answer_def on_env_def ok_def split: sum.splits)
    from w swap show ?thesis
    proof (cases rule: swap_cases)
      case kept
      with run page_end_quiet [of "jw_env w" e'] show ?thesis by (simp add: goes_on_def)
    next
      case (swapped x)
      then have "page_end ?R Apply (jw_env w) e' d" for d
        unfolding page_end_def
        by (intro conjI exI [of _ "history (jw_env w)"] exI [of _ "[x]"]) auto
      with run show ?thesis by simp
    qed
  qed
qed

text \<open>Fetching the changes asks Drive for the token that follows.\<close>

lemma fetch_changes_successor:
  assumes "fetch_changes J mode c w = (w', Inr (changes, successor, cursor))"
  shows "snd (offered_token (gj_ops J) (ck_next_page_token c) (jw_env w)) = Inr successor"
    and "job_calls (gj_ops J) (fst (offered_token (gj_ops J) (ck_next_page_token c) (jw_env w))) (jw_env w')"
  using assms one_call(4) [where ops = "gj_ops J" and x = "fst (jo_start_page_token (gj_ops J) (jw_env w))"
      and folders = "[gc_boox_folder_id (gj_config J), gc_supernote_folder_id (gj_config J)]"]
  by (auto simp: fetch_changes_def first_snapshot_def offered_token_def seq_def on_env_def ok_def fail_def
      answer_def tally_def dry_run_action_def split: option.splits prod.splits sum.splits if_splits)

lemma ends_fetch:
  assumes "\<And>changes successor cursor. ends (\<lambda>_ _ token t. token = ck_next_page_token (vc_value s) \<and> t = successor)
    mode s (k (changes, successor, cursor))"
  shows "ends offered mode s (seq (fetch_changes J mode (vc_value s)) k)"
  unfolding ends_def
proof (intro allI impI)
  fix w :: "'w job_world" assume w: "good (jw_env w)" "anchored (gj_sha J) s (jw_env w)"
  let ?m = "fetch_changes J mode (vc_value s)"
  obtain w1 r where m: "?m w = (w1, r)" by force
  with fetch_changes_sound w have first: "goes_on (gj_sha J) (jw_env w) (jw_env w1)"
    "\<And>x. r = Inr x \<Longrightarrow> anchored (gj_sha J) s (jw_env w1)"
    unfolding sound_def by (metis fst_conv, metis fst_conv snd_conv)
  show "page_end (offered (jw_env w) (jw_env (fst (seq ?m k w)))) mode (jw_env w) (jw_env (fst (seq ?m k w)))
      (\<not> isl (snd (seq ?m k w)))"
  proof (cases r)
    case (Inl err)
    with m page_end_quiet [OF first(1)] show ?thesis by (simp add: seq_def)
  next
    case (Inr x)
    obtain changes successor cursor where x: "x = (changes, successor, cursor)" by (cases x)
    let ?Q = "\<lambda>token t. token = ck_next_page_token (vc_value s) \<and> t = successor"
      and ?e = "jw_env (fst (k x w1))"
    have "good (jw_env w1)" using first(1) by (simp add: goes_on_def)
    with assms first(2) [OF Inr] x
    have later: "page_end ?Q mode (jw_env w1) ?e (\<not> isl (snd (k x w1)))"
      unfolding ends_def by blast
    then have "job_calls (gj_ops J) (jw_env w1) ?e" by (simp add: page_end_def)
    with fetch_changes_successor [OF m [unfolded Inr x]]
    have Q: "offered (jw_env w) ?e token t" if "?Q token t" for token t
      using that rtranclp.rtrancl_refl rtranclp_trans unfolding offered_def by metis
    have "page_end ?Q mode (jw_env w) ?e (\<not> isl (snd (k x w1)))"
      using later by (rule page_end_later [OF earlier_rules(2) w(1) first(1)])
    then have "page_end (offered (jw_env w) ?e) mode (jw_env w) ?e (\<not> isl (snd (k x w1)))"
      by (rule page_end_mono) (rule Q)
    with m Inr show ?thesis by (simp add: seq_def)
  qed
qed

text \<open>The processing of a page: its changes, in order, and then the token.\<close>

definition page_body ::
    "run_mode \<Rightarrow> versioned_checkpoint \<Rightarrow> drive_change list \<times> string \<times> string \<Rightarrow> ('w job_world, unit) action" where
  "page_body mode s = (\<lambda>(changes, successor, cursor).
     seq (order_changes J changes (vc_value s)) (\<lambda>changes.
     seq (carry (run_change J mode) changes (s, [])) (\<lambda>(s, _).
     if mode = DryRun then
       dry_run_action (''retain '' @ cursor @ ''; dry-run never checkpoints'')
     else
       seq (persist J (s\<lparr>vc_value := commit_page_token successor (vc_value s)\<rparr>)) (\<lambda>_. ok ()))))"

lemma page_body_ends:
  "ends (\<lambda>_ _ token t. token = ck_next_page_token (vc_value s) \<and> t = successor) mode s
     (page_body mode s (changes, successor, cursor))"
proof -
  let ?R = "\<lambda>_ _ token t. token = ck_next_page_token (vc_value s) \<and> t = successor"
  have last_step: "ends ?R DryRun s' (dry_run_action report)"
    "mode \<noteq> DryRun \<Longrightarrow> same_token s s' \<Longrightarrow> ends ?R mode s'
      (seq (persist J (s'\<lparr>vc_value := commit_page_token successor (vc_value s')\<rparr>)) (\<lambda>_. ok ()))"
    for s' report
    using ends_token [of s' successor] ends_dry_run [OF sound_pure(4)]
    by (cases mode; simp add: same_token_def)+
  have changes: "holds s (carry (run_change J mode) changes (s, [])) fst" for changes
    using sound_carry [where held = fst and b = "(s, [])", OF run_change_sound] by simp
  show ?thesis
    unfolding page_body_def prod.case
    by (rule ends_seq [OF earlier_rules(2) order_changes_sound], rule ends_seq [OF earlier_rules(2) changes])
      (auto intro: last_step split: prod.split)
qed

lemma run_page_ends:
  assumes "good (jw_env w)"
  shows "page_end (offered (jw_env w) (jw_env (fst (run_page J mode w)))) mode (jw_env w)
    (jw_env (fst (run_page J mode w))) (\<not> isl (snd (run_page J mode w)))"
proof -
  define body where "body = (\<lambda>s. seq (answer (validate_checkpoint (vc_value s))) (\<lambda>_.
     seq (recover_or_report J mode s) (\<lambda>s. seq (fetch_changes J mode (vc_value s)) (page_body mode s))))"
  have body: "ends offered mode s (body s)" for s
    unfolding body_def
    by (rule ends_seq [OF earlier_rules(1) sound_pure(2)], rule ends_seq [OF earlier_rules(1) recover_or_report_sound],
        rule ends_fetch, rule page_body_ends)
  have page: "run_page J mode = seq (on_env (jo_load (gj_ops J))) body"
    unfolding run_page_def body_def page_body_def ..
  obtain e1 r where load: "jo_load (gj_ops J) (jw_env w) = (e1, r)" by force
  let ?w = "w\<lparr>jw_env := e1\<rparr>"
  have loaded: "goes_on (gj_sha J) (jw_env w) e1"
    using harmless_goes_on [OF load_harmless one_call(1) assms, of "gj_sha J"] load by simp
  show ?thesis
  proof (cases r)
    case (Inl err)
    with load loaded show ?thesis by (simp add: page seq_def on_env_def page_end_quiet)
  next
    case (Inr s)
    have "anchored (gj_sha J) s e1"
      using load_known [OF assms load [unfolded Inr]] by (auto simp: anchored_def)
    moreover have "good e1" using loaded by (simp add: goes_on_def)
    ultimately have "page_end (offered e1 (jw_env (fst (body s ?w)))) mode e1 (jw_env (fst (body s ?w))) (\<not> isl (snd (body s ?w)))"
      using body [of s, unfolded ends_def, rule_format, of ?w] by simp
    then have "page_end (offered (jw_env w) (jw_env (fst (body s ?w)))) mode (jw_env w) (jw_env (fst (body s ?w))) (\<not> isl (snd (body s ?w)))"
      by (rule page_end_later [OF earlier_rules(1) assms loaded])
    with load Inr show ?thesis by (simp add: page seq_def on_env_def)
  qed
qed

lemma run_once_ends:
  assumes "good e" and "run_once J mode e = (e', r)"
  shows "page_end (offered e e') mode e e' (\<not> isl r)"
  using run_page_ends [of "\<lparr>jw_env = e, jw_report = empty_report\<rparr>" mode] assms
  by (auto simp: run_once_def isl_def split: prod.splits sum.splits)

end

section \<open>A dry run\<close>

text \<open>What holds of the environment and what the operations that only read keep: a dry run uses no
  other operation.\<close>

definition preserves :: "('w \<Rightarrow> bool) \<Rightarrow> ('w, 'a) action \<Rightarrow> bool" where
  "preserves I m \<longleftrightarrow> (\<forall>e. I e \<longrightarrow> I (fst (m e)))"

locale reading_job =
  fixes J :: "'w gateway_job" and I :: "'w \<Rightarrow> bool"
  assumes reads: "preserves I (jo_load (gj_ops J))"
    "preserves I (jo_start_page_token (gj_ops J))"
    "preserves I (jo_list_initial_files (gj_ops J) folders)"
    "preserves I (jo_list_changes (gj_ops J) token)"
    "preserves I (jo_download (gj_ops J) file_id)"
    "preserves I (jo_file_revision (gj_ops J) file_id)"
    "preserves I (jo_approval (gj_ops J) file_id)"
    "preserves I (jo_frontier (gj_ops J) document_id)"
    "preserves I (jo_frontier_if_exists (gj_ops J) document_id)"
begin

abbreviation reads_only :: "('w job_world, 'a) action \<Rightarrow> bool" where
  "reads_only \<equiv> preserves (\<lambda>w. I (jw_env w))"

lemma reads_only_pure:
  "reads_only (fail err)" "reads_only (answer r)" "reads_only (ok x)" "reads_only (tally f)"
  "reads_only (dry_run_action t)" "reads_only (committed g s)"
  by (simp_all add: preserves_def fail_def answer_def ok_def tally_def dry_run_action_def committed_def
      split: prod.split sum.split)

lemma reads_only_env: "preserves I m \<Longrightarrow> reads_only (on_env m)"
  by (simp add: preserves_def on_env_def split: prod.split) (metis fst_conv)

lemma reads_only_seq: "reads_only m \<Longrightarrow> (\<And>x. reads_only (k x)) \<Longrightarrow> reads_only (seq m k)"
  unfolding preserves_def seq_def by (simp split: prod.split sum.split) (metis fst_conv)

lemma reads_only_carry: "(\<And>x b. reads_only (f x b)) \<Longrightarrow> reads_only (carry f xs b)"
  by (induction xs arbitrary: b) (auto intro: reads_only_pure reads_only_seq)

lemma reads_only_each: "(\<And>x. reads_only (f x)) \<Longrightarrow> reads_only (each f xs)"
  by (induction xs) (auto intro: reads_only_pure reads_only_seq)

lemmas reads_rules = reads_only_pure reads [THEN reads_only_env] reads_only_seq

lemma dry_run_changes:
  "reads_only (known_frontier J simulated document_id)"
  "reads_only (upload_input J DryRun i bs s)"
  "reads_only (block_unapproved DryRun file_id s)"
  "reads_only (block_invalid_approval DryRun file_id reason s)"
  "reads_only (download_listed J listed)"
  unfolding known_frontier_def upload_input_def block_unapproved_def block_invalid_approval_def
    download_listed_def
  by (auto intro!: reads_rules split: option.split)

lemma dry_run_bound: "reads_only (process_bound_change J DryRun simulated change bs s)"
  unfolding process_bound_change_def
  by (auto intro!: reads_rules dry_run_changes split: input_decision.split)

lemma dry_run_register: "reads_only (register_approved J DryRun simulated g bs s)"
  unfolding register_approved_def by (auto intro!: reads_rules split: option.split)

lemma dry_run_onboard: "reads_only (onboard_unbound J DryRun change st)"
  unfolding onboard_unbound_def onboard_original_def onboard_artifact_def Let_def
  by (auto intro!: reads_rules dry_run_changes dry_run_bound dry_run_register
      split: prod.split option.split onboarding_approval.split registration_decision.split
        artifact_decision.split)

lemma dry_run_change: "reads_only (run_change J DryRun change st)"
  unfolding run_change_def process_change_def
  by (auto intro!: reads_rules dry_run_changes dry_run_bound dry_run_onboard
      split: prod.split input_decision.split)

lemma dry_run_order: "reads_only (order_changes J changes c)"
proof -
  have "reads_only (sort_change J c change seen)" for change seen
    unfolding sort_change_def
    by (auto intro!: reads_rules split: prod.split option.split onboarding_approval.split)
  then show ?thesis
    unfolding order_changes_def by (auto intro!: reads_rules reads_only_carry)
qed

lemma dry_run_fetch:
  "reads_only (recover_or_report J DryRun s)" "reads_only (fetch_changes J DryRun c)"
  unfolding recover_or_report_def fetch_changes_def first_snapshot_def
  by (auto intro!: reads_rules reads_only_each split: option.split)

lemma dry_run_page: "reads_only (run_page J DryRun)"
  unfolding run_page_def
  by (auto intro!: reads_rules dry_run_fetch dry_run_order reads_only_carry dry_run_change)

lemma dry_run_once: "I e \<Longrightarrow> I (fst (run_once J DryRun e))"
  using dry_run_page [unfolded preserves_def, rule_format, of "\<lparr>jw_env = e, jw_report = empty_report\<rparr>"]
  by (cases "run_page J DryRun \<lparr>jw_env = e, jw_report = empty_report\<rparr>")
    (auto simp: run_once_def split: sum.split)

end

end
