(* ===== verification/Drive_Properties.thy ===== *)
theory Drive_Properties
  imports Drive_Runtime_Facts Gateway_Example Example_World
begin

text \<open>
  The properties of the gateway's job: what its runs do to the durable checkpoints, and that a dry run
  only reads.  The environment in memory, whose swaps can be refused or lose their answer, meets what
  the job relies on, with the broker over any store as its port.
\<close>

section \<open>An environment in memory\<close>

datatype swap_fault = NoFault | Refused | AnswerLost

record ('d, 'w) job_memory =
  jm_drive :: 'd
  jm_cloud :: 'w
  jm_history :: "versioned_checkpoint list"
  jm_faults :: "swap_fault list"

definition at_drive :: "('d, 'a) action \<Rightarrow> (('d, 'w) job_memory, 'a) action" where
  "at_drive m e = (case m (jm_drive e) of (d, r) \<Rightarrow> (e\<lparr>jm_drive := d\<rparr>, r))"

definition at_cloud :: "('w, 'a) action \<Rightarrow> (('d, 'w) job_memory, 'a) action" where
  "at_cloud m e = (case m (jm_cloud e) of (c, r) \<Rightarrow> (e\<lparr>jm_cloud := c\<rparr>, r))"

text \<open>The first entry stands for a checkpoint that was never written, which has no version.\<close>

definition memory_version :: "nat \<Rightarrow> string option" where
  "memory_version n = (if n = 0 then None else Some (replicate n (CHR ''1'')))"

definition memory_load :: "(('d, 'w) job_memory, versioned_checkpoint) action" where
  "memory_load e = (e, Inr (last (jm_history e)))"

definition memory_swap ::
    "string option \<Rightarrow> gateway_checkpoint \<Rightarrow> (('d, 'w) job_memory, versioned_checkpoint) action" where
  "memory_swap v c e =
     (let fault = (case jm_faults e of [] \<Rightarrow> NoFault | f # _ \<Rightarrow> f);
          e' = e\<lparr>jm_faults := tl (jm_faults e)\<rparr>;
          s = \<lparr>vc_value = c, vc_version = memory_version (length (jm_history e))\<rparr>
      in if fault = Refused \<or> v \<noteq> vc_version (last (jm_history e)) then
           (e', Inl ''Drive checkpoint generation changed; retry the job'')
         else
           (e'\<lparr>jm_history := jm_history e @ [s]\<rparr>,
            if fault = AnswerLost then Inl ''no answer'' else Inr s))"

definition memory_job_ops :: "'d job_ops \<Rightarrow> 'w broker_port \<Rightarrow> ('d, 'w) job_memory job_ops" where
  "memory_job_ops D P =
     \<lparr>jo_start_page_token = at_drive (jo_start_page_token D),
      jo_list_initial_files = (\<lambda>folders. at_drive (jo_list_initial_files D folders)),
      jo_list_changes = (\<lambda>token. at_drive (jo_list_changes D token)),
      jo_download = (\<lambda>file_id. at_drive (jo_download D file_id)),
      jo_file_revision = (\<lambda>file_id. at_drive (jo_file_revision D file_id)),
      jo_find_delivery = (\<lambda>delivery_id. at_drive (jo_find_delivery D delivery_id)),
      jo_generate_file_id = at_drive (jo_generate_file_id D),
      jo_create_delivery = (\<lambda>out bs. at_drive (jo_create_delivery D out bs)),
      jo_approval = (\<lambda>file_id. at_drive (jo_approval D file_id)),
      jo_load = memory_load, jo_swap = memory_swap,
      jo_put_immutable = (\<lambda>path bs meta. at_cloud (put_immutable (bk_ops P) path bs meta)),
      jo_read_generation = (\<lambda>path g. at_cloud (evidence_read_generation (bk_ops P) path g)),
      jo_register_original = (\<lambda>g generation. at_cloud (port_register_original P g generation)),
      jo_frontier = (\<lambda>d. at_cloud (port_frontier P d)),
      jo_frontier_if_exists = (\<lambda>d. at_cloud (port_frontier_if_exists P d)),
      jo_process = (\<lambda>p. at_cloud (port_process P p))\<rparr>"

definition memory_job :: "'d job_ops \<Rightarrow> 'w broker_port \<Rightarrow> gateway_config \<Rightarrow> ('d, 'w) job_memory gateway_job" where
  "memory_job D P cfg =
     \<lparr>gj_ops = memory_job_ops D P, gj_config = cfg, gj_env = bk_env P,
      gj_show_input = (\<lambda>_. []), gj_show_output = (\<lambda>_. [])\<rparr>"

definition memory_good :: "('d, 'w) job_memory \<Rightarrow> bool" where
  "memory_good e \<longleftrightarrow> jm_history e \<noteq> [] \<and>
     map vc_version (jm_history e) = map memory_version [0..<length (jm_history e)]"

lemma memory_version_inject: "memory_version m = memory_version n \<longleftrightarrow> m = n"
  by (auto simp: memory_version_def dest: arg_cong [where f = length] split: if_splits)

lemma memory_version_distinct: "distinct (map memory_version [0..<n])"
  by (simp add: distinct_map inj_on_def memory_version_inject)

lemma at_harmless [simp]:
  "harmless memory_good jm_history foreign (at_drive m)"
  "harmless memory_good jm_history foreign (at_cloud m')"
  "harmless memory_good jm_history foreign memory_load"
  by (simp_all add: harmless_def at_drive_def at_cloud_def memory_load_def memory_good_def split: prod.split)

lemma memory_swap_cases:
  "memory_good e \<Longrightarrow> memory_good (fst (memory_swap v c e))"
  "memory_swap v c e = (e', Inr s) \<Longrightarrow>
     v = vc_version (last (jm_history e)) \<and> vc_value s = c \<and> jm_history e' = jm_history e @ [s]"
  "memory_swap v c e = (e', Inl err) \<Longrightarrow> jm_history e' = jm_history e \<or>
     v = vc_version (last (jm_history e)) \<and> (\<exists>s. vc_value s = c \<and> jm_history e' = jm_history e @ [s])"
  by (auto simp: memory_swap_def memory_good_def Let_def split: if_splits)

interpretation job_memory: running_job "memory_job D P cfg" memory_good jm_history "\<lambda>_ _. False"
  for D :: "'d job_ops" and P :: "'w broker_port" and cfg
proof unfold_locales
  fix e e' :: "('d, 'w) job_memory" and s
  show "jm_history e \<noteq> [] \<and> distinct (map vc_version (jm_history e))" if "memory_good e"
    using that memory_version_distinct by (simp add: memory_good_def)
  show "s \<in> set (jm_history e')" if "memory_good e" "jo_load (gj_ops (memory_job D P cfg)) e = (e', Inr s)"
    using that by (auto simp: memory_good_def memory_job_def memory_job_ops_def memory_load_def)
qed (auto simp: memory_job_def memory_job_ops_def dest: memory_swap_cases intro: memory_swap_cases(1))

text \<open>A dry run of it reads the cloud and the checkpoints; only Drive itself may change.\<close>

definition cloud_untouched :: "'w \<Rightarrow> versioned_checkpoint list \<Rightarrow> ('d, 'w) job_memory \<Rightarrow> bool" where
  "cloud_untouched c h e \<longleftrightarrow> jm_cloud e = c \<and> jm_history e = h"

lemma canonical_state_reads:
  "fst (state_if_exists P d w) = w" "fst (canonical_state P d w) = w"
  by (simp_all add: state_if_exists_def canonical_state_def reading_def seq_def answer_def split: sum.split)

lemma frontier_reads:
  "fst (port_frontier P d w) = w" "fst (port_frontier_if_exists P d w) = w"
  using canonical_state_reads [of P d w]
  by (auto simp: port_frontier_def port_frontier_if_exists_def seq_def ok_def split: prod.splits sum.splits)

interpretation job_memory_dry: reading_job "memory_job D P cfg" "cloud_untouched c h"
  for D :: "'d job_ops" and P :: "'w broker_port" and cfg c h
  by unfold_locales
    (auto simp: preserves_def cloud_untouched_def memory_job_def memory_job_ops_def memory_load_def at_drive_def
      at_cloud_def split: prod.split dest: arg_cong [where f = fst] simp: frontier_reads)

section \<open>Example\<close>

text \<open>A first run: the snapshot holds one file, an output of the broker whose delivery was never
  committed, which the run ignores before it sets the page token.\<close>

definition stray1 :: drive_file_revision where
  "stray1 = (dc_file (pdf_file ''f'' 1))\<lparr>fr_app_properties := [(generated_by_property, broker_producer)]\<rparr>"

definition drive1 :: "unit job_ops" where
  "drive1 =
     \<lparr>jo_start_page_token = ok ''t'', jo_list_initial_files = (\<lambda>_. ok [stray1]),
      jo_list_changes = (\<lambda>_. fail ''not reached''), jo_download = (\<lambda>_. fail ''not reached''),
      jo_file_revision = (\<lambda>_. fail ''not reached''), jo_find_delivery = (\<lambda>_. ok []),
      jo_generate_file_id = fail ''not reached'', jo_create_delivery = (\<lambda>_ _. fail ''not reached''),
      jo_approval = (\<lambda>_. ok None), jo_load = fail ''not Drive'', jo_swap = (\<lambda>_ _. fail ''not Drive''),
      jo_put_immutable = (\<lambda>_ _ _. fail ''not Drive''), jo_read_generation = (\<lambda>_ _. fail ''not Drive''),
      jo_register_original = (\<lambda>_ _. fail ''not Drive''), jo_frontier = (\<lambda>_. fail ''not Drive''),
      jo_frontier_if_exists = (\<lambda>_. fail ''not Drive''), jo_process = (\<lambda>_. fail ''not Drive'')\<rparr>"

definition broker1 :: "cloud_memory broker_port" where
  "broker1 =
     \<lparr>bk_env = \<lparr>rt_bucket = ''b'', rt_ext = (bare_world (\<lambda>_. None))\<lparr>x_sha := pad_sha\<rparr>,
                rt_body_of_json = (\<lambda>_. Inl ''no body''), rt_show_error = (\<lambda>_. []), rt_show_hash = (\<lambda>_. [])\<rparr>,
      bk_ops = memory_cloud, bk_state_of_json = (\<lambda>_. Inl ''no state''), bk_body_to_json = (\<lambda>_ _. Inl ''no body'')\<rparr>"

definition job1 :: "(unit, cloud_memory) job_memory gateway_job" where
  "job1 = memory_job drive1 broker1 cfg0"

definition fresh1 :: "(unit, cloud_memory) job_memory" where
  "fresh1 = \<lparr>jm_drive = (), jm_cloud = (empty_objects, []),
     jm_history = [\<lparr>vc_value = empty_checkpoint, vc_version = None\<rparr>], jm_faults = []\<rparr>"



section \<open>Runs\<close>



text \<open>C25: a dry run only reads.  What holds of the environment, and what loading the checkpoint, listing
  and downloading files, reading approvals and frontiers keep, holds after a dry run, whatever it
  found and whether it succeeded: it uploads nothing, registers nothing, creates no file and swaps no
  checkpoint.\<close>

theorem dry_run_only_reads:
  assumes "reading_job J I" and "I e"
  shows "I (fst (run_once J DryRun e))"
  by (rule reading_job.dry_run_once [OF assms])

theorem dry_run_only_reads_witness:
  "jm_cloud (fst (run_once job1 DryRun fresh1)) = (empty_objects, []) \<and>
   jm_history (fst (run_once job1 DryRun fresh1)) = jm_history fresh1"
proof -
  have "cloud_untouched (empty_objects, []) (jm_history fresh1) fresh1"
    by (simp add: cloud_untouched_def fresh1_def)
  from dry_run_only_reads [OF job_memory_dry.reading_job_axioms this, of drive1 broker1 cfg0]
  show ?thesis by (simp add: cloud_untouched_def job1_def)
qed

end
