(* ===== verification/Rust_Bytes.thy ===== *)
theory Rust_Bytes
  imports Prelude
begin

unbundle bit_operations_syntax

text \<open>
  \<open>to_le_bytes\<close> and \<open>from_le_bytes\<close> of the integer types, on slices of \<open>u8\<close>, and the bytes that
  the wire codecs share.
\<close>

type_synonym u8 = "8 word"
type_synonym u16 = "16 word"
type_synonym i32 = "32 word" \<comment> \<open>two's complement, read with \<^const>\<open>sint\<close>\<close>

section \<open>Little-endian bytes\<close>

primrec le_bytes :: "nat \<Rightarrow> 'a :: len word \<Rightarrow> u8 list" where
  "le_bytes 0 w = []"
| "le_bytes (Suc n) w = ucast w # le_bytes n (drop_bit 8 w)"

primrec from_le :: "u8 list \<Rightarrow> 'a :: len word" where
  "from_le [] = 0"
| "from_le (b # bs) = ucast b OR push_bit 8 (from_le bs)"

lemma length_le_bytes [simp]: "length (le_bytes n w) = n"
  by (induction n arbitrary: w) auto

lemma from_le_bytes_take: "from_le (le_bytes n w) = take_bit (8 * n) w"
proof (induction n arbitrary: w)
  case (Suc n)
  have "ucast (ucast w :: u8) OR push_bit 8 (take_bit (8 * n) (drop_bit 8 w)) = take_bit (8 + 8 * n) w"
    by (rule bit_word_eqI) (auto simp: bit_simps)
  with Suc show ?case by simp
qed simp

lemma from_le_bytes [simp]:
  "from_le (le_bytes (Suc 0) (a :: u8)) = a"
  "from_le (le_bytes 2 (b :: u16)) = b"
  "from_le (le_bytes 4 (c :: u32)) = c"
  "from_le (le_bytes 8 (d :: u64)) = d"
  by (simp_all add: from_le_bytes_take take_bit_word_eq_self)

text \<open>A byte chunk at the front, or an error if the input is too short.\<close>

definition u8_of_bool :: "bool \<Rightarrow> u8" where
  "u8_of_bool b = (if b then 1 else 0)"

end
