(* ===== verification/Position.thy ===== *)
theory Position
  imports Rust_Strings Rust_Bytes "HOL-Library.Product_Lexorder"
begin

text \<open>
  \<open>reader-core/src/position/mod.rs\<close>: the reflow-stable locator \<open>PinPosition\<close>, its reading
  order, the string key that encodes the order, and the half-open pages.  The record is an
  instance of \<open>linorder\<close> by the code's \<open>cmp\<close>.  JSON (serde) is left out.
\<close>

section \<open>Comparison\<close>


datatype ordering = Less | Equal | Greater

definition cmp :: "'a :: linorder \<Rightarrow> 'a \<Rightarrow> ordering" where
  "cmp a b = (if a < b then Less else if a = b then Equal else Greater)"

definition then_with :: "ordering \<Rightarrow> ordering \<Rightarrow> ordering" where
  "then_with o1 o2 = (case o1 of Equal \<Rightarrow> o2 | _ \<Rightarrow> o1)"

lemma cmp_pair: "cmp (a, b) (c, d) = then_with (cmp a c) (cmp b d)"
  by (auto simp: cmp_def then_with_def)

lemma cmp_simps [simp]: "cmp a b = Less \<longleftrightarrow> a < b" "cmp a b = Equal \<longleftrightarrow> a = b" "cmp a b = Greater \<longleftrightarrow> b < a"
  by (auto simp: cmp_def)

section \<open>Positions\<close>

record pin_position =
  chapter_index :: i32
  chapter_id :: string
  chapter_start :: i32
  chapter_end :: i32
  node_position :: i32
  text_offset :: i32
  xpath :: "i32 list"

text \<open>The sum is taken in \<open>i64\<close>, where it cannot overflow, so it is an integer here.\<close>

definition position_int :: "'a pin_position_scheme \<Rightarrow> int" where
  "position_int p =
     min (sint (chapter_start p) + sint (node_position p) + sint (text_offset p)) (sint (chapter_end p))"

definition order_cmp :: "'a pin_position_scheme \<Rightarrow> 'b pin_position_scheme \<Rightarrow> ordering" where
  "order_cmp p q =
     then_with (cmp (sint (chapter_index p), position_int p) (sint (chapter_index q), position_int q))
    (then_with (cmp (sint (node_position p)) (sint (node_position q)))
    (then_with (cmp (sint (text_offset p)) (sint (text_offset q)))
    (then_with (cmp (sint (chapter_start p)) (sint (chapter_start q)))
    (then_with (cmp (sint (chapter_end p)) (sint (chapter_end q)))
    (then_with (cmp (map sint (xpath p)) (map sint (xpath q)))
               (cmp (chapter_id p) (chapter_id q)))))))"

text \<open>The fields of the order, as one lexicographically ordered tuple.\<close>

definition order_key ::
    "'a pin_position_scheme \<Rightarrow> (int \<times> int) \<times> int \<times> int \<times> int \<times> int \<times> int list \<times> string" where
  "order_key p =
     ((sint (chapter_index p), position_int p), sint (node_position p), sint (text_offset p),
      sint (chapter_start p), sint (chapter_end p), map sint (xpath p), chapter_id p)"

lemma pair_less: "(a, b) < (c, d) \<longleftrightarrow> a < c \<or> a = c \<and> b < d"
  for a c :: "'a :: linorder" and b d :: "'b :: linorder"
  by auto

lemma order_cmp_key: "order_cmp p q = cmp (order_key p) (order_key q)"
  by (simp only: order_cmp_def order_key_def cmp_pair)

lemma sint_inject: "sint (a :: 'a :: len word) = sint b \<longleftrightarrow> a = b"
  by (auto intro: signed_word_eqI)

lemma map_sint_inject: "map sint (xs :: 'a :: len word list) = map sint ys \<longleftrightarrow> xs = ys"
  by (rule inj_map_eq_map) (simp add: inj_def sint_inject)

lemma order_key_inject:
  "order_key p = order_key q \<and> pin_position.more p = pin_position.more q \<longleftrightarrow> p = q"
  by (cases p; cases q) (auto simp: order_key_def map_sint_inject sint_inject)

instantiation pin_position_ext :: (linorder) linorder
begin

definition less_eq_pin_position_ext ::
    "'a pin_position_scheme \<Rightarrow> 'a pin_position_scheme \<Rightarrow> bool" where
  "p \<le> q \<longleftrightarrow> order_cmp p q = Less \<or>
     (order_cmp p q = Equal \<and> pin_position.more p \<le> pin_position.more q)"

definition less_pin_position_ext ::
    "'a pin_position_scheme \<Rightarrow> 'a pin_position_scheme \<Rightarrow> bool" where
  "p < q \<longleftrightarrow> order_cmp p q = Less \<or>
     (order_cmp p q = Equal \<and> pin_position.more p < pin_position.more q)"

instance
proof
  fix p q r :: "'a pin_position_scheme"
  show "p < q \<longleftrightarrow> p \<le> q \<and> \<not> q \<le> p"
    by (auto simp: less_eq_pin_position_ext_def less_pin_position_ext_def order_cmp_key)
  show "p \<le> p"
    by (simp add: less_eq_pin_position_ext_def order_cmp_key)
  show "p \<le> q \<Longrightarrow> q \<le> r \<Longrightarrow> p \<le> r"
    by (auto simp: less_eq_pin_position_ext_def order_cmp_key simp del: less_prod_def)
  show "p \<le> q \<Longrightarrow> q \<le> p \<Longrightarrow> p = q"
    using order_key_inject [of p q]
    by (auto simp: less_eq_pin_position_ext_def order_cmp_key)
  show "p \<le> q \<or> q \<le> p"
    by (auto simp: less_eq_pin_position_ext_def order_cmp_key)
qed

end

lemma pin_less_iff: "(p :: pin_position) < q \<longleftrightarrow> order_key p < order_key q"
  by (simp add: less_pin_position_ext_def order_cmp_key)

section \<open>The compare key\<close>

definition pin_int_bias :: int where "pin_int_bias = 2147483648"
definition pin_int_width :: nat where "pin_int_width = 10"
definition pin_int64_bias :: int where "pin_int64_bias = 3 * pin_int_bias"
definition pin_int64_width :: nat where "pin_int64_width = 11"
definition key_field_sep :: char where "key_field_sep = CHR 0x01"
definition key_xpath_sep :: char where "key_xpath_sep = CHR '',''"

text \<open>\<open>format!("{:0width$}", n)\<close>.\<close>

definition zero_pad :: "nat \<Rightarrow> int \<Rightarrow> string" where
  "zero_pad width n =
     (if n < 0 then CHR ''-'' # replicate (width - 1 - length (show_int (- n))) (CHR ''0'') @ show_int (- n)
      else replicate (width - length (show_int n)) (CHR ''0'') @ show_int n)"

definition pad_int :: "i32 \<Rightarrow> string" where
  "pad_int v = zero_pad pin_int_width (sint v + pin_int_bias)"

definition pad_i64 :: "int \<Rightarrow> string" where
  "pad_i64 v = zero_pad pin_int64_width (v + pin_int64_bias)"

fun join :: "char \<Rightarrow> string list \<Rightarrow> string" where
  "join sep [] = []"
| "join sep [s] = s"
| "join sep (s # t # ts) = s @ sep # join sep (t # ts)"

definition compare_key :: "pin_position \<Rightarrow> string" where
  "compare_key p =
     pad_int (chapter_index p) @ [key_field_sep] @
     pad_i64 (position_int p) @ [key_field_sep] @
     concat (map (\<lambda>v. pad_int v @ [key_field_sep])
       [node_position p, text_offset p, chapter_start p, chapter_end p]) @
     join key_xpath_sep (map pad_int (xpath p)) @ [key_field_sep] @ chapter_id p"

section \<open>Pages\<close>

record page_range =
  page_start :: pin_position
  page_end :: pin_position

definition page_contains :: "page_range \<Rightarrow> pin_position \<Rightarrow> bool" where
  "page_contains r pos \<longleftrightarrow> page_start r \<le> pos \<and> pos < page_end r"

section \<open>Order of padded numbers\<close>

lemma char_less_byte: "c < d \<longleftrightarrow> byte c < byte d"
proof -
  have "byte c = int (of_char c)" for c
    by (simp add: byte_def of_nat_of_char)
  then show ?thesis by (simp add: less_char_def)
qed

fun digits :: "nat \<Rightarrow> int \<Rightarrow> string" where
  "digits 0 n = []"
| "digits (Suc w) n = digits w (n div 10) @ [char_of (48 + n mod 10)]"

lemma length_digits [simp]: "length (digits w n) = w"
  by (induction w arbitrary: n) auto

lemma digits_zero: "digits w 0 = replicate w (CHR ''0'')"
proof (induction w)
  case (Suc w)
  have "char_of (48 :: int) = CHR ''0''" by (simp add: char_of_def)
  with Suc show ?case by (simp add: replicate_append_same [symmetric])
qed simp

lemma less_append_same_length:
  "length a = length b \<Longrightarrow> a @ x < b @ y \<longleftrightarrow> a < b \<or> a = b \<and> x < (y :: 'a :: linorder list)"
  by (induction a b rule: list_induct2) auto

lemma digits_less:
  "0 \<le> a \<Longrightarrow> a < 10 ^ w \<Longrightarrow> 0 \<le> b \<Longrightarrow> b < 10 ^ w \<Longrightarrow> digits w a < digits w b \<longleftrightarrow> a < b"
proof (induction w arbitrary: a b)
  case (Suc w)
  have step: "digits w (a div 10) < digits w (b div 10) \<longleftrightarrow> a div 10 < b div 10"
    "digits w (b div 10) < digits w (a div 10) \<longleftrightarrow> b div 10 < a div 10"
    using Suc by auto
  then have same: "digits w (a div 10) = digits w (b div 10) \<longleftrightarrow> a div 10 = b div 10"
    by (metis linorder_neqE order.irrefl)
  have "char_of (48 + a mod 10) < char_of (48 + b mod 10) \<longleftrightarrow> a mod 10 < b mod 10"
    by (simp add: char_less_byte)
  then have "digits (Suc w) a < digits (Suc w) b \<longleftrightarrow>
      a div 10 < b div 10 \<or> a div 10 = b div 10 \<and> a mod 10 < b mod 10"
    by (simp add: less_append_same_length step same)
  also have "\<dots> \<longleftrightarrow> a < b"
  proof -
    have "a = 10 * (a div 10) + a mod 10" "b = 10 * (b div 10) + b mod 10" by simp_all
    moreover have "0 \<le> a mod 10" "a mod 10 < 10" "0 \<le> b mod 10" "b mod 10 < 10" by simp_all
    ultimately show ?thesis by linarith
  qed
  finally show ?case .
qed simp

lemma zero_pad_digits: "0 \<le> n \<Longrightarrow> n < 10 ^ w \<Longrightarrow> 0 < w \<Longrightarrow> zero_pad w n = digits w n"
proof (induction w arbitrary: n)
  case (Suc w)
  show ?case
  proof (cases "n < 10")
    case True
    then have "n div 10 = 0" and "n mod 10 = n" using Suc.prems(1) by auto
    with True Suc.prems(1) show ?thesis
      by (subst digits.simps) (simp add: zero_pad_def show_int.simps [of n] digits_zero)
  next
    case False
    then have "0 < w" using Suc.prems(2) by (cases w) auto
    then have "zero_pad w (n div 10) = digits w (n div 10)"
      using Suc by auto
    with False Suc.prems(1) show ?thesis
      by (simp add: zero_pad_def show_int.simps [of n] pos_imp_zdiv_neg_iff)
  qed
qed simp

lemma position_int_bounds: "- 6442450944 \<le> position_int p" "position_int p < 2147483648"
  using sint_range_size [of "chapter_start p"] sint_range_size [of "node_position p"]
    sint_range_size [of "text_offset p"] sint_range_size [of "chapter_end p"]
  by (simp_all add: position_int_def word_size min_less_iff_disj)

lemma pad_int_digits: "pad_int v = digits 10 (sint v + 2147483648)"
  using sint_range_size [of v]
  by (simp add: pad_int_def pin_int_width_def pin_int_bias_def zero_pad_digits word_size)

lemma pad_i64_digits:
  "pad_i64 (position_int p) = digits 11 (position_int p + 6442450944)"
  using position_int_bounds [of p]
  by (simp add: pad_i64_def pin_int64_width_def pin_int64_bias_def pin_int_bias_def zero_pad_digits)

lemma pad_int_less [simp]: "pad_int v < pad_int w \<longleftrightarrow> sint v < sint w"
  using sint_range_size [of v] sint_range_size [of w]
  by (simp add: pad_int_digits digits_less word_size)

lemma pad_int_eq [simp]: "pad_int v = pad_int w \<longleftrightarrow> v = w"
  using pad_int_less [of v w] pad_int_less [of w v] by (metis linorder_neqE order.irrefl sint_inject)

lemma length_pad_int [simp]: "length (pad_int v) = 10"
  by (simp add: pad_int_digits)

section \<open>Order of keys\<close>

lemma key_sep_less: "key_field_sep # x < pad_int v @ y" "\<not> pad_int v @ y < key_field_sep # x"
proof -
  obtain c s where p: "pad_int v = c # s" using length_pad_int [of v] by (cases "pad_int v") auto
  have "\<forall>c\<in>set (digits w n). 48 \<le> byte c" for w n
    by (induction w arbitrary: n) auto
  then have "48 \<le> byte c" using p by (metis pad_int_digits list.set_intros(1))
  then have "key_field_sep < c" by (simp add: char_less_byte key_field_sep_def byte_def)
  then show "key_field_sep # x < pad_int v @ y" "\<not> pad_int v @ y < key_field_sep # x"
    by (auto simp: p)
qed

definition tail_join :: "i32 list \<Rightarrow> string" where
  "tail_join vs = concat (map (\<lambda>v. key_xpath_sep # pad_int v) vs)"

lemma join_tail: "join key_xpath_sep (map pad_int (v # vs)) = pad_int v @ tail_join vs"
  by (induction vs arbitrary: v) (simp_all add: tail_join_def)

lemma seps [simp]: "key_field_sep < key_xpath_sep" "key_field_sep \<noteq> key_xpath_sep"
    "\<not> key_xpath_sep < key_field_sep" "key_xpath_sep \<noteq> key_field_sep"
  by (simp_all add: char_less_byte key_field_sep_def key_xpath_sep_def byte_def)

lemma tail_join_less:
  "tail_join vs @ key_field_sep # x < tail_join ws @ key_field_sep # y \<longleftrightarrow>
     map sint vs < map sint ws \<or> vs = ws \<and> x < y"
proof (induction vs arbitrary: ws)
  case Nil
  then show ?case by (cases ws) (simp_all add: tail_join_def)
next
  case (Cons v vs)
  have tail: "tail_join (u # us) = key_xpath_sep # pad_int u @ tail_join us" for u us
    by (simp add: tail_join_def)
  show ?case
  proof (cases ws)
    case Nil
    then show ?thesis by (simp add: tail tail_join_def)
  next
    case (Cons w ws')
    then show ?thesis
      by (auto simp: tail less_append_same_length Cons.IH sint_inject)
  qed
qed

lemma join_less:
  "join key_xpath_sep (map pad_int vs) @ key_field_sep # x <
   join key_xpath_sep (map pad_int ws) @ key_field_sep # y \<longleftrightarrow>
     map sint vs < map sint ws \<or> vs = ws \<and> x < y"
proof (cases vs; cases ws)
  fix v vs' w ws'
  assume "vs = v # vs'" and "ws = w # ws'"
  then show ?thesis
    unfolding \<open>vs = _\<close> \<open>ws = _\<close> join_tail append_assoc
    by (auto simp: less_append_same_length tail_join_less sint_inject)
qed (simp_all add: key_sep_less join_tail del: join.simps(2,3) list.map(2), simp_all)

lemma field_less:
  "length a = length b \<Longrightarrow> a @ key_field_sep # x < b @ key_field_sep # y \<longleftrightarrow> a < b \<or> a = b \<and> x < y"
  by (simp add: less_append_same_length)

lemma pad_position_less:
  fixes p q :: pin_position
  shows "pad_i64 (position_int p) < pad_i64 (position_int q) \<longleftrightarrow> position_int p < position_int q"
  "pad_i64 (position_int p) = pad_i64 (position_int q) \<longleftrightarrow> position_int p = position_int q"
  "length (pad_i64 (position_int p)) = length (pad_i64 (position_int q))"
proof -
  have less: "pad_i64 (position_int p) < pad_i64 (position_int q) \<longleftrightarrow> position_int p < position_int q" for p q :: pin_position
    using position_int_bounds [of p] position_int_bounds [of q]
    by (simp add: pad_i64_digits digits_less)
  show "pad_i64 (position_int p) < pad_i64 (position_int q) \<longleftrightarrow> position_int p < position_int q"
    using less .
  show "pad_i64 (position_int p) = pad_i64 (position_int q) \<longleftrightarrow> position_int p = position_int q"
    using less [of p q] less [of q p] by (metis linorder_neqE order.irrefl)
  show "length (pad_i64 (position_int p)) = length (pad_i64 (position_int q))"
    by (simp add: pad_i64_digits)
qed

section \<open>Properties\<close>

text \<open>The compare key is the reading order.  The code's \<open>cmp\<close> is a total order that is
  \<open>Equal\<close> only on equal positions, and comparing the byte strings of two compare keys gives the
  same answer, for all field values: negative offsets, sums below \<open>i32::MIN\<close> and paths that are
  prefixes of each other included.  So keys may stand for positions in any index.\<close>

theorem compare_key_is_the_order:
  "order_cmp p q = cmp (compare_key p) (compare_key q) \<and>
   (order_cmp p q = Equal \<longleftrightarrow> p = q) \<and>
   (compare_key p < compare_key q \<longleftrightarrow> p < q)"
proof -
  have less: "compare_key p < compare_key q \<longleftrightarrow> order_key p < order_key q" for p q
    unfolding compare_key_def append.simps
    by (simp add: field_less join_less pad_position_less order_key_def sint_inject
        map_sint_inject pair_less del: less_prod_simp) blast
  have key: "order_key p = order_key q \<longleftrightarrow> p = q"
    using order_key_inject [of p q] by simp
  have "compare_key p = compare_key q \<longleftrightarrow> p = q"
    using less [of p q] less [of q p] key by (metis linorder_neqE order.irrefl)
  with less [of p q] key show ?thesis
    by (simp add: order_cmp_key pin_less_iff) (simp add: cmp_def)
qed

definition page_at :: "pin_position list \<Rightarrow> nat \<Rightarrow> page_range" where
  "page_at starts i = \<lparr>page_start = starts ! i, page_end = starts ! Suc i\<rparr>"

text \<open>Pages tile the document.  When the pages are cut at positions in reading order, each
  position from the first cut up to, but not including, the last one lies on exactly one page, and
  any other position on none.\<close>

lemma pages_tile:
  assumes "sorted starts" and "starts \<noteq> []"
  shows "if hd starts \<le> pos \<and> pos < last starts
    then \<exists>!i. Suc i < length starts \<and> page_contains (page_at starts i) pos
    else \<nexists>i. Suc i < length starts \<and> page_contains (page_at starts i) pos"
proof -
  let ?on = "\<lambda>i. Suc i < length starts \<and> page_contains (page_at starts i) pos"
  have on: "?on i \<longleftrightarrow> Suc i < length starts \<and> starts ! i \<le> pos \<and> pos < starts ! Suc i" for i
    by (simp add: page_contains_def page_at_def)
  have mono: "starts ! i \<le> starts ! j" if "i \<le> j" "j < length starts" for i j
    using sorted_nth_mono [OF assms(1) that] .
  have unique: "i = j" if "?on i" "?on j" for i j
  proof (rule ccontr)
    assume "i \<noteq> j"
    then have "Suc i \<le> j \<or> Suc j \<le> i" by linarith
    then show False
      using that mono [of "Suc i" j] mono [of "Suc j" i] unfolding on by auto
  qed
  have inside: "hd starts \<le> pos \<and> pos < last starts" if "?on i" for i
  proof -
    from that have "Suc i < length starts" "starts ! i \<le> pos" "pos < starts ! Suc i"
      unfolding on by simp_all
    moreover from this have "starts ! 0 \<le> starts ! i" "starts ! Suc i \<le> starts ! (length starts - 1)"
      using mono by simp_all
    ultimately show ?thesis
      using assms(2) unfolding hd_conv_nth [OF assms(2)] last_conv_nth [OF assms(2)]
      by (meson order.trans less_le_trans)
  qed
  have "\<exists>i. ?on i" if h: "hd starts \<le> pos" and l: "pos < last starts"
  proof -
    let ?n = "length (takeWhile (\<lambda>s. s \<le> pos) starts)"
    have "?n \<noteq> 0" using h assms(2) by (cases starts) auto
    then obtain m where n: "?n = Suc m" using not0_implies_Suc by blast
    have "?n < length starts"
    proof (rule ccontr)
      assume "\<not> ?n < length starts"
      then have "takeWhile (\<lambda>s. s \<le> pos) starts = starts"
        by (metis length_takeWhile_le le_neq_implies_less takeWhile_eq_take take_all_iff order_refl)
      then have "last starts \<le> pos" using assms(2) by (metis set_takeWhileD last_in_set)
      with l show False by simp
    qed
    then have "Suc m < length starts" and "pos < starts ! Suc m"
      using n nth_length_takeWhile [of "\<lambda>s. s \<le> pos" starts] by (simp_all add: not_le)
    moreover have "takeWhile (\<lambda>s. s \<le> pos) starts ! m \<in> set (takeWhile (\<lambda>s. s \<le> pos) starts)"
      using n by (intro nth_mem) simp
    then have "starts ! m \<le> pos"
      using takeWhile_nth [of m "\<lambda>s. s \<le> pos" starts] n set_takeWhileD by fastforce
    ultimately have "?on m" unfolding on by blast
    then show ?thesis ..
  qed
  with unique inside show ?thesis by (auto intro: ex_ex1I)
qed

end
