(* ===== verification/Byte_Lru.thy ===== *)
theory Byte_Lru
  imports Prelude "HOL-Library.Multiset"
begin

text \<open>
  \<open>reader-core/src/render/cache.rs\<close> (\<open>ByteLru\<close>) and the caches of
  \<open>reader-core/src/budget/mod.rs\<close>.  A \<open>HashMap\<close> is a list of entries with distinct keys in
  some iteration order; nothing below depends on the order.  The eviction loop is a
  \<open>partial_function\<close>: that it returns is proved.
\<close>

section \<open>The map and the cache\<close>

type_synonym ('k, 'v) hmap = "('k \<times> 'v) list"

definition hm_remove :: "'k \<Rightarrow> ('k, 'v) hmap \<Rightarrow> ('k, 'v) hmap" where
  "hm_remove k m = filter (\<lambda>(k', _). k' \<noteq> k) m"

definition hm_insert :: "'k \<Rightarrow> 'v \<Rightarrow> ('k, 'v) hmap \<Rightarrow> ('k, 'v) hmap" where
  "hm_insert k v m = (k, v) # hm_remove k m"

record lru_entry =
  le_bytes :: bytes
  le_last_used :: u64

record 'k byte_lru =
  lru_map :: "('k, lru_entry) hmap"
  max_bytes :: usize
  cur_bytes :: usize
  tick :: u64
  evicted :: u64

definition with_capacity_bytes :: "usize \<Rightarrow> 'k byte_lru" where
  "with_capacity_bytes n = \<lparr>lru_map = [], max_bytes = n, cur_bytes = 0, tick = 0, evicted = 0\<rparr>"

definition len_of :: "bytes \<Rightarrow> usize" where
  "len_of bs = of_nat (length bs)"

definition touch :: "'k \<Rightarrow> u64 \<Rightarrow> ('k, lru_entry) hmap \<Rightarrow> ('k, lru_entry) hmap" where
  "touch key t m = map (\<lambda>(k, e). (k, if k = key then e\<lparr>le_last_used := t\<rparr> else e)) m"

definition lru_get :: "'k byte_lru \<Rightarrow> 'k \<Rightarrow> 'k byte_lru \<times> bytes option" where
  "lru_get c key =
     (let c1 = c\<lparr>tick := tick c + 1\<rparr>
      in case map_of (lru_map c) key of
           None \<Rightarrow> (c1, None)
         | Some e \<Rightarrow>
             (c1\<lparr>lru_map := touch key (tick c1) (lru_map c)\<rparr>, Some (le_bytes e)))"

text \<open>\<open>Iterator::min_by_key\<close> returns the first of several minimal elements.\<close>

definition min_by_key :: "('a \<Rightarrow> 'b :: linorder) \<Rightarrow> 'a list \<Rightarrow> 'a option" where
  "min_by_key f xs =
     (case xs of [] \<Rightarrow> None | x # xs \<Rightarrow> Some (foldl (\<lambda>m y. if f y < f m then y else m) x xs))"

definition victim :: "('k, lru_entry) hmap \<Rightarrow> 'k option" where
  "victim m = map_option fst (min_by_key (\<lambda>(_, e). le_last_used e) m)"

definition evict_entry :: "'k byte_lru \<Rightarrow> 'k \<Rightarrow> lru_entry \<Rightarrow> 'k byte_lru" where
  "evict_entry c v e =
     c\<lparr>lru_map := hm_remove v (lru_map c), cur_bytes := cur_bytes c - len_of (le_bytes e),
       evicted := evicted c + 1\<rparr>"

partial_function (option) evict :: "'k byte_lru \<Rightarrow> usize \<Rightarrow> 'k byte_lru option" where
  "evict c need =
     (if max_bytes c < cur_bytes c + need then
        (case victim (lru_map c) of
           None \<Rightarrow> Some c
         | Some v \<Rightarrow>
             (case map_of (lru_map c) v of
                None \<Rightarrow> evict c need
              | Some e \<Rightarrow> evict (evict_entry c v e) need))
      else Some c)"

declare evict.simps [code]

definition reclaim :: "'k byte_lru \<Rightarrow> 'k \<Rightarrow> 'k byte_lru" where
  "reclaim c key =
     (case map_of (lru_map c) key of
        None \<Rightarrow> c
      | Some old \<Rightarrow>
          c\<lparr>lru_map := hm_remove key (lru_map c), cur_bytes := cur_bytes c - len_of (le_bytes old)\<rparr>)"

definition lru_insert :: "'k byte_lru \<Rightarrow> 'k \<Rightarrow> bytes \<Rightarrow> 'k byte_lru option" where
  "lru_insert c key bs =
     (let need = len_of bs;
          c1 = reclaim (c\<lparr>tick := tick c + 1\<rparr>) key
      in if max_bytes c1 < need then Some c1
         else (case evict c1 need of
                 None \<Rightarrow> None
               | Some c2 \<Rightarrow>
                   Some (c2\<lparr>cur_bytes := cur_bytes c2 + need,
                            lru_map := hm_insert key \<lparr>le_bytes = bs, le_last_used = tick c2\<rparr> (lru_map c2)\<rparr>)))"

definition lru_clear :: "'k byte_lru \<Rightarrow> 'k byte_lru" where
  "lru_clear c = c\<lparr>lru_map := [], cur_bytes := 0\<rparr>"

section \<open>The caches of a session\<close>

datatype trim_level = Moderate | Critical

definition trim_level_from_code :: "int \<Rightarrow> trim_level" where
  "trim_level_from_code code = (if 1 \<le> code then Critical else Moderate)"

record resource_budget =
  render_cache_bytes :: usize
  cover_cache_bytes :: usize
  max_page_pixels :: u64

definition default_supernote :: resource_budget where
  "default_supernote =
     \<lparr>render_cache_bytes = push_bit 20 64, cover_cache_bytes = push_bit 20 8,
      max_page_pixels = 16000000\<rparr>"

record ('p, 'b) caches =
  render_cache :: "'p byte_lru"
  cover_cache :: "'b byte_lru"

definition caches_new :: "resource_budget \<Rightarrow> ('p, 'b) caches" where
  "caches_new budget =
     \<lparr>render_cache = with_capacity_bytes (render_cache_bytes budget),
      cover_cache = with_capacity_bytes (cover_cache_bytes budget)\<rparr>"

definition total_bytes :: "('p, 'b) caches \<Rightarrow> usize" where
  "total_bytes c = cur_bytes (render_cache c) + cur_bytes (cover_cache c)"

definition caches_trim :: "('p, 'b) caches \<Rightarrow> trim_level \<Rightarrow> ('p, 'b) caches" where
  "caches_trim c level =
     (case level of
        Moderate \<Rightarrow> c\<lparr>cover_cache := lru_clear (cover_cache c)\<rparr>
      | Critical \<Rightarrow>
          c\<lparr>render_cache := lru_clear (render_cache c), cover_cache := lru_clear (cover_cache c)\<rparr>)"

text \<open>What a session may do with its caches, \<open>invalidate_render_cache\<close> of the session included; a \<open>Vec\<close> holds at most \<open>isize::MAX\<close> bytes.\<close>

definition vec_sized :: "bytes \<Rightarrow> bool" where
  "vec_sized bs \<longleftrightarrow> length bs < 2 ^ 63"

inductive cache_step :: "('p, 'b) caches \<Rightarrow> ('p, 'b) caches \<Rightarrow> bool" where
  render_get: "lru_get (render_cache c) k = (r, found) \<Longrightarrow> cache_step c (c\<lparr>render_cache := r\<rparr>)"
| render_insert: "vec_sized bs \<Longrightarrow> lru_insert (render_cache c) k bs = Some r \<Longrightarrow>
    cache_step c (c\<lparr>render_cache := r\<rparr>)"
| cover_get: "lru_get (cover_cache c) b = (r, found) \<Longrightarrow> cache_step c (c\<lparr>cover_cache := r\<rparr>)"
| cover_insert: "vec_sized bs \<Longrightarrow> lru_insert (cover_cache c) b bs = Some r \<Longrightarrow>
    cache_step c (c\<lparr>cover_cache := r\<rparr>)"
| render_cleared: "cache_step c (c\<lparr>render_cache := lru_clear (render_cache c)\<rparr>)"
| trimmed: "cache_step c (caches_trim c level)"

inductive caches_run :: "resource_budget \<Rightarrow> ('p, 'b) caches \<Rightarrow> bool" for budget where
  fresh: "caches_run budget (caches_new budget)"
| step: "caches_run budget c \<Longrightarrow> cache_step c c' \<Longrightarrow> caches_run budget c'"

section \<open>Facts on the map\<close>

lemma hm_remove_get [simp]: "map_of (hm_remove k m) = (map_of m)(k := None)"
  by (induction m) (auto simp: hm_remove_def)

lemma hm_remove_keys [simp]: "fst ` set (hm_remove k m) = fst ` set m - {k}"
  by (auto simp: hm_remove_def image_iff)

lemma hm_remove_distinct: "distinct (map fst m) \<Longrightarrow> distinct (map fst (hm_remove k m))"
  unfolding hm_remove_def by (rule distinct_map_filter)

lemma hm_remove_unknown: "map_of m k = None \<Longrightarrow> hm_remove k m = m"
  unfolding hm_remove_def by (force simp: map_of_eq_None_iff image_iff intro!: filter_True)

lemma hm_remove_shorter: "map_of m k = Some e \<Longrightarrow> length (hm_remove k m) < length m"
  unfolding hm_remove_def by (rule length_filter_less [of "(k, e)"]) (auto dest: map_of_SomeD)

definition entry_len :: "'k \<times> lru_entry \<Rightarrow> nat" where
  "entry_len x = length (le_bytes (snd x))"

definition held :: "('k, lru_entry) hmap \<Rightarrow> nat" where
  "held m = sum_list (map entry_len m)"

lemma held_simps [simp]: "held [] = 0" "held ((k, e) # m) = length (le_bytes e) + held m"
  by (simp_all add: held_def entry_len_def)

lemma held_remove:
  "distinct (map fst m) \<Longrightarrow> map_of m k = Some e \<Longrightarrow>
     held m = length (le_bytes e) + held (hm_remove k m)"
proof (induction m)
  case (Cons x m)
  show ?case
  proof (cases "fst x = k")
    case True
    then have "hm_remove k m = m"
      using Cons.prems(1) by (intro hm_remove_unknown) (auto simp: map_of_eq_None_iff)
    with True Cons.prems show ?thesis by (cases x) (simp add: hm_remove_def)
  next
    case False
    with Cons show ?thesis by (cases x) (simp add: hm_remove_def)
  qed
qed simp

lemma foldl_min_mem:
  "foldl (\<lambda>m y. if f y < f m then y else m) x xs \<in> insert x (set xs)"
proof (induction xs arbitrary: x)
  case (Cons z zs)
  show ?case using Cons.IH [of "if f z < f x then z else x"] by (auto split: if_splits)
qed simp

lemma foldl_min_least:
  "\<forall>y\<in>insert x (set xs). f (foldl (\<lambda>m y. if f y < f m then y else m) x xs) \<le> (f y :: 'b :: linorder)"
proof (induction xs arbitrary: x)
  case (Cons z zs)
  let ?x = "if f z < f x then z else x"
  have "f (foldl (\<lambda>m y. if f y < f m then y else m) ?x zs) \<le> f ?x"
    and "\<forall>y\<in>set zs. f (foldl (\<lambda>m y. if f y < f m then y else m) ?x zs) \<le> f y"
    using Cons.IH [of ?x] by auto
  then show ?case by (auto split: if_splits)
qed simp

lemma victim_Nil [simp]: "victim [] = None"
  by (simp add: victim_def min_by_key_def)

lemma victim_None: "victim m = None \<longleftrightarrow> m = []"
  by (cases m) (simp_all add: victim_def min_by_key_def)

lemma victim_least:
  assumes "victim m = Some v"
  obtains e where "(v, e) \<in> set m" and "\<And>k e'. (k, e') \<in> set m \<Longrightarrow> le_last_used e \<le> le_last_used e'"
proof -
  from assms obtain x xs where m: "m = x # xs" by (cases m) (simp_all add: victim_def min_by_key_def)
  let ?f = "\<lambda>(_ :: 'a, e). le_last_used e"
  let ?y = "foldl (\<lambda>m y. if ?f y < ?f m then y else m) x xs"
  have v: "v = fst ?y" using assms by (simp add: m victim_def min_by_key_def)
  have "?y \<in> set m" using foldl_min_mem [of ?f x xs] m by simp
  moreover have "\<forall>y\<in>set m. ?f ?y \<le> ?f y" using foldl_min_least [of x xs ?f] m by simp
  ultimately have "(v, snd ?y) \<in> set m" and "\<forall>y\<in>set m. le_last_used (snd ?y) \<le> le_last_used (snd y)"
    by (simp_all add: v case_prod_beta)
  then show thesis by (intro that) (fastforce simp: v)+
qed

lemma victim_known: "victim m = Some v \<Longrightarrow> \<exists>e. map_of m v = Some e"
  by (metis victim_least map_of_eq_None_iff not_None_eq image_eqI fst_conv)

section \<open>The eviction loop returns\<close>

lemma evict_returns: "\<exists>c'. evict c need = Some c'"
proof (induction "length (lru_map c)" arbitrary: c rule: less_induct)
  case less
  show ?case
  proof (cases "max_bytes c < cur_bytes c + need \<and> lru_map c \<noteq> []")
    case True
    then obtain v e where v: "victim (lru_map c) = Some v" "map_of (lru_map c) v = Some e"
      using victim_None victim_known by (metis option.exhaust)
    then have "length (lru_map (evict_entry c v e)) < length (lru_map c)"
      by (simp add: evict_entry_def hm_remove_shorter)
    from less [OF this] v True show ?thesis by (subst evict.simps) simp
  next
    case False
    then show ?thesis by (subst evict.simps) auto
  qed
qed

section \<open>The invariant\<close>

definition lru_sized :: "'k byte_lru \<Rightarrow> bool" where
  "lru_sized c \<longleftrightarrow>
     distinct (map fst (lru_map c)) \<and> unat (cur_bytes c) = held (lru_map c) \<and>
     held (lru_map c) \<le> unat (max_bytes c) \<and> unat (max_bytes c) < 2 ^ 63"

lemma unat_len_of: "length bs < 2 ^ 63 \<Longrightarrow> unat (len_of bs) = length bs"
  by (simp add: len_of_def unsigned_of_nat take_bit_nat_eq_self)

lemma take_out:
  assumes "lru_sized c" and "map_of (lru_map c) v = Some e"
    and "c' = c\<lparr>lru_map := hm_remove v (lru_map c), cur_bytes := cur_bytes c - len_of (le_bytes e)\<rparr>"
  shows "lru_sized c'" and "held (lru_map c) = length (le_bytes e) + held (lru_map c')"
proof -
  from assms(1) have d: "distinct (map fst (lru_map c))" and cur: "unat (cur_bytes c) = held (lru_map c)"
    and "held (lru_map c) \<le> unat (max_bytes c)" and max: "unat (max_bytes c) < 2 ^ 63"
    by (simp_all add: lru_sized_def)
  moreover note out = held_remove [OF d assms(2)]
  ultimately have len: "unat (len_of (le_bytes e)) = length (le_bytes e)" by (simp add: unat_len_of)
  then have "len_of (le_bytes e) \<le> cur_bytes c" using out cur by (simp add: word_le_nat_alt)
  then have "unat (cur_bytes c - len_of (le_bytes e)) = held (hm_remove v (lru_map c))"
    using out cur len by (simp add: unat_sub)
  with out assms(1) show "lru_sized c'" and "held (lru_map c) = length (le_bytes e) + held (lru_map c')"
    by (simp_all add: assms(3) lru_sized_def hm_remove_distinct)
qed

lemma evict_entry_sized:
  assumes "lru_sized c" and "map_of (lru_map c) v = Some e"
  shows "lru_sized (evict_entry c v e)"
  using take_out(1) [OF assms refl] by (simp add: evict_entry_def lru_sized_def)

lemma reclaim_sized: "lru_sized c \<Longrightarrow> lru_sized (reclaim c key)"
  using take_out(1) [of c key _ "reclaim c key"]
  by (cases "map_of (lru_map c) key") (simp_all add: reclaim_def)

lemma lru_sized_ticks [simp]: "lru_sized (c\<lparr>tick := t\<rparr>) = lru_sized c" "lru_sized (c\<lparr>evicted := n\<rparr>) = lru_sized c"
  by (simp_all add: lru_sized_def)

lemma reclaim_frame [simp]:
  "max_bytes (reclaim c key) = max_bytes c" "tick (reclaim c key) = tick c"
  "lru_map (reclaim c key) = hm_remove key (lru_map c)"
  by (simp_all add: reclaim_def hm_remove_unknown split: option.splits)

section \<open>The recency list\<close>

text \<open>What the cache is meant to be: a list of entries, the most recently used first.  Inserting
  puts the new entry in front and keeps the longest prefix of the others that fits.\<close>

fun fit :: "('a \<Rightarrow> nat) \<Rightarrow> nat \<Rightarrow> 'a list \<Rightarrow> 'a list" where
  "fit w n [] = []"
| "fit w n (x # xs) = (if w x \<le> n then x # fit w (n - w x) xs else [])"

definition spec_get :: "'k \<Rightarrow> ('k \<times> bytes) list \<Rightarrow> ('k \<times> bytes) list \<times> bytes option" where
  "spec_get k xs =
     (case map_of xs k of
        None \<Rightarrow> (xs, None)
      | Some bs \<Rightarrow> ((k, bs) # filter (\<lambda>(k', _). k' \<noteq> k) xs, Some bs))"

definition spec_insert :: "nat \<Rightarrow> 'k \<Rightarrow> bytes \<Rightarrow> ('k \<times> bytes) list \<Rightarrow> ('k \<times> bytes) list" where
  "spec_insert budget k bs xs =
     (let others = filter (\<lambda>(k', _). k' \<noteq> k) xs
      in if budget < length bs then others
         else (k, bs) # fit (\<lambda>(_, b). length b) (budget - length bs) others)"

definition recency_of :: "'k byte_lru \<Rightarrow> ('k \<times> bytes) list" where
  "recency_of c = map (map_prod id le_bytes) (rev (sort_key (le_last_used \<circ> snd) (lru_map c)))"

lemma fit_snoc: "n < sum_list (map w (xs @ [x])) \<Longrightarrow> fit w n (xs @ [x]) = fit w n xs"
  by (induction xs arbitrary: n) auto

lemma fit_all: "sum_list (map w xs) \<le> n \<Longrightarrow> fit w n xs = xs"
  by (induction xs arbitrary: n) auto

lemma fit_map: "fit w n (map f xs) = map f (fit (w \<circ> f) n xs)"
  by (induction xs arbitrary: n) auto

definition fresh_ticks :: "'k byte_lru \<Rightarrow> bool" where
  "fresh_ticks c \<longleftrightarrow>
     distinct (map (le_last_used \<circ> snd) (lru_map c)) \<and> (\<forall>e\<in>set (lru_map c). le_last_used (snd e) \<le> tick c)"

definition recency :: "('k, lru_entry) hmap \<Rightarrow> ('k \<times> lru_entry) list \<Rightarrow> bool" where
  "recency m es \<longleftrightarrow>
     mset es = mset m \<and> sorted_wrt (\<lambda>a b. le_last_used (snd b) < le_last_used (snd a)) es"

lemma recency_unique:
  assumes "recency (lru_map c) es"
  shows "recency_of c = map (map_prod id le_bytes) es"
proof -
  let ?f = "le_last_used \<circ> snd :: 'a \<times> lru_entry \<Rightarrow> u64"
  have "sorted_wrt (<) (map ?f (rev es))"
    using assms by (simp add: recency_def sorted_wrt_rev sorted_wrt_map)
  then have s: "sorted (map ?f (rev es))" "distinct (map ?f (rev es))"
    by (simp_all only: strict_sorted_iff)
  have m: "mset (lru_map c) = mset (rev es)" using assms by (simp add: recency_def)
  then have "inj_on ?f (set (lru_map c))"
    using s(2) mset_eq_setD [OF m] by (simp add: distinct_map)
  from sort_key_inj_key_eq [OF m this s(1)] show ?thesis by (simp add: recency_of_def)
qed

lemma recency_exists:
  assumes "fresh_ticks c"
  obtains es where "recency (lru_map c) es"
proof
  let ?f = "le_last_used \<circ> snd :: 'a \<times> lru_entry \<Rightarrow> u64"
  let ?s = "sort_key ?f (lru_map c)"
  have "distinct (map ?f ?s)"
    using assms by (simp add: fresh_ticks_def distinct_map)
  moreover have "sorted (map ?f ?s)" by simp
  ultimately have "sorted_wrt (<) (map ?f ?s)" by (simp only: strict_sorted_iff)
  then show "recency (lru_map c) (rev ?s)"
    by (simp add: recency_def sorted_wrt_rev sorted_wrt_map)
qed

section \<open>The loop makes room\<close>

lemma sized_add:
  assumes "lru_sized c" and "unat need \<le> unat (max_bytes c)"
  shows "max_bytes c < cur_bytes c + need \<longleftrightarrow> unat (max_bytes c) < held (lru_map c) + unat need"
proof -
  have "unat (cur_bytes c) + unat need < 2 ^ 64" using assms by (simp add: lru_sized_def)
  then have "unat (cur_bytes c + need) = held (lru_map c) + unat need"
    using assms(1) by (simp add: unat_word_ariths lru_sized_def)
  then show ?thesis by (simp add: word_less_nat_alt)
qed

lemma evict_step:
  assumes "evict c need = Some c'" and "max_bytes c < cur_bytes c + need" and "lru_map c \<noteq> []"
  obtains v e where "victim (lru_map c) = Some v" and "map_of (lru_map c) v = Some e"
    and "evict (evict_entry c v e) need = Some c'"
proof -
  obtain v e where v: "victim (lru_map c) = Some v" "map_of (lru_map c) v = Some e"
    using assms(3) victim_None victim_known by (metis option.exhaust)
  with assms(1,2) have "evict (evict_entry c v e) need = Some c'"
    by (subst (asm) evict.simps) simp
  with v that show thesis by blast
qed

lemma evict_stop: "\<not> max_bytes c < cur_bytes c + need \<Longrightarrow> evict c need = Some c"
  by (subst evict.simps) simp

lemma evict_frame [simp]:
  "max_bytes (evict_entry c v e) = max_bytes c" "tick (evict_entry c v e) = tick c"
  "lru_map (evict_entry c v e) = hm_remove v (lru_map c)"
  by (simp_all add: evict_entry_def)

lemma evict_makes_room:
  assumes "lru_sized c" and "unat need \<le> unat (max_bytes c)" and "evict c need = Some c'"
  shows "lru_sized c' \<and> max_bytes c' = max_bytes c \<and> tick c' = tick c \<and>
    held (lru_map c') + unat need \<le> unat (max_bytes c) \<and> set (lru_map c') \<subseteq> set (lru_map c)"
  using assms
proof (induction "length (lru_map c)" arbitrary: c rule: less_induct)
  case less
  show ?case
  proof (cases "max_bytes c < cur_bytes c + need")
    case True
    then have "lru_map c \<noteq> []" using sized_add [OF less.prems(1,2)] less.prems(2) by auto
    with evict_step [OF less.prems(3) True] obtain v e where
      v: "map_of (lru_map c) v = Some e" "evict (evict_entry c v e) need = Some c'" by blast
    have "length (lru_map (evict_entry c v e)) < length (lru_map c)"
      using v(1) by (simp add: hm_remove_shorter)
    from less.hyps [OF this evict_entry_sized [OF less.prems(1) v(1)] _ v(2)] less.prems(2)
    show ?thesis by (auto simp: hm_remove_def)
  next
    case False
    then show ?thesis
      using evict_stop [OF False] less.prems sized_add [OF less.prems(1,2)] by auto
  qed
qed

lemma held_mset: "mset es = mset m \<Longrightarrow> held m = sum_list (map entry_len es)"
proof -
  assume "mset es = mset m"
  then have "mset (map entry_len es) = mset (map entry_len m)"
    by simp
  then have "sum_list (map entry_len es) = sum_list (map entry_len m)"
    by (metis sum_mset_sum_list)
  then show ?thesis by (simp add: held_def)
qed

lemma recency_remove:
  "recency m es \<Longrightarrow> recency (hm_remove k m) (filter (\<lambda>(k', _). k' \<noteq> k) es)"
  by (auto simp: recency_def hm_remove_def intro: sorted_wrt_filter)

lemma recency_front:
  assumes "recency m es" and "\<forall>e\<in>set m. le_last_used (snd e) < le_last_used (snd x)"
  shows "recency (x # m) (x # es)"
proof -
  have "set es = set m" using assms(1) by (auto simp: recency_def dest: mset_eq_setD)
  with assms show ?thesis by (simp add: recency_def)
qed

text \<open>The victim is the last entry of the recency list.\<close>

lemma victim_last:
  assumes "recency m (es @ [x])" and "distinct (map fst m)"
  shows "victim m = Some (fst x)" and "recency (hm_remove (fst x) m) es"
proof -
  have mset: "mset (es @ [x]) = mset m" using assms(1) unfolding recency_def by blast
  have set: "set m = insert x (set es)" using mset_eq_setD [OF mset] by simp
  have least: "\<forall>e\<in>set es. le_last_used (snd x) < le_last_used (snd e)"
    using assms(1) by (simp add: recency_def sorted_wrt_append)
  have "m \<noteq> []" using set by auto
  then obtain v where v: "victim m = Some v" using victim_None by (metis option.exhaust)
  obtain e where e: "(v, e) \<in> set m" "\<And>k e'. (k, e') \<in> set m \<Longrightarrow> le_last_used e \<le> le_last_used e'"
    using victim_least [OF v] by blast
  have "le_last_used e \<le> le_last_used (snd x)" using e(2) [of "fst x" "snd x"] set by simp
  then have "(v, e) \<notin> set es" using least by (auto simp: not_le [symmetric])
  with e(1) set v show "victim m = Some (fst x)" by auto
  have "distinct (map fst (es @ [x]))"
    using assms(2) mset by (metis mset_map mset_eq_imp_distinct_iff)
  then have "filter (\<lambda>(k', _). k' \<noteq> fst x) (es @ [x]) = es"
    by (auto simp: filter_id_conv image_iff case_prod_beta)
  with recency_remove [OF assms(1), of "fst x"] show "recency (hm_remove (fst x) m) es" by simp
qed

lemma evict_keeps_recent:
  assumes "lru_sized c" and "unat need \<le> unat (max_bytes c)" and "evict c need = Some c'"
    and "recency (lru_map c) es"
  shows "recency (lru_map c') (fit entry_len (unat (max_bytes c) - unat need) es)"
  using assms
proof (induction es arbitrary: c rule: rev_induct)
  case Nil
  then have "\<not> max_bytes c < cur_bytes c + need"
    using sized_add [OF Nil.prems(1,2)] by (simp add: recency_def)
  from evict_stop [OF this] Nil.prems show ?case by simp
next
  case (snoc x es)
  have held: "held (lru_map c) = sum_list (map entry_len (es @ [x]))"
    using snoc.prems(4) by (intro held_mset) (simp add: recency_def)
  have d: "distinct (map fst (lru_map c))" using snoc.prems(1) by (simp add: lru_sized_def)
  show ?case
  proof (cases "max_bytes c < cur_bytes c + need")
    case True
    note last = victim_last [OF snoc.prems(4) d]
    have "lru_map c \<noteq> []" using last(1) by auto
    with evict_step [OF snoc.prems(3) True] last(1) obtain e where
      e: "map_of (lru_map c) (fst x) = Some e" "evict (evict_entry c (fst x) e) need = Some c'" by auto
    have "unat (max_bytes c) - unat need < sum_list (map entry_len (es @ [x]))"
      using True sized_add [OF snoc.prems(1,2)] held snoc.prems(2) by linarith
    then have "fit entry_len (unat (max_bytes c) - unat need) (es @ [x]) =
        fit entry_len (unat (max_bytes c) - unat need) es" by (rule fit_snoc)
    with snoc.IH [OF evict_entry_sized [OF snoc.prems(1) e(1)] _ e(2)] last(2) snoc.prems(2)
    show ?thesis by simp
  next
    case False
    then have "sum_list (map entry_len (es @ [x])) \<le> unat (max_bytes c) - unat need"
      using sized_add [OF snoc.prems(1,2)] held by linarith
    then have "fit entry_len (unat (max_bytes c) - unat need) (es @ [x]) = es @ [x]" by (rule fit_all)
    with evict_stop [OF False] snoc.prems(3,4) show ?thesis by simp
  qed
qed

lemma lru_insert_defined: "\<exists>c'. lru_insert c key bs = Some c'"
  using evict_returns [of "reclaim (c\<lparr>tick := tick c + 1\<rparr>) key" "len_of bs"]
  by (auto simp: lru_insert_def Let_def)

text \<open>C27: the cache never hangs.  \<open>insert\<close>, whose eviction loop runs until the new entry fits,
  returns from every state, whatever its counters, ticks and sizes: each turn removes an entry, and
  an empty map breaks the loop.\<close>

theorem lru_insert_returns: "\<exists>c'. lru_insert c key bs = Some c'"
  by (rule lru_insert_defined)

section \<open>One operation\<close>

text \<open>A new front entry has the largest tick.\<close>

lemma fresh_front:
  assumes "fresh_ticks c" and "unat (tick c) + 1 < 2 ^ 64" and "e \<in> set (hm_remove k (lru_map c))"
  shows "le_last_used (snd e) < tick c + 1"
proof -
  have "e \<in> set (lru_map c)" using assms(3) by (simp add: hm_remove_def)
  then have "le_last_used (snd e) \<le> tick c" using assms(1) by (simp add: fresh_ticks_def)
  moreover have "tick c < tick c + 1" using assms(2) by (simp add: word_less_nat_alt unat_word_ariths)
  ultimately show ?thesis by (rule le_less_trans)
qed

lemma recency_fresh:
  assumes "recency (lru_map c) es" and "\<forall>e\<in>set es. le_last_used (snd e) \<le> tick c"
  shows "fresh_ticks c"
proof -
  have m: "mset es = mset (lru_map c)" using assms(1) by (simp add: recency_def)
  have "sorted_wrt (<) (map (le_last_used \<circ> snd) (rev es))"
    using assms(1) by (simp add: recency_def sorted_wrt_rev sorted_wrt_map)
  then have "distinct (map (le_last_used \<circ> snd) (rev es))" by (simp only: strict_sorted_iff)
  then have "distinct (map (le_last_used \<circ> snd) es)" by (metis rev_map distinct_rev)
  then have "distinct (map (le_last_used \<circ> snd) (lru_map c))"
    using m by (metis mset_map mset_eq_imp_distinct_iff)
  with assms(2) mset_eq_setD [OF m] show ?thesis by (simp add: fresh_ticks_def)
qed

lemma touch_keys [simp]: "map fst (touch key t m) = map fst m"
  by (induction m) (auto simp: touch_def)

lemma touch_unknown: "map_of m key = None \<Longrightarrow> touch key t m = m"
  unfolding touch_def by (intro map_idI) (force simp: map_of_eq_None_iff image_iff)

lemma mset_touch:
  "distinct (map fst m) \<Longrightarrow> map_of m key = Some e \<Longrightarrow>
     mset (touch key t m) = add_mset (key, e\<lparr>le_last_used := t\<rparr>) (mset (hm_remove key m))"
proof (induction m)
  case (Cons x m)
  show ?case
  proof (cases "fst x = key")
    case True
    then have none: "map_of m key = None" using Cons.prems(1) by (auto simp: map_of_eq_None_iff)
    with True Cons.prems hm_remove_unknown [OF none] touch_unknown [OF none] show ?thesis
      by (cases x) (simp add: hm_remove_def touch_def)
  next
    case False
    with Cons show ?thesis by (cases x) (simp add: hm_remove_def touch_def)
  qed
qed simp

lemma held_touch [simp]: "held (touch key t m) = held m"
  by (induction m) (auto simp: held_def entry_len_def touch_def)

lemma get_sized: "lru_sized c \<Longrightarrow> lru_get c key = (c', r) \<Longrightarrow> lru_sized c' \<and> max_bytes c' = max_bytes c"
  by (auto simp: lru_get_def lru_sized_def Let_def split: option.splits)

lemma clear_sized: "lru_sized c \<Longrightarrow> lru_sized (lru_clear c) \<and> max_bytes (lru_clear c) = max_bytes c"
  by (simp add: lru_clear_def lru_sized_def)

text \<open>An insertion that is not refused, in its two steps.\<close>

lemma insert_evicts:
  assumes "lru_insert c key bs = Some c'" and "length bs < 2 ^ 63" and "lru_sized c"
    and "\<not> unat (max_bytes c) < length bs"
  obtains c2 where "evict (reclaim (c\<lparr>tick := tick c + 1\<rparr>) key) (len_of bs) = Some c2"
    and "lru_sized c2" and "held (lru_map c2) + length bs \<le> unat (max_bytes c)"
    and "max_bytes c2 = max_bytes c" and "tick c2 = tick c + 1"
    and "set (lru_map c2) \<subseteq> set (hm_remove key (lru_map c))"
    and "c' = c2\<lparr>cur_bytes := cur_bytes c2 + len_of bs,
           lru_map := (key, \<lparr>le_bytes = bs, le_last_used = tick c2\<rparr>) # lru_map c2\<rparr>"
proof -
  let ?c1 = "reclaim (c\<lparr>tick := tick c + 1\<rparr>) key"
  have n: "\<not> max_bytes c < len_of bs" using assms(4) by (simp add: word_less_nat_alt unat_len_of [OF assms(2)])
  then obtain c2 where c2: "evict ?c1 (len_of bs) = Some c2"
    "c' = c2\<lparr>cur_bytes := cur_bytes c2 + len_of bs,
       lru_map := hm_insert key \<lparr>le_bytes = bs, le_last_used = tick c2\<rparr> (lru_map c2)\<rparr>"
    using assms(1) by (auto simp: lru_insert_def Let_def split: option.splits)
  have s: "lru_sized ?c1" using assms(3) by (simp add: reclaim_sized)
  have "unat (len_of bs) \<le> unat (max_bytes ?c1)" using assms(4) unat_len_of [OF assms(2)] by simp
  note room = evict_makes_room [OF s this c2(1)]
  have "hm_remove key (lru_map c2) = lru_map c2"
    using room by (intro hm_remove_unknown) (auto simp: map_of_eq_None_iff hm_remove_def)
  with c2(2) have "c' = c2\<lparr>cur_bytes := cur_bytes c2 + len_of bs,
      lru_map := (key, \<lparr>le_bytes = bs, le_last_used = tick c2\<rparr>) # lru_map c2\<rparr>"
    by (simp add: hm_insert_def)
  with that [OF c2(1)] room unat_len_of [OF assms(2)] show thesis by simp
qed

lemma insert_refused:
  assumes "length bs < 2 ^ 63" and "unat (max_bytes c) < length bs"
  shows "lru_insert c key bs = Some (reclaim (c\<lparr>tick := tick c + 1\<rparr>) key)"
  using assms by (simp add: lru_insert_def Let_def word_less_nat_alt unat_len_of)

lemma insert_sized:
  assumes "lru_sized c" and "length bs < 2 ^ 63" and "lru_insert c key bs = Some c'"
  shows "lru_sized c' \<and> max_bytes c' = max_bytes c"
proof (cases "unat (max_bytes c) < length bs")
  case True
  with insert_refused [OF assms(2) True] assms show ?thesis by (auto simp: reclaim_sized)
next
  case False
  then show ?thesis
  proof (rule insert_evicts [OF assms(3,2,1)])
    fix c2
    assume c2: "lru_sized c2" "held (lru_map c2) + length bs \<le> unat (max_bytes c)"
      "max_bytes c2 = max_bytes c" "set (lru_map c2) \<subseteq> set (hm_remove key (lru_map c))"
      "c' = c2\<lparr>cur_bytes := cur_bytes c2 + len_of bs,
         lru_map := (key, \<lparr>le_bytes = bs, le_last_used = tick c2\<rparr>) # lru_map c2\<rparr>"
    have "unat (max_bytes c) < 2 ^ 63" using assms(1) by (simp add: lru_sized_def)
    then have "unat (cur_bytes c2 + len_of bs) = held (lru_map c2) + length bs"
      using c2(1,2) unat_len_of [OF assms(2)] by (simp add: unat_word_ariths lru_sized_def)
    moreover have "key \<notin> fst ` set (lru_map c2)" using c2(4) by (auto simp: hm_remove_def)
    ultimately show ?thesis using c2 by (simp add: lru_sized_def)
  qed
qed


definition lru_ok :: "'k byte_lru \<Rightarrow> bool" where
  "lru_ok c \<longleftrightarrow> lru_sized c \<and> fresh_ticks c"

lemma recency_facts:
  assumes "recency m es" and "distinct (map fst m)"
  shows "set es = set m" and "distinct (map fst es)" and "map_of es = map_of m"
proof -
  have m: "mset es = mset m" using assms(1) by (simp add: recency_def)
  from mset_eq_setD [OF m] show set: "set es = set m" .
  from m assms(2) show d: "distinct (map fst es)" by (metis mset_map mset_eq_imp_distinct_iff)
  from map_of_inject_set [OF d assms(2)] set show "map_of es = map_of m" by simp
qed

lemma map_of_recency: "map_of (map (map_prod id le_bytes) es) k = map_option le_bytes (map_of es k)"
  by (induction es) auto

lemma filter_recency:
  "filter (\<lambda>(k', _). k' \<noteq> k) (map (map_prod id le_bytes) es) =
     map (map_prod id le_bytes) (filter (\<lambda>(k', _). k' \<noteq> k) es)"
  by (induction es) auto

lemma lru_okI:
  assumes "lru_sized c" and "recency (lru_map c) es" and "\<forall>e\<in>set es. le_last_used (snd e) \<le> tick c"
  shows "lru_ok c"
  using assms recency_fresh by (auto simp: lru_ok_def)

lemma get_refines:
  assumes "lru_ok c" and "unat (tick c) + 1 < 2 ^ 64"
  shows "\<exists>c1 found. lru_get c key = (c1, found) \<and> lru_ok c1 \<and>
    (recency_of c1, found) = spec_get key (recency_of c)"
proof -
  have sized: "lru_sized c" and fresh: "fresh_ticks c" using assms(1) by (simp_all add: lru_ok_def)
  have d: "distinct (map fst (lru_map c))" using sized by (simp add: lru_sized_def)
  obtain es where es: "recency (lru_map c) es" using recency_exists [OF fresh] .
  note facts = recency_facts [OF es d] and abs = recency_unique [OF es]
  obtain c1 found where get: "lru_get c key = (c1, found)" by fastforce
  have s1: "lru_sized c1" using get_sized [OF sized get] by simp
  have old: "\<forall>e\<in>set es. le_last_used (snd e) \<le> tick c + 1"
    using fresh assms(2) facts(1)
    by (auto simp: fresh_ticks_def word_le_nat_alt unat_word_ariths intro: le_SucI)
  show ?thesis
  proof (cases "map_of (lru_map c) key")
    case None
    then have c1: "c1 = c\<lparr>tick := tick c + 1\<rparr>" "found = None"
      using get by (simp_all add: lru_get_def Let_def)
    have "recency_of c1 = recency_of c" using c1 by (simp add: recency_of_def)
    moreover have "lru_ok c1" using lru_okI [OF s1, of es] es old c1 by simp
    ultimately show ?thesis
      using get c1 None facts(3) by (simp add: spec_get_def abs map_of_recency)
  next
    case (Some e)
    let ?x = "(key, e\<lparr>le_last_used := tick c + 1\<rparr>)"
    let ?es = "?x # filter (\<lambda>(k', _). k' \<noteq> key) es"
    have c1: "c1 = c\<lparr>tick := tick c + 1, lru_map := touch key (tick c + 1) (lru_map c)\<rparr>"
      "found = Some (le_bytes e)"
      using get Some by (simp_all add: lru_get_def Let_def)
    have "recency (?x # hm_remove key (lru_map c)) ?es"
      using fresh_front [OF fresh assms(2)] by (intro recency_front recency_remove [OF es]) auto
    then have r: "recency (lru_map c1) ?es"
      using mset_touch [OF d Some, of "tick c + 1"] c1(1) by (simp add: recency_def)
    moreover have "lru_ok c1" using lru_okI [OF s1 r] old c1 by auto
    ultimately show ?thesis
      using get c1(2) Some facts(3) recency_unique [OF r]
      by (simp add: spec_get_def abs map_of_recency filter_recency)
  qed
qed

lemma insert_refines:
  assumes "lru_ok c" and "unat (tick c) + 1 < 2 ^ 64" and "length bs < 2 ^ 63"
    and "lru_insert c key bs = Some c2"
  shows "lru_ok c2 \<and> recency_of c2 = spec_insert (unat (max_bytes c)) key bs (recency_of c)"
proof -
  have sized: "lru_sized c" and fresh: "fresh_ticks c" using assms(1) by (simp_all add: lru_ok_def)
  have d: "distinct (map fst (lru_map c))" using sized by (simp add: lru_sized_def)
  obtain es where es: "recency (lru_map c) es" using recency_exists [OF fresh] .
  note facts = recency_facts [OF es d] and abs = recency_unique [OF es]
  let ?others = "filter (\<lambda>(k', _). k' \<noteq> key) es"
  note others = recency_remove [OF es, of key]
  have s2: "lru_sized c2" using insert_sized [OF sized assms(3,4)] by simp
  have old: "\<forall>e\<in>set ?others. le_last_used (snd e) < tick c + 1"
    using fresh_front [OF fresh assms(2), of _ key] facts(1) by (auto simp: hm_remove_def)
  show ?thesis
  proof (cases "unat (max_bytes c) < length bs")
    case True
    have c2: "lru_map c2 = hm_remove key (lru_map c)" "tick c2 = tick c + 1"
      using insert_refused [OF assms(3) True] assms(4) by auto
    have "lru_ok c2" using lru_okI [OF s2, of ?others] others old c2 by (auto intro: less_imp_le)
    moreover have "recency_of c2 = map (map_prod id le_bytes) ?others"
      using recency_unique [of c2] others c2(1) by simp
    ultimately show ?thesis using True by (simp add: spec_insert_def abs filter_recency)
  next
    case False
    then show ?thesis
    proof (rule insert_evicts [OF assms(4,3) sized])
      fix c3 :: "'a byte_lru"
      let ?c1 = "reclaim (c\<lparr>tick := tick c + 1\<rparr>) key"
      let ?x = "(key, \<lparr>le_bytes = bs, le_last_used = tick c3\<rparr>)"
      let ?kept = "fit entry_len (unat (max_bytes c) - length bs) ?others"
      assume ev: "evict ?c1 (len_of bs) = Some c3" and "tick c3 = tick c + 1"
        and sub: "set (lru_map c3) \<subseteq> set (hm_remove key (lru_map c))"
        and c2: "c2 = c3\<lparr>cur_bytes := cur_bytes c3 + len_of bs, lru_map := ?x # lru_map c3\<rparr>"
      have s1: "lru_sized ?c1" using sized by (simp add: reclaim_sized)
      have "unat (len_of bs) \<le> unat (max_bytes ?c1)" using False unat_len_of [OF assms(3)] by simp
      from evict_keeps_recent [OF s1 this ev, of ?others] others
      have "recency (lru_map c3) ?kept" using unat_len_of [OF assms(3)] by simp
      moreover have "\<forall>e\<in>set (lru_map c3). le_last_used (snd e) < tick c + 1"
        using sub fresh_front [OF fresh assms(2), of _ key] by blast
      ultimately have r: "recency (lru_map c2) (?x # ?kept)"
        using c2 \<open>tick c3 = _\<close> by (simp add: recency_front)
      have "\<forall>e\<in>set (?x # ?kept). le_last_used (snd e) \<le> tick c2"
        using mset_eq_setD [of "?x # ?kept" "lru_map c2"] r c2 \<open>tick c3 = _\<close>
          \<open>\<forall>e\<in>set (lru_map c3). _ e\<close> by (auto simp: recency_def intro: less_imp_le)
      from lru_okI [OF s2 r this] have "lru_ok c2" .
      moreover have "(\<lambda>(_, b). length b) \<circ> map_prod id le_bytes = (entry_len :: 'a \<times> lru_entry \<Rightarrow> nat)"
        by (auto simp: entry_len_def fun_eq_iff)
      ultimately show ?thesis
        using False recency_unique [OF r] by (simp add: spec_insert_def abs filter_recency fit_map)
    qed
  qed
qed

section \<open>Properties\<close>

text \<open>C28: the memory of a session stays within its budget.  In every state its caches can reach by
  lookups, insertions and trims, from the ones built for a budget, both caches hold at most their
  share, their byte counters are the sums of the sizes of their entries, and \<open>total_bytes\<close>
  is at most the whole budget.\<close>

theorem caches_stay_within_budget:
  assumes "caches_run budget c"
    and "unat (render_cache_bytes budget) < 2 ^ 63" and "unat (cover_cache_bytes budget) < 2 ^ 63"
  shows "unat (cur_bytes (render_cache c)) \<le> unat (render_cache_bytes budget) \<and>
    unat (cur_bytes (cover_cache c)) \<le> unat (cover_cache_bytes budget) \<and>
    unat (cur_bytes (render_cache c)) = held (lru_map (render_cache c)) \<and>
    unat (cur_bytes (cover_cache c)) = held (lru_map (cover_cache c)) \<and>
    unat (total_bytes c) \<le> unat (render_cache_bytes budget) + unat (cover_cache_bytes budget)"
proof -
  have "lru_sized (render_cache c) \<and> max_bytes (render_cache c) = render_cache_bytes budget \<and>
      lru_sized (cover_cache c) \<and> max_bytes (cover_cache c) = cover_cache_bytes budget"
    using assms(1)
  proof induction
    case fresh
    then show ?case using assms(2,3)
      by (simp add: caches_new_def with_capacity_bytes_def lru_sized_def)
  next
    case (step c c')
    from step.hyps(2) step.IH show ?case
    proof cases
      case (render_get k r found)
      then show ?thesis using get_sized [of "render_cache c"] step.IH by auto
    next
      case (render_insert bs k r)
      then show ?thesis using insert_sized [of "render_cache c"] step.IH by (auto simp: vec_sized_def)
    next
      case (cover_get b r found)
      then show ?thesis using get_sized [of "cover_cache c"] step.IH by auto
    next
      case (cover_insert bs b r)
      then show ?thesis using insert_sized [of "cover_cache c"] step.IH by (auto simp: vec_sized_def)
    next
      case render_cleared
      then show ?thesis using clear_sized [of "render_cache c"] step.IH by simp
    next
      case (trimmed level)
      then show ?thesis using clear_sized [of "cover_cache c"] clear_sized [of "render_cache c"] step.IH
        by (cases level) (auto simp: caches_trim_def)
    qed
  qed
  then show ?thesis
    using assms(2,3) by (auto simp: lru_sized_def total_bytes_def unat_word_ariths)
qed

theorem caches_stay_within_budget_witness:
  "\<exists>r. lru_insert (render_cache (caches_new default_supernote :: (nat, string) caches)) 0 ''page'' = Some r \<and>
     unat (total_bytes ((caches_new default_supernote :: (nat, string) caches)\<lparr>render_cache := r\<rparr>)) \<le> 75497472"
proof -
  let ?c = "caches_new default_supernote :: (nat, string) caches"
  obtain r where r: "lru_insert (render_cache ?c) 0 ''page'' = Some r"
    using lru_insert_defined [of "render_cache ?c" 0 "''page''"] by blast
  have "vec_sized ''page''" by (simp add: vec_sized_def)
  then have "caches_run default_supernote (?c\<lparr>render_cache := r\<rparr>)"
    using r by (intro caches_run.step [OF caches_run.fresh] cache_step.render_insert)
  moreover have "unat (render_cache_bytes default_supernote) = 67108864"
    "unat (cover_cache_bytes default_supernote) = 8388608"
    by (simp_all add: default_supernote_def)
  ultimately show ?thesis
    using caches_stay_within_budget [of default_supernote "?c\<lparr>render_cache := r\<rparr>"] r by auto
qed

text \<open>C26: the cache is the recency list.  While the tick does not wrap, a lookup and an insertion do
  to the entries, ordered by their last use, exactly what the specification does to its list: a
  hit moves to the front, a new entry goes in front of the longest prefix of the others that fits
  beside it, and an entry larger than the budget only removes its predecessor.  The iteration
  order of the hash map has no influence.\<close>

theorem lru_refines_recency_list:
  assumes "lru_ok c" and "unat (tick c) + 1 < 2 ^ 64" and "length bs < 2 ^ 63"
  shows "(\<exists>c1 found. lru_get c key = (c1, found) \<and> lru_ok c1 \<and>
            (recency_of c1, found) = spec_get key (recency_of c)) \<and>
    (\<exists>c2. lru_insert c key bs = Some c2 \<and> lru_ok c2 \<and>
       recency_of c2 = spec_insert (unat (max_bytes c)) key bs (recency_of c))"
proof -
  obtain c2 where c2: "lru_insert c key bs = Some c2" using lru_insert_defined [of c key bs] by blast
  show ?thesis
    using get_refines [OF assms(1,2), of key] insert_refines [OF assms c2] c2 by blast
qed

definition two_pages :: "nat byte_lru" where
  "two_pages = \<lparr>lru_map = [(0, \<lparr>le_bytes = ''aaaa'', le_last_used = 3\<rparr>),
                        (1, \<lparr>le_bytes = ''bbbb'', le_last_used = 2\<rparr>)],
     max_bytes = 8, cur_bytes = 8, tick = 3, evicted = 0\<rparr>"

theorem lru_refines_recency_list_witness:
  "\<exists>c2. lru_insert two_pages 2 ''cccc'' = Some c2 \<and> recency_of c2 = [(2, ''cccc''), (0, ''aaaa'')]"
proof -
  have "lru_ok two_pages"
    by (simp add: lru_ok_def lru_sized_def fresh_ticks_def two_pages_def held_def entry_len_def)
  moreover have "unat (tick two_pages) + 1 < 2 ^ 64" "length ''cccc'' < 2 ^ 63"
    by (simp_all add: two_pages_def)
  moreover have "spec_insert (unat (max_bytes two_pages)) 2 ''cccc'' (recency_of two_pages) =
      [(2, ''cccc''), (0, ''aaaa'')]"
    by code_simp
  ultimately show ?thesis
    using lru_refines_recency_list [of two_pages "''cccc''" 2] by auto
qed

end
