(* ===== verification/Eink.thy ===== *)
theory Eink
  imports Rust_Bytes
begin

text \<open>
  \<open>device-eink\<close>: the vocabulary between the reader and the panel (geometry, commands,
  capabilities) and the byte codecs that carry it over the JNI boundary.
\<close>

section \<open>Geometry\<close>


record rect =
  rect_x :: i32
  rect_y :: i32
  rect_w :: u32
  rect_h :: u32

definition rect_full :: "u32 \<Rightarrow> u32 \<Rightarrow> rect" where
  "rect_full width height = \<lparr>rect_x = 0, rect_y = 0, rect_w = width, rect_h = height\<rparr>"

definition rect_is_empty :: "rect \<Rightarrow> bool" where
  "rect_is_empty r \<longleftrightarrow> rect_w r = 0 \<or> rect_h r = 0"

definition i32_min :: "i32 \<Rightarrow> i32 \<Rightarrow> i32" where
  "i32_min a b = (if sint b < sint a then b else a)"

definition right_edge :: "rect \<Rightarrow> int" where
  "right_edge r = sint (rect_x r) + uint (rect_w r)"

definition bottom_edge :: "rect \<Rightarrow> int" where
  "bottom_edge r = sint (rect_y r) + uint (rect_h r)"

text \<open>The edges are computed in \<open>i64\<close>, where they cannot overflow; \<open>as u32\<close> keeps the low 32 bits.\<close>

definition rect_union :: "rect \<Rightarrow> rect \<Rightarrow> rect" where
  "rect_union a b =
     (if rect_is_empty a then b
      else if rect_is_empty b then a
      else
        let left = i32_min (rect_x a) (rect_x b);
            top = i32_min (rect_y a) (rect_y b);
            right = max (right_edge a) (right_edge b);
            bottom = max (bottom_edge a) (bottom_edge b)
        in \<lparr>rect_x = left, rect_y = top,
            rect_w = word_of_int (max (right - sint left) 0),
            rect_h = word_of_int (max (bottom - sint top) 0)\<rparr>)"

section \<open>Commands and capabilities\<close>

datatype refresh_intent = Full | Partial | Ui | Fast | FlashUi | FlashPartial

datatype refresh_command =
    Update (update_rect: rect) (update_intent: refresh_intent) (update_dither: bool)
  | WaitForLast
  | EnterFastMode
  | LeaveFastMode

record device_capabilities =
  eink :: bool
  eink_full :: bool
  regal :: bool
  fast_mode :: bool
  regional_update :: bool
  hw_invert :: bool
  hw_dither :: bool
  kaleido_wfm :: bool
  color_screen :: bool
  swipe_animation :: bool
  pen_low_latency :: bool
  needs_refresh_after_resume :: bool

definition cap_flags :: "device_capabilities \<Rightarrow> bool list" where
  "cap_flags c =
     [eink c, eink_full c, regal c, fast_mode c, regional_update c, hw_invert c, hw_dither c,
      kaleido_wfm c, color_screen c, swipe_animation c, pen_low_latency c, needs_refresh_after_resume c]"

definition cap_from_flags :: "bool list \<Rightarrow> device_capabilities" where
  "cap_from_flags flags =
     (let g = (\<lambda>i. i < length flags \<and> flags ! i)
      in \<lparr>eink = g 0, eink_full = g 1, regal = g 2, fast_mode = g 3, regional_update = g 4,
          hw_invert = g 5, hw_dither = g 6, kaleido_wfm = g 7, color_screen = g 8,
          swipe_animation = g 9, pen_low_latency = g 10, needs_refresh_after_resume = g 11\<rparr>)"

definition supernote_baseline :: device_capabilities where
  "supernote_baseline =
     \<lparr>eink = True, eink_full = False, regal = False, fast_mode = False, regional_update = False,
      hw_invert = False, hw_dither = False, kaleido_wfm = False, color_screen = False,
      swipe_animation = False, pen_low_latency = False, needs_refresh_after_resume = True\<rparr>"

definition supernote_full :: device_capabilities where
  "supernote_full =
     \<lparr>eink = True, eink_full = True, regal = False, fast_mode = True, regional_update = True,
      hw_invert = False, hw_dither = False, kaleido_wfm = False, color_screen = False,
      swipe_animation = False, pen_low_latency = True, needs_refresh_after_resume = True\<rparr>"

definition desktop_mock :: device_capabilities where
  "desktop_mock =
     \<lparr>eink = False, eink_full = True, regal = False, fast_mode = True, regional_update = True,
      hw_invert = False, hw_dither = False, kaleido_wfm = False, color_screen = True,
      swipe_animation = False, pen_low_latency = False, needs_refresh_after_resume = False\<rparr>"

section \<open>The wire\<close>

datatype wire_error = Truncated | BadVersion u8 | BadDiscriminant u8

definition wire_version :: u8 where "wire_version = 1"
definition command_record_len :: nat where "command_record_len = 20"
definition command_header_len :: nat where "command_header_len = 4"

fun intent_code :: "refresh_intent \<Rightarrow> u8" where
  "intent_code Full = 0"
| "intent_code Partial = 1"
| "intent_code Ui = 2"
| "intent_code Fast = 3"
| "intent_code FlashUi = 4"
| "intent_code FlashPartial = 5"

definition intent_from_code :: "u8 \<Rightarrow> refresh_intent option" where
  "intent_from_code code =
     (if code = 0 then Some Full
      else if code = 1 then Some Partial
      else if code = 2 then Some Ui
      else if code = 3 then Some Fast
      else if code = 4 then Some FlashUi
      else if code = 5 then Some FlashPartial
      else None)"

definition encode_capabilities :: "device_capabilities \<Rightarrow> u8 list" where
  "encode_capabilities caps =
     [wire_version, of_nat (length (cap_flags caps))] @ map u8_of_bool (cap_flags caps)"

definition decode_capabilities :: "u8 list \<Rightarrow> wire_error + device_capabilities" where
  "decode_capabilities bs =
     (if length bs < 2 then Inl Truncated
      else if bs ! 0 \<noteq> wire_version then Inl (BadVersion (bs ! 0))
      else let nflags = unat (bs ! 1)
           in if length bs < 2 + nflags then Inl Truncated
              else Inr (cap_from_flags (map (\<lambda>b. b \<noteq> 0) (take nflags (drop 2 bs)))))"

fun encode_record :: "refresh_command \<Rightarrow> u8 list" where
  "encode_record (Update r intent dither) =
     [0, intent_code intent, u8_of_bool dither, 0] @ le_bytes 4 (rect_x r) @ le_bytes 4 (rect_y r) @
     le_bytes 4 (rect_w r) @ le_bytes 4 (rect_h r)"
| "encode_record WaitForLast = 1 # replicate 19 0"
| "encode_record EnterFastMode = 2 # replicate 19 0"
| "encode_record LeaveFastMode = 3 # replicate 19 0"

definition encode_commands :: "refresh_command list \<Rightarrow> u8 list" where
  "encode_commands commands =
     (let n = min (length commands) 255
      in [wire_version, of_nat n] @ le_bytes 2 (0 :: u16) @ concat (map encode_record (take n commands)))"

definition sub_slice :: "u8 list \<Rightarrow> nat \<Rightarrow> nat \<Rightarrow> u8 list" where
  "sub_slice bs a b = take (b - a) (drop a bs)"

definition decode_record :: "u8 list \<Rightarrow> wire_error + refresh_command" where
  "decode_record r =
     (if r ! 0 = 0 then
        rbind (ok_or (BadDiscriminant (r ! 1)) (intent_from_code (r ! 1))) (\<lambda>intent.
          Inr (Update \<lparr>rect_x = from_le (sub_slice r 4 8), rect_y = from_le (sub_slice r 8 12),
                       rect_w = from_le (sub_slice r 12 16), rect_h = from_le (sub_slice r 16 20)\<rparr>
                 intent (r ! 2 \<noteq> 0)))
      else if r ! 0 = 1 then Inr WaitForLast
      else if r ! 0 = 2 then Inr EnterFastMode
      else if r ! 0 = 3 then Inr LeaveFastMode
      else Inl (BadDiscriminant (r ! 0)))"

definition decode_commands :: "u8 list \<Rightarrow> wire_error + refresh_command list" where
  "decode_commands bs =
     (if length bs < command_header_len then Inl Truncated
      else if bs ! 0 \<noteq> wire_version then Inl (BadVersion (bs ! 0))
      else let n = unat (bs ! 1)
           in if length bs < command_header_len + n * command_record_len then Inl Truncated
              else try_map (\<lambda>i.
                     let off = command_header_len + i * command_record_len
                     in decode_record (sub_slice bs off (off + command_record_len))) [0..<n])"

section \<open>Facts on the wire\<close>

lemma length_encode_record [simp]: "length (encode_record c) = 20"
  by (cases c) simp_all

lemma intent_from_to [simp]: "intent_from_code (intent_code i) = Some i"
  by (cases i) (simp_all add: intent_from_code_def)

lemma u8_of_bool_nonzero [simp]: "u8_of_bool b \<noteq> 0 \<longleftrightarrow> b"
  by (simp add: u8_of_bool_def)

lemma decode_encode_record [simp]: "decode_record (encode_record c) = Inr c"
proof (cases c)
  case (Update r intent dither)
  have "sub_slice (encode_record c) 4 8 = le_bytes 4 (rect_x r)"
    "sub_slice (encode_record c) 8 12 = le_bytes 4 (rect_y r)"
    "sub_slice (encode_record c) 12 16 = le_bytes 4 (rect_w r)"
    "sub_slice (encode_record c) 16 20 = le_bytes 4 (rect_h r)"
    by (simp_all add: Update sub_slice_def)
  then show ?thesis by (simp add: decode_record_def Update del: le_bytes.simps)
qed (simp_all add: decode_record_def)

lemma length_encode_records: "length (concat (map encode_record cs)) = 20 * length cs"
  by (induction cs) simp_all

lemma encode_commands_short:
  "length cs \<le> 255 \<Longrightarrow> encode_commands cs = [1, of_nat (length cs), 0, 0] @ concat (map encode_record cs)"
  by (simp add: encode_commands_def wire_version_def numeral_2_eq_2)

lemma record_at:
  "i < length cs \<Longrightarrow>
     take 20 (drop (20 * i) (concat (map encode_record cs) @ rest)) = encode_record (cs ! i)"
proof (induction cs arbitrary: i)
  case (Cons c cs)
  then show ?case by (cases i) simp_all
qed simp

lemma try_map_all: "(\<And>x. x \<in> set xs \<Longrightarrow> f x = Inr (g x)) \<Longrightarrow> try_map f xs = Inr (map g xs)"
  by (induction xs) simp_all

lemma decode_encode_commands:
  assumes "length cs \<le> 255"
  shows "decode_commands (encode_commands cs @ rest) = Inr cs"
proof -
  let ?bs = "encode_commands cs @ rest"
  have n: "unat (of_nat (length cs) :: u8) = length cs"
    using assms by (simp add: unsigned_of_nat take_bit_nat_eq_self)
  have "sub_slice ?bs (4 + i * 20) (4 + i * 20 + 20) = encode_record (cs ! i)" if "i < length cs" for i
  proof -
    have "drop (4 + i * 20) ?bs = drop (20 * i) (drop 4 ?bs)"
      by (simp only: drop_drop add.commute mult.commute)
    also have "drop 4 ?bs = concat (map encode_record cs) @ rest"
      by (simp add: encode_commands_short [OF assms])
    finally show ?thesis using record_at [OF that, of rest] by (simp add: sub_slice_def)
  qed
  then have "try_map (\<lambda>i. decode_record (sub_slice ?bs (4 + i * 20) (4 + i * 20 + 20))) [0..<length cs] =
      Inr (map ((!) cs) [0..<length cs])"
    by (intro try_map_all) simp
  then show ?thesis
    by (simp add: decode_commands_def encode_commands_short [OF assms] command_header_len_def
        command_record_len_def wire_version_def n length_encode_records map_nth Let_def)
qed

lemma decode_truncated:
  assumes "length cs \<le> 255" and "n < length (encode_commands cs)"
  shows "decode_commands (take n (encode_commands cs)) = Inl Truncated"
proof -
  have m: "unat (of_nat (length cs) :: u8) = length cs"
    using assms by (simp add: unsigned_of_nat take_bit_nat_eq_self)
  have len: "length (encode_commands cs) = 4 + 20 * length cs"
    by (simp add: encode_commands_short [OF assms(1)] length_encode_records)
  show ?thesis
  proof (cases "n < 4")
    case True
    then have "length (take n (encode_commands cs)) < 4" by simp
    then show ?thesis by (simp only: decode_commands_def command_header_len_def if_True)
  next
    case False
    then obtain k where "n = Suc (Suc (Suc (Suc k)))" by (metis add_Suc le_Suc_ex not_less numeral_eq_Suc pred_numeral_simps BitM.simps plus_nat.add_0 One_nat_def)
    with assms(2) len show ?thesis
      by (simp add: decode_commands_def encode_commands_short [OF assms(1)] command_header_len_def
        command_record_len_def wire_version_def m length_encode_records Let_def)
  qed
qed

lemma cap_from_to [simp]: "cap_from_flags (cap_flags c) = c"
  by (simp add: cap_from_flags_def cap_flags_def Let_def)

lemma decode_encode_capabilities: "decode_capabilities (encode_capabilities c @ rest) = Inr c"
proof -
  have "length (cap_flags c) = 12" by (simp add: cap_flags_def)
  then show ?thesis
    by (simp add: decode_capabilities_def encode_capabilities_def wire_version_def Let_def comp_def)
qed

text \<open>The union covers both rectangles while its extent fits 32 bits.\<close>

definition rect_covers :: "rect \<Rightarrow> rect \<Rightarrow> bool" where
  "rect_covers u r \<longleftrightarrow>
     sint (rect_x u) \<le> sint (rect_x r) \<and> sint (rect_y u) \<le> sint (rect_y r) \<and>
     right_edge r \<le> right_edge u \<and> bottom_edge r \<le> bottom_edge u"

end
