(* ===== verification/Eink_Policy.thy ===== *)
theory Eink_Policy
  imports Eink
begin

text \<open>
  \<open>reader-core/src/policy/eink_policy.rs\<close>: the refresh state machine.  Every handler returns the
  new policy and the commands for the panel.
\<close>

section \<open>The policy\<close>

record eink_policy =
  ep_caps :: device_capabilities
  ep_screen :: rect
  partial_count :: u32
  ghost_clear_interval :: u32
  ep_dither :: bool
  currently_scrolling :: bool
  night_mode :: bool
  night_partial_count :: u32
  night_ghost_clear_interval :: u32
  avoid_flashing :: bool

definition default_ghost_clear_interval :: u32 where "default_ghost_clear_interval = 6"

definition with_interval :: "device_capabilities \<Rightarrow> rect \<Rightarrow> u32 \<Rightarrow> eink_policy" where
  "with_interval caps screen interval =
     \<lparr>ep_caps = caps, ep_screen = screen, partial_count = 0, ghost_clear_interval = max interval 1,
      ep_dither = False, currently_scrolling = False, night_mode = False, night_partial_count = 0,
      night_ghost_clear_interval = max interval 1, avoid_flashing = False\<rparr>"

definition policy_new :: "device_capabilities \<Rightarrow> rect \<Rightarrow> eink_policy" where
  "policy_new caps screen = with_interval caps screen default_ghost_clear_interval"

definition with_dither :: "bool \<Rightarrow> eink_policy \<Rightarrow> eink_policy" where
  "with_dither dither p = p\<lparr>ep_dither := dither\<rparr>"

definition with_night_interval :: "u32 \<Rightarrow> eink_policy \<Rightarrow> eink_policy" where
  "with_night_interval interval p = p\<lparr>night_ghost_clear_interval := max interval 1\<rparr>"

definition with_avoid_flashing :: "bool \<Rightarrow> eink_policy \<Rightarrow> eink_policy" where
  "with_avoid_flashing avoid p = p\<lparr>avoid_flashing := avoid\<rparr>"

section \<open>Handlers\<close>

definition active_interval :: "eink_policy \<Rightarrow> u32" where
  "active_interval p = (if night_mode p then night_ghost_clear_interval p else ghost_clear_interval p)"

definition active_count :: "eink_policy \<Rightarrow> u32" where
  "active_count p = (if night_mode p then night_partial_count p else partial_count p)"

definition set_active_count :: "u32 \<Rightarrow> eink_policy \<Rightarrow> eink_policy" where
  "set_active_count n p =
     (if night_mode p then p\<lparr>night_partial_count := n\<rparr> else p\<lparr>partial_count := n\<rparr>)"

definition on_page_turn :: "eink_policy \<Rightarrow> rect \<Rightarrow> eink_policy \<times> refresh_command list" where
  "on_page_turn p page_rect =
     (if \<not> eink_full (ep_caps p) then (p, [Update (ep_screen p) Full (ep_dither p)])
      else
        let p1 = p\<lparr>currently_scrolling := False\<rparr>;
            count = active_count p1 + 1;
            promote = (active_interval p1 \<le> count);
            p2 = set_active_count (if promote then 0 else count) p1
        in if promote \<and> \<not> avoid_flashing p2 then
             (p2, [WaitForLast, Update page_rect Full (ep_dither p2)])
           else (p2, [Update page_rect Partial (ep_dither p2)]))"

definition on_scroll_start :: "eink_policy \<Rightarrow> eink_policy \<times> refresh_command list" where
  "on_scroll_start p =
     (p\<lparr>currently_scrolling := True, partial_count := 0\<rparr>,
      if fast_mode (ep_caps p) then [EnterFastMode] else [])"

definition on_scroll_update :: "eink_policy \<Rightarrow> rect \<Rightarrow> eink_policy \<times> refresh_command list" where
  "on_scroll_update p dirty =
     (if \<not> eink_full (ep_caps p) then (p, [])
      else
        let intent = (if fast_mode (ep_caps p) then Fast else Partial);
            r = (if regional_update (ep_caps p) then dirty else ep_screen p)
        in (p, [Update r intent (intent = Partial \<and> ep_dither p)]))"

definition on_scroll_end :: "eink_policy \<Rightarrow> rect \<Rightarrow> eink_policy \<times> refresh_command list" where
  "on_scroll_end p settle_rect =
     (let p1 = p\<lparr>currently_scrolling := False\<rparr>
      in if \<not> eink_full (ep_caps p1) then (p1, [Update (ep_screen p1) Full (ep_dither p1)])
         else (p1, (if fast_mode (ep_caps p1) then [LeaveFastMode] else []) @
                   [Update settle_rect Partial (ep_dither p1)]))"

definition on_menu :: "eink_policy \<Rightarrow> bool \<Rightarrow> rect \<Rightarrow> eink_policy \<times> refresh_command list" where
  "on_menu p is_open region =
     (let close_intent = (if avoid_flashing p then Ui else FlashUi);
          (intent, r) =
            (if eink_full (ep_caps p) then (if is_open then Ui else close_intent, region)
             else (Full, ep_screen p))
      in (p, [Update r intent (ep_dither p)]))"

definition on_night_mode :: "eink_policy \<Rightarrow> bool \<Rightarrow> eink_policy \<times> refresh_command list" where
  "on_night_mode p on =
     (let p1 = p\<lparr>night_mode := on\<rparr>;
          p2 = (if on then p1\<lparr>night_partial_count := 0\<rparr> else p1\<lparr>partial_count := 0\<rparr>);
          intent = (if avoid_flashing p2 \<and> eink_full (ep_caps p2) then Partial else Full)
      in (p2, [Update (ep_screen p2) intent (ep_dither p2)]))"

section \<open>Interactions\<close>

datatype interaction =
    PageTurn rect
  | ScrollStart
  | ScrollUpdate rect
  | ScrollEnd rect
  | Menu bool rect
  | NightMode bool

fun interact :: "eink_policy \<Rightarrow> interaction \<Rightarrow> eink_policy \<times> refresh_command list" where
  "interact p (PageTurn r) = on_page_turn p r"
| "interact p ScrollStart = on_scroll_start p"
| "interact p (ScrollUpdate r) = on_scroll_update p r"
| "interact p (ScrollEnd r) = on_scroll_end p r"
| "interact p (Menu is_open r) = on_menu p is_open r"
| "interact p (NightMode on) = on_night_mode p on"

fun interact_all :: "eink_policy \<Rightarrow> interaction list \<Rightarrow> eink_policy \<times> refresh_command list list" where
  "interact_all p [] = (p, [])"
| "interact_all p (e # es) =
     (let (p1, cmds) = interact p e; (p2, rest) = interact_all p1 es in (p2, cmds # rest))"

text \<open>What a panel with these capabilities can execute, and what the user asked for.  The reader names
  the area of a page turn, of a settled scroll and of a menu; the area of a scroll in progress is
  the policy's choice: the dirty rectangle on a panel that refreshes by region, else the screen.\<close>

fun named_area :: "interaction \<Rightarrow> rect option" where
  "named_area (PageTurn r) = Some r"
| "named_area (ScrollEnd r) = Some r"
| "named_area (Menu _ r) = Some r"
| "named_area _ = None"

definition area_allowed :: "eink_policy \<Rightarrow> interaction \<Rightarrow> rect \<Rightarrow> bool" where
  "area_allowed p e r \<longleftrightarrow>
     r = ep_screen p \<or>
     eink_full (ep_caps p) \<and>
       (named_area e = Some r \<or> regional_update (ep_caps p) \<and> e = ScrollUpdate r)"

definition executable_on :: "eink_policy \<Rightarrow> interaction \<Rightarrow> refresh_command \<Rightarrow> bool" where
  "executable_on p e c =
     (case c of
        Update r intent dither \<Rightarrow>
          area_allowed p e r \<and>
          (\<not> eink_full (ep_caps p) \<longrightarrow> intent = Full) \<and>
          (intent = Fast \<longrightarrow> fast_mode (ep_caps p) \<and> \<not> dither) \<and>
          (dither \<longrightarrow> ep_dither p) \<and>
          (avoid_flashing p \<and> eink_full (ep_caps p) \<longrightarrow> intent \<in> {Partial, Ui, Fast})
      | WaitForLast \<Rightarrow> eink_full (ep_caps p) \<and> \<not> avoid_flashing p
      | EnterFastMode \<Rightarrow> fast_mode (ep_caps p)
      | LeaveFastMode \<Rightarrow> fast_mode (ep_caps p) \<and> eink_full (ep_caps p))"

section \<open>Facts\<close>

definition same_settings :: "eink_policy \<Rightarrow> eink_policy \<Rightarrow> bool" where
  "same_settings p q \<longleftrightarrow>
     ep_caps q = ep_caps p \<and> ep_screen q = ep_screen p \<and> ep_dither q = ep_dither p \<and>
     avoid_flashing q = avoid_flashing p \<and> ghost_clear_interval q = ghost_clear_interval p \<and>
     night_ghost_clear_interval q = night_ghost_clear_interval p"

lemmas handler_defs = on_page_turn_def on_scroll_start_def on_scroll_update_def on_scroll_end_def
  on_menu_def on_night_mode_def set_active_count_def Let_def

lemma interact_settings: "interact p e = (q, cmds) \<Longrightarrow> same_settings p q"
  by (cases e) (auto simp: handler_defs same_settings_def split: if_splits)

lemma interact_executable: "interact p e = (q, cmds) \<Longrightarrow> list_all (executable_on p e) cmds"
  by (cases e) (auto simp: handler_defs executable_on_def area_allowed_def split: if_splits)

lemma interact_short: "interact p e = (q, cmds) \<Longrightarrow> length cmds \<le> 2"
  by (cases e) (auto simp: handler_defs split: if_splits)

definition counters_ok :: "eink_policy \<Rightarrow> bool" where
  "counters_ok p \<longleftrightarrow>
     partial_count p < ghost_clear_interval p \<and> night_partial_count p < night_ghost_clear_interval p"

lemma word_step: "a < b \<Longrightarrow> \<not> b \<le> a + 1 \<Longrightarrow> a + 1 < (b :: u32)"
  by simp

lemma interact_counters:
  assumes "counters_ok p" and "interact p e = (q, cmds)"
  shows "counters_ok q"
proof -
  have pos: "0 < ghost_clear_interval p" "0 < night_ghost_clear_interval p"
    using assms(1) by (auto simp: counters_ok_def intro: le_less_trans [rotated])
  show ?thesis
    using assms pos
    by (cases e) (auto simp: handler_defs counters_ok_def active_count_def active_interval_def not_le split: if_splits)
qed

end
