(* ===== verification/Eink_Properties.thy ===== *)
theory Eink_Properties
  imports Eink_Policy
begin

text \<open>
  Properties of the e-ink seam: the commands of the refresh policy suit the panel, the flash
  cadence, the wire codecs, the union of dirty rectangles.
\<close>

section \<open>The refresh policy\<close>

lemma interact_all_settings: "interact_all p es = (q, outs) \<Longrightarrow> same_settings p q"
proof (induction es arbitrary: p outs)
  case (Cons e es)
  then obtain p1 cmds rest where s: "interact p e = (p1, cmds)" "interact_all p1 es = (q, rest)"
    by (auto simp: Let_def split: prod.splits)
  from interact_settings [OF s(1)] Cons.IH [OF s(2)] show ?case by (simp add: same_settings_def)
qed (simp add: same_settings_def)

lemma executable_cong: "same_settings p q \<Longrightarrow> executable_on q = executable_on p"
  by (intro ext) (simp add: same_settings_def executable_on_def area_allowed_def split: refresh_command.split)

text \<open>C29: the policy only asks for what the panel can do.  Whatever the user does, in whatever order,
  each command returned suits the interaction it answers and the capabilities and settings the policy
  was built with: a basic panel gets only full refreshes of the whole screen; on any other, the area is
  the screen or the one the reader named for the page turn, the settled scroll or the menu, and during
  a scroll the dirty rectangle only where the panel refreshes by region; the fast waveform and the fast
  mode come only where they exist and never dithered, and no flash when flashing is to be avoided on a
  capable panel.  Each list of commands survives the trip over the JNI wire.\<close>

theorem refresh_stream_is_executable:
  assumes "interact_all p es = (q, outs)"
  shows "list_all2 (\<lambda>e cmds. list_all (executable_on p e) cmds \<and>
    decode_commands (encode_commands cmds) = Inr cmds) es outs"
  using assms
proof (induction es arbitrary: p outs)
  case (Cons e es)
  then obtain p1 out rest where s: "interact p e = (p1, out)" "interact_all p1 es = (q, rest)"
    "outs = out # rest"
    by (auto simp: Let_def split: prod.splits)
  have "length out \<le> 255" using interact_short [OF s(1)] by simp
  then show ?case
    using Cons.IH [OF s(2)] interact_executable [OF s(1)] decode_encode_commands [of out "[]"]
      executable_cong [OF interact_settings [OF s(1)]] s(3) by simp
qed simp

definition page0 :: rect where
  "page0 = rect_full 1404 1872"

definition dirty0 :: rect where
  "dirty0 = \<lparr>rect_x = 10, rect_y = 20, rect_w = 30, rect_h = 40\<rparr>"

definition whole_screen_panel :: device_capabilities where
  "whole_screen_panel = supernote_full\<lparr>regional_update := False\<rparr>"

theorem refresh_stream_is_executable_witness:
  "list_all2 (\<lambda>e cmds. list_all (executable_on (policy_new whole_screen_panel page0) e) cmds \<and>
      decode_commands (encode_commands cmds) = Inr cmds)
    [ScrollUpdate dirty0, ScrollEnd dirty0]
    [[Update page0 Fast False], [LeaveFastMode, Update dirty0 Partial False]]"
proof (rule refresh_stream_is_executable)
  show "interact_all (policy_new whole_screen_panel page0) [ScrollUpdate dirty0, ScrollEnd dirty0] =
      (policy_new whole_screen_panel page0,
       [[Update page0 Fast False], [LeaveFastMode, Update dirty0 Partial False]])"
    by (simp add: handler_defs policy_new_def with_interval_def whole_screen_panel_def supernote_full_def)
qed

text \<open>The area the reader names is passed on as it is, also to a panel that refreshes the whole screen
  only: the coalescing of \<open>on_scroll_update\<close> is missing in the other handlers.\<close>

lemma named_areas_are_not_coalesced:
  "eink_full (ep_caps p) \<Longrightarrow> \<not> regional_update (ep_caps p) \<Longrightarrow> r \<noteq> ep_screen p \<Longrightarrow>
     r \<in> update_rect ` set (snd (on_page_turn p r)) \<and> r \<in> update_rect ` set (snd (on_scroll_end p r)) \<and>
     r \<in> update_rect ` set (snd (on_menu p is_open r)) \<and>
     snd (on_scroll_update p r) \<noteq> [] \<and> r \<notin> update_rect ` set (snd (on_scroll_update p r))"
  by (auto simp: handler_defs image_iff)

definition configured ::
    "device_capabilities \<Rightarrow> rect \<Rightarrow> u32 \<Rightarrow> u32 \<Rightarrow> bool \<Rightarrow> bool \<Rightarrow> eink_policy" where
  "configured caps screen interval night_interval dither avoid =
     with_avoid_flashing avoid (with_night_interval night_interval
       (with_dither dither (with_interval caps screen interval)))"

lemma configured_counters: "counters_ok (configured caps screen i n d a)"
proof -
  have "(0 :: u32) < max x 1" for x by (simp add: less_max_iff_disj)
  then show ?thesis
    by (simp add: configured_def with_avoid_flashing_def with_night_interval_def with_dither_def
        with_interval_def counters_ok_def)
qed

lemma interact_all_counters: "counters_ok p \<Longrightarrow> interact_all p es = (q, outs) \<Longrightarrow> counters_ok q"
proof (induction es arbitrary: p outs)
  case (Cons e es)
  then obtain p1 cmds rest where s: "interact p e = (p1, cmds)" "interact_all p1 es = (q, rest)"
    by (auto simp: Let_def split: prod.splits)
  from Cons.IH [OF interact_counters [OF Cons.prems(1) s(1)] s(2)] show ?case .
qed simp

definition turn_commands :: "bool \<Rightarrow> bool \<Rightarrow> rect \<Rightarrow> refresh_command list" where
  "turn_commands flash dither r =
     (if flash then [WaitForLast, Update r Full dither] else [Update r Partial dither])"

lemma page_turn_step:
  assumes "counters_ok p" and "eink_full (ep_caps p)" and "\<not> avoid_flashing p"
  obtains q where
    "on_page_turn p r = (q, turn_commands (Suc (unat (active_count p)) mod unat (active_interval p) = 0) (ep_dither p) r)"
    and "counters_ok q" and "same_settings p q" and "active_interval q = active_interval p"
    and "unat (active_count q) = Suc (unat (active_count p)) mod unat (active_interval p)"
proof -
  let ?c = "active_count p" and ?n = "active_interval p"
  obtain q cmds where q: "interact p (PageTurn r) = (q, cmds)" by fastforce
  have lt: "?c < ?n" using assms(1) by (simp add: counters_ok_def active_count_def active_interval_def)
  then have c: "unat (?c + 1) = Suc (unat ?c)" "unat ?c < unat ?n"
    using unsigned_less [of ?n, where 'a = nat] by (simp_all add: word_less_nat_alt unat_word_ariths)
  then have promote: "?n \<le> ?c + 1 \<longleftrightarrow> Suc (unat ?c) mod unat ?n = 0"
    by (auto simp: word_le_nat_alt mod_eq_0_iff_dvd dvd_imp_le le_antisym Suc_leI)
      (metis Suc_leI le_antisym dvd_refl)
  have same: "same_settings p q" by (rule interact_settings [OF q])
  have "night_mode q = night_mode p" using q by (auto simp: handler_defs split: if_splits)
  then have n: "active_interval q = ?n" using same by (simp add: active_interval_def same_settings_def)
  have "active_count q = (if ?n \<le> ?c + 1 then 0 else ?c + 1)"
    using q assms(2) by (auto simp: handler_defs active_count_def active_interval_def split: if_splits)
  then have "unat (active_count q) = Suc (unat ?c) mod unat ?n"
    using promote c by (auto simp: word_le_nat_alt mod_less)
  moreover have "cmds = turn_commands (Suc (unat ?c) mod unat ?n = 0) (ep_dither p) r"
    using q assms(2,3) unfolding promote [symmetric]
    by (auto simp: handler_defs turn_commands_def active_count_def active_interval_def split: if_splits)
  ultimately show thesis
    using that [of q] q interact_counters [OF assms(1) q] same n by simp
qed

lemma page_turns:
  "counters_ok p \<Longrightarrow> eink_full (ep_caps p) \<Longrightarrow> \<not> avoid_flashing p \<Longrightarrow>
     snd (interact_all p (map PageTurn rs)) =
       map (\<lambda>(i, r). turn_commands ((unat (active_count p) + Suc i) mod unat (active_interval p) = 0)
                       (ep_dither p) r) (enumerate 0 rs)"
proof (induction rs arbitrary: p)
  case (Cons r rs)
  obtain q where q:
    "on_page_turn p r = (q, turn_commands (Suc (unat (active_count p)) mod unat (active_interval p) = 0) (ep_dither p) r)"
    "counters_ok q" "same_settings p q" "active_interval q = active_interval p"
    "unat (active_count q) = Suc (unat (active_count p)) mod unat (active_interval p)"
    using page_turn_step [OF Cons.prems] .
  let ?a = "unat (active_count p)" and ?n = "unat (active_interval p)"
  have m: "Suc (Suc ?a mod ?n + i) mod ?n = Suc (Suc (?a + i)) mod ?n" for i
    using mod_add_left_eq [of "Suc ?a" ?n "Suc i"] by simp
  have "snd (interact_all q (map PageTurn rs)) =
       map (\<lambda>(i, r). turn_commands ((?a + Suc (Suc i)) mod ?n = 0) (ep_dither p) r) (enumerate 0 rs)"
    using Cons.IH [OF q(2)] Cons.prems q(3-5) by (simp add: same_settings_def m)
  moreover have "snd (interact_all p (map PageTurn (r # rs))) =
      turn_commands (Suc ?a mod ?n = 0) (ep_dither p) r # snd (interact_all q (map PageTurn rs))"
    using q(1) by (simp add: Let_def case_prod_beta)
  ultimately show ?case
    by (simp add: enumerate_Suc_eq case_prod_beta)
qed simp

text \<open>C30: the flash cadence.  On a panel with full control, with flashing allowed, a run of page
  turns flashes exactly at every turn whose number, counted from the last reset of the counter of
  the active mode, is a multiple of the interval of the mode; all others are partial refreshes.
  This holds in every state the policy can reach, where the counters stay below their intervals.\<close>

theorem flash_cadence:
  assumes "interact_all (configured caps screen interval night_interval dither False) es = (p, outs)"
    and "eink_full caps"
  shows "active_count p < active_interval p \<and>
    snd (interact_all p (map PageTurn rs)) =
      map (\<lambda>(i, r). turn_commands ((unat (active_count p) + Suc i) mod unat (active_interval p) = 0) dither r)
        (enumerate 0 rs)"
proof -
  note ok = interact_all_counters [OF configured_counters assms(1)]
    and same = interact_all_settings [OF assms(1)]
  have set: "ep_caps p = caps" "\<not> avoid_flashing p" "ep_dither p = dither"
    using same by (simp_all add: same_settings_def configured_def with_avoid_flashing_def
        with_night_interval_def with_dither_def with_interval_def)
  have "active_count p < active_interval p"
    using ok by (simp add: counters_ok_def active_count_def active_interval_def)
  then show ?thesis using page_turns [OF ok] set assms(2) by simp
qed

theorem flash_cadence_witness:
  "snd (interact_all (configured supernote_full page0 3 6 True False) (map PageTurn [page0, page0, page0])) =
     [[Update page0 Partial True], [Update page0 Partial True], [WaitForLast, Update page0 Full True]]"
proof -
  let ?p = "configured supernote_full page0 3 6 True False"
  have "active_count ?p = 0" "active_interval ?p = 3"
    by (simp_all add: configured_def with_avoid_flashing_def with_night_interval_def with_dither_def
        with_interval_def active_count_def active_interval_def)
  then show ?thesis
    using flash_cadence [of supernote_full page0 3 6 True "[]" ?p "[]" "[page0, page0, page0]"]
    by (simp add: supernote_full_def turn_commands_def)
qed

text \<open>Two places where the policy leaves its own rules: a panel that has the fast mode but no full
  control enters the mode on a scroll and never leaves it, and in night mode the start of a scroll
  resets the counter of the day, not the active one.\<close>

lemma fast_mode_is_not_left:
  "\<not> eink_full (ep_caps p) \<Longrightarrow> fast_mode (ep_caps p) \<Longrightarrow> on_scroll_start p = (q, cmds) \<Longrightarrow>
     cmds = [EnterFastMode] \<and> snd (on_scroll_end q r) = [Update (ep_screen p) Full (ep_dither p)]"
  by (auto simp: handler_defs)

lemma night_scroll_keeps_night_counter:
  "night_mode p \<Longrightarrow> active_count (fst (on_scroll_start p)) = active_count p"
  by (simp add: handler_defs active_count_def)

section \<open>The wire\<close>

text \<open>C31: the wire is faithful in both directions.  A command list comes back from its bytes, up to
  its first 255 commands, with any bytes after them ignored; cut anywhere, the bytes are refused as
  truncated; capabilities come back too, and from a shell that knows only the first flags the
  others are read as absent.\<close>

theorem wire_round_trip:
  assumes "n < length (encode_commands cmds)" and "k \<le> 12"
  shows "decode_commands (encode_commands cmds @ rest) = Inr (take 255 cmds) \<and>
    decode_commands (take n (encode_commands cmds)) = Inl Truncated \<and>
    decode_capabilities (encode_capabilities caps @ rest) = Inr caps \<and>
    decode_capabilities ([wire_version, of_nat k] @ map u8_of_bool (take k (cap_flags caps)) @ rest) =
      Inr (cap_from_flags (take k (cap_flags caps)))"
proof -
  have e: "encode_commands cmds = encode_commands (take 255 cmds)"
    by (simp add: encode_commands_def min_def Let_def)
  have k: "decode_capabilities ([wire_version, of_nat k] @ map u8_of_bool (take k (cap_flags caps)) @ rest) =
      Inr (cap_from_flags (take k (cap_flags caps)))"
  proof -
    note k = assms(2)
    have "unat (of_nat k :: u8) = k" using k by (simp add: unsigned_of_nat take_bit_nat_eq_self)
    moreover have "length (take k (cap_flags caps)) = k" using k by (simp add: cap_flags_def)
    ultimately show ?thesis
      by (simp add: decode_capabilities_def wire_version_def Let_def comp_def)
  qed
  show ?thesis
    using decode_encode_commands [of "take 255 cmds" rest] decode_truncated [of "take 255 cmds" n]
      decode_encode_capabilities k assms(1) unfolding e [symmetric] by simp
qed

theorem wire_round_trip_witness:
  "decode_commands (encode_commands [EnterFastMode, Update page0 Fast False] @ [7]) =
     Inr [EnterFastMode, Update page0 Fast False] \<and>
   decode_capabilities ([wire_version, of_nat 3] @ map u8_of_bool (take 3 (cap_flags supernote_full)) @ [7]) =
     Inr (cap_from_flags [True, True, False])"
proof -
  have "5 < length (encode_commands [EnterFastMode, Update page0 Fast False])" by code_simp
  from wire_round_trip [OF this, of 3 "[7]" supernote_full] show ?thesis
    by (simp add: cap_flags_def supernote_full_def)
qed

section \<open>Geometry\<close>

text \<open>The union of two dirty rectangles covers both, as long as its extent fits 32 bits, and it is the
  smallest one.\<close>

lemma union_covers:
  assumes "u = rect_union a b" and "\<not> rect_is_empty a" and "\<not> rect_is_empty b"
    and "max (right_edge a) (right_edge b) - min (sint (rect_x a)) (sint (rect_x b)) < 2 ^ 32"
    and "max (bottom_edge a) (bottom_edge b) - min (sint (rect_y a)) (sint (rect_y b)) < 2 ^ 32"
  shows "rect_covers u a \<and> rect_covers u b \<and>
    (\<forall>v. rect_covers v a \<longrightarrow> rect_covers v b \<longrightarrow> rect_covers v u)"
proof -
  have sel: "sint (rect_x u) = min (sint (rect_x a)) (sint (rect_x b))"
    "sint (rect_y u) = min (sint (rect_y a)) (sint (rect_y b))"
    using assms(1-3) by (auto simp: rect_union_def i32_min_def Let_def)
  let ?R = "max (right_edge a) (right_edge b)" and ?B = "max (bottom_edge a) (bottom_edge b)"
  have fields: "rect_w u = word_of_int (max (?R - sint (rect_x u)) 0)"
    "rect_h u = word_of_int (max (?B - sint (rect_y u)) 0)"
    using assms(1-3) by (simp_all only: rect_union_def Let_def if_False rect.simps)
  have pos: "0 \<le> ?R - sint (rect_x u)" "0 \<le> ?B - sint (rect_y u)"
    unfolding sel by (auto simp: right_edge_def bottom_edge_def le_max_iff_disj min_def)
  have word: "uint (word_of_int k :: u32) = k" if "0 \<le> k" "k < 2 ^ 32" for k
    using that by (simp add: uint_word_of_int)
  have "uint (rect_w u) = ?R - sint (rect_x u)" "uint (rect_h u) = ?B - sint (rect_y u)"
    unfolding fields using pos assms(4,5) unfolding sel max_absorb1 [OF pos(1)] max_absorb1 [OF pos(2)]
    by (simp_all only: max_absorb1 word)
  then have "right_edge u = ?R" "bottom_edge u = ?B"
    by (simp_all only: right_edge_def [of u] bottom_edge_def [of u])
  then show ?thesis by (auto simp: rect_covers_def sel)
qed

text \<open>Beyond it, \<open>as u32\<close> cuts the width: the union of two rectangles at the ends of the axis.\<close>

lemma union_can_wrap:
  "\<exists>a b. \<not> rect_is_empty a \<and> \<not> rect_is_empty b \<and> \<not> rect_covers (rect_union a b) b"
proof (intro exI conjI)
  let ?a = "\<lparr>rect_x = 0x80000000, rect_y = 0, rect_w = 1, rect_h = 1\<rparr>"
    and ?b = "\<lparr>rect_x = 0x7FFFFFFF, rect_y = 0, rect_w = 2, rect_h = 1\<rparr>"
  show "\<not> rect_is_empty ?a" "\<not> rect_is_empty ?b" by (simp_all add: rect_is_empty_def)
  show "\<not> rect_covers (rect_union ?a ?b) ?b" by code_simp
qed

end
