(* ===== verification/Float32.thy ===== *)
theory Float32
  imports Float64 Rust_Bytes
begin

text \<open>
  \<open>f32\<close> as its 32 bits (IEEE 754 binary32), in the manner of \<open>Float64\<close>: comparisons on the
  bits, arithmetic as the exact rational result rounded once, to nearest with ties to even.
\<close>

type_synonym f32 = "32 word"

section \<open>Fields and classification\<close>

definition f32_negative :: "f32 \<Rightarrow> bool" where
  "f32_negative x \<longleftrightarrow> 2 ^ 31 \<le> uint x"

definition f32_biased :: "f32 \<Rightarrow> int" where
  "f32_biased x = uint x div 2 ^ 23 mod 256"

definition f32_fraction :: "f32 \<Rightarrow> int" where
  "f32_fraction x = uint x mod 2 ^ 23"

definition f32_is_nan :: "f32 \<Rightarrow> bool" where
  "f32_is_nan x \<longleftrightarrow> f32_biased x = 255 \<and> f32_fraction x \<noteq> 0"

definition f32_is_infinite :: "f32 \<Rightarrow> bool" where
  "f32_is_infinite x \<longleftrightarrow> f32_biased x = 255 \<and> f32_fraction x = 0"

definition f32_is_finite :: "f32 \<Rightarrow> bool" where
  "f32_is_finite x \<longleftrightarrow> f32_biased x \<noteq> 255"

text \<open>A finite value is \<open>\<plusminus> f32_mantissa x * 2 ^ f32_exponent x\<close>.\<close>

definition f32_mantissa :: "f32 \<Rightarrow> int" where
  "f32_mantissa x = (if f32_biased x = 0 then f32_fraction x else 2 ^ 23 + f32_fraction x)"

definition f32_exponent :: "f32 \<Rightarrow> int" where
  "f32_exponent x = max 1 (f32_biased x) - 150"

section \<open>Comparison\<close>

definition f32_key :: "f32 \<Rightarrow> int" where
  "f32_key x = (if f32_negative x then 2 ^ 31 - uint x else uint x)"

definition f32_eq :: "f32 \<Rightarrow> f32 \<Rightarrow> bool" where
  "f32_eq x y \<longleftrightarrow> \<not> f32_is_nan x \<and> \<not> f32_is_nan y \<and> f32_key x = f32_key y"

definition f32_le :: "f32 \<Rightarrow> f32 \<Rightarrow> bool" where
  "f32_le x y \<longleftrightarrow> \<not> f32_is_nan x \<and> \<not> f32_is_nan y \<and> f32_key x \<le> f32_key y"

definition f32_lt :: "f32 \<Rightarrow> f32 \<Rightarrow> bool" where
  "f32_lt x y \<longleftrightarrow> \<not> f32_is_nan x \<and> \<not> f32_is_nan y \<and> f32_key x < f32_key y"

text \<open>\<open>f32::min\<close> and \<open>f32::max\<close> prefer a number to a NaN; \<open>f32::clamp\<close> keeps a NaN.\<close>

definition f32_min :: "f32 \<Rightarrow> f32 \<Rightarrow> f32" where
  "f32_min x y = (if f32_is_nan x then y else if f32_is_nan y then x else if f32_lt y x then y else x)"

definition f32_max :: "f32 \<Rightarrow> f32 \<Rightarrow> f32" where
  "f32_max x y = (if f32_is_nan x then y else if f32_is_nan y then x else if f32_lt x y then y else x)"

definition f32_clamp :: "f32 \<Rightarrow> f32 \<Rightarrow> f32 \<Rightarrow> f32" where
  "f32_clamp x lo hi =
     (let y = (if f32_lt x lo then lo else x) in if f32_lt hi y then hi else y)"

section \<open>Rounding\<close>

definition f32_zero :: "bool \<Rightarrow> f32" where
  "f32_zero neg = (if neg then 0x80000000 else 0)"

definition f32_infinity :: "bool \<Rightarrow> f32" where
  "f32_infinity neg = (if neg then 0xFF800000 else 0x7F800000)"

definition f32_nan :: f32 where
  "f32_nan = 0x7FC00000"

definition f32_round_fraction :: "bool \<Rightarrow> int \<Rightarrow> int \<Rightarrow> int \<Rightarrow> f32" where
  "f32_round_fraction neg n d k =
     (if n = 0 then f32_zero neg
      else let e0 = max (- 149) (k + bit_len n - bit_len d - 24);
               (p0, q0) = scaled_fraction n d k e0;
               e = (if 2 ^ 24 \<le> p0 div q0 then e0 + 1 else e0);
               (p, q) = scaled_fraction n d k e;
               bits = (e + 149) * 2 ^ 23 + round_half_even p q
           in if 255 * 2 ^ 23 \<le> bits then f32_infinity neg
              else word_of_int (bits + (if neg then 2 ^ 31 else 0)))"

text \<open>A decimal literal \<open>n / d\<close>.\<close>

definition f32_ratio :: "int \<Rightarrow> int \<Rightarrow> f32" where
  "f32_ratio n d = f32_round_fraction False n d 0"

section \<open>Arithmetic\<close>

definition f32_neg :: "f32 \<Rightarrow> f32" where
  "f32_neg x = x + 2 ^ 31"

definition f32_signed_units :: "f32 \<Rightarrow> int \<Rightarrow> int" where
  "f32_signed_units x e =
     (if f32_negative x then -1 else 1) * f32_mantissa x * 2 ^ nat (f32_exponent x - e)"

definition f32_add :: "f32 \<Rightarrow> f32 \<Rightarrow> f32" where
  "f32_add x y =
     (if f32_is_nan x \<or> f32_is_nan y then f32_nan
      else if f32_is_infinite x then
        (if f32_is_infinite y \<and> f32_negative x \<noteq> f32_negative y then f32_nan else x)
      else if f32_is_infinite y then y
      else let e = min (f32_exponent x) (f32_exponent y);
               s = f32_signed_units x e + f32_signed_units y e
           in if s = 0 then f32_zero (f32_negative x \<and> f32_negative y)
              else f32_round_fraction (s < 0) \<bar>s\<bar> 1 e)"

definition f32_sub :: "f32 \<Rightarrow> f32 \<Rightarrow> f32" where
  "f32_sub x y = f32_add x (f32_neg y)"

definition f32_mul :: "f32 \<Rightarrow> f32 \<Rightarrow> f32" where
  "f32_mul x y =
     (let neg = (f32_negative x \<noteq> f32_negative y)
      in if f32_is_nan x \<or> f32_is_nan y then f32_nan
         else if f32_is_infinite x \<or> f32_is_infinite y then
           (if f32_key x = 0 \<or> f32_key y = 0 then f32_nan else f32_infinity neg)
         else f32_round_fraction neg (f32_mantissa x * f32_mantissa y) 1
                (f32_exponent x + f32_exponent y))"

definition f32_div :: "f32 \<Rightarrow> f32 \<Rightarrow> f32" where
  "f32_div x y =
     (let neg = (f32_negative x \<noteq> f32_negative y)
      in if f32_is_nan x \<or> f32_is_nan y then f32_nan
         else if f32_is_infinite x then (if f32_is_infinite y then f32_nan else f32_infinity neg)
         else if f32_is_infinite y then f32_zero neg
         else if f32_key y = 0 then (if f32_key x = 0 then f32_nan else f32_infinity neg)
         else f32_round_fraction neg (f32_mantissa x) (f32_mantissa y)
                (f32_exponent x - f32_exponent y))"

section \<open>The constants of the code\<close>

definition f32_one :: f32 where "f32_one = 0x3F800000"
definition f32_half :: f32 where "f32_half = 0x3F000000"
definition f32_epsilon :: f32 where "f32_epsilon = 0x34000000"

lemma f32_constants:
  "f32_one = f32_ratio 1 1" "f32_half = f32_ratio 1 2" "f32_epsilon = f32_ratio 1 (2 ^ 23)"
  by code_simp+

section \<open>Facts\<close>

lemma f32_finite_not_nan: "f32_is_finite x \<Longrightarrow> \<not> f32_is_nan x"
  by (simp add: f32_is_finite_def f32_is_nan_def)

lemma f32_0_1 [simp]:
  "\<not> f32_is_nan 0" "\<not> f32_is_nan f32_one" "f32_is_finite 0" "f32_is_finite f32_one"
  "f32_key 0 = 0" "f32_key f32_one = 0x3F800000"
  by code_simp+

definition f32_within :: "f32 \<Rightarrow> f32 \<Rightarrow> f32 \<Rightarrow> bool" where
  "f32_within lo hi x \<longleftrightarrow> f32_le lo x \<and> f32_le x hi"

lemma f32_clamp_within:
  "f32_is_finite x \<Longrightarrow> f32_within 0 f32_one (f32_clamp x 0 f32_one)"
  by (auto simp: f32_clamp_def f32_within_def f32_le_def f32_lt_def Let_def f32_finite_not_nan)

lemma f32_clamp_id: "f32_within lo hi x \<Longrightarrow> f32_clamp x lo hi = x"
  by (auto simp: f32_clamp_def f32_within_def f32_le_def f32_lt_def Let_def)

lemma f32_within_finite: "f32_within 0 f32_one x \<Longrightarrow> f32_is_finite x"
proof -
  assume w: "f32_within 0 f32_one x"
  show "f32_is_finite x"
  proof (rule ccontr)
    assume "\<not> f32_is_finite x"
    then have b: "uint x div 2 ^ 23 mod 256 = 255" by (simp add: f32_is_finite_def f32_biased_def)
    have key: "0 \<le> f32_key x" "f32_key x \<le> 0x3F800000"
      using w by (simp_all add: f32_within_def f32_le_def)
    have "0 \<le> uint x" "uint x < 2 ^ 32" using uint_lt2p [of x] by simp_all
    moreover have "uint x \<le> 0x3F800000 \<or> uint x = 2 ^ 31"
      using key by (auto simp: f32_key_def f32_negative_def split: if_splits)
    ultimately have "uint x div 2 ^ 23 \<le> 127 \<or> uint x div 2 ^ 23 = 256" by auto
    moreover have "0 \<le> uint x div 2 ^ 23" using \<open>0 \<le> uint x\<close> by (intro pos_imp_zdiv_nonneg_iff [THEN iffD2]) simp_all
    ultimately show False using b by auto
  qed
qed

end
