(* ===== verification/Ink_Model.thy ===== *)
theory Ink_Model
  imports Float32 Rust_Collections
begin

text \<open>
  \<open>inkread-ink/src/model.rs\<close>: strokes, the layer of a page, and its edits with undo and redo.
  The undo and redo stacks are lists with the top first.  A step that panics is \<open>None\<close>.
\<close>

section \<open>Strokes\<close>

datatype ink_error =
    NonFinite string
  | EmptyStroke
  | NoActiveStroke
  | BadEncoding string

datatype tool = Pen | Highlighter | Eraser

definition tool_from_code :: "u8 \<Rightarrow> tool option" where
  "tool_from_code code =
     (if code = 0 then Some Pen else if code = 1 then Some Highlighter
      else if code = 2 then Some Eraser else None)"

fun tool_code :: "tool \<Rightarrow> u8" where
  "tool_code Pen = 0"
| "tool_code Highlighter = 1"
| "tool_code Eraser = 2"

definition tool_is_ink :: "tool \<Rightarrow> bool" where
  "tool_is_ink t \<longleftrightarrow> t = Pen \<or> t = Highlighter"

record ink_color =
  ic_r :: u8
  ic_g :: u8
  ic_b :: u8
  ic_a :: u8

record ink_point =
  ip_x :: f32
  ip_y :: f32
  ip_pressure :: f32
  ip_tilt_x :: "f32 option"
  ip_tilt_y :: "f32 option"
  ip_timestamp_ms :: u32

definition finite_tilt :: "f32 option \<Rightarrow> f32 option" where
  "finite_tilt t = (case t of Some v \<Rightarrow> if f32_is_finite v then Some v else None | None \<Rightarrow> None)"

definition ink_point_new ::
    "f32 \<Rightarrow> f32 \<Rightarrow> f32 \<Rightarrow> f32 option \<Rightarrow> f32 option \<Rightarrow> u32 \<Rightarrow> ink_error + ink_point" where
  "ink_point_new x y pressure tilt_x tilt_y timestamp_ms =
     (if \<not> f32_is_finite x \<or> \<not> f32_is_finite y \<or> \<not> f32_is_finite pressure then
        Inl (NonFinite ''point coordinate'')
      else Inr \<lparr>ip_x = f32_clamp x 0 f32_one, ip_y = f32_clamp y 0 f32_one,
                ip_pressure = f32_clamp pressure 0 f32_one, ip_tilt_x = finite_tilt tilt_x,
                ip_tilt_y = finite_tilt tilt_y, ip_timestamp_ms = timestamp_ms\<rparr>)"

type_synonym stroke_id = u32

record stroke =
  sk_id :: stroke_id
  sk_tool :: tool
  sk_color :: ink_color
  sk_width :: f32
  sk_points :: "ink_point list"
  sk_created_at_ms :: u64

record bbox =
  bb_x0 :: f32
  bb_y0 :: f32
  bb_x1 :: f32
  bb_y1 :: f32

definition stroke_bounds :: "stroke \<Rightarrow> bbox option" where
  "stroke_bounds s =
     (case sk_points s of
        [] \<Rightarrow> None
      | first # it \<Rightarrow>
          let b = fold (\<lambda>p b. \<lparr>bb_x0 = f32_min (bb_x0 b) (ip_x p), bb_y0 = f32_min (bb_y0 b) (ip_y p),
                              bb_x1 = f32_max (bb_x1 b) (ip_x p), bb_y1 = f32_max (bb_y1 b) (ip_y p)\<rparr>) it
                    \<lparr>bb_x0 = ip_x first, bb_y0 = ip_y first, bb_x1 = ip_x first, bb_y1 = ip_y first\<rparr>;
              m = f32_mul (sk_width s) f32_half
          in Some \<lparr>bb_x0 = f32_max (f32_sub (bb_x0 b) m) 0, bb_y0 = f32_max (f32_sub (bb_y0 b) m) 0,
                   bb_x1 = f32_min (f32_add (bb_x1 b) m) f32_one,
                   bb_y1 = f32_min (f32_add (bb_y1 b) m) f32_one\<rparr>)"

definition pressure_to_width :: "f32 \<Rightarrow> f32 \<Rightarrow> f32" where
  "pressure_to_width nominal pressure =
     f32_mul nominal (f32_add f32_half (f32_mul f32_half (f32_clamp pressure 0 f32_one)))"

section \<open>Hit testing\<close>

definition dist2_point :: "f32 \<Rightarrow> f32 \<Rightarrow> f32 \<Rightarrow> f32 \<Rightarrow> f32" where
  "dist2_point ax ay bx by' =
     (let dx = f32_sub ax bx; dy = f32_sub ay by' in f32_add (f32_mul dx dx) (f32_mul dy dy))"

definition dist2_to_segment :: "f32 \<Rightarrow> f32 \<Rightarrow> f32 \<Rightarrow> f32 \<Rightarrow> f32 \<Rightarrow> f32 \<Rightarrow> f32" where
  "dist2_to_segment px py ax ay bx by' =
     (let abx = f32_sub bx ax; aby = f32_sub by' ay;
          len2 = f32_add (f32_mul abx abx) (f32_mul aby aby)
      in if f32_le len2 f32_epsilon then dist2_point px py ax ay
         else
           let t = f32_clamp (f32_div (f32_add (f32_mul (f32_sub px ax) abx) (f32_mul (f32_sub py ay) aby)) len2)
                     0 f32_one
           in dist2_point px py (f32_add ax (f32_mul t abx)) (f32_add ay (f32_mul t aby)))"

fun windows2 :: "'a list \<Rightarrow> ('a \<times> 'a) list" where
  "windows2 (a # b # xs) = (a, b) # windows2 (b # xs)"
| "windows2 xs = []"

definition stroke_hit :: "stroke \<Rightarrow> f32 \<Rightarrow> f32 \<Rightarrow> f32 \<Rightarrow> bool" where
  "stroke_hit s x y radius =
     (let r2 = f32_mul radius radius; pts = sk_points s
      in if length pts = 1 then f32_le (dist2_point (ip_x (pts ! 0)) (ip_y (pts ! 0)) x y) r2
         else list_ex (\<lambda>(a, b). f32_le (dist2_to_segment x y (ip_x a) (ip_y a) (ip_x b) (ip_y b)) r2)
                (windows2 pts))"

section \<open>The layer\<close>

datatype edit =
    Add stroke
  | Erase nat stroke
  | Move "stroke_id list" f32 f32
  | DeleteMany "(nat \<times> stroke) list"
  | Recolor "stroke_id list" "ink_color list" ink_color
  | AddMany "stroke list"

record ink_layer =
  il_strokes :: "stroke list"
  il_next_id :: u32
  il_pending :: "stroke option"
  il_undo :: "edit list"
  il_redo :: "edit list"

definition layer_new :: ink_layer where
  "layer_new = \<lparr>il_strokes = [], il_next_id = 0, il_pending = None, il_undo = [], il_redo = []\<rparr>"

definition saturating_succ :: "u32 \<Rightarrow> u32" where
  "saturating_succ n = (if n = - 1 then n else n + 1)"

definition from_strokes :: "stroke list \<Rightarrow> ink_layer" where
  "from_strokes strokes =
     \<lparr>il_strokes = strokes,
      il_next_id = (case strokes of [] \<Rightarrow> 0 | _ \<Rightarrow> saturating_succ (Max (set (map sk_id strokes)))),
      il_pending = None, il_undo = [], il_redo = []\<rparr>"

definition start_stroke ::
    "ink_layer \<Rightarrow> tool \<Rightarrow> ink_color \<Rightarrow> f32 \<Rightarrow> u64 \<Rightarrow> ink_layer \<times> (ink_error + stroke_id)" where
  "start_stroke l t color width created_at_ms =
     (if \<not> f32_is_finite width \<or> f32_le width 0 then (l, Inl (NonFinite ''stroke width''))
      else
        let id = il_next_id l
        in (l\<lparr>il_pending := Some \<lparr>sk_id = id, sk_tool = t, sk_color = color, sk_width = width,
              sk_points = [], sk_created_at_ms = created_at_ms\<rparr>\<rparr>, Inr id))"

definition push_point :: "ink_layer \<Rightarrow> ink_point \<Rightarrow> ink_layer \<times> (ink_error + unit)" where
  "push_point l p =
     (case il_pending l of
        None \<Rightarrow> (l, Inl NoActiveStroke)
      | Some s \<Rightarrow> (l\<lparr>il_pending := Some (s\<lparr>sk_points := sk_points s @ [p]\<rparr>)\<rparr>, Inr ()))"

text \<open>Every edit pushes itself on the undo stack and clears the redo stack.\<close>

definition record_edit :: "edit \<Rightarrow> ink_layer \<Rightarrow> ink_layer" where
  "record_edit e l = l\<lparr>il_undo := e # il_undo l, il_redo := []\<rparr>"

definition finish_stroke :: "ink_layer \<Rightarrow> ink_layer \<times> stroke_id option" where
  "finish_stroke l =
     (case il_pending l of
        None \<Rightarrow> (l, None)
      | Some s \<Rightarrow>
          let l1 = l\<lparr>il_pending := None\<rparr>
          in if sk_points s = [] then (l1, None)
             else (record_edit (Add s)
                     (l1\<lparr>il_next_id := saturating_succ (il_next_id l1), il_strokes := il_strokes l1 @ [s]\<rparr>),
                   Some (sk_id s)))"

definition cancel_stroke :: "ink_layer \<Rightarrow> ink_layer" where
  "cancel_stroke l = l\<lparr>il_pending := None\<rparr>"

definition strokes_hit :: "ink_layer \<Rightarrow> f32 \<Rightarrow> f32 \<Rightarrow> f32 \<Rightarrow> stroke_id list" where
  "strokes_hit l x y radius = map sk_id (filter (\<lambda>s. stroke_hit s x y radius) (il_strokes l))"

definition remove_at :: "nat \<Rightarrow> 'a list \<Rightarrow> 'a list" where
  "remove_at i xs = take i xs @ drop (Suc i) xs"

definition insert_at :: "nat \<Rightarrow> 'a \<Rightarrow> 'a list \<Rightarrow> 'a list" where
  "insert_at i x xs = take i xs @ x # drop i xs"

text \<open>The loops of \<open>erase_at\<close> and \<open>delete_strokes\<close> run from the top of the paint order down.\<close>

fun erase_loop :: "(stroke \<Rightarrow> bool) \<Rightarrow> nat \<Rightarrow> ink_layer \<Rightarrow> ink_layer \<times> stroke_id list" where
  "erase_loop hit 0 l = (l, [])"
| "erase_loop hit (Suc i) l =
     (let s = il_strokes l ! i
      in if hit s then
           let (l1, removed) =
             erase_loop hit i (l\<lparr>il_strokes := remove_at i (il_strokes l), il_undo := Erase i s # il_undo l\<rparr>)
           in (l1, sk_id s # removed)
         else erase_loop hit i l)"

definition erase_at :: "ink_layer \<Rightarrow> f32 \<Rightarrow> f32 \<Rightarrow> f32 \<Rightarrow> ink_layer \<times> stroke_id list" where
  "erase_at l x y radius =
     (let (l1, removed) = erase_loop (\<lambda>s. stroke_hit s x y radius) (length (il_strokes l)) l
      in (if removed \<noteq> [] then l1\<lparr>il_redo := []\<rparr> else l1, removed))"

definition extend_bounds ::
    "(f32 \<times> f32 \<times> f32 \<times> f32) option \<Rightarrow> ink_point \<Rightarrow> (f32 \<times> f32 \<times> f32 \<times> f32) option" where
  "extend_bounds b p =
     Some (case b of
             None \<Rightarrow> (ip_x p, ip_y p, ip_x p, ip_y p)
           | Some (x0, y0, x1, y1) \<Rightarrow>
               (f32_min x0 (ip_x p), f32_min y0 (ip_y p), f32_max x1 (ip_x p), f32_max y1 (ip_y p)))"

definition raw_point_bounds :: "ink_layer \<Rightarrow> stroke_id list \<Rightarrow> (f32 \<times> f32 \<times> f32 \<times> f32) option" where
  "raw_point_bounds l ids =
     fold (\<lambda>s b. if sk_id s \<in> set ids then foldl extend_bounds b (sk_points s) else b) (il_strokes l) None"

definition translate_point :: "f32 \<Rightarrow> f32 \<Rightarrow> ink_point \<Rightarrow> ink_point" where
  "translate_point dx dy p = p\<lparr>ip_x := f32_add (ip_x p) dx, ip_y := f32_add (ip_y p) dy\<rparr>"

definition translate :: "stroke_id list \<Rightarrow> f32 \<Rightarrow> f32 \<Rightarrow> stroke list \<Rightarrow> stroke list" where
  "translate ids dx dy ss =
     map (\<lambda>s. if sk_id s \<in> set ids then s\<lparr>sk_points := map (translate_point dx dy) (sk_points s)\<rparr> else s) ss"

text \<open>\<open>f32::clamp\<close> panics when its bounds are out of order or NaN.\<close>

definition clamp_or_panic :: "f32 \<Rightarrow> f32 \<Rightarrow> f32 \<Rightarrow> f32 option" where
  "clamp_or_panic x lo hi = (if f32_le lo hi then Some (f32_clamp x lo hi) else None)"

definition move_strokes ::
    "ink_layer \<Rightarrow> stroke_id list \<Rightarrow> f32 \<Rightarrow> f32 \<Rightarrow> (ink_layer \<times> (f32 \<times> f32) option) option" where
  "move_strokes l ids dx dy =
     (if \<not> f32_is_finite dx \<or> \<not> f32_is_finite dy then Some (l, None)
      else (case raw_point_bounds l ids of
              None \<Rightarrow> Some (l, None)
            | Some (x0, y0, x1, y1) \<Rightarrow>
                (case (clamp_or_panic dx (f32_neg x0) (f32_sub f32_one x1),
                       clamp_or_panic dy (f32_neg y0) (f32_sub f32_one y1)) of
                   (Some cdx, Some cdy) \<Rightarrow>
                     Some (if f32_eq cdx 0 \<and> f32_eq cdy 0 then (l, None)
                           else (record_edit (Move ids cdx cdy)
                                   (l\<lparr>il_strokes := translate ids cdx cdy (il_strokes l)\<rparr>),
                                 Some (cdx, cdy)))
                 | _ \<Rightarrow> None)))"

fun delete_loop :: "stroke_id list \<Rightarrow> nat \<Rightarrow> stroke list \<Rightarrow> stroke list \<times> (nat \<times> stroke) list" where
  "delete_loop ids 0 ss = (ss, [])"
| "delete_loop ids (Suc i) ss =
     (let s = ss ! i
      in if sk_id s \<in> set ids then
           let (ss1, removed) = delete_loop ids i (remove_at i ss) in (ss1, (i, s) # removed)
         else delete_loop ids i ss)"

definition delete_strokes :: "ink_layer \<Rightarrow> stroke_id list \<Rightarrow> ink_layer \<times> stroke_id list" where
  "delete_strokes l ids =
     (let (ss, removed) = delete_loop ids (length (il_strokes l)) (il_strokes l);
          l1 = l\<lparr>il_strokes := ss\<rparr>
      in (if removed \<noteq> [] then record_edit (DeleteMany (rev removed)) l1 else l1,
          map (sk_id \<circ> snd) removed))"

definition recolor_strokes :: "ink_layer \<Rightarrow> stroke_id list \<Rightarrow> ink_color \<Rightarrow> ink_layer \<times> bool" where
  "recolor_strokes l ids color =
     (let affected = filter (\<lambda>s. sk_id s \<in> set ids) (il_strokes l);
          l1 = l\<lparr>il_strokes := map (\<lambda>s. if sk_id s \<in> set ids then s\<lparr>sk_color := color\<rparr> else s) (il_strokes l)\<rparr>
      in if affected = [] then (l1, False)
         else (record_edit (Recolor (map sk_id affected) (map sk_color affected) color) l1, True))"

definition copy_strokes :: "ink_layer \<Rightarrow> stroke_id list \<Rightarrow> stroke list" where
  "copy_strokes l ids = filter (\<lambda>s. sk_id s \<in> set ids) (il_strokes l)"

definition paste_point :: "f32 \<Rightarrow> f32 \<Rightarrow> ink_point \<Rightarrow> ink_point" where
  "paste_point dx dy p =
     p\<lparr>ip_x := f32_clamp (f32_add (ip_x p) dx) 0 f32_one, ip_y := f32_clamp (f32_add (ip_y p) dy) 0 f32_one\<rparr>"

fun paste_loop :: "f32 \<Rightarrow> f32 \<Rightarrow> stroke list \<Rightarrow> u32 \<Rightarrow> u32 \<times> stroke list" where
  "paste_loop dx dy [] next_id = (next_id, [])"
| "paste_loop dx dy (s # ss) next_id =
     (let clone = s\<lparr>sk_id := next_id, sk_points := map (paste_point dx dy) (sk_points s)\<rparr>;
          (n, added) = paste_loop dx dy ss (saturating_succ next_id)
      in (n, clone # added))"

definition paste_strokes :: "ink_layer \<Rightarrow> stroke list \<Rightarrow> f32 \<Rightarrow> f32 \<Rightarrow> ink_layer \<times> stroke_id list" where
  "paste_strokes l strokes dx dy =
     (if strokes = [] \<or> \<not> f32_is_finite dx \<or> \<not> f32_is_finite dy then (l, [])
      else
        let (n, added) = paste_loop dx dy strokes (il_next_id l)
        in (record_edit (AddMany added) (l\<lparr>il_next_id := n, il_strokes := il_strokes l @ added\<rparr>),
            map sk_id added))"

section \<open>Undo and redo\<close>

text \<open>\<open>if let Some(s) = strokes.iter_mut().find(..) { s.color = .. }\<close>.\<close>

fun set_color :: "stroke_id \<Rightarrow> ink_color \<Rightarrow> stroke list \<Rightarrow> stroke list" where
  "set_color i c [] = []"
| "set_color i c (s # ss) = (if sk_id s = i then s\<lparr>sk_color := c\<rparr> # ss else s # set_color i c ss)"

fun undo_edit :: "edit \<Rightarrow> stroke list \<Rightarrow> stroke list" where
  "undo_edit (Add s) ss = filter (\<lambda>t. sk_id t \<noteq> sk_id s) ss"
| "undo_edit (Erase i s) ss = insert_at (min i (length ss)) s ss"
| "undo_edit (Move ids dx dy) ss = translate ids (f32_neg dx) (f32_neg dy) ss"
| "undo_edit (DeleteMany removed) ss =
     fold (\<lambda>(i, s) ss. insert_at (min i (length ss)) s ss) removed ss"
| "undo_edit (Recolor ids old new) ss = fold (\<lambda>(i, c). set_color i c) (zip ids old) ss"
| "undo_edit (AddMany added) ss = filter (\<lambda>s. \<not> list_ex (\<lambda>a. sk_id a = sk_id s) added) ss"

definition remove_first_id :: "stroke_id \<Rightarrow> stroke list \<Rightarrow> stroke list" where
  "remove_first_id i ss =
     (let before = takeWhile (\<lambda>s. sk_id s \<noteq> i) ss in before @ drop (Suc (length before)) ss)"

fun redo_edit :: "edit \<Rightarrow> stroke list \<Rightarrow> stroke list" where
  "redo_edit (Add s) ss = ss @ [s]"
| "redo_edit (Erase i s) ss = remove_first_id (sk_id s) ss"
| "redo_edit (Move ids dx dy) ss = translate ids dx dy ss"
| "redo_edit (DeleteMany removed) ss = filter (\<lambda>s. sk_id s \<notin> set (map (sk_id \<circ> snd) removed)) ss"
| "redo_edit (Recolor ids old new) ss = fold (\<lambda>i. set_color i new) ids ss"
| "redo_edit (AddMany added) ss = ss @ added"

definition layer_undo :: "ink_layer \<Rightarrow> ink_layer \<times> bool" where
  "layer_undo l =
     (case il_undo l of
        [] \<Rightarrow> (l, False)
      | e # es \<Rightarrow>
          (l\<lparr>il_strokes := undo_edit e (il_strokes l), il_undo := es, il_redo := e # il_redo l\<rparr>, True))"

definition layer_redo :: "ink_layer \<Rightarrow> ink_layer \<times> bool" where
  "layer_redo l =
     (case il_redo l of
        [] \<Rightarrow> (l, False)
      | e # es \<Rightarrow>
          (l\<lparr>il_strokes := redo_edit e (il_strokes l), il_redo := es, il_undo := e # il_undo l\<rparr>, True))"

definition layer_bounds :: "ink_layer \<Rightarrow> bbox option" where
  "layer_bounds l =
     fold (\<lambda>s acc. case stroke_bounds s of
                     None \<Rightarrow> acc
                   | Some b \<Rightarrow>
                       Some (case acc of
                               None \<Rightarrow> b
                             | Some a \<Rightarrow>
                                 \<lparr>bb_x0 = f32_min (bb_x0 a) (bb_x0 b), bb_y0 = f32_min (bb_y0 a) (bb_y0 b),
                                  bb_x1 = f32_max (bb_x1 a) (bb_x1 b), bb_y1 = f32_max (bb_y1 a) (bb_y1 b)\<rparr>))
       (il_strokes l) None"

end
