(* ===== verification/Ink_History.thy ===== *)
theory Ink_History
  imports Ink_Model
begin

text \<open>
  Undo and redo of a page of ink: the stacks of edits implement a zipper of stroke lists.
\<close>

section \<open>Commands\<close>

datatype ink_command =
    StartStroke tool ink_color f32 u64
  | PushPoint ink_point
  | FinishStroke
  | CancelStroke
  | EraseAt f32 f32 f32
  | MoveStrokes "stroke_id list" f32 f32
  | DeleteStrokes "stroke_id list"
  | RecolorStrokes "stroke_id list" ink_color
  | PasteStrokes "stroke list" f32 f32
  | UndoEdit
  | RedoEdit

fun run_command :: "ink_layer \<Rightarrow> ink_command \<Rightarrow> ink_layer option" where
  "run_command l (StartStroke t c w ms) = Some (fst (start_stroke l t c w ms))"
| "run_command l (PushPoint p) = Some (fst (push_point l p))"
| "run_command l FinishStroke = Some (fst (finish_stroke l))"
| "run_command l CancelStroke = Some (cancel_stroke l)"
| "run_command l (EraseAt x y r) = Some (fst (erase_at l x y r))"
| "run_command l (MoveStrokes ids dx dy) = map_option fst (move_strokes l ids dx dy)"
| "run_command l (DeleteStrokes ids) = Some (fst (delete_strokes l ids))"
| "run_command l (RecolorStrokes ids c) = Some (fst (recolor_strokes l ids c))"
| "run_command l (PasteStrokes ss dx dy) = Some (fst (paste_strokes l ss dx dy))"
| "run_command l UndoEdit = Some (fst (layer_undo l))"
| "run_command l RedoEdit = Some (fst (layer_redo l))"

section \<open>The zipper\<close>

text \<open>What the history is meant to be: the stroke lists before the present one, and the undone ones.
  An edit pushes the present, and the states it passes through, and forgets the undone ones.\<close>

type_synonym zipper = "stroke list list \<times> stroke list \<times> stroke list list"

definition is_history :: "ink_command \<Rightarrow> bool" where
  "is_history cmd \<longleftrightarrow> cmd = UndoEdit \<or> cmd = RedoEdit"

inductive zipper_step :: "ink_command \<Rightarrow> zipper \<Rightarrow> zipper \<Rightarrow> bool" where
  idle: "\<not> is_history cmd \<Longrightarrow> zipper_step cmd z z"
| edited: "\<not> is_history cmd \<Longrightarrow> zipper_step cmd (past, ss, future) (qs @ ss # past, ss', [])"
| undone: "zipper_step UndoEdit (p # ps, ss, future) (ps, p, ss # future)"
| no_undo: "zipper_step UndoEdit ([], ss, future) ([], ss, future)"
| redone: "zipper_step RedoEdit (past, ss, f # fs) (ss # past, f, fs)"
| no_redo: "zipper_step RedoEdit (past, ss, []) (past, ss, [])"

text \<open>What is seen of a stroke: the stroke itself, or its shape, which is everything but the coordinates
  of its points.  The history keeps the second in any case, and the first where moves are exact.\<close>

definition whole :: "stroke \<Rightarrow> stroke" where
  "whole s = s"

definition shape_point :: "ink_point \<Rightarrow> ink_point" where
  "shape_point p = p\<lparr>ip_x := 0, ip_y := 0\<rparr>"

definition shape :: "stroke \<Rightarrow> stroke" where
  "shape s = s\<lparr>sk_points := map shape_point (sk_points s)\<rparr>"

text \<open>How the stacks represent a zipper of what is seen.\<close>

fun undo_chain :: "(stroke \<Rightarrow> stroke) \<Rightarrow> stroke list \<Rightarrow> edit list \<Rightarrow> stroke list list \<Rightarrow> bool" where
  "undo_chain view ss [] [] = True"
| "undo_chain view ss (e # es) (p # ps) \<longleftrightarrow>
     map view (undo_edit e ss) = p \<and> map view (redo_edit e p) = ss \<and> undo_chain view p es ps"
| "undo_chain view ss _ _ = False"

fun redo_chain :: "(stroke \<Rightarrow> stroke) \<Rightarrow> stroke list \<Rightarrow> edit list \<Rightarrow> stroke list list \<Rightarrow> bool" where
  "redo_chain view ss [] [] = True"
| "redo_chain view ss (e # es) (f # fs) \<longleftrightarrow>
     map view (redo_edit e ss) = f \<and> map view (undo_edit e f) = ss \<and> redo_chain view f es fs"
| "redo_chain view ss _ _ = False"

definition ids_below :: "u32 \<Rightarrow> stroke list \<Rightarrow> bool" where
  "ids_below n ss \<longleftrightarrow> distinct (map sk_id ss) \<and> (\<forall>s\<in>set ss. sk_id s < n)"

definition represents :: "(stroke \<Rightarrow> stroke) \<Rightarrow> ink_layer \<Rightarrow> zipper \<Rightarrow> bool" where
  "represents view l z \<longleftrightarrow>
     (case z of (past, ss, future) \<Rightarrow>
        map view (il_strokes l) = ss \<and>
        undo_chain view ss (il_undo l) past \<and> redo_chain view ss (il_redo l) future \<and>
        (\<forall>t\<in>set (ss # past @ future). ids_below (il_next_id l) t) \<and>
        (case il_pending l of None \<Rightarrow> True | Some s \<Rightarrow> sk_id s = il_next_id l))"

text \<open>The commands the representation needs: identifiers are left, and nothing is pasted while a
  stroke is being drawn.\<close>

definition allowed :: "ink_layer \<Rightarrow> ink_command \<Rightarrow> bool" where
  "allowed l cmd \<longleftrightarrow>
     (case cmd of
        FinishStroke \<Rightarrow> unat (il_next_id l) + 1 < 2 ^ 32
      | PasteStrokes ss _ _ \<Rightarrow> il_pending l = None \<and> unat (il_next_id l) + length ss < 2 ^ 32
      | _ \<Rightarrow> True)"

text \<open>A move that the opposite move undoes, as far as it is seen.\<close>

definition move_inverts :: "(stroke \<Rightarrow> stroke) \<Rightarrow> ink_layer \<Rightarrow> ink_command \<Rightarrow> bool" where
  "move_inverts view l cmd \<longleftrightarrow>
     (case cmd of
        MoveStrokes ids dx dy \<Rightarrow>
          (case move_strokes l ids dx dy of
             Some (_, Some (cdx, cdy)) \<Rightarrow>
               map view (translate ids (f32_neg cdx) (f32_neg cdy) (translate ids cdx cdy (il_strokes l))) =
               map view (il_strokes l)
           | _ \<Rightarrow> True)
      | _ \<Rightarrow> True)"

fun moves_invert :: "(stroke \<Rightarrow> stroke) \<Rightarrow> ink_layer \<Rightarrow> ink_command list \<Rightarrow> bool" where
  "moves_invert view l [] = True"
| "moves_invert view l (cmd # cmds) \<longleftrightarrow>
     move_inverts view l cmd \<and>
     (case run_command l cmd of None \<Rightarrow> True | Some l1 \<Rightarrow> moves_invert view l1 cmds)"

inductive ink_run :: "ink_layer \<Rightarrow> ink_command list \<Rightarrow> ink_layer \<Rightarrow> bool" where
  nothing: "ink_run l [] l"
| command: "allowed l cmd \<Longrightarrow> run_command l cmd = Some l1 \<Longrightarrow> ink_run l1 cmds l2 \<Longrightarrow> ink_run l (cmd # cmds) l2"

inductive zipper_run :: "zipper \<Rightarrow> ink_command list \<Rightarrow> zipper \<Rightarrow> bool" where
  z_nothing: "zipper_run z [] z"
| z_command: "zipper_step cmd z z1 \<Longrightarrow> zipper_run z1 cmds z2 \<Longrightarrow> zipper_run z (cmd # cmds) z2"

inductive_cases zipper_runE: "zipper_run z (cmd # cmds) z2"
inductive_cases zipper_nothingE: "zipper_run z [] z2"
inductive_cases undo_stepE: "zipper_step UndoEdit z z1"
inductive_cases redo_stepE: "zipper_step RedoEdit z z1"

section \<open>Positions\<close>

lemma remove_insert: "i < length xs \<Longrightarrow> insert_at i (xs ! i) (remove_at i xs) = xs"
  by (simp add: insert_at_def remove_at_def id_take_nth_drop [symmetric])

lemma length_remove_at [simp]: "i < length xs \<Longrightarrow> length (remove_at i xs) = length xs - 1"
  by (simp add: remove_at_def)

lemma min_remove: "i < length xs \<Longrightarrow> min i (length (remove_at i xs)) = i"
  by simp

lemma remove_first_at:
  "distinct (map sk_id ss) \<Longrightarrow> i < length ss \<Longrightarrow> remove_first_id (sk_id (ss ! i)) ss = remove_at i ss"
proof -
  assume d: "distinct (map sk_id ss)" and i: "i < length ss"
  have "takeWhile (\<lambda>s. sk_id s \<noteq> sk_id (ss ! i)) ss = take i ss"
    using d i by (intro takeWhile_eq_take_P_nth) (auto simp: distinct_conv_nth)
  with i show ?thesis by (simp add: remove_first_id_def remove_at_def min_def)
qed

lemma set_remove_at: "set (remove_at i xs) \<subseteq> set xs"
  by (auto simp: remove_at_def dest: in_set_takeD in_set_dropD)

lemma remove_at_distinct: "distinct (map sk_id ss) \<Longrightarrow> distinct (map sk_id (remove_at i ss))"
  using set_take_disj_set_drop_if_distinct [of "map sk_id ss" i "Suc i"]
    distinct_take [of "map sk_id ss" i] distinct_drop [of "map sk_id ss" "Suc i"]
  by (simp add: remove_at_def take_map drop_map)

lemma ids_below_remove: "ids_below n ss \<Longrightarrow> ids_below n (remove_at i ss)"
  using set_remove_at [of i ss] by (auto simp: ids_below_def remove_at_distinct)

section \<open>Each edit and its inverse\<close>

lemma add_inverse:
  "sk_id s \<notin> sk_id ` set ss \<Longrightarrow> undo_edit (Add s) (ss @ [s]) = ss"
  by (force simp: filter_id_conv image_iff)

lemma delete_loop_undo:
  "delete_loop ids n ss = (ss1, removed) \<Longrightarrow> n \<le> length ss \<Longrightarrow>
     fold (\<lambda>(i, s) ss. insert_at (min i (length ss)) s ss) (rev removed) ss1 = ss"
proof (induction n arbitrary: ss removed)
  case (Suc n)
  show ?case
  proof (cases "sk_id (ss ! n) \<in> set ids")
    case True
    obtain removed1 where r: "delete_loop ids n (remove_at n ss) = (ss1, removed1)"
      "removed = (n, ss ! n) # removed1"
      using Suc.prems True by (auto simp: Let_def split: prod.splits)
    have "n < length ss" using Suc.prems(2) by simp
    then have "fold (\<lambda>(i, s) ss. insert_at (min i (length ss)) s ss) (rev removed1) ss1 = remove_at n ss"
      using Suc.IH [OF r(1)] by simp
    then show ?thesis using \<open>n < length ss\<close> r(2) by (simp add: min_remove remove_insert del: length_remove_at)
  next
    case False
    with Suc show ?thesis by (simp add: Let_def)
  qed
qed simp

lemma delete_loop_result:
  "delete_loop ids n ss = (ss1, removed) \<Longrightarrow> n \<le> length ss \<Longrightarrow>
     ss1 = filter (\<lambda>s. sk_id s \<notin> set ids) (take n ss) @ drop n ss \<and>
     set (map snd removed) = {s \<in> set (take n ss). sk_id s \<in> set ids}"
proof (induction n arbitrary: ss removed)
  case (Suc n)
  then have n: "n < length ss" by simp
  have take: "take (Suc n) ss = take n ss @ [ss ! n]" "drop n ss = ss ! n # drop (Suc n) ss"
    using n by (simp_all add: take_Suc_conv_app_nth Cons_nth_drop_Suc)
  show ?case
  proof (cases "sk_id (ss ! n) \<in> set ids")
    case True
    obtain removed1 where r: "delete_loop ids n (remove_at n ss) = (ss1, removed1)"
      "removed = (n, ss ! n) # removed1"
      using Suc.prems True by (auto simp: Let_def split: prod.splits)
    have "take n (remove_at n ss) = take n ss" "drop n (remove_at n ss) = drop (Suc n) ss"
      using n by (simp_all add: remove_at_def)
    with Suc.IH [OF r(1)] n r(2) True show ?thesis by (auto simp: take)
  next
    case False
    then have "delete_loop ids n ss = (ss1, removed)" using Suc.prems(1) by (simp add: Let_def)
    from Suc.IH [OF this] n False show ?thesis
      unfolding take(1) by (auto simp: take(2))
  qed
qed simp

definition recolor_by :: "(stroke_id \<times> ink_color) list \<Rightarrow> stroke \<Rightarrow> stroke" where
  "recolor_by ps s = (case map_of ps (sk_id s) of None \<Rightarrow> s | Some c \<Rightarrow> s\<lparr>sk_color := c\<rparr>)"

lemma set_color_map:
  "distinct (map sk_id ss) \<Longrightarrow> set_color i c ss = map (\<lambda>s. if sk_id s = i then s\<lparr>sk_color := c\<rparr> else s) ss"
proof (induction ss)
  case (Cons s ss)
  have "map (\<lambda>t. if sk_id t = sk_id s then t\<lparr>sk_color := c\<rparr> else t) ss = ss"
    using Cons.prems by (intro map_idI) (force simp: image_iff)
  with Cons show ?case by auto
qed simp

lemma fold_set_color:
  "distinct (map sk_id ss) \<Longrightarrow> distinct (map fst ps) \<Longrightarrow>
     fold (\<lambda>(i, c). set_color i c) ps ss = map (recolor_by ps) ss"
proof (induction ps arbitrary: ss)
  case Nil
  then show ?case by (auto simp: recolor_by_def intro!: map_idI [symmetric])
next
  case (Cons p ps)
  obtain i c where p: "p = (i, c)" by fastforce
  let ?ss = "map (\<lambda>s. if sk_id s = i then s\<lparr>sk_color := c\<rparr> else s) ss"
  have ids: "map sk_id ?ss = map sk_id ss" by (induction ss) auto
  have "map_of ps i = None" using Cons.prems(2) p by (auto simp: map_of_eq_None_iff)
  then have "map (recolor_by ps) ?ss = map (recolor_by (p # ps)) ss"
    by (auto simp: recolor_by_def p)
  moreover have "distinct (map sk_id ?ss)" using ids Cons.prems(1) by metis
  from Cons.IH [OF this] Cons.prems(2) p
  have "fold (\<lambda>(i, c). set_color i c) ps ?ss = map (recolor_by ps) ?ss" by simp
  ultimately show ?case using set_color_map [OF Cons.prems(1), of i c] by (simp add: p del: map_map)
qed

lemma recolor_inverse:
  assumes "distinct (map sk_id ss)"
    and "affected = filter (\<lambda>s. sk_id s \<in> set ids) ss"
    and "ss1 = map (\<lambda>s. if sk_id s \<in> set ids then s\<lparr>sk_color := c\<rparr> else s) ss"
  shows "undo_edit (Recolor (map sk_id affected) (map sk_color affected) c) ss1 = ss"
    and "redo_edit (Recolor (map sk_id affected) (map sk_color affected) c) ss = ss1"
proof -
  have d: "distinct (map sk_id affected)" using assms(1,2) by (simp add: distinct_map_filter)
  have ids: "map sk_id ss1 = map sk_id ss" unfolding assms(3) by (induction ss) auto
  let ?old = "zip (map sk_id affected) (map sk_color affected)"
  have old: "map_of ?old (sk_id s) = (if sk_id s \<in> set ids then Some (sk_color s) else None)"
    if "s \<in> set ss" for s
  proof (cases "sk_id s \<in> set ids")
    case True
    then have "(sk_id s, sk_color s) \<in> set ?old"
      using that assms(2) by (auto simp: zip_map_map zip_same_conv_map)
    moreover have "distinct (map fst ?old)" using d by simp
    ultimately show ?thesis using True by (simp add: map_of_eq_Some_iff)
  next
    case False
    then have "sk_id s \<notin> fst ` set ?old" using assms(2) by (auto simp: zip_map_map zip_same_conv_map)
    with False show ?thesis by (metis map_of_eq_None_iff)
  qed
  have "undo_edit (Recolor (map sk_id affected) (map sk_color affected) c) ss1 = map (recolor_by ?old) ss1"
    using fold_set_color [of ss1 ?old] ids assms(1) d by simp
  also have "\<dots> = ss"
    unfolding assms(3) by (auto simp: recolor_by_def old intro!: map_idI)
  finally show "undo_edit (Recolor (map sk_id affected) (map sk_color affected) c) ss1 = ss" .
  let ?new = "map (\<lambda>i. (i, c)) (map sk_id affected)"
  have fold: "fold (\<lambda>i. set_color i c) is ss = fold (\<lambda>(i, c). set_color i c) (map (\<lambda>i. (i, c)) is) ss" for "is"
    by (induction "is" arbitrary: ss) auto
  have new: "map_of ?new (sk_id s) = (if sk_id s \<in> set ids then Some c else None)" if "s \<in> set ss" for s
  proof -
    have const: "map_of (map (\<lambda>i. (i, c)) is) k = (if k \<in> set is then Some c else None)" for "is" k
      by (induction "is") auto
    show ?thesis unfolding const using that assms(2) by auto
  qed
  have "redo_edit (Recolor (map sk_id affected) (map sk_color affected) c) ss = map (recolor_by ?new) ss"
    using fold_set_color [OF assms(1), of ?new] d by (simp add: fold comp_def)
  also have "\<dots> = ss1"
    unfolding assms(3) by (auto simp: recolor_by_def new simp del: map_map)
  finally show "redo_edit (Recolor (map sk_id affected) (map sk_color affected) c) ss = ss1" .
qed

lemma paste_loop_ids:
  "paste_loop dx dy ss n = (n', added) \<Longrightarrow> unat n + length ss < 2 ^ 32 \<Longrightarrow>
     unat n' = unat n + length ss \<and> distinct (map sk_id added) \<and>
     (\<forall>s\<in>set added. n \<le> sk_id s \<and> sk_id s < n')"
proof (induction ss arbitrary: n added)
  case (Cons s ss)
  let ?m = "saturating_succ n"
  obtain added1 where a: "paste_loop dx dy ss ?m = (n', added1)"
    "added = s\<lparr>sk_id := n, sk_points := map (paste_point dx dy) (sk_points s)\<rparr> # added1"
    using Cons.prems(1) by (auto simp: Let_def split: prod.splits)
  have "n \<noteq> - 1" using Cons.prems(2) by (auto simp: unsigned_minus_1_eq_mask mask_eq_exp_minus_1)
  then have m: "unat ?m = Suc (unat n)"
    using Cons.prems(2) by (simp add: saturating_succ_def unat_word_ariths)
  with Cons.IH [OF a(1)] Cons.prems(2) have IH: "unat n' = Suc (unat n) + length ss"
    "distinct (map sk_id added1)" "\<forall>s\<in>set added1. ?m \<le> sk_id s \<and> sk_id s < n'" by auto
  have "n < ?m" "n < n'" using m IH(1) by (simp_all add: word_less_nat_alt)
  with IH a(2) show ?case by (auto intro: less_imp_le less_le_trans)
qed simp

lemma add_many_inverse:
  "\<forall>s\<in>set ss. \<forall>a\<in>set added. sk_id s \<noteq> sk_id a \<Longrightarrow> undo_edit (AddMany added) (ss @ added) = ss"
proof -
  assume apart: "\<forall>s\<in>set ss. \<forall>a\<in>set added. sk_id s \<noteq> sk_id a"
  have "filter (\<lambda>s. \<not> list_ex (\<lambda>a. sk_id a = sk_id s) added) ss = ss"
    using apart by (intro filter_True) (fastforce simp: list_ex_iff)
  moreover have "filter (\<lambda>s. \<not> list_ex (\<lambda>a. sk_id a = sk_id s) added) added = []"
    by (intro filter_False) (auto simp: list_ex_iff)
  ultimately show ?thesis by simp
qed

section \<open>Views\<close>

text \<open>What the history asks of a view: it keeps identifiers and colours, and what is seen after a move
  depends only on what was seen before it.\<close>

locale ink_view =
  fixes view :: "stroke \<Rightarrow> stroke"
  assumes view_view [simp]: "view (view s) = view s"
    and view_id [simp]: "sk_id (view s) = sk_id s"
    and view_color: "view (s\<lparr>sk_color := c\<rparr>) = (view s)\<lparr>sk_color := c\<rparr>"
    and view_translate: "view ((view s)\<lparr>sk_points := map (translate_point dx dy) (sk_points (view s))\<rparr>) =
      view (s\<lparr>sk_points := map (translate_point dx dy) (sk_points s)\<rparr>)"
begin

lemma view_list [simp]: "map view (map view ss) = map view ss"
  by simp

lemma view_ids [simp]: "map sk_id (map view ss) = map sk_id ss"
  by simp

lemma view_translate_list: "map view (translate ids dx dy (map view ss)) = map view (translate ids dx dy ss)"
  by (induction ss) (simp_all add: translate_def view_translate)

lemma view_insert_at: "map view (insert_at i s ss) = insert_at i (view s) (map view ss)"
  by (simp add: insert_at_def take_map drop_map)

lemma view_insert_all:
  "map view (fold (\<lambda>(i, s) ss. insert_at (min i (length ss)) s ss) removed (map view ss)) =
   map view (fold (\<lambda>(i, s) ss. insert_at (min i (length ss)) s ss) removed ss)"
proof (induction removed arbitrary: ss)
  case (Cons r removed)
  obtain i s where r: "r = (i, s)" by fastforce
  let ?f = "\<lambda>ss. fold (\<lambda>(i, s) ss. insert_at (min i (length ss)) s ss) removed ss"
  have "map view (?f (insert_at (min i (length ss)) s (map view ss))) =
      map view (?f (map view (insert_at (min i (length ss)) s (map view ss))))"
    by (rule Cons.IH [symmetric])
  also have "\<dots> = map view (?f (map view (insert_at (min i (length ss)) s ss)))"
    by (simp add: view_insert_at comp_def)
  also have "\<dots> = map view (?f (insert_at (min i (length ss)) s ss))" by (rule Cons.IH)
  finally show ?case by (simp add: r)
qed simp

lemma view_set_color: "map view (set_color i c ss) = set_color i c (map view ss)"
  by (induction ss) (simp_all add: view_color)

lemma view_set_colors: "map view (fold (\<lambda>(i, c). set_color i c) ps ss) = fold (\<lambda>(i, c). set_color i c) ps (map view ss)"
  by (induction ps arbitrary: ss) (simp_all add: view_set_color split: prod.split)

lemma view_set_color_all: "map view (fold (\<lambda>i. set_color i c) is ss) = fold (\<lambda>i. set_color i c) is (map view ss)"
  by (induction "is" arbitrary: ss) (simp_all add: view_set_color)

lemma view_remove_first: "map view (remove_first_id i ss) = remove_first_id i (map view ss)"
  by (simp add: remove_first_id_def Let_def takeWhile_map comp_def drop_map)

lemma undo_view: "map view (undo_edit e (map view ss)) = map view (undo_edit e ss)"
  by (cases e) (simp_all add: filter_map comp_def view_insert_at view_translate_list view_insert_all view_set_colors)

lemma redo_view: "map view (redo_edit e (map view ss)) = map view (redo_edit e ss)"
  by (cases e) (simp_all add: filter_map comp_def view_remove_first view_translate_list view_set_color_all)

lemma view_below [simp]: "ids_below n (map view ss) = ids_below n ss"
  by (simp add: ids_below_def comp_def)

end

interpretation strokes: ink_view whole
  by unfold_locales (simp_all add: whole_def)

lemma shape_point_shape [simp]: "shape_point (shape_point p) = shape_point p"
  by (cases p) (simp add: shape_point_def)

lemma shape_point_translate [simp]: "shape_point (translate_point dx dy p) = shape_point p"
  by (cases p) (simp add: shape_point_def translate_point_def)

lemma shape_moved [simp]:
  "shape (s\<lparr>sk_points := map (translate_point dx dy) ps\<rparr>) = shape (s\<lparr>sk_points := ps\<rparr>)"
  by (cases s) (simp add: shape_def)

lemma shape_simps [simp]:
  "shape (shape s) = shape s" "sk_id (shape s) = sk_id s"
  "shape (s\<lparr>sk_color := c\<rparr>) = (shape s)\<lparr>sk_color := c\<rparr>"
  "(shape s)\<lparr>sk_points := sk_points (shape s)\<rparr> = shape s"
  by (cases s, simp add: shape_def)+

interpretation shapes: ink_view shape
  by unfold_locales simp_all

text \<open>A move changes no shape, so the opposite move always brings it back.\<close>

lemma translate_shape: "map shape (translate ids dx dy ss) = map shape ss"
  by (induction ss) (simp_all add: translate_def)

lemma moves_invert_shape: "moves_invert shape l cmds"
  by (induction cmds arbitrary: l)
    (simp_all add: move_inverts_def translate_shape split: option.split ink_command.split prod.split)

section \<open>The simulation\<close>

lemma below_mono: "ids_below n ss \<Longrightarrow> n \<le> n' \<Longrightarrow> ids_below n' ss"
  by (auto simp: ids_below_def)

lemma translate_ids [simp]: "map sk_id (translate ids dx dy ss) = map sk_id ss"
  by (induction ss) (auto simp: translate_def)

lemma below_cong: "map sk_id ss' = map sk_id ss \<Longrightarrow> ids_below n ss \<Longrightarrow> ids_below n ss'"
proof -
  assume m: "map sk_id ss' = map sk_id ss" and b: "ids_below n ss"
  from m have "sk_id ` set ss' = sk_id ` set ss" by (metis list.set_map)
  with b m show ?thesis by (auto simp: ids_below_def) (metis imageI image_iff)
qed

lemma unchanged: "il_strokes l = ss \<Longrightarrow> l\<lparr>il_strokes := ss\<rparr> = l"
  by (cases l) simp

lemma represents_strokes: "represents view l (past, ss, future) \<Longrightarrow> map view (il_strokes l) = ss"
  by (simp add: represents_def)

lemma step_to:
  "\<not> is_history cmd \<Longrightarrow> represents view l' (past, ss, future) \<Longrightarrow>
     \<exists>z. zipper_step cmd (past, ss, future) z \<and> represents view l' z"
  "\<not> is_history cmd \<Longrightarrow> represents view l' (qs @ ss # past, ss', []) \<Longrightarrow>
     \<exists>z. zipper_step cmd (past, ss, future) z \<and> represents view l' z"
  using zipper_step.idle zipper_step.edited by blast+

text \<open>What a user of the zipper sees: undoing the edits of a run brings back every state it passed.\<close>

fun undo_times :: "nat \<Rightarrow> ink_layer \<Rightarrow> ink_layer" where
  "undo_times 0 l = l"
| "undo_times (Suc n) l = undo_times n (fst (layer_undo l))"

fun redo_times :: "nat \<Rightarrow> ink_layer \<Rightarrow> ink_layer" where
  "redo_times 0 l = l"
| "redo_times (Suc n) l = redo_times n (fst (layer_redo l))"

text \<open>The oldest state of the history is the one the run started in.\<close>

lemma zipper_bottom:
  "zipper_run z cmds z' \<Longrightarrow> case z of (past, ss, _) \<Rightarrow> case z' of (past', ss', _) \<Rightarrow>
     last (ss' # past') = last (ss # past)"
proof (induction rule: zipper_run.induct)
  case (z_command cmd z z1 cmds z2)
  from z_command.hyps(1) have "case z of (past, ss, _) \<Rightarrow> case z1 of (past1, ss1, _) \<Rightarrow>
      last (ss1 # past1) = last (ss # past)"
    by cases (auto simp: last_append)
  with z_command.IH show ?case by (auto split: prod.splits)
qed (auto split: prod.splits)

lemma undo_chain_length: "undo_chain view ss es ps \<Longrightarrow> length ps = length es"
  by (induction view ss es ps rule: undo_chain.induct) auto

context ink_view begin

lemma represents_below: "represents view l (past, ss, future) \<Longrightarrow> ids_below (il_next_id l) (il_strokes l)"
  by (auto simp: represents_def)

text \<open>An edit: the present is pushed, the redo stack is dropped.\<close>

lemma represents_edit:
  assumes "represents view l (past, ss, future)"
    and "map view (undo_edit e (il_strokes l')) = map view (il_strokes l)"
    and "map view (redo_edit e (il_strokes l)) = map view (il_strokes l')"
    and "ids_below n (il_strokes l')" and "il_next_id l \<le> n"
    and "il_undo l' = e # il_undo l" and "il_redo l' = []" and "il_next_id l' = n"
    and "case il_pending l' of None \<Rightarrow> True | Some s \<Rightarrow> sk_id s = n"
  shows "represents view l' (ss # past, map view (il_strokes l'), [])"
proof -
  have ss: "ss = map view (il_strokes l)" using assms(1) by (simp add: represents_def)
  have "undo_chain view (map view (il_strokes l')) (il_undo l') (ss # past)"
    using assms(1-3,6) by (simp add: represents_def ss undo_view redo_view)
  then show ?thesis
    using assms below_mono [OF _ assms(5)] by (auto simp: represents_def)
qed

lemma finish_simulated:
  assumes "represents view l (past, ss, future)" and "unat (il_next_id l) + 1 < 2 ^ 32"
    and "finish_stroke l = (l', r)"
  shows "\<exists>z. zipper_step FinishStroke (past, ss, future) z \<and> represents view l' z"
proof (cases "il_pending l")
  case None
  with assms have "represents view l' (past, ss, future)" by (auto simp: finish_stroke_def)
  then show ?thesis by (intro step_to(1)) (simp_all add: is_history_def)
next
  case (Some s)
  show ?thesis
  proof (cases "sk_points s = []")
    case True
    with assms Some have "represents view l' (past, ss, future)"
      by (auto simp: finish_stroke_def represents_def)
    then show ?thesis by (intro step_to(1)) (simp_all add: is_history_def)
  next
    case False
    have l': "l' = record_edit (Add s) (l\<lparr>il_pending := None, il_next_id := saturating_succ (il_next_id l),
        il_strokes := il_strokes l @ [s]\<rparr>)"
      using assms(3) Some False by (simp add: finish_stroke_def Let_def)
    have id: "sk_id s = il_next_id l" using assms(1) Some by (simp add: represents_def)
    note below = represents_below [OF assms(1)]
    have "il_next_id l \<noteq> - 1"
      using assms(2) by (auto simp: unsigned_minus_1_eq_mask mask_eq_exp_minus_1)
    then have n: "il_next_id l < saturating_succ (il_next_id l)"
      using assms(2) by (simp add: saturating_succ_def word_less_nat_alt unat_word_ariths)
    have new: "sk_id s \<notin> sk_id ` set (il_strokes l)" using below id by (auto simp: ids_below_def)
    have "ids_below (saturating_succ (il_next_id l)) (il_strokes l @ [s])"
      using below n id new by (auto simp: ids_below_def intro: less_trans)
    then have "represents view l' (ss # past, map view (il_strokes l'), [])"
      using add_inverse [OF new] n
      by (intro represents_edit [OF assms(1), of "Add s" _ "saturating_succ (il_next_id l)"])
        (simp_all add: l' record_edit_def)
    then show ?thesis using step_to(2) [of _ view l' "[]"] by (simp add: is_history_def)
  qed
qed

text \<open>The loop of the eraser pushes one state for each stroke it removes.\<close>

lemma erase_loop_simulated:
  "erase_loop hit n l = (l', removed) \<Longrightarrow> n \<le> length (il_strokes l) \<Longrightarrow>
   represents view (l\<lparr>il_redo := []\<rparr>) (past, map view (il_strokes l), []) \<Longrightarrow>
     il_redo l' = il_redo l \<and> (removed = [] \<longrightarrow> l' = l) \<and>
     (\<exists>qs. represents view (l'\<lparr>il_redo := []\<rparr>) (qs @ past, map view (il_strokes l'), []) \<and>
        (removed \<noteq> [] \<longrightarrow> qs \<noteq> [] \<and> last qs = map view (il_strokes l)))"
proof (induction n arbitrary: l l' removed past)
  case (Suc n)
  let ?ss = "il_strokes l"
  have n: "n < length ?ss" using Suc.prems(2) by simp
  show ?case
  proof (cases "hit (?ss ! n)")
    case False
    then have "erase_loop hit n l = (l', removed)" using Suc.prems(1) by (simp add: Let_def)
    from Suc.IH [OF this _ Suc.prems(3)] n show ?thesis by simp
  next
    case True
    let ?l1 = "l\<lparr>il_strokes := remove_at n ?ss, il_undo := Erase n (?ss ! n) # il_undo l\<rparr>"
    obtain removed1 where r: "erase_loop hit n ?l1 = (l', removed1)" "removed = sk_id (?ss ! n) # removed1"
      using Suc.prems(1) True by (auto simp: Let_def split: prod.splits)
    have below: "ids_below (il_next_id l) ?ss" using represents_below [OF Suc.prems(3)] by simp
    then have d: "distinct (map sk_id ?ss)" by (simp add: ids_below_def)
    have "represents view (?l1\<lparr>il_redo := []\<rparr>)
        (map view ?ss # past, map view (il_strokes (?l1\<lparr>il_redo := []\<rparr>)), [])"
    proof (rule represents_edit [OF Suc.prems(3)])
      have "undo_edit (Erase n (?ss ! n)) (remove_at n ?ss) = ?ss"
        using n by (simp add: min_remove remove_insert del: length_remove_at)
      then show "map view (undo_edit (Erase n (?ss ! n)) (il_strokes (?l1\<lparr>il_redo := []\<rparr>))) =
          map view (il_strokes (l\<lparr>il_redo := []\<rparr>))" by simp
      show "map view (redo_edit (Erase n (?ss ! n)) (il_strokes (l\<lparr>il_redo := []\<rparr>))) =
          map view (il_strokes (?l1\<lparr>il_redo := []\<rparr>))"
        using remove_first_at [OF d n] by simp
    qed (use below Suc.prems(3) in \<open>simp_all add: ids_below_remove represents_def split: option.splits\<close>)
    moreover have "n \<le> length (il_strokes ?l1)" using n by simp
    ultimately obtain qs where "il_redo l' = il_redo ?l1"
      "represents view (l'\<lparr>il_redo := []\<rparr>) (qs @ map view ?ss # past, map view (il_strokes l'), [])"
      using Suc.IH [OF r(1), of "map view ?ss # past"] by auto
    then show ?thesis using r(2) by (auto intro!: exI [of _ "qs @ [map view ?ss]"])
  qed
qed (auto intro!: exI [of _ "[]"])

text \<open>An edit that leaves identifiers and the stroke being drawn alone.\<close>

lemma represents_record:
  assumes "represents view l (past, ss, future)"
    and "map view (undo_edit e ss') = map view (il_strokes l)"
    and "map view (redo_edit e (il_strokes l)) = map view ss'" and "ids_below (il_next_id l) ss'"
  shows "represents view (record_edit e (l\<lparr>il_strokes := ss'\<rparr>)) (ss # past, map view ss', [])"
  using represents_edit [OF assms(1), of e "record_edit e (l\<lparr>il_strokes := ss'\<rparr>)" "il_next_id l"] assms
  by (simp add: record_edit_def represents_def)

lemma erase_simulated:
  assumes "represents view l (past, ss, future)" and "erase_at l x y r = (l', removed)"
  shows "\<exists>z. zipper_step (EraseAt x y r) (past, ss, future) z \<and> represents view l' z"
proof -
  let ?hit = "\<lambda>s. stroke_hit s x y r"
  have ss: "map view (il_strokes l) = ss" by (rule represents_strokes [OF assms(1)])
  obtain l1 where l1: "erase_loop ?hit (length (il_strokes l)) l = (l1, removed)"
    "l' = (if removed \<noteq> [] then l1\<lparr>il_redo := []\<rparr> else l1)"
    using assms(2) by (auto simp: erase_at_def Let_def split: prod.splits)
  have "represents view (l\<lparr>il_redo := []\<rparr>) (past, map view (il_strokes l), [])"
    using assms(1) by (auto simp: represents_def split: option.splits)
  from erase_loop_simulated [OF l1(1) order_refl this] obtain qs where
    q: "removed = [] \<longrightarrow> l1 = l"
    "represents view (l1\<lparr>il_redo := []\<rparr>) (qs @ past, map view (il_strokes l1), [])"
    "removed \<noteq> [] \<longrightarrow> qs \<noteq> [] \<and> last qs = ss" using ss by blast
  show ?thesis
  proof (cases "removed = []")
    case True
    with q l1(2) assms(1) show ?thesis by (intro step_to(1)) (simp_all add: is_history_def)
  next
    case False
    then have "qs = butlast qs @ [ss]" using q(3) append_butlast_last_id by metis
    then have "represents view l' (butlast qs @ ss # past, map view (il_strokes l1), [])"
      using q(2) l1(2) False by (metis append.assoc append_Cons append_Nil)
    then show ?thesis by (intro step_to(2)) (simp_all add: is_history_def)
  qed
qed

lemma move_simulated:
  assumes "represents view l (past, ss, future)" and "move_strokes l ids dx dy = Some (l', r)"
    and "move_inverts view l (MoveStrokes ids dx dy)"
  shows "\<exists>z. zipper_step (MoveStrokes ids dx dy) (past, ss, future) z \<and> represents view l' z"
proof (cases r)
  case None
  with assms(1,2) have "represents view l' (past, ss, future)"
    by (auto simp: move_strokes_def split: if_splits option.splits prod.splits)
  then show ?thesis by (intro step_to(1)) (simp_all add: is_history_def)
next
  case (Some c)
  obtain cdx cdy where c: "c = (cdx, cdy)" by fastforce
  let ?ss = "il_strokes l"
  have l': "l' = record_edit (Move ids cdx cdy) (l\<lparr>il_strokes := translate ids cdx cdy ?ss\<rparr>)"
    using assms(2) Some c by (auto simp: move_strokes_def split: if_splits option.splits prod.splits)
  have "map view (translate ids (f32_neg cdx) (f32_neg cdy) (translate ids cdx cdy ?ss)) = map view ?ss"
    using assms(2,3) Some c by (simp add: move_inverts_def)
  then have "represents view l' (ss # past, map view (translate ids cdx cdy ?ss), [])"
    unfolding l' using below_cong [OF translate_ids represents_below [OF assms(1)]]
    by (intro represents_record [OF assms(1)]) simp_all
  then show ?thesis using step_to(2) [of _ view l' "[]"] by (simp add: is_history_def)
qed

lemma delete_simulated:
  assumes "represents view l (past, ss, future)" and "delete_strokes l ids = (l', r)"
  shows "\<exists>z. zipper_step (DeleteStrokes ids) (past, ss, future) z \<and> represents view l' z"
proof -
  let ?ss = "il_strokes l"
  obtain ss1 removed where d: "delete_loop ids (length ?ss) ?ss = (ss1, removed)" by fastforce
  note undo = delete_loop_undo [OF d order_refl] and result = delete_loop_result [OF d order_refl]
  show ?thesis
  proof (cases "removed = []")
    case True
    then have "ss1 = ?ss" using undo by simp
    then have "l' = l" using assms(2) d True by (auto simp: delete_strokes_def Let_def)
    with assms(1) show ?thesis by (intro step_to(1)) (simp_all add: is_history_def)
  next
    case False
    have ss1: "ss1 = filter (\<lambda>s. sk_id s \<notin> set ids) ?ss" using result by simp
    have gone: "set (map (sk_id \<circ> snd) (rev removed)) = {i. i \<in> set ids \<and> i \<in> sk_id ` set ?ss}"
    proof -
      have "set (map (sk_id \<circ> snd) (rev removed)) = sk_id ` set (map snd removed)" by (auto simp: image_iff)
      with result show ?thesis by auto
    qed
    have "redo_edit (DeleteMany (rev removed)) ?ss = ss1"
      unfolding redo_edit.simps gone ss1 by (rule filter_cong) auto
    moreover have "undo_edit (DeleteMany (rev removed)) ss1 = ?ss" using undo by simp
    moreover have "ids_below (il_next_id l) ss1"
      using represents_below [OF assms(1)] unfolding ss1 by (auto simp: ids_below_def distinct_map_filter)
    ultimately have "represents view (record_edit (DeleteMany (rev removed)) (l\<lparr>il_strokes := ss1\<rparr>))
        (ss # past, map view ss1, [])"
      by (intro represents_record [OF assms(1)]) simp_all
    moreover have "l' = record_edit (DeleteMany (rev removed)) (l\<lparr>il_strokes := ss1\<rparr>)"
      using assms(2) d False by (simp add: delete_strokes_def Let_def)
    ultimately show ?thesis using step_to(2) [of _ view l' "[]"] by (simp add: is_history_def)
  qed
qed

lemma recolor_simulated:
  assumes "represents view l (past, ss, future)" and "recolor_strokes l ids c = (l', r)"
  shows "\<exists>z. zipper_step (RecolorStrokes ids c) (past, ss, future) z \<and> represents view l' z"
proof -
  let ?ss = "il_strokes l"
  let ?affected = "filter (\<lambda>s. sk_id s \<in> set ids) ?ss"
  let ?ss1 = "map (\<lambda>s. if sk_id s \<in> set ids then s\<lparr>sk_color := c\<rparr> else s) ?ss"
  let ?e = "Recolor (map sk_id ?affected) (map sk_color ?affected) c"
  note below = represents_below [OF assms(1)]
  show ?thesis
  proof (cases "?affected = []")
    case True
    then have "?ss1 = ?ss" by (intro map_idI) (auto simp: filter_empty_conv)
    then have "l' = l" using assms(2) True by (auto simp: recolor_strokes_def Let_def)
    with assms(1) show ?thesis by (intro step_to(1)) (simp_all add: is_history_def)
  next
    case False
    have ids: "map sk_id ?ss1 = map sk_id ?ss" by simp
    have "distinct (map sk_id ?ss)" using below by (simp add: ids_below_def)
    note inv = recolor_inverse [OF this refl refl, of ids c]
    have "represents view (record_edit ?e (l\<lparr>il_strokes := ?ss1\<rparr>)) (ss # past, map view ?ss1, [])"
      by (rule represents_record [OF assms(1) _ _ below_cong [OF ids below]]) (simp_all only: inv)
    moreover have "l' = record_edit ?e (l\<lparr>il_strokes := ?ss1\<rparr>)"
      using assms(2) False by (simp add: recolor_strokes_def Let_def)
    ultimately show ?thesis using step_to(2) [of _ view l' "[]"] by (simp add: is_history_def)
  qed
qed

lemma paste_simulated:
  assumes "represents view l (past, ss, future)" and "paste_strokes l clip dx dy = (l', r)"
    and "il_pending l = None" and "unat (il_next_id l) + length clip < 2 ^ 32"
  shows "\<exists>z. zipper_step (PasteStrokes clip dx dy) (past, ss, future) z \<and> represents view l' z"
proof (cases "clip = [] \<or> \<not> f32_is_finite dx \<or> \<not> f32_is_finite dy")
  case True
  then have "l' = l" using assms(2) by (auto simp: paste_strokes_def)
  with assms(1) show ?thesis by (intro step_to(1)) (simp_all add: is_history_def)
next
  case False
  let ?ss = "il_strokes l"
  obtain n added where p: "paste_loop dx dy clip (il_next_id l) = (n, added)" by fastforce
  note ids = paste_loop_ids [OF p assms(4)] and below = represents_below [OF assms(1)]
  have n: "il_next_id l \<le> n" using ids by (simp add: word_le_nat_alt)
  have apart: "\<forall>s\<in>set ?ss. \<forall>a\<in>set added. sk_id s \<noteq> sk_id a"
    using ids below by (fastforce simp: ids_below_def)
  have l': "l' = record_edit (AddMany added) (l\<lparr>il_next_id := n, il_strokes := ?ss @ added\<rparr>)"
    using assms(2) p False by (simp add: paste_strokes_def)
  have "ids_below n (?ss @ added)"
    using ids below n apart by (auto simp: ids_below_def intro: less_le_trans)
  then have "represents view l' (ss # past, map view (il_strokes l'), [])"
    using add_many_inverse [OF apart] n assms(3)
    by (intro represents_edit [OF assms(1), of "AddMany added" _ n]) (simp_all add: l' record_edit_def)
  then show ?thesis using step_to(2) [of _ view l' "[]"] by (simp add: is_history_def)
qed

lemma undo_simulated:
  assumes "represents view l (past, ss, future)" and "layer_undo l = (l', r)"
  shows "\<exists>z. zipper_step UndoEdit (past, ss, future) z \<and> represents view l' z"
proof (cases "il_undo l")
  case Nil
  then have "past = []" "l' = l" using assms by (cases past; auto simp: represents_def layer_undo_def)+
  with assms(1) zipper_step.no_undo show ?thesis by blast
next
  case (Cons e es)
  then obtain p ps where past: "past = p # ps" "map view (undo_edit e ss) = p" "map view (redo_edit e p) = ss"
    "undo_chain view p es ps"
    using assms(1) by (cases past) (auto simp: represents_def)
  have "map view (undo_edit e (il_strokes l)) = p"
    using past(2) undo_view represents_strokes [OF assms(1)] by metis
  then have "represents view l' (ps, p, ss # future)"
    using assms Cons past by (auto simp: represents_def layer_undo_def split: option.splits)
  with past(1) zipper_step.undone show ?thesis by blast
qed

lemma redo_simulated:
  assumes "represents view l (past, ss, future)" and "layer_redo l = (l', r)"
  shows "\<exists>z. zipper_step RedoEdit (past, ss, future) z \<and> represents view l' z"
proof (cases "il_redo l")
  case Nil
  then have "future = []" "l' = l" using assms by (cases future; auto simp: represents_def layer_redo_def)+
  with assms(1) zipper_step.no_redo show ?thesis by blast
next
  case (Cons e es)
  then obtain f fs where future: "future = f # fs" "map view (redo_edit e ss) = f"
    "map view (undo_edit e f) = ss" "redo_chain view f es fs"
    using assms(1) by (cases future) (auto simp: represents_def)
  have "map view (redo_edit e (il_strokes l)) = f"
    using future(2) redo_view represents_strokes [OF assms(1)] by metis
  then have "represents view l' (ss # past, f, fs)"
    using assms Cons future by (auto simp: represents_def layer_redo_def split: option.splits)
  with future(1) zipper_step.redone show ?thesis by blast
qed

lemma step_simulated:
  assumes "represents view l z" and "allowed l cmd" and "move_inverts view l cmd" and "run_command l cmd = Some l'"
  shows "\<exists>z'. zipper_step cmd z z' \<and> represents view l' z'"
proof -
  obtain past ss future where z: "z = (past, ss, future)" by (cases z)
  note rep = assms(1) [unfolded z]
  have same: "\<exists>z'. zipper_step cmd (past, ss, future) z' \<and> represents view l' z'"
    if "\<not> is_history cmd" "represents view l' (past, ss, future)"
    using step_to(1) that .
  show ?thesis
  proof (cases cmd)
    case (StartStroke t c w ms)
    with rep assms(4) show ?thesis unfolding z
      by (intro same) (auto simp: is_history_def start_stroke_def represents_def Let_def split: option.splits)
  next
    case (PushPoint p)
    with rep assms(4) show ?thesis unfolding z
      by (intro same) (auto simp: is_history_def push_point_def represents_def split: option.splits)
  next
    case FinishStroke
    with assms finish_simulated [OF rep] show ?thesis unfolding z
      by (cases "finish_stroke l") (auto simp: allowed_def)
  next
    case CancelStroke
    with rep assms(4) show ?thesis unfolding z
      by (intro same) (auto simp: is_history_def cancel_stroke_def represents_def)
  next
    case (EraseAt x y r)
    with assms erase_simulated [OF rep] show ?thesis unfolding z
      by (cases "erase_at l x y r") auto
  next
    case (MoveStrokes ids dx dy)
    with assms move_simulated [OF rep] show ?thesis unfolding z by auto
  next
    case (DeleteStrokes ids)
    with assms delete_simulated [OF rep] show ?thesis unfolding z
      by (cases "delete_strokes l ids") auto
  next
    case (RecolorStrokes ids c)
    with assms recolor_simulated [OF rep] show ?thesis unfolding z
      by (cases "recolor_strokes l ids c") auto
  next
    case (PasteStrokes clip dx dy)
    with assms paste_simulated [OF rep] show ?thesis unfolding z
      by (cases "paste_strokes l clip dx dy") (auto simp: allowed_def)
  next
    case UndoEdit
    with assms undo_simulated [OF rep] show ?thesis unfolding z by (cases "layer_undo l") auto
  next
    case RedoEdit
    with assms redo_simulated [OF rep] show ?thesis unfolding z by (cases "layer_redo l") auto
  qed
qed

lemma run_simulated:
  "ink_run l cmds l' \<Longrightarrow> moves_invert view l cmds \<Longrightarrow> represents view l z \<Longrightarrow>
     \<exists>z'. zipper_run z cmds z' \<and> represents view l' z'"
proof (induction arbitrary: z rule: ink_run.induct)
  case (nothing l)
  then show ?case using zipper_run.z_nothing by blast
next
  case (command l cmd l1 cmds l2)
  have moves: "move_inverts view l cmd" "moves_invert view l1 cmds"
    using command.prems(1) command.hyps(2) by simp_all
  from step_simulated [OF command.prems(2) command.hyps(1) moves(1) command.hyps(2)] obtain z1 where
    "zipper_step cmd z z1" "represents view l1 z1" by blast
  with command.IH [OF moves(2)] zipper_run.z_command show ?case by blast
qed

lemma loaded_represents:
  assumes "distinct (map sk_id ss)" and "- 1 \<notin> sk_id ` set ss"
  shows "represents view (from_strokes ss) ([], map view ss, [])"
proof -
  have "\<forall>s\<in>set ss. sk_id s < il_next_id (from_strokes ss)"
  proof
    fix s assume s: "s \<in> set ss"
    let ?m = "Max (set (map sk_id ss))"
    have "sk_id s \<le> ?m" and m: "?m \<in> sk_id ` set ss" using s by (auto intro: Max_in)
    moreover have "?m < ?m + 1"
    proof -
      have "?m \<noteq> - 1" using m assms(2) by metis
      then have "1 + ?m \<noteq> 0" by (metis add_diff_cancel_left' diff_0)
      then have "unat (1 + ?m) = Suc (unat ?m)" by (rule unatSuc)
      then show ?thesis by (simp add: word_less_nat_alt add.commute)
    qed
    ultimately show "sk_id s < il_next_id (from_strokes ss)"
      using s assms(2) by (cases ss) (auto simp: from_strokes_def saturating_succ_def intro: le_less_trans)
  qed
  then have "ids_below (il_next_id (from_strokes ss)) ss" using assms(1) by (simp add: ids_below_def)
  then show ?thesis by (simp add: represents_def) (simp add: from_strokes_def)
qed

lemma undo_represents:
  "represents view l (ps @ qs, ss, fs) \<Longrightarrow>
     represents view (undo_times (length ps) l) (qs, last (ss # ps), rev (butlast (ss # ps)) @ fs)"
proof (induction ps arbitrary: l ss fs)
  case (Cons p ps)
  obtain l1 r where u: "layer_undo l = (l1, r)" by fastforce
  from undo_simulated [OF Cons.prems u] obtain z where
    "zipper_step UndoEdit ((p # ps) @ qs, ss, fs) z" "represents view l1 z" by blast
  then have "represents view l1 (ps @ qs, p, ss # fs)" by (auto elim!: undo_stepE simp: is_history_def)
  from Cons.IH [OF this] u show ?case by auto
qed auto

lemma redo_represents:
  "represents view l (qs, ss, fs @ gs) \<Longrightarrow>
     represents view (redo_times (length fs) l) (rev (butlast (ss # fs)) @ qs, last (ss # fs), gs)"
proof (induction fs arbitrary: l ss qs)
  case (Cons f fs)
  obtain l1 r where u: "layer_redo l = (l1, r)" by fastforce
  from redo_simulated [OF Cons.prems u] obtain z where
    "zipper_step RedoEdit (qs, ss, (f # fs) @ gs) z" "represents view l1 z" by blast
  then have "represents view l1 (ss # qs, f, fs @ gs)" by (auto elim!: redo_stepE simp: is_history_def)
  from Cons.IH [OF this] u show ?case by auto
qed auto

lemma undo_all_redo_all:
  assumes "represents view l (past, ss, future)"
  shows "map view (il_strokes (undo_times (length past) l)) = last (ss # past)"
    and "map view (il_strokes (redo_times (length past) (undo_times (length past) l))) = ss"
proof -
  have u: "represents view (undo_times (length past) l) ([], last (ss # past), rev (butlast (ss # past)) @ future)"
    using undo_represents [of l past "[]"] assms by simp
  then show "map view (il_strokes (undo_times (length past) l)) = last (ss # past)" by (rule represents_strokes)
  have "last (last (ss # past) # rev (butlast (ss # past))) = ss" by (cases past) simp_all
  moreover have "length (rev (butlast (ss # past))) = length past" by simp
  ultimately show "map view (il_strokes (redo_times (length past) (undo_times (length past) l))) = ss"
    using represents_strokes [OF redo_represents [OF u]] by metis
qed

text \<open>The history of a run from a loaded page.\<close>

lemma history_run:
  assumes "distinct (map sk_id ss)" and "- 1 \<notin> sk_id ` set ss"
    and "ink_run (from_strokes ss) cmds l" and "moves_invert view (from_strokes ss) cmds"
  shows "\<exists>past future. zipper_run ([], map view ss, []) cmds (past, map view (il_strokes l), future) \<and>
      length past = length (il_undo l)"
    and "map view (il_strokes (undo_times (length (il_undo l)) l)) = map view ss"
    and "map view (il_strokes (redo_times (length (il_undo l)) (undo_times (length (il_undo l)) l))) =
      map view (il_strokes l)"
proof -
  from run_simulated [OF assms(3,4) loaded_represents [OF assms(1,2)]]
  obtain past ss' future where z: "zipper_run ([], map view ss, []) cmds (past, ss', future)"
    "represents view l (past, ss', future)" by auto
  have ss': "ss' = map view (il_strokes l)" using represents_strokes [OF z(2)] by simp
  have bottom: "last (ss' # past) = map view ss" using zipper_bottom [OF z(1)] by simp
  have n: "length past = length (il_undo l)"
    using z(2) undo_chain_length by (auto simp: represents_def)
  show "\<exists>past future. zipper_run ([], map view ss, []) cmds (past, map view (il_strokes l), future) \<and>
      length past = length (il_undo l)"
    using z(1) n unfolding ss' by blast
  show "map view (il_strokes (undo_times (length (il_undo l)) l)) = map view ss"
    using undo_all_redo_all(1) [OF z(2)] bottom by (simp add: n)
  show "map view (il_strokes (redo_times (length (il_undo l)) (undo_times (length (il_undo l)) l))) =
      map view (il_strokes l)"
    using undo_all_redo_all(2) [OF z(2)] ss' by (simp add: n)
qed

end

lemma map_whole [simp]: "map whole ss = ss"
  by (simp add: whole_def [abs_def])

end
