(* ===== verification/Ink_Codec.thy ===== *)
theory Ink_Codec
  imports Ink_Model Rust_Strings
begin

text \<open>
  \<open>inkread-ink/src/codec.rs\<close>: the \<open>.inkbin\<close> encoding of a page, and the draw wire of
  \<open>reader-core/src/ink_wire.rs\<close>.  A cursor is the rest of the bytes it has not read.
\<close>

section \<open>Encoding\<close>

definition inkbin_magic :: "u8 list" where
  "inkbin_magic = [0x49, 0x4E, 0x4B, 0x42]"

definition inkbin_version :: u8 where "inkbin_version = 1"
definition flag_tilt_x :: u8 where "flag_tilt_x = 1"
definition flag_tilt_y :: u8 where "flag_tilt_y = 2"
definition max_strokes_per_page :: u32 where "max_strokes_per_page = 1000000"
definition max_points_per_stroke :: u32 where "max_points_per_stroke = 10000000"

text \<open>\<open>u32::try_from(n).unwrap_or(u32::MAX)\<close>.\<close>

definition count_u32 :: "nat \<Rightarrow> u32" where
  "count_u32 n = (if n < 2 ^ 32 then of_nat n else - 1)"

definition point_flags :: "ink_point \<Rightarrow> u8" where
  "point_flags p =
     (if ip_tilt_x p \<noteq> None then flag_tilt_x else 0) OR (if ip_tilt_y p \<noteq> None then flag_tilt_y else 0)"

definition encode_tilt :: "f32 option \<Rightarrow> u8 list" where
  "encode_tilt t = (case t of Some v \<Rightarrow> le_bytes 4 v | None \<Rightarrow> [])"

definition encode_point :: "ink_point \<Rightarrow> u8 list" where
  "encode_point p =
     le_bytes 4 (ip_x p) @ le_bytes 4 (ip_y p) @ le_bytes 4 (ip_pressure p) @ [point_flags p] @
     encode_tilt (ip_tilt_x p) @ encode_tilt (ip_tilt_y p) @ le_bytes 4 (ip_timestamp_ms p)"

definition encode_stroke :: "stroke \<Rightarrow> u8 list" where
  "encode_stroke s =
     (let pcount = count_u32 (length (sk_points s))
      in le_bytes 4 (sk_id s) @ [tool_code (sk_tool s)] @
         [ic_r (sk_color s), ic_g (sk_color s), ic_b (sk_color s), ic_a (sk_color s)] @
         le_bytes 4 (sk_width s) @ le_bytes 8 (sk_created_at_ms s) @ le_bytes 4 pcount @
         concat (map encode_point (take (unat pcount) (sk_points s))))"

definition encode_layer :: "ink_layer \<Rightarrow> u8 list" where
  "encode_layer l =
     inkbin_magic @ [inkbin_version] @ le_bytes 4 (count_u32 (length (il_strokes l))) @
     concat (map encode_stroke (take 4294967295 (il_strokes l)))"

section \<open>Decoding\<close>

type_synonym 'a reader = "u8 list \<Rightarrow> ink_error + ('a \<times> u8 list)"

definition read_bytes :: "nat \<Rightarrow> u8 list reader" where
  "read_bytes n bs =
     (if n \<le> length bs then Inr (take n bs, drop n bs) else Inl (BadEncoding ''unexpected end of data''))"

definition rthen :: "'a reader \<Rightarrow> ('a \<Rightarrow> 'b reader) \<Rightarrow> 'b reader" where
  "rthen r f bs = rbind (r bs) (\<lambda>(a, rest). f a rest)"

definition rpure :: "'a \<Rightarrow> 'a reader" where
  "rpure a bs = Inr (a, bs)"

definition rfail :: "string \<Rightarrow> 'a reader" where
  "rfail m bs = Inl (BadEncoding m)"

definition rcheck :: "bool \<Rightarrow> string \<Rightarrow> unit reader" where
  "rcheck ok m = (if ok then rpure () else rfail m)"

definition rlift :: "ink_error + 'a \<Rightarrow> 'a reader" where
  "rlift r bs = rbind r (\<lambda>a. Inr (a, bs))"

definition read_u8 :: "u8 reader" where
  "read_u8 = rthen (read_bytes 1) (\<lambda>b. rpure (b ! 0))"

definition read_u32 :: "u32 reader" where
  "read_u32 = rthen (read_bytes 4) (\<lambda>b. rpure (from_le b))"

definition read_u64 :: "u64 reader" where
  "read_u64 = rthen (read_bytes 8) (\<lambda>b. rpure (from_le b))"

definition read_f32 :: "f32 reader" where
  "read_f32 = rthen (read_bytes 4) (\<lambda>b. rpure (from_le b))"

definition read_tilt :: "bool \<Rightarrow> f32 option reader" where
  "read_tilt present = (if present then rthen read_f32 (\<lambda>v. rpure (Some v)) else rpure None)"

primrec read_times :: "nat \<Rightarrow> 'a reader \<Rightarrow> 'a list reader" where
  "read_times 0 r = rpure []"
| "read_times (Suc n) r = rthen r (\<lambda>a. rthen (read_times n r) (\<lambda>as. rpure (a # as)))"

definition read_point :: "ink_point reader" where
  "read_point =
     rthen read_f32 (\<lambda>x. rthen read_f32 (\<lambda>y. rthen read_f32 (\<lambda>pressure.
     rthen read_u8 (\<lambda>flags.
     rthen (read_tilt (flags AND flag_tilt_x \<noteq> 0)) (\<lambda>tilt_x.
     rthen (read_tilt (flags AND flag_tilt_y \<noteq> 0)) (\<lambda>tilt_y.
     rthen read_u32 (\<lambda>timestamp_ms.
       rlift (ink_point_new x y pressure tilt_x tilt_y timestamp_ms))))))))"

definition read_stroke :: "u32 set \<Rightarrow> stroke reader" where
  "read_stroke seen_ids =
     rthen read_u32 (\<lambda>id.
     rthen (rcheck (id \<notin> seen_ids) ''duplicate stroke id'') (\<lambda>_.
     rthen read_u8 (\<lambda>code.
     rthen (case tool_from_code code of Some t \<Rightarrow> rpure t | None \<Rightarrow> rfail ''unknown tool code'') (\<lambda>t.
     rthen read_u8 (\<lambda>r. rthen read_u8 (\<lambda>g. rthen read_u8 (\<lambda>b. rthen read_u8 (\<lambda>a.
     rthen read_f32 (\<lambda>width.
     rthen (rcheck (f32_is_finite width \<and> \<not> f32_le width 0) ''non-finite or non-positive width'') (\<lambda>_.
     rthen read_u64 (\<lambda>created_at_ms.
     rthen read_u32 (\<lambda>point_count.
     rthen (rcheck (point_count \<noteq> 0) ''stroke has no points'') (\<lambda>_.
     rthen (rcheck (point_count \<le> max_points_per_stroke)
              (''point count '' @ show_u32 point_count @ '' exceeds the limit '' @
               show_u32 max_points_per_stroke)) (\<lambda>_.
     rthen (read_times (unat point_count) read_point) (\<lambda>points.
       rpure \<lparr>sk_id = id, sk_tool = t, sk_color = \<lparr>ic_r = r, ic_g = g, ic_b = b, ic_a = a\<rparr>,
              sk_width = width, sk_points = points, sk_created_at_ms = created_at_ms\<rparr>)))))))))))))))"

primrec read_strokes :: "nat \<Rightarrow> u32 set \<Rightarrow> stroke list reader" where
  "read_strokes 0 seen = rpure []"
| "read_strokes (Suc n) seen =
     rthen (read_stroke seen) (\<lambda>s.
     rthen (read_strokes n (insert (sk_id s) seen)) (\<lambda>ss. rpure (s # ss)))"

definition read_header :: "u32 reader" where
  "read_header =
     rthen (read_bytes 4) (\<lambda>magic.
     rthen (rcheck (magic = inkbin_magic) ''bad magic'') (\<lambda>_.
     rthen read_u8 (\<lambda>ver.
     rthen (rcheck (ver = inkbin_version) (''unsupported version '' @ show_int (uint ver))) (\<lambda>_.
     rthen read_u32 (\<lambda>stroke_count.
     rthen (rcheck (stroke_count \<le> max_strokes_per_page)
              (''stroke count '' @ show_u32 stroke_count @ '' exceeds the limit '' @
               show_u32 max_strokes_per_page)) (\<lambda>_.
       rpure stroke_count))))))"

definition decode_layer :: "u8 list \<Rightarrow> ink_error + ink_layer" where
  "decode_layer bs =
     rbind (rthen read_header (\<lambda>n. read_strokes (unat n) {}) bs) (\<lambda>(strokes, rest).
       if rest \<noteq> [] then Inl (BadEncoding ''trailing bytes after last stroke'')
       else Inr (from_strokes strokes))"

section \<open>The draw wire\<close>

definition draw_stroke :: "stroke \<Rightarrow> u8 list" where
  "draw_stroke s =
     (let c = sk_color s;
          rgba = push_bit 24 (ucast (ic_r c)) OR push_bit 16 (ucast (ic_g c)) OR
                 push_bit 8 (ucast (ic_b c)) OR (ucast (ic_a c) :: u32);
          n = min (length (sk_points s)) 65535
      in le_bytes 4 (sk_id s) @ [tool_code (sk_tool s)] @ le_bytes 4 rgba @ le_bytes 4 (sk_width s) @
         le_bytes 2 (of_nat n :: u16) @
         concat (map (\<lambda>p. le_bytes 4 (ip_x p) @ le_bytes 4 (ip_y p)) (take n (sk_points s))))"

definition encode_strokes_draw_wire :: "ink_layer \<Rightarrow> u8 list" where
  "encode_strokes_draw_wire l =
     (let count = min (length (il_strokes l)) 65535
      in [1] @ le_bytes 2 (of_nat count :: u16) @ concat (map draw_stroke (take count (il_strokes l))))"

section \<open>Valid layers\<close>

definition tilt_ok :: "f32 option \<Rightarrow> bool" where
  "tilt_ok t \<longleftrightarrow> (case t of Some v \<Rightarrow> f32_is_finite v | None \<Rightarrow> True)"

definition point_ok :: "ink_point \<Rightarrow> bool" where
  "point_ok p \<longleftrightarrow>
     f32_within 0 f32_one (ip_x p) \<and> f32_within 0 f32_one (ip_y p) \<and> f32_within 0 f32_one (ip_pressure p) \<and>
     tilt_ok (ip_tilt_x p) \<and> tilt_ok (ip_tilt_y p)"

definition stroke_ok :: "stroke \<Rightarrow> bool" where
  "stroke_ok s \<longleftrightarrow>
     f32_is_finite (sk_width s) \<and> \<not> f32_le (sk_width s) 0 \<and> sk_points s \<noteq> [] \<and>
     length (sk_points s) \<le> 10000000 \<and> list_all point_ok (sk_points s)"

definition page_ok :: "stroke list \<Rightarrow> bool" where
  "page_ok ss \<longleftrightarrow>
     length ss \<le> 1000000 \<and> distinct (map sk_id ss) \<and> list_all stroke_ok ss"

end
