(* ===== verification/Ink_Codec_Facts.thy ===== *)
theory Ink_Codec_Facts
  imports Ink_Codec
begin

text \<open>
  A reader is exact on an encoding when it reads it back, whatever follows, and reports the end of
  the data on each proper prefix.  Exactness composes along the readers of the codec.
\<close>

section \<open>Exact readers\<close>

definition end_of_data :: ink_error where
  "end_of_data = BadEncoding ''unexpected end of data''"

definition exact :: "'a reader \<Rightarrow> u8 list \<Rightarrow> 'a \<Rightarrow> bool" where
  "exact r bs a \<longleftrightarrow>
     (\<forall>rest. r (bs @ rest) = Inr (a, rest)) \<and> (\<forall>n<length bs. r (take n bs) = Inl end_of_data)"

named_theorems exact_intros \<open>how exactness composes\<close>

lemma exactD: "exact r bs a \<Longrightarrow> r (bs @ rest) = Inr (a, rest)"
  "exact r bs a \<Longrightarrow> n < length bs \<Longrightarrow> r (take n bs) = Inl end_of_data"
  by (simp_all add: exact_def)

lemma exact_pure [exact_intros]: "exact (rpure a) [] a"
  by (simp add: exact_def rpure_def)

lemma exact_then [exact_intros]:
  assumes "exact r b1 a" and "exact (f a) b2 c"
  shows "exact (rthen r f) (b1 @ b2) c"
proof -
  have "rthen r f (take n (b1 @ b2)) = Inl end_of_data" if "n < length (b1 @ b2)" for n
  proof (cases "n < length b1")
    case True
    then show ?thesis using exactD(2) [OF assms(1)] by (simp add: rthen_def)
  next
    case False
    then have "take n (b1 @ b2) = b1 @ take (n - length b1) b2" by simp
    moreover have "f a (take (n - length b1) b2) = Inl end_of_data"
      using that False by (intro exactD(2) [OF assms(2)]) simp
    ultimately show ?thesis using exactD(1) [OF assms(1)] by (simp add: rthen_def)
  qed
  then show ?thesis
    using exactD(1) [OF assms(1)] exactD(1) [OF assms(2)] by (simp add: exact_def rthen_def)
qed

lemma exact_then_nothing: "exact r [] a \<Longrightarrow> exact (f a) bs c \<Longrightarrow> exact (rthen r f) bs c"
  using exact_then [of r "[]" a f bs c] by simp

lemma exact_last: "exact r bs a \<Longrightarrow> exact (rthen r (\<lambda>a. rpure (g a))) bs (g a)"
  using exact_then [of r bs a "\<lambda>a. rpure (g a)" "[]" "g a"] by (simp add: exact_pure)

lemma exact_then_end: "exact r bs a \<Longrightarrow> exact (f a) [] c \<Longrightarrow> exact (rthen r f) bs c"
  using exact_then [of r bs a f "[]" c] by simp

lemma exact_bytes: "exact (read_bytes (length bs)) bs bs"
  by (simp add: exact_def read_bytes_def end_of_data_def)

lemma exact_check: "ok \<Longrightarrow> exact (rcheck ok m) [] ()"
  by (simp add: exact_def rcheck_def rpure_def)

lemma exact_lift: "r = Inr a \<Longrightarrow> exact (rlift r) [] a"
  by (simp add: exact_def rlift_def)

lemma exact_u8: "exact read_u8 [b] b"
  using exact_last [OF exact_bytes [of "[b]"], of "\<lambda>b. b ! 0"] by (simp add: read_u8_def)

lemma exact_u32: "exact read_u32 (le_bytes 4 w) w"
  using exact_last [OF exact_bytes [of "le_bytes 4 w"], of "from_le :: _ \<Rightarrow> u32"]
  by (simp add: read_u32_def del: le_bytes.simps)

lemma exact_f32: "exact read_f32 (le_bytes 4 w) w"
  using exact_last [OF exact_bytes [of "le_bytes 4 w"], of "from_le :: _ \<Rightarrow> u32"]
  by (simp add: read_f32_def del: le_bytes.simps)

lemma exact_u64: "exact read_u64 (le_bytes 8 w) w"
  using exact_last [OF exact_bytes [of "le_bytes 8 w"], of "from_le :: _ \<Rightarrow> u64"]
  by (simp add: read_u64_def del: le_bytes.simps)

lemma exact_u8_then: "exact (f b) bs c \<Longrightarrow> exact (rthen read_u8 f) (b # bs) c"
  using exact_then [OF exact_u8, of f b bs c] by simp

lemma exact_times:
  "(\<And>x. x \<in> set xs \<Longrightarrow> exact r (enc x) x) \<Longrightarrow>
     exact (read_times (length xs) r) (concat (map enc xs)) xs"
proof (induction xs)
  case (Cons x xs)
  then have "exact r (enc x) x" and "exact (read_times (length xs) r) (concat (map enc xs)) xs" by simp_all
  then show ?case using exact_then [OF _ exact_last] by simp
qed (simp add: exact_pure)

section \<open>Round trip\<close>

lemma exact_tilt: "exact (read_tilt (t \<noteq> None)) (encode_tilt t) t"
proof (cases t)
  case (Some v)
  then show ?thesis using exact_last [OF exact_f32, of Some v] by (simp add: read_tilt_def encode_tilt_def)
qed (simp add: read_tilt_def encode_tilt_def exact_pure)

lemma flag_bits:
  "point_flags p AND flag_tilt_x \<noteq> 0 \<longleftrightarrow> ip_tilt_x p \<noteq> None"
  "point_flags p AND flag_tilt_y \<noteq> 0 \<longleftrightarrow> ip_tilt_y p \<noteq> None"
  by (auto simp: point_flags_def flag_tilt_x_def flag_tilt_y_def)

lemma exact_tilts:
  "exact (read_tilt (point_flags p AND flag_tilt_x \<noteq> 0)) (encode_tilt (ip_tilt_x p)) (ip_tilt_x p)"
  "exact (read_tilt (point_flags p AND flag_tilt_y \<noteq> 0)) (encode_tilt (ip_tilt_y p)) (ip_tilt_y p)"
  unfolding flag_bits by (rule exact_tilt)+

lemma finite_tilt_ok: "tilt_ok t \<Longrightarrow> finite_tilt t = t"
  by (auto simp: tilt_ok_def finite_tilt_def split: option.splits)

lemma point_new_ok:
  assumes "point_ok p"
  shows "ink_point_new (ip_x p) (ip_y p) (ip_pressure p) (ip_tilt_x p) (ip_tilt_y p) (ip_timestamp_ms p) = Inr p"
  using assms f32_within_finite
  by (simp add: ink_point_new_def point_ok_def f32_clamp_id finite_tilt_ok)

lemma exact_point: "point_ok p \<Longrightarrow> exact read_point (encode_point p) p"
  unfolding read_point_def encode_point_def append.simps append_Cons append_Nil
  by (intro exact_then [OF exact_f32] exact_u8_then exact_then [OF exact_tilts(1)]
      exact_then [OF exact_tilts(2)] exact_then_end [OF exact_u32] exact_lift point_new_ok)

lemma count_u32_unat: "n < 2 ^ 32 \<Longrightarrow> unat (count_u32 n) = n"
  by (simp add: count_u32_def unsigned_of_nat take_bit_nat_eq_self)

lemma tool_from_to [simp]: "tool_from_code (tool_code t) = Some t"
  by (cases t) (simp_all add: tool_from_code_def)

lemma exact_stroke:
  assumes "stroke_ok s" and "sk_id s \<notin> seen"
  shows "exact (read_stroke seen) (encode_stroke s) s"
proof -
  let ?n = "length (sk_points s)"
  have n: "unat (count_u32 ?n) = ?n" "count_u32 ?n \<noteq> 0" "count_u32 ?n \<le> max_points_per_stroke"
  proof -
    show u: "unat (count_u32 ?n) = ?n" using assms(1) by (intro count_u32_unat) (simp add: stroke_ok_def)
    show "count_u32 ?n \<noteq> 0" using u assms(1) by (auto simp: stroke_ok_def)
    show "count_u32 ?n \<le> max_points_per_stroke"
      using u assms(1) by (simp add: word_le_nat_alt max_points_per_stroke_def stroke_ok_def)
  qed
  have points: "exact (read_times ?n read_point) (concat (map encode_point (sk_points s))) (sk_points s)"
    using assms(1) by (intro exact_times exact_point) (auto simp: stroke_ok_def list_all_iff)
  have s: "\<lparr>sk_id = sk_id s, sk_tool = sk_tool s,
      sk_color = \<lparr>ic_r = ic_r (sk_color s), ic_g = ic_g (sk_color s), ic_b = ic_b (sk_color s),
                  ic_a = ic_a (sk_color s)\<rparr>, sk_width = sk_width s, sk_points = sk_points s,
      sk_created_at_ms = sk_created_at_ms s\<rparr> = s" by simp
  have tool: "exact (case tool_from_code (tool_code (sk_tool s)) of Some t \<Rightarrow> rpure t
      | None \<Rightarrow> rfail ''unknown tool code'') [] (sk_tool s)" by (simp add: exact_pure)
  have width: "f32_is_finite (sk_width s) \<and> \<not> f32_le (sk_width s) 0" using assms(1) by (simp add: stroke_ok_def)
  show ?thesis
    unfolding read_stroke_def encode_stroke_def Let_def n(1) take_all [OF order_refl] append_Cons append_Nil
    apply (rule exact_then [OF exact_u32])
    apply (rule exact_then_nothing [OF exact_check [OF assms(2)]])
    apply (rule exact_u8_then, rule exact_then_nothing [OF tool])
    apply (rule exact_u8_then)+
    apply (rule exact_then [OF exact_f32], rule exact_then_nothing [OF exact_check [OF width]])
    apply (rule exact_then [OF exact_u64], rule exact_then [OF exact_u32])
    apply (rule exact_then_nothing [OF exact_check [OF n(2)]], rule exact_then_nothing [OF exact_check [OF n(3)]])
    apply (subst n(1))
    apply (rule exact_then_end [OF points])
    apply (unfold s, rule exact_pure)
    done
qed

lemma exact_strokes:
  "list_all stroke_ok ss \<Longrightarrow> distinct (map sk_id ss) \<Longrightarrow> seen \<inter> sk_id ` set ss = {} \<Longrightarrow>
     exact (read_strokes (length ss) seen) (concat (map encode_stroke ss)) ss"
proof (induction ss arbitrary: seen)
  case (Cons s ss)
  have "exact (read_strokes (length ss) (insert (sk_id s) seen)) (concat (map encode_stroke ss)) ss"
    using Cons by (intro Cons.IH) auto
  moreover have "exact (read_stroke seen) (encode_stroke s) s"
    using Cons.prems by (intro exact_stroke) auto
  ultimately show ?case using exact_then [OF _ exact_last] by simp
qed (simp add: exact_pure)

lemma exact_magic: "exact (read_bytes 4) inkbin_magic inkbin_magic"
  using exact_bytes [of inkbin_magic] by (simp add: inkbin_magic_def eval_nat_numeral)

lemma exact_header:
  assumes "n \<le> max_strokes_per_page"
  shows "exact read_header (inkbin_magic @ [inkbin_version] @ le_bytes 4 n) n"
  unfolding read_header_def append_Cons append_Nil
  by (intro exact_then [OF exact_magic] exact_then_nothing [OF exact_check] exact_u8_then
      exact_then_end [OF exact_u32] exact_pure refl assms)

lemma exact_page:
  assumes "page_ok ss"
  shows "exact (rthen read_header (\<lambda>n. read_strokes (unat n) {}))
    (inkbin_magic @ [inkbin_version] @ le_bytes 4 (count_u32 (length ss)) @ concat (map encode_stroke ss)) ss"
proof -
  have u: "unat (count_u32 (length ss)) = length ss"
    using assms by (intro count_u32_unat) (simp add: page_ok_def)
  then have "count_u32 (length ss) \<le> max_strokes_per_page"
    using assms by (simp add: word_le_nat_alt max_strokes_per_page_def page_ok_def)
  from exact_then [OF exact_header [OF this], of "\<lambda>n. read_strokes (unat n) {}"] show ?thesis
    using exact_strokes [of ss "{}"] assms u by (simp add: page_ok_def)
qed

lemma encode_page: "page_ok (il_strokes l) \<Longrightarrow> encode_layer l =
    inkbin_magic @ [inkbin_version] @ le_bytes 4 (count_u32 (length (il_strokes l))) @
    concat (map encode_stroke (il_strokes l))"
  by (simp add: encode_layer_def page_ok_def)

section \<open>What decodes is valid\<close>

lemma rthen_Inr: "rthen r f bs = Inr (c, rest) \<longleftrightarrow> (\<exists>a mid. r bs = Inr (a, mid) \<and> f a mid = Inr (c, rest))"
  by (auto simp: rthen_def result_simps)

lemma rpure_Inr: "rpure a bs = Inr (c, rest) \<longleftrightarrow> a = c \<and> bs = rest"
  by (simp add: rpure_def)

lemma rcheck_Inr: "rcheck ok m bs = Inr (u, rest) \<longleftrightarrow> ok \<and> bs = rest"
  by (simp add: rcheck_def rpure_def rfail_def)

lemma rlift_Inr: "rlift r bs = Inr (a, rest) \<longleftrightarrow> r = Inr a \<and> bs = rest"
  by (auto simp: rlift_def result_simps)

lemmas reader_Inr = rthen_Inr rpure_Inr rcheck_Inr rlift_Inr

lemma point_new_valid: "ink_point_new x y p tx ty ts = Inr pt \<Longrightarrow> point_ok pt"
  by (auto simp: ink_point_new_def point_ok_def f32_clamp_within tilt_ok_def finite_tilt_def
      split: if_splits option.splits)

lemma read_point_valid: "read_point bs = Inr (p, rest) \<Longrightarrow> point_ok p"
  unfolding read_point_def reader_Inr by (blast intro: point_new_valid)

lemma read_times_valid:
  "read_times n r bs = Inr (xs, rest) \<Longrightarrow> (\<And>bs x rest. r bs = Inr (x, rest) \<Longrightarrow> P x) \<Longrightarrow>
     length xs = n \<and> list_all P xs"
proof (induction n arbitrary: bs xs)
  case (Suc n)
  from Suc.prems(1) obtain x mid ys where x: "r bs = Inr (x, mid)" "read_times n r mid = Inr (ys, rest)"
    "xs = x # ys"
    by (auto simp: reader_Inr)
  from Suc.IH [OF x(2) Suc.prems(2)] Suc.prems(2) [OF x(1)] x(3) show ?case by simp
qed (simp add: reader_Inr)

lemma read_stroke_valid:
  "read_stroke seen bs = Inr (s, rest) \<Longrightarrow> stroke_ok s \<and> sk_id s \<notin> seen"
proof -
  assume "read_stroke seen bs = Inr (s, rest)"
  then obtain n pts b1 b2 where n: "n \<noteq> 0" "n \<le> max_points_per_stroke"
    "read_times (unat n) read_point b1 = Inr (pts, b2)" and s: "sk_points s = pts"
    "f32_is_finite (sk_width s) \<and> \<not> f32_le (sk_width s) 0" "sk_id s \<notin> seen"
    unfolding read_stroke_def reader_Inr by fastforce
  have "length pts = unat n \<and> list_all point_ok pts"
    by (rule read_times_valid [OF n(3) read_point_valid])
  moreover have "unat n \<noteq> 0" "unat n \<le> 10000000"
    using n by (simp_all add: unat_eq_zero word_le_nat_alt max_points_per_stroke_def)
  ultimately show ?thesis using s by (auto simp: stroke_ok_def)
qed

lemma read_strokes_valid:
  "read_strokes n seen bs = Inr (ss, rest) \<Longrightarrow>
     length ss = n \<and> distinct (map sk_id ss) \<and> seen \<inter> sk_id ` set ss = {} \<and> list_all stroke_ok ss"
proof (induction n arbitrary: seen bs ss)
  case (Suc n)
  from Suc.prems obtain s mid ts where s: "read_stroke seen bs = Inr (s, mid)"
    "read_strokes n (insert (sk_id s) seen) mid = Inr (ts, rest)" "ss = s # ts"
    by (auto simp: reader_Inr)
  from Suc.IH [OF s(2)] read_stroke_valid [OF s(1)] s(3) show ?case by auto
qed (simp add: reader_Inr)

lemma decode_valid:
  assumes "decode_layer bs = Inr l"
  shows "page_ok (il_strokes l)" and "l = from_strokes (il_strokes l)"
proof -
  from assms obtain n mid ss where n: "read_header bs = Inr (n, mid)"
    "read_strokes (unat n) {} mid = Inr (ss, [])" "l = from_strokes ss"
    by (auto simp: decode_layer_def result_simps reader_Inr split: if_splits)
  have "n \<le> max_strokes_per_page" using n(1) unfolding read_header_def reader_Inr by blast
  then have "unat n \<le> 1000000" by (simp add: word_le_nat_alt max_strokes_per_page_def)
  with read_strokes_valid [OF n(2)] n(3)
  show "page_ok (il_strokes l)" and "l = from_strokes (il_strokes l)"
    by (simp_all add: page_ok_def from_strokes_def)
qed

end
