(* ===== verification/Ink_Select.thy ===== *)
theory Ink_Select
  imports Ink_Model "HOL-Library.Sublist"
begin

text \<open>
  \<open>inkread-ink/src/select.rs\<close>: which strokes a drawn loop selects.
\<close>

datatype select_mode = Smart | Freehand

definition select_mode_from_code :: "u8 \<Rightarrow> select_mode option" where
  "select_mode_from_code code = (if code = 0 then Some Smart else if code = 1 then Some Freehand else None)"

definition select_mode_code :: "select_mode \<Rightarrow> u8" where
  "select_mode_code m = (case m of Smart \<Rightarrow> 0 | Freehand \<Rightarrow> 1)"

text \<open>The edges of the closed loop: each vertex after the one before it, the first after the last.\<close>

definition loop_edges :: "(f32 \<times> f32) list \<Rightarrow> ((f32 \<times> f32) \<times> (f32 \<times> f32)) list" where
  "loop_edges poly = (if poly = [] then [] else zip (last poly # butlast poly) poly)"

definition f32_gt :: "f32 \<Rightarrow> f32 \<Rightarrow> bool" where
  "f32_gt x y = f32_lt y x"

definition point_in_polygon :: "f32 \<Rightarrow> f32 \<Rightarrow> (f32 \<times> f32) list \<Rightarrow> bool" where
  "point_in_polygon px py poly =
     fold (\<lambda>((xj, yj), (xi, yi)) inside.
         if f32_gt yi py \<noteq> f32_gt yj py then
           let t = f32_div (f32_sub py yi) (f32_sub yj yi)
           in if f32_lt px (f32_add xi (f32_mul t (f32_sub xj xi))) then \<not> inside else inside
         else inside)
       (loop_edges poly) False"

definition cross :: "f32 \<Rightarrow> f32 \<Rightarrow> f32 \<Rightarrow> f32 \<Rightarrow> f32 \<Rightarrow> f32 \<Rightarrow> f32" where
  "cross ax ay bx by' cx cy =
     f32_sub (f32_mul (f32_sub bx ax) (f32_sub cy ay)) (f32_mul (f32_sub by' ay) (f32_sub cx ax))"

definition segments_intersect ::
    "f32 \<times> f32 \<Rightarrow> f32 \<times> f32 \<Rightarrow> f32 \<times> f32 \<Rightarrow> f32 \<times> f32 \<Rightarrow> bool" where
  "segments_intersect p1 p2 p3 p4 =
     (let d1 = cross (fst p3) (snd p3) (fst p4) (snd p4) (fst p1) (snd p1);
          d2 = cross (fst p3) (snd p3) (fst p4) (snd p4) (fst p2) (snd p2);
          d3 = cross (fst p1) (snd p1) (fst p2) (snd p2) (fst p3) (snd p3);
          d4 = cross (fst p1) (snd p1) (fst p2) (snd p2) (fst p4) (snd p4)
      in f32_gt d1 0 \<noteq> f32_gt d2 0 \<and> f32_gt d3 0 \<noteq> f32_gt d4 0)"

definition stroke_crosses_polygon :: "ink_point list \<Rightarrow> (f32 \<times> f32) list \<Rightarrow> bool" where
  "stroke_crosses_polygon points poly =
     list_ex (\<lambda>(a, b). list_ex (\<lambda>(pj, pi). segments_intersect (ip_x a, ip_y a) (ip_x b, ip_y b) pj pi)
                (loop_edges poly))
       (windows2 points)"

definition stroke_selected :: "ink_point list \<Rightarrow> (f32 \<times> f32) list \<Rightarrow> select_mode \<Rightarrow> bool" where
  "stroke_selected points poly mode =
     (case mode of
        Freehand \<Rightarrow> points \<noteq> [] \<and> list_all (\<lambda>p. point_in_polygon (ip_x p) (ip_y p) poly) points
      | Smart \<Rightarrow> list_ex (\<lambda>p. point_in_polygon (ip_x p) (ip_y p) poly) points \<or>
                 stroke_crosses_polygon points poly)"

definition select_in_polygon :: "ink_layer \<Rightarrow> (f32 \<times> f32) list \<Rightarrow> select_mode \<Rightarrow> stroke_id list" where
  "select_in_polygon l poly mode =
     (if length poly < 3 then []
      else map sk_id (filter (\<lambda>s. stroke_selected (sk_points s) poly mode) (il_strokes l)))"

definition select_all :: "ink_layer \<Rightarrow> stroke_id list" where
  "select_all l = map sk_id (il_strokes l)"

definition bbox_union :: "bbox \<Rightarrow> bbox \<Rightarrow> bbox" where
  "bbox_union a b =
     \<lparr>bb_x0 = f32_min (bb_x0 a) (bb_x0 b), bb_y0 = f32_min (bb_y0 a) (bb_y0 b),
      bb_x1 = f32_max (bb_x1 a) (bb_x1 b), bb_y1 = f32_max (bb_y1 a) (bb_y1 b)\<rparr>"

definition selection_bounds :: "ink_layer \<Rightarrow> stroke_id list \<Rightarrow> bbox option" where
  "selection_bounds l ids =
     fold (\<lambda>s acc.
         if sk_id s \<notin> set ids then acc
         else (case stroke_bounds s of
                 None \<Rightarrow> acc
               | Some b \<Rightarrow> Some (case acc of None \<Rightarrow> b | Some a \<Rightarrow> bbox_union a b)))
       (il_strokes l) None"

text \<open>The precise lasso selects a part of what the forgiving one does, both in paint order.\<close>

lemma freehand_is_smart: "stroke_selected points poly Freehand \<Longrightarrow> stroke_selected points poly Smart"
  by (auto simp: stroke_selected_def list_all_iff list_ex_iff neq_Nil_conv)

lemma selection_order:
  "subseq (select_in_polygon l poly Freehand) (select_in_polygon l poly Smart)"
  "subseq (select_in_polygon l poly mode) (select_all l)"
proof -
  let ?F = "\<lambda>s. stroke_selected (sk_points s) poly Freehand"
    and ?S = "\<lambda>s. stroke_selected (sk_points s) poly Smart"
  have "filter ?F ss = filter ?F (filter ?S ss)" for ss
    by (induction ss) (auto dest: freehand_is_smart)
  then have "subseq (filter ?F ss) (filter ?S ss)" for ss
    by (metis subseq_filter_left)
  from subseq_map [OF this]
  show "subseq (select_in_polygon l poly Freehand) (select_in_polygon l poly Smart)"
    by (cases "length poly < 3") (simp_all only: select_in_polygon_def if_True if_False list_emb_Nil)
  show "subseq (select_in_polygon l poly mode) (select_all l)"
    unfolding select_in_polygon_def select_all_def by (simp add: subseq_map)
qed

end
