(* ===== verification/Ink_Properties.thy ===== *)
theory Ink_Properties
  imports Ink_History Ink_Codec_Facts Ink_Select
begin

text \<open>
  Properties of the ink domain: the history of a page, its file, and what a file may hold.
\<close>

section \<open>The history\<close>

definition red :: ink_color where
  "red = \<lparr>ic_r = 255, ic_g = 0, ic_b = 0, ic_a = 255\<rparr>"

definition black :: ink_color where
  "black = \<lparr>ic_r = 0, ic_g = 0, ic_b = 0, ic_a = 255\<rparr>"

definition dot :: ink_point where
  "dot = \<lparr>ip_x = f32_half, ip_y = f32_half, ip_pressure = f32_one, ip_tilt_x = None,
          ip_tilt_y = Some f32_half, ip_timestamp_ms = 16\<rparr>"

definition dot_stroke :: "stroke_id \<Rightarrow> ink_color \<Rightarrow> stroke" where
  "dot_stroke i c = \<lparr>sk_id = i, sk_tool = Pen, sk_color = c, sk_width = f32_half, sk_points = [dot],
                    sk_created_at_ms = 7\<rparr>"

text \<open>C32: undo and redo are a zipper.  Take a loaded page of distinct identifiers, none of them the
  largest one, and a run of commands that always has identifiers left for a finished or a pasted
  stroke and pastes nothing while a stroke is being drawn.  Up to the coordinates of points, the
  stroke lists that the edit stacks stand for change exactly as a zipper does: an edit pushes the
  present and drops what was undone, undo and redo move one step; undoing everything gives back the
  loaded strokes, with their order, tools, colours, widths, pressures and times, and redoing it all
  the present ones.  If each move of the run is undone by the opposite move in \<open>f32\<close>, as it is
  where there is no rounding, the same holds of the strokes themselves, coordinates included.
  The lemmas \<open>paste_while_drawing_collides\<close>, \<open>largest_id_collides\<close> and \<open>move_back_is_inexact\<close> show why
  each condition is there.\<close>

theorem ink_history_is_a_zipper:
  assumes "distinct (map sk_id ss)" and "- 1 \<notin> sk_id ` set ss"
    and "ink_run (from_strokes ss) cmds l" and "n = length (il_undo l)"
  shows "(\<exists>past future. zipper_run ([], map shape ss, []) cmds (past, map shape (il_strokes l), future) \<and>
      length past = n) \<and>
    map shape (il_strokes (undo_times n l)) = map shape ss \<and>
    map shape (il_strokes (redo_times n (undo_times n l))) = map shape (il_strokes l) \<and>
    (moves_invert whole (from_strokes ss) cmds \<longrightarrow>
      (\<exists>past future. zipper_run ([], ss, []) cmds (past, il_strokes l, future) \<and> length past = n) \<and>
      il_strokes (undo_times n l) = ss \<and> il_strokes (redo_times n (undo_times n l)) = il_strokes l)"
  using shapes.history_run [OF assms(1-3) moves_invert_shape] strokes.history_run [OF assms(1-3)]
  by (simp add: assms(4))

theorem ink_history_is_a_zipper_witness:
  "\<exists>l. ink_run (from_strokes [dot_stroke 3 black])
      [RecolorStrokes [3] red, PasteStrokes [dot_stroke 3 red] 0 0, DeleteStrokes [3]] l \<and>
    map sk_id (il_strokes l) = [4] \<and> il_strokes (undo_times 3 l) = [dot_stroke 3 black]"
proof -
  let ?l0 = "from_strokes [dot_stroke 3 black]"
  let ?l1 = "fst (recolor_strokes ?l0 [3] red)"
  let ?l2 = "fst (paste_strokes ?l1 [dot_stroke 3 red] 0 0)"
  let ?l3 = "fst (delete_strokes ?l2 [3])"
  have "allowed ?l0 (RecolorStrokes [3] red)" "allowed ?l2 (DeleteStrokes [3])"
    by (simp_all add: allowed_def)
  moreover have "allowed ?l1 (PasteStrokes [dot_stroke 3 red] 0 0)"
    by (simp add: allowed_def recolor_strokes_def from_strokes_def dot_stroke_def record_edit_def
        saturating_succ_def Let_def)
  ultimately have run: "ink_run ?l0
      [RecolorStrokes [3] red, PasteStrokes [dot_stroke 3 red] 0 0, DeleteStrokes [3]] ?l3"
    by (intro ink_run.command [OF _ _ ink_run.command [OF _ _ ink_run.command [OF _ _ ink_run.nothing]]])
      simp_all
  have "distinct (map sk_id [dot_stroke 3 black])" "- 1 \<notin> sk_id ` set [dot_stroke 3 black]"
    by (simp_all add: dot_stroke_def)
  moreover have "map sk_id (il_strokes ?l3) = [4]" and "3 = length (il_undo ?l3)" by code_simp+
  moreover have "moves_invert whole ?l0
      [RecolorStrokes [3] red, PasteStrokes [dot_stroke 3 red] 0 0, DeleteStrokes [3]]"
    by (simp add: move_inverts_def)
  ultimately show ?thesis using ink_history_is_a_zipper [OF _ _ run] run by metis
qed

section \<open>The file\<close>

text \<open>C33: a page survives its file.  The encoding of a valid page decodes to exactly its strokes, bit
  for bit, with an empty history; cut at any byte it is refused with the end-of-data error, and
  with any byte after it as trailing, so no partial or padded file is taken for a page.\<close>

theorem inkbin_round_trip:
  assumes "page_ok (il_strokes l)"
  shows "decode_layer (encode_layer l) = Inr (from_strokes (il_strokes l)) \<and>
    (\<forall>n<length (encode_layer l). decode_layer (take n (encode_layer l)) = Inl end_of_data) \<and>
    (\<forall>x xs. decode_layer (encode_layer l @ x # xs) =
       Inl (BadEncoding ''trailing bytes after last stroke''))"
proof -
  note e = exact_page [OF assms, folded encode_page [OF assms]]
  show ?thesis
    using exactD(1) [OF e, of "[]"] exactD(1) [OF e] exactD(2) [OF e] by (simp add: decode_layer_def)
qed

theorem inkbin_round_trip_witness:
  "decode_layer (encode_layer (from_strokes [dot_stroke 3 black, dot_stroke 9 red])) =
     Inr (from_strokes [dot_stroke 3 black, dot_stroke 9 red])"
proof -
  have "point_ok dot" by code_simp
  moreover have "f32_is_finite f32_half \<and> \<not> f32_le f32_half 0" by code_simp
  ultimately have "page_ok (il_strokes (from_strokes [dot_stroke 3 black, dot_stroke 9 red]))"
    by (simp add: page_ok_def from_strokes_def dot_stroke_def stroke_ok_def)
  from inkbin_round_trip [OF this] show ?thesis by (simp add: from_strokes_def)
qed

text \<open>C34: what comes out of a file is a page the format can hold.  Whatever bytes decode, the page
  they give has distinct identifiers, finite positive widths, at least one point a stroke,
  coordinates and pressure within the page, finite tilts, and counts within the limits; its history
  is empty, and writing it and reading it back gives the same page.  Nothing is said of the tools:
  any known code is accepted, that of the eraser included (\<open>decoded_stroke_may_be_an_eraser\<close>).\<close>

theorem decoded_page_is_valid:
  assumes "decode_layer bs = Inr l"
  shows "page_ok (il_strokes l) \<and> il_undo l = [] \<and> il_redo l = [] \<and> il_pending l = None \<and>
    decode_layer (encode_layer l) = Inr l"
proof -
  note v = decode_valid [OF assms]
  note e = exact_page [OF v(1), folded encode_page [OF v(1)]]
  have "decode_layer (encode_layer l) = Inr (from_strokes (il_strokes l))"
    using exactD(1) [OF e, of "[]"] by (simp add: decode_layer_def)
  with v show ?thesis by (metis from_strokes_def ink_layer.select_convs(3-5))
qed

theorem decoded_page_is_valid_witness:
  "page_ok [] \<and> decode_layer (encode_layer layer_new) = Inr layer_new"
proof -
  have "decode_layer [0x49, 0x4E, 0x4B, 0x42, 1, 0, 0, 0, 0] = Inr layer_new" by code_simp
  from decoded_page_is_valid [OF this] show ?thesis by (simp add: layer_new_def)
qed

text \<open>A file may hold a stroke of the eraser, which the model of strokes excludes.\<close>

lemma decoded_stroke_may_be_an_eraser:
  "\<exists>bs l. decode_layer bs = Inr l \<and> map sk_tool (il_strokes l) = [Eraser] \<and>
     \<not> tool_is_ink Eraser"
proof (intro exI conjI)
  let ?s = "(dot_stroke 3 black)\<lparr>sk_tool := Eraser\<rparr>"
  have "point_ok dot" by code_simp
  moreover have "f32_is_finite f32_half \<and> \<not> f32_le f32_half 0" by code_simp
  ultimately have ok: "page_ok [?s]" by (simp add: page_ok_def dot_stroke_def stroke_ok_def)
  note e = exact_page [OF ok]
  show "decode_layer (encode_layer (from_strokes [?s])) = Inr (from_strokes [?s])"
    using exactD(1) [OF e, of "[]"] encode_page [of "from_strokes [?s]"] ok
    by (simp add: decode_layer_def from_strokes_def)
qed (simp_all add: from_strokes_def dot_stroke_def tool_is_ink_def)

section \<open>What the history does not cover\<close>

text \<open>The opposite of a move need not be exact in \<open>f32\<close>: a point at 0.1 moved by 0.7 and back.\<close>

lemma move_back_is_inexact:
  "\<exists>x dx. f32_within 0 f32_one x \<and> f32_within 0 f32_one dx \<and>
     f32_within 0 f32_one (f32_add x dx) \<and> \<not> f32_eq (f32_add (f32_add x dx) (f32_neg dx)) x"
proof (intro exI conjI)
  let ?x = "f32_ratio 1 10" and ?dx = "f32_ratio 7 10"
  show "f32_within 0 f32_one ?x" "f32_within 0 f32_one ?dx" "f32_within 0 f32_one (f32_add ?x ?dx)"
    "\<not> f32_eq (f32_add (f32_add ?x ?dx) (f32_neg ?dx)) ?x"
    by code_simp+
qed

text \<open>A paste while a stroke is being drawn gives both the same identifier, and so does a new stroke on a
  loaded page that holds the largest one; one undo then removes both strokes.\<close>

definition pasted_while_drawing :: ink_layer where
  "pasted_while_drawing =
     (let drawing = fst (push_point (fst (start_stroke layer_new Pen black f32_half 0)) dot)
      in fst (finish_stroke (fst (paste_strokes drawing [dot_stroke 5 red] 0 0))))"

lemma paste_while_drawing_collides:
  "map sk_id (il_strokes pasted_while_drawing) = [0, 0]"
  "il_strokes (fst (layer_undo pasted_while_drawing)) = []"
  by code_simp+

lemma largest_id_collides:
  "map sk_id (il_strokes (fst (finish_stroke (fst (push_point (fst (start_stroke
     (from_strokes [dot_stroke (- 1) black]) Pen black f32_half 0)) dot))))) = [- 1, - 1]"
  by code_simp

end
