(* ===== verification/File_System.thy ===== *)
theory File_System
  imports Rust_Path Rust_Collections
begin

text \<open>
  What the code uses of \<open>std::fs\<close>, on a disk whose entries are named by their path texts.  A
  disk carries a plan of what happens around the coming calls: a call may fail, a write may be
  torn, another program may change entries just before the call, and the process may die, after
  which no call has an effect.  Symbolic links are followed where the system call follows them;
  that the directories above an entry are themselves links, or that they are missing, is not
  modelled (\<open>create_dir_all\<close> makes the directory itself).  A hard link is a second entry with
  the file's identity and contents.
\<close>

section \<open>Disks\<close>

datatype io_kind = IoNotFound | IoAlreadyExists | IoInvalidInput | IoUnsupported | IoOther

record io_error =
  io_kind :: io_kind
  io_text :: string

datatype entry =
    Regular u64 bytes u64
  | Directory
  | Symlink string

fun is_file :: "entry \<Rightarrow> bool" where
  "is_file (Regular ino bs modified) \<longleftrightarrow> True"
| "is_file Directory \<longleftrightarrow> False"
| "is_file (Symlink target) \<longleftrightarrow> False"

fun is_symlink :: "entry \<Rightarrow> bool" where
  "is_symlink (Symlink target) \<longleftrightarrow> True"
| "is_symlink (Regular ino bs modified) \<longleftrightarrow> False"
| "is_symlink Directory \<longleftrightarrow> False"

fun entry_bytes :: "entry \<Rightarrow> bytes" where
  "entry_bytes (Regular ino bs modified) = bs"
| "entry_bytes Directory = []"
| "entry_bytes (Symlink target) = target"

fun entry_modified :: "entry \<Rightarrow> u64" where
  "entry_modified (Regular ino bs modified) = modified"
| "entry_modified Directory = 0"
| "entry_modified (Symlink target) = 0"

definition file_len :: "entry \<Rightarrow> u64" where
  "file_len e = of_nat (length (entry_bytes e))"

datatype event =
    Calm
  | Fault io_error
  | Torn nat
  | External u64 "(string \<times> entry option) list"
  | Crash

record disk =
  dk_entries :: "(string, entry) bmap"
  dk_clock :: u64
  dk_next_ino :: u64
  dk_plan :: "event list"

definition io_failure :: "io_kind \<Rightarrow> string \<Rightarrow> io_error" where
  "io_failure k t = \<lparr>io_kind = k, io_text = t\<rparr>"

definition not_found :: io_error where
  "not_found = io_failure IoNotFound ''No such file or directory (os error 2)''"

definition already_exists :: io_error where
  "already_exists = io_failure IoAlreadyExists ''File exists (os error 17)''"

definition is_a_directory :: io_error where
  "is_a_directory = io_failure IoOther ''Is a directory (os error 21)''"

definition not_a_directory :: io_error where
  "not_a_directory = io_failure IoOther ''Not a directory (os error 20)''"

definition too_many_links :: io_error where
  "too_many_links = io_failure IoOther ''Too many levels of symbolic links (os error 40)''"

definition interrupted :: io_error where
  "interrupted = io_failure IoOther ''Input/output error (os error 5)''"

fun external_edit :: "string \<times> entry option \<Rightarrow> (string, entry) bmap \<Rightarrow> (string, entry) bmap" where
  "external_edit (p, None) m = bm_remove p m"
| "external_edit (p, Some e) m = bm_insert p e m"

definition disturb :: "u64 \<Rightarrow> (string \<times> entry option) list \<Rightarrow> disk \<Rightarrow> disk" where
  "disturb t edits d = d\<lparr>dk_clock := t, dk_entries := fold external_edit edits (dk_entries d)\<rparr>"

text \<open>One system call: the plan's next event comes first.\<close>

definition syscall :: "(disk \<Rightarrow> disk \<times> (io_error + 'a)) \<Rightarrow> disk \<Rightarrow> disk \<times> (io_error + 'a)" where
  "syscall f d =
     (case dk_plan d of
        [] \<Rightarrow> f d
      | Calm # es \<Rightarrow> f (d\<lparr>dk_plan := es\<rparr>)
      | Fault e # es \<Rightarrow> (d\<lparr>dk_plan := es\<rparr>, Inl e)
      | Torn n # es \<Rightarrow> (d\<lparr>dk_plan := es\<rparr>, Inl interrupted)
      | External t edits # es \<Rightarrow> f (disturb t edits (d\<lparr>dk_plan := es\<rparr>))
      | Crash # es \<Rightarrow> (d, Inl interrupted))"

definition calm :: "disk \<Rightarrow> disk" where
  "calm d = d\<lparr>dk_plan := []\<rparr>"

section \<open>Looking\<close>

fun follow :: "nat \<Rightarrow> (string, entry) bmap \<Rightarrow> string \<Rightarrow> string option" where
  "follow 0 m p = None"
| "follow (Suc n) m p =
     (case bm_get m p of
        Some (Symlink target) \<Rightarrow>
          follow n m (path_join (case path_parent p of None \<Rightarrow> [] | Some q \<Rightarrow> q) target)
      | _ \<Rightarrow> Some p)"

definition max_links :: nat where "max_links = 41"

definition stat_of :: "disk \<Rightarrow> string \<Rightarrow> io_error + entry" where
  "stat_of d p =
     (case follow max_links (dk_entries d) p of
        None \<Rightarrow> Inl too_many_links
      | Some q \<Rightarrow> ok_or not_found (bm_get (dk_entries d) q))"

definition fs_metadata :: "string \<Rightarrow> disk \<Rightarrow> disk \<times> (io_error + entry)" where
  "fs_metadata p = syscall (\<lambda>d. (d, stat_of d p))"

definition fs_symlink_metadata :: "string \<Rightarrow> disk \<Rightarrow> disk \<times> (io_error + entry)" where
  "fs_symlink_metadata p = syscall (\<lambda>d. (d, ok_or not_found (bm_get (dk_entries d) p)))"

definition read_entry :: "entry \<Rightarrow> io_error + bytes" where
  "read_entry e = (case e of Directory \<Rightarrow> Inl is_a_directory | _ \<Rightarrow> Inr (entry_bytes e))"

definition fs_read :: "string \<Rightarrow> disk \<Rightarrow> disk \<times> (io_error + bytes)" where
  "fs_read p = syscall (\<lambda>d. (d, rbind (stat_of d p) read_entry))"

text \<open>Opening a file or a directory, to hold or to sync it.\<close>

definition fs_open :: "string \<Rightarrow> disk \<Rightarrow> disk \<times> (io_error + unit)" where
  "fs_open p = syscall (\<lambda>d. (d, rbind (stat_of d p) (\<lambda>e. Inr ())))"

definition fs_canonicalize :: "string \<Rightarrow> disk \<Rightarrow> disk \<times> (io_error + string)" where
  "fs_canonicalize p = syscall (\<lambda>d.
     (d, case follow max_links (dk_entries d) p of
           None \<Rightarrow> Inl too_many_links
         | Some q \<Rightarrow> (case bm_get (dk_entries d) q of None \<Rightarrow> Inl not_found | Some e \<Rightarrow> Inr q)))"

text \<open>\<open>read_dir\<close>: the entries directly below a directory; the callers sort them.\<close>

definition fs_read_dir :: "string \<Rightarrow> disk \<Rightarrow> disk \<times> (io_error + string list)" where
  "fs_read_dir p = syscall (\<lambda>d.
     (d, rbind (stat_of d p) (\<lambda>e.
       if e = Directory
       then Inr (filter (\<lambda>q. path_parent q = Some p) (bm_keys (dk_entries d)))
       else Inl not_a_directory)))"

section \<open>Changing\<close>

definition put_entry :: "string \<Rightarrow> entry \<Rightarrow> disk \<Rightarrow> disk" where
  "put_entry p e d = d\<lparr>dk_entries := bm_insert p e (dk_entries d)\<rparr>"

definition drop_entry :: "string \<Rightarrow> disk \<Rightarrow> disk" where
  "drop_entry p d = d\<lparr>dk_entries := bm_remove p (dk_entries d)\<rparr>"

definition put_bytes :: "string \<Rightarrow> bytes \<Rightarrow> disk \<Rightarrow> disk \<times> (io_error + unit)" where
  "put_bytes p bs d =
     (case follow max_links (dk_entries d) p of
        None \<Rightarrow> (d, Inl too_many_links)
      | Some q \<Rightarrow>
          (case bm_get (dk_entries d) q of
             Some Directory \<Rightarrow> (d, Inl is_a_directory)
           | Some (Regular ino _ _) \<Rightarrow> (put_entry q (Regular ino bs (dk_clock d)) d, Inr ())
           | _ \<Rightarrow> (put_entry q (Regular (dk_next_ino d) bs (dk_clock d))
                     (d\<lparr>dk_next_ino := dk_next_ino d + 1\<rparr>), Inr ())))"

text \<open>\<open>fs::write\<close>: the file is truncated first, so a torn write leaves the first bytes.\<close>

definition fs_write :: "string \<Rightarrow> bytes \<Rightarrow> disk \<Rightarrow> disk \<times> (io_error + unit)" where
  "fs_write p bs d =
     (case dk_plan d of
        Torn n # es \<Rightarrow> (fst (put_bytes p (take n bs) (d\<lparr>dk_plan := es\<rparr>)), Inl interrupted)
      | _ \<Rightarrow> syscall (put_bytes p bs) d)"

definition fs_remove_file :: "string \<Rightarrow> disk \<Rightarrow> disk \<times> (io_error + unit)" where
  "fs_remove_file p = syscall (\<lambda>d.
     (case bm_get (dk_entries d) p of
        None \<Rightarrow> (d, Inl not_found)
      | Some Directory \<Rightarrow> (d, Inl is_a_directory)
      | Some e \<Rightarrow> (drop_entry p d, Inr ())))"

definition fs_rename :: "string \<Rightarrow> string \<Rightarrow> disk \<Rightarrow> disk \<times> (io_error + unit)" where
  "fs_rename a b = syscall (\<lambda>d.
     (case bm_get (dk_entries d) a of
        None \<Rightarrow> (d, Inl not_found)
      | Some e \<Rightarrow>
          if a = b then (d, Inr ())
          else if bm_get (dk_entries d) b = Some Directory \<and> e \<noteq> Directory then (d, Inl is_a_directory)
          else if e = Directory \<and> bm_get (dk_entries d) b \<notin> {None, Some Directory}
          then (d, Inl not_a_directory)
          else (put_entry b e (drop_entry a d), Inr ())))"

text \<open>\<open>renameat2\<close> with \<open>RENAME_NOREPLACE\<close>, and \<open>link\<close>: neither replaces an entry.\<close>

definition fs_rename_noreplace :: "string \<Rightarrow> string \<Rightarrow> disk \<Rightarrow> disk \<times> (io_error + unit)" where
  "fs_rename_noreplace a b = syscall (\<lambda>d.
     (case bm_get (dk_entries d) a of
        None \<Rightarrow> (d, Inl not_found)
      | Some e \<Rightarrow>
          if bm_get (dk_entries d) b \<noteq> None then (d, Inl already_exists)
          else (put_entry b e (drop_entry a d), Inr ())))"

definition fs_hard_link :: "string \<Rightarrow> string \<Rightarrow> disk \<Rightarrow> disk \<times> (io_error + unit)" where
  "fs_hard_link a b = syscall (\<lambda>d.
     (case bm_get (dk_entries d) a of
        None \<Rightarrow> (d, Inl not_found)
      | Some e \<Rightarrow>
          if bm_get (dk_entries d) b \<noteq> None then (d, Inl already_exists)
          else if e = Directory then (d, Inl is_a_directory)
          else (put_entry b e d, Inr ())))"

definition fs_create_dir_all :: "string \<Rightarrow> disk \<Rightarrow> disk \<times> (io_error + unit)" where
  "fs_create_dir_all p = syscall (\<lambda>d.
     (case stat_of d p of
        Inr Directory \<Rightarrow> (d, Inr ())
      | Inr e \<Rightarrow> (d, Inl already_exists)
      | Inl e \<Rightarrow> if e = not_found then (put_entry p Directory d, Inr ()) else (d, Inl e)))"

section \<open>Entries after a change\<close>

lemma put_entry_simps [simp]:
  "bm_get (dk_entries (put_entry p e d)) = (bm_get (dk_entries d))(p \<mapsto> e)"
  "dk_plan (put_entry p e d) = dk_plan d" "dk_clock (put_entry p e d) = dk_clock d"
  by (simp_all add: put_entry_def)

lemma drop_entry_simps [simp]:
  "bm_get (dk_entries (drop_entry p d)) = (bm_get (dk_entries d))(p := None)"
  "dk_plan (drop_entry p d) = dk_plan d" "dk_clock (drop_entry p d) = dk_clock d"
  by (simp_all add: drop_entry_def)

lemma dk_entries_calm [simp]: "dk_entries (calm d) = dk_entries d" "dk_plan (calm d) = []"
  by (simp_all add: calm_def)

lemma syscall_calm [simp]: "dk_plan d = [] \<Longrightarrow> syscall f d = f d"
  by (simp add: syscall_def)

text \<open>A plan in which no other program writes: a call either runs on the entries as they are or
  fails without touching them.\<close>

fun is_external :: "event \<Rightarrow> bool" where
  "is_external (External t edits) \<longleftrightarrow> True"
| "is_external Calm \<longleftrightarrow> False"
| "is_external (Fault e) \<longleftrightarrow> False"
| "is_external (Torn n) \<longleftrightarrow> False"
| "is_external Crash \<longleftrightarrow> False"

definition undisturbed :: "disk \<Rightarrow> bool" where
  "undisturbed d \<longleftrightarrow> list_all (\<lambda>e. \<not> is_external e) (dk_plan d)"

lemma syscall_undisturbed:
  assumes "undisturbed d"
  shows "(\<exists>d0. dk_entries d0 = dk_entries d \<and> undisturbed d0 \<and> syscall f d = f d0) \<or>
    (\<exists>d0 e. dk_entries d0 = dk_entries d \<and> undisturbed d0 \<and> syscall f d = (d0, Inl e))"
proof (cases "dk_plan d")
  case (Cons e es)
  let ?d = "d\<lparr>dk_plan := es\<rparr>"
  have u: "undisturbed ?d" using assms Cons by (simp add: undisturbed_def)
  show ?thesis
  proof (cases e)
    case Calm
    with Cons u show ?thesis by (intro disjI1 exI [of _ ?d]) (simp add: syscall_def)
  next
    case (Fault x)
    with Cons u show ?thesis by (intro disjI2 exI [of _ ?d] exI [of _ x]) (simp add: syscall_def)
  next
    case (Torn n)
    with Cons u show ?thesis
      by (intro disjI2 exI [of _ ?d] exI [of _ interrupted]) (simp add: syscall_def)
  next
    case (External t edits)
    with Cons assms show ?thesis by (simp add: undisturbed_def)
  next
    case Crash
    with Cons assms show ?thesis
      by (intro disjI2 exI [of _ d] exI [of _ interrupted]) (simp add: syscall_def)
  qed
qed (use assms in \<open>auto simp: syscall_def\<close>)

end
