(* ===== verification/Folder_State.thy ===== *)
theory Folder_State
  imports File_System Broker_Base
begin

text \<open>
  The checkpoint of the folder transport (inkbridge-folder-transport/src/model.rs): its data,
  and how it is loaded and saved through \<open>.json.next\<close> and \<open>.json.previous\<close>.  JSON is a
  parameter: an encoder and a decoder of \<open>TransportState\<close>.
\<close>

section \<open>The state\<close>

definition transport_state_schema_version :: u32 where "transport_state_schema_version = 1"

record verified_boox_install =
  vb_event_id :: string
  vb_source_revisions :: revision_pair
  vb_source_generation :: u64
  vb_content_sha256 :: string
  vb_source_object_path :: "string option"
  vb_source_object_size :: "u64 option"

record pending_upload =
  pu_object_path :: string
  pu_generation :: u64
  pu_source_revision :: u64
  pu_based_on :: revision_pair
  pu_local_path :: string
  pu_local_content_sha256 :: string
  pu_payload_content_sha256 :: string

record side_state =
  ss_uploaded_local_hashes :: "(string, string) bmap"
  ss_accepted_local_hashes :: "(string, string) bmap"
  ss_recovered_source_identities :: "(string, string) bmap"
  ss_accepted_source_revisions :: "(string, u64) bmap"
  ss_delivered_content_sha256 :: "string option"
  ss_pending :: "pending_upload option"

definition default_side_state :: side_state where
  "default_side_state =
     \<lparr>ss_uploaded_local_hashes = [], ss_accepted_local_hashes = [],
      ss_recovered_source_identities = [], ss_accepted_source_revisions = [],
      ss_delivered_content_sha256 = None, ss_pending = None\<rparr>"

record document_transport =
  dt_revisions :: revision_pair
  dt_boox :: side_state
  dt_supernote :: side_state
  dt_delivered_generations :: "string bset"
  dt_verified_boox_install :: "verified_boox_install option"
  dt_conflicts :: "string bset"

definition default_document_transport :: document_transport where
  "default_document_transport =
     \<lparr>dt_revisions = default_revisions, dt_boox = default_side_state,
      dt_supernote = default_side_state, dt_delivered_generations = [],
      dt_verified_boox_install = None, dt_conflicts = []\<rparr>"

definition transport_side :: "document_transport \<Rightarrow> device_side \<Rightarrow> side_state" where
  "transport_side t side = (case side of Boox \<Rightarrow> dt_boox t | Supernote \<Rightarrow> dt_supernote t)"

definition update_side ::
    "device_side \<Rightarrow> (side_state \<Rightarrow> side_state) \<Rightarrow> document_transport \<Rightarrow> document_transport" where
  "update_side side f t =
     (case side of
        Boox \<Rightarrow> t\<lparr>dt_boox := f (dt_boox t)\<rparr>
      | Supernote \<Rightarrow> t\<lparr>dt_supernote := f (dt_supernote t)\<rparr>)"

record file_observation =
  fo_size :: u64
  fo_modified_unix_millis :: u64
  fo_first_seen_unix_millis :: u64
  fo_content_sha256 :: "string option"

record transport_state =
  ts_schema_version :: u32
  ts_documents :: "(string, document_transport) bmap"
  ts_observations :: "(string, file_observation) bmap"

definition empty_transport_state :: transport_state where
  "empty_transport_state =
     \<lparr>ts_schema_version = transport_state_schema_version, ts_documents = [], ts_observations = []\<rparr>"

text \<open>\<open>document_mut\<close>: the document's record, made on first use.\<close>

definition document_of :: "string \<Rightarrow> transport_state \<Rightarrow> document_transport" where
  "document_of d s =
     (case bm_get (ts_documents s) d of None \<Rightarrow> default_document_transport | Some t \<Rightarrow> t)"

definition update_document ::
    "string \<Rightarrow> (document_transport \<Rightarrow> document_transport) \<Rightarrow> transport_state \<Rightarrow> transport_state" where
  "update_document d f s =
     s\<lparr>ts_documents := bm_insert d (f (document_of d s)) (ts_documents s)\<rparr>"

section \<open>Loading and saving\<close>

record state_json =
  sj_encode :: "transport_state \<Rightarrow> string + bytes"
  sj_decode :: "bytes \<Rightarrow> string + transport_state"

text \<open>\<open>map_err(|error| format!("{before}{error}"))\<close> on the answer of a call.\<close>

definition io_context :: "string \<Rightarrow> disk \<times> (io_error + 'a) \<Rightarrow> disk \<times> (string + 'a)" where
  "io_context before r = (fst r, map_err (\<lambda>e. before @ io_text e) (snd r))"

definition regular_file_exists :: "string \<Rightarrow> disk \<Rightarrow> disk \<times> (string + bool)" where
  "regular_file_exists p d =
     (case fs_metadata p d of
        (d, Inr e) \<Rightarrow>
          if is_file e then (d, Inr True) else (d, Inl (p @ '' is not a regular file''))
      | (d, Inl e) \<Rightarrow>
          if io_kind e = IoNotFound then (d, Inr False)
          else (d, Inl (''could not inspect '' @ p @ '': '' @ io_text e)))"

definition remove_file_if_exists :: "string \<Rightarrow> disk \<Rightarrow> disk \<times> (string + unit)" where
  "remove_file_if_exists p d =
     (case fs_remove_file p d of
        (d, Inr _) \<Rightarrow> (d, Inr ())
      | (d, Inl e) \<Rightarrow>
          if io_kind e = IoNotFound then (d, Inr ())
          else (d, Inl (''could not remove '' @ p @ '': '' @ io_text e)))"

text \<open>\<open>load\<close> calls itself on the previous checkpoint: one pass answers, or names the file to go
  on with.  The recursion may go on while other programs remove the file it has just seen, so a
  load that does not return is \<open>None\<close>.\<close>

definition load_state_pass ::
    "state_json \<Rightarrow> string \<Rightarrow> disk \<Rightarrow> (string \<times> disk) + (disk \<times> (string + transport_state))" where
  "load_state_pass J p d =
     (let previous = with_extension p ''json.previous''
      in case regular_file_exists p d of
        (d, Inl e) \<Rightarrow> Inr (d, Inl e)
      | (d, Inr False) \<Rightarrow>
          (case regular_file_exists previous d of
             (d, Inl e) \<Rightarrow> Inr (d, Inl e)
           | (d, Inr True) \<Rightarrow> Inl (previous, d)
           | (d, Inr False) \<Rightarrow> Inr (d, Inr empty_transport_state))
      | (d, Inr True) \<Rightarrow>
          Inr (and_then (io_context (''could not read '' @ p @ '': '') (fs_read p d)) (\<lambda>d bs.
            (d, rbind (map_err (\<lambda>e. ''invalid transport state: '' @ e) (sj_decode J bs)) (\<lambda>s.
              if ts_schema_version s \<noteq> transport_state_schema_version
              then Inl (''unsupported transport state schema '' @ show_u32 (ts_schema_version s))
              else Inr s)))))"

partial_function (option) load_state_file ::
    "state_json \<Rightarrow> string \<Rightarrow> disk \<Rightarrow> (disk \<times> (string + transport_state)) option" where
  "load_state_file J p d =
     (let pass = load_state_pass J p d
      in if isl pass then load_state_file J (fst (projl pass)) (snd (projl pass))
         else Some (projr pass))"

definition save_state_file :: "state_json \<Rightarrow> transport_state \<Rightarrow> string \<Rightarrow> disk \<Rightarrow> disk \<times> (string + unit)" where
  "save_state_file J s p d =
     (let parent = (case path_parent p of None \<Rightarrow> ''.'' | Some q \<Rightarrow> q);
          staged = with_extension p ''json.next'';
          previous = with_extension p ''json.previous''
      in and_then (io_context (''could not create '' @ parent @ '': '') (fs_create_dir_all parent d)) (\<lambda>d _.
         attempt d (sj_encode J s) (\<lambda>bs.
         and_then (io_context (''could not write '' @ staged @ '': '')
                     (fs_write staged (bs @ [CHR 0x0A]) d)) (\<lambda>d _.
         and_then (regular_file_exists p d) (\<lambda>d had_current.
         and_then
           (if had_current
            then and_then (remove_file_if_exists previous d) (\<lambda>d _.
                   io_context (''could not stage existing state '' @ p @ '' as '' @ previous @ '': '')
                     (fs_rename p previous d))
            else (d, Inr ())) (\<lambda>d _.
         case fs_rename staged p d of
           (d, Inl e) \<Rightarrow>
             (if had_current then fst (fs_rename previous p d) else d,
              Inl (''could not publish '' @ p @ '': '' @ io_text e))
         | (d, Inr _) \<Rightarrow>
             (case remove_file_if_exists previous d of
                (d, r) \<Rightarrow> (d, map_err (\<lambda>e. ''could not retire previous state: '' @ e) r))))))))"

end
