(* ===== verification/Folder_State_Facts.thy ===== *)
theory Folder_State_Facts
  imports Folder_State
begin

text \<open>
  The checkpoint protocol under faults: what each call of \<open>save\<close> can leave on the disk, and
  what \<open>load\<close> answers on a disk at rest.
\<close>

section \<open>Calls on an undisturbed disk\<close>

text \<open>Nobody else writes, and the entries are \<open>g\<close>.\<close>

definition quiet :: "disk \<Rightarrow> (string \<rightharpoonup> entry) \<Rightarrow> bool" where
  "quiet d g \<longleftrightarrow> undisturbed d \<and> bm_get (dk_entries d) = g"

definition not_link :: "entry option \<Rightarrow> bool" where
  "not_link e \<longleftrightarrow> (case e of Some x \<Rightarrow> \<not> is_symlink x | None \<Rightarrow> True)"

lemma not_link_simps [simp]:
  "not_link None" "not_link (Some (Regular i bs t))" "not_link (Some Directory)"
  "\<not> not_link (Some (Symlink q))"
  by (simp_all add: not_link_def)

lemma follow_plain: "not_link (bm_get m p) \<Longrightarrow> follow (Suc n) m p = Some p"
  by (auto simp: not_link_def split: option.splits entry.splits)

lemma stat_plain: "not_link (bm_get (dk_entries d) p) \<Longrightarrow> stat_of d p = ok_or not_found (bm_get (dk_entries d) p)"
  using follow_plain [of "dk_entries d" p 40] by (simp add: stat_of_def max_links_def)

lemma syscall_quiet:
  assumes "quiet d g"
  obtains d0 where "quiet d0 g" "syscall f d = f d0"
  | d0 e where "quiet d0 g" "syscall f d = (d0, Inl e)"
  using syscall_undisturbed [of d f] assms unfolding quiet_def by metis

lemma quiet_put: "quiet d g \<Longrightarrow> quiet (put_entry p e d) (g(p \<mapsto> e))"
  by (simp add: quiet_def undisturbed_def)

lemma quiet_drop: "quiet d g \<Longrightarrow> quiet (drop_entry p d) (g(p := None))"
  by (simp add: quiet_def undisturbed_def)

lemma quiet_ino: "quiet d g \<Longrightarrow> quiet (d\<lparr>dk_next_ino := n\<rparr>) g"
  by (simp add: quiet_def undisturbed_def)

lemma regular_file_exists_quiet:
  assumes "quiet d g" and "not_link (g p)"
  shows "\<exists>d' r. regular_file_exists p d = (d', r) \<and> quiet d' g \<and>
    (r = Inr True \<longrightarrow> (\<exists>i bs t. g p = Some (Regular i bs t)))"
proof -
  from assms(1) show ?thesis
  proof (cases rule: syscall_quiet [where f = "\<lambda>d. (d, stat_of d p)"])
    case (1 d0)
    then have "stat_of d0 p = ok_or not_found (g p)"
      using stat_plain [of d0 p] assms(2) by (simp add: quiet_def)
    with 1 show ?thesis
      by (cases "g p"; cases "the (g p)")
         (auto simp: regular_file_exists_def fs_metadata_def not_found_def io_failure_def)
  next
    case (2 d0 e)
    then show ?thesis by (auto simp: regular_file_exists_def fs_metadata_def)
  qed
qed

lemma remove_file_quiet:
  assumes "quiet d g"
  shows "\<exists>d' r g'. remove_file_if_exists p d = (d', r) \<and> quiet d' g' \<and> (g' = g \<or> g' = g(p := None))"
  using assms
proof (cases rule: syscall_quiet [where f = "\<lambda>d.
     (case bm_get (dk_entries d) p of
        None \<Rightarrow> (d, Inl not_found)
      | Some Directory \<Rightarrow> (d, Inl is_a_directory)
      | Some e \<Rightarrow> (drop_entry p d, Inr ()))"])
  case (1 d0)
  then show ?thesis
    using quiet_drop [of d0 g p]
    by (auto simp: remove_file_if_exists_def fs_remove_file_def split: option.splits entry.splits)
next
  case (2 d0 e)
  then show ?thesis by (auto simp: remove_file_if_exists_def fs_remove_file_def)
qed

lemma rename_quiet:
  assumes "quiet d g" and "a \<noteq> b"
  shows "\<exists>d' r g'. fs_rename a b d = (d', r) \<and> quiet d' g' \<and>
    ((\<exists>e. r = Inl e) \<and> g' = g \<or> r = Inr () \<and> (\<exists>e. g a = Some e \<and> g' = g(a := None, b \<mapsto> e)))"
  using assms(1)
proof (cases rule: syscall_quiet [where f = "\<lambda>d.
     (case bm_get (dk_entries d) a of
        None \<Rightarrow> (d, Inl not_found)
      | Some e \<Rightarrow>
          if a = b then (d, Inr ())
          else if bm_get (dk_entries d) b = Some Directory \<and> e \<noteq> Directory then (d, Inl is_a_directory)
          else if e = Directory \<and> bm_get (dk_entries d) b \<notin> {None, Some Directory}
          then (d, Inl not_a_directory)
          else (put_entry b e (drop_entry a d), Inr ()))"])
  case (1 d0)
  show ?thesis
  proof (cases "g a")
    case None
    with 1 show ?thesis by (auto simp: fs_rename_def quiet_def)
  next
    case (Some e)
    have "quiet (put_entry b e (drop_entry a d0)) (g(a := None, b \<mapsto> e))"
      by (intro quiet_put quiet_drop 1)
    with 1 Some assms(2) show ?thesis
      unfolding fs_rename_def by (auto simp: quiet_def)
  qed
next
  case (2 d0 e)
  then show ?thesis by (auto simp: fs_rename_def)
qed

lemma put_bytes_quiet:
  assumes "quiet d g" and "not_link (g p)"
  shows "\<exists>d' r g'. put_bytes p bs d = (d', r) \<and> quiet d' g' \<and>
    ((\<exists>e. r = Inl e) \<and> g' = g \<or> (\<exists>i t. r = Inr () \<and> g' = g(p \<mapsto> Regular i bs t)))"
proof -
  have f: "follow max_links (dk_entries d) p = Some p"
    using follow_plain [of "dk_entries d" p 40] assms by (simp add: quiet_def max_links_def)
  consider "g p = Some Directory" | i bs' t where "g p = Some (Regular i bs' t)" | "g p = None"
    using assms(2) by (cases "g p"; cases "the (g p)") auto
  then show ?thesis
  proof cases
    case 2
    with f assms quiet_put [OF assms(1), of p "Regular i bs (dk_clock d)"] show ?thesis
      by (auto simp: put_bytes_def quiet_def)
  next
    case 3
    with f assms quiet_put [OF quiet_ino [OF assms(1), of "dk_next_ino d + 1"],
        of p "Regular (dk_next_ino d) bs (dk_clock d)"] show ?thesis
      by (auto simp: put_bytes_def quiet_def)
  qed (use f assms in \<open>auto simp: put_bytes_def quiet_def\<close>)
qed

lemma write_quiet:
  assumes "quiet d g" and "not_link (g p)"
  shows "\<exists>d' r g'. fs_write p bs d = (d', r) \<and> quiet d' g' \<and>
    (g' = g \<and> (\<exists>e. r = Inl e) \<or> (\<exists>i bs' t. g' = g(p \<mapsto> Regular i bs' t) \<and> (r = Inr () \<longrightarrow> bs' = bs)))"
proof (cases "\<exists>n es. dk_plan d = Torn n # es")
  case True
  then obtain n es where p: "dk_plan d = Torn n # es" by blast
  then have "quiet (d\<lparr>dk_plan := es\<rparr>) g" using assms(1) by (simp add: quiet_def undisturbed_def)
  from put_bytes_quiet [OF this assms(2), of "take n bs"] obtain d' r g' where
    "put_bytes p (take n bs) (d\<lparr>dk_plan := es\<rparr>) = (d', r)" "quiet d' g'"
    "g' = g \<or> (\<exists>i t. g' = g(p \<mapsto> Regular i (take n bs) t))" by blast
  then show ?thesis by (auto simp: fs_write_def p)
next
  case False
  then have w: "fs_write p bs d = syscall (put_bytes p bs) d"
    by (auto simp: fs_write_def split: list.splits event.splits)
  from assms(1) show ?thesis
  proof (cases rule: syscall_quiet [where f = "put_bytes p bs"])
    case (1 d0)
    from put_bytes_quiet [OF 1(1) assms(2), of bs] show ?thesis unfolding w 1(2) by blast
  next
    case (2 d0 e)
    then show ?thesis unfolding w by blast
  qed
qed

lemma create_dir_quiet:
  assumes "quiet d g"
  shows "\<exists>d' r g'. fs_create_dir_all p d = (d', r) \<and> quiet d' g' \<and> (g' = g \<or> g' = g(p \<mapsto> Directory))"
  using assms
proof (cases rule: syscall_quiet [where f = "\<lambda>d.
     (case stat_of d p of
        Inr Directory \<Rightarrow> (d, Inr ())
      | Inr e \<Rightarrow> (d, Inl already_exists)
      | Inl e \<Rightarrow> if e = not_found then (put_entry p Directory d, Inr ()) else (d, Inl e))"])
  case (1 d0)
  have "quiet (put_entry p Directory d0) (g(p \<mapsto> Directory))" by (rule quiet_put [OF 1(1)])
  with 1 show ?thesis
    unfolding fs_create_dir_all_def by (auto split: sum.splits entry.splits)
next
  case (2 d0 e)
  then show ?thesis unfolding fs_create_dir_all_def by blast
qed

section \<open>What a checkpoint holds\<close>

abbreviation staged_file :: "string \<Rightarrow> string" where
  "staged_file p \<equiv> with_extension p ''json.next''"

abbreviation previous_file :: "string \<Rightarrow> string" where
  "previous_file p \<equiv> with_extension p ''json.previous''"

definition plain_checkpoint :: "string \<Rightarrow> (string \<rightharpoonup> entry) \<Rightarrow> bool" where
  "plain_checkpoint p g \<longleftrightarrow> not_link (g p) \<and> not_link (g (staged_file p)) \<and> not_link (g (previous_file p))"

definition decode_checkpoint :: "state_json \<Rightarrow> bytes \<Rightarrow> transport_state option" where
  "decode_checkpoint J bs =
     (case sj_decode J bs of
        Inl e \<Rightarrow> None
      | Inr s \<Rightarrow> if ts_schema_version s = transport_state_schema_version then Some s else None)"

definition checkpoint_of :: "state_json \<Rightarrow> string \<Rightarrow> (string \<rightharpoonup> entry) \<Rightarrow> transport_state option" where
  "checkpoint_of J p g =
     (case g p of
        Some (Regular i bs t) \<Rightarrow> decode_checkpoint J bs
      | None \<Rightarrow>
          (case g (previous_file p) of
             Some (Regular i bs t) \<Rightarrow> decode_checkpoint J bs
           | None \<Rightarrow> Some empty_transport_state
           | _ \<Rightarrow> None)
      | _ \<Rightarrow> None)"

lemma regular_file_exists_calm:
  assumes "dk_plan d = []" and "not_link (bm_get (dk_entries d) p)"
  shows "regular_file_exists p d =
    (case bm_get (dk_entries d) p of
       None \<Rightarrow> (d, Inr False)
     | Some e \<Rightarrow> if is_file e then (d, Inr True) else (d, Inl (p @ '' is not a regular file'')))"
  using assms stat_plain [of d p]
  by (simp add: regular_file_exists_def fs_metadata_def not_found_def io_failure_def split: option.splits)

lemma read_calm:
  "dk_plan d = [] \<Longrightarrow> bm_get (dk_entries d) p = Some (Regular i bs t) \<Longrightarrow> fs_read p d = (d, Inr bs)"
  using stat_plain [of d p] by (simp add: fs_read_def read_entry_def)

lemma load_regular:
  assumes "dk_plan d = []" and "bm_get (dk_entries d) p = Some (Regular i bs t)"
  shows "\<exists>r. load_state_file J p d = Some (d, r) \<and> (\<forall>s. r = Inr s \<longleftrightarrow> decode_checkpoint J bs = Some s)"
  using assms regular_file_exists_calm [of d p] read_calm [of d p i bs t]
  by (subst load_state_file.simps)
     (auto simp: load_state_pass_def io_context_def decode_checkpoint_def Let_def split: sum.splits)

lemma load_at_rest:
  assumes "dk_plan d = []" and "plain_checkpoint p (bm_get (dk_entries d))"
  shows "\<exists>r. load_state_file J p d = Some (d, r) \<and>
    (\<forall>s. r = Inr s \<longleftrightarrow> checkpoint_of J p (bm_get (dk_entries d)) = Some s)"
proof (cases "bm_get (dk_entries d) p")
  case None
  have pv: "not_link (bm_get (dk_entries d) (previous_file p))"
    using assms(2) by (simp add: plain_checkpoint_def)
  show ?thesis
  proof (cases "bm_get (dk_entries d) (previous_file p)")
    case none: None
    with None assms show ?thesis
      using regular_file_exists_calm [of d p] regular_file_exists_calm [OF assms(1) pv]
      by (subst load_state_file.simps) (auto simp: load_state_pass_def checkpoint_of_def Let_def)
  next
    case (Some e)
    show ?thesis
    proof (cases e)
      case (Regular i bs t)
      have "load_state_file J p d = load_state_file J (previous_file p) d"
        using None Some Regular assms(1) regular_file_exists_calm [of d p]
          regular_file_exists_calm [OF assms(1) pv]
        by (subst load_state_file.simps) (auto simp: load_state_pass_def Let_def)
      with load_regular [OF assms(1), of "previous_file p" i bs t J] None Some Regular
      show ?thesis by (simp add: checkpoint_of_def)
    next
      case Directory
      with None Some assms(1) show ?thesis
        using regular_file_exists_calm [of d p] regular_file_exists_calm [OF assms(1) pv]
        by (subst load_state_file.simps) (auto simp: load_state_pass_def checkpoint_of_def Let_def)
    next
      case (Symlink q)
      with Some pv show ?thesis by simp
    qed
  qed
next
  case (Some e)
  show ?thesis
  proof (cases e)
    case (Regular i bs t)
    with load_regular [OF assms(1), of p i bs t J] Some show ?thesis by (simp add: checkpoint_of_def)
  next
    case Directory
    with Some assms(1) show ?thesis
      using regular_file_exists_calm [of d p]
      by (subst load_state_file.simps) (auto simp: load_state_pass_def checkpoint_of_def Let_def)
  next
    case (Symlink q)
    with Some assms(2) show ?thesis by (simp add: plain_checkpoint_def)
  qed
qed

section \<open>One save\<close>

lemma io_context_fst_snd [simp]:
  "io_context t (d, Inr x) = (d, Inr x)" "io_context t (d, Inl e) = (d, Inl (t @ io_text e))"
  by (simp_all add: io_context_def)

text \<open>The last part of \<open>save\<close>, from the test for a current checkpoint on.\<close>

definition publish_staged :: "string \<Rightarrow> disk \<Rightarrow> disk \<times> (string + unit)" where
  "publish_staged p d =
     (let staged = staged_file p; previous = previous_file p
      in and_then (regular_file_exists p d) (\<lambda>d had_current.
         and_then
           (if had_current
            then and_then (remove_file_if_exists previous d) (\<lambda>d _.
                   io_context (''could not stage existing state '' @ p @ '' as '' @ previous @ '': '')
                     (fs_rename p previous d))
            else (d, Inr ())) (\<lambda>d _.
         case fs_rename staged p d of
           (d, Inl e) \<Rightarrow>
             (if had_current then fst (fs_rename previous p d) else d,
              Inl (''could not publish '' @ p @ '': '' @ io_text e))
         | (d, Inr _) \<Rightarrow>
             (case remove_file_if_exists previous d of
                (d, r) \<Rightarrow> (d, map_err (\<lambda>e. ''could not retire previous state: '' @ e) r)))))"

lemma save_state_file_publish:
  "save_state_file J s p d =
     (let parent = (case path_parent p of None \<Rightarrow> ''.'' | Some q \<Rightarrow> q)
      in and_then (io_context (''could not create '' @ parent @ '': '') (fs_create_dir_all parent d)) (\<lambda>d _.
         attempt d (sj_encode J s) (\<lambda>bs.
         and_then (io_context (''could not write '' @ staged_file p @ '': '')
                     (fs_write (staged_file p) (bs @ [CHR 0x0A]) d)) (\<lambda>d _. publish_staged p d))))"
  unfolding save_state_file_def publish_staged_def Let_def by (rule refl)

lemma companions_differ:
  assumes named: "path_file_name p \<noteq> None"
  shows "staged_file p \<noteq> p" "previous_file p \<noteq> p" "p \<noteq> staged_file p" "p \<noteq> previous_file p"
  "staged_file p \<noteq> previous_file p" "previous_file p \<noteq> staged_file p"
  using with_extension_differs [of p _ "''json.next''"] with_extension_differs [of p _ "''json.previous''"]
    with_extension_inject [OF named, of "''json.next''" "''json.previous''"] named
  by (auto dest: sym)

lemma parent_differs:
  assumes "path_parent p = Some q" and named: "path_file_name p \<noteq> None"
  shows "q \<noteq> p" "q \<noteq> staged_file p" "q \<noteq> previous_file p"
  using parent_is_no_companion [OF _ assms(1)] path_parent_shorter [OF assms(1)] named by fastforce+

lemma checkpoint_cong:
  "g p = h p \<Longrightarrow> g (previous_file p) = h (previous_file p) \<Longrightarrow> checkpoint_of J p g = checkpoint_of J p h"
  by (simp add: checkpoint_of_def split: option.splits entry.splits)

lemma rename_restores:
  assumes named: "path_file_name p \<noteq> None"
    and "quiet d g" and "checkpoint_of J p g = Some old" and "g p = None" and "plain_checkpoint p g"
  shows "\<exists>g'. quiet (fst (fs_rename (previous_file p) p d)) g' \<and> plain_checkpoint p g' \<and>
    checkpoint_of J p g' = Some old"
  using rename_quiet [OF assms(2), of "previous_file p" p] assms companions_differ [OF named]
  by (auto simp: plain_checkpoint_def checkpoint_of_def)

lemma publish_keeps:
  assumes named: "path_file_name p \<noteq> None" and disk: "quiet d g" and "plain_checkpoint p g" and "checkpoint_of J p g = Some old"
    and "g (staged_file p) = Some (Regular i bs t)" and "decode_checkpoint J bs = Some new"
  shows "\<exists>d' r g'. publish_staged p d = (d', r) \<and> quiet d' g' \<and> plain_checkpoint p g' \<and>
    (checkpoint_of J p g' = Some new \<or> (\<exists>e. r = Inl e) \<and> checkpoint_of J p g' = Some old)"
proof -
  note [simp] = companions_differ [OF named]
  have ex: "not_link (g p)" using assms(3) by (simp add: plain_checkpoint_def)
  obtain d1 r1 where e1: "regular_file_exists p d = (d1, r1)" "quiet d1 g"
    "r1 = Inr True \<longrightarrow> (\<exists>i bs t. g p = Some (Regular i bs t))"
    using regular_file_exists_quiet [OF assms(2) ex] by blast
  show ?thesis
  proof (cases r1)
    case (Inl e)
    with e1 assms show ?thesis by (auto simp: publish_staged_def)
  next
    case (Inr had)
    define staging where "staging = (if had
      then and_then (remove_file_if_exists (previous_file p) d1) (\<lambda>d _.
        io_context (''could not stage existing state '' @ p @ '' as '' @ previous_file p @ '': '')
          (fs_rename p (previous_file p) d))
      else (d1, Inr ()))"
    have "\<exists>d2 r2 g2. staging = (d2, r2) \<and> quiet d2 g2 \<and> plain_checkpoint p g2 \<and>
        checkpoint_of J p g2 = Some old \<and> g2 (staged_file p) = g (staged_file p) \<and>
        (r2 = Inr () \<longrightarrow> had \<longrightarrow> g2 p = None)"
    proof (cases had)
      case True
      then obtain i0 bs0 t0 where cur: "g p = Some (Regular i0 bs0 t0)" using e1(3) Inr by auto
      obtain d2 r2 g2 where e2: "remove_file_if_exists (previous_file p) d1 = (d2, r2)" "quiet d2 g2"
        "g2 = g \<or> g2 = g(previous_file p := None)"
        using remove_file_quiet [OF e1(2)] by blast
      have k2: "plain_checkpoint p g2" "checkpoint_of J p g2 = Some old"
        "g2 (staged_file p) = g (staged_file p)" "g2 p = g p"
        using e2(3) assms(3,4) cur by (auto simp: plain_checkpoint_def checkpoint_of_def)
      show ?thesis
      proof (cases r2)
        case (Inl e)
        with True e2(1) have "staging = (d2, Inl e)" by (simp add: staging_def)
        with e2(2) k2 show ?thesis by blast
      next
        case r2: (Inr u)
        obtain d3 r3 g3 where e3: "fs_rename p (previous_file p) d2 = (d3, r3)" "quiet d3 g3"
          "(\<exists>e. r3 = Inl e) \<and> g3 = g2 \<or> r3 = Inr () \<and>
            (\<exists>e. g2 p = Some e \<and> g3 = g2(p := None, previous_file p \<mapsto> e))"
          using rename_quiet [OF e2(2), of p "previous_file p"] by auto
        have "staging = (d3, map_err (\<lambda>e. ''could not stage existing state '' @ p @ '' as '' @
            previous_file p @ '': '' @ io_text e) r3)"
          using True e2(1) r2 e3(1) by (simp add: staging_def io_context_def)
        with e3 k2 cur show ?thesis by (auto simp: plain_checkpoint_def checkpoint_of_def)
      qed
    next
      case False
      then have "staging = (d1, Inr ())" by (simp add: staging_def)
      with e1(2) assms False show ?thesis by blast
    qed
    then obtain d2 r2 g2 where e2: "staging = (d2, r2)" "quiet d2 g2" "plain_checkpoint p g2"
      "checkpoint_of J p g2 = Some old" "g2 (staged_file p) = g (staged_file p)"
      "r2 = Inr () \<longrightarrow> had \<longrightarrow> g2 p = None" by blast
    have pub: "publish_staged p d = and_then (d2, r2) (\<lambda>d _.
         case fs_rename (staged_file p) p d of
           (d, Inl e) \<Rightarrow>
             (if had then fst (fs_rename (previous_file p) p d) else d,
              Inl (''could not publish '' @ p @ '': '' @ io_text e))
         | (d, Inr _) \<Rightarrow>
             (case remove_file_if_exists (previous_file p) d of
                (d, r) \<Rightarrow> (d, map_err (\<lambda>e. ''could not retire previous state: '' @ e) r)))"
      using e1(1) Inr e2(1) unfolding staging_def by (simp only: publish_staged_def Let_def and_then_simps)
    show ?thesis
    proof (cases r2)
      case (Inl e)
      with pub have "publish_staged p d = (d2, Inl e)" by simp
      with e2 show ?thesis by blast
    next
      case r2: (Inr u)
      obtain d3 r3 g3 where e3: "fs_rename (staged_file p) p d2 = (d3, r3)" "quiet d3 g3"
        "(\<exists>e. r3 = Inl e) \<and> g3 = g2 \<or> r3 = Inr () \<and>
          (\<exists>e. g2 (staged_file p) = Some e \<and> g3 = g2(staged_file p := None, p \<mapsto> e))"
        using rename_quiet [OF e2(2), of "staged_file p" p] by auto
      show ?thesis
      proof (cases r3)
        case (Inl e)
        with e3 have "g3 = g2" by auto
        with pub r2 e3 e2 Inl rename_restores [OF named, of d3 g2 J old] show ?thesis
          by (cases had) auto
      next
        case r3: (Inr u3)
        then have g3: "g3 = g2(staged_file p := None, p \<mapsto> Regular i bs t)"
          using e3(3) e2(5) assms(5) by auto
        obtain d4 r4 g4 where e4: "remove_file_if_exists (previous_file p) d3 = (d4, r4)" "quiet d4 g4"
          "g4 = g3 \<or> g4 = g3(previous_file p := None)"
          using remove_file_quiet [OF e3(2)] by blast
        have "plain_checkpoint p g4" "checkpoint_of J p g4 = Some new"
          using e4(3) g3 e2(3) assms(6) by (auto simp: plain_checkpoint_def checkpoint_of_def)
        moreover have "\<exists>r. publish_staged p d = (d4, r)"
          using pub r2 e3(1) r3 e4(1) by simp
        ultimately show ?thesis using e4(2) by blast
      qed
    qed
  qed
qed

lemma save_keeps:
  assumes named: "path_file_name p \<noteq> None" and disk: "quiet d g" and "plain_checkpoint p g" and "checkpoint_of J p g = Some old"
    and "\<And>bs. sj_encode J new = Inr bs \<Longrightarrow> decode_checkpoint J (bs @ [CHR 0x0A]) = Some new"
  shows "\<exists>d' r g'. save_state_file J new p d = (d', r) \<and> quiet d' g' \<and> plain_checkpoint p g' \<and>
    (checkpoint_of J p g' = Some new \<or> (\<exists>e. r = Inl e) \<and> checkpoint_of J p g' = Some old)"
proof -
  note [simp] = companions_differ [OF named]
  obtain parent where parent: "path_parent p = Some parent"
    using named file_name_body by (cases "path_file_name p") (auto simp: path_parent_def)
  obtain d1 r1 g1 where e1: "fs_create_dir_all parent d = (d1, r1)" "quiet d1 g1"
    "g1 = g \<or> g1 = g(parent \<mapsto> Directory)"
    using create_dir_quiet [OF assms(2)] by blast
  have k1: "plain_checkpoint p g1" "checkpoint_of J p g1 = Some old"
    using e1(3) assms(3,4) parent_differs [OF parent named] checkpoint_cong [of g p g1 J]
    by (auto simp: plain_checkpoint_def)
  note unfold = save_state_file_publish [of J new p d] parent e1(1)
  show ?thesis
  proof (cases r1)
    case (Inl e)
    then have "save_state_file J new p d = (d1, Inl (''could not create '' @ parent @ '': '' @ io_text e))"
      by (simp add: unfold Let_def)
    with k1 e1(2) show ?thesis by blast
  next
    case r1: (Inr u)
    show ?thesis
    proof (cases "sj_encode J new")
      case (Inl e)
      with r1 have "save_state_file J new p d = (d1, Inl e)" by (simp add: unfold Let_def attempt_def)
      with k1 e1(2) show ?thesis by blast
    next
      case enc: (Inr bs)
      have ns: "not_link (g1 (staged_file p))" using k1(1) by (simp add: plain_checkpoint_def)
      obtain d2 r2 g2 where e2: "fs_write (staged_file p) (bs @ [CHR 0x0A]) d1 = (d2, r2)" "quiet d2 g2"
        "g2 = g1 \<and> (\<exists>e. r2 = Inl e) \<or> (\<exists>i bs' t. g2 = g1(staged_file p \<mapsto> Regular i bs' t) \<and>
           (r2 = Inr () \<longrightarrow> bs' = bs @ [CHR 0x0A]))"
        using write_quiet [OF e1(2) ns] by blast
      have k2: "plain_checkpoint p g2" "checkpoint_of J p g2 = Some old"
        using e2(3) k1 checkpoint_cong [of g1 p g2 J] by (auto simp: plain_checkpoint_def)
      show ?thesis
      proof (cases r2)
        case (Inl e)
        with e2(1) r1 enc have "save_state_file J new p d =
            (d2, Inl (''could not write '' @ staged_file p @ '': '' @ io_text e))"
          by (simp add: unfold Let_def attempt_def)
        with k2 e2(2) show ?thesis by blast
      next
        case r2: (Inr u2)
        then obtain i t where "g2 (staged_file p) = Some (Regular i (bs @ [CHR 0x0A]) t)"
          using e2(3) by auto
        from publish_keeps [OF named e2(2) k2 this assms(5) [OF enc]] show ?thesis
          using r1 enc e2(1) r2 by (simp add: unfold Let_def attempt_def)
      qed
    qed
  qed
qed

end
