(* ===== verification/Folder_Files.thy ===== *)
theory Folder_Files
  imports Folder_State
begin

text \<open>
  The file protocols of the folder transport (the end of
  inkbridge-folder-transport/src/transport.rs): publishing a file only where nothing is, replacing
  one only while it still is what it was, and recovering a replacement that was cut short.
  The code is that of Linux: \<open>renameat2\<close> with a hard link
  as fallback, and no way to retire a staged backup safely.
\<close>

section \<open>Looking at files\<close>

datatype file_id = Missing | Sha256 string

definition metadata_if_exists :: "string \<Rightarrow> disk \<Rightarrow> disk \<times> (string + entry option)" where
  "metadata_if_exists p d =
     (case fs_metadata p d of
        (d, Inr e) \<Rightarrow> (d, Inr (Some e))
      | (d, Inl e) \<Rightarrow>
          if io_kind e = IoNotFound then (d, Inr None)
          else (d, Inl (''could not inspect '' @ p @ '': '' @ io_text e)))"

definition symlink_metadata_if_exists :: "string \<Rightarrow> disk \<Rightarrow> disk \<times> (string + entry option)" where
  "symlink_metadata_if_exists p d =
     (case fs_symlink_metadata p d of
        (d, Inr e) \<Rightarrow> (d, Inr (Some e))
      | (d, Inl e) \<Rightarrow>
          if io_kind e = IoNotFound then (d, Inr None)
          else (d, Inl (''could not inspect filesystem entry '' @ p @ '': '' @ io_text e)))"

definition sha256_file :: "sha \<Rightarrow> string \<Rightarrow> disk \<Rightarrow> disk \<times> (string + string)" where
  "sha256_file sha p d =
     and_then (io_context (''could not read '' @ p @ '': '') (fs_read p d)) (\<lambda>d bs.
       (d, Inr (sha256_hex sha bs)))"

definition file_identity :: "sha \<Rightarrow> string \<Rightarrow> disk \<Rightarrow> disk \<times> (string + file_id)" where
  "file_identity sha p d =
     and_then (metadata_if_exists p d) (\<lambda>d m.
       case m of
         None \<Rightarrow> (d, Inr Missing)
       | Some e \<Rightarrow>
           if \<not> is_file e
           then (d, Inl (''configured BOOX path '' @ p @ '' is not a regular file''))
           else and_then (sha256_file sha p d) (\<lambda>d h. (d, Inr (Sha256 h))))"

text \<open>\<open>canonical_path_key\<close>: backslashes become slashes.\<close>

definition slashes :: "string \<Rightarrow> string" where
  "slashes s = map (\<lambda>c. if c = CHR 0x5C then CHR ''/'' else c) s"

definition canonical_path_key :: "string \<Rightarrow> disk \<Rightarrow> disk \<times> string" where
  "canonical_path_key p d =
     (case fs_canonicalize p d of
        (d, Inr q) \<Rightarrow> (d, slashes q)
      | (d, Inl e) \<Rightarrow> (d, slashes p))"

definition read_snapshot_and_current_hash ::
    "sha \<Rightarrow> string \<Rightarrow> disk \<Rightarrow> disk \<times> (string + bytes \<times> string \<times> string)" where
  "read_snapshot_and_current_hash sha p d =
     and_then (io_context (''could not read '' @ p @ '': '') (fs_read p d)) (\<lambda>d bs.
     and_then (sha256_file sha p d) (\<lambda>d current_hash.
       (d, Inr (bs, sha256_hex sha bs, current_hash))))"

definition sibling_temporary :: "string \<Rightarrow> string \<Rightarrow> string" where
  "sibling_temporary p suffix' =
     (let name = (case path_file_name p of None \<Rightarrow> ''inkbridge'' | Some n \<Rightarrow> n)
      in with_file_name p (''.'' @ name @ ''.'' @ suffix' @ ''.part''))"

section \<open>Publishing without replacing\<close>

definition create_only_rename_is_unsupported :: "io_error \<Rightarrow> bool" where
  "create_only_rename_is_unsupported e \<longleftrightarrow> io_kind e = IoInvalidInput \<or> io_kind e = IoUnsupported"

definition hard_link_create_only :: "string \<Rightarrow> string \<Rightarrow> disk \<Rightarrow> disk \<times> (io_error + unit)" where
  "hard_link_create_only source destination d =
     and_then (fs_hard_link source destination d) (\<lambda>d _.
       (fst (fs_remove_file source d), Inr ()))"

definition rename_create_only :: "string \<Rightarrow> string \<Rightarrow> disk \<Rightarrow> disk \<times> (io_error + unit)" where
  "rename_create_only source destination d =
     (case fs_rename_noreplace source destination d of
        (d, Inr _) \<Rightarrow> (d, Inr ())
      | (d, Inl e) \<Rightarrow>
          if create_only_rename_is_unsupported e then hard_link_create_only source destination d
          else (d, Inl e))"

definition publish_create_only :: "string \<Rightarrow> string \<Rightarrow> disk \<Rightarrow> disk \<times> (string + bool)" where
  "publish_create_only source destination d =
     (case rename_create_only source destination d of
        (d, Inr _) \<Rightarrow> (d, Inr True)
      | (d, Inl e) \<Rightarrow>
          if io_kind e = IoAlreadyExists then
            and_then (remove_file_if_exists source d) (\<lambda>d _. (d, Inr False))
          else (d, Inl (''could not publish '' @ source @ '' as new destination '' @ destination @
                        '': '' @ io_text e)))"

section \<open>Replacing a file\<close>

definition restore_staged_file :: "string \<Rightarrow> string \<Rightarrow> disk \<Rightarrow> disk \<times> (string + unit)" where
  "restore_staged_file backup destination d =
     and_then (symlink_metadata_if_exists destination d) (\<lambda>d m.
       if m \<noteq> None then
         (d, Inl (''destination '' @ destination @ '' was recreated; preserved staged file at '' @ backup))
       else
         (case rename_create_only backup destination d of
            (d, Inr _) \<Rightarrow> (d, Inr ())
          | (d, Inl e) \<Rightarrow>
              if io_kind e = IoAlreadyExists then
                (d, Inl (''destination '' @ destination @
                         '' was recreated during recovery; preserved staged file at '' @ backup))
              else (d, Inl (''could not restore '' @ backup @ '' as '' @ destination @ '': '' @ io_text e))))"

text \<open>An error after which the staged file is put back, if it can be.\<close>

definition restoring :: "string \<Rightarrow> string \<Rightarrow> string \<Rightarrow> disk \<Rightarrow> disk \<times> (string + 'a)" where
  "restoring backup destination e d =
     (case restore_staged_file backup destination d of
        (d, Inr _) \<Rightarrow> (d, Inl e)
      | (d, Inl e') \<Rightarrow> (d, Inl (e @ ''; additionally could not restore staged file: '' @ e')))"

text \<open>The destination was moved to \<open>backup\<close>: check that it is what was expected there, and only
  then publish the new file in its place.\<close>

definition replace_staged ::
    "sha \<Rightarrow> string \<Rightarrow> string \<Rightarrow> string \<Rightarrow> string \<Rightarrow> disk \<Rightarrow> disk \<times> (string + bool)" where
  "replace_staged sha source destination backup expected_hash d =
     and_then (symlink_metadata_if_exists backup d) (\<lambda>d m.
       case m of
         None \<Rightarrow> (d, Inl (''staged BOOX destination '' @ backup @ '' disappeared before verification''))
       | Some e \<Rightarrow>
           if is_symlink e then
             and_then (remove_file_if_exists source d) (\<lambda>d _.
             and_then (restore_staged_file backup destination d) (\<lambda>d _. (d, Inr False)))
           else
             (case sha256_file sha backup d of
                (d, Inl e) \<Rightarrow> restoring backup destination e d
              | (d, Inr staged_hash) \<Rightarrow>
                  if staged_hash \<noteq> expected_hash then
                    and_then (remove_file_if_exists source d) (\<lambda>d _.
                    and_then (restore_staged_file backup destination d) (\<lambda>d _. (d, Inr False)))
                  else
                    (case publish_create_only source destination d of
                       (d, Inr published) \<Rightarrow>
                         and_then (remove_file_if_exists backup d) (\<lambda>d _. (d, Inr published))
                     | (d, Inl e) \<Rightarrow> restoring backup destination e d)))"

definition replace_existing_file_conditionally ::
    "sha \<Rightarrow> string \<Rightarrow> string \<Rightarrow> string \<Rightarrow> disk \<Rightarrow> disk \<times> (string + bool)" where
  "replace_existing_file_conditionally sha source destination expected_hash d =
     and_then (metadata_if_exists destination d) (\<lambda>d m.
       case m of
         None \<Rightarrow> and_then (remove_file_if_exists source d) (\<lambda>d _. (d, Inr False))
       | Some e \<Rightarrow>
           if \<not> is_file e then
             (d, Inl (''refusing to replace non-file destination '' @ destination))
           else
             let backup = sibling_temporary destination ''previous''
             in and_then (metadata_if_exists backup d) (\<lambda>d staged.
                if staged \<noteq> None then
                  (d, Inl (''refusing to replace '' @ destination @ '' while staged backup '' @ backup @
                           '' already exists''))
                else
                  and_then (io_context (''could not stage '' @ destination @ '' as '' @ backup @ '': '')
                              (fs_rename destination backup d)) (\<lambda>d _.
                    replace_staged sha source destination backup expected_hash d)))"

definition replace_file_unconditionally :: "string \<Rightarrow> string \<Rightarrow> disk \<Rightarrow> disk \<times> (string + unit)" where
  "replace_file_unconditionally source destination d =
     and_then (metadata_if_exists destination d) (\<lambda>d m.
       case m of
         None \<Rightarrow>
           io_context (''could not publish '' @ source @ '' as '' @ destination @ '': '')
             (fs_rename source destination d)
       | Some e \<Rightarrow>
           if \<not> is_file e then
             (d, Inl (''refusing to replace non-file destination '' @ destination))
           else
             let backup = sibling_temporary destination ''previous''
             in and_then (remove_file_if_exists backup d) (\<lambda>d _.
                and_then (io_context (''could not stage '' @ destination @ '' as '' @ backup @ '': '')
                            (fs_rename destination backup d)) (\<lambda>d _.
                  case fs_rename source destination d of
                    (d, Inl e) \<Rightarrow>
                      (fst (fs_rename backup destination d),
                       Inl (''could not publish '' @ source @ '' as '' @ destination @ '': '' @ io_text e))
                  | (d, Inr _) \<Rightarrow> io_context ''could not retire old file: '' (fs_remove_file backup d))))"

definition replace_file ::
    "sha \<Rightarrow> string \<Rightarrow> string \<Rightarrow> file_id option \<Rightarrow> disk \<Rightarrow> disk \<times> (string + bool)" where
  "replace_file sha source destination expected d =
     (case expected of
        None \<Rightarrow> and_then (replace_file_unconditionally source destination d) (\<lambda>d _. (d, Inr True))
      | Some Missing \<Rightarrow> publish_create_only source destination d
      | Some (Sha256 expected_hash) \<Rightarrow>
          replace_existing_file_conditionally sha source destination expected_hash d)"

section \<open>After an interrupted replacement\<close>

text \<open>An open file is its entry at the time of opening; \<open>open_file_identity\<close> reads its inode.\<close>

definition open_entry_guard :: "string \<Rightarrow> disk \<Rightarrow> disk \<times> (io_error + entry)" where
  "open_entry_guard p = fs_metadata p"

fun entry_ino :: "entry \<Rightarrow> u64 option" where
  "entry_ino (Regular ino bs modified) = Some ino"
| "entry_ino Directory = None"
| "entry_ino (Symlink target) = None"

definition changed_entry :: "string \<Rightarrow> string" where
  "changed_entry p =
     ''BOOX destination '' @ p @ '' changed filesystem entry during recovery; preserved staged backup''"

definition disappeared :: "string \<Rightarrow> string" where
  "disappeared p = ''BOOX destination '' @ p @ '' disappeared during recovery; preserved staged backup''"

definition open_same_installed_regular_file :: "string \<Rightarrow> entry \<Rightarrow> disk \<Rightarrow> disk \<times> (string + entry)" where
  "open_same_installed_regular_file p opened d =
     and_then (symlink_metadata_if_exists p d) (\<lambda>d before.
     attempt d (ok_or (disappeared p) before) (\<lambda>before.
       if \<not> is_file before then (d, Inl (changed_entry p))
       else
         (case open_entry_guard p d of
            (d, Inl e) \<Rightarrow>
              (d, Inl (''could not re-open BOOX destination '' @ p @ '' during recovery: '' @ io_text e @
                       ''; preserved staged backup''))
          | (d, Inr current) \<Rightarrow>
              and_then (symlink_metadata_if_exists p d) (\<lambda>d after.
              attempt d (ok_or (disappeared p) after) (\<lambda>after.
                if \<not> is_file after \<or> entry_ino opened \<noteq> entry_ino current \<or>
                   entry_ino after \<noteq> entry_ino current
                then (d, Inl (changed_entry p))
                else (d, Inr current))))))"

definition open_installed_regular_file :: "string \<Rightarrow> disk \<Rightarrow> disk \<times> (string + entry)" where
  "open_installed_regular_file p d =
     and_then (symlink_metadata_if_exists p d) (\<lambda>d m.
     attempt d (ok_or (disappeared p) m) (\<lambda>e.
       if \<not> is_file e then
         (d, Inl (''BOOX destination '' @ p @ '' is no longer a regular file; preserved staged backup''))
       else
         (case open_entry_guard p d of
            (d, Inl x) \<Rightarrow>
              (d, Inl (''could not open BOOX destination '' @ p @ '' during recovery: '' @ io_text x @
                       ''; preserved staged backup''))
          | (d, Inr opened) \<Rightarrow>
              and_then (open_same_installed_regular_file p opened d) (\<lambda>d _. (d, Inr opened)))))"

definition retire_validated_staged_backup :: "string \<Rightarrow> string + unit" where
  "retire_validated_staged_backup backup =
     Inl (''confirmed the published BOOX destination, but cannot safely retire staged backup '' @ backup @
          '' on Unix; preserved it for explicit reconciliation'')"

definition reconcile_staged_backup :: "sha \<Rightarrow> string \<Rightarrow> string \<Rightarrow> disk \<Rightarrow> disk \<times> (string + unit)" where
  "reconcile_staged_backup sha destination published_hash d =
     (let backup = sibling_temporary destination ''previous''
      in and_then (symlink_metadata_if_exists backup d) (\<lambda>d m.
         case m of
           None \<Rightarrow> (d, Inr ())
         | Some b \<Rightarrow>
             if \<not> is_symlink b \<and> \<not> is_file b then
               (d, Inl (''staged BOOX backup '' @ backup @ '' is not a regular file''))
             else
               and_then (symlink_metadata_if_exists destination d) (\<lambda>d dest.
                 case dest of
                   None \<Rightarrow> restore_staged_file backup destination d
                 | Some e \<Rightarrow>
                     if is_symlink e then
                       (d, Inl (''BOOX destination '' @ destination @
                                '' was recreated as a symlink; preserved staged backup '' @ backup))
                     else if \<not> is_file e then
                       (d, Inl (''BOOX destination '' @ destination @
                                '' is not a regular file; preserved staged backup '' @ backup))
                     else
                       and_then (open_installed_regular_file destination d) (\<lambda>d opened.
                         if sha256_hex sha (entry_bytes opened) = published_hash \<and> \<not> is_symlink b then
                           and_then (open_same_installed_regular_file destination opened d) (\<lambda>d _.
                             (d, retire_validated_staged_backup backup))
                         else
                           (d, Inl (''both BOOX destination '' @ destination @
                                    '' and interrupted staged backup '' @ backup @
                                    '' contain distinct data; preserved both''))))))"

end
