(* ===== verification/Folder_Files_Facts.thy ===== *)
theory Folder_Files_Facts
  imports Folder_Files
begin

text \<open>
  Replacing a file while its owner may write it between any two system calls: which contents the
  replacement can destroy.
\<close>

section \<open>Another writer of one file\<close>

definition last_of_edits :: "string \<Rightarrow> (string \<times> entry option) list \<Rightarrow> entry option \<Rightarrow> entry option" where
  "last_of_edits p edits l = fold (\<lambda>(q, x) l. if q = p then x else l) edits l"

text \<open>What the other writer left at \<open>p\<close> last, having found \<open>l\<close>.\<close>

fun last_entry :: "string \<Rightarrow> entry option \<Rightarrow> event list \<Rightarrow> entry option" where
  "last_entry p l [] = l"
| "last_entry p l (e # es) =
     last_entry p (case e of External t edits \<Rightarrow> last_of_edits p edits l | _ \<Rightarrow> l) es"

text \<open>Plans in which the other writer touches only \<open>p\<close>, and a call that fails does not pretend
  that a file is missing.\<close>

definition writes_only :: "string \<Rightarrow> event \<Rightarrow> bool" where
  "writes_only p e \<longleftrightarrow>
     (case e of
        External t edits \<Rightarrow> list_all (\<lambda>(q, x). q = p) edits
      | Fault err \<Rightarrow> io_kind err \<noteq> IoNotFound
      | _ \<Rightarrow> True)"

definition tracks :: "string \<Rightarrow> entry option \<Rightarrow> event list \<Rightarrow> disk \<Rightarrow> (string \<rightharpoonup> entry) \<Rightarrow> entry option \<Rightarrow> bool" where
  "tracks p l0 es0 d g l \<longleftrightarrow>
     bm_get (dk_entries d) = g \<and> list_all (writes_only p) (dk_plan d) \<and>
     (\<exists>c. es0 = c @ dk_plan d \<and> l = last_entry p l0 c)"

text \<open>The other writer may have been there.\<close>

definition drift :: "string \<Rightarrow> (string \<rightharpoonup> entry) \<Rightarrow> entry option \<Rightarrow> (string \<rightharpoonup> entry) \<Rightarrow> entry option \<Rightarrow> bool" where
  "drift p g l g1 l1 \<longleftrightarrow> g1 = g \<and> l1 = l \<or> l1 = g1 p \<and> (\<forall>q. q \<noteq> p \<longrightarrow> g1 q = g q)"

lemma drift_other: "drift p g l g1 l1 \<Longrightarrow> q \<noteq> p \<Longrightarrow> g1 q = g q"
  by (auto simp: drift_def)

lemma last_entry_append: "last_entry p l (es @ es') = last_entry p (last_entry p l es) es'"
  by (induction es arbitrary: l) simp_all

lemma edits_drift:
  assumes "list_all (\<lambda>(q, x). q = p) edits" and "edits \<noteq> []"
  shows "bm_get (fold external_edit edits m) p = last_of_edits p edits l"
  using assms(2,1)
proof (induction edits arbitrary: m l rule: rev_nonempty_induct)
  case (single e)
  then show ?case by (cases e; cases "snd e") (auto simp: last_of_edits_def)
next
  case (snoc e edits)
  then show ?case by (cases e; cases "snd e") (auto simp: last_of_edits_def)
qed

lemma edits_other:
  "list_all (\<lambda>(q, x). q = p) edits \<Longrightarrow> q \<noteq> p \<Longrightarrow> bm_get (fold external_edit edits m) q = bm_get m q"
proof (induction edits arbitrary: m)
  case (Cons e edits)
  then show ?case by (cases e; cases "snd e") auto
qed simp

lemma disturb_drift:
  assumes "list_all (\<lambda>(q, x). q = p) edits"
  shows "drift p (bm_get (dk_entries d)) l (bm_get (dk_entries (disturb t edits d))) (last_of_edits p edits l)"
proof (cases "edits = []")
  case True
  then show ?thesis by (simp add: drift_def disturb_def last_of_edits_def)
next
  case False
  with edits_drift [OF assms False, of "dk_entries d" l] edits_other [OF assms] show ?thesis
    by (simp add: drift_def disturb_def)
qed

lemma syscall_tracks:
  assumes "tracks p l0 es0 d g l"
  obtains d0 g1 l1 where "drift p g l g1 l1" "tracks p l0 es0 d0 g1 l1" "syscall f d = f d0"
  | d0 g1 l1 e where "drift p g l g1 l1" "tracks p l0 es0 d0 g1 l1" "syscall f d = (d0, Inl e)"
    "io_kind e \<noteq> IoNotFound"
proof (cases "dk_plan d")
  case Nil
  then have "syscall f d = f d" by (simp add: syscall_def)
  with assms that(1) [of g l d] show ?thesis by (simp add: drift_def)
next
  case (Cons e es)
  obtain c where c: "es0 = c @ e # es" "l = last_entry p l0 c"
    using assms Cons by (auto simp: tracks_def)
  have g: "bm_get (dk_entries d) = g" and w: "writes_only p e" "list_all (writes_only p) es"
    using assms Cons by (auto simp: tracks_def)
  have step: "tracks p l0 es0 d1 (bm_get (dk_entries d1)) (last_entry p l [e])"
    if "dk_plan d1 = es" for d1
    unfolding tracks_def using c w that
    by (auto simp: last_entry_append intro!: exI [of _ "c @ [e]"])
  show ?thesis
  proof (cases e)
    case Calm
    show ?thesis
      by (rule that(1) [of g l "d\<lparr>dk_plan := es\<rparr>"])
         (use Calm Cons g step [of "d\<lparr>dk_plan := es\<rparr>"] in \<open>simp_all add: drift_def syscall_def\<close>)
  next
    case (Fault err)
    show ?thesis
      by (rule that(2) [of g l "d\<lparr>dk_plan := es\<rparr>" err])
         (use Fault Cons g w step [of "d\<lparr>dk_plan := es\<rparr>"] in
           \<open>simp_all add: drift_def syscall_def writes_only_def\<close>)
  next
    case (Torn n)
    show ?thesis
      by (rule that(2) [of g l "d\<lparr>dk_plan := es\<rparr>" interrupted])
         (use Torn Cons g step [of "d\<lparr>dk_plan := es\<rparr>"] in
           \<open>simp_all add: drift_def syscall_def interrupted_def io_failure_def\<close>)
  next
    case (External t edits)
    let ?d = "disturb t edits (d\<lparr>dk_plan := es\<rparr>)"
    have edits: "list_all (\<lambda>(q, x). q = p) edits" using w(1) External by (simp add: writes_only_def)
    have plan: "dk_plan ?d = es" by (simp add: disturb_def)
    show ?thesis
      by (rule that(1) [of "bm_get (dk_entries ?d)" "last_of_edits p edits l" ?d])
         (use External Cons step [OF plan] disturb_drift [OF edits, of "d\<lparr>dk_plan := es\<rparr>" l t] g in
           \<open>simp_all add: syscall_def\<close>)
  next
    case Crash
    show ?thesis
      by (rule that(2) [of g l d interrupted])
         (use Crash Cons assms in \<open>simp_all add: drift_def syscall_def interrupted_def io_failure_def\<close>)
  qed
qed

lemma tracks_put: "tracks p l0 es0 d g l \<Longrightarrow> tracks p l0 es0 (put_entry q e d) (g(q \<mapsto> e)) l"
  by (simp add: tracks_def)

lemma tracks_drop: "tracks p l0 es0 d g l \<Longrightarrow> tracks p l0 es0 (drop_entry q d) (g(q := None)) l"
  by (simp add: tracks_def)

lemma tracks_get: "tracks p l0 es0 d g l \<Longrightarrow> bm_get (dk_entries d) = g"
  by (simp add: tracks_def)

section \<open>Each call\<close>

lemma symlink_metadata_tracks:
  assumes "tracks p l0 es0 d g l"
  shows "\<exists>d' r g1 l1. symlink_metadata_if_exists q d = (d', r) \<and> drift p g l g1 l1 \<and>
    tracks p l0 es0 d' g1 l1 \<and> (\<forall>x. r = Inr x \<longrightarrow> g1 q = x)"
  using assms
proof (cases rule: syscall_tracks [where f = "\<lambda>d. (d, ok_or not_found (bm_get (dk_entries d) q))"])
  case (1 d0 g1 l1)
  then show ?thesis
    using tracks_get [OF 1(2)]
    by (cases "g1 q")
       (auto simp: symlink_metadata_if_exists_def fs_symlink_metadata_def not_found_def io_failure_def)
next
  case (2 d0 g1 l1 e)
  then show ?thesis by (auto simp: symlink_metadata_if_exists_def fs_symlink_metadata_def)
qed

lemma follow_regular: "bm_get m q = Some (Regular i bs t) \<Longrightarrow> follow max_links m q = Some q"
  by (simp add: max_links_def eval_nat_numeral)

lemma metadata_tracks:
  assumes "tracks p l0 es0 d g l"
  shows "\<exists>d' r g1 l1. metadata_if_exists q d = (d', r) \<and> drift p g l g1 l1 \<and>
    tracks p l0 es0 d' g1 l1 \<and> (r = Inr None \<longrightarrow> (\<forall>i bs t. g1 q \<noteq> Some (Regular i bs t)))"
  using assms
proof (cases rule: syscall_tracks [where f = "\<lambda>d. (d, stat_of d q)"])
  case (1 d0 g1 l1)
  have "stat_of d0 q = Inr (Regular i bs t)" if "g1 q = Some (Regular i bs t)" for i bs t
    using follow_regular [of "dk_entries d0" q i bs t] tracks_get [OF 1(2)] that by (simp add: stat_of_def)
  then have none: "\<forall>i bs t. g1 q \<noteq> Some (Regular i bs t)" if "stat_of d0 q = Inl e" for e
    using that by force
  show ?thesis
  proof (cases "stat_of d0 q")
    case (Inl e)
    with 1 none [OF Inl] show ?thesis by (auto simp: metadata_if_exists_def fs_metadata_def)
  next
    case (Inr e)
    with 1 show ?thesis by (auto simp: metadata_if_exists_def fs_metadata_def)
  qed
next
  case (2 d0 g1 l1 e)
  then show ?thesis by (auto simp: metadata_if_exists_def fs_metadata_def)
qed

lemma sha256_file_tracks:
  assumes "tracks p l0 es0 d g l" and "q \<noteq> p"
  shows "\<exists>d' r g1 l1. sha256_file sha q d = (d', r) \<and> drift p g l g1 l1 \<and>
    tracks p l0 es0 d' g1 l1 \<and>
    (\<forall>h e. r = Inr h \<longrightarrow> g q = Some e \<longrightarrow> \<not> is_symlink e \<longrightarrow>
       (\<exists>i bs t. e = Regular i bs t \<and> h = sha256_hex sha bs))"
  using assms(1)
proof (cases rule: syscall_tracks [where f = "\<lambda>d. (d, rbind (stat_of d q) read_entry)"])
  case (1 d0 g1 l1)
  have g1: "bm_get (dk_entries d0) q = g q" using tracks_get [OF 1(2)] drift_other [OF 1(1) assms(2)] by simp
  have "\<exists>i bs t. e = Regular i bs t \<and> h = sha256_hex sha bs"
    if "rbind (stat_of d0 q) read_entry = Inr b" "h = sha256_hex sha b" "g q = Some e" "\<not> is_symlink e" for b h e
  proof (cases e)
    case (Regular i bs t)
    with that g1 follow_regular [of "dk_entries d0" q i bs t] show ?thesis
      by (simp add: stat_of_def read_entry_def)
  next
    case Directory
    have "follow max_links (dk_entries d0) q = Some q"
      using g1 that(3) Directory by (simp add: max_links_def eval_nat_numeral)
    with that g1 Directory show ?thesis by (simp add: stat_of_def read_entry_def)
  next
    case (Symlink x)
    with that show ?thesis by simp
  qed
  with 1 show ?thesis
    by (cases "rbind (stat_of d0 q) read_entry")
       (auto simp: sha256_file_def fs_read_def io_context_def)
next
  case (2 d0 g1 l1 e)
  then show ?thesis by (auto simp: sha256_file_def fs_read_def io_context_def)
qed

lemma remove_file_tracks:
  assumes "tracks p l0 es0 d g l" and "q \<noteq> p"
  shows "\<exists>d' r g1 l1. remove_file_if_exists q d = (d', r) \<and> drift p g l g1 l1 \<and>
    (tracks p l0 es0 d' g1 l1 \<or> tracks p l0 es0 d' (g1(q := None)) l1)"
  using assms(1)
proof (cases rule: syscall_tracks [where f = "\<lambda>d.
     (case bm_get (dk_entries d) q of
        None \<Rightarrow> (d, Inl not_found)
      | Some Directory \<Rightarrow> (d, Inl is_a_directory)
      | Some e \<Rightarrow> (drop_entry q d, Inr ()))"])
  case (1 d0 g1 l1)
  then show ?thesis
    using tracks_drop [OF 1(2), of q]
    by (auto simp: remove_file_if_exists_def fs_remove_file_def split: option.splits entry.splits)
next
  case (2 d0 g1 l1 e)
  then show ?thesis by (auto simp: remove_file_if_exists_def fs_remove_file_def)
qed

lemma rename_tracks:
  assumes "tracks p l0 es0 d g l" and "a \<noteq> b"
  shows "\<exists>d' r g1 l1 g2. fs_rename a b d = (d', r) \<and> drift p g l g1 l1 \<and> tracks p l0 es0 d' g2 l1 \<and>
    ((\<exists>e. r = Inl e) \<and> g2 = g1 \<or>
     r = Inr () \<and> (\<exists>e. g1 a = Some e \<and> g2 = g1(a := None, b \<mapsto> e)))"
  using assms(1)
proof (cases rule: syscall_tracks [where f = "\<lambda>d.
     (case bm_get (dk_entries d) a of
        None \<Rightarrow> (d, Inl not_found)
      | Some e \<Rightarrow>
          if a = b then (d, Inr ())
          else if bm_get (dk_entries d) b = Some Directory \<and> e \<noteq> Directory then (d, Inl is_a_directory)
          else if e = Directory \<and> bm_get (dk_entries d) b \<notin> {None, Some Directory}
          then (d, Inl not_a_directory)
          else (put_entry b e (drop_entry a d), Inr ()))"])
  case (1 d0 g1 l1)
  note g1 = tracks_get [OF 1(2)]
  show ?thesis
  proof (cases "g1 a")
    case None
    with 1 g1 show ?thesis by (auto simp: fs_rename_def)
  next
    case (Some e)
    have "tracks p l0 es0 (put_entry b e (drop_entry a d0)) (g1(a := None, b \<mapsto> e)) l1"
      by (intro tracks_put tracks_drop 1)
    with 1 g1 Some assms(2) show ?thesis
      unfolding fs_rename_def 1(3) by (auto simp del: not_None_eq)
  qed
next
  case (2 d0 g1 l1 e)
  then show ?thesis by (auto simp: fs_rename_def)
qed

lemma rename_noreplace_tracks:
  assumes "tracks p l0 es0 d g l"
  shows "\<exists>d' r g1 l1 g2. fs_rename_noreplace a b d = (d', r) \<and> drift p g l g1 l1 \<and>
    tracks p l0 es0 d' g2 l1 \<and>
    ((\<exists>e. r = Inl e) \<and> g2 = g1 \<or>
     r = Inr () \<and> (\<exists>e. g1 a = Some e \<and> g1 b = None \<and> g2 = g1(a := None, b \<mapsto> e)))"
  using assms
proof (cases rule: syscall_tracks [where f = "\<lambda>d.
     (case bm_get (dk_entries d) a of
        None \<Rightarrow> (d, Inl not_found)
      | Some e \<Rightarrow>
          if bm_get (dk_entries d) b \<noteq> None then (d, Inl already_exists)
          else (put_entry b e (drop_entry a d), Inr ()))"])
  case (1 d0 g1 l1)
  note g1 = tracks_get [OF 1(2)]
  show ?thesis
  proof (cases "g1 a")
    case None
    with 1 g1 show ?thesis by (auto simp: fs_rename_noreplace_def)
  next
    case (Some e)
    have "tracks p l0 es0 (put_entry b e (drop_entry a d0)) (g1(a := None, b \<mapsto> e)) l1"
      by (intro tracks_put tracks_drop 1)
    with 1 g1 Some show ?thesis unfolding fs_rename_noreplace_def 1(3) by auto
  qed
next
  case (2 d0 g1 l1 e)
  then show ?thesis by (auto simp: fs_rename_noreplace_def)
qed

lemma hard_link_tracks:
  assumes "tracks p l0 es0 d g l"
  shows "\<exists>d' r g1 l1 g2. fs_hard_link a b d = (d', r) \<and> drift p g l g1 l1 \<and>
    tracks p l0 es0 d' g2 l1 \<and>
    ((\<exists>e. r = Inl e) \<and> g2 = g1 \<or>
     r = Inr () \<and> (\<exists>e. g1 a = Some e \<and> g1 b = None \<and> g2 = g1(b \<mapsto> e)))"
  using assms
proof (cases rule: syscall_tracks [where f = "\<lambda>d.
     (case bm_get (dk_entries d) a of
        None \<Rightarrow> (d, Inl not_found)
      | Some e \<Rightarrow>
          if bm_get (dk_entries d) b \<noteq> None then (d, Inl already_exists)
          else if e = Directory then (d, Inl is_a_directory)
          else (put_entry b e d, Inr ()))"])
  case (1 d0 g1 l1)
  note g1 = tracks_get [OF 1(2)]
  show ?thesis
  proof (cases "g1 a")
    case None
    with 1 g1 show ?thesis by (auto simp: fs_hard_link_def)
  next
    case (Some e)
    have "tracks p l0 es0 (put_entry b e d0) (g1(b \<mapsto> e)) l1" by (intro tracks_put 1)
    with 1 g1 Some show ?thesis unfolding fs_hard_link_def 1(3) by auto
  qed
next
  case (2 d0 g1 l1 e)
  then show ?thesis by (auto simp: fs_hard_link_def)
qed

section \<open>Nothing of the owner's is lost\<close>

text \<open>What the owner left at \<open>p\<close> last is there or at \<open>b\<close>, unless it may be given up.\<close>

definition kept :: "(bytes \<Rightarrow> bool) \<Rightarrow> string \<Rightarrow> string \<Rightarrow> (string \<rightharpoonup> entry) \<Rightarrow> entry option \<Rightarrow> bool" where
  "kept disposable p b g l \<longleftrightarrow>
     (\<forall>i bs t. l = Some (Regular i bs t) \<longrightarrow> \<not> disposable bs \<longrightarrow> g p = l \<or> g b = l)"

definition safe :: "(bytes \<Rightarrow> bool) \<Rightarrow> string \<Rightarrow> string \<Rightarrow> entry option \<Rightarrow> event list \<Rightarrow> disk \<Rightarrow> bool" where
  "safe disposable p b l0 es0 d \<longleftrightarrow> (\<exists>g l. tracks p l0 es0 d g l \<and> kept disposable p b g l)"

lemma safeI: "tracks p l0 es0 d g l \<Longrightarrow> kept disposable p b g l \<Longrightarrow> safe disposable p b l0 es0 d"
  by (auto simp: safe_def)

lemma kept_drift: "kept disposable p b g l \<Longrightarrow> drift p g l g1 l1 \<Longrightarrow> b \<noteq> p \<Longrightarrow> kept disposable p b g1 l1"
  by (auto simp: kept_def drift_def)

lemma kept_other: "kept disposable p b g l \<Longrightarrow> q \<noteq> p \<Longrightarrow> q \<noteq> b \<Longrightarrow> kept disposable p b (g(q := x)) l"
  by (auto simp: kept_def)

lemma symlink_metadata_safe:
  assumes "tracks p l0 es0 d g l" and "kept disposable p b g l" and "b \<noteq> p"
  obtains d' r g1 l1 where "symlink_metadata_if_exists q d = (d', r)" "tracks p l0 es0 d' g1 l1"
    "kept disposable p b g1 l1" "g1 b = g b" "\<And>x. r = Inr x \<Longrightarrow> g1 q = x"
proof -
  from symlink_metadata_tracks [OF assms(1), of q] obtain d' r g1 l1 where
    "symlink_metadata_if_exists q d = (d', r)" "drift p g l g1 l1" "tracks p l0 es0 d' g1 l1"
    "\<forall>x. r = Inr x \<longrightarrow> g1 q = x" by blast
  with kept_drift [OF assms(2) _ assms(3)] drift_other [OF _ assms(3)] that show thesis by blast
qed

lemma remove_file_safe:
  assumes "tracks p l0 es0 d g l" and "kept disposable p b g l" and "b \<noteq> p" and "q \<noteq> p" and "q \<noteq> b"
  obtains d' r g1 l1 where "remove_file_if_exists q d = (d', r)" "tracks p l0 es0 d' g1 l1"
    "kept disposable p b g1 l1" "g1 b = g b"
proof -
  from remove_file_tracks [OF assms(1,4)] obtain d' r g1 l1 where r:
    "remove_file_if_exists q d = (d', r)" "drift p g l g1 l1"
    "tracks p l0 es0 d' g1 l1 \<or> tracks p l0 es0 d' (g1(q := None)) l1" by blast
  have k: "kept disposable p b g1 l1" by (rule kept_drift [OF assms(2) r(2) assms(3)])
  have "g1 b = g b" by (rule drift_other [OF r(2) assms(3)])
  with r(1,3) k kept_other [OF k assms(4,5), of None] assms(5) that show thesis by (metis fun_upd_other)
qed

text \<open>Moving the new file, or the staged one, to a place that is free.\<close>

lemma kept_arrival:
  assumes "kept disposable p b g l" and "g p = None" and "g a = Some e" and "a \<noteq> p"
  shows "kept disposable p b (g(p \<mapsto> e)) l \<and> (a \<noteq> b \<longrightarrow> kept disposable p b (g(a := None, p \<mapsto> e)) l) \<and>
    (a = b \<longrightarrow> kept disposable p b (g(a := None, p \<mapsto> e)) l)"
  using assms by (auto simp: kept_def)

lemma rename_create_only_safe:
  assumes "tracks p l0 es0 d g l" and "kept disposable p b g l" and "b \<noteq> p" and "a \<noteq> p"
  obtains d' r g1 l1 where "rename_create_only a p d = (d', r)" "tracks p l0 es0 d' g1 l1"
    "kept disposable p b g1 l1" "a \<noteq> b \<Longrightarrow> g1 b = g b"
proof -
  from rename_noreplace_tracks [OF assms(1), of a p] obtain d1 r1 g1 l1 g2 where r:
    "fs_rename_noreplace a p d = (d1, r1)" "drift p g l g1 l1" "tracks p l0 es0 d1 g2 l1"
    "(\<exists>e. r1 = Inl e) \<and> g2 = g1 \<or>
     r1 = Inr () \<and> (\<exists>e. g1 a = Some e \<and> g1 p = None \<and> g2 = g1(a := None, p \<mapsto> e))" by blast
  have k1: "kept disposable p b g1 l1" by (rule kept_drift [OF assms(2) r(2) assms(3)])
  have b1: "g1 b = g b" by (rule drift_other [OF r(2) assms(3)])
  show thesis
  proof (cases r1)
    case (Inr u)
    then obtain e where e: "g1 a = Some e" "g1 p = None" "g2 = g1(a := None, p \<mapsto> e)" using r(4) by auto
    have "kept disposable p b g2 l1" using kept_arrival [OF k1 e(2,1) assms(4)] e(3) by blast
    moreover have "rename_create_only a p d = (d1, Inr ())" using r(1) Inr by (simp add: rename_create_only_def)
    moreover have "g2 b = g b" if "a \<noteq> b" using that e(3) b1 assms(3) by simp
    ultimately show thesis using that r(3) by blast
  next
    case (Inl e)
    with r(3,4) have t1: "tracks p l0 es0 d1 g1 l1" by auto
    show thesis
    proof (cases "create_only_rename_is_unsupported e")
      case False
      then have "rename_create_only a p d = (d1, Inl e)" using r(1) Inl by (simp add: rename_create_only_def)
      with that t1 k1 b1 show thesis by blast
    next
      case True
      then have hl: "rename_create_only a p d = hard_link_create_only a p d1"
        using r(1) Inl by (simp add: rename_create_only_def)
      from hard_link_tracks [OF t1, of a p] obtain d2 r2 g2' l2 g3 where h:
        "fs_hard_link a p d1 = (d2, r2)" "drift p g1 l1 g2' l2" "tracks p l0 es0 d2 g3 l2"
        "(\<exists>e. r2 = Inl e) \<and> g3 = g2' \<or>
         r2 = Inr () \<and> (\<exists>e. g2' a = Some e \<and> g2' p = None \<and> g3 = g2'(p \<mapsto> e))" by blast
      have k2: "kept disposable p b g2' l2" by (rule kept_drift [OF k1 h(2) assms(3)])
      have b2: "g2' b = g b" using drift_other [OF h(2) assms(3)] b1 by simp
      show thesis
      proof (cases r2)
        case (Inl e2)
        with h hl have "rename_create_only a p d = (d2, Inl e2)" "tracks p l0 es0 d2 g2' l2"
          by (auto simp: hard_link_create_only_def)
        with that k2 b2 show thesis by blast
      next
        case (Inr u)
        then obtain e3 where e3: "g2' a = Some e3" "g2' p = None" "g3 = g2'(p \<mapsto> e3)" using h(4) by auto
        have k3: "kept disposable p b g3 l2" using kept_arrival [OF k2 e3(2,1) assms(4)] e3(3) by blast
        have linked: "g3 a = g3 p" using e3 assms(4) by simp
        from remove_file_tracks [OF h(3) assms(4)] obtain d4 r4 g4 l4 where m:
          "remove_file_if_exists a d2 = (d4, r4)" "drift p g3 l2 g4 l4"
          "tracks p l0 es0 d4 g4 l4 \<or> tracks p l0 es0 d4 (g4(a := None)) l4" by blast
        have k4: "kept disposable p b g4 l4" by (rule kept_drift [OF k3 m(2) assms(3)])
        have k5: "kept disposable p b (g4(a := None)) l4"
        proof (cases "a = b")
          case False
          then show ?thesis using kept_other [OF k4 assms(4)] by blast
        next
          case True
          then show ?thesis using k3 m(2) linked assms(3,4) by (auto simp: kept_def drift_def)
        qed
        have b4: "g4 b = g b" using drift_other [OF m(2) assms(3)] e3(3) b2 assms(3) by simp
        have "fst (fs_remove_file a d2) = d4"
          using m(1) by (auto simp: remove_file_if_exists_def split: prod.splits sum.splits if_splits)
        then have res: "rename_create_only a p d = (d4, Inr ())"
          using hl h(1) Inr by (simp add: hard_link_create_only_def)
        from m(3) show thesis
        proof
          assume "tracks p l0 es0 d4 g4 l4"
          with that [OF res _ k4] b4 show thesis by blast
        next
          assume "tracks p l0 es0 d4 (g4(a := None)) l4"
          with that [OF res _ k5] b4 show thesis by (metis fun_upd_other)
        qed
      qed
    qed
  qed
qed

lemma restore_staged_file_safe:
  assumes "tracks p l0 es0 d g l" and "kept disposable p b g l" and "b \<noteq> p"
  shows "safe disposable p b l0 es0 (fst (restore_staged_file b p d))"
proof -
  from symlink_metadata_safe [OF assms, of p] obtain d1 r1 g1 l1 where r:
    "symlink_metadata_if_exists p d = (d1, r1)" "tracks p l0 es0 d1 g1 l1" "kept disposable p b g1 l1"
    by metis
  from rename_create_only_safe [OF r(2,3) assms(3) assms(3)] obtain d2 r2 g2 l2 where m:
    "rename_create_only b p d1 = (d2, r2)" "tracks p l0 es0 d2 g2 l2" "kept disposable p b g2 l2"
    by metis
  show ?thesis
  proof (cases "r1 = Inr None")
    case True
    with r m have "fst (restore_staged_file b p d) = d2"
      by (simp add: restore_staged_file_def split: sum.splits)
    with safeI [OF m(2,3)] show ?thesis by simp
  next
    case False
    with r have "fst (restore_staged_file b p d) = d1"
      by (cases r1) (auto simp: restore_staged_file_def)
    with safeI [OF r(2,3)] show ?thesis by simp
  qed
qed

lemma fst_restoring: "fst (restoring b p e d) = fst (restore_staged_file b p d)"
  by (auto simp: restoring_def split: prod.splits sum.splits)

lemma restoring_safe:
  assumes "tracks p l0 es0 d g l" and "kept disposable p b g l" and "b \<noteq> p"
  shows "safe disposable p b l0 es0 (fst (restoring b p e d))"
  using restore_staged_file_safe [OF assms] by (simp add: fst_restoring)

lemma publish_create_only_safe:
  assumes "tracks p l0 es0 d g l" and "kept disposable p b g l" and "b \<noteq> p" and "a \<noteq> p" and "a \<noteq> b"
  obtains d' r g1 l1 where "publish_create_only a p d = (d', r)" "tracks p l0 es0 d' g1 l1"
    "kept disposable p b g1 l1" "g1 b = g b"
proof -
  from rename_create_only_safe [OF assms(1-4)] obtain d1 r1 g1 l1 where r:
    "rename_create_only a p d = (d1, r1)" "tracks p l0 es0 d1 g1 l1" "kept disposable p b g1 l1"
    "g1 b = g b" using assms(5) by metis
  from remove_file_safe [OF r(2,3) assms(3,4,5)] obtain d2 r2 g2 l2 where m:
    "remove_file_if_exists a d1 = (d2, r2)" "tracks p l0 es0 d2 g2 l2" "kept disposable p b g2 l2"
    "g2 b = g1 b" by metis
  show thesis
  proof (cases "\<exists>e. r1 = Inl e \<and> io_kind e = IoAlreadyExists")
    case True
    then have "publish_create_only a p d = and_then (d2, r2) (\<lambda>d _. (d, Inr False))"
      using r(1) m(1) by (auto simp: publish_create_only_def)
    then have "\<exists>r. publish_create_only a p d = (d2, r)" by (cases r2) simp_all
    with that m r(4) show thesis by metis
  next
    case False
    then have "\<exists>r. publish_create_only a p d = (d1, r)"
      using r(1) by (cases r1) (auto simp: publish_create_only_def)
    with that r show thesis by metis
  qed
qed

text \<open>The new file is discarded and the staged one put back.\<close>

lemma discard_and_restore_safe:
  assumes "tracks p l0 es0 d g l" and "kept disposable p b g l" and "b \<noteq> p" and "a \<noteq> p" and "a \<noteq> b"
  shows "safe disposable p b l0 es0 (fst (and_then (remove_file_if_exists a d) (\<lambda>d _.
    and_then (restore_staged_file b p d) (\<lambda>d _. (d, Inr False)))))"
proof -
  from remove_file_safe [OF assms] obtain d1 r1 g1 l1 where m:
    "remove_file_if_exists a d = (d1, r1)" "tracks p l0 es0 d1 g1 l1" "kept disposable p b g1 l1"
    by metis
  show ?thesis
  proof (cases r1)
    case (Inl e)
    with m safeI [OF m(2,3)] show ?thesis by simp
  next
    case (Inr u)
    have "fst (and_then (restore_staged_file b p d1) (\<lambda>d _. (d, Inr False))) = fst (restore_staged_file b p d1)"
      by (auto simp: and_then_def split: prod.splits sum.splits)
    with Inr m(1) restore_staged_file_safe [OF m(2,3) assms(3)] show ?thesis by simp
  qed
qed

lemma replace_staged_safe:
  assumes "tracks p l0 es0 d g l" and "kept (\<lambda>bs. sha256_hex sha bs = h) p b g l"
    and "b \<noteq> p" and "a \<noteq> p" and "a \<noteq> b"
  shows "safe (\<lambda>bs. sha256_hex sha bs = h) p b l0 es0 (fst (replace_staged sha a p b h d))"
proof -
  let ?D = "\<lambda>bs. sha256_hex sha bs = h"
  obtain d1 r1 g1 l1 where r:
    "symlink_metadata_if_exists b d = (d1, r1)" "tracks p l0 es0 d1 g1 l1" "kept ?D p b g1 l1"
    "\<And>x. r1 = Inr x \<Longrightarrow> g1 b = x"
    by (rule symlink_metadata_safe [OF assms(1-3), of b]) blast
  note put_back = restoring_safe [OF _ _ assms(3)] discard_and_restore_safe [OF _ _ assms(3-5)]
  show ?thesis
  proof (cases "\<exists>e. r1 = Inr (Some e)")
    case False
    then have "fst (replace_staged sha a p b h d) = d1"
      using r(1) by (cases r1) (auto simp: replace_staged_def split: option.splits)
    with safeI [OF r(2,3)] show ?thesis by simp
  next
    case True
    then obtain e where e: "r1 = Inr (Some e)" by blast
    then have gb: "g1 b = Some e" using r(4) by simp
    show ?thesis
    proof (cases "is_symlink e")
      case True
      with r(1) e put_back(2) [OF r(2,3)] show ?thesis by (simp add: replace_staged_def)
    next
      case nolink: False
      from sha256_file_tracks [OF r(2) assms(3), of sha] obtain d2 r2 g2 l2 where s:
        "sha256_file sha b d1 = (d2, r2)" "drift p g1 l1 g2 l2" "tracks p l0 es0 d2 g2 l2"
        "\<And>h. r2 = Inr h \<Longrightarrow> \<exists>i bs t. e = Regular i bs t \<and> h = sha256_hex sha bs"
        using gb nolink by metis
      have k2: "kept ?D p b g2 l2" by (rule kept_drift [OF r(3) s(2) assms(3)])
      have gb2: "g2 b = Some e" using drift_other [OF s(2) assms(3)] gb by simp
      show ?thesis
      proof (cases r2)
        case (Inl x)
        with r(1) e nolink s(1) put_back(1) [OF s(3) k2] show ?thesis by (simp add: replace_staged_def)
      next
        case (Inr h')
        show ?thesis
        proof (cases "h' = h")
          case False
          with r(1) e nolink s(1) Inr put_back(2) [OF s(3) k2] show ?thesis by (simp add: replace_staged_def)
        next
          case True
          then obtain i bs t where eb: "e = Regular i bs t" "?D bs" using s(4) [OF Inr] by auto
          from publish_create_only_safe [OF s(3) k2 assms(3-5)] obtain d3 r3 g3 l3 where q:
            "publish_create_only a p d2 = (d3, r3)" "tracks p l0 es0 d3 g3 l3" "kept ?D p b g3 l3"
            "g3 b = g2 b" by metis
          show ?thesis
          proof (cases r3)
            case (Inl x)
            with r(1) e nolink s(1) Inr True q(1) put_back(1) [OF q(2,3)] show ?thesis
              by (simp add: replace_staged_def)
          next
            case r3: (Inr published)
            from remove_file_tracks [OF q(2) assms(3)] obtain d4 r4 g4 l4 where m:
              "remove_file_if_exists b d3 = (d4, r4)" "drift p g3 l3 g4 l4"
              "tracks p l0 es0 d4 g4 l4 \<or> tracks p l0 es0 d4 (g4(b := None)) l4" by blast
            have k4: "kept ?D p b g4 l4" by (rule kept_drift [OF q(3) m(2) assms(3)])
            have "g4 b = Some (Regular i bs t)"
              using drift_other [OF m(2) assms(3)] q(4) gb2 eb(1) by simp
            with k4 eb(2) assms(3) have "kept ?D p b (g4(b := None)) l4" by (auto simp: kept_def)
            with m(3) k4 have "safe ?D p b l0 es0 d4" by (auto intro: safeI)
            moreover have "fst (and_then (d4, r4) (\<lambda>d _. (d, Inr published))) = d4" by (cases r4) simp_all
            ultimately show ?thesis
              using r(1) e nolink s(1) Inr True q(1) r3 m(1) by (simp add: replace_staged_def)
          qed
        qed
      qed
    qed
  qed
qed

lemma replace_existing_safe:
  assumes "tracks p l0 es0 d g l" and "kept (\<lambda>bs. sha256_hex sha bs = h) p b g l"
    and "b = sibling_temporary p ''previous''" and "b \<noteq> p" and "a \<noteq> p" and "a \<noteq> b"
  shows "safe (\<lambda>bs. sha256_hex sha bs = h) p b l0 es0 (fst (replace_existing_file_conditionally sha a p h d))"
proof -
  let ?D = "\<lambda>bs. sha256_hex sha bs = h"
  from metadata_tracks [OF assms(1), of p] obtain d1 r1 g1 l1 where r:
    "metadata_if_exists p d = (d1, r1)" "drift p g l g1 l1" "tracks p l0 es0 d1 g1 l1" by blast
  have k1: "kept ?D p b g1 l1" by (rule kept_drift [OF assms(2) r(2) assms(4)])
  show ?thesis
  proof (cases r1)
    case (Inl e)
    with r(1) safeI [OF r(3) k1] show ?thesis by (simp add: replace_existing_file_conditionally_def)
  next
    case r1: (Inr m)
    show ?thesis
    proof (cases m)
      case None
      from remove_file_safe [OF r(3) k1 assms(4-6)] obtain d2 r2 g2 l2 where m:
        "remove_file_if_exists a d1 = (d2, r2)" "tracks p l0 es0 d2 g2 l2" "kept ?D p b g2 l2" by metis
      have "fst (and_then (d2, r2) (\<lambda>d _. (d, Inr False))) = d2" by (cases r2) simp_all
      with None r1 r(1) m(1) safeI [OF m(2,3)] show ?thesis
        by (simp add: replace_existing_file_conditionally_def)
    next
      case m: (Some e)
      from metadata_tracks [OF r(3), of b] obtain d2 r2 g2 l2 where s:
        "metadata_if_exists b d1 = (d2, r2)" "drift p g1 l1 g2 l2" "tracks p l0 es0 d2 g2 l2"
        "r2 = Inr None \<longrightarrow> (\<forall>i bs t. g2 b \<noteq> Some (Regular i bs t))" by blast
      have k2: "kept ?D p b g2 l2" by (rule kept_drift [OF k1 s(2) assms(4)])
      show ?thesis
      proof (cases "is_file e \<and> r2 = Inr None")
        case False
        then have "fst (replace_existing_file_conditionally sha a p h d) \<in> {d1, d2}"
          using r(1) r1 m s(1) assms(3)
          by (cases r2) (auto simp: replace_existing_file_conditionally_def Let_def)
        with safeI [OF r(3) k1] safeI [OF s(3) k2] show ?thesis by auto
      next
        case True
        from rename_tracks [OF s(3), of p b] assms(4) obtain d3 r3 g3 l3 g4 where q:
          "fs_rename p b d2 = (d3, r3)" "drift p g2 l2 g3 l3" "tracks p l0 es0 d3 g4 l3"
          "(\<exists>e. r3 = Inl e) \<and> g4 = g3 \<or>
           r3 = Inr () \<and> (\<exists>e. g3 p = Some e \<and> g4 = g3(p := None, b \<mapsto> e))" by metis
        have k3: "kept ?D p b g3 l3" by (rule kept_drift [OF k2 q(2) assms(4)])
        have b3: "\<forall>i bs t. g3 b \<noteq> Some (Regular i bs t)"
          using drift_other [OF q(2) assms(4)] s(4) True by simp
        have k4: "kept ?D p b g4 l3" using q(4) k3 b3 by (auto simp: kept_def)
        show ?thesis
        proof (cases r3)
          case (Inl x)
          with r(1) r1 m True s(1) q(1) assms(3) safeI [OF q(3) k4] show ?thesis
            by (simp add: replace_existing_file_conditionally_def Let_def io_context_def)
        next
          case (Inr u)
          with r(1) r1 m True s(1) q(1) assms(3) replace_staged_safe [OF q(3) k4 assms(4-6)]
          show ?thesis by (simp add: replace_existing_file_conditionally_def Let_def io_context_def)
        qed
      qed
    qed
  qed
qed

lemma replace_file_safe:
  assumes "tracks p l0 es0 d g l" and "kept (\<lambda>bs. expected = Sha256 (sha256_hex sha bs)) p b g l"
    and "b = sibling_temporary p ''previous''" and "b \<noteq> p" and "a \<noteq> p" and "a \<noteq> b"
  shows "safe (\<lambda>bs. expected = Sha256 (sha256_hex sha bs)) p b l0 es0
    (fst (replace_file sha a p (Some expected) d))"
proof (cases expected)
  case Missing
  from publish_create_only_safe [OF assms(1,2,4-6)] obtain d1 r1 g1 l1 where
    "publish_create_only a p d = (d1, r1)" "tracks p l0 es0 d1 g1 l1"
    "kept (\<lambda>bs. expected = Sha256 (sha256_hex sha bs)) p b g1 l1" by metis
  with Missing show ?thesis by (auto simp: replace_file_def intro: safeI)
next
  case (Sha256 h)
  have d: "(\<lambda>bs. expected = Sha256 (sha256_hex sha bs)) = (\<lambda>bs. sha256_hex sha bs = h)"
    using Sha256 by auto
  have "safe (\<lambda>bs. sha256_hex sha bs = h) p b l0 es0 (fst (replace_file sha a p (Some expected) d))"
    using replace_existing_safe [OF assms(1) assms(2) [unfolded d] assms(3-6)] Sha256
    by (simp add: replace_file_def)
  then show ?thesis by (simp only: d)
qed

text \<open>With nobody around, the new file is installed.\<close>

lemma replace_file_installs:
  assumes "dk_plan d = []" and "bm_get (dk_entries d) p = Some (Regular i bs t)"
    and "bm_get (dk_entries d) a = Some e" and "bm_get (dk_entries d) (sibling_temporary p ''previous'') = None"
    and "sibling_temporary p ''previous'' \<noteq> p" and "a \<noteq> p"
  shows "\<exists>d'. replace_file sha a p (Some (Sha256 (sha256_hex sha bs))) d = (d', Inr True) \<and>
    bm_get (dk_entries d') = (bm_get (dk_entries d))(a := None, p \<mapsto> e)"
proof -
  let ?b = "sibling_temporary p ''previous''"
  let ?d1 = "put_entry ?b (Regular i bs t) (drop_entry p d)"
  let ?d2 = "put_entry p e (drop_entry a ?d1)"
  have ab: "a \<noteq> ?b" using assms(3,4) by auto
  have m1: "metadata_if_exists p d = (d, Inr (Some (Regular i bs t)))"
    using assms(1,2) follow_regular [OF assms(2)]
    by (simp add: metadata_if_exists_def fs_metadata_def stat_of_def)
  have "follow max_links (dk_entries d) ?b = Some ?b"
    using assms(4) by (simp add: max_links_def eval_nat_numeral)
  then have m2: "metadata_if_exists ?b d = (d, Inr None)"
    using assms(1,4) by (simp add: metadata_if_exists_def fs_metadata_def stat_of_def not_found_def io_failure_def)
  have r: "fs_rename p ?b d = (?d1, Inr ())"
    using assms(1,2,4,5) by (simp add: fs_rename_def)
  have l: "symlink_metadata_if_exists ?b ?d1 = (?d1, Inr (Some (Regular i bs t)))"
    using assms(1) by (simp add: symlink_metadata_if_exists_def fs_symlink_metadata_def)
  have "bm_get (dk_entries ?d1) ?b = Some (Regular i bs t)" by simp
  from follow_regular [OF this] have h: "sha256_file sha ?b ?d1 = (?d1, Inr (sha256_hex sha bs))"
    using assms(1) by (simp add: sha256_file_def fs_read_def stat_of_def read_entry_def io_context_def)
  have q: "publish_create_only a p ?d1 = (?d2, Inr True)"
    using assms ab by (simp add: publish_create_only_def rename_create_only_def fs_rename_noreplace_def)
  have "remove_file_if_exists ?b ?d2 = (drop_entry ?b ?d2, Inr ())"
    using assms(1,5) ab by (simp add: remove_file_if_exists_def fs_remove_file_def)
  then have "replace_file sha a p (Some (Sha256 (sha256_hex sha bs))) d = (drop_entry ?b ?d2, Inr True)"
    using m1 m2 r l h q
    by (simp add: replace_file_def replace_existing_file_conditionally_def replace_staged_def
        Let_def io_context_def)
  moreover have "bm_get (dk_entries (drop_entry ?b ?d2)) = (bm_get (dk_entries d))(a := None, p \<mapsto> e)"
    using assms(4,5,6) ab by (auto simp: fun_eq_iff)
  ultimately show ?thesis by blast
qed

end
