(* ===== verification/Folder_Config.thy ===== *)
theory Folder_Config
  imports File_System Broker_Model
begin

text \<open>
  The configuration of the folder transport (inkbridge-folder-transport/src/model.rs) and its
  validation.  What the validation asks of the operating system (the current directory,
  \<open>canonicalize\<close> and \<open>symlink_metadata\<close>) is a parameter, a \<open>path_view\<close>; so is the JSON decoder.
  Platform texts are those of Unix.
\<close>

section \<open>The configuration\<close>

definition config_schema_version :: u32 where "config_schema_version = 1"

record document_folders =
  df_document_id :: string
  df_original_file_name :: string
  df_boox_pdf :: string
  df_supernote_export_directory :: string
  df_supernote_incoming_directory :: string

record transport_config =
  tc_schema_version :: u32
  tc_bucket :: string
  tc_gcloud_command :: string
  tc_poll_seconds :: u64
  tc_settle_seconds :: u64
  tc_state_path :: string
  tc_boox_handoff_root :: "string option"
  tc_documents :: "document_folders list"

definition parent_or_dot :: "string \<Rightarrow> string" where
  "parent_or_dot p = (case path_parent p of None \<Rightarrow> ''.'' | Some q \<Rightarrow> q)"

definition supernote_acknowledged_directory :: "document_folders \<Rightarrow> string" where
  "supernote_acknowledged_directory f =
     path_join (parent_or_dot (df_supernote_incoming_directory f)) ''acknowledged''"

definition supernote_accepted_directory :: "document_folders \<Rightarrow> string" where
  "supernote_accepted_directory f =
     path_join (parent_or_dot (df_supernote_export_directory f)) ''.inkbridge-accepted''"

section \<open>Path keys\<close>

record path_view =
  pv_current_dir :: "io_error + string"
  pv_canonicalize :: "string \<Rightarrow> io_error + string"
  pv_symlink_metadata :: "string \<Rightarrow> io_error + entry"

definition platform_path_key :: "string \<Rightarrow> string" where
  "platform_path_key p = map (\<lambda>c. if c = CHR 0x5C then CHR ''/'' else c) p"

text \<open>One step of the loop of \<open>lexical_normalize\<close>: \<open>..\<close> removes a normal component, is kept at the
  start of a relative path, and is dropped at the root.\<close>

definition normalize_step :: "bool \<Rightarrow> path_component \<Rightarrow> string \<Rightarrow> string" where
  "normalize_step rooted c n =
     (case c of
        CurDir \<Rightarrow> n
      | ParentDir \<Rightarrow>
          (case last_component n of
             Some (NormalPart s) \<Rightarrow> path_pop n
           | Some ParentDir \<Rightarrow> if rooted then n else path_join n ''..''
           | None \<Rightarrow> if rooted then n else path_join n ''..''
           | _ \<Rightarrow> n)
      | _ \<Rightarrow> path_join n (component_text c))"

definition lexical_normalize :: "string \<Rightarrow> string" where
  "lexical_normalize p = fold (normalize_step (is_absolute p)) (path_components p) []"

definition absolute_path :: "path_view \<Rightarrow> string \<Rightarrow> string + string" where
  "absolute_path V p =
     (if is_absolute p then Inr p
      else map_err (\<lambda>e. ''could not resolve current directory: '' @ io_text e)
             (rbind (pv_current_dir V) (\<lambda>cwd. Inr (path_join cwd p))))"

definition lexical_path_key :: "path_view \<Rightarrow> string \<Rightarrow> string + string" where
  "lexical_path_key V p =
     rbind (absolute_path V p) (\<lambda>a. Inr (platform_path_key (lexical_normalize a)))"

text \<open>The loop of \<open>resolve_existing_ancestor\<close>: the missing components are collected from the last
  one on, and pushed back onto the first ancestor that exists.\<close>

definition no_ancestor :: "string \<Rightarrow> string" where
  "no_ancestor p = ''could not find an existing ancestor for '' @ p"

function resolve_ancestors :: "path_view \<Rightarrow> string \<Rightarrow> string \<Rightarrow> string list \<Rightarrow> string + string" where
  "resolve_ancestors V p ancestor missing =
     (case pv_canonicalize V ancestor of
        Inr resolved \<Rightarrow> Inr (lexical_normalize (fold (\<lambda>c r. path_join r c) missing resolved))
      | Inl e \<Rightarrow>
          if io_kind e \<noteq> IoNotFound then
            Inl (''could not resolve mapped path '' @ p @ '': '' @ io_text e)
          else
            let checked =
                  (case pv_symlink_metadata V ancestor of
                     Inr m \<Rightarrow>
                       if is_symlink m then
                         Inl (''mapped path '' @ p @ '' contains dangling symlink '' @ ancestor)
                       else Inr ()
                   | Inl x \<Rightarrow>
                       if io_kind x = IoNotFound then Inr ()
                       else Inl (''could not inspect mapped path component '' @ ancestor @ '': '' @
                                 io_text x))
            in case checked of
                 Inl x \<Rightarrow> Inl x
               | Inr _ \<Rightarrow>
                   (case last_component ancestor of
                      None \<Rightarrow> Inl (no_ancestor p)
                    | Some c \<Rightarrow>
                        if c = RootDir then Inl (no_ancestor p)
                        else (case path_parent ancestor of
                                None \<Rightarrow> Inl (no_ancestor p)
                              | Some q \<Rightarrow> resolve_ancestors V p q (component_text c # missing))))"
  by pat_completeness auto
termination
  by (relation "measure (\<lambda>(V, p, ancestor, missing). length ancestor)") (auto simp: path_parent_shorter)

declare resolve_ancestors.simps [simp del]

definition resolve_existing_ancestor :: "path_view \<Rightarrow> string \<Rightarrow> string + string" where
  "resolve_existing_ancestor V p = rbind (absolute_path V p) (\<lambda>a. resolve_ancestors V p a [])"

definition normalized_path_key :: "path_view \<Rightarrow> string \<Rightarrow> string + string" where
  "normalized_path_key V p =
     rbind (resolve_existing_ancestor V p) (\<lambda>r. Inr (platform_path_key r))"

definition path_key_variants :: "path_view \<Rightarrow> string \<Rightarrow> string + string bset" where
  "path_key_variants V p =
     rbind (lexical_path_key V p) (\<lambda>a.
     rbind (normalized_path_key V p) (\<lambda>b. Inr (bs_of_list [a, b])))"

section \<open>When paths collide\<close>

definition key_contains_path :: "string \<Rightarrow> string \<Rightarrow> bool" where
  "key_contains_path directory candidate \<longleftrightarrow> path_starts_with candidate directory"

definition keys_overlap :: "string \<Rightarrow> string \<Rightarrow> bool" where
  "keys_overlap a b \<longleftrightarrow> key_contains_path a b \<or> key_contains_path b a"

definition path_sets_overlap :: "string bset \<Rightarrow> string bset \<Rightarrow> bool" where
  "path_sets_overlap left right \<longleftrightarrow> list_ex (\<lambda>a. list_ex (\<lambda>b. keys_overlap a b) right) left"

definition sibling_temporary_key :: "string \<Rightarrow> string \<Rightarrow> string" where
  "sibling_temporary_key p suffix' =
     (let name = (case path_file_name p of None \<Rightarrow> ''inkbridge'' | Some n \<Rightarrow> n)
      in platform_path_key (with_file_name p (''.'' @ name @ ''.'' @ suffix' @ ''.part'')))"

definition boox_static_temporary_keys :: "string \<Rightarrow> string list" where
  "boox_static_temporary_keys boox =
     [sibling_temporary_key boox ''compact-upload'', sibling_temporary_key boox ''previous'']"

definition same_parent :: "string \<Rightarrow> string \<Rightarrow> bool" where
  "same_parent p q \<longleftrightarrow>
     (case (path_parent p, path_parent q) of
        (None, None) \<Rightarrow> True
      | (Some a, Some b) \<Rightarrow> same_path a b
      | _ \<Rightarrow> False)"

definition is_boox_temporary_for :: "string \<Rightarrow> string \<Rightarrow> bool" where
  "is_boox_temporary_for candidate boox \<longleftrightarrow>
     same_parent candidate boox \<and>
     (case (path_file_name candidate, path_file_name boox) of
        (Some c, Some b) \<Rightarrow>
          c = ''.'' @ b @ ''.compact-upload.part'' \<or> c = ''.'' @ b @ ''.previous.part'' \<or>
          (case strip_prefix (''.'' @ b @ ''.g'') c of
             None \<Rightarrow> False
           | Some rest \<Rightarrow>
               (case strip_suffix ''.part'' rest of
                  None \<Rightarrow> False
                | Some generation \<Rightarrow> generation \<noteq> [] \<and> list_all is_digit generation))
      | _ \<Rightarrow> False)"

definition is_at_or_below_boox_temporary :: "string \<Rightarrow> string \<Rightarrow> bool" where
  "is_at_or_below_boox_temporary candidate boox \<longleftrightarrow>
     list_ex (\<lambda>a. is_boox_temporary_for (platform_path_key a) boox) (path_ancestors candidate)"

definition boox_paths_conflict :: "string \<Rightarrow> string \<Rightarrow> bool" where
  "boox_paths_conflict a b \<longleftrightarrow>
     a = b \<or> is_at_or_below_boox_temporary a b \<or> is_at_or_below_boox_temporary b a"

definition boox_mapping_overlaps_path :: "string \<Rightarrow> string \<Rightarrow> bool" where
  "boox_mapping_overlaps_path boox other \<longleftrightarrow>
     keys_overlap other boox \<or>
     list_ex (\<lambda>t. keys_overlap other t) (boox_static_temporary_keys boox) \<or>
     is_at_or_below_boox_temporary other boox"

section \<open>Validation\<close>

definition is_stable_document_id :: "string \<Rightarrow> bool" where
  "is_stable_document_id v \<longleftrightarrow>
     (case strip_prefix ''inkbridge-doc-v1-'' v of
        None \<Rightarrow> False
      | Some h \<Rightarrow> length h = 64 \<and> list_all (\<lambda>c. is_digit c \<or> (97 \<le> byte c \<and> byte c \<le> 102)) h)"

definition state_reserved_paths :: "string \<Rightarrow> string list" where
  "state_reserved_paths p =
     [p, with_extension p ''json.next'', with_extension p ''json.previous'', with_extension p ''json.lock'']"

definition reject_leaf_symlink :: "path_view \<Rightarrow> string \<Rightarrow> string \<Rightarrow> string + unit" where
  "reject_leaf_symlink V what p =
     (case pv_symlink_metadata V p of
        Inr m \<Rightarrow>
          if is_symlink m then
            Inl (what @ '' '' @ p @ '' must not be a leaf symlink; use its target path or a symlinked parent directory'')
          else Inr ()
      | Inl e \<Rightarrow>
          if io_kind e = IoNotFound then Inr ()
          else Inl (''could not inspect '' @ what @ '' entry '' @ p @ '': '' @ io_text e))"

text \<open>\<open>char::is_control\<close>: U+0000 to U+001F and U+007F to U+009F, in UTF-8.\<close>

fun has_control :: "int list \<Rightarrow> bool" where
  "has_control [] = False"
| "has_control (a # bs) \<longleftrightarrow>
     a < 32 \<or> a = 127 \<or> (a = 194 \<and> (case bs of b # _ \<Rightarrow> 128 \<le> b \<and> b < 160 | [] \<Rightarrow> False)) \<or>
     has_control bs"

definition unsafe_handoff_name :: "string \<Rightarrow> bool" where
  "unsafe_handoff_name name \<longleftrightarrow>
     180 < length name \<or> path_file_name name \<noteq> Some name \<or> name = ''.'' \<or> name = ''..'' \<or>
     CHR ''/'' \<in> set name \<or> CHR 0x5C \<in> set name \<or> has_control (map byte name)"

text \<open>The reserved paths of the state file, each with one of its keys.\<close>

definition state_paths_of :: "path_view \<Rightarrow> string \<Rightarrow> string + (string \<times> string) list" where
  "state_paths_of V p =
     (if p = [] then Inr []
      else rbind (try_map (\<lambda>q. rbind (path_key_variants V q) (\<lambda>ks. Inr (map (Pair q) ks)))
                    (state_reserved_paths p)) (\<lambda>kss. Inr (concat kss)))"

type_synonym taken = "string bset \<times> string bset"

definition validate_root ::
    "path_view \<Rightarrow> (string \<times> string) list \<Rightarrow> string option \<Rightarrow> string + string bset" where
  "validate_root V state_paths root =
     (case root of
        None \<Rightarrow> Inr []
      | Some r \<Rightarrow>
          rbind (reject_leaf_symlink V ''booxHandoffRoot'' r) (\<lambda>_.
          rbind (path_key_variants V r) (\<lambda>root_paths.
          case find (\<lambda>(q, k). list_ex (\<lambda>r. keys_overlap r k) root_paths) state_paths of
            Some (q, k) \<Rightarrow>
              Inl (''statePath or companion '' @ q @ '' must be outside booxHandoffRoot '' @ r)
          | None \<Rightarrow> Inr root_paths)))"

definition validate_directory ::
    "path_view \<Rightarrow> (string \<times> string) list \<Rightarrow> string bset \<Rightarrow> string \<times> string \<Rightarrow> string bset \<Rightarrow> string + string bset" where
  "validate_directory V state_paths boox_paths dir supernote_paths =
     (case dir of (direction, directory) \<Rightarrow>
        rbind (path_key_variants V directory) (\<lambda>keys.
          if list_ex (\<lambda>k. list_ex (\<lambda>existing. keys_overlap existing k) supernote_paths) keys then
            Inl (''Supernote '' @ direction @ '' directory '' @ directory @
                 '' overlaps a directory used by another mapping or direction'')
          else if list_ex (\<lambda>k. list_ex (\<lambda>b. boox_mapping_overlaps_path b k) boox_paths) keys then
            Inl (''Supernote '' @ direction @ '' directory '' @ directory @ '' overlaps a mapped BOOX file'')
          else
            case find (\<lambda>(q, state). list_ex (\<lambda>k. keys_overlap k state) keys) state_paths of
              Some (q, state) \<Rightarrow>
                Inl (''statePath or companion '' @ q @ '' must be outside Supernote '' @ direction @
                     '' directory '' @ directory)
            | None \<Rightarrow> Inr (fold bs_insert keys supernote_paths)))"

fun validate_directories ::
    "path_view \<Rightarrow> (string \<times> string) list \<Rightarrow> string bset \<Rightarrow> (string \<times> string) list \<Rightarrow> string bset \<Rightarrow> string + string bset" where
  "validate_directories V state_paths boox_paths [] supernote_paths = Inr supernote_paths"
| "validate_directories V state_paths boox_paths (dir # dirs) supernote_paths =
     rbind (validate_directory V state_paths boox_paths dir supernote_paths)
       (validate_directories V state_paths boox_paths dirs)"

definition mapped_directories :: "document_folders \<Rightarrow> (string \<times> string) list" where
  "mapped_directories f =
     [(''outgoing'', df_supernote_export_directory f), (''incoming'', df_supernote_incoming_directory f),
      (''acknowledged'', supernote_acknowledged_directory f),
      (''accepted-cache'', supernote_accepted_directory f)]"

definition validate_document ::
    "path_view \<Rightarrow> bool \<Rightarrow> (string \<times> string) list \<Rightarrow> document_folders \<Rightarrow> string list \<times> taken \<Rightarrow>
       string + (string list \<times> taken)" where
  "validate_document V handoff state_paths f acc =
     (case acc of (ids, boox_paths, supernote_paths) \<Rightarrow>
        if \<not> is_stable_document_id (df_document_id f) then
          Inl (''invalid stable documentId '' @ df_document_id f)
        else if df_document_id f \<in> set ids then Inl (''duplicate documentId '' @ df_document_id f)
        else
          rbind (reject_leaf_symlink V ''booxPdf'' (df_boox_pdf f)) (\<lambda>_.
          rbind (path_key_variants V (df_boox_pdf f)) (\<lambda>keys.
          if list_ex (\<lambda>k. list_ex (\<lambda>existing. boox_paths_conflict existing k) boox_paths) keys then
            Inl (''booxPdf mapping '' @ df_boox_pdf f @
                 '' collides with another BOOX file or reserved temporary path'')
          else if list_ex (\<lambda>k. list_ex (\<lambda>d. boox_mapping_overlaps_path k d) supernote_paths) keys then
            Inl (''BOOX file '' @ df_boox_pdf f @ '' overlaps a mapped Supernote directory'')
          else
            case find (\<lambda>(q, state). list_ex (\<lambda>k. boox_mapping_overlaps_path k state) keys) state_paths of
              Some (q, state) \<Rightarrow>
                Inl (''statePath or companion '' @ q @ '' collides with BOOX file '' @ df_boox_pdf f)
            | None \<Rightarrow>
                if blank (df_original_file_name f) then
                  Inl (df_document_id f @ '' has an empty originalFileName'')
                else if handoff \<and> unsafe_handoff_name (df_original_file_name f) then
                  Inl (df_document_id f @
                       '' originalFileName must be a safe BOOX handoff filename of at most 180 UTF-8 bytes'')
                else if same_path (df_supernote_export_directory f) (df_supernote_incoming_directory f) then
                  Inl (df_document_id f @ '' must use separate Supernote outgoing and incoming directories'')
                else
                  let boox_paths' = fold bs_insert keys boox_paths
                  in rbind (validate_directories V state_paths boox_paths' (mapped_directories f)
                              supernote_paths) (\<lambda>supernote_paths'.
                     Inr (df_document_id f # ids, boox_paths', supernote_paths')))))"

fun validate_documents ::
    "path_view \<Rightarrow> bool \<Rightarrow> (string \<times> string) list \<Rightarrow> document_folders list \<Rightarrow> string list \<times> taken \<Rightarrow>
       string + (string list \<times> taken)" where
  "validate_documents V handoff state_paths [] acc = Inr acc"
| "validate_documents V handoff state_paths (f # fs) acc =
     rbind (validate_document V handoff state_paths f acc) (validate_documents V handoff state_paths fs)"

definition validate_transport_config :: "path_view \<Rightarrow> transport_config \<Rightarrow> string + unit" where
  "validate_transport_config V c =
     (if tc_schema_version c \<noteq> config_schema_version then
        Inl (''unsupported transport config schema '' @ show_u32 (tc_schema_version c))
      else if blank (tc_bucket c) \<or> CHR ''/'' \<in> set (tc_bucket c) then
        Inl ''bucket must be a Cloud Storage bucket name''
      else if tc_poll_seconds c = 0 then Inl ''pollSeconds must be greater than zero''
      else if tc_documents c = [] then Inl ''at least one document mapping is required''
      else
        rbind (state_paths_of V (tc_state_path c)) (\<lambda>state_paths.
        rbind (validate_root V state_paths (tc_boox_handoff_root c)) (\<lambda>boox_paths.
        rbind (validate_documents V (tc_boox_handoff_root c \<noteq> None) state_paths (tc_documents c)
                 ([], boox_paths, [])) (\<lambda>_. Inr ()))))"

section \<open>Loading\<close>

definition resolve_path :: "string \<Rightarrow> string \<Rightarrow> string" where
  "resolve_path base p = (if is_absolute p then p else path_join base p)"

definition resolve_document :: "string \<Rightarrow> document_folders \<Rightarrow> document_folders" where
  "resolve_document base f =
     f\<lparr>df_boox_pdf := resolve_path base (df_boox_pdf f),
       df_supernote_export_directory := resolve_path base (df_supernote_export_directory f),
       df_supernote_incoming_directory := resolve_path base (df_supernote_incoming_directory f)\<rparr>"

definition resolve_config :: "string \<Rightarrow> transport_config \<Rightarrow> transport_config" where
  "resolve_config base c =
     c\<lparr>tc_state_path :=
         (if tc_state_path c = [] then path_join base ''.inkbridge-folder-state.json''
          else resolve_path base (tc_state_path c)),
       tc_gcloud_command :=
         (if \<not> is_absolute (tc_gcloud_command c) \<and> 1 < length (path_components (tc_gcloud_command c))
          then path_join base (tc_gcloud_command c) else tc_gcloud_command c),
       tc_boox_handoff_root := map_option (resolve_path base) (tc_boox_handoff_root c),
       tc_documents := map (resolve_document base) (tc_documents c)\<rparr>"

definition validate_config_document :: "path_view \<Rightarrow> string \<Rightarrow> string bset \<Rightarrow> document_folders \<Rightarrow> string + unit" where
  "validate_config_document V p config_paths f =
     rbind (path_key_variants V (df_boox_pdf f)) (\<lambda>boox_paths.
       if list_ex (\<lambda>b. list_ex (\<lambda>c. boox_mapping_overlaps_path b c) config_paths) boox_paths then
         Inl (''configuration file '' @ p @ '' must be outside mapped BOOX paths'')
       else
         try_each (\<lambda>(direction, directory).
           rbind (path_key_variants V directory) (\<lambda>keys.
             if path_sets_overlap config_paths keys then
               Inl (''configuration file '' @ p @ '' must be outside mapped Supernote directories'')
             else Inr ())) (mapped_directories f))"

definition validate_config_path :: "path_view \<Rightarrow> string \<Rightarrow> transport_config \<Rightarrow> string + unit" where
  "validate_config_path V p c =
     rbind (path_key_variants V p) (\<lambda>config_paths.
     rbind (try_each (\<lambda>reserved.
         rbind (path_key_variants V reserved) (\<lambda>keys.
           if path_sets_overlap config_paths keys then
             Inl (''configuration file '' @ p @ '' collides with statePath or checkpoint companion '' @ reserved)
           else Inr ())) (state_reserved_paths (tc_state_path c))) (\<lambda>_.
     rbind (case tc_boox_handoff_root c of
              None \<Rightarrow> Inr ()
            | Some root \<Rightarrow>
                rbind (path_key_variants V root) (\<lambda>keys.
                  if path_sets_overlap config_paths keys then
                    Inl (''configuration file '' @ p @ '' must be outside booxHandoffRoot '' @ root)
                  else Inr ())) (\<lambda>_.
     try_each (validate_config_document V p config_paths) (tc_documents c))))"

definition load_transport_config ::
    "path_view \<Rightarrow> (bytes \<Rightarrow> string + transport_config) \<Rightarrow> string \<Rightarrow> io_error + bytes \<Rightarrow> string + transport_config" where
  "load_transport_config V decode p read_result =
     rbind (map_err (\<lambda>e. ''could not read '' @ p @ '': '' @ io_text e) read_result) (\<lambda>bs.
     rbind (map_err (\<lambda>e. ''invalid transport config: '' @ e) (decode bs)) (\<lambda>c.
       let c' = resolve_config (parent_or_dot p) c
       in rbind (validate_transport_config V c') (\<lambda>_.
          rbind (validate_config_path V p c') (\<lambda>_. Inr c'))))"

end
