(* ===== verification/Folder_Config_Facts.thy ===== *)
theory Folder_Config_Facts
  imports Folder_Config Prelude
begin

text \<open>
  What a validated configuration guarantees: the nested loops of \<open>validate\<close>, which collect the
  paths taken so far, accept exactly the configurations whose places are pairwise apart.
\<close>

section \<open>Places\<close>

definition readable :: "path_view \<Rightarrow> string \<Rightarrow> bool" where
  "readable V p \<longleftrightarrow> (\<exists>ks. path_key_variants V p = Inr ks)"

definition keys_of :: "path_view \<Rightarrow> string \<Rightarrow> string bset" where
  "keys_of V p = (case path_key_variants V p of Inr ks \<Rightarrow> ks | Inl e \<Rightarrow> [])"

definition no_leaf_link :: "path_view \<Rightarrow> string \<Rightarrow> bool" where
  "no_leaf_link V p \<longleftrightarrow>
     (case pv_symlink_metadata V p of Inr m \<Rightarrow> \<not> is_symlink m | Inl e \<Rightarrow> io_kind e = IoNotFound)"

text \<open>No name of the one place stands in the relation to a name of the other.\<close>

definition apart :: "(string \<Rightarrow> string \<Rightarrow> bool) \<Rightarrow> string list \<Rightarrow> string list \<Rightarrow> bool" where
  "apart R A B \<longleftrightarrow> list_all (\<lambda>a. list_all (\<lambda>b. \<not> R a b) B) A"

definition directory_keys :: "path_view \<Rightarrow> document_folders list \<Rightarrow> string list list" where
  "directory_keys V fs = map (\<lambda>(direction, p). keys_of V p) (concat (map mapped_directories fs))"

definition boox_keys :: "path_view \<Rightarrow> document_folders list \<Rightarrow> string list list" where
  "boox_keys V fs = map (\<lambda>f. keys_of V (df_boox_pdf f)) fs"

text \<open>What is asked of one document alone.\<close>

definition document_ok :: "path_view \<Rightarrow> bool \<Rightarrow> document_folders \<Rightarrow> bool" where
  "document_ok V handoff f \<longleftrightarrow>
     is_stable_document_id (df_document_id f) \<and> no_leaf_link V (df_boox_pdf f) \<and>
     readable V (df_boox_pdf f) \<and> list_all (\<lambda>(direction, p). readable V p) (mapped_directories f) \<and>
     \<not> blank (df_original_file_name f) \<and>
     \<not> (handoff \<and> unsafe_handoff_name (df_original_file_name f)) \<and>
     \<not> same_path (df_supernote_export_directory f) (df_supernote_incoming_directory f)"

lemma apart_iff: "apart R A B \<longleftrightarrow> (\<forall>a\<in>set A. \<forall>b\<in>set B. \<not> R a b)"
  by (simp add: apart_def list_all_iff)

lemma readable_keys: "readable V p \<longleftrightarrow> path_key_variants V p = Inr (keys_of V p)"
  by (auto simp: readable_def keys_of_def)

lemma key_variants_cases:
  obtains "path_key_variants V p = Inr (keys_of V p)" "readable V p"
  | e where "path_key_variants V p = Inl e" "\<not> readable V p"
  by (cases "path_key_variants V p") (auto simp: readable_def keys_of_def)

lemma reject_leaf_symlink_iff: "reject_leaf_symlink V what p = Inr u \<longleftrightarrow> no_leaf_link V p"
  by (auto simp: reject_leaf_symlink_def no_leaf_link_def split: sum.splits)

lemma set_fold_insert: "set (fold bs_insert ks s) = set ks \<union> set s"
  by (induction ks arbitrary: s) auto

lemma keys_overlap_sym: "keys_overlap a b \<longleftrightarrow> keys_overlap b a"
  by (auto simp: keys_overlap_def)

lemma find_pair_None: "find (\<lambda>(q, k). P k) xs = None \<longleftrightarrow> list_all (\<lambda>k. \<not> P k) (map snd xs)"
  by (auto simp: find_None_iff list_all_iff)

lemma none_found_iff:
  "(case find (\<lambda>(q, k). P k) xs of Some (q, k) \<Rightarrow> Inl (h q k) | None \<Rightarrow> r) = Inr y \<longleftrightarrow>
     list_all (\<lambda>k. \<not> P k) (map snd xs) \<and> r = Inr y"
  using find_pair_None [of P xs] by (cases "find (\<lambda>(q, k). P k) xs") auto

lemma not_refused_iff: "(if c then Inl e else r) = Inr y \<longleftrightarrow> \<not> c \<and> r = Inr y"
  by simp

lemma none_related_iff:
  "\<not> list_ex (\<lambda>k. list_ex (\<lambda>x. keys_overlap x k) xs) ks \<longleftrightarrow> apart keys_overlap xs ks"
  "\<not> list_ex (\<lambda>k. list_ex (\<lambda>x. boox_paths_conflict x k) xs) ks \<longleftrightarrow> apart boox_paths_conflict xs ks"
  "\<not> list_ex (\<lambda>k. list_ex (\<lambda>x. boox_mapping_overlaps_path x k) xs) ks \<longleftrightarrow>
     apart boox_mapping_overlaps_path xs ks"
  "\<not> list_ex (\<lambda>k. list_ex (\<lambda>x. boox_mapping_overlaps_path k x) xs) ks \<longleftrightarrow>
     apart boox_mapping_overlaps_path ks xs"
  "list_all (\<lambda>x. \<not> list_ex (\<lambda>k. R k x) ks) xs \<longleftrightarrow> apart R ks xs"
  by (auto simp: apart_iff list_ex_iff list_all_iff)

section \<open>The loop over directories\<close>

lemma validate_directory_iff:
  "validate_directory V states boox (direction, p) taken = Inr taken' \<longleftrightarrow>
     readable V p \<and> apart keys_overlap taken (keys_of V p) \<and>
     apart boox_mapping_overlaps_path boox (keys_of V p) \<and>
     apart keys_overlap (keys_of V p) (map snd states) \<and>
     taken' = fold bs_insert (keys_of V p) taken"
proof (cases V p rule: key_variants_cases)
  case 1
  then show ?thesis
    by (simp only: validate_directory_def prod.case rbind_simps not_refused_iff none_found_iff
        none_related_iff) auto
next
  case (2 e)
  then show ?thesis by (simp add: validate_directory_def)
qed

lemma validate_directories_iff:
  "validate_directories V states boox dirs taken = Inr taken' \<longleftrightarrow>
     (let ks = map (\<lambda>(direction, p). keys_of V p) dirs
      in list_all (\<lambda>(direction, p). readable V p) dirs \<and>
         (\<forall>k\<in>set ks. apart keys_overlap taken k \<and> apart boox_mapping_overlaps_path boox k \<and>
            apart keys_overlap k (map snd states)) \<and>
         sorted_wrt (apart keys_overlap) ks \<and> taken' = fold (fold bs_insert) ks taken)"
proof (induction dirs arbitrary: taken)
  case (Cons d dirs)
  obtain direction p where d: "d = (direction, p)" by (cases d)
  have "apart keys_overlap (fold bs_insert (keys_of V p) taken) k \<longleftrightarrow>
      apart keys_overlap taken k \<and> apart keys_overlap (keys_of V p) k" for k
    by (auto simp: apart_iff set_fold_insert)
  with Cons.IH show ?case
    by (auto simp: d rbind_eq_Inr_iff validate_directory_iff Let_def)
qed auto

lemma set_fold_fold: "set (fold (fold bs_insert) kss s) = \<Union> (set ` set kss) \<union> set s"
  by (induction kss arbitrary: s) (auto simp: set_fold_insert)

section \<open>The loop over documents\<close>

definition documents_apart ::
    "path_view \<Rightarrow> string list \<Rightarrow> document_folders list \<Rightarrow> string list \<times> string bset \<times> string bset \<Rightarrow> bool" where
  "documents_apart V states fs acc =
     (case acc of (ids, boox, taken) \<Rightarrow>
        distinct (map df_document_id fs) \<and> set ids \<inter> df_document_id ` set fs = {} \<and>
        (\<forall>k\<in>set (boox_keys V fs). apart boox_paths_conflict boox k \<and>
           apart boox_mapping_overlaps_path k taken \<and> apart boox_mapping_overlaps_path k states) \<and>
        (\<forall>k\<in>set (directory_keys V fs). apart keys_overlap taken k \<and>
           apart boox_mapping_overlaps_path boox k \<and> apart keys_overlap k states) \<and>
        sorted_wrt (apart boox_paths_conflict) (boox_keys V fs) \<and>
        sorted_wrt (apart keys_overlap) (directory_keys V fs) \<and>
        (\<forall>b\<in>set (boox_keys V fs). \<forall>k\<in>set (directory_keys V fs). apart boox_mapping_overlaps_path b k))"

lemma validate_document_steps:
  "validate_document V handoff states f (ids, boox, taken) = Inr acc \<longleftrightarrow>
     is_stable_document_id (df_document_id f) \<and> df_document_id f \<notin> set ids \<and>
     no_leaf_link V (df_boox_pdf f) \<and> readable V (df_boox_pdf f) \<and>
     apart boox_paths_conflict boox (keys_of V (df_boox_pdf f)) \<and>
     apart boox_mapping_overlaps_path (keys_of V (df_boox_pdf f)) taken \<and>
     apart boox_mapping_overlaps_path (keys_of V (df_boox_pdf f)) (map snd states) \<and>
     \<not> blank (df_original_file_name f) \<and> \<not> (handoff \<and> unsafe_handoff_name (df_original_file_name f)) \<and>
     \<not> same_path (df_supernote_export_directory f) (df_supernote_incoming_directory f) \<and>
     (let boox' = fold bs_insert (keys_of V (df_boox_pdf f)) boox
      in \<exists>taken'. validate_directories V states boox' (mapped_directories f) taken = Inr taken' \<and>
           acc = (df_document_id f # ids, boox', taken'))"
proof (cases V "df_boox_pdf f" rule: key_variants_cases)
  case 1
  then show ?thesis
    by (simp only: validate_document_def prod.case rbind_eq_Inr_iff not_refused_iff none_found_iff
        none_related_iff reject_leaf_symlink_iff Let_def sum.inject) blast
next
  case (2 e)
  then show ?thesis
    by (simp only: validate_document_def prod.case rbind_eq_Inr_iff not_refused_iff) simp
qed

lemma validate_document_iff:
  "validate_document V handoff states f (ids, boox, taken) = Inr acc \<longleftrightarrow>
     document_ok V handoff f \<and> documents_apart V (map snd states) [f] (ids, boox, taken) \<and>
     acc = (df_document_id f # ids, fold bs_insert (keys_of V (df_boox_pdf f)) boox,
            fold (fold bs_insert) (directory_keys V [f]) taken)"
proof -
  have union: "apart boox_mapping_overlaps_path (fold bs_insert (keys_of V (df_boox_pdf f)) boox) k \<longleftrightarrow>
      apart boox_mapping_overlaps_path (keys_of V (df_boox_pdf f)) k \<and>
      apart boox_mapping_overlaps_path boox k" for k
    by (auto simp: apart_iff set_fold_insert)
  have dirs: "map (\<lambda>(direction, p). keys_of V p) (mapped_directories f) = directory_keys V [f]"
    by (simp add: directory_keys_def)
  have boox: "boox_keys V [f] = [keys_of V (df_boox_pdf f)]" by (simp add: boox_keys_def)
  show ?thesis
    unfolding validate_document_steps validate_directories_iff Let_def dirs union documents_apart_def
      document_ok_def boox prod.case by auto
qed

lemma documents_apart_Cons:
  "documents_apart V states (f # fs) (ids, boox, taken) \<longleftrightarrow>
     documents_apart V states [f] (ids, boox, taken) \<and>
     documents_apart V states fs (df_document_id f # ids, fold bs_insert (keys_of V (df_boox_pdf f)) boox,
       fold (fold bs_insert) (directory_keys V [f]) taken)"
proof -
  have dirs: "directory_keys V (f # fs) = directory_keys V [f] @ directory_keys V fs"
    by (simp add: directory_keys_def)
  have boox: "boox_keys V (f # fs) = keys_of V (df_boox_pdf f) # boox_keys V fs"
    "boox_keys V [f] = [keys_of V (df_boox_pdf f)]"
    by (simp_all add: boox_keys_def)
  have union: "apart R (fold bs_insert (keys_of V (df_boox_pdf f)) boox) k \<longleftrightarrow>
      apart R (keys_of V (df_boox_pdf f)) k \<and> apart R boox k" for R k
    by (auto simp: apart_iff set_fold_insert)
  have unions: "apart keys_overlap (fold (fold bs_insert) kss taken) k \<longleftrightarrow>
      (\<forall>k'\<in>set kss. apart keys_overlap k' k) \<and> apart keys_overlap taken k"
    "apart boox_mapping_overlaps_path k (fold (fold bs_insert) kss taken) \<longleftrightarrow>
      (\<forall>k'\<in>set kss. apart boox_mapping_overlaps_path k k') \<and> apart boox_mapping_overlaps_path k taken" for kss k
    by (auto simp: apart_iff set_fold_fold)
  show ?thesis
    unfolding documents_apart_def prod.case dirs boox union unions
    by (auto simp: sorted_wrt_append)
qed

lemma validate_documents_iff:
  "(\<exists>acc'. validate_documents V handoff states fs (ids, boox, taken) = Inr acc') \<longleftrightarrow>
     list_all (document_ok V handoff) fs \<and> documents_apart V (map snd states) fs (ids, boox, taken)"
proof (induction fs arbitrary: ids boox taken)
  case Nil
  then show ?case by (simp add: documents_apart_def boox_keys_def directory_keys_def)
next
  case (Cons f fs)
  then show ?case
    by (subst documents_apart_Cons) (auto simp: rbind_eq_Inr_iff validate_document_iff)
qed

section \<open>Isolated configurations\<close>

definition settings_ok :: "transport_config \<Rightarrow> bool" where
  "settings_ok c \<longleftrightarrow>
     tc_schema_version c = config_schema_version \<and> \<not> blank (tc_bucket c) \<and>
     CHR ''/'' \<notin> set (tc_bucket c) \<and> tc_poll_seconds c \<noteq> 0 \<and> tc_documents c \<noteq> []"

definition state_places :: "transport_config \<Rightarrow> string list" where
  "state_places c = (if tc_state_path c = [] then [] else state_reserved_paths (tc_state_path c))"

definition state_keys :: "path_view \<Rightarrow> transport_config \<Rightarrow> string list" where
  "state_keys V c = concat (map (keys_of V) (state_places c))"

definition root_ok :: "path_view \<Rightarrow> transport_config \<Rightarrow> bool" where
  "root_ok V c \<longleftrightarrow>
     (case tc_boox_handoff_root c of None \<Rightarrow> True | Some r \<Rightarrow> no_leaf_link V r \<and> readable V r)"

definition root_keys :: "path_view \<Rightarrow> transport_config \<Rightarrow> string list" where
  "root_keys V c = (case tc_boox_handoff_root c of None \<Rightarrow> [] | Some r \<Rightarrow> keys_of V r)"

definition places_apart :: "path_view \<Rightarrow> transport_config \<Rightarrow> bool" where
  "places_apart V c \<longleftrightarrow>
     (let S = state_keys V c; R = root_keys V c;
          B = boox_keys V (tc_documents c); D = directory_keys V (tc_documents c)
      in sorted_wrt (apart keys_overlap) D \<and> sorted_wrt (apart boox_paths_conflict) (R # B) \<and>
         list_all (\<lambda>b. list_all (apart boox_mapping_overlaps_path b) D) (R # B) \<and>
         apart keys_overlap R S \<and> list_all (\<lambda>b. apart boox_mapping_overlaps_path b S) B \<and>
         list_all (\<lambda>k. apart keys_overlap k S) D)"

lemma state_paths_iff:
  "state_paths_of V (tc_state_path c) = Inr states \<longleftrightarrow>
     list_all (readable V) (state_places c) \<and>
     states = concat (map (\<lambda>q. map (Pair q) (keys_of V q)) (state_places c))"
proof -
  have keys: "path_key_variants V q = Inr ks \<longleftrightarrow> readable V q \<and> ks = keys_of V q" for q ks
    by (cases V q rule: key_variants_cases) auto
  have "try_map (\<lambda>q. rbind (path_key_variants V q) (\<lambda>ks. Inr (map (Pair q) ks))) qs = Inr kss \<longleftrightarrow>
      list_all (readable V) qs \<and> kss = map (\<lambda>q. map (Pair q) (keys_of V q)) qs" for qs kss
    by (induction qs arbitrary: kss) (auto simp: rbind_eq_Inr_iff keys)
  then show ?thesis by (auto simp: state_paths_of_def state_places_def rbind_eq_Inr_iff)
qed

lemma validate_root_iff:
  "validate_root V states (tc_boox_handoff_root c) = Inr boox \<longleftrightarrow>
     root_ok V c \<and> boox = root_keys V c \<and> apart keys_overlap (root_keys V c) (map snd states)"
proof (cases "tc_boox_handoff_root c")
  case None
  then show ?thesis by (auto simp: validate_root_def root_ok_def root_keys_def apart_def)
next
  case (Some r)
  show ?thesis
  proof (cases V r rule: key_variants_cases)
    case 1
    with Some show ?thesis
      unfolding validate_root_def
      by (simp only: option.case rbind_eq_Inr_iff none_found_iff none_related_iff
          reject_leaf_symlink_iff root_ok_def root_keys_def sum.inject) blast
  next
    case (2 e)
    with Some show ?thesis by (auto simp: validate_root_def root_ok_def rbind_eq_Inr_iff)
  qed
qed

lemma validated_iff:
  "validate_transport_config V c = Inr () \<longleftrightarrow>
     settings_ok c \<and> list_all (readable V) (state_places c) \<and> root_ok V c \<and>
     list_all (document_ok V (tc_boox_handoff_root c \<noteq> None)) (tc_documents c) \<and>
     distinct (map df_document_id (tc_documents c)) \<and> places_apart V c"
proof -
  have snds: "map snd (concat (map (\<lambda>q. map (Pair q) (keys_of V q)) (state_places c))) = state_keys V c"
    by (simp add: state_keys_def map_concat comp_def)
  have docs: "documents_apart V (state_keys V c) (tc_documents c) ([], root_keys V c, []) \<and>
      apart keys_overlap (root_keys V c) (state_keys V c) \<longleftrightarrow>
      distinct (map df_document_id (tc_documents c)) \<and> places_apart V c"
    by (auto simp: documents_apart_def places_apart_def Let_def list_all_iff apart_def)
  have "validate_transport_config V c = Inr () \<longleftrightarrow> settings_ok c \<and>
      (\<exists>states. state_paths_of V (tc_state_path c) = Inr states \<and>
        (\<exists>boox. validate_root V states (tc_boox_handoff_root c) = Inr boox \<and>
          (\<exists>acc. validate_documents V (tc_boox_handoff_root c \<noteq> None) states (tc_documents c)
             ([], boox, []) = Inr acc)))"
    by (auto simp: validate_transport_config_def settings_ok_def rbind_eq_Inr_iff)
  also have "\<dots> \<longleftrightarrow> settings_ok c \<and> list_all (readable V) (state_places c) \<and> root_ok V c \<and>
      apart keys_overlap (root_keys V c) (state_keys V c) \<and>
      list_all (document_ok V (tc_boox_handoff_root c \<noteq> None)) (tc_documents c) \<and>
      documents_apart V (state_keys V c) (tc_documents c) ([], root_keys V c, [])"
    unfolding state_paths_iff validate_root_iff validate_documents_iff snds by (auto simp: snds)
  finally show ?thesis using docs by blast
qed

section \<open>What isolation means\<close>

lemma contains_prefix: "key_contains_path d p \<longleftrightarrow> prefix (path_components d) (path_components p)"
  by (simp add: key_contains_path_def path_starts_with_def)

text \<open>Nothing lies below two directories that do not overlap.\<close>

lemma apart_share_nothing:
  assumes "apart keys_overlap A B" and "a \<in> set A" and "b \<in> set B"
  shows "\<not> (key_contains_path a p \<and> key_contains_path b p)"
proof
  assume "key_contains_path a p \<and> key_contains_path b p"
  then have "prefix (path_components a) (path_components b) \<or> prefix (path_components b) (path_components a)"
    using prefix_same_cases by (auto simp: contains_prefix)
  then have "keys_overlap a b" by (auto simp: keys_overlap_def contains_prefix)
  with assms show False by (auto simp: apart_iff)
qed

lemma isolated_directories_share_nothing:
  assumes "places_apart V c" and "i < j" and "j < length (directory_keys V (tc_documents c))"
    and "a \<in> set (directory_keys V (tc_documents c) ! i)" and "b \<in> set (directory_keys V (tc_documents c) ! j)"
  shows "\<not> (key_contains_path a p \<and> key_contains_path b p)"
proof -
  have "sorted_wrt (apart keys_overlap) (directory_keys V (tc_documents c))"
    using assms(1) by (simp add: places_apart_def Let_def)
  with assms(2,3) have "apart keys_overlap (directory_keys V (tc_documents c) ! i) (directory_keys V (tc_documents c) ! j)"
    by (simp add: sorted_wrt_iff_nth_less)
  from apart_share_nothing [OF this assms(4,5)] show ?thesis .
qed

end
