(* ===== verification/Folder_Properties.thy ===== *)
theory Folder_Properties
  imports Folder_State_Facts Folder_Files_Facts Folder_Config_Facts
begin

text \<open>
  Properties of the folder transport.
\<close>

section \<open>The checkpoint survives interruptions\<close>

text \<open>A run of saves, each with its own plan of faults, and whether each returned \<open>Ok\<close>.\<close>

fun save_attempts ::
    "state_json \<Rightarrow> string \<Rightarrow> (transport_state \<times> event list) list \<Rightarrow> disk \<Rightarrow> disk \<times> bool list" where
  "save_attempts J p [] d = (d, [])"
| "save_attempts J p ((s, es) # rest) d =
     (let (d1, r) = save_state_file J s p (d\<lparr>dk_plan := es\<rparr>);
          (d2, oks) = save_attempts J p rest d1
      in (d2, (r = Inr ()) # oks))"

text \<open>The states a later load may give: the last one whose save returned \<open>Ok\<close>, or a later one.\<close>

fun survivors :: "transport_state list \<Rightarrow> (transport_state \<times> bool) list \<Rightarrow> transport_state list" where
  "survivors ss [] = ss"
| "survivors ss ((s, ok) # rest) = survivors (if ok then [s] else s # ss) rest"

definition codec_ok :: "state_json \<Rightarrow> transport_state \<Rightarrow> bool" where
  "codec_ok J s \<longleftrightarrow>
     (case sj_encode J s of
        Inl e \<Rightarrow> True
      | Inr bs \<Rightarrow> decode_checkpoint J (bs @ [CHR 0x0A]) = Some s)"

lemma save_attempts_keep:
  assumes "path_file_name p \<noteq> None" and "list_all (\<lambda>(s, es). codec_ok J s \<and> list_all (\<lambda>e. \<not> is_external e) es) attempts"
    and "plain_checkpoint p (bm_get (dk_entries d))"
    and "checkpoint_of J p (bm_get (dk_entries d)) = Some s0" and "s0 \<in> set ss"
    and "save_attempts J p attempts d = (d', oks)"
  shows "plain_checkpoint p (bm_get (dk_entries d')) \<and>
    (\<exists>s\<in>set (survivors ss (zip (map fst attempts) oks)).
       checkpoint_of J p (bm_get (dk_entries d')) = Some s)"
  using assms(2-)
proof (induction attempts arbitrary: d s0 ss oks)
  case Nil
  then show ?case by auto
next
  case (Cons a attempts)
  obtain s es where a: "a = (s, es)" by (cases a)
  let ?g = "bm_get (dk_entries d)"
  have q: "quiet (d\<lparr>dk_plan := es\<rparr>) ?g" using Cons.prems(1) a by (simp add: quiet_def undisturbed_def)
  have codec: "decode_checkpoint J (bs @ [CHR 0x0A]) = Some s" if "sj_encode J s = Inr bs" for bs
    using Cons.prems(1) a that by (simp add: codec_ok_def)
  obtain d1 r g1 where s1: "save_state_file J s p (d\<lparr>dk_plan := es\<rparr>) = (d1, r)" "quiet d1 g1"
    "plain_checkpoint p g1"
    "checkpoint_of J p g1 = Some s \<or> (\<exists>e. r = Inl e) \<and> checkpoint_of J p g1 = Some s0"
    using save_keeps [OF assms(1) q Cons.prems(2,3) codec] by auto
  have g1: "g1 = bm_get (dk_entries d1)" using s1(2) by (simp add: quiet_def)
  obtain oks' where oks: "oks = (r = Inr ()) # oks'" "save_attempts J p attempts d1 = (d', oks')"
    using Cons.prems(5) a s1(1) by (auto split: prod.splits)
  let ?ss = "if r = Inr () then [s] else s # ss"
  obtain s2 where s2: "checkpoint_of J p g1 = Some s2" "s2 \<in> set ?ss"
    using s1(4) Cons.prems(4) by auto
  have "list_all (\<lambda>(s, es). codec_ok J s \<and> list_all (\<lambda>e. \<not> is_external e) es) attempts"
    using Cons.prems(1) by simp
  from Cons.IH [OF this s1(3) [unfolded g1] s2(1) [unfolded g1] s2(2) oks(2)] show ?case
    by (simp add: a oks(1))
qed

text \<open>C35: the checkpoint of the folder transport survives interruptions.  Take any run of saves,
  each with its own plan of failing calls, torn writes and crashes.  A load on the disk the run
  leaves then returns a state: the last one whose save returned \<open>Ok\<close> (or the one at the start),
  or one that was saved after it; never an older one, a torn one or none.\<close>

theorem interrupted_saves_lose_nothing:
  assumes "path_file_name p \<noteq> None" and "plain_checkpoint p (bm_get (dk_entries d))"
    and "load_state_file J p (calm d) = Some (calm d, Inr s0)"
    and "list_all (\<lambda>(s, es). codec_ok J s \<and> list_all (\<lambda>e. \<not> is_external e) es) attempts"
    and "save_attempts J p attempts d = (d', oks)"
  shows "\<exists>s. s \<in> set (survivors [s0] (zip (map fst attempts) oks)) \<and>
    load_state_file J p (calm d') = Some (calm d', Inr s)"
proof -
  have "checkpoint_of J p (bm_get (dk_entries d)) = Some s0"
    using load_at_rest [of "calm d" p J] assms(2,3) by auto
  from save_attempts_keep [OF assms(1,4,2) this, of "[s0]"] assms(5) obtain s where
    "s \<in> set (survivors [s0] (zip (map fst attempts) oks))"
    "checkpoint_of J p (bm_get (dk_entries d')) = Some s" "plain_checkpoint p (bm_get (dk_entries d'))"
    by auto
  with load_at_rest [of "calm d'" p J] show ?thesis by (intro exI [of _ s]) auto
qed

definition one_state :: transport_state where
  "one_state = empty_transport_state\<lparr>ts_observations :=
     [(''/a.pdf'', \<lparr>fo_size = 3, fo_modified_unix_millis = 5, fo_first_seen_unix_millis = 7,
        fo_content_sha256 = None\<rparr>)]\<rparr>"

definition two_states :: state_json where
  "two_states =
     \<lparr>sj_encode = (\<lambda>s. Inr (if s = one_state then ''one'' else ''empty'')),
      sj_decode = (\<lambda>bs. if bs = ''one'' @ [CHR 0x0A] then Inr one_state
                       else if bs = ''empty'' @ [CHR 0x0A] then Inr empty_transport_state
                       else Inl ''EOF'')\<rparr>"

definition blank_disk :: disk where
  "blank_disk = \<lparr>dk_entries = [], dk_clock = 9, dk_next_ino = 1, dk_plan = []\<rparr>"

definition two_saves :: "(transport_state \<times> event list) list" where
  "two_saves = [(one_state, []), (empty_transport_state, [Calm, Calm, Calm, Calm, Calm, Crash])]"

text \<open>The second save dies between its two renames.\<close>

theorem interrupted_saves_lose_nothing_witness:
  "snd (save_attempts two_states ''/s.json'' two_saves blank_disk) = [True, False] \<and>
   list_ex (\<lambda>s. load_state_file two_states ''/s.json''
       (calm (fst (save_attempts two_states ''/s.json'' two_saves blank_disk))) =
     Some (calm (fst (save_attempts two_states ''/s.json'' two_saves blank_disk)), Inr s))
     [empty_transport_state, one_state]"
proof -
  let ?d = "fst (save_attempts two_states ''/s.json'' two_saves blank_disk)"
  have oks: "snd (save_attempts two_states ''/s.json'' two_saves blank_disk) = [True, False]"
    by code_simp
  then have run: "save_attempts two_states ''/s.json'' two_saves blank_disk = (?d, [True, False])"
    by (metis prod.collapse)
  have named: "path_file_name ''/s.json'' \<noteq> None" by code_simp
  have plain: "plain_checkpoint ''/s.json'' (bm_get (dk_entries blank_disk))"
    by (simp add: plain_checkpoint_def blank_disk_def)
  moreover have "checkpoint_of two_states ''/s.json'' (bm_get (dk_entries blank_disk)) = Some empty_transport_state"
    by (simp add: checkpoint_of_def blank_disk_def)
  ultimately have start: "load_state_file two_states ''/s.json'' (calm blank_disk) =
      Some (calm blank_disk, Inr empty_transport_state)"
    using load_at_rest [of "calm blank_disk" "''/s.json''" two_states] by auto
  have "list_all (\<lambda>(s, es). codec_ok two_states s \<and> list_all (\<lambda>e. \<not> is_external e) es) two_saves"
    by code_simp
  from interrupted_saves_lose_nothing [OF named plain start this run] oks show ?thesis
    by (auto simp: two_saves_def)
qed

section \<open>An edit is never overwritten\<close>

text \<open>C36: a guarded replacement never destroys an edit.  While \<open>replace_file\<close> installs a new file
  over a destination expected to be in a certain state, the owner of the destination may rewrite
  or remove it before any of the system calls, calls may fail and the process may die.
  Whatever the owner left there last is then still at the destination or at its staged backup,
  unless it is exactly what was expected; and when nobody interferes and the destination is what
  was expected, the new file is installed and nothing else changes.\<close>

theorem guarded_replacement_keeps_edits:
  assumes "list_all (writes_only p) (dk_plan d)" and "b = sibling_temporary p ''previous''"
    and "b \<noteq> p" and "a \<noteq> p" and "a \<noteq> b"
    and "replace_file sha a p (Some expected) d = (d', res)"
  shows "(\<exists>c. dk_plan d = c @ dk_plan d' \<and>
      (case last_entry p (bm_get (dk_entries d) p) c of
         Some (Regular i bs t) \<Rightarrow>
           expected = Sha256 (sha256_hex sha bs) \<or>
           bm_get (dk_entries d') p = Some (Regular i bs t) \<or>
           bm_get (dk_entries d') b = Some (Regular i bs t)
       | _ \<Rightarrow> True)) \<and>
    (\<forall>i bs t e. dk_plan d = [] \<and> bm_get (dk_entries d) p = Some (Regular i bs t) \<and>
       expected = Sha256 (sha256_hex sha bs) \<and> bm_get (dk_entries d) a = Some e \<and>
       bm_get (dk_entries d) b = None \<longrightarrow>
         res = Inr True \<and> bm_get (dk_entries d') = (bm_get (dk_entries d))(a := None, p \<mapsto> e))"
proof
  let ?g = "bm_get (dk_entries d)" and ?D = "\<lambda>bs. expected = Sha256 (sha256_hex sha bs)"
  have "tracks p (?g p) (dk_plan d) d ?g (?g p)"
    using assms(1) by (auto simp: tracks_def intro!: exI [of _ "[]"])
  moreover have "kept ?D p b ?g (?g p)" by (simp add: kept_def)
  ultimately have "safe ?D p b (?g p) (dk_plan d) d'"
    using replace_file_safe [OF _ _ assms(2-5)] assms(6) by (metis fst_conv)
  then obtain g l c where s: "bm_get (dk_entries d') = g" "dk_plan d = c @ dk_plan d'"
    "l = last_entry p (?g p) c" "kept ?D p b g l" by (auto simp: safe_def tracks_def)
  then show "\<exists>c. dk_plan d = c @ dk_plan d' \<and>
      (case last_entry p (?g p) c of
         Some (Regular i bs t) \<Rightarrow>
           ?D bs \<or> bm_get (dk_entries d') p = Some (Regular i bs t) \<or>
           bm_get (dk_entries d') b = Some (Regular i bs t)
       | _ \<Rightarrow> True)"
    by (intro exI [of _ c]) (auto simp: kept_def split: option.splits entry.splits)
  show "\<forall>i bs t e. dk_plan d = [] \<and> ?g p = Some (Regular i bs t) \<and>
      ?D bs \<and> ?g a = Some e \<and> ?g b = None \<longrightarrow>
      res = Inr True \<and> bm_get (dk_entries d') = ?g(a := None, p \<mapsto> e)"
  proof (intro allI impI, elim conjE)
    fix i bs t e
    assume "dk_plan d = []" "?g p = Some (Regular i bs t)" "?D bs" "?g a = Some e" "?g b = None"
    with replace_file_installs [of d p i bs t a e sha] assms(2,3,4,6)
    show "res = Inr True \<and> bm_get (dk_entries d') = ?g(a := None, p \<mapsto> e)" by auto
  qed
qed

definition edited_disk :: disk where
  "edited_disk = \<lparr>dk_entries = [(''/.a.pdf.g7.part'', Regular 2 ''new'' 4), (''/a.pdf'', Regular 1 ''old'' 3)],
     dk_clock = 9, dk_next_ino = 3,
     dk_plan = [Calm, Calm, Calm, External 10 [(''/a.pdf'', Some (Regular 5 ''edit'' 10))]]\<rparr>"

text \<open>The owner saves again just after the file was staged.\<close>

theorem guarded_replacement_keeps_edits_witness:
  "replace_file id ''/.a.pdf.g7.part'' ''/a.pdf'' (Some (Sha256 (sha256_hex id ''old''))) edited_disk =
     (\<lparr>dk_entries = [(''/a.pdf'', Regular 5 ''edit'' 10)], dk_clock = 10, dk_next_ino = 3, dk_plan = []\<rparr>,
      Inr False) \<and>
   last_entry ''/a.pdf'' (Some (Regular 1 ''old'' 3)) (dk_plan edited_disk) = Some (Regular 5 ''edit'' 10)"
proof -
  let ?d = "\<lparr>dk_entries = [(''/a.pdf'', Regular 5 ''edit'' 10)], dk_clock = 10, dk_next_ino = 3, dk_plan = []\<rparr>"
  have run: "replace_file id ''/.a.pdf.g7.part'' ''/a.pdf'' (Some (Sha256 (sha256_hex id ''old''))) edited_disk =
      (?d, Inr False)" by code_simp
  have plan: "list_all (writes_only ''/a.pdf'') (dk_plan edited_disk)" by code_simp
  have b: "''/.a.pdf.previous.part'' = sibling_temporary ''/a.pdf'' ''previous''" by code_simp
  from guarded_replacement_keeps_edits [OF plan b _ _ _ run] obtain c where
    "dk_plan edited_disk = c @ dk_plan ?d" by auto
  then show ?thesis using run by (auto simp: edited_disk_def last_of_edits_def)
qed

section \<open>A validated configuration keeps its places apart\<close>

text \<open>C37: \<open>validate\<close> accepts exactly the isolated configurations.  Its nested loops, which compare
  each new path with those taken so far, accept a configuration if and only if its settings and
  each document alone are in order, every path can be resolved, the document identities differ,
  and the places are pairwise apart: no two mapped directories overlap, no BOOX file (or the
  handoff root) is another one or one of its temporaries, no BOOX file or temporary overlaps a
  directory, and the checkpoint with its companions lies outside all of them.\<close>

theorem validate_accepts_isolated_configs:
  "validate_transport_config V c = Inr () \<longleftrightarrow>
     settings_ok c \<and> list_all (readable V) (state_places c) \<and> root_ok V c \<and>
     list_all (document_ok V (tc_boox_handoff_root c \<noteq> None)) (tc_documents c) \<and>
     distinct (map df_document_id (tc_documents c)) \<and> places_apart V c"
  by (rule validated_iff)

text \<open>The criterion separates two configurations: one document, whose BOOX file lies beside or in
  its export directory.\<close>

definition plain_view :: path_view where
  "plain_view = \<lparr>pv_current_dir = Inr ''/'', pv_canonicalize = (\<lambda>p. Inr p),
     pv_symlink_metadata = (\<lambda>p. Inl not_found)\<rparr>"

definition one_document :: "string \<Rightarrow> transport_config" where
  "one_document boox = \<lparr>tc_schema_version = 1, tc_bucket = ''b'', tc_gcloud_command = ''gcloud'',
     tc_poll_seconds = 15, tc_settle_seconds = 10, tc_state_path = ''/st/s.json'',
     tc_boox_handoff_root = None,
     tc_documents = [\<lparr>df_document_id = ''inkbridge-doc-v1-'' @ replicate 64 (CHR ''a''),
       df_original_file_name = ''n.pdf'', df_boox_pdf = boox,
       df_supernote_export_directory = ''/sn/out'', df_supernote_incoming_directory = ''/sn/in''\<rparr>]\<rparr>"

lemma beside_accepted: "validate_transport_config plain_view (one_document ''/bx/n.pdf'') = Inr ()"
  by code_simp

lemma inside_refused: "isl (validate_transport_config plain_view (one_document ''/sn/out/n.pdf''))"
  by code_simp

end
