(* ===== verification/Folder_World.thy ===== *)
theory Folder_World
  imports Actions Folder_Config Folder_Files Conflict_Resolve Convert_Diff
begin

text \<open>
  What the synchronisation of the folder transport runs on: the disk, the cloud behind the trait
  \<open>CloudFolder\<close>, the transport state and the report, threaded through every handler; and the code
  outside the repository its handlers call (the JSON codecs, the manifest builder, the cloud),
  gathered in a record.
\<close>

section \<open>The world of a synchronisation\<close>

record folder_object =
  co_path :: string
  co_generation :: u64
  co_size :: u64
  co_metadata :: "(string, string) bmap"

definition generation_key :: "folder_object \<Rightarrow> string" where
  "generation_key obj = co_path obj @ ''#'' @ show_u64 (co_generation obj)"

datatype transport_action =
    Uploaded device_side string string u64 u64
  | Delivered device_side string string u64
  | Deferred device_side string
  | ConflictAction string

text \<open>\<open>BuiltBooxManifest\<close>: its bytes and the hash of the PDF it was built from.\<close>

record built_manifest =
  bm_bytes :: bytes
  bm_source_pdf_sha256 :: string

record 'c sync_world =
  sw_disk :: disk
  sw_cloud :: 'c
  sw_state :: transport_state
  sw_actions :: "transport_action list"

definition on_disk :: "(disk \<Rightarrow> disk \<times> (string + 'a)) \<Rightarrow> ('c sync_world, 'a) action" where
  "on_disk m w = (case m (sw_disk w) of (d, r) \<Rightarrow> (w\<lparr>sw_disk := d\<rparr>, r))"

definition on_cloud :: "('c \<Rightarrow> 'c \<times> (string + 'a)) \<Rightarrow> ('c sync_world, 'a) action" where
  "on_cloud m w = (case m (sw_cloud w) of (c, r) \<Rightarrow> (w\<lparr>sw_cloud := c\<rparr>, r))"

definition on_both :: "(disk \<times> 'c \<Rightarrow> (disk \<times> 'c) \<times> (string + 'a)) \<Rightarrow> ('c sync_world, 'a) action" where
  "on_both m w = (case m (sw_disk w, sw_cloud w) of ((d, c), r) \<Rightarrow> (w\<lparr>sw_disk := d, sw_cloud := c\<rparr>, r))"

definition state_now :: "('c sync_world, transport_state) action" where
  "state_now w = (w, Inr (sw_state w))"

definition change_state :: "(transport_state \<Rightarrow> transport_state) \<Rightarrow> ('c sync_world, unit) action" where
  "change_state f w = (w\<lparr>sw_state := f (sw_state w)\<rparr>, Inr ())"

text \<open>\<open>document_mut\<close> makes the document's record even to read it; \<open>documents.get\<close> does not.\<close>

definition document_now :: "string \<Rightarrow> ('c sync_world, document_transport) action" where
  "document_now doc w =
     (w\<lparr>sw_state := update_document doc (\<lambda>t. t) (sw_state w)\<rparr>, Inr (document_of doc (sw_state w)))"

definition document_if_any :: "string \<Rightarrow> ('c sync_world, document_transport option) action" where
  "document_if_any doc w = (w, Inr (bm_get (ts_documents (sw_state w)) doc))"

definition change_document ::
    "string \<Rightarrow> (document_transport \<Rightarrow> document_transport) \<Rightarrow> ('c sync_world, unit) action" where
  "change_document doc f = change_state (update_document doc f)"

definition change_side ::
    "string \<Rightarrow> device_side \<Rightarrow> (side_state \<Rightarrow> side_state) \<Rightarrow> ('c sync_world, unit) action" where
  "change_side doc side f = change_document doc (update_side side f)"

definition act :: "transport_action \<Rightarrow> ('c sync_world, unit) action" where
  "act a w = (w\<lparr>sw_actions := sw_actions w @ [a]\<rparr>, Inr ())"

definition deferred :: "device_side \<Rightarrow> string \<Rightarrow> ('c sync_world, unit) action" where
  "deferred side reason = act (Deferred side reason)"

text \<open>\<open>SystemTime::now()\<close> in milliseconds since the epoch; no time before the epoch is modelled.\<close>

definition clock_now :: "('c sync_world, u64) action" where
  "clock_now w = (w, Inr (dk_clock (sw_disk w)))"

section \<open>Files, as actions on the disk\<close>

definition io :: "string \<Rightarrow> (disk \<Rightarrow> disk \<times> (io_error + 'a)) \<Rightarrow> (disk, 'a) action" where
  "io before m d = io_context before (m d)"

text \<open>\<open>let _ = m;\<close>\<close>

definition ignored :: "('w \<Rightarrow> 'w \<times> ('e + 'a)) \<Rightarrow> ('w, unit) action" where
  "ignored m w = (fst (m w), Inr ())"

definition not_regular :: "entry \<Rightarrow> bool" where
  "not_regular m \<longleftrightarrow> is_symlink m \<or> \<not> is_file m"

text \<open>A regular file whose hash is the expected one; \<open>is_ok_and\<close> drops the error of the hash.\<close>

definition hash_is :: "sha \<Rightarrow> string \<Rightarrow> string \<Rightarrow> (disk, bool) action" where
  "hash_is sha p expected = seq (caught (sha256_file sha p)) (\<lambda>r. ok (r = Inr expected))"

definition installed_file :: "sha \<Rightarrow> string \<Rightarrow> string \<Rightarrow> (disk, bool) action" where
  "installed_file sha p expected =
     seq (metadata_if_exists p) (\<lambda>m.
       case m of
         None \<Rightarrow> ok False
       | Some e \<Rightarrow> if is_file e then hash_is sha p expected else ok False)"

text \<open>\<open>File::create\<close>, then \<open>write_all\<close>, \<open>flush\<close> and \<open>sync_all\<close>.\<close>

definition write_synced :: "string \<Rightarrow> bytes \<Rightarrow> (disk, unit) action" where
  "write_synced p bs =
     seq (io (''could not write '' @ p @ '': '') (fs_write p [])) (\<lambda>_.
     io (''could not finalize '' @ p @ '': '') (fs_write p bs))"

definition create_dir :: "string \<Rightarrow> (disk, unit) action" where
  "create_dir p = io (''could not create '' @ p @ '': '') (fs_create_dir_all p)"

definition sync_directory :: "string \<Rightarrow> (disk, unit) action" where
  "sync_directory p = io (''could not sync '' @ p @ '': '') (fs_open p)"

definition pad20 :: "u64 \<Rightarrow> string" where
  "pad20 v = replicate (20 - length (show_u64 v)) (CHR ''0'') @ show_u64 v"

definition contains_any :: "char list \<Rightarrow> string \<Rightarrow> bool" where
  "contains_any cs s \<longleftrightarrow> list_ex (\<lambda>c. c \<in> set cs) s"

text \<open>\<open>slice::join\<close>, \<open>str::parse::<u32>\<close> and \<open>Iterator::try_fold\<close>.\<close>

fun join_with :: "string \<Rightarrow> string list \<Rightarrow> string" where
  "join_with sep [] = []"
| "join_with sep [s] = s"
| "join_with sep (s # t # ss) = s @ sep @ join_with sep (t # ss)"

fun parse_digits32 :: "int \<Rightarrow> string \<Rightarrow> parse_int_error + int" where
  "parse_digits32 acc [] = Inr acc"
| "parse_digits32 acc (c # cs) =
     (if \<not> is_digit c then Inl InvalidDigit
      else let n = 10 * acc + (byte c - 48)
           in if 2 ^ 32 \<le> n then Inl PosOverflow else parse_digits32 n cs)"

definition parse_u32 :: "string \<Rightarrow> parse_int_error + u32" where
  "parse_u32 s =
     (if s = [] then Inl Empty
      else if s = ''+'' \<or> s = ''-'' then Inl InvalidDigit
      else let ds = (if hd s = CHR ''+'' then tl s else s)
           in rbind (parse_digits32 0 ds) (\<lambda>n. Inr (word_of_int n)))"

fun try_fold :: "('a \<Rightarrow> 'b \<Rightarrow> 'e + 'b) \<Rightarrow> 'a list \<Rightarrow> 'b \<Rightarrow> 'e + 'b" where
  "try_fold f [] b = Inr b"
| "try_fold f (x # xs) b = rbind (f x b) (try_fold f xs)"

text \<open>\<open>slice.windows(2).all(|pair| pair[0] < pair[1])\<close>\<close>

definition strictly_increasing :: "u32 list \<Rightarrow> bool" where
  "strictly_increasing xs \<longleftrightarrow> sorted_wrt (<) xs"

definition key_of :: "string \<Rightarrow> (disk, string) action" where
  "key_of p d = (case canonical_path_key p d of (d, k) \<Rightarrow> (d, Inr k))"

section \<open>Code outside the repository\<close>

text \<open>The values of a JSON acknowledgement the code looks at.\<close>

record ack_view =
  av_schema_version :: "u64 option"
  av_delivery_id :: "string option"
  av_document_id :: "string option"

record broker_delivery =
  bd_schema_version :: u32
  bd_producer :: string
  bd_event_id :: string
  bd_document_id :: string
  bd_original_file_name :: string
  bd_source_revisions :: revision_pair
  bd_source_generation :: u64
  bd_content_sha256 :: string
  bd_pdf_file_name :: string

record installed_delivery =
  id_schema_version :: u32
  id_producer :: string
  id_event_id :: string
  id_document_id :: string
  id_source_revisions :: revision_pair
  id_source_generation :: u64
  id_content_sha256 :: string
  id_active_file_name :: string

record retirement_marker =
  rk_schema_version :: u32
  rk_document_id :: string
  rk_event_id :: string
  rk_content_sha256 :: string
  rk_pdf_file_name :: string

record 'c folder_ext =
  fx_sha :: sha
  fx_list :: "string \<Rightarrow> 'c \<Rightarrow> 'c \<times> (string + folder_object list)"
  fx_upload_create :: "string \<Rightarrow> string \<Rightarrow> (string, string) bmap \<Rightarrow> disk \<times> 'c \<Rightarrow> (disk \<times> 'c) \<times> (string + folder_object)"
  fx_download :: "folder_object \<Rightarrow> string \<Rightarrow> disk \<times> 'c \<Rightarrow> (disk \<times> 'c) \<times> (string + unit)"
  fx_build_manifest :: "string \<Rightarrow> string list \<Rightarrow> disk \<Rightarrow> disk \<times> (string + built_manifest)"
  fx_export_of_json :: "string \<Rightarrow> string + export_envelope"
  fx_export_to_json :: "export_envelope \<Rightarrow> string + bytes"
  fx_ack_of_json :: "bytes \<Rightarrow> string + ack_view"
  fx_event_of_json :: "bytes \<Rightarrow> string + storage_event"
  fx_manifest_of_json :: "bytes \<Rightarrow> string + manifest"
  fx_delivery_to_json :: "broker_delivery \<Rightarrow> string + bytes"
  fx_delivery_of_json :: "bytes \<Rightarrow> string + broker_delivery"
  fx_installed_of_json :: "bytes \<Rightarrow> string + installed_delivery"
  fx_marker_to_json :: "retirement_marker \<Rightarrow> string + bytes"
  fx_marker_of_json :: "bytes \<Rightarrow> string + retirement_marker"
  fx_temp_path :: "disk \<Rightarrow> string"
  fx_show_name :: "string option \<Rightarrow> string"

end
