(* ===== verification/Boox_Handoff.thy ===== *)
theory Boox_Handoff
  imports Folder_World
begin

text \<open>
  The versioned handoff to the BOOX companion (inkbridge-folder-transport/src/boox_handoff.rs):
  deliveries prepared for it, its installed acknowledgement, the finalized payloads it hands back
  and their retirement, which a marker makes recoverable.  An endpoint is the path of its
  document's directory.  Everything runs on the disk; directories are listed by name.
\<close>

section \<open>Names\<close>

definition descriptor_schema_version :: u32 where "descriptor_schema_version = 1"
definition descriptor_suffix :: string where "descriptor_suffix = ''.inkbridge.json''"
definition max_descriptor_bytes :: u64 where "max_descriptor_bytes = 262144"
definition generated_event_id :: string where "generated_event_id = ''inkbridge-event-id''"
definition installed_acknowledgement_file :: string where
  "installed_acknowledgement_file = ''.inkbridge-installed.json''"
definition companion_producer :: string where "companion_producer = ''inkbridge-boox-companion''"
definition retirement_marker_prefix :: string where "retirement_marker_prefix = ''.inkbridge-retire-''"
definition retirement_marker_suffix :: string where "retirement_marker_suffix = ''.json''"

record prepared_delivery =
  pd_event_id :: string
  pd_pdf_path :: string
  pd_descriptor_path :: string
  pd_descriptor_bytes :: bytes

record finalized_artifact =
  fa_descriptor_path :: string
  fa_payload_path :: string
  fa_event :: storage_event

definition validate_document_id :: "string \<Rightarrow> string + unit" where
  "validate_document_id v = ensure (is_stable_document_id v) (''invalid stable document ID '' @ v)"

definition is_lower_sha256 :: "string \<Rightarrow> bool" where
  "is_lower_sha256 v \<longleftrightarrow>
     length v = 64 \<and> list_all (\<lambda>c. is_digit c \<or> (97 \<le> byte c \<and> byte c \<le> 102)) v"

definition validate_sha256 :: "string \<Rightarrow> string \<Rightarrow> string + unit" where
  "validate_sha256 v label = ensure (is_lower_sha256 v) (''invalid '' @ label)"

definition validate_file_name :: "string \<Rightarrow> string \<Rightarrow> string + unit" where
  "validate_file_name v label = ensure (v \<noteq> [] \<and> \<not> unsafe_handoff_name v) (''invalid '' @ label)"

definition valid_event_id :: "string \<Rightarrow> bool" where
  "valid_event_id v \<longleftrightarrow> \<not> blank v \<and> length v \<le> 256"

definition strictly_dominates :: "revision_pair \<Rightarrow> revision_pair \<Rightarrow> bool" where
  "strictly_dominates a b \<longleftrightarrow> a \<noteq> b \<and> rp_boox b \<le> rp_boox a \<and> rp_supernote b \<le> rp_supernote a"

definition retirement_marker_name :: "sha \<Rightarrow> string \<Rightarrow> string" where
  "retirement_marker_name sha event_id =
     retirement_marker_prefix @ sha256_hex sha event_id @ retirement_marker_suffix"

definition endpoint_new :: "string \<Rightarrow> document_folders \<Rightarrow> string + string" where
  "endpoint_new root f =
     rbind (validate_document_id (df_document_id f)) (\<lambda>_.
     rbind (validate_file_name (df_original_file_name f) ''originalFileName'') (\<lambda>_.
     Inr (path_join root (df_document_id f))))"

section \<open>Deliveries\<close>

definition delivery_file_name :: "folder_object \<Rightarrow> revision_pair \<Rightarrow> string \<Rightarrow> string" where
  "delivery_file_name obj frontier hash =
     ''broker-b'' @ pad20 (rp_boox frontier) @ ''-s'' @ pad20 (rp_supernote frontier) @
     ''-g'' @ pad20 (co_generation obj) @ ''-'' @ take 12 hash @ ''.pdf''"

definition prepare_delivery ::
    "'c folder_ext \<Rightarrow> string \<Rightarrow> document_folders \<Rightarrow> folder_object \<Rightarrow> revision_pair \<Rightarrow> string \<Rightarrow>
       string + prepared_delivery" where
  "prepare_delivery X endpoint f obj frontier hash =
     rbind (validate_sha256 hash ''broker output content hash'') (\<lambda>_.
     rbind (ok_or (''broker output '' @ co_path obj @ '' is missing a valid '' @ generated_event_id)
              (case bm_get (co_metadata obj) generated_event_id of
                 None \<Rightarrow> None
               | Some v \<Rightarrow> if valid_event_id v then Some v else None)) (\<lambda>event_id.
     let name = delivery_file_name obj frontier hash;
         incoming = path_join endpoint ''incoming''
     in rbind (fx_delivery_to_json X
          \<lparr>bd_schema_version = descriptor_schema_version, bd_producer = broker_producer,
           bd_event_id = event_id, bd_document_id = df_document_id f,
           bd_original_file_name = df_original_file_name f, bd_source_revisions = frontier,
           bd_source_generation = co_generation obj, bd_content_sha256 = hash,
           bd_pdf_file_name = name\<rparr>) (\<lambda>bs.
        Inr \<lparr>pd_event_id = event_id, pd_pdf_path = path_join incoming name,
             pd_descriptor_path = path_join incoming (name @ descriptor_suffix),
             pd_descriptor_bytes = bs @ [CHR 0x0A]\<rparr>)))"

definition exceeds_limit :: "string \<Rightarrow> string" where
  "exceeds_limit p = ''BOOX handoff descriptor '' @ p @ '' exceeds 262144 bytes''"

definition read_bounded_descriptor :: "string \<Rightarrow> entry \<Rightarrow> (disk, bytes) action" where
  "read_bounded_descriptor p m =
     (if max_descriptor_bytes < file_len m then fail (exceeds_limit p)
      else
        seq (io (''could not read BOOX handoff descriptor '' @ p @ '': '') (fs_read p)) (\<lambda>bs.
        let bs = take (unat max_descriptor_bytes + 1) bs
        in if unat max_descriptor_bytes < length bs then fail (exceeds_limit p) else ok bs))"

text \<open>\<open>symlink_metadata\<close> of a file that may be missing, and of one that must be a regular file.\<close>

definition entry_or_missing :: "string \<Rightarrow> string \<Rightarrow> (disk, entry option) action" where
  "entry_or_missing before p d =
     (case fs_symlink_metadata p d of
        (d, Inr m) \<Rightarrow> (d, Inr (Some m))
      | (d, Inl e) \<Rightarrow> if io_kind e = IoNotFound then (d, Inr None) else (d, Inl (before @ p @ '': '' @ io_text e)))"

definition read_regular ::
    "string \<Rightarrow> string \<Rightarrow> entry \<Rightarrow> (disk, bytes) action" where
  "read_regular what p m =
     (if not_regular m then fail (what @ p @ '' is not a regular file'')
      else read_bounded_descriptor p m)"

definition entries_or_missing :: "string \<Rightarrow> string \<Rightarrow> (disk, string list option) action" where
  "entries_or_missing what p d =
     (case fs_read_dir p d of
        (d, Inr ps) \<Rightarrow> (d, Inr (Some ps))
      | (d, Inl e) \<Rightarrow>
          if io_kind e = IoNotFound then (d, Inr None)
          else (d, Inl (''could not inspect BOOX handoff '' @ what @ '' directory '' @ p @ '': '' @
                        io_text e)))"

section \<open>The installed acknowledgement\<close>

definition validate_installed_delivery ::
    "installed_delivery \<Rightarrow> document_folders \<Rightarrow> string + unit" where
  "validate_installed_delivery i f =
     (if id_schema_version i \<noteq> 1 then
        Inl (''unsupported BOOX installed-delivery acknowledgement schema '' @ show_u32 (id_schema_version i))
      else if id_producer i \<noteq> companion_producer then
        Inl ''BOOX installed-delivery acknowledgement has an unexpected producer''
      else if id_document_id i \<noteq> df_document_id f then
        Inl (''BOOX installed-delivery acknowledgement belongs to '' @ id_document_id i @ '', not '' @
             df_document_id f)
      else if \<not> valid_event_id (id_event_id i) then
        Inl ''BOOX installed-delivery acknowledgement has an invalid eventId''
      else if id_source_generation i = 0 then
        Inl ''BOOX installed-delivery acknowledgement has an invalid generation''
      else
        rbind (validate_sha256 (id_content_sha256 i) ''installed BOOX broker content hash'') (\<lambda>_.
        validate_file_name (id_active_file_name i) ''active BOOX PDF file name''))"

definition installed_delivery_of ::
    "'c folder_ext \<Rightarrow> string \<Rightarrow> document_folders \<Rightarrow> (disk, installed_delivery option) action" where
  "installed_delivery_of X endpoint f =
     (let p = path_join endpoint installed_acknowledgement_file
      in seq (entry_or_missing ''could not inspect BOOX installed-delivery acknowledgement '' p) (\<lambda>m.
         case m of
           None \<Rightarrow> ok None
         | Some m \<Rightarrow>
             seq (read_regular ''BOOX installed-delivery acknowledgement '' p m) (\<lambda>bs.
             seq (answer (map_err (\<lambda>e. ''invalid BOOX installed-delivery acknowledgement '' @ p @ '': '' @ e)
                    (fx_installed_of_json X bs))) (\<lambda>i.
             seq (answer (validate_installed_delivery i f)) (\<lambda>_. ok (Some i))))))"

section \<open>Retiring superseded deliveries\<close>

definition read_broker_delivery_descriptor ::
    "'c folder_ext \<Rightarrow> string \<Rightarrow> string \<Rightarrow> document_folders \<Rightarrow> (disk, broker_delivery) action" where
  "read_broker_delivery_descriptor X p name f =
     seq (io (''could not inspect BOOX broker descriptor '' @ p @ '': '') (fs_symlink_metadata p)) (\<lambda>m.
     seq (read_regular ''BOOX broker descriptor '' p m) (\<lambda>bs.
     seq (answer (map_err (\<lambda>e. ''invalid BOOX broker descriptor '' @ p @ '': '' @ e)
            (fx_delivery_of_json X bs))) (\<lambda>delivery.
     if bd_schema_version delivery \<noteq> descriptor_schema_version \<or>
        bd_producer delivery \<noteq> broker_producer \<or>
        bd_document_id delivery \<noteq> df_document_id f \<or>
        bd_original_file_name delivery \<noteq> df_original_file_name f \<or>
        \<not> valid_event_id (bd_event_id delivery) \<or> bd_source_generation delivery = 0 then
       fail (''BOOX broker descriptor '' @ p @ '' does not match its document or protocol'')
     else
       seq (answer (validate_sha256 (bd_content_sha256 delivery) ''BOOX broker delivery content hash'')) (\<lambda>_.
       seq (answer (validate_file_name (bd_pdf_file_name delivery) ''BOOX broker delivery PDF file name'')) (\<lambda>_.
       if name \<noteq> bd_pdf_file_name delivery @ descriptor_suffix then
         fail (''BOOX broker descriptor '' @ p @ '' does not match PDF '' @ bd_pdf_file_name delivery)
       else ok delivery)))))"

text \<open>The module's own \<open>sha256_file\<close>, whose error texts differ from those of the transport's.\<close>

definition handoff_sha256_file :: "sha \<Rightarrow> string \<Rightarrow> (disk, string) action" where
  "handoff_sha256_file sha p =
     seq (io (''could not open '' @ p @ '' for hashing: '') (fs_open p)) (\<lambda>_.
     seq (io (''could not hash '' @ p @ '': '') (fs_read p)) (\<lambda>bs. ok (sha256_hex sha bs)))"

definition validate_regular_pdf_if_exists :: "sha \<Rightarrow> string \<Rightarrow> string \<Rightarrow> (disk, unit) action" where
  "validate_regular_pdf_if_exists sha p expected =
     seq (entry_or_missing ''could not inspect '' p) (\<lambda>m.
       case m of
         None \<Rightarrow> ok ()
       | Some m \<Rightarrow>
           if not_regular m then fail (''BOOX handoff PDF '' @ p @ '' is not a regular file'')
           else
             seq (handoff_sha256_file sha p) (\<lambda>actual.
             if actual \<noteq> expected then
               fail (''BOOX handoff PDF '' @ p @ '' changed before retirement and was preserved'')
             else ok ()))"

definition remove_file_and_sync :: "string \<Rightarrow> string \<Rightarrow> (disk, unit) action" where
  "remove_file_and_sync p directory d =
     (case fs_remove_file p d of
        (d, Inr _) \<Rightarrow> sync_directory directory d
      | (d, Inl e) \<Rightarrow>
          if io_kind e = IoNotFound then (d, Inr ())
          else (d, Inl (''could not remove '' @ p @ '': '' @ io_text e)))"

definition same_delivery :: "broker_delivery \<Rightarrow> installed_delivery \<Rightarrow> bool" where
  "same_delivery delivery i \<longleftrightarrow>
     bd_event_id delivery = id_event_id i \<and> bd_source_revisions delivery = id_source_revisions i \<and>
     bd_source_generation delivery = id_source_generation i \<and>
     bd_content_sha256 delivery = id_content_sha256 i"

definition retire_superseded_entry ::
    "'c folder_ext \<Rightarrow> string \<Rightarrow> document_folders \<Rightarrow> installed_delivery \<Rightarrow> string \<Rightarrow> (disk, unit) action" where
  "retire_superseded_entry X incoming f i p =
     (let name = (case path_file_name p of None \<Rightarrow> [] | Some n \<Rightarrow> n)
      in if \<not> suffix descriptor_suffix name then ok ()
         else
           seq (caught (read_broker_delivery_descriptor X p name f)) (\<lambda>r.
           case r of
             Inl _ \<Rightarrow> ok ()
           | Inr delivery \<Rightarrow>
               if same_delivery delivery i then ok ()
               else if \<not> (bd_source_revisions delivery = id_source_revisions i \<and>
                          bd_content_sha256 delivery = id_content_sha256 i) \<and>
                       \<not> strictly_dominates (id_source_revisions i) (bd_source_revisions delivery) then ok ()
               else
                 let pdf = path_join incoming (bd_pdf_file_name delivery)
                 in seq (validate_regular_pdf_if_exists (fx_sha X) pdf (bd_content_sha256 delivery)) (\<lambda>_.
                    seq (remove_file_and_sync pdf incoming) (\<lambda>_.
                    remove_file_and_sync p incoming))))"

definition retire_superseded_incoming ::
    "'c folder_ext \<Rightarrow> string \<Rightarrow> document_folders \<Rightarrow> installed_delivery \<Rightarrow> (disk, unit) action" where
  "retire_superseded_incoming X endpoint f i =
     seq (answer (validate_installed_delivery i f)) (\<lambda>_.
     let incoming = path_join endpoint ''incoming''
     in seq (entries_or_missing ''incoming'' incoming) (\<lambda>ps.
        case ps of None \<Rightarrow> ok () | Some ps \<Rightarrow> each (retire_superseded_entry X incoming f i) ps))"

section \<open>Finalized payloads\<close>

definition validate_finalized_event :: "storage_event \<Rightarrow> document_folders \<Rightarrow> string + unit" where
  "validate_finalized_event ev f =
     (if ev_schema_version ev \<noteq> event_schema_version then
        Inl (''unsupported BOOX handoff event schema '' @ show_u32 (ev_schema_version ev))
      else if ev_document_id ev \<noteq> df_document_id f then
        Inl (''BOOX handoff event belongs to '' @ ev_document_id ev @ '', not '' @ df_document_id f)
      else if ev_source ev \<noteq> Boox then Inl ''BOOX handoff event source is not boox''
      else if \<not> (ev_payload_kind ev = DeviceView \<or> ev_payload_kind ev = BooxOperationManifest) \<or>
              ev_broker_output ev \<noteq> None then
        Inl ''BOOX handoff event is not a supported finalized payload''
      else if \<not> valid_event_id (ev_event_id ev) then Inl ''BOOX handoff event has an invalid eventId''
      else if ev_source_generation ev = 0 then
        Inl ''BOOX handoff event sourceGeneration must be positive''
      else if ev_source_revision ev \<noteq> rp_boox (ev_based_on ev) + 1 then
        Inl (''BOOX handoff source revision '' @ show_u64 (ev_source_revision ev) @
             '' does not immediately follow basedOn BOOX revision '' @ show_u64 (rp_boox (ev_based_on ev)))
      else
        rbind (validate_sha256 (ev_content_sha256 ev) ''BOOX handoff content hash'') (\<lambda>_.
        let directory = ''BOOX_Folder/'' @ df_document_id f @ ''/''
        in rbind (ok_or (''BOOX handoff object path '' @ ev_object_path ev @ '' is outside '' @ directory)
                    (strip_prefix directory (ev_object_path ev))) (\<lambda>relative.
           if relative = [] \<or> contains_any [CHR ''/'', CHR 0x5C, CHR 0x00] relative \<or>
              has_control (map byte relative) then
             Inl (''BOOX handoff object path '' @ ev_object_path ev @
                  '' must name one safe payload directly below '' @ directory)
           else Inr ())))"

definition read_finalized_artifact ::
    "'c folder_ext \<Rightarrow> string \<Rightarrow> string \<Rightarrow> string \<Rightarrow> document_folders \<Rightarrow> (disk, finalized_artifact) action" where
  "read_finalized_artifact X outgoing p name f =
     seq (io (''could not inspect BOOX handoff descriptor '' @ p @ '': '') (fs_symlink_metadata p)) (\<lambda>m.
     seq (read_regular ''BOOX handoff descriptor '' p m) (\<lambda>bs.
     seq (answer (map_err (\<lambda>e. ''invalid BOOX handoff descriptor '' @ p @ '': '' @ e)
            (fx_event_of_json X bs))) (\<lambda>ev.
     seq (answer (validate_finalized_event ev f)) (\<lambda>_.
     let pdf_name = (case strip_suffix descriptor_suffix name of None \<Rightarrow> [] | Some n \<Rightarrow> n)
     in seq (answer (validate_file_name pdf_name ''finalized BOOX payload file name'')) (\<lambda>_.
        seq (answer (ok_or (''BOOX handoff descriptor '' @ p @ '' has no object file name'')
               (path_file_name (ev_object_path ev)))) (\<lambda>object_name.
        if object_name \<noteq> pdf_name then
          fail (''BOOX handoff descriptor '' @ p @ '' names object '' @ object_name @
                '' but is paired with '' @ pdf_name)
        else
          let pdf = path_join outgoing pdf_name
          in seq (io (''BOOX handoff descriptor '' @ p @ '' is missing paired PDF '' @ pdf @ '': '')
                   (fs_symlink_metadata pdf)) (\<lambda>pm.
             if not_regular pm then
               fail (''BOOX handoff descriptor '' @ p @ '' is missing a regular paired PDF '' @ pdf)
             else ok \<lparr>fa_descriptor_path = p, fa_payload_path = pdf, fa_event = ev\<rparr>)))))))"

section \<open>Retiring accepted payloads\<close>

definition marker_text :: string where
  "marker_text = ''BOOX finalized-retirement marker ''"

text \<open>An existing marker must be the one that is to be published.\<close>

definition check_existing_marker :: "string \<Rightarrow> bytes \<Rightarrow> entry \<Rightarrow> (disk, unit) action" where
  "check_existing_marker p bs m =
     seq (read_regular marker_text p m) (\<lambda>existing.
     if existing \<noteq> bs then fail (marker_text @ p @ '' has unexpected content'') else ok ())"

definition remove_stale_marker :: "string \<Rightarrow> (disk, unit) action" where
  "remove_stale_marker p d =
     (case fs_remove_file p d of
        (d, Inr _) \<Rightarrow> (d, Inr ())
      | (d, Inl e) \<Rightarrow>
          if io_kind e = IoNotFound then (d, Inr ())
          else (d, Inl (''could not remove stale BOOX retirement marker '' @ p @ '': '' @ io_text e)))"

definition publish_retirement_marker ::
    "'c folder_ext \<Rightarrow> string \<Rightarrow> retirement_marker \<Rightarrow> string \<Rightarrow> (disk, unit) action" where
  "publish_retirement_marker X p marker outgoing =
     seq (answer (fx_marker_to_json X marker)) (\<lambda>json.
     let bs = json @ [CHR 0x0A]
     in if max_descriptor_bytes < of_nat (length bs) then
          fail ''BOOX finalized-retirement marker exceeds the metadata limit''
        else
          seq (entry_or_missing (''could not inspect '' @ marker_text) p) (\<lambda>m.
          case m of
            Some m \<Rightarrow> check_existing_marker p bs m
          | None \<Rightarrow>
              seq (create_dir outgoing) (\<lambda>_.
              let temporary = with_extension p ''json.part''
              in seq (remove_stale_marker temporary) (\<lambda>_.
                 seq (write_synced temporary bs) (\<lambda>_.
                 seq (publish_create_only temporary p) (\<lambda>published.
                 seq (unless published
                   (seq (io (''could not inspect concurrently published BOOX retirement marker '' @ p @ '': '')
                           (fs_symlink_metadata p)) (check_existing_marker p bs))) (\<lambda>_.
                 sync_directory outgoing)))))))"

definition check_retired_descriptor ::
    "'c folder_ext \<Rightarrow> string \<Rightarrow> retirement_marker \<Rightarrow> document_folders \<Rightarrow> entry \<Rightarrow> (disk, unit) action" where
  "check_retired_descriptor X p marker f m =
     seq (read_regular ''acknowledged BOOX descriptor '' p m) (\<lambda>bs.
     seq (answer (map_err (\<lambda>e. ''invalid acknowledged BOOX descriptor '' @ p @ '': '' @ e)
            (fx_event_of_json X bs))) (\<lambda>ev.
     seq (answer (validate_finalized_event ev f)) (\<lambda>_.
     if ev_event_id ev \<noteq> rk_event_id marker \<or> ev_content_sha256 ev \<noteq> rk_content_sha256 marker \<or>
        path_file_name (ev_object_path ev) \<noteq> Some (rk_pdf_file_name marker) then
       fail (''acknowledged BOOX descriptor '' @ p @ '' does not match its retirement marker'')
     else ok ())))"

definition recover_retirement_marker ::
    "'c folder_ext \<Rightarrow> string \<Rightarrow> string \<Rightarrow> document_folders \<Rightarrow> (disk, unit) action" where
  "recover_retirement_marker X p outgoing f =
     seq (io (''could not inspect '' @ marker_text @ p @ '': '') (fs_symlink_metadata p)) (\<lambda>m.
     seq (read_regular marker_text p m) (\<lambda>bs.
     seq (answer (map_err (\<lambda>e. ''invalid '' @ marker_text @ p @ '': '' @ e) (fx_marker_of_json X bs)))
       (\<lambda>marker.
     if rk_schema_version marker \<noteq> 1 \<or> rk_document_id marker \<noteq> df_document_id f \<or>
        \<not> valid_event_id (rk_event_id marker) \<or>
        path_file_name p \<noteq> Some (retirement_marker_name (fx_sha X) (rk_event_id marker)) then
       fail (marker_text @ p @ '' does not match its document or identity'')
     else
       seq (answer (validate_sha256 (rk_content_sha256 marker) ''retired BOOX content hash'')) (\<lambda>_.
       seq (answer (validate_file_name (rk_pdf_file_name marker) ''retired BOOX PDF file name'')) (\<lambda>_.
       let pdf = path_join outgoing (rk_pdf_file_name marker);
           descriptor = path_join outgoing (rk_pdf_file_name marker @ descriptor_suffix)
       in seq (validate_regular_pdf_if_exists (fx_sha X) pdf (rk_content_sha256 marker)) (\<lambda>_.
          seq (caught (io [] (fs_symlink_metadata descriptor))) (\<lambda>dm.
          seq (case dm of Inl _ \<Rightarrow> ok () | Inr dm \<Rightarrow> check_retired_descriptor X descriptor marker f dm) (\<lambda>_.
          seq (remove_file_and_sync pdf outgoing) (\<lambda>_.
          seq (remove_file_and_sync descriptor outgoing) (\<lambda>_.
          remove_file_and_sync p outgoing)))))))))) "

definition retire_accepted_artifact ::
    "'c folder_ext \<Rightarrow> string \<Rightarrow> document_folders \<Rightarrow> finalized_artifact \<Rightarrow> (disk, unit) action" where
  "retire_accepted_artifact X endpoint f artifact =
     seq (answer (validate_finalized_event (fa_event artifact) f)) (\<lambda>_.
     seq (answer (ok_or (''finalized BOOX payload '' @ fa_payload_path artifact @ '' has no file name'')
            (path_file_name (fa_payload_path artifact)))) (\<lambda>pdf_name.
     seq (answer (validate_file_name pdf_name ''finalized BOOX payload file name'')) (\<lambda>_.
     let marker = \<lparr>rk_schema_version = 1, rk_document_id = df_document_id f,
                   rk_event_id = ev_event_id (fa_event artifact),
                   rk_content_sha256 = ev_content_sha256 (fa_event artifact),
                   rk_pdf_file_name = pdf_name\<rparr>;
         outgoing = path_join endpoint ''outgoing'';
         p = path_join outgoing (retirement_marker_name (fx_sha X) (rk_event_id marker))
     in seq (publish_retirement_marker X p marker outgoing) (\<lambda>_.
        recover_retirement_marker X p outgoing f))))"

definition is_marker_path :: "string \<Rightarrow> bool" where
  "is_marker_path p \<longleftrightarrow>
     (case path_file_name p of
        None \<Rightarrow> False
      | Some n \<Rightarrow> prefix retirement_marker_prefix n \<and> suffix retirement_marker_suffix n)"

definition recover_retirements ::
    "'c folder_ext \<Rightarrow> string \<Rightarrow> document_folders \<Rightarrow> (disk, unit) action" where
  "recover_retirements X endpoint f =
     (let outgoing = path_join endpoint ''outgoing''
      in seq (entries_or_missing ''outgoing'' outgoing) (\<lambda>ps.
         case ps of
           None \<Rightarrow> ok ()
         | Some ps \<Rightarrow>
             each (\<lambda>p. recover_retirement_marker X p outgoing f) (sort (filter is_marker_path ps))))"

text \<open>The order of the artifacts: revision, frontier, generation, path.\<close>

definition artifact_key :: "finalized_artifact \<Rightarrow> nat list" where
  "artifact_key a =
     (let ev = fa_event a
      in [unat (ev_source_revision ev), unat (rp_boox (ev_based_on ev)),
          unat (rp_supernote (ev_based_on ev)), unat (ev_source_generation ev)] @
         map (\<lambda>c. nat (byte c)) (fa_descriptor_path a))"

definition finalized_entry ::
    "'c folder_ext \<Rightarrow> string \<Rightarrow> document_folders \<Rightarrow> string \<Rightarrow> finalized_artifact list \<Rightarrow>
       (disk, finalized_artifact list) action" where
  "finalized_entry X outgoing f p artifacts =
     (let name = (case path_file_name p of None \<Rightarrow> [] | Some n \<Rightarrow> n)
      in if \<not> suffix descriptor_suffix name then ok artifacts
         else
           seq (caught (read_finalized_artifact X outgoing p name f)) (\<lambda>r.
           case r of Inl _ \<Rightarrow> ok artifacts | Inr a \<Rightarrow> ok (artifacts @ [a])))"

definition finalized_artifacts ::
    "'c folder_ext \<Rightarrow> string \<Rightarrow> document_folders \<Rightarrow> (disk, finalized_artifact list) action" where
  "finalized_artifacts X endpoint f =
     seq (recover_retirements X endpoint f) (\<lambda>_.
     let outgoing = path_join endpoint ''outgoing''
     in seq (entries_or_missing ''outgoing'' outgoing) (\<lambda>ps.
        case ps of
          None \<Rightarrow> ok []
        | Some ps \<Rightarrow>
            seq (carry (finalized_entry X outgoing f) ps []) (\<lambda>artifacts.
            ok (sort_key artifact_key artifacts))))"

end
