(* ===== verification/Export_Serialize.thy ===== *)
theory Export_Serialize
  imports Baseline
begin

text \<open>
  Writing a parsed Supernote export back as JSON (\<open>serialize_baseline_page\<close> and
  \<open>serialize_baseline_export\<close> of inkbridge-convert/src/baseline.rs): the JSON value is built as an
  export envelope, the record that the parser's derived \<open>Deserialize\<close> fills.  The source writes the
  keys of that value by hand in \<open>json!\<close> blocks; those key names and the encoder (\<open>serde_json\<close>) are a
  parameter, and that they are the parser's keys is what the property on round trips assumes of it.
\<close>

definition serialize_stroke :: "stroke_snapshot \<Rightarrow> export_stroke" where
  "serialize_stroke s =
     \<lparr>es_source_uuid = Some (source_uuid s), es_source_key = source_uuid s,
      es_layer_num = layer_num (native_style s), es_thickness = thickness (native_style s),
      es_pen_color = pen_color (native_style s), es_pen_type = pen_type (native_style s),
      es_samples = samples s\<rparr>"

definition serialize_strokes :: "baseline_page \<Rightarrow> export_stroke list" where
  "serialize_strokes p = map serialize_stroke (bp_strokes p)"

definition page_envelope :: "baseline_export \<Rightarrow> baseline_page \<Rightarrow> export_envelope" where
  "page_envelope e p =
     \<lparr>ee_schema_version = Some supernote_export_schema_version,
      ee_source_file_name = be_source_file_name e, ee_document_id = be_document_id e,
      ee_based_on = be_based_on e, ee_page_index = Some (bp_page_index p),
      ee_strokes = Some (serialize_strokes p), ee_pages = None\<rparr>"

definition serialize_baseline_page ::
    "(export_envelope \<Rightarrow> string + bytes) \<Rightarrow> baseline_export \<Rightarrow> baseline_page \<Rightarrow> string + bytes" where
  "serialize_baseline_page to_json e p = to_json (page_envelope e p)"

definition export_envelope_at :: "baseline_export \<Rightarrow> baseline_revisions \<Rightarrow> export_envelope" where
  "export_envelope_at e based_on =
     \<lparr>ee_schema_version = Some supernote_export_schema_version,
      ee_source_file_name = be_source_file_name e, ee_document_id = be_document_id e,
      ee_based_on = Some based_on, ee_page_index = None, ee_strokes = None,
      ee_pages = Some (map (\<lambda>p. \<lparr>ep_page_index = bp_page_index p, ep_strokes = serialize_strokes p\<rparr>)
                         (be_pages e))\<rparr>"

definition serialize_baseline_export ::
    "(export_envelope \<Rightarrow> string + bytes) \<Rightarrow> baseline_export \<Rightarrow> baseline_revisions \<Rightarrow> string + bytes" where
  "serialize_baseline_export to_json e based_on = to_json (export_envelope_at e based_on)"

section \<open>Reading it back\<close>

lemma export_snapshot_serialize:
  "parsed_stroke page s \<Longrightarrow> export_snapshot page (serialize_stroke s) = s"
  by (cases s; cases "native_style s")
     (simp add: parsed_stroke_def export_snapshot_def export_stroke_uuid_def serialize_stroke_def Let_def)

lemma parse_serialized_strokes:
  "list_all (parsed_stroke page) ss \<Longrightarrow> distinct (map source_uuid ss) \<Longrightarrow>
     set (map source_uuid ss) \<inter> set seen = {} \<Longrightarrow>
     parse_export_strokes name page (map serialize_stroke ss) seen =
       Inr (ss, rev (map source_uuid ss) @ seen)"
proof (induction ss arbitrary: seen)
  case (Cons s ss)
  have uuid: "export_stroke_uuid (serialize_stroke s) = source_uuid s"
    "es_samples (serialize_stroke s) = samples s"
    by (simp_all add: export_stroke_uuid_def serialize_stroke_def)
  have "parse_export_strokes name page (map serialize_stroke ss) (source_uuid s # seen) =
      Inr (ss, rev (map source_uuid ss) @ source_uuid s # seen)"
    using Cons.prems by (intro Cons.IH) auto
  then show ?case
    using Cons.prems export_snapshot_serialize [of page s]
    by (simp add: Let_def uuid parsed_stroke_def)
qed simp

lemma parse_serialized_pages:
  "(\<forall>p\<in>set ps. list_all (parsed_stroke (bp_page_index p)) (bp_strokes p)) \<Longrightarrow>
     distinct (map bp_page_index ps) \<Longrightarrow> set (map bp_page_index ps) \<inter> set seen_pages = {} \<Longrightarrow>
     distinct (map source_uuid (concat (map bp_strokes ps))) \<Longrightarrow>
     source_uuid ` set (concat (map bp_strokes ps)) \<inter> set seen = {} \<Longrightarrow>
     parse_export_pages name
       (map (\<lambda>p. \<lparr>ep_page_index = bp_page_index p, ep_strokes = serialize_strokes p\<rparr>) ps) seen_pages seen =
     Inr ps"
proof (induction ps arbitrary: seen_pages seen)
  case (Cons p ps)
  have "parse_export_strokes name (bp_page_index p) (map serialize_stroke (bp_strokes p)) seen =
      Inr (bp_strokes p, rev (map source_uuid (bp_strokes p)) @ seen)"
    using Cons.prems by (intro parse_serialized_strokes) auto
  moreover have "parse_export_pages name
      (map (\<lambda>p. \<lparr>ep_page_index = bp_page_index p, ep_strokes = serialize_strokes p\<rparr>) ps)
      (bp_page_index p # seen_pages) (rev (map source_uuid (bp_strokes p)) @ seen) = Inr ps"
  proof (rule Cons.IH)
    have "set (map source_uuid (bp_strokes p)) \<inter> source_uuid ` set (concat (map bp_strokes ps)) = {}"
      using Cons.prems(4) by (simp del: set_concat)
    moreover have "source_uuid ` set (concat (map bp_strokes ps)) \<inter> set seen = {}"
      using Cons.prems(5) by auto
    ultimately show "source_uuid ` set (concat (map bp_strokes ps)) \<inter>
        set (rev (map source_uuid (bp_strokes p)) @ seen) = {}"
      by (simp del: set_concat add: Int_Un_distrib) blast
  qed (use Cons.prems in auto)
  ultimately show ?case using Cons.prems by (simp add: serialize_strokes_def)
qed simp

lemma sort_key_id: "sorted (map f xs) \<Longrightarrow> sort_key f xs = xs"
  by (rule sort_key_id_if_sorted)

lemma envelope_read_back:
  assumes "export_wf e" and "be_pages e \<noteq> []"
    and "\<not> (\<exists>f. be_source_file_name e = Some f \<and> blank f)"
  shows "baseline_of_envelope name (export_envelope_at e r) = Inr (e\<lparr>be_based_on := Some r\<rparr>)"
proof -
  have "parse_export_pages name
      (map (\<lambda>p. \<lparr>ep_page_index = bp_page_index p, ep_strokes = serialize_strokes p\<rparr>) (be_pages e)) [] [] =
    Inr (be_pages e)"
    using assms(1) by (intro parse_serialized_pages) (auto simp: export_wf_def export_strokes_def list_all_iff)
  moreover have "check_envelope_name name (export_envelope_at e r) = Inr ()"
    using assms(3) by (auto simp: check_envelope_name_def export_envelope_at_def split: option.splits)
  moreover have "sort_key bp_page_index (be_pages e) = be_pages e"
    using assms(1) by (intro sort_key_id) (simp add: export_wf_def)
  ultimately show ?thesis
    using assms(2)
    by (cases e) (simp add: baseline_of_envelope_def check_envelope_def envelope_pages_def
        export_envelope_at_def)
qed

text \<open>An encoder and a decoder that agree on an envelope, the text being an object in UTF-8.\<close>

definition envelope_codec_ok ::
    "(export_envelope \<Rightarrow> string + bytes) \<Rightarrow> (string \<Rightarrow> string + export_envelope) \<Rightarrow> export_envelope \<Rightarrow> bool" where
  "envelope_codec_ok to_json of_json v \<longleftrightarrow>
     (case to_json v of
        Inl e \<Rightarrow> True
      | Inr bs \<Rightarrow> utf8_error bs = None \<and> trim bs = bs \<and> prefix ''{'' bs \<and> of_json bs = Inr v)"

lemma serialized_export_parses:
  assumes "export_wf e" and "be_pages e \<noteq> []"
    and "\<not> (\<exists>f. be_source_file_name e = Some f \<and> blank f)"
    and "envelope_codec_ok to_json of_json (export_envelope_at e r)"
    and "serialize_baseline_export to_json e r = Inr bs"
  shows "parse_baseline_bytes of_json bs name = Inr (e\<lparr>be_based_on := Some r\<rparr>)"
  using assms(4,5) envelope_read_back [OF assms(1-3), of name r]
  by (simp add: envelope_codec_ok_def serialize_baseline_export_def parse_baseline_bytes_def
      parse_baseline_text_def extract_json_def Let_def)

lemma page_read_back:
  assumes "export_wf e" and "p \<in> set (be_pages e)"
    and "\<not> (\<exists>f. be_source_file_name e = Some f \<and> blank f)"
  shows "baseline_of_envelope name (page_envelope e p) = Inr (e\<lparr>be_pages := [p]\<rparr>)"
proof -
  obtain us vs where split: "be_pages e = us @ p # vs" using assms(2) by (auto simp: in_set_conv_decomp)
  have "distinct (map source_uuid (bp_strokes p))"
    using assms(1) by (simp add: export_wf_def export_strokes_def split)
  moreover have "list_all (parsed_stroke (bp_page_index p)) (bp_strokes p)"
    using assms(1,2) by (simp add: export_wf_def list_all_iff)
  ultimately have "parse_export_pages name
      (map (\<lambda>p. \<lparr>ep_page_index = bp_page_index p, ep_strokes = serialize_strokes p\<rparr>) [p]) [] [] = Inr [p]"
    by (intro parse_serialized_pages) auto
  moreover have "check_envelope_name name (page_envelope e p) = Inr ()"
    using assms(3) by (auto simp: check_envelope_name_def page_envelope_def split: option.splits)
  ultimately show ?thesis
    by (cases e) (simp add: baseline_of_envelope_def check_envelope_def envelope_pages_def page_envelope_def)
qed

lemma serialized_page_parses:
  assumes "export_wf e" and "p \<in> set (be_pages e)"
    and "\<not> (\<exists>f. be_source_file_name e = Some f \<and> blank f)"
    and "envelope_codec_ok to_json of_json (page_envelope e p)"
    and "serialize_baseline_page to_json e p = Inr bs"
  shows "parse_baseline_bytes of_json bs name = Inr (e\<lparr>be_pages := [p]\<rparr>)"
  using assms(4,5) page_read_back [OF assms(1-3), of name]
  by (simp add: envelope_codec_ok_def serialize_baseline_page_def parse_baseline_bytes_def
      parse_baseline_text_def extract_json_def Let_def)

lemma parsed_name_not_blank:
  assumes "parse_baseline_bytes of_json bs name = Inr e"
  shows "\<not> (\<exists>f. be_source_file_name e = Some f \<and> blank f)"
  using assms
  by (auto simp: parse_baseline_bytes_def parse_baseline_text_def baseline_of_envelope_def
      check_envelope_name_def rbind_eq_Inr_iff split: option.splits if_splits)

lemma parsed_pages_not_empty:
  assumes "parse_baseline_bytes of_json bs name = Inr e"
  shows "be_pages e \<noteq> []"
proof -
  obtain v pages parsed where "envelope_pages name v = Inr pages"
    "parse_export_pages name pages [] [] = Inr parsed" "be_pages e = sort_key bp_page_index parsed"
    using assms
    by (auto simp: parse_baseline_bytes_def parse_baseline_text_def baseline_of_envelope_def
        rbind_eq_Inr_iff split: option.splits)
  moreover have "pages \<noteq> []" if "envelope_pages name v = Inr pages"
    using that by (auto simp: envelope_pages_def rbind_eq_Inr_iff split: option.splits if_splits)
  ultimately have "parsed \<noteq> []" by (cases pages) (auto simp: rbind_eq_Inr_iff split: prod.splits)
  then have "sort_key bp_page_index parsed \<noteq> []" by (metis set_sort set_empty)
  with \<open>be_pages e = _\<close> show ?thesis by simp
qed

section \<open>The round trip\<close>

text \<open>C38: an export that was read can be written and read again.  Whatever \<open>parse_baseline_bytes\<close>
  accepts, \<open>serialize_baseline_export\<close> at a revision frontier gives bytes that parse, under any
  name, to the same export at that frontier, and \<open>serialize_baseline_page\<close> of one of its pages
  gives bytes that parse to the export of that page alone: strokes, order, styles, samples and
  fingerprints included.\<close>

theorem exports_read_back:
  assumes "parse_baseline_bytes of_json0 bs0 name0 = Inr e"
    and "envelope_codec_ok to_json of_json (export_envelope_at e r)"
    and "envelope_codec_ok to_json of_json (page_envelope e p)"
  shows "(serialize_baseline_export to_json e r = Inr bs \<longrightarrow>
      parse_baseline_bytes of_json bs name = Inr (e\<lparr>be_based_on := Some r\<rparr>)) \<and>
    (p \<in> set (be_pages e) \<longrightarrow> serialize_baseline_page to_json e p = Inr bs' \<longrightarrow>
      parse_baseline_bytes of_json bs' name = Inr (e\<lparr>be_pages := [p]\<rparr>))"
  using serialized_export_parses [OF _ parsed_pages_not_empty [OF assms(1)]
      parsed_name_not_blank [OF assms(1)] assms(2)]
    serialized_page_parses [OF _ _ parsed_name_not_blank [OF assms(1)] assms(3)]
    parse_baseline_bytes_wf [OF assms(1)]
  by blast

definition line_stroke :: export_stroke where
  "line_stroke = \<lparr>es_source_uuid = None, es_source_key = ''k'', es_layer_num = 0, es_thickness = 3,
     es_pen_color = 0, es_pen_type = 1, es_samples = [(0, 0, 0), (f64_one, 0, f64_one)]\<rparr>"

definition line_envelope :: export_envelope where
  "line_envelope = \<lparr>ee_schema_version = Some 2, ee_source_file_name = Some ''n.pdf'', ee_document_id = None,
     ee_based_on = None, ee_page_index = Some 4, ee_strokes = Some [line_stroke], ee_pages = None\<rparr>"

definition line_export :: baseline_export where
  "line_export = \<lparr>be_source_file_name = Some ''n.pdf'', be_document_id = None, be_based_on = None,
     be_pages = [\<lparr>bp_page_index = 4, bp_strokes = [export_snapshot 4 line_stroke]\<rparr>]\<rparr>"

lemma line_parsed: "parse_baseline_bytes (\<lambda>_. Inr line_envelope) ''{}'' ''n'' = Inr line_export"
proof -
  have utf8: "utf8_error ''{}'' = None" "extract_json ''{}'' = Inr ''{}''" by code_simp+
  have samples: "list_all valid_sample (es_samples line_stroke)" "\<not> length (es_samples line_stroke) < 2"
    by code_simp+
  have names: "\<not> blank ''n.pdf''" "\<not> blank (export_stroke_uuid line_stroke)" by code_simp+
  show ?thesis
    by (simp add: parse_baseline_bytes_def parse_baseline_text_def utf8 baseline_of_envelope_def
        check_envelope_def check_envelope_name_def envelope_pages_def names samples Let_def
        line_export_def line_envelope_def legacy_single_page_export_schema_version_def)
qed

definition line_to_json :: "export_envelope \<Rightarrow> string + bytes" where
  "line_to_json v =
     (if v = export_envelope_at line_export \<lparr>br_boox = 1, br_supernote = 2\<rparr> then Inr ''{1}''
      else if v = page_envelope line_export (hd (be_pages line_export)) then Inr ''{2}'' else Inl ''no'')"

definition line_of_json :: "string \<Rightarrow> string + export_envelope" where
  "line_of_json t =
     (if t = ''{1}'' then Inr (export_envelope_at line_export \<lparr>br_boox = 1, br_supernote = 2\<rparr>)
      else if t = ''{2}'' then Inr (page_envelope line_export (hd (be_pages line_export))) else Inl ''no'')"

theorem exports_read_back_witness:
  "map bp_page_index (be_pages line_export) = [4] \<and>
   parse_baseline_bytes line_of_json ''{1}'' ''copy'' =
     Inr (line_export\<lparr>be_based_on := Some \<lparr>br_boox = 1, br_supernote = 2\<rparr>\<rparr>)"
proof -
  have one: "map bp_page_index (be_pages line_export) = [4]" by (simp add: line_export_def)
  have texts: "utf8_error ''{1}'' = None" "utf8_error ''{2}'' = None" "trim ''{1}'' = ''{1}''"
    "trim ''{2}'' = ''{2}''" by code_simp+
  have differ: "page_envelope line_export p \<noteq> export_envelope_at line_export r" for p r
    by (simp add: page_envelope_def export_envelope_at_def)
  have "envelope_codec_ok line_to_json line_of_json (export_envelope_at line_export \<lparr>br_boox = 1, br_supernote = 2\<rparr>)"
    by (simp add: envelope_codec_ok_def line_to_json_def line_of_json_def texts)
  moreover have "envelope_codec_ok line_to_json line_of_json (page_envelope line_export (hd (be_pages line_export)))"
    using differ by (simp add: envelope_codec_ok_def line_to_json_def line_of_json_def texts)
  moreover have "serialize_baseline_export line_to_json line_export \<lparr>br_boox = 1, br_supernote = 2\<rparr> = Inr ''{1}''"
    by (simp add: serialize_baseline_export_def line_to_json_def)
  ultimately show ?thesis using exports_read_back [OF line_parsed] one by blast
qed

end
