(* ===== verification/Folder_Snapshots.thy ===== *)
theory Folder_Snapshots
  imports Folder_World Export_Serialize
begin

text \<open>
  Which broker conflicts are unresolved (inkbridge-folder-transport/src/conflicts.rs), and the
  accepted Supernote snapshots: their identities, how they are kept, and how a set of baselines
  with no page twice is made of them (inkbridge-folder-transport/src/supernote_snapshot.rs).
\<close>

section \<open>Unresolved conflicts\<close>

definition valid_resolution_marker :: "sha \<Rightarrow> folder_object \<Rightarrow> string \<Rightarrow> string \<Rightarrow> bool" where
  "valid_resolution_marker sha obj grp doc \<longleftrightarrow>
     co_path obj = grp @ ''/resolution.json'' \<and>
     bm_get (co_metadata obj) ''inkbridge-generated-by'' = Some broker_producer \<and>
     bm_get (co_metadata obj) ''inkbridge-document-id'' = Some doc \<and>
     bm_get (co_metadata obj) ''inkbridge-kind'' = Some ''conflict-resolution'' \<and>
     (case bm_get (co_metadata obj) ''inkbridge-event-id'' of None \<Rightarrow> False | Some v \<Rightarrow> \<not> blank v) \<and>
     (case bm_get (co_metadata obj) ''inkbridge-conflict-event-id'' of
        None \<Rightarrow> False | Some v \<Rightarrow> conflict_resolution_path sha doc v = co_path obj)"

definition conflicts_directory :: "string \<Rightarrow> string" where
  "conflicts_directory doc = ''Conflicts/'' @ doc @ ''/''"

definition conflict_group :: "string \<Rightarrow> folder_object \<Rightarrow> string option" where
  "conflict_group doc obj =
     (case strip_prefix (conflicts_directory doc) (co_path obj) of
        None \<Rightarrow> None
      | Some remainder \<Rightarrow>
          let segment = hd (split_char (CHR ''/'') remainder)
          in if segment = [] then None else Some (conflicts_directory doc @ segment))"

definition group_conflict ::
    "string \<Rightarrow> folder_object \<Rightarrow> (string, folder_object list) bmap \<Rightarrow> (string, folder_object list) bmap" where
  "group_conflict doc obj groups =
     (case conflict_group doc obj of
        None \<Rightarrow> groups
      | Some g \<Rightarrow>
          bm_insert g ((case bm_get groups g of None \<Rightarrow> [] | Some os \<Rightarrow> os) @ [obj]) groups)"

definition unresolved_conflict_groups :: "sha \<Rightarrow> folder_object list \<Rightarrow> string \<Rightarrow> string bset" where
  "unresolved_conflict_groups sha objects doc =
     map fst (filter (\<lambda>(g, os). \<not> list_ex (\<lambda>obj. valid_resolution_marker sha obj g doc) os)
       (fold (group_conflict doc) objects []))"

section \<open>Identities\<close>

definition source_page_index :: string where "source_page_index = ''inkbridge-source-page-index''"
definition source_page_indices :: string where "source_page_indices = ''inkbridge-source-page-indices''"

definition page_identity :: "sha \<Rightarrow> string \<Rightarrow> u32 \<Rightarrow> string" where
  "page_identity sha doc page =
     sha256_hex sha (doc @ CHR 0x00 # ''supernote-page'' @ CHR 0x00 # show_u32 page)"

definition snapshot_identity :: "sha \<Rightarrow> string \<Rightarrow> u32 list \<Rightarrow> string + string" where
  "snapshot_identity sha doc pages =
     (if pages = [] then Inl ''Supernote snapshot contains no represented page''
      else if \<not> strictly_increasing pages then
        Inl ''Supernote snapshot page indices must be strictly increasing''
      else case pages of
        [page] \<Rightarrow> Inr (page_identity sha doc page)
      | _ \<Rightarrow>
          Inr (sha256_hex sha (doc @ CHR 0x00 # ''supernote-pages-v1'' @ CHR 0x00 #
                 join_with '','' (map show_u32 pages))))"

definition object_page_indices :: "folder_object \<Rightarrow> string + u32 list option" where
  "object_page_indices obj =
     (let single = bm_get (co_metadata obj) source_page_index;
          multiple = bm_get (co_metadata obj) source_page_indices
      in if single \<noteq> None \<and> multiple \<noteq> None then
           Inl (''accepted Supernote upload '' @ co_path obj @ '' declares both single- and multi-page scope'')
         else case (if single \<noteq> None then single else multiple) of
           None \<Rightarrow> Inr None
         | Some serialized \<Rightarrow>
             rbind (try_map (\<lambda>v. map_err (\<lambda>e. ''accepted Supernote upload '' @ co_path obj @
                       '' has invalid page index '' @ v @ '': '' @ show_parse_error e) (parse_u32 v))
                     (split_char (CHR '','') serialized)) (\<lambda>pages.
             if pages = [] \<or> \<not> strictly_increasing pages then
               Inl (''accepted Supernote upload '' @ co_path obj @ '' has invalid page-index scope '' @ serialized)
             else if single \<noteq> None \<and> length pages \<noteq> 1 then
               Inl (''accepted Supernote upload '' @ co_path obj @ '' has an invalid single-page scope'')
             else Inr (Some pages)))"

section \<open>Kept snapshots\<close>

definition accepted_snapshot_path :: "document_folders \<Rightarrow> string \<Rightarrow> u64 \<Rightarrow> string \<Rightarrow> string" where
  "accepted_snapshot_path f source_local_id revision hash =
     path_join (supernote_accepted_directory f)
       (''r'' @ pad20 revision @ ''-'' @ source_local_id @ ''-'' @ hash @ ''.json'')"

definition read_hash :: "'c folder_ext \<Rightarrow> string \<Rightarrow> (disk, string) action" where
  "read_hash X p =
     seq (io (''could not read '' @ p @ '': '') (fs_read p)) (\<lambda>bs. ok (sha256_hex (fx_sha X) bs))"

definition persist_snapshot_bytes ::
    "'c folder_ext \<Rightarrow> document_folders \<Rightarrow> string \<Rightarrow> u64 \<Rightarrow> string \<Rightarrow> bytes \<Rightarrow> (disk, string) action" where
  "persist_snapshot_bytes X f source_local_id revision expected bs =
     (let actual = sha256_hex (fx_sha X) bs;
          p = accepted_snapshot_path f source_local_id revision expected;
          install =
            seq (create_dir (parent_or_dot p)) (\<lambda>_.
            let temporary = sibling_temporary p ''snapshot''
            in seq (remove_file_if_exists temporary) (\<lambda>_.
               seq (io (''could not write '' @ temporary @ '': '') (fs_write temporary bs)) (\<lambda>_.
               seq (publish_create_only temporary p) (\<lambda>_.
               seq (read_hash X p) (\<lambda>installed.
               if installed \<noteq> expected then
                 fail (''Supernote snapshot '' @ p @ '' changed while it was being installed'')
               else ok p)))))
      in if actual \<noteq> expected then
           fail (''Supernote snapshot bytes hash '' @ actual @ '' does not match expected hash '' @ expected)
         else
           seq (symlink_metadata_if_exists p) (\<lambda>m.
           case m of
             None \<Rightarrow> install
           | Some m \<Rightarrow>
               if not_regular m then
                 fail (''Supernote snapshot destination '' @ p @ '' is not a regular file'')
               else
                 seq (read_hash X p) (\<lambda>installed.
                 if installed = expected then ok p
                 else seq (remove_file_if_exists p) (\<lambda>_. install))))"

definition accepted_snapshot_revision :: "string \<Rightarrow> string + u64" where
  "accepted_snapshot_revision p =
     rbind (ok_or (''accepted Supernote snapshot '' @ p @ '' has no file name'') (path_file_name p)) (\<lambda>name.
     rbind (ok_or (''accepted Supernote snapshot '' @ p @ '' has no revision prefix'')
              (case strip_prefix ''r'' name of
                 None \<Rightarrow> None
               | Some rest \<Rightarrow> map_option fst (split_once (CHR ''-'') rest))) (\<lambda>revision.
     map_err (\<lambda>e. ''accepted Supernote snapshot '' @ p @ '' has invalid revision '' @ revision @ '': '' @
                show_parse_error e) (parse_u64 revision)))"

section \<open>Baselines with no page twice\<close>

record candidate =
  ca_path :: string
  ca_hash :: string
  ca_revision :: u64
  ca_export :: baseline_export

definition read_candidate :: "'c folder_ext \<Rightarrow> string \<times> string \<Rightarrow> (disk, candidate) action" where
  "read_candidate X accepted =
     (case accepted of (p, expected) \<Rightarrow>
        seq (io (''could not read '' @ p @ '': '') (fs_read p)) (\<lambda>bs.
        let actual = sha256_hex (fx_sha X) bs
        in if actual \<noteq> expected then
             fail (''accepted Supernote snapshot '' @ p @ '' hash '' @ actual @ '' does not match '' @ expected)
           else
             seq (answer (parse_baseline_bytes (fx_export_of_json X) bs p)) (\<lambda>export.
             seq (answer (accepted_snapshot_revision p)) (\<lambda>revision.
             ok \<lparr>ca_path = p, ca_hash = expected, ca_revision = revision, ca_export = export\<rparr>))))"

type_synonym page_choice = "(u32, u64 \<times> nat) bmap"

definition select_page :: "nat \<Rightarrow> u64 \<Rightarrow> baseline_page \<Rightarrow> page_choice \<Rightarrow> string + page_choice" where
  "select_page i revision page selected =
     (let chosen = bm_insert (bp_page_index page) (revision, i) selected
      in case bm_get selected (bp_page_index page) of
           None \<Rightarrow> Inr chosen
         | Some (r, j) \<Rightarrow>
             if revision < r then Inr selected
             else if r = revision then
               (if j \<noteq> i then
                  Inl (''accepted Supernote revision '' @ show_u64 revision @
                       '' contains competing snapshots for page '' @ show_u32 (bp_page_index page + 1))
                else Inr selected)
             else Inr chosen)"

definition select_candidate :: "nat \<times> candidate \<Rightarrow> page_choice \<Rightarrow> string + page_choice" where
  "select_candidate ic selected =
     (case ic of (i, c) \<Rightarrow> try_fold (select_page i (ca_revision c)) (be_pages (ca_export c)) selected)"

definition selected_pages :: "page_choice \<Rightarrow> nat \<Rightarrow> candidate \<Rightarrow> baseline_page list" where
  "selected_pages selected i c =
     filter (\<lambda>page. case bm_get selected (bp_page_index page) of None \<Rightarrow> False | Some (_, j) \<Rightarrow> j = i)
       (be_pages (ca_export c))"

definition materialize_page ::
    "'c folder_ext \<Rightarrow> document_folders \<Rightarrow> candidate \<Rightarrow> baseline_page \<Rightarrow> (string, string) bmap \<Rightarrow>
       (disk, (string, string) bmap) action" where
  "materialize_page X f c page materialized =
     seq (answer (serialize_baseline_page (fx_export_to_json X) (ca_export c) page)) (\<lambda>bs.
     let hash = sha256_hex (fx_sha X) bs;
         identity = page_identity (fx_sha X) (df_document_id f) (bp_page_index page)
     in seq (persist_snapshot_bytes X f identity (ca_revision c) hash bs) (\<lambda>p.
        seq (key_of p) (\<lambda>key. ok (bm_insert key hash materialized))))"

definition materialize_candidate ::
    "'c folder_ext \<Rightarrow> document_folders \<Rightarrow> page_choice \<Rightarrow> nat \<times> candidate \<Rightarrow> (string, string) bmap \<Rightarrow>
       (disk, (string, string) bmap) action" where
  "materialize_candidate X f selected ic materialized =
     (case ic of (i, c) \<Rightarrow>
        let pages = selected_pages selected i c
        in if pages = [] then ok materialized
           else if length pages = length (be_pages (ca_export c)) then
             seq (key_of (ca_path c)) (\<lambda>key. ok (bm_insert key (ca_hash c) materialized))
           else carry (materialize_page X f c) pages materialized)"

definition materialize_non_overlapping_baselines ::
    "'c folder_ext \<Rightarrow> document_folders \<Rightarrow> (string, string) bmap \<Rightarrow> (disk, (string, string) bmap) action" where
  "materialize_non_overlapping_baselines X f accepted =
     seq (collect (read_candidate X) accepted) (\<lambda>candidates.
     seq (answer (try_fold select_candidate (enumerate 0 candidates) [])) (\<lambda>selected.
     carry (materialize_candidate X f selected) (enumerate 0 candidates) []))"

end
