(* ===== verification/Folder_Checks.thy ===== *)
theory Folder_Checks
  imports Boox_Handoff Folder_Snapshots
begin

text \<open>
  The checks behind the synchronisation of a document (the free functions of
  inkbridge-folder-transport/src/transport.rs): metadata of broker outputs, receipts of BOOX
  installs, what a delivered frontier does to the state, settled files, Supernote exports,
  deliveries and acknowledgements.
\<close>

section \<open>Broker outputs\<close>

definition content_sha256_key :: string where "content_sha256_key = ''inkbridge-content-sha256''"
definition source_revisions_key :: string where "source_revisions_key = ''inkbridge-source-revisions''"
definition source_revision_key :: string where "source_revision_key = ''inkbridge-source-revision''"
definition source_view_sha256_key :: string where "source_view_sha256_key = ''inkbridge-source-view-sha256''"
definition source_local_id_key :: string where "source_local_id_key = ''inkbridge-source-local-id''"
definition document_id_key :: string where "document_id_key = ''inkbridge-document-id''"
definition produced_by_key :: string where "produced_by_key = ''inkbridge-generated-by''"

definition recovered_missing_prefix :: string where
  "recovered_missing_prefix = ''inkbridge-missing-accepted://''"

definition max_supernote_manifest_bytes :: u64 where "max_supernote_manifest_bytes = 16777216"
definition max_boox_operation_manifest_bytes :: u64 where "max_boox_operation_manifest_bytes = 67108864"
definition max_supernote_ack_bytes :: u64 where "max_supernote_ack_bytes = 262144"

definition required_output_metadata :: "folder_object \<Rightarrow> string \<Rightarrow> string + string" where
  "required_output_metadata obj key =
     ok_or (''broker output '' @ co_path obj @ '' is missing '' @ key)
       (case bm_get (co_metadata obj) key of None \<Rightarrow> None | Some v \<Rightarrow> if v = [] then None else Some v)"

definition is_sha256 :: "string \<Rightarrow> bool" where
  "is_sha256 v \<longleftrightarrow> length v = 64 \<and> list_all is_hexdigit v"

definition sha256_metadata :: "folder_object \<Rightarrow> string \<Rightarrow> string option" where
  "sha256_metadata obj key =
     (case bm_get (co_metadata obj) key of None \<Rightarrow> None | Some v \<Rightarrow> if is_sha256 v then Some v else None)"

definition parse_revision_metadata :: "folder_object \<Rightarrow> string + revision_pair" where
  "parse_revision_metadata obj =
     rbind (required_output_metadata obj source_revisions_key) (\<lambda>v.
     rbind (ok_or (''invalid broker revision metadata '' @ v) (split_once (CHR '':'') v)) (\<lambda>(boox, supernote).
     rbind (map_err (\<lambda>e. ''invalid BOOX revision: '' @ show_parse_error e) (parse_u64 boox)) (\<lambda>b.
     rbind (map_err (\<lambda>e. ''invalid Supernote revision: '' @ show_parse_error e) (parse_u64 supernote)) (\<lambda>s.
     Inr \<lparr>rp_boox = b, rp_supernote = s\<rparr>))))"

definition dominates :: "revision_pair \<Rightarrow> revision_pair \<Rightarrow> bool" where
  "dominates candidate current \<longleftrightarrow>
     rp_boox current \<le> rp_boox candidate \<and> rp_supernote current \<le> rp_supernote candidate"

definition show_frontier :: "revision_pair \<Rightarrow> string" where
  "show_frontier r = show_u64 (rp_boox r) @ '':'' @ show_u64 (rp_supernote r)"

section \<open>Receipts of BOOX installs\<close>

definition verified_install :: "installed_delivery \<Rightarrow> folder_object \<Rightarrow> verified_boox_install" where
  "verified_install i obj =
     \<lparr>vb_event_id = id_event_id i, vb_source_revisions = id_source_revisions i,
      vb_source_generation = id_source_generation i, vb_content_sha256 = id_content_sha256 i,
      vb_source_object_path = Some (co_path obj), vb_source_object_size = Some (co_size obj)\<rparr>"

definition receipt_matches_ack :: "verified_boox_install \<Rightarrow> installed_delivery \<Rightarrow> bool" where
  "receipt_matches_ack r i \<longleftrightarrow>
     vb_event_id r = id_event_id i \<and> vb_source_revisions r = id_source_revisions i \<and>
     vb_source_generation r = id_source_generation i \<and> vb_content_sha256 r = id_content_sha256 i"

definition verified_install_object :: "verified_boox_install \<Rightarrow> document_folders \<Rightarrow> string + folder_object" where
  "verified_install_object r f =
     (let directory = ''BOOX_Folder/'' @ df_document_id f @ ''/''
      in rbind (case vb_source_object_path r of
                  None \<Rightarrow> Inr (directory @ ''.legacy-receipt'')
                | Some p \<Rightarrow>
                    if prefix directory p \<and> p \<noteq> directory then Inr p
                    else Inl (''verified BOOX install '' @ vb_event_id r @
                              '' has invalid broker object path '' @ p)) (\<lambda>p.
         Inr \<lparr>co_path = p, co_generation = vb_source_generation r,
              co_size = (case vb_source_object_size r of None \<Rightarrow> 0 | Some n \<Rightarrow> n),
              co_metadata = bm_of_list
                [(produced_by_key, broker_producer), (document_id_key, df_document_id f),
                 (generated_event_id, vb_event_id r),
                 (source_revisions_key, show_frontier (vb_source_revisions r)),
                 (content_sha256_key, vb_content_sha256 r)]\<rparr>))"

definition read_boox_operation_source_view_hash :: "'c folder_ext \<Rightarrow> string \<Rightarrow> (disk, string) action" where
  "read_boox_operation_source_view_hash X p =
     seq (io (''could not inspect BOOX operation manifest '' @ p @ '': '') (fs_metadata p)) (\<lambda>m.
     if max_boox_operation_manifest_bytes < file_len m then
       fail (''BOOX operation manifest '' @ p @ '' exceeds the 67108864 byte safety limit'')
     else
       seq (io (''could not read BOOX operation manifest '' @ p @ '': '') (fs_open p)) (\<lambda>_.
       seq (io (''invalid BOOX operation manifest '' @ p @ '': '') (fs_read p)) (\<lambda>bs.
       seq (answer (map_err (\<lambda>e. ''invalid BOOX operation manifest '' @ p @ '': '' @ e)
              (fx_manifest_of_json X bs))) (\<lambda>manifest.
       let hash = di_pdf_sha256 (mf_document manifest)
       in if \<not> (length hash = 64 \<and> list_all (\<lambda>c. is_hexdigit c \<and> \<not> is_uppercase c) hash) then
            fail (''BOOX operation manifest '' @ p @ '' has an invalid source PDF hash'')
          else ok hash))))"

section \<open>The delivered frontier\<close>

definition settle_pending :: "revision_pair \<Rightarrow> device_side \<Rightarrow> document_transport \<Rightarrow> document_transport" where
  "settle_pending frontier source t =
     (case ss_pending (transport_side t source) of
        None \<Rightarrow> t
      | Some p \<Rightarrow>
          if pu_source_revision p \<le> rp_get frontier source then
            update_side source (\<lambda>s. s\<lparr>ss_pending := None,
              ss_accepted_local_hashes :=
                bm_insert (pu_local_path p) (pu_local_content_sha256 p) (ss_accepted_local_hashes s)\<rparr>) t
          else t)"

definition record_delivered_frontier ::
    "revision_pair \<Rightarrow> device_side \<Rightarrow> string \<Rightarrow> document_transport \<Rightarrow> document_transport" where
  "record_delivered_frontier frontier side hash t =
     settle_pending frontier Supernote (settle_pending frontier Boox
       (update_side side (\<lambda>s. s\<lparr>ss_delivered_content_sha256 := Some hash\<rparr>)
         (t\<lparr>dt_revisions := frontier\<rparr>)))"

section \<open>Settled files\<close>

definition saturating_sub :: "u64 \<Rightarrow> u64 \<Rightarrow> u64" where
  "saturating_sub a b = (if b \<le> a then a - b else 0)"

definition observe :: "string \<Rightarrow> file_observation \<Rightarrow> ('c sync_world, unit) action" where
  "observe key obs = change_state (\<lambda>s. s\<lparr>ts_observations := bm_insert key obs (ts_observations s)\<rparr>)"

definition file_is_settled :: "string \<Rightarrow> u64 \<Rightarrow> u64 \<Rightarrow> ('c sync_world, bool) action" where
  "file_is_settled p now settle =
     seq (on_disk (io (''could not inspect '' @ p @ '': '') (fs_metadata p))) (\<lambda>m.
     seq (on_disk (key_of p)) (\<lambda>key.
     seq state_now (\<lambda>s.
     let fresh = \<lparr>fo_size = file_len m, fo_modified_unix_millis = entry_modified m,
                  fo_first_seen_unix_millis = now, fo_content_sha256 = None\<rparr>;
         obs = (case bm_get (ts_observations s) key of None \<Rightarrow> fresh | Some obs \<Rightarrow> obs)
     in if fo_size obs \<noteq> file_len m \<or> fo_modified_unix_millis obs \<noteq> entry_modified m then
          seq (observe key fresh) (\<lambda>_. ok False)
        else
          seq (observe key obs) (\<lambda>_.
          ok (settle \<le> saturating_sub now (max (fo_first_seen_unix_millis obs) (entry_modified m)))))))"

text \<open>\<open>remember_file_hash\<close> and \<open>remember_content_change\<close> have the same body.\<close>

definition remember_file_hash :: "string \<Rightarrow> u64 \<Rightarrow> string \<Rightarrow> ('c sync_world, unit) action" where
  "remember_file_hash p now hash =
     seq (on_disk (io (''could not inspect '' @ p @ '': '') (fs_metadata p))) (\<lambda>m.
     seq (on_disk (key_of p)) (\<lambda>key.
     observe key \<lparr>fo_size = file_len m, fo_modified_unix_millis = entry_modified m,
                  fo_first_seen_unix_millis = now, fo_content_sha256 = Some hash\<rparr>))"

definition remember_content_change :: "string \<Rightarrow> u64 \<Rightarrow> string \<Rightarrow> ('c sync_world, unit) action" where
  "remember_content_change = remember_file_hash"

section \<open>Supernote exports and deliveries\<close>

definition is_export_name :: "string \<Rightarrow> bool" where
  "is_export_name p \<longleftrightarrow>
     (case path_extension p of None \<Rightarrow> False | Some e \<Rightarrow> eq_ignore_ascii_case e ''json'') \<and>
     \<not> (case path_file_name p of
          None \<Rightarrow> False | Some n \<Rightarrow> prefix ''.'' n \<or> suffix ''.part.json'' n)"

definition supernote_export_files :: "string \<Rightarrow> (disk, string list) action" where
  "supernote_export_files directory =
     seq (metadata_if_exists directory) (\<lambda>m.
     case m of
       None \<Rightarrow> ok []
     | Some m \<Rightarrow>
         if m \<noteq> Directory then
           fail (''configured Supernote export path '' @ directory @ '' is not a directory'')
         else
           seq (io (''could not read '' @ directory @ '': '') (fs_read_dir directory)) (\<lambda>ps.
           seq (carry (\<lambda>p files.
             if \<not> is_export_name p then ok files
             else
               seq (io (''could not inspect candidate export '' @ p @ '' from '' @ directory @ '': '')
                      (fs_metadata p)) (\<lambda>em.
               ok (if is_file em then files @ [p] else files))) ps []) (\<lambda>files.
           ok (sort files))))"

definition is_delivery_name :: "string \<Rightarrow> bool" where
  "is_delivery_name p \<longleftrightarrow>
     (case path_file_name p of
        None \<Rightarrow> False | Some n \<Rightarrow> \<not> prefix ''.'' n \<and> suffix ''.operations.json'' n)"

definition supernote_delivery_is_acknowledged ::
    "'c folder_ext \<Rightarrow> document_folders \<Rightarrow> string \<Rightarrow> (disk, bool) action" where
  "supernote_delivery_is_acknowledged X f delivery_id =
     (if \<not> is_sha256 delivery_id then fail (''invalid Supernote delivery identity '' @ delivery_id)
      else
        let ack = path_join (supernote_acknowledged_directory f) (delivery_id @ ''.ack.json'')
        in seq (symlink_metadata_if_exists ack) (\<lambda>m.
           case m of
             None \<Rightarrow> ok False
           | Some m \<Rightarrow>
               if not_regular m \<or> max_supernote_ack_bytes < file_len m then
                 fail (''Supernote acknowledgement '' @ ack @ '' is not a valid regular file'')
               else
                 seq (io (''could not read '' @ ack @ '': '') (fs_read ack)) (\<lambda>bs.
                 seq (answer (map_err (\<lambda>e. ''invalid Supernote acknowledgement '' @ ack @ '': '' @ e)
                        (fx_ack_of_json X bs))) (\<lambda>v.
                 if av_schema_version v \<noteq> Some 1 \<or> av_delivery_id v \<noteq> Some delivery_id \<or>
                    av_document_id v \<noteq> Some (df_document_id f) then
                   fail (''Supernote acknowledgement '' @ ack @ '' does not match its delivery and document'')
                 else ok True))))"

text \<open>The first delivery, in the order of names, whose bytes have no acknowledgement.\<close>

definition pending_delivery ::
    "'c folder_ext \<Rightarrow> document_folders \<Rightarrow> string \<Rightarrow> string option \<Rightarrow> (disk, string option) action" where
  "pending_delivery X f p found =
     (case found of
        Some q \<Rightarrow> ok (Some q)
      | None \<Rightarrow>
          seq (io (''could not read '' @ p @ '': '') (fs_read p)) (\<lambda>bs.
          seq (supernote_delivery_is_acknowledged X f (sha256_hex (fx_sha X) bs)) (\<lambda>acknowledged.
          ok (if acknowledged then None else Some p))))"

definition incoming_delivery :: "string \<Rightarrow> string list \<Rightarrow> (disk, string list) action" where
  "incoming_delivery p deliveries =
     (if \<not> is_delivery_name p then ok deliveries
      else
        seq (io (''could not inspect '' @ p @ '': '') (fs_symlink_metadata p)) (\<lambda>m.
        if not_regular m then fail (''Supernote incoming delivery '' @ p @ '' is not a regular file'')
        else if max_supernote_manifest_bytes < file_len m then
          fail (''Supernote incoming delivery '' @ p @ '' exceeds 16777216 bytes'')
        else ok (deliveries @ [p])))"

definition first_unacknowledged_supernote_delivery ::
    "'c folder_ext \<Rightarrow> document_folders \<Rightarrow> (disk, string option) action" where
  "first_unacknowledged_supernote_delivery X f =
     (let incoming = df_supernote_incoming_directory f
      in seq (symlink_metadata_if_exists incoming) (\<lambda>m.
         case m of
           None \<Rightarrow> ok None
         | Some m \<Rightarrow>
             if m \<noteq> Directory then
               fail (''configured Supernote incoming path '' @ incoming @ '' is not a regular directory'')
             else
               seq (io (''could not read '' @ incoming @ '': '') (fs_read_dir incoming)) (\<lambda>ps.
               seq (carry incoming_delivery ps []) (\<lambda>deliveries.
               carry (pending_delivery X f) (sort deliveries) None))))"

section \<open>Baselines and exports\<close>

definition unique_page :: "string \<Rightarrow> baseline_page \<Rightarrow> (u32, string) bmap \<Rightarrow> string + (u32, string) bmap" where
  "unique_page p page pages =
     (case bm_get pages (bp_page_index page) of
        Some previous \<Rightarrow>
          Inl (''Supernote outgoing folder has more than one accepted export for page '' @
               show_u32 (bp_page_index page + 1) @ '': '' @ previous @ '' and '' @ p)
      | None \<Rightarrow> Inr (bm_insert (bp_page_index page) p pages))"

definition validate_unique_baseline_pages :: "'c folder_ext \<Rightarrow> string list \<Rightarrow> (disk, (u32, string) bmap) action" where
  "validate_unique_baseline_pages X ps =
     carry (\<lambda>p pages.
       seq (io (''could not read '' @ p @ '': '') (fs_read p)) (\<lambda>bs.
       seq (answer (parse_baseline_bytes (fx_export_of_json X) bs p)) (\<lambda>export.
       answer (try_fold (unique_page p) (be_pages export) pages)))) ps []"

definition validate_supernote_export_identity ::
    "'c folder_ext \<Rightarrow> baseline_export \<Rightarrow> document_folders \<Rightarrow> string \<Rightarrow> string + unit" where
  "validate_supernote_export_identity X export f source =
     (case be_document_id export of
        Some doc \<Rightarrow>
          if doc = df_document_id f then Inr ()
          else Inl (source @ '' targets stable document '' @ doc @ '', not '' @ df_document_id f)
      | None \<Rightarrow>
          if be_source_file_name export = Some (df_original_file_name f) then Inr ()
          else Inl (''legacy Supernote export '' @ source @ '' targets '' @
                    fx_show_name X (be_source_file_name export) @ '', not configured document '' @
                    df_original_file_name f))"

end
