(* ===== verification/Folder_Recovery.thy ===== *)
theory Folder_Recovery
  imports Folder_Checks
begin

text \<open>
  The first half of \<open>FolderTransport\<close> (inkbridge-folder-transport/src/transport.rs): watching the
  broker's conflicts, and recovering from the cloud which uploads the broker has accepted, with the
  snapshots that later conversions start from.
\<close>

record 'c folder_transport =
  ft_ext :: "'c folder_ext"
  ft_settle :: u64
  ft_boox_handoff_root :: "string option"

definition boox_handoff_endpoint :: "'c folder_transport \<Rightarrow> document_folders \<Rightarrow> string + string option" where
  "boox_handoff_endpoint T f =
     (case ft_boox_handoff_root T of
        None \<Rightarrow> Inr None
      | Some root \<Rightarrow> rbind (endpoint_new root f) (\<lambda>e. Inr (Some e)))"

definition cloud_list :: "'c folder_transport \<Rightarrow> string \<Rightarrow> ('c sync_world, folder_object list) action" where
  "cloud_list T directory = on_cloud (fx_list (ft_ext T) directory)"

definition device_root :: "device_side \<Rightarrow> string" where
  "device_root side = (case side of Boox \<Rightarrow> ''BOOX_Folder'' | Supernote \<Rightarrow> ''Supernote_Folder'')"

section \<open>Conflicts\<close>

definition observe_conflicts :: "'c folder_transport \<Rightarrow> document_folders \<Rightarrow> ('c sync_world, unit) action" where
  "observe_conflicts T f =
     (let doc = df_document_id f
      in seq (cloud_list T (conflicts_directory doc)) (\<lambda>objects.
         seq (document_now doc) (\<lambda>t.
         let previous = dt_conflicts t;
             current = unresolved_conflict_groups (fx_sha (ft_ext T)) objects doc
         in seq (change_document doc (\<lambda>t. t\<lparr>dt_conflicts := current\<rparr>)) (\<lambda>_.
            each (\<lambda>p. if p \<in> set previous then ok () else act (ConflictAction p)) current))))"

section \<open>Accepted uploads\<close>

record accepted_upload =
  au_revision :: u64
  au_source_hash :: string
  au_payload_hash :: string
  au_object :: folder_object

text \<open>A fresh temporary file, removed when its handle is dropped.\<close>

definition new_temporary_file :: "'c folder_ext \<Rightarrow> (disk, string) action" where
  "new_temporary_file X d =
     (let p = fx_temp_path X d
      in seq (io ''could not create legacy recovery file: '' (fs_write p [])) (\<lambda>_. ok p) d)"

definition legacy_payload_pages ::
    "'c folder_transport \<Rightarrow> document_folders \<Rightarrow> folder_object \<Rightarrow> string \<Rightarrow> ('c sync_world, string) action" where
  "legacy_payload_pages T f obj temporary =
     (let X = ft_ext T
      in seq (on_both (fx_download X obj temporary)) (\<lambda>_.
         seq (on_disk (io (''could not read '' @ temporary @ '': '') (fs_read temporary))) (\<lambda>bs.
         seq (answer (ok_or (co_path obj @ '' has no immutable payload hash'')
                (case bm_get (co_metadata obj) content_sha256_key of
                   Some h \<Rightarrow> Some h
                 | None \<Rightarrow> bm_get (co_metadata obj) source_view_sha256_key))) (\<lambda>expected.
         let actual = sha256_hex (fx_sha X) bs
         in if actual \<noteq> expected then
              fail (''legacy Supernote upload '' @ co_path obj @ '' content hash '' @ actual @
                    '' does not match immutable payload hash '' @ expected)
            else
              seq (answer (parse_baseline_bytes (fx_export_of_json X) bs (co_path obj))) (\<lambda>parsed.
              seq (answer (validate_supernote_export_identity X parsed f (co_path obj))) (\<lambda>_.
              answer (snapshot_identity (fx_sha X) (df_document_id f) (map bp_page_index (be_pages parsed)))))))))"

definition recover_legacy_identity ::
    "'c folder_transport \<Rightarrow> document_folders \<Rightarrow> folder_object \<Rightarrow> ('c sync_world, string) action" where
  "recover_legacy_identity T f obj =
     seq (on_disk (new_temporary_file (ft_ext T))) (\<lambda>temporary.
     seq (caught (legacy_payload_pages T f obj temporary)) (\<lambda>recovered.
     seq (on_disk (ignored (fs_remove_file temporary))) (\<lambda>_.
     seq (answer recovered) (\<lambda>identity.
     seq (change_side (df_document_id f) Supernote (\<lambda>s. s\<lparr>ss_recovered_source_identities :=
            bm_insert (generation_key obj) identity (ss_recovered_source_identities s)\<rparr>)) (\<lambda>_.
     ok identity)))))"

definition recover_supernote_source_identity ::
    "'c folder_transport \<Rightarrow> document_folders \<Rightarrow> folder_object \<Rightarrow> ('c sync_world, string) action" where
  "recover_supernote_source_identity T f obj =
     (let X = ft_ext T; doc = df_document_id f; key = generation_key obj
      in seq (answer (object_page_indices obj)) (\<lambda>indices.
         case indices of
           Some pages \<Rightarrow> answer (snapshot_identity (fx_sha X) doc pages)
         | None \<Rightarrow>
             seq (document_now doc) (\<lambda>t.
             case bm_get (ss_recovered_source_identities (dt_supernote t)) key of
               Some identity \<Rightarrow>
                 if is_sha256 identity then ok identity else recover_legacy_identity T f obj
             | None \<Rightarrow> recover_legacy_identity T f obj)))"

definition ensure_supernote_accepted_snapshot ::
    "'c folder_transport \<Rightarrow> document_folders \<Rightarrow> string \<Rightarrow> accepted_upload \<Rightarrow> ('c sync_world, string) action" where
  "ensure_supernote_accepted_snapshot T f source_local_id a =
     (let X = ft_ext T; expected = au_payload_hash a; obj = au_object a;
          p = accepted_snapshot_path f source_local_id (au_revision a) expected;
          temporary = sibling_temporary p (''g'' @ show_u64 (co_generation obj));
          install =
            seq (on_disk (create_dir (parent_or_dot p))) (\<lambda>_.
            seq (on_disk (remove_file_if_exists temporary)) (\<lambda>_.
            seq (on_both (fx_download X obj temporary)) (\<lambda>_.
            seq (on_disk (sha256_file (fx_sha X) temporary)) (\<lambda>downloaded.
            if downloaded \<noteq> expected then
              seq (on_disk (ignored (fs_remove_file temporary))) (\<lambda>_.
              fail (''accepted Supernote upload '' @ co_path obj @ '' hash '' @ downloaded @
                    '' does not match immutable payload hash '' @ expected))
            else
              seq (on_disk (publish_create_only temporary p)) (\<lambda>_.
              seq (on_disk (sha256_file (fx_sha X) p)) (\<lambda>installed.
              if installed \<noteq> expected then
                fail (''accepted Supernote snapshot '' @ p @ '' changed while it was being installed'')
              else ok p))))))
      in seq (on_disk (symlink_metadata_if_exists p)) (\<lambda>m.
         case m of
           None \<Rightarrow> install
         | Some m \<Rightarrow>
             if not_regular m then
               fail (''accepted Supernote snapshot '' @ p @ '' is not a regular file'')
             else
               seq (on_disk (sha256_file (fx_sha X) p)) (\<lambda>actual.
               if actual = expected then ok p
               else seq (on_disk (remove_file_if_exists p)) (\<lambda>_. install))))"

text \<open>One object of the uploads listing: the newest accepted upload of each local source is kept, and
  two different ones of the same revision stop the recovery.\<close>

definition accepted_revision_of :: "folder_object \<Rightarrow> u64 \<Rightarrow> u64 option" where
  "accepted_revision_of obj accepted =
     (case bm_get (co_metadata obj) source_revision_key of
        None \<Rightarrow> None
      | Some v \<Rightarrow>
          (case parse_u64 v of
             Inl _ \<Rightarrow> None
           | Inr r \<Rightarrow> if 0 < r \<and> r \<le> accepted then Some r else None))"

definition debug_side :: "device_side \<Rightarrow> string" where
  "debug_side side = (case side of Boox \<Rightarrow> ''Boox'' | Supernote \<Rightarrow> ''Supernote'')"

definition keep_newest ::
    "device_side \<Rightarrow> string \<Rightarrow> accepted_upload \<Rightarrow> (string, accepted_upload) bmap \<Rightarrow>
       string + (string, accepted_upload) bmap" where
  "keep_newest side source_local_id a accepted =
     (case bm_get accepted source_local_id of
        None \<Rightarrow> Inr (bm_insert source_local_id a accepted)
      | Some b \<Rightarrow>
          if au_revision b = au_revision a \<and>
             (au_source_hash b \<noteq> au_source_hash a \<or> au_payload_hash b \<noteq> au_payload_hash a) then
            Inl (''accepted '' @ debug_side side @ '' revision '' @ show_u64 (au_revision a) @
                 '' has multiple immutable source views; preserve both inputs before resuming'')
          else if au_revision b \<le> au_revision a then Inr (bm_insert source_local_id a accepted)
          else Inr accepted)"

definition recover_object ::
    "'c folder_transport \<Rightarrow> document_folders \<Rightarrow> device_side \<Rightarrow> u64 \<Rightarrow> folder_object \<Rightarrow>
       (string, accepted_upload) bmap \<Rightarrow> ('c sync_world, (string, accepted_upload) bmap) action" where
  "recover_object T f side accepted_revision obj accepted =
     (if bm_get (co_metadata obj) document_id_key \<noteq> Some (df_document_id f) then ok accepted
      else case (accepted_revision_of obj accepted_revision, sha256_metadata obj source_view_sha256_key) of
        (Some revision, Some source_hash) \<Rightarrow>
          let payload_hash = (case sha256_metadata obj content_sha256_key of
                                Some h \<Rightarrow> h | None \<Rightarrow> source_hash)
          in seq (case side of
                    Boox \<Rightarrow>
                      ok (case sha256_metadata obj source_local_id_key of
                            Some identity \<Rightarrow> identity
                          | None \<Rightarrow> ''legacy-revision-'' @ show_u64 revision)
                  | Supernote \<Rightarrow> recover_supernote_source_identity T f obj) (\<lambda>source_local_id.
             answer (keep_newest side source_local_id
               \<lparr>au_revision = revision, au_source_hash = source_hash, au_payload_hash = payload_hash,
                au_object = obj\<rparr> accepted))
      | _ \<Rightarrow> ok accepted)"

definition raise_accepted :: "string \<Rightarrow> u64 \<Rightarrow> side_state \<Rightarrow> side_state" where
  "raise_accepted identity revision s =
     s\<lparr>ss_accepted_source_revisions :=
         bm_insert identity
           (case bm_get (ss_accepted_source_revisions s) identity of
              None \<Rightarrow> revision | Some r \<Rightarrow> max r revision)
           (ss_accepted_source_revisions s)\<rparr>"

definition forget_later_revisions :: "u64 \<Rightarrow> side_state \<Rightarrow> side_state" where
  "forget_later_revisions accepted s =
     s\<lparr>ss_accepted_source_revisions :=
         (if accepted = 0 then []
          else filter (\<lambda>(_, r). r \<le> accepted) (ss_accepted_source_revisions s))\<rparr>"

definition remember_uploaded :: "string \<Rightarrow> string \<Rightarrow> side_state \<Rightarrow> side_state" where
  "remember_uploaded key hash s =
     s\<lparr>ss_uploaded_local_hashes := bm_insert key hash (ss_uploaded_local_hashes s)\<rparr>"

definition remember_accepted :: "string \<Rightarrow> string \<Rightarrow> side_state \<Rightarrow> side_state" where
  "remember_accepted key hash s =
     s\<lparr>ss_accepted_local_hashes := bm_insert key hash (ss_accepted_local_hashes s)\<rparr>"

definition install_accepted ::
    "'c folder_transport \<Rightarrow> document_folders \<Rightarrow> device_side \<Rightarrow> (string \<times> string) list \<Rightarrow>
       string \<times> accepted_upload \<Rightarrow> ('c sync_world, unit) action" where
  "install_accepted T f side supernote_files entry =
     (case entry of (source_local_id, a) \<Rightarrow>
        let doc = df_document_id f; sha = fx_sha (ft_ext T)
        in seq (change_side doc side (raise_accepted source_local_id (au_revision a))) (\<lambda>_.
           case side of
             Boox \<Rightarrow>
               seq (on_disk (key_of (df_boox_pdf f))) (\<lambda>key.
               seq (change_side doc Boox (remember_uploaded key (au_source_hash a))) (\<lambda>_.
               change_side doc Boox (remember_accepted key (au_source_hash a))))
           | Supernote \<Rightarrow>
               seq (answer (object_page_indices (au_object a))) (\<lambda>indices.
               seq (each (\<lambda>page. change_side doc Supernote
                      (raise_accepted (page_identity sha doc page) (au_revision a)))
                      (case indices of None \<Rightarrow> [] | Some pages \<Rightarrow> pages)) (\<lambda>_.
               seq (ensure_supernote_accepted_snapshot T f source_local_id a) (\<lambda>snapshot.
               seq (on_disk (key_of snapshot)) (\<lambda>key.
               seq (each (\<lambda>(_, current_key). change_side doc Supernote
                      (remember_uploaded current_key (au_source_hash a)))
                      (filter (\<lambda>(hash, _). hash = au_source_hash a) supernote_files)) (\<lambda>_.
               change_side doc Supernote (remember_accepted key (au_payload_hash a)))))))))"

definition recover_side ::
    "'c folder_transport \<Rightarrow> document_folders \<Rightarrow> (string \<times> string) list \<Rightarrow> device_side \<Rightarrow>
       ('c sync_world, unit) action" where
  "recover_side T f supernote_files side =
     (let doc = df_document_id f
      in seq (document_now doc) (\<lambda>t.
         let accepted_revision = rp_get (dt_revisions t) side
         in seq (change_side doc side (forget_later_revisions accepted_revision)) (\<lambda>_.
            if accepted_revision = 0 then ok ()
            else
              seq (cloud_list T (device_root side @ ''/'' @ doc @ ''/uploads/'')) (\<lambda>objects.
              seq (carry (recover_object T f side accepted_revision) objects []) (\<lambda>accepted.
              seq (unless (side \<noteq> Supernote)
                     (change_side doc Supernote (\<lambda>s. s\<lparr>ss_accepted_local_hashes := []\<rparr>))) (\<lambda>_.
              seq (each (install_accepted T f side supernote_files) accepted) (\<lambda>_.
              unless (side \<noteq> Supernote)
                (seq (document_now doc) (\<lambda>t.
                 seq (on_disk (materialize_non_overlapping_baselines (ft_ext T) f
                        (ss_accepted_local_hashes (dt_supernote t)))) (\<lambda>baselines.
                 change_side doc Supernote (\<lambda>s. s\<lparr>ss_accepted_local_hashes := baselines\<rparr>)))))))))))"

definition recover_acknowledged_uploads ::
    "'c folder_transport \<Rightarrow> document_folders \<Rightarrow> ('c sync_world, unit) action" where
  "recover_acknowledged_uploads T f =
     seq (on_disk (supernote_export_files (df_supernote_export_directory f))) (\<lambda>ps.
     seq (on_disk (collect (\<lambda>p. seq (sha256_file (fx_sha (ft_ext T)) p) (\<lambda>hash.
            seq (key_of p) (\<lambda>key. ok (hash, key)))) ps)) (\<lambda>files.
     each (recover_side T f files) [Boox, Supernote]))"

end
