(* ===== verification/Folder_Deliver.thy ===== *)
theory Folder_Deliver
  imports Folder_Recovery
begin

text \<open>
  Delivering the broker's outputs to the two devices (\<open>deliver_outputs\<close> and what it calls in
  inkbridge-folder-transport/src/transport.rs): the candidates in the order of their frontiers, the
  versioned handoff to the BOOX companion with its verified installs, redelivery of what went
  missing, and the guarded installation of a new output.  \<open>continue\<close> ends an action early.
\<close>

section \<open>Descriptors\<close>

datatype descriptor_publication = DescriptorReady | DescriptorConflict

definition descriptor_matches :: "bytes \<Rightarrow> string \<Rightarrow> entry \<Rightarrow> (disk, bool) action" where
  "descriptor_matches bs p m =
     (if max_descriptor_bytes < of_nat (length bs) \<or> max_descriptor_bytes < file_len m then ok False
      else
        seq (io (''could not read '' @ p @ '': '') (fs_read p)) (\<lambda>content.
        let existing = take (unat max_descriptor_bytes + 1) content
        in ok (length existing \<le> unat max_descriptor_bytes \<and> existing = bs)))"

definition verify_descriptor :: "bytes \<Rightarrow> string \<Rightarrow> entry \<Rightarrow> (disk, descriptor_publication) action" where
  "verify_descriptor bs p m =
     (if \<not> is_file m then ok DescriptorConflict
      else seq (descriptor_matches bs p m) (\<lambda>same. ok (if same then DescriptorReady else DescriptorConflict)))"

definition publish_bytes_create_only_or_verify ::
    "bytes \<Rightarrow> string \<Rightarrow> (disk, descriptor_publication) action" where
  "publish_bytes_create_only_or_verify bs p =
     seq (metadata_if_exists p) (\<lambda>m.
     case m of
       Some m \<Rightarrow> verify_descriptor bs p m
     | None \<Rightarrow>
         seq (create_dir (parent_or_dot p)) (\<lambda>_.
         let temporary = sibling_temporary p ''descriptor''
         in seq (remove_file_if_exists temporary) (\<lambda>_.
            seq (write_synced temporary bs) (\<lambda>_.
            seq (publish_create_only temporary p) (\<lambda>published.
            if published then ok DescriptorReady
            else
              seq (metadata_if_exists p) (\<lambda>m.
              case m of
                None \<Rightarrow> fail (''handoff descriptor '' @ p @ '' disappeared after concurrent publication'')
              | Some m \<Rightarrow> verify_descriptor bs p m))))))"

section \<open>Downloads\<close>

definition download_verified ::
    "'c folder_transport \<Rightarrow> folder_object \<Rightarrow> string \<Rightarrow> file_id option \<Rightarrow> ('c sync_world, bool) action" where
  "download_verified T obj p expected_destination =
     (let X = ft_ext T
      in seq (on_disk (create_dir (parent_or_dot p))) (\<lambda>_.
         let temporary = sibling_temporary p (''g'' @ show_u64 (co_generation obj))
         in seq (on_disk (remove_file_if_exists temporary)) (\<lambda>_.
            seq (on_both (fx_download X obj temporary)) (\<lambda>_.
            seq (answer (required_output_metadata obj content_sha256_key)) (\<lambda>expected.
            seq (on_disk (sha256_file (fx_sha X) temporary)) (\<lambda>actual.
            if actual \<noteq> expected then
              seq (on_disk (ignored (fs_remove_file temporary))) (\<lambda>_.
              fail (''downloaded '' @ co_path obj @ '' hash '' @ actual @
                    '' does not match broker metadata '' @ expected))
            else on_disk (replace_file (fx_sha X) temporary p expected_destination)))))))"

text \<open>\<open>remember_file_hash(path, state, SystemTime::now(), hash)\<close>\<close>

definition remember_file_now :: "string \<Rightarrow> string \<Rightarrow> ('c sync_world, unit) action" where
  "remember_file_now p hash = seq clock_now (\<lambda>now. remember_file_hash p now hash)"

definition remember_change_now :: "string \<Rightarrow> string \<Rightarrow> ('c sync_world, unit) action" where
  "remember_change_now p hash = seq clock_now (\<lambda>now. remember_content_change p now hash)"

definition boox_has_unpublished_local_edit ::
    "document_folders \<Rightarrow> file_id \<Rightarrow> ('c sync_world, bool) action" where
  "boox_has_unpublished_local_edit f identity =
     seq (document_now (df_document_id f)) (\<lambda>t.
     if ss_pending (dt_boox t) \<noteq> None then ok True
     else case identity of
       Missing \<Rightarrow> ok False
     | Sha256 hash \<Rightarrow>
         if ''inkbridge-doc-v1-'' @ hash = df_document_id f then ok False
         else
           seq (on_disk (key_of (df_boox_pdf f))) (\<lambda>key.
           ok (ss_delivered_content_sha256 (dt_boox t) \<noteq> Some hash \<and>
               bm_get (ss_uploaded_local_hashes (dt_boox t)) key \<noteq> Some hash)))"

section \<open>Verified BOOX installs\<close>

definition unexpected_descriptor :: "string \<Rightarrow> string" where
  "unexpected_descriptor p =
     ''verified BOOX recovery descriptor '' @ p @ '' has unexpected content and was preserved for inspection''"

definition restore_recovery_pdf ::
    "'c folder_transport \<Rightarrow> verified_boox_install \<Rightarrow> folder_object \<Rightarrow> string \<Rightarrow> bool \<Rightarrow> ('c sync_world, unit) action" where
  "restore_recovery_pdf T receipt obj p pdf_exists =
     (if pdf_exists then
        fail (''verified BOOX recovery PDF '' @ p @ '' has unexpected content and was preserved for inspection'')
      else if vb_source_object_path receipt = None \<or> vb_source_object_size receipt = None then
        fail (''verified BOOX install '' @ vb_event_id receipt @
              '' predates recoverable broker object receipts and its local recovery PDF is missing'')
      else
        seq (download_verified T obj p (Some Missing)) (\<lambda>installed.
        if \<not> installed then
          fail (''verified BOOX recovery PDF '' @ p @
                '' changed while its historical generation was downloading'')
        else remember_file_now p (vb_content_sha256 receipt)))"

definition restore_verified_boox_install_pair ::
    "'c folder_transport \<Rightarrow> string \<Rightarrow> document_folders \<Rightarrow> verified_boox_install \<Rightarrow> ('c sync_world, unit) action" where
  "restore_verified_boox_install_pair T endpoint f receipt =
     (let X = ft_ext T
      in seq (answer (verified_install_object receipt f)) (\<lambda>obj.
         seq (answer (prepare_delivery X endpoint f obj (vb_source_revisions receipt)
                (vb_content_sha256 receipt))) (\<lambda>delivery.
         let descriptor = pd_descriptor_path delivery; pdf = pd_pdf_path delivery;
             publish = publish_bytes_create_only_or_verify (pd_descriptor_bytes delivery) descriptor
         in if pd_event_id delivery \<noteq> vb_event_id receipt then
              fail (''verified BOOX install '' @ vb_event_id receipt @
                    '' reconstructed a different delivery identity'')
            else
              seq (on_disk (metadata_if_exists descriptor)) (\<lambda>dm.
              seq (if dm = None then ok DescriptorReady else on_disk publish) (\<lambda>published.
              if published = DescriptorConflict then fail (unexpected_descriptor descriptor)
              else
                seq (on_disk (metadata_if_exists pdf)) (\<lambda>pm.
                seq (case pm of
                       None \<Rightarrow> ok False
                     | Some m \<Rightarrow> if is_file m then on_disk (hash_is (fx_sha X) pdf (vb_content_sha256 receipt))
                                 else ok False) (\<lambda>pdf_is_ready.
                seq (unless pdf_is_ready (restore_recovery_pdf T receipt obj pdf (pm \<noteq> None))) (\<lambda>_.
                seq (on_disk publish) (\<lambda>published.
                if published = DescriptorConflict then fail (unexpected_descriptor descriptor)
                else ok ())))))))))"

type_synonym output_candidate = "device_side \<times> folder_object \<times> revision_pair"

text \<open>The candidate that an acknowledged install came from.\<close>

definition is_installed_output ::
    "'c folder_transport \<Rightarrow> string \<Rightarrow> document_folders \<Rightarrow> installed_delivery \<Rightarrow> output_candidate \<Rightarrow> bool" where
  "is_installed_output T endpoint f i candidate =
     (case candidate of (side, obj, frontier) \<Rightarrow>
        side = Boox \<and> frontier = id_source_revisions i \<and> co_generation obj = id_source_generation i \<and>
        (case required_output_metadata obj content_sha256_key of
           Inl _ \<Rightarrow> False
         | Inr expected \<Rightarrow>
             expected = id_content_sha256 i \<and>
             (case prepare_delivery (ft_ext T) endpoint f obj frontier expected of
                Inl _ \<Rightarrow> False
              | Inr delivery \<Rightarrow> pd_event_id delivery = id_event_id i)))"

definition accept_installed_frontier ::
    "document_folders \<Rightarrow> installed_delivery \<Rightarrow> ('c sync_world, unit) action" where
  "accept_installed_frontier f i =
     seq (document_now (df_document_id f)) (\<lambda>t.
     let current = dt_revisions t
     in if id_source_revisions i = current \<and>
           (case ss_delivered_content_sha256 (dt_boox t) of
              None \<Rightarrow> False | Some hash \<Rightarrow> hash \<noteq> id_content_sha256 i) then
          fail (''BOOX installed acknowledgement '' @ id_event_id i @
                '' reports different content for frontier '' @ show_frontier current)
        else if dominates (id_source_revisions i) current then
          change_document (df_document_id f)
            (record_delivered_frontier (id_source_revisions i) Boox (id_content_sha256 i))
        else if \<not> dominates current (id_source_revisions i) then
          fail (''BOOX installed acknowledgement '' @ id_event_id i @ '' at '' @
                show_frontier (id_source_revisions i) @ '' conflicts with transport frontier '' @
                show_frontier current)
        else ok ())"

definition verify_installed_delivery ::
    "'c folder_transport \<Rightarrow> string \<Rightarrow> document_folders \<Rightarrow> installed_delivery \<Rightarrow> output_candidate list \<Rightarrow>
       ('c sync_world, bool) action" where
  "verify_installed_delivery T endpoint f i candidates =
     (let doc = df_document_id f
      in seq (document_if_any doc) (\<lambda>known.
         let has_receipt = (case known of
                              None \<Rightarrow> False
                            | Some t \<Rightarrow> (case dt_verified_boox_install t of
                                           None \<Rightarrow> False | Some r \<Rightarrow> receipt_matches_ack r i));
             live = find (is_installed_output T endpoint f i) candidates
         in if \<not> has_receipt \<and> live = None then ok False
            else
              seq (case live of
                     None \<Rightarrow> ok ()
                   | Some (_, obj, _) \<Rightarrow>
                       change_document doc (\<lambda>t. t\<lparr>dt_verified_boox_install := Some (verified_install i obj)\<rparr>)) (\<lambda>_.
              seq (document_if_any doc) (\<lambda>known.
              seq (answer (ok_or (''verified BOOX acknowledgement '' @ id_event_id i @ '' has no durable receipt'')
                     (case known of None \<Rightarrow> None | Some t \<Rightarrow> dt_verified_boox_install t))) (\<lambda>receipt.
              seq (restore_verified_boox_install_pair T endpoint f receipt) (\<lambda>_.
              seq (on_disk (retire_superseded_incoming (ft_ext T) endpoint f i)) (\<lambda>_.
              seq (accept_installed_frontier f i) (\<lambda>_. ok True))))))))"

section \<open>The candidates\<close>

definition is_broker_output_of :: "document_folders \<Rightarrow> device_side \<times> folder_object \<Rightarrow> bool" where
  "is_broker_output_of f candidate =
     (case candidate of (side, obj) \<Rightarrow>
        bm_get (co_metadata obj) produced_by_key = Some broker_producer \<and>
        bm_get (co_metadata obj) document_id_key = Some (df_document_id f))"

definition candidate_key :: "output_candidate \<Rightarrow> nat list" where
  "candidate_key candidate =
     (case candidate of (side, obj, frontier) \<Rightarrow>
        [unat (rp_boox frontier) + unat (rp_supernote frontier), unat (rp_boox frontier),
         unat (rp_supernote frontier), unat (co_generation obj)])"

definition output_candidates ::
    "'c folder_transport \<Rightarrow> document_folders \<Rightarrow> ('c sync_world, output_candidate list) action" where
  "output_candidates T f =
     seq (cloud_list T (''Supernote_Folder/'' @ df_document_id f @ ''/incoming/'')) (\<lambda>supernote.
     seq (cloud_list T (''BOOX_Folder/'' @ df_document_id f @ ''/'')) (\<lambda>boox.
     seq (answer (try_map
            (\<lambda>(side, obj). rbind (parse_revision_metadata obj) (\<lambda>frontier. Inr (side, obj, frontier)))
            (filter (is_broker_output_of f) (map (Pair Supernote) supernote @ map (Pair Boox) boox))))
       (\<lambda>candidates. ok (sort_key candidate_key candidates))))"

section \<open>One output\<close>

definition mark_delivered :: "document_folders \<Rightarrow> string \<Rightarrow> ('c sync_world, unit) action" where
  "mark_delivered f key =
     change_document (df_document_id f)
       (\<lambda>t. t\<lparr>dt_delivered_generations := bs_insert key (dt_delivered_generations t)\<rparr>)"

definition handoff_descriptor_conflict :: "prepared_delivery \<Rightarrow> string" where
  "handoff_descriptor_conflict delivery =
     ''versioned BOOX handoff descriptor '' @ pd_descriptor_path delivery @
     '' has unexpected content and was preserved for inspection''"

text \<open>Publishing a descriptor, or verifying one that exists; a conflict defers the output.\<close>

definition publish_descriptor ::
    "prepared_delivery \<Rightarrow> ('c sync_world, unit) action \<Rightarrow> ('c sync_world, unit) action" where
  "publish_descriptor delivery continue =
     seq (on_disk (publish_bytes_create_only_or_verify (pd_descriptor_bytes delivery)
            (pd_descriptor_path delivery))) (\<lambda>published.
     if published = DescriptorConflict then deferred Boox (handoff_descriptor_conflict delivery)
     else continue)"

definition redeliver_to_boox ::
    "'c folder_transport \<Rightarrow> folder_object \<Rightarrow> string \<Rightarrow> prepared_delivery \<Rightarrow> ('c sync_world, unit) action" where
  "redeliver_to_boox T obj expected delivery =
     (let pdf = pd_pdf_path delivery;
          finish = (\<lambda>installed descriptor_was_missing.
            publish_descriptor delivery
              (unless (installed \<and> \<not> descriptor_was_missing)
                (act (Delivered Boox (co_path obj) pdf (co_generation obj)))));
          restore = (\<lambda>descriptor_was_missing.
            seq (on_disk (installed_file (fx_sha (ft_ext T)) pdf expected)) (\<lambda>installed.
            if installed then finish True descriptor_was_missing
            else
              seq (on_disk (metadata_if_exists pdf)) (\<lambda>m.
              if m \<noteq> None then
                deferred Boox (''versioned BOOX handoff destination '' @ pdf @
                               '' changed after delivery and was preserved for inspection'')
              else
                seq (download_verified T obj pdf (Some Missing)) (\<lambda>_.
                seq (remember_file_now pdf expected) (\<lambda>_.
                finish False descriptor_was_missing)))))
      in seq (on_disk (metadata_if_exists (pd_descriptor_path delivery))) (\<lambda>dm.
         if dm = None then restore True else publish_descriptor delivery (restore False)))"

definition redeliver_to_supernote ::
    "'c folder_transport \<Rightarrow> document_folders \<Rightarrow> folder_object \<Rightarrow> string \<Rightarrow> string \<Rightarrow> ('c sync_world, unit) action" where
  "redeliver_to_supernote T f obj expected local_path =
     seq (on_disk (supernote_delivery_is_acknowledged (ft_ext T) f expected)) (\<lambda>acknowledged.
     if acknowledged then ok ()
     else
       seq (on_disk (installed_file (fx_sha (ft_ext T)) local_path expected)) (\<lambda>installed.
       if installed then ok ()
       else
         seq (download_verified T obj local_path None) (\<lambda>_.
         seq (remember_file_now local_path expected) (\<lambda>_.
         act (Delivered Supernote (co_path obj) local_path (co_generation obj))))))"

text \<open>The end of an installation: the file is as expected, and the frontier is recorded.\<close>

definition acknowledge_output ::
    "'c folder_transport \<Rightarrow> document_folders \<Rightarrow> output_candidate \<Rightarrow> string \<Rightarrow> string \<Rightarrow> ('c sync_world, unit) action" where
  "acknowledge_output T f candidate expected local_path =
     (case candidate of (side, obj, frontier) \<Rightarrow>
        seq (if side = Boox then on_disk (file_identity (fx_sha (ft_ext T)) local_path)
             else ok (Sha256 expected)) (\<lambda>identity.
        if identity \<noteq> Sha256 expected then
          deferred side (''broker view '' @ co_path obj @
                         '' was not acknowledged because the local BOOX PDF changed during inspection'')
        else
          seq (remember_file_now local_path expected) (\<lambda>_.
          seq (change_document (df_document_id f) (record_delivered_frontier frontier side expected)) (\<lambda>_.
          seq (mark_delivered f (generation_key obj)) (\<lambda>_.
          act (Delivered side (co_path obj) local_path (co_generation obj)))))))"

definition fetch_output ::
    "'c folder_transport \<Rightarrow> document_folders \<Rightarrow> output_candidate \<Rightarrow> string \<Rightarrow> string \<Rightarrow>
       prepared_delivery option \<Rightarrow> file_id option \<Rightarrow> bool \<Rightarrow> ('c sync_world, unit) action" where
  "fetch_output T f candidate expected local_path delivery boox_identity already_installed =
     (case candidate of (side, obj, frontier) \<Rightarrow>
        let expected_destination =
              (case boox_identity of
                 Some identity \<Rightarrow> Some identity
               | None \<Rightarrow> map_option (\<lambda>_. Missing) delivery)
        in seq (if already_installed then ok True
                else download_verified T obj local_path expected_destination) (\<lambda>fetched.
           if \<not> fetched then
             deferred side (''broker view '' @ co_path obj @
                            '' was not installed because the local BOOX PDF changed while it was downloading'')
           else case delivery of
             None \<Rightarrow> acknowledge_output T f candidate expected local_path
           | Some delivery \<Rightarrow>
               publish_descriptor delivery (acknowledge_output T f candidate expected local_path)))"

definition place_output ::
    "'c folder_transport \<Rightarrow> document_folders \<Rightarrow> output_candidate \<Rightarrow> string \<Rightarrow> string \<Rightarrow>
       prepared_delivery option \<Rightarrow> ('c sync_world, unit) action" where
  "place_output T f candidate expected local_path delivery =
     (case candidate of (side, obj, frontier) \<Rightarrow>
        let sha = fx_sha (ft_ext T); plain_boox = (side = Boox \<and> delivery = None)
        in seq (if side = Boox then on_disk (reconcile_staged_backup sha local_path expected) else ok ()) (\<lambda>_.
           seq (if plain_boox then seq (on_disk (file_identity sha local_path)) (\<lambda>i. ok (Some i))
                else ok None) (\<lambda>boox_identity.
           seq (case boox_identity of
                  Some identity \<Rightarrow> ok (identity = Sha256 expected)
                | None \<Rightarrow> on_disk (installed_file sha local_path expected)) (\<lambda>already_installed.
           seq (case boox_identity of
                  Some identity \<Rightarrow>
                    if already_installed then ok False else boox_has_unpublished_local_edit f identity
                | None \<Rightarrow> ok False) (\<lambda>unpublished.
           if unpublished then
             deferred side (''broker view '' @ co_path obj @
                            '' was not installed because the local BOOX PDF has an unpublished edit'')
           else
             seq (if delivery \<noteq> None \<and> \<not> already_installed then
                    seq (on_disk (metadata_if_exists local_path)) (\<lambda>m. ok (m \<noteq> None))
                  else ok False) (\<lambda>occupied.
             if occupied then
               deferred side (''versioned BOOX handoff destination '' @ local_path @
                              '' already exists with unexpected content and was preserved for inspection'')
             else
               fetch_output T f candidate expected local_path delivery boox_identity already_installed))))))"

definition install_output ::
    "'c folder_transport \<Rightarrow> document_folders \<Rightarrow> output_candidate \<Rightarrow> string \<Rightarrow> string \<Rightarrow>
       prepared_delivery option \<Rightarrow> ('c sync_world, unit) action" where
  "install_output T f candidate expected local_path delivery =
     (case candidate of (side, obj, frontier) \<Rightarrow>
        seq (document_now (df_document_id f)) (\<lambda>t.
        let current = dt_revisions t;
            place = place_output T f candidate expected local_path delivery
        in if \<not> dominates frontier current then mark_delivered f (generation_key obj)
           else if side = Supernote \<and> frontier \<noteq> current \<and>
                   (rp_boox frontier \<noteq> rp_boox current + 1 \<or>
                    rp_supernote frontier \<noteq> rp_supernote current) then
             deferred side (''broker manifest '' @ co_path obj @ '' at revisions '' @
               show_frontier frontier @ '' is waiting for predecessor '' @
               show_frontier \<lparr>rp_boox = rp_boox current + 1, rp_supernote = rp_supernote current\<rparr>)
           else case delivery of
             None \<Rightarrow> place
           | Some delivery \<Rightarrow>
               seq (on_disk (metadata_if_exists (pd_descriptor_path delivery))) (\<lambda>dm.
               if dm = None then place else publish_descriptor delivery place)))"

definition local_output_path ::
    "document_folders \<Rightarrow> output_candidate \<Rightarrow> prepared_delivery option \<Rightarrow> string + string" where
  "local_output_path f candidate delivery =
     (case candidate of (side, obj, frontier) \<Rightarrow>
        (case side of
           Boox \<Rightarrow> Inr (case delivery of None \<Rightarrow> df_boox_pdf f | Some d \<Rightarrow> pd_pdf_path d)
         | Supernote \<Rightarrow>
             rbind (ok_or (''remote path '' @ co_path obj @ '' has no file name'')
                      (path_file_name (co_path obj))) (\<lambda>name.
             Inr (path_join (df_supernote_incoming_directory f)
               (''r'' @ pad20 (rp_boox frontier) @ ''-r'' @ pad20 (rp_supernote frontier) @ ''-g'' @
                pad20 (co_generation obj) @ ''-'' @ name)))))"

definition deliver_output ::
    "'c folder_transport \<Rightarrow> document_folders \<Rightarrow> string option \<Rightarrow> installed_delivery option \<Rightarrow>
       output_candidate \<Rightarrow> ('c sync_world, unit) action" where
  "deliver_output T f endpoint installed candidate =
     (case candidate of (side, obj, frontier) \<Rightarrow>
        seq (answer (required_output_metadata obj content_sha256_key)) (\<lambda>expected.
        seq (case (side, endpoint) of
               (Boox, Some e) \<Rightarrow>
                 seq (answer (prepare_delivery (ft_ext T) e f obj frontier expected)) (\<lambda>d. ok (Some d))
             | _ \<Rightarrow> ok None) (\<lambda>delivery.
        let proceed =
              seq (answer (local_output_path f candidate delivery)) (\<lambda>local_path.
              seq (document_now (df_document_id f)) (\<lambda>t.
              if generation_key obj \<in> set (dt_delivered_generations t) then
                (case delivery of
                   Some d \<Rightarrow> redeliver_to_boox T obj expected d
                 | None \<Rightarrow>
                     if side = Supernote then redeliver_to_supernote T f obj expected local_path
                     else ok ())
              else install_output T f candidate expected local_path delivery))
        in case (installed, delivery) of
             (Some i, Some _) \<Rightarrow>
               if frontier = id_source_revisions i then
                 (if expected \<noteq> id_content_sha256 i then
                    fail (''broker BOOX output '' @ co_path obj @
                          '' reports different content for installed frontier '' @ show_frontier frontier)
                  else mark_delivered f (generation_key obj))
               else if dominates (id_source_revisions i) frontier then
                 mark_delivered f (generation_key obj)
               else proceed
           | _ \<Rightarrow> proceed)))"

definition deliver_outputs :: "'c folder_transport \<Rightarrow> document_folders \<Rightarrow> ('c sync_world, unit) action" where
  "deliver_outputs T f =
     seq (answer (boox_handoff_endpoint T f)) (\<lambda>endpoint.
     seq (case endpoint of
            None \<Rightarrow> ok None
          | Some e \<Rightarrow> on_disk (installed_delivery_of (ft_ext T) e f)) (\<lambda>installed.
     seq (output_candidates T f) (\<lambda>candidates.
     seq (case (endpoint, installed) of
            (Some e, Some i) \<Rightarrow> verify_installed_delivery T e f i candidates
          | _ \<Rightarrow> ok False) (\<lambda>verified.
     each (deliver_output T f endpoint (if verified then installed else None)) candidates))))"

end
