(* ===== verification/Folder_Upload.thy ===== *)
theory Folder_Upload
  imports Folder_Deliver
begin

text \<open>
  Uploading what the devices changed (the second half of \<open>FolderTransport\<close> in
  inkbridge-folder-transport/src/transport.rs): the immutable upload with its metadata, the BOOX
  side (the mapped PDF, or the payloads its companion finalized) and the Supernote side, and the
  synchronisation of one document, a transaction on the transport state.
\<close>

section \<open>An upload\<close>

record source_upload =
  up_side :: device_side
  up_payload_path :: string
  up_local_key :: string
  up_source_local_id :: string
  up_page_indices :: "u32 list"
  up_local_hash :: string
  up_payload_hash :: string
  up_payload_kind :: string
  up_extension :: string

definition upload_object_path :: "document_folders \<Rightarrow> source_upload \<Rightarrow> u64 \<Rightarrow> string" where
  "upload_object_path f u source_revision =
     device_root (up_side u) @ ''/'' @ df_document_id f @ ''/uploads/'' @
     (case up_side u of Boox \<Rightarrow> ''boox'' | Supernote \<Rightarrow> ''supernote'') @ ''-r'' @
     show_u64 source_revision @ ''-'' @ take 16 (up_local_hash u) @ ''.'' @ up_extension u"

definition source_upload_metadata ::
    "document_folders \<Rightarrow> source_upload \<Rightarrow> revision_pair \<Rightarrow> u64 \<Rightarrow> (string, string) bmap" where
  "source_upload_metadata f u based_on source_revision =
     (let m = bm_of_list
            [(document_id_key, df_document_id f), (source_revision_key, show_u64 source_revision),
             (''inkbridge-based-on-boox'', show_u64 (rp_boox based_on)),
             (''inkbridge-based-on-supernote'', show_u64 (rp_supernote based_on)),
             (content_sha256_key, up_payload_hash u), (''inkbridge-sync-ready'', ''true''),
             (''inkbridge-payload-kind'', up_payload_kind u),
             (source_view_sha256_key, up_local_hash u), (source_local_id_key, up_source_local_id u)]
      in case up_page_indices u of
           [] \<Rightarrow> m
         | [page] \<Rightarrow> bm_insert source_page_index (show_u32 page) m
         | pages \<Rightarrow> bm_insert source_page_indices (join_with '','' (map show_u32 pages)) m)"

definition upload_source_at ::
    "'c folder_transport \<Rightarrow> document_folders \<Rightarrow> source_upload \<Rightarrow> revision_pair \<Rightarrow> u64 \<Rightarrow>
       ('c sync_world, folder_object \<times> u64) action" where
  "upload_source_at T f u based_on source_revision =
     seq (document_now (df_document_id f)) (\<lambda>t.
     if dt_conflicts t \<noteq> [] then
       fail (df_document_id f @
             '' has an unresolved broker conflict; preserve both device files before resuming'')
     else if source_revision \<noteq> rp_get based_on (up_side u) + 1 then
       fail (debug_side (up_side u) @ '' source revision '' @ show_u64 source_revision @
             '' does not immediately follow basedOn revision '' @ show_u64 (rp_get based_on (up_side u)))
     else
       let p = upload_object_path f u source_revision
       in seq (on_both (fx_upload_create (ft_ext T) (up_payload_path u) p
                 (source_upload_metadata f u based_on source_revision))) (\<lambda>obj.
          seq (change_side (df_document_id f) (up_side u) (\<lambda>s. s\<lparr>ss_pending := Some
                 \<lparr>pu_object_path = p, pu_generation = co_generation obj,
                  pu_source_revision = source_revision, pu_based_on = based_on,
                  pu_local_path = up_local_key u, pu_local_content_sha256 = up_local_hash u,
                  pu_payload_content_sha256 = up_payload_hash u\<rparr>\<rparr>)) (\<lambda>_.
          ok (obj, source_revision))))"

definition upload_source ::
    "'c folder_transport \<Rightarrow> document_folders \<Rightarrow> source_upload \<Rightarrow> ('c sync_world, folder_object \<times> u64) action" where
  "upload_source T f u =
     seq (document_now (df_document_id f)) (\<lambda>t.
     upload_source_at T f u (dt_revisions t) (rp_get (dt_revisions t) (up_side u) + 1))"

text \<open>The observation of a settled file gets its content hash.\<close>

definition note_content :: "string \<Rightarrow> string \<Rightarrow> string \<Rightarrow> ('c sync_world, unit) action" where
  "note_content p key hash =
     seq state_now (\<lambda>s.
     case bm_get (ts_observations s) key of
       None \<Rightarrow> fail (''settled observation disappeared for '' @ p)
     | Some obs \<Rightarrow> observe key (obs\<lparr>fo_content_sha256 := Some hash\<rparr>))"

definition observed_content :: "string \<Rightarrow> ('c sync_world, string option) action" where
  "observed_content key =
     seq state_now (\<lambda>s.
     ok (case bm_get (ts_observations s) key of None \<Rightarrow> None | Some obs \<Rightarrow> fo_content_sha256 obs))"

section \<open>The mapped BOOX PDF\<close>

definition known_boox_source :: "string \<Rightarrow> string \<Rightarrow> document_transport \<Rightarrow> bool" where
  "known_boox_source key hash t \<longleftrightarrow>
     ss_delivered_content_sha256 (dt_boox t) = Some hash \<or>
     bm_get (ss_uploaded_local_hashes (dt_boox t)) key = Some hash"

text \<open>What is known of the settled PDF may end the upload: it answers \<open>True\<close> then.\<close>

definition check_known_content ::
    "'c folder_transport \<Rightarrow> document_folders \<Rightarrow> string \<Rightarrow> ('c sync_world, bool) action" where
  "check_known_content T f key =
     seq (observed_content key) (\<lambda>cached.
     case cached of
       None \<Rightarrow> ok False
     | Some cached \<Rightarrow>
         seq (on_disk (sha256_file (fx_sha (ft_ext T)) (df_boox_pdf f))) (\<lambda>hash.
         if hash \<noteq> cached then
           seq (remember_change_now (df_boox_pdf f) hash) (\<lambda>_.
           seq (deferred Boox ''the settled BOOX PDF content changed without new filesystem metadata'')
             (\<lambda>_. ok True))
         else
           seq (document_now (df_document_id f)) (\<lambda>t. ok (known_boox_source key hash t))))"

definition check_baseline ::
    "'c folder_ext \<Rightarrow> string \<times> string \<Rightarrow> string list \<times> (string \<times> string) list \<Rightarrow>
       (disk, string list \<times> (string \<times> string) list) action" where
  "check_baseline X accepted found =
     (case (accepted, found) of ((key, expected), (missing, baselines)) \<Rightarrow>
        if prefix recovered_missing_prefix key then ok (missing @ [key], baselines)
        else
          seq (metadata_if_exists key) (\<lambda>m.
          if \<not> (case m of None \<Rightarrow> False | Some e \<Rightarrow> is_file e) then ok (missing @ [key], baselines)
          else
            seq (sha256_file (fx_sha X) key) (\<lambda>actual.
            if actual \<noteq> expected then
              ok (missing @ [key @ '' (expected '' @ expected @ '', found '' @ actual @ '')''], baselines)
            else ok (missing, baselines @ [(key, expected)]))))"

definition baseline_changed :: "'c folder_transport \<Rightarrow> string \<times> string \<Rightarrow> ('c sync_world, bool) action" where
  "baseline_changed T baseline =
     (case baseline of (p, accepted_hash) \<Rightarrow>
        seq (on_disk (sha256_file (fx_sha (ft_ext T)) p)) (\<lambda>current.
        if current \<noteq> accepted_hash then
          seq (remember_change_now p current) (\<lambda>_.
          seq (deferred Boox (''Supernote baseline '' @ p @
                 '' changed while the compact manifest was being built'')) (\<lambda>_. ok True))
        else ok False))"

definition upload_built_manifest ::
    "'c folder_transport \<Rightarrow> document_folders \<Rightarrow> string \<Rightarrow> string option \<Rightarrow> built_manifest \<Rightarrow> ('c sync_world, unit) action" where
  "upload_built_manifest T f key stable_source_local_id built =
     (let X = ft_ext T; sha = fx_sha X; doc = df_document_id f;
          hash = bm_source_pdf_sha256 built;
          temporary = sibling_temporary (df_boox_pdf f) ''compact-upload''
      in seq (on_disk (io (''could not write '' @ temporary @ '': '') (fs_write temporary (bm_bytes built)))) (\<lambda>_.
         seq (caught (upload_source T f
                \<lparr>up_side = Boox, up_payload_path = temporary, up_local_key = key,
                 up_source_local_id =
                   (case stable_source_local_id of None \<Rightarrow> sha256_hex sha key | Some i \<Rightarrow> i),
                 up_page_indices = [], up_local_hash = hash,
                 up_payload_hash = sha256_hex sha (bm_bytes built),
                 up_payload_kind = ''boox_operation_manifest'', up_extension = ''operations.json''\<rparr>)) (\<lambda>result.
         seq (on_disk (ignored (fs_remove_file temporary))) (\<lambda>_.
         seq (answer result) (\<lambda>(obj, source_revision).
         seq (change_side doc Boox (remember_uploaded key hash)) (\<lambda>_.
         act (Uploaded Boox (df_boox_pdf f) (co_path obj) source_revision
                (of_nat (length (bm_bytes built))))))))))"

definition convert_boox_pdf ::
    "'c folder_transport \<Rightarrow> document_folders \<Rightarrow> u64 \<Rightarrow> string \<Rightarrow> string option \<Rightarrow> (string \<times> string) list \<Rightarrow>
       ('c sync_world, unit) action" where
  "convert_boox_pdf T f now key stable_source_local_id baselines =
     (let X = ft_ext T; sha = fx_sha X; pdf = df_boox_pdf f
      in seq (on_disk (validate_unique_baseline_pages X (map fst baselines))) (\<lambda>_.
         seq (on_disk (fx_build_manifest X pdf (map fst baselines))) (\<lambda>built.
         seq (file_is_settled pdf now (ft_settle T)) (\<lambda>settled.
         if \<not> settled then
           deferred Boox ''the BOOX PDF changed while its compact manifest was being built''
         else
           seq (on_disk (sha256_file sha pdf)) (\<lambda>post_build.
           if post_build \<noteq> bm_source_pdf_sha256 built then
             seq (remember_change_now pdf post_build) (\<lambda>_.
             deferred Boox ''the BOOX PDF content changed while its compact manifest was being built'')
           else
             seq (until_hit (baseline_changed T) baselines) (\<lambda>changed.
             if changed then ok ()
             else
               seq (note_content pdf key (bm_source_pdf_sha256 built)) (\<lambda>_.
               seq (document_now (df_document_id f)) (\<lambda>t.
               if known_boox_source key (bm_source_pdf_sha256 built) t then ok ()
               else upload_built_manifest T f key stable_source_local_id built))))))))"

definition upload_boox_pdf_if_ready ::
    "'c folder_transport \<Rightarrow> document_folders \<Rightarrow> u64 \<Rightarrow> string option \<Rightarrow> ('c sync_world, unit) action" where
  "upload_boox_pdf_if_ready T f now stable_source_local_id =
     (let X = ft_ext T; doc = df_document_id f; pdf = df_boox_pdf f
      in seq (on_disk (metadata_if_exists pdf)) (\<lambda>m.
         case m of
           None \<Rightarrow> ok ()
         | Some m \<Rightarrow>
             if \<not> is_file m then fail (''configured BOOX path '' @ pdf @ '' is not a regular file'')
             else
               seq (document_now doc) (\<lambda>t.
               if ss_pending (dt_boox t) \<noteq> None then ok ()
               else
                 seq (file_is_settled pdf now (ft_settle T)) (\<lambda>settled.
                 if \<not> settled then ok ()
                 else
                   seq (on_disk (key_of pdf)) (\<lambda>key.
                   seq (check_known_content T f key) (\<lambda>finished.
                   if finished then ok ()
                   else
                     seq (document_now doc) (\<lambda>t.
                     seq (on_disk (carry (check_baseline X) (ss_accepted_local_hashes (dt_supernote t))
                            ([], []))) (\<lambda>(missing, baselines).
                     if missing \<noteq> [] then
                       deferred Boox (''BOOX edit is ready, but accepted Supernote baseline files are missing: '' @
                         join_with '', '' missing)
                     else if baselines = [] then
                       deferred Boox ''BOOX edit is ready, but no accepted Supernote identity baseline is available''
                     else convert_boox_pdf T f now key stable_source_local_id baselines))))))))"

section \<open>Payloads of the BOOX companion\<close>

definition upload_prebuilt_boox_manifest ::
    "'c folder_transport \<Rightarrow> document_folders \<Rightarrow> finalized_artifact \<Rightarrow> string \<Rightarrow> ('c sync_world, unit) action" where
  "upload_prebuilt_boox_manifest T f artifact payload_hash =
     (let X = ft_ext T; sha = fx_sha X; doc = df_document_id f; ev = fa_event artifact;
          p = fa_payload_path artifact
      in seq (on_disk (key_of p)) (\<lambda>key.
         seq (on_disk (read_boox_operation_source_view_hash X p)) (\<lambda>view_hash.
         seq (upload_source_at T f
                \<lparr>up_side = Boox, up_payload_path = p, up_local_key = key,
                 up_source_local_id = sha256_hex sha (ev_event_id ev), up_page_indices = [],
                 up_local_hash = view_hash, up_payload_hash = payload_hash,
                 up_payload_kind = ''boox_operation_manifest'', up_extension = ''operations.json''\<rparr>
                (ev_based_on ev) (ev_source_revision ev)) (\<lambda>(obj, source_revision).
         seq (change_side doc Boox (remember_uploaded key payload_hash)) (\<lambda>_.
         act (Uploaded Boox p (co_path obj) source_revision (co_size obj)))))))"

definition upload_conflicting_boox_handoff ::
    "'c folder_transport \<Rightarrow> document_folders \<Rightarrow> finalized_artifact \<Rightarrow> string \<Rightarrow> ('c sync_world, unit) action" where
  "upload_conflicting_boox_handoff T f artifact hash =
     (let sha = fx_sha (ft_ext T); doc = df_document_id f; ev = fa_event artifact;
          p = fa_payload_path artifact
      in seq (on_disk (key_of p)) (\<lambda>key.
         seq (upload_source_at T f
                \<lparr>up_side = Boox, up_payload_path = p, up_local_key = key,
                 up_source_local_id = sha256_hex sha (ev_event_id ev), up_page_indices = [],
                 up_local_hash = hash, up_payload_hash = hash,
                 up_payload_kind = ''device_view'', up_extension = ''pdf''\<rparr>
                (ev_based_on ev) (ev_source_revision ev)) (\<lambda>(obj, source_revision).
         seq (on_disk (key_of p)) (\<lambda>key.
         seq (change_side doc Boox (remember_uploaded key hash)) (\<lambda>_.
         act (Uploaded Boox p (co_path obj) source_revision (co_size obj)))))))"

text \<open>One finalized payload; \<open>True\<close> when the function returned.\<close>

definition upload_artifact ::
    "'c folder_transport \<Rightarrow> string \<Rightarrow> document_folders \<Rightarrow> u64 \<Rightarrow> installed_delivery option \<Rightarrow>
       finalized_artifact \<Rightarrow> ('c sync_world, bool) action" where
  "upload_artifact T endpoint f now installed artifact =
     (let sha = fx_sha (ft_ext T); doc = df_document_id f; ev = fa_event artifact;
          p = fa_payload_path artifact; expected = ev_content_sha256 ev;
          source_local_id = sha256_hex sha (ev_event_id ev)
      in seq (on_disk (key_of p)) (\<lambda>key.
         seq (document_now doc) (\<lambda>t.
         let boox = dt_boox t;
             already_uploaded = (bm_get (ss_uploaded_local_hashes boox) key = Some expected);
             accepted = (bm_get (ss_accepted_local_hashes boox) key = Some expected \<or>
               (case bm_get (ss_accepted_source_revisions boox) source_local_id of
                  None \<Rightarrow> False | Some r \<Rightarrow> ev_source_revision ev \<le> r))
         in if accepted then
              seq (case installed of
                     None \<Rightarrow> ok ()
                   | Some i \<Rightarrow>
                       if ev_source_revision ev \<le> rp_boox (id_source_revisions i)
                       then on_disk (retire_accepted_artifact (ft_ext T) endpoint f artifact)
                       else ok ()) (\<lambda>_. ok False)
            else if already_uploaded then ok False
            else
              seq (file_is_settled (fa_descriptor_path artifact) now (ft_settle T)) (\<lambda>descriptor_settled.
              seq (if descriptor_settled then file_is_settled p now (ft_settle T) else ok False) (\<lambda>settled.
              if \<not> settled then ok False
              else
                seq (on_disk (sha256_file sha p)) (\<lambda>hash.
                if hash \<noteq> expected then
                  seq (deferred Boox (''finalized BOOX payload '' @ p @ '' has content hash '' @ hash @
                         '', not descriptor hash '' @ expected @ '', and was preserved for inspection'')) (\<lambda>_.
                  ok False)
                else if ev_payload_kind ev = BooxOperationManifest then
                  seq (upload_prebuilt_boox_manifest T f artifact hash) (\<lambda>_. ok True)
                else
                  seq (document_now doc) (\<lambda>t.
                  if ev_based_on ev = dt_revisions t then
                    seq (upload_boox_pdf_if_ready T (f\<lparr>df_boox_pdf := p\<rparr>) now (Some source_local_id))
                      (\<lambda>_. ok True)
                  else seq (upload_conflicting_boox_handoff T f artifact hash) (\<lambda>_. ok True))))))))"

definition upload_boox_handoff_if_ready ::
    "'c folder_transport \<Rightarrow> string \<Rightarrow> document_folders \<Rightarrow> u64 \<Rightarrow> ('c sync_world, unit) action" where
  "upload_boox_handoff_if_ready T endpoint f now =
     (let X = ft_ext T; doc = df_document_id f
      in seq (document_now doc) (\<lambda>t.
         if ss_pending (dt_boox t) \<noteq> None then ok ()
         else
           seq (on_disk (installed_delivery_of X endpoint f)) (\<lambda>found.
           seq (document_if_any doc) (\<lambda>known.
           let installed =
                 (case (found, known) of
                    (Some i, Some t) \<Rightarrow>
                      (case dt_verified_boox_install t of
                         None \<Rightarrow> None
                       | Some receipt \<Rightarrow> if receipt_matches_ack receipt i then Some i else None)
                  | _ \<Rightarrow> None)
           in seq (on_disk (finalized_artifacts X endpoint f)) (\<lambda>artifacts.
              seq (until_hit (upload_artifact T endpoint f now installed) artifacts) (\<lambda>_. ok ()))))))"

definition upload_boox_if_ready ::
    "'c folder_transport \<Rightarrow> document_folders \<Rightarrow> u64 \<Rightarrow> ('c sync_world, unit) action" where
  "upload_boox_if_ready T f now =
     seq (answer (boox_handoff_endpoint T f)) (\<lambda>endpoint.
     case endpoint of
       None \<Rightarrow> upload_boox_pdf_if_ready T f now None
     | Some e \<Rightarrow> upload_boox_handoff_if_ready T e f now)"

section \<open>Supernote exports\<close>

definition export_frontier :: "baseline_export \<Rightarrow> revision_pair option" where
  "export_frontier export =
     map_option (\<lambda>r. \<lparr>rp_boox = br_boox r, rp_supernote = br_supernote r\<rparr>) (be_based_on export)"

text \<open>The newest accepted revision among the pages of an export and the export as a whole.\<close>

definition same_page_revision ::
    "sha \<Rightarrow> document_folders \<Rightarrow> document_transport \<Rightarrow> u32 list \<Rightarrow> string \<Rightarrow> u64" where
  "same_page_revision sha f t pages source_local_id =
     fold (\<lambda>identity r.
       case bm_get (ss_accepted_source_revisions (dt_supernote t)) identity of
         None \<Rightarrow> r | Some accepted \<Rightarrow> max r accepted)
       (map (page_identity sha (df_document_id f)) pages @ [source_local_id]) 0"

definition rebase_problem ::
    "revision_pair option \<Rightarrow> revision_pair \<Rightarrow> u64 \<Rightarrow> string \<Rightarrow> string option" where
  "rebase_problem exported_at current page_revision p =
     (case exported_at of
        None \<Rightarrow>
          if current \<noteq> default_revisions then
            Some (''Supernote export '' @ p @ '' has no revision frontier but the broker is already at '' @
                  show_frontier current @ ''; export the page again with the current plugin'')
          else None
      | Some e \<Rightarrow>
          if rp_boox e \<noteq> rp_boox current \<or> rp_supernote current < rp_supernote e \<or>
             rp_supernote e < page_revision then
            Some (''Supernote export '' @ p @ '' was captured at revisions '' @ show_frontier e @
                  '' but the current broker frontier is '' @ show_frontier current @ '' and '' @
                  (if rp_boox e \<noteq> rp_boox current then ''the BOOX revision changed''
                   else if rp_supernote current < rp_supernote e
                   then ''the export is ahead of the current Supernote revision''
                   else ''the same Supernote page changed after this export was captured'') @
                  ''; export the page again after applying all incoming updates'')
          else None)"

definition upload_parsed_export ::
    "'c folder_transport \<Rightarrow> document_folders \<Rightarrow> string \<Rightarrow> string \<Rightarrow> bytes \<Rightarrow> string \<Rightarrow> baseline_export \<Rightarrow>
       revision_pair \<Rightarrow> string \<Rightarrow> ('c sync_world, unit) action" where
  "upload_parsed_export T f p local_key bs content_hash parsed current source_local_id =
     (let X = ft_ext T; sha = fx_sha X; doc = df_document_id f;
          temporary = sibling_temporary p ''native-upload'';
          revision = rp_supernote current + 1
      in seq (answer (if export_frontier parsed \<noteq> None \<and> export_frontier parsed \<noteq> Some current
                then serialize_baseline_export (fx_export_to_json X) parsed
                       \<lparr>br_boox = rp_boox current, br_supernote = rp_supernote current\<rparr>
                else Inr bs)) (\<lambda>payload.
         let payload_hash = sha256_hex sha payload
         in seq (on_disk (persist_snapshot_bytes X f source_local_id revision payload_hash payload)) (\<lambda>snapshot.
            seq (on_disk (key_of snapshot)) (\<lambda>snapshot_key.
            seq (on_disk (io (''could not write '' @ temporary @ '': '') (fs_write temporary payload))) (\<lambda>_.
            seq (caught (upload_source T f
                   \<lparr>up_side = Supernote, up_payload_path = temporary, up_local_key = snapshot_key,
                    up_source_local_id = source_local_id,
                    up_page_indices = map bp_page_index (be_pages parsed),
                    up_local_hash = content_hash, up_payload_hash = payload_hash,
                    up_payload_kind = ''device_view'', up_extension = ''json''\<rparr>)) (\<lambda>result.
            seq (on_disk (ignored (fs_remove_file temporary))) (\<lambda>_.
            seq (answer result) (\<lambda>(obj, source_revision).
            if source_revision \<noteq> revision then
              fail (''Supernote snapshot revision '' @ show_u64 revision @
                    '' does not match uploaded revision '' @ show_u64 source_revision)
            else
              seq (change_side doc Supernote (remember_uploaded local_key content_hash)) (\<lambda>_.
              act (Uploaded Supernote p (co_path obj) source_revision (co_size obj)))))))))))"

definition upload_read_export ::
    "'c folder_transport \<Rightarrow> document_folders \<Rightarrow> string \<Rightarrow> string \<Rightarrow> bytes \<Rightarrow> string \<Rightarrow> ('c sync_world, bool) action" where
  "upload_read_export T f p local_key bs content_hash =
     (let X = ft_ext T; sha = fx_sha X; doc = df_document_id f
      in seq (note_content p local_key content_hash) (\<lambda>_.
         seq (answer (parse_baseline_bytes (fx_export_of_json X) bs p)) (\<lambda>parsed.
         seq (answer (validate_supernote_export_identity X parsed f p)) (\<lambda>_.
         seq (document_now doc) (\<lambda>t.
         if bm_get (ss_uploaded_local_hashes (dt_supernote t)) local_key = Some content_hash then ok False
         else
           let current = dt_revisions t; pages = map bp_page_index (be_pages parsed)
           in seq (answer (snapshot_identity sha doc pages)) (\<lambda>source_local_id.
              case rebase_problem (export_frontier parsed) current
                     (same_page_revision sha f t pages source_local_id) p of
                Some reason \<Rightarrow> seq (deferred Supernote reason) (\<lambda>_. ok True)
              | None \<Rightarrow>
                  seq (upload_parsed_export T f p local_key bs content_hash parsed current source_local_id)
                    (\<lambda>_. ok True)))))))"

definition upload_export ::
    "'c folder_transport \<Rightarrow> document_folders \<Rightarrow> u64 \<Rightarrow> string \<Rightarrow> ('c sync_world, bool) action" where
  "upload_export T f now p =
     seq (file_is_settled p now (ft_settle T)) (\<lambda>settled.
     if \<not> settled then ok False
     else
       seq (on_disk (key_of p)) (\<lambda>local_key.
       seq (observed_content local_key) (\<lambda>observed.
       seq (on_disk (read_snapshot_and_current_hash (fx_sha (ft_ext T)) p))
         (\<lambda>(bs, content_hash, post_read_hash).
       seq (file_is_settled p now (ft_settle T)) (\<lambda>settled.
       if \<not> settled then ok False
       else if post_read_hash \<noteq> content_hash then
         seq (remember_change_now p post_read_hash) (\<lambda>_.
         seq (deferred Supernote (''Supernote export '' @ p @
                '' changed while its upload snapshot was being read'')) (\<lambda>_. ok True))
       else if observed \<noteq> None \<and> observed \<noteq> Some content_hash then
         seq (remember_change_now p post_read_hash) (\<lambda>_.
         seq (deferred Supernote (''settled Supernote export '' @ p @
                '' changed without new filesystem metadata'')) (\<lambda>_. ok True))
       else upload_read_export T f p local_key bs content_hash)))))"

definition upload_supernote_if_ready ::
    "'c folder_transport \<Rightarrow> document_folders \<Rightarrow> u64 \<Rightarrow> ('c sync_world, unit) action" where
  "upload_supernote_if_ready T f now =
     seq (document_now (df_document_id f)) (\<lambda>t.
     if ss_pending (dt_supernote t) \<noteq> None then ok ()
     else
       seq (on_disk (supernote_export_files (df_supernote_export_directory f))) (\<lambda>exports.
       if exports = [] then ok ()
       else
         seq (on_disk (first_unacknowledged_supernote_delivery (ft_ext T) f)) (\<lambda>waiting.
         case waiting of
           Some p \<Rightarrow>
             deferred Supernote (''Supernote export upload is paused until the downloaded manifest '' @ p @
               '' is applied and acknowledged'')
         | None \<Rightarrow> seq (until_hit (upload_export T f now) exports) (\<lambda>_. ok ()))))"

section \<open>One synchronisation\<close>

definition sync_document_transaction ::
    "'c folder_transport \<Rightarrow> document_folders \<Rightarrow> u64 \<Rightarrow> ('c sync_world, unit) action" where
  "sync_document_transaction T f now =
     seq (on_disk (create_dir (df_supernote_export_directory f))) (\<lambda>_.
     seq (on_disk (create_dir (df_supernote_incoming_directory f))) (\<lambda>_.
     seq (observe_conflicts T f) (\<lambda>_.
     seq (document_now (df_document_id f)) (\<lambda>t.
     if dt_conflicts t \<noteq> [] then ok ()
     else
       seq (deliver_outputs T f) (\<lambda>_.
       seq (recover_acknowledged_uploads T f) (\<lambda>_.
       seq (upload_boox_if_ready T f now) (\<lambda>_.
       upload_supernote_if_ready T f now)))))))"

text \<open>The state of a synchronisation that fails is thrown away; its report starts empty.\<close>

definition sync_document ::
    "'c folder_transport \<Rightarrow> document_folders \<Rightarrow> u64 \<Rightarrow> ('c sync_world, transport_action list) action" where
  "sync_document T f now w =
     (case sync_document_transaction T f now (w\<lparr>sw_actions := []\<rparr>) of
        (w', Inl e) \<Rightarrow> (w'\<lparr>sw_state := sw_state w, sw_actions := []\<rparr>, Inl e)
      | (w', Inr _) \<Rightarrow> (w', Inr (sw_actions w')))"

end
