(* ===== verification/Folder_Steps.thy ===== *)
theory Folder_Steps
  imports Folder_Upload
begin

text \<open>
  How the actions of the folder transport change the world.  A relation between the world before and
  after that is reflexive and transitive passes through every combinator (the locale
  \<open>world_relation\<close>); two of them carry the synchronisation: \<open>steady\<close>, of everything that leaves the
  documents alone, and \<open>advances\<close>, of what may move the frontier of one document forward.  Where a
  step relies on what an earlier one has checked, \<open>runs\<close> gives it a precondition that steady
  actions keep.
\<close>

section \<open>Relations through the combinators\<close>

definition within :: "('w \<Rightarrow> 'w \<Rightarrow> bool) \<Rightarrow> ('w, 'a) action \<Rightarrow> bool" where
  "within R m \<longleftrightarrow> (\<forall>w. R w (fst (m w)))"

lemma withinI: "(\<And>w. R w (fst (m w))) \<Longrightarrow> within R m"
  by (simp add: within_def)

lemma withinD: "within R m \<Longrightarrow> R w (fst (m w))"
  by (simp add: within_def)

locale world_relation =
  fixes R :: "'w \<Rightarrow> 'w \<Rightarrow> bool"
  assumes stays: "R w w"
    and composes: "R w w' \<Longrightarrow> R w' w'' \<Longrightarrow> R w w''"
begin

lemma ok: "within R (ok x)" and fail: "within R (fail e)" and answer: "within R (answer r)"
  by (simp_all add: within_def ok_def fail_def answer_def stays)

lemma seq:
  assumes "within R m" and "\<And>x. within R (k x)"
  shows "within R (seq m k)"
proof (rule withinI)
  fix w
  obtain w' r where m: "m w = (w', r)" by force
  with withinD [OF assms(1), of w] have "R w w'" by simp
  then show "R w (fst (seq m k w))"
    using withinD [OF assms(2), where w = w'] by (cases r) (auto simp: seq_def m intro: composes)
qed

lemma caught: "within R m \<Longrightarrow> within R (caught m)"
  by (auto simp: within_def caught_def split_beta)

lemma unless: "within R m \<Longrightarrow> within R (unless c m)"
  by (simp add: unless_def ok)

lemma each: "(\<And>x. within R (f x)) \<Longrightarrow> within R (each f xs)"
  by (induction xs) (simp_all add: ok seq)

lemma until_hit: "(\<And>x. within R (f x)) \<Longrightarrow> within R (until_hit f xs)"
  by (induction xs) (simp_all add: ok seq)

lemma collect: "(\<And>x. within R (f x)) \<Longrightarrow> within R (collect f xs)"
  by (induction xs) (simp_all add: ok seq)

lemma carry: "(\<And>x b. within R (f x b)) \<Longrightarrow> within R (carry f xs b)"
  by (induction xs arbitrary: b) (simp_all add: ok seq)

lemma choice: "within R m \<Longrightarrow> within R n \<Longrightarrow> within R (if c then m else n)"
  by simp

lemma choice_option: "within R m \<Longrightarrow> (\<And>x. within R (k x)) \<Longrightarrow> within R (case v of None \<Rightarrow> m | Some x \<Rightarrow> k x)"
  by (cases v) simp_all

lemma choice_side: "within R m \<Longrightarrow> within R n \<Longrightarrow> within R (case s of Boox \<Rightarrow> m | Supernote \<Rightarrow> n)"
  by (cases s) simp_all

lemma choice_prod: "(\<And>a b. within R (k a b)) \<Longrightarrow> within R (case v of (a, b) \<Rightarrow> k a b)"
  by (cases v) simp

lemmas combinators = ok fail answer seq caught unless each until_hit collect carry choice
  choice_option choice_side choice_prod

end

text \<open>A relation that only looks at the state and the report is kept by the disk and the cloud.\<close>

locale report_relation = world_relation R for R :: "'c sync_world \<Rightarrow> 'c sync_world \<Rightarrow> bool" +
  assumes elsewhere: "sw_state w' = sw_state w \<Longrightarrow> sw_actions w' = sw_actions w \<Longrightarrow> R w w'"
begin

lemma on_disk: "within R (on_disk m)"
  by (rule withinI) (simp add: on_disk_def split_beta elsewhere)

lemma on_cloud: "within R (on_cloud m)"
  by (rule withinI) (simp add: on_cloud_def split_beta elsewhere)

lemma on_both: "within R (on_both m)"
  by (rule withinI) (simp add: on_both_def split_beta elsewhere)

lemma readers: "within R state_now" "within R clock_now" "within R (document_if_any d)"
  by (simp_all add: within_def state_now_def clock_now_def document_if_any_def stays)

lemmas world_rules = combinators on_disk on_cloud on_both readers

end

section \<open>The two relations\<close>

fun upload_of :: "transport_action \<Rightarrow> (device_side \<times> u64) list" where
  "upload_of (Uploaded side local_path object_path revision n) = [(side, revision)]"
| "upload_of (Delivered side object_path local_path generation) = []"
| "upload_of (Deferred side reason) = []"
| "upload_of (ConflictAction object_path) = []"

definition uploads :: "transport_action list \<Rightarrow> (device_side \<times> u64) list" where
  "uploads as = concat (map upload_of as)"

lemma uploads_simps [simp]: "uploads [] = []" "uploads (as @ bs) = uploads as @ uploads bs"
  "uploads [a] = upload_of a"
  by (simp_all add: uploads_def)

definition quiet_report :: "'c sync_world \<Rightarrow> 'c sync_world \<Rightarrow> bool" where
  "quiet_report w w' \<longleftrightarrow> (\<exists>as. sw_actions w' = sw_actions w @ as \<and> uploads as = [])"

lemma quiet_report_refl [simp]: "sw_actions w' = sw_actions w \<Longrightarrow> quiet_report w w'"
  by (simp add: quiet_report_def)

lemma quiet_report_trans: "quiet_report w w' \<Longrightarrow> quiet_report w' w'' \<Longrightarrow> quiet_report w w''"
  unfolding quiet_report_def by (elim exE conjE) (rule exI, auto)

definition steady :: "'c sync_world \<Rightarrow> 'c sync_world \<Rightarrow> bool" where
  "steady w w' \<longleftrightarrow>
     (\<forall>d. document_of d (sw_state w') = document_of d (sw_state w)) \<and> quiet_report w w'"

definition pending_of_side :: "document_transport \<Rightarrow> device_side \<Rightarrow> pending_upload option" where
  "pending_of_side t side = ss_pending (transport_side t side)"

text \<open>A frontier only moves forward, and a pending upload stays until the frontier covers it; the
  conflicts are only observed at the start.\<close>

definition document_advances :: "document_transport \<Rightarrow> document_transport \<Rightarrow> bool" where
  "document_advances t t' \<longleftrightarrow> dt_conflicts t' = dt_conflicts t \<and>
     revisions_le (dt_revisions t) (dt_revisions t') \<and>
     (\<forall>side. pending_of_side t' side = pending_of_side t side \<or>
        pending_of_side t' side = None \<and>
        (\<forall>p. pending_of_side t side = Some p \<longrightarrow> pu_source_revision p \<le> rp_get (dt_revisions t') side))"

definition advances :: "string \<Rightarrow> 'c sync_world \<Rightarrow> 'c sync_world \<Rightarrow> bool" where
  "advances doc w w' \<longleftrightarrow>
     document_advances (document_of doc (sw_state w)) (document_of doc (sw_state w')) \<and>
     (\<forall>d. d \<noteq> doc \<longrightarrow> document_of d (sw_state w') = document_of d (sw_state w)) \<and> quiet_report w w'"

lemma document_advances_refl [simp]: "document_advances t t"
  by (simp add: document_advances_def)

lemma document_advances_trans:
  assumes "document_advances t t'" and "document_advances t' t''"
  shows "document_advances t t''"
proof -
  have le: "revisions_le (dt_revisions t') (dt_revisions t'')" using assms(2)
    by (simp add: document_advances_def)
  show ?thesis
    using assms le unfolding document_advances_def revisions_le_iff
    by (metis order_trans option.distinct(1))
qed

interpretation steady: report_relation steady
  by unfold_locales (auto simp: steady_def intro: quiet_report_trans)

interpretation adv: report_relation "advances doc" for doc
proof unfold_locales
  fix w w' w'' :: "'c sync_world"
  assume "advances doc w w'" and "advances doc w' w''"
  then show "advances doc w w''"
    by (auto simp: advances_def intro: document_advances_trans quiet_report_trans)
qed (simp_all add: advances_def)

lemma steady_advances: "steady w w' \<Longrightarrow> advances doc w w'"
  by (simp add: steady_def advances_def)

lemma steady_within_advances: "within steady m \<Longrightarrow> within (advances doc) m"
  by (simp add: within_def steady_advances)

section \<open>Changes of the state\<close>

lemma document_of_update:
  "document_of d (update_document doc g s) = (if d = doc then g (document_of doc s) else document_of d s)"
  by (simp add: document_of_def update_document_def)

lemma document_of_observations [simp]:
  "document_of d (s\<lparr>ts_observations := obs\<rparr>) = document_of d s"
  by (simp add: document_of_def)

lemma steady_document_now: "within steady (document_now doc)"
  by (simp add: within_def steady_def document_now_def document_of_update)

lemma steady_observe: "within steady (observe key obs)"
  by (simp add: within_def steady_def observe_def change_state_def)

lemma steady_act: "upload_of a = [] \<Longrightarrow> within steady (act a)"
  by (simp add: within_def steady_def act_def quiet_report_def)

lemma steady_deferred: "within steady (deferred side reason)"
  by (simp add: deferred_def steady_act)

lemmas steady_rules = steady.world_rules steady_document_now steady_observe steady_deferred

text \<open>Fields of a side other than its pending upload may change as they like.\<close>

definition keeps_pending :: "(side_state \<Rightarrow> side_state) \<Rightarrow> bool" where
  "keeps_pending g \<longleftrightarrow> (\<forall>s. ss_pending (g s) = ss_pending s)"

lemma keeps_pending_rules [simp]:
  "keeps_pending (raise_accepted i r)" "keeps_pending (forget_later_revisions a)"
  "keeps_pending (remember_uploaded key hash)" "keeps_pending (remember_accepted key hash)"
  "keeps_pending (\<lambda>s. s\<lparr>ss_accepted_local_hashes := m\<rparr>)"
  "keeps_pending (\<lambda>s. s\<lparr>ss_recovered_source_identities := h s\<rparr>)"
  by (simp_all add: keeps_pending_def raise_accepted_def forget_later_revisions_def
      remember_uploaded_def remember_accepted_def)

lemma transport_side_update [simp]:
  "transport_side (update_side side g t) s = (if s = side then g (transport_side t s) else transport_side t s)"
  by (cases s; cases side) (simp_all add: transport_side_def update_side_def)

lemma update_side_fields [simp]:
  "dt_revisions (update_side side g t) = dt_revisions t"
  "dt_conflicts (update_side side g t) = dt_conflicts t"
  "dt_delivered_generations (update_side side g t) = dt_delivered_generations t"
  by (cases side; simp add: update_side_def)+

lemma advances_change_document:
  assumes "\<And>t. document_advances t (g t)"
  shows "within (advances doc) (change_document doc g)"
  using assms by (simp add: within_def advances_def change_document_def change_state_def document_of_update)

lemma advances_change_side: "keeps_pending g \<Longrightarrow> within (advances doc) (change_side doc side g)"
  unfolding change_side_def
  by (rule advances_change_document) (simp add: document_advances_def pending_of_side_def keeps_pending_def)

lemma advances_mark_delivered: "within (advances (df_document_id f)) (mark_delivered f key)"
  unfolding mark_delivered_def
  by (rule advances_change_document)
    (simp add: document_advances_def pending_of_side_def transport_side_def split: device_side.splits)

lemma advances_act: "upload_of a = [] \<Longrightarrow> within (advances doc) (act a)"
  by (rule steady_within_advances) (rule steady_act)

lemmas advances_rules = adv.world_rules
  steady_document_now [THEN steady_within_advances] steady_observe [THEN steady_within_advances]
  steady_deferred [THEN steady_within_advances] advances_change_side advances_mark_delivered

end
