(* ===== verification/Folder_Sync_Facts.thy ===== *)
theory Folder_Sync_Facts
  imports Folder_Steps
begin

text \<open>
  Each action of a synchronisation, classified: what is \<open>steady\<close>, what \<open>advances\<close> the document, and
  what an upload leaves behind.
\<close>

section \<open>Steady actions\<close>

lemma steady_cloud_list: "within steady (cloud_list T p)"
  unfolding cloud_list_def by (rule steady.on_cloud)

lemma steady_file_is_settled: "within steady (file_is_settled p now s)"
  unfolding file_is_settled_def by (auto simp: Let_def intro!: steady_rules)

lemma steady_remember: "within steady (remember_file_hash p t hash)"
  unfolding remember_file_hash_def by (auto intro!: steady_rules)

lemma steady_remember_now: "within steady (remember_file_now p hash)" "within steady (remember_change_now p hash)"
  unfolding remember_file_now_def remember_change_now_def remember_content_change_def
  by (auto intro!: steady_rules steady_remember)

lemma steady_observed_content: "within steady (observed_content key)"
  unfolding observed_content_def by (auto intro!: steady_rules)

lemma steady_note_content: "within steady (note_content p key hash)"
  unfolding note_content_def by (auto intro!: steady_rules)

lemma steady_download: "within steady (download_verified T obj p e)"
  unfolding download_verified_def Let_def by (auto intro!: steady_rules)

lemma steady_unpublished: "within steady (boox_has_unpublished_local_edit f i)"
  unfolding boox_has_unpublished_local_edit_def
  by (auto intro!: steady_rules split: file_id.split)

lemmas steady_parts = steady_cloud_list steady_file_is_settled steady_remember_now
  steady_observed_content steady_note_content steady_download steady_unpublished

lemmas steady_actions = steady_rules steady_parts

lemma steady_restore_pair: "within steady (restore_verified_boox_install_pair T e f r)"
  unfolding restore_verified_boox_install_pair_def restore_recovery_pdf_def Let_def
  by (auto intro!: steady_actions)

lemma steady_publish: "within steady k \<Longrightarrow> within steady (publish_descriptor d k)"
  unfolding publish_descriptor_def by (auto intro!: steady_actions)

lemma steady_redeliver: "within steady (redeliver_to_boox T obj h d)"
  "within steady (redeliver_to_supernote T f obj h p)"
  unfolding redeliver_to_boox_def redeliver_to_supernote_def Let_def
  by (auto intro!: steady_actions steady_publish steady_act)

lemma steady_output_candidates: "within steady (output_candidates T f)"
  unfolding output_candidates_def by (auto intro!: steady_actions)

lemma steady_check_known: "within steady (check_known_content T f key)"
  unfolding check_known_content_def by (auto intro!: steady_actions)

lemma steady_baseline_changed: "within steady (baseline_changed T b)"
  unfolding baseline_changed_def by (auto intro!: steady_actions split: prod.split)

section \<open>Recovery\<close>

lemmas advances_actions = advances_rules steady_parts [THEN steady_within_advances]

lemma advances_recover_identity: "within (advances (df_document_id f)) (recover_supernote_source_identity T f obj)"
  unfolding recover_supernote_source_identity_def recover_legacy_identity_def legacy_payload_pages_def Let_def
  by (intro advances_actions) simp_all

lemma advances_recover_object:
  "within (advances (df_document_id f)) (recover_object T f side r obj acc)"
  unfolding recover_object_def Let_def
  by (intro advances_actions advances_recover_identity)

lemma advances_ensure: "within (advances doc) (ensure_supernote_accepted_snapshot T f i a)"
  unfolding ensure_supernote_accepted_snapshot_def Let_def by (auto intro!: advances_actions)

lemma advances_install_accepted:
  "within (advances (df_document_id f)) (install_accepted T f side files e)"
  unfolding install_accepted_def Let_def
  by (intro advances_actions advances_ensure) simp_all

lemma advances_recover: "within (advances (df_document_id f)) (recover_acknowledged_uploads T f)"
  unfolding recover_acknowledged_uploads_def recover_side_def Let_def
  by (intro advances_actions advances_recover_object advances_install_accepted) simp_all

section \<open>Preconditions that steady actions keep\<close>

definition runs ::
    "('w \<Rightarrow> bool) \<Rightarrow> ('w \<Rightarrow> 'w \<Rightarrow> string + 'a \<Rightarrow> bool) \<Rightarrow> ('w, 'a) action \<Rightarrow> bool" where
  "runs P Q m \<longleftrightarrow> (\<forall>w. P w \<longrightarrow> Q w (fst (m w)) (snd (m w)))"

locale guarded_steps =
  fixes P :: "'c sync_world \<Rightarrow> bool"
    and Q :: "'c sync_world \<Rightarrow> 'c sync_world \<Rightarrow> string + 'a \<Rightarrow> bool"
  assumes stable: "P w \<Longrightarrow> steady w w' \<Longrightarrow> P w'"
    and absorbs: "steady w w' \<Longrightarrow> Q w' w'' r \<Longrightarrow> Q w w'' r"
    and failing: "steady w w' \<Longrightarrow> Q w w' (Inl e)"
begin

lemma seq:
  assumes "within steady m" and "\<And>x. runs P Q (k x)"
  shows "runs P Q (seq m k)"
  unfolding runs_def
proof (intro allI impI)
  fix w assume "P w"
  obtain w' r where m: "m w = (w', r)" by force
  with withinD [OF assms(1), of w] have s: "steady w w'" by simp
  show "Q w (fst (seq m k w)) (snd (seq m k w))"
  proof (cases r)
    case (Inl e)
    with m s show ?thesis by (simp add: seq_def failing)
  next
    case (Inr x)
    with assms(2) [of x] stable [OF \<open>P w\<close> s] have "Q w' (fst (k x w')) (snd (k x w'))"
      by (simp add: runs_def)
    with m Inr s show ?thesis by (simp add: seq_def absorbs)
  qed
qed

lemma document_now:
  assumes "\<And>w. P w \<Longrightarrow> runs P Q (k (document_of doc (sw_state w)))"
  shows "runs P Q (seq (document_now doc) k)"
  unfolding runs_def
proof (intro allI impI)
  fix w assume "P w"
  let ?w = "fst (document_now doc w)"
  have s: "steady w ?w" using steady_document_now by (rule withinD)
  with assms [OF \<open>P w\<close>] stable [OF \<open>P w\<close>]
  have "Q ?w (fst (k (document_of doc (sw_state w)) ?w)) (snd (k (document_of doc (sw_state w)) ?w))"
    by (simp add: runs_def)
  with absorbs [OF s] show "Q w (fst (seq (document_now doc) k w)) (snd (seq (document_now doc) k w))"
    by (simp add: seq_def document_now_def)
qed

lemma fail: "runs P Q (fail e)"
  by (simp add: runs_def fail_def failing steady.stays)

lemma choice: "(c \<Longrightarrow> runs P Q m) \<Longrightarrow> (\<not> c \<Longrightarrow> runs P Q n) \<Longrightarrow> runs P Q (if c then m else n)"
  by simp

lemma choice_option:
  "(v = None \<Longrightarrow> runs P Q m) \<Longrightarrow> (\<And>x. v = Some x \<Longrightarrow> runs P Q (k x)) \<Longrightarrow>
     runs P Q (case v of None \<Rightarrow> m | Some x \<Rightarrow> k x)"
  by (cases v) simp_all

lemma choice_prod: "(\<And>a b. v = (a, b) \<Longrightarrow> runs P Q (k a b)) \<Longrightarrow> runs P Q (case v of (a, b) \<Rightarrow> k a b)"
  by (cases v) simp

lemmas guarded_rules = fail choice choice_option choice_prod

end

section \<open>Delivery\<close>

definition frontier_below :: "string \<Rightarrow> revision_pair \<Rightarrow> 'c sync_world \<Rightarrow> bool" where
  "frontier_below doc frontier w \<longleftrightarrow> revisions_le (dt_revisions (document_of doc (sw_state w))) frontier"

interpretation delivery: guarded_steps "frontier_below doc frontier" "\<lambda>w w' r. advances doc w w'"
  for doc frontier
  by unfold_locales
    (auto simp: frontier_below_def steady_def intro: adv.composes steady_advances [unfolded steady_def])

lemma dominates_iff: "dominates a b \<longleftrightarrow> revisions_le b a"
  by (simp add: dominates_def revisions_le_def)

lemma within_runs: "within R m \<Longrightarrow> runs P (\<lambda>w w' r. R w w') m"
  by (simp add: within_def runs_def)

lemma runs_adv_seq:
  assumes "runs P (\<lambda>w w' r. advances doc w w') m" and "\<And>x. within (advances doc) (k x)"
  shows "runs P (\<lambda>w w' r. advances doc w w') (seq m k)"
  unfolding runs_def
proof (intro allI impI)
  fix w assume "P w"
  obtain w' r where m: "m w = (w', r)" by force
  have "advances doc w w'" using assms(1) \<open>P w\<close> m unfolding runs_def by force
  then show "advances doc w (fst (seq m k w))"
    using assms(2) by (cases r) (auto simp: seq_def m within_def intro: adv.composes)
qed

lemma pending_settle:
  "pending_of_side (settle_pending frontier source t) side =
     (if side = source then
        (case pending_of_side t side of
           None \<Rightarrow> None
         | Some p \<Rightarrow> if pu_source_revision p \<le> rp_get frontier side then None else Some p)
      else pending_of_side t side)"
  by (auto simp: settle_pending_def pending_of_side_def split: option.splits)

lemma settle_pending_fields [simp]:
  "dt_revisions (settle_pending frontier source t) = dt_revisions t"
  "dt_conflicts (settle_pending frontier source t) = dt_conflicts t"
  by (simp_all add: settle_pending_def split: option.splits)

lemma record_frontier_advances:
  "revisions_le (dt_revisions t) frontier \<Longrightarrow>
     document_advances t (record_delivered_frontier frontier side hash t)"
  by (cases side)
    (auto simp: document_advances_def record_delivered_frontier_def pending_settle all_sides
      split: option.splits,
     auto simp: pending_of_side_def transport_side_def update_side_def)

lemma runs_record_frontier:
  "runs (frontier_below doc frontier) (\<lambda>w w' r. advances doc w w')
     (change_document doc (record_delivered_frontier frontier side hash))"
  by (simp add: runs_def frontier_below_def advances_def change_document_def change_state_def
      document_of_update record_frontier_advances)

lemma runs_acknowledge:
  "runs (frontier_below (df_document_id f) frontier) (\<lambda>w w' r. advances (df_document_id f) w w')
     (acknowledge_output T f (side, obj, frontier) expected p)"
  unfolding acknowledge_output_def
  by (auto intro!: delivery.seq delivery.guarded_rules steady_actions runs_adv_seq [OF runs_record_frontier]
      advances_rules advances_act within_runs [OF steady_within_advances [OF steady_deferred]])

lemma runs_publish:
  "runs P (\<lambda>w w' r. advances doc w w') k \<Longrightarrow> guarded_steps P (\<lambda>w w' (r :: string + unit). advances doc w w') \<Longrightarrow>
     runs P (\<lambda>w w' r. advances doc w w') (publish_descriptor d k)"
  unfolding publish_descriptor_def
  by (rule guarded_steps.seq, assumption, rule steady.on_disk)
    (simp add: within_runs steady_within_advances steady_deferred)

lemma runs_place:
  "runs (frontier_below (df_document_id f) frontier) (\<lambda>w w' r. advances (df_document_id f) w w')
     (place_output T f (side, obj, frontier) expected p delivery)"
  unfolding place_output_def fetch_output_def Let_def prod.case
  by (intro delivery.seq delivery.guarded_rules steady_actions runs_acknowledge runs_publish
      delivery.guarded_steps_axioms within_runs [OF steady_within_advances [OF steady_deferred]])

text \<open>A step that reads the document's record knows it afterwards.\<close>

lemma advances_document_now:
  assumes "\<And>t. runs (\<lambda>w. document_of doc (sw_state w) = t) (\<lambda>w w' r. advances doc' w w') (k t)"
  shows "within (advances doc') (seq (document_now doc) k)"
proof (rule withinI)
  fix w :: "'a sync_world"
  let ?t = "document_of doc (sw_state w)" and ?w = "fst (document_now doc w)"
  have s: "steady w ?w" using steady_document_now by (rule withinD)
  then have "advances doc' ?w (fst (k ?t ?w))"
    using assms [of ?t] by (simp add: runs_def steady_def)
  with adv.composes [OF steady_advances [OF s]] show "advances doc' w (fst (seq (document_now doc) k w))"
    by (simp add: seq_def document_now_def)
qed

lemma runs_choice: "(c \<Longrightarrow> runs P Q m) \<Longrightarrow> (\<not> c \<Longrightarrow> runs P Q n) \<Longrightarrow> runs P Q (if c then m else n)"
  by simp

lemma runs_when_dominated:
  "runs (frontier_below doc frontier) Q m \<Longrightarrow> dominates frontier (dt_revisions t) \<Longrightarrow>
     runs (\<lambda>w. document_of doc (sw_state w) = t) Q m"
  by (auto simp: runs_def frontier_below_def dominates_iff)

lemmas runs_deferred = within_runs [OF steady_within_advances [OF steady_deferred]]

lemma advances_install:
  "within (advances (df_document_id f)) (install_output T f (side, obj, frontier) expected p delivery)"
proof -
  let ?doc = "df_document_id f" and ?place = "place_output T f (side, obj, frontier) expected p delivery"
  have pub: "runs (frontier_below ?doc frontier) (\<lambda>w w' r. advances ?doc w w')
      (case delivery of None \<Rightarrow> ?place
       | Some d \<Rightarrow> seq (on_disk (metadata_if_exists (pd_descriptor_path d)))
           (\<lambda>dm. if dm = None then ?place else publish_descriptor d ?place))"
    by (intro delivery.seq delivery.guarded_rules steady_actions runs_place runs_publish
        delivery.guarded_steps_axioms)
  show ?thesis
    unfolding install_output_def Let_def prod.case
    by (intro advances_document_now runs_choice runs_deferred within_runs [OF advances_mark_delivered]
        runs_when_dominated [OF pub]) simp
qed

lemma advances_accept_installed: "within (advances (df_document_id f)) (accept_installed_frontier f i)"
  unfolding accept_installed_frontier_def Let_def
  by (intro advances_document_now runs_choice within_runs [OF adv.fail] within_runs [OF adv.ok]
      runs_when_dominated [OF runs_record_frontier]) simp

lemma advances_verify: "within (advances (df_document_id f)) (verify_installed_delivery T e f i cs)"
proof -
  have receipt: "within (advances doc) (change_document doc (\<lambda>t. t\<lparr>dt_verified_boox_install := v\<rparr>))" for doc v
    by (rule advances_change_document)
      (simp add: document_advances_def pending_of_side_def transport_side_def split: device_side.splits)
  show ?thesis
    unfolding verify_installed_delivery_def Let_def
    by (intro advances_actions receipt advances_accept_installed
        steady_restore_pair [THEN steady_within_advances])
qed

lemma advances_deliver_output: "within (advances (df_document_id f)) (deliver_output T f e i c)"
proof -
  obtain side obj frontier where "c = (side, obj, frontier)" by (metis prod_cases3)
  then show ?thesis
    unfolding deliver_output_def Let_def
    by (auto intro!: advances_actions advances_install steady_redeliver [THEN steady_within_advances]
        split: option.split device_side.split)
qed

lemma advances_deliver: "within (advances (df_document_id f)) (deliver_outputs T f)"
  unfolding deliver_outputs_def
  by (auto intro!: advances_actions advances_verify advances_deliver_output
      steady_output_candidates [THEN steady_within_advances] split: option.split)

end
