(* ===== verification/Folder_Upload_Facts.thy ===== *)
theory Folder_Upload_Facts
  imports Folder_Sync_Facts
begin

text \<open>
  What an upload leaves behind: at most one upload of a side per synchronisation, made only when
  none is pending, reported with the revision of the pending record it made.
\<close>

section \<open>Relations of an upload\<close>

definition others_same :: "string \<Rightarrow> 'c sync_world \<Rightarrow> 'c sync_world \<Rightarrow> bool" where
  "others_same doc w w' \<longleftrightarrow>
     (\<forall>d. d \<noteq> doc \<longrightarrow> document_of d (sw_state w') = document_of d (sw_state w))"

definition pending_in :: "string \<Rightarrow> device_side \<Rightarrow> 'c sync_world \<Rightarrow> pending_upload option" where
  "pending_in doc side w = pending_of_side (document_of doc (sw_state w)) side"

definition frontier_in :: "string \<Rightarrow> 'c sync_world \<Rightarrow> revision_pair" where
  "frontier_in doc w = dt_revisions (document_of doc (sw_state w))"

definition conflicts_in :: "string \<Rightarrow> 'c sync_world \<Rightarrow> string bset" where
  "conflicts_in doc w = dt_conflicts (document_of doc (sw_state w))"

definition idle :: "string \<Rightarrow> 'c sync_world \<Rightarrow> 'c sync_world \<Rightarrow> bool" where
  "idle doc w w' \<longleftrightarrow> others_same doc w w' \<and> frontier_in doc w' = frontier_in doc w \<and>
     conflicts_in doc w' = conflicts_in doc w \<and>
     (\<forall>side. pending_in doc side w' = pending_in doc side w) \<and> quiet_report w w'"

text \<open>What is pending was made by this upload, from the revision it follows.\<close>

definition made_by :: "device_side \<Rightarrow> transport_action list \<Rightarrow> pending_upload \<Rightarrow> bool" where
  "made_by side as p \<longleftrightarrow> uploads as = [(side, pu_source_revision p)] \<and>
     pu_source_revision p = rp_get (pu_based_on p) side + 1"

definition upload_step :: "string \<Rightarrow> device_side \<Rightarrow> 'c sync_world \<Rightarrow> 'c sync_world \<Rightarrow> bool" where
  "upload_step doc side w w' \<longleftrightarrow> others_same doc w w' \<and> frontier_in doc w' = frontier_in doc w \<and>
     conflicts_in doc w' = conflicts_in doc w \<and>
     pending_in doc (other_side side) w' = pending_in doc (other_side side) w \<and>
     (\<exists>as. sw_actions w' = sw_actions w @ as \<and>
        (uploads as = [] \<and> (pending_in doc side w' = pending_in doc side w \<or> pending_in doc side w = None) \<or>
         pending_in doc side w = None \<and> (\<exists>p. pending_in doc side w' = Some p \<and> made_by side as p)))"

definition none_pending :: "string \<Rightarrow> device_side \<Rightarrow> 'c sync_world \<Rightarrow> bool" where
  "none_pending doc side w \<longleftrightarrow> pending_in doc side w = None"

text \<open>A loop body that answers \<open>False\<close> has left the documents alone.\<close>

definition upload_or_steady :: "string \<Rightarrow> device_side \<Rightarrow> 'c sync_world \<Rightarrow> 'c sync_world \<Rightarrow> string + bool \<Rightarrow> bool" where
  "upload_or_steady doc side w w' r \<longleftrightarrow> (if r = Inr False then steady w w' else upload_step doc side w w')"

interpretation idle: report_relation "idle doc" for doc
  by unfold_locales
    (auto simp: idle_def others_same_def pending_in_def frontier_in_def conflicts_in_def intro: quiet_report_trans)

lemma steady_idle: "steady w w' \<Longrightarrow> idle doc w w'"
  by (simp add: steady_def idle_def others_same_def pending_in_def frontier_in_def conflicts_in_def)

lemma idle_before_upload: "idle doc w w' \<Longrightarrow> upload_step doc side w' w'' \<Longrightarrow> upload_step doc side w w''"
  unfolding idle_def upload_step_def others_same_def quiet_report_def
  by (elim exE conjE) (auto simp: made_by_def)

lemma idle_upload: "idle doc w w' \<Longrightarrow> upload_step doc side w w'"
  unfolding idle_def upload_step_def quiet_report_def by (elim exE conjE) (auto intro!: exI)

interpretation upload: guarded_steps "none_pending doc side" "\<lambda>w w' (r :: string + 'a). upload_step doc side w w'"
  for doc side
  by unfold_locales
    (auto simp: none_pending_def pending_in_def steady_def
      intro: idle_before_upload idle_upload steady_idle [unfolded steady_def])

interpretation upload_loop: guarded_steps "none_pending doc side" "upload_or_steady doc side" for doc side
  by unfold_locales
    (auto simp: none_pending_def pending_in_def upload_or_steady_def intro: steady.composes
      idle_before_upload idle_upload steady_idle, simp add: steady_def)

section \<open>The upload and its report\<close>

lemma idle_change_side: "keeps_pending g \<Longrightarrow> within (idle doc) (change_side doc side g)"
  by (simp add: within_def idle_def others_same_def pending_in_def frontier_in_def conflicts_in_def change_side_def
      change_document_def change_state_def document_of_update pending_of_side_def keeps_pending_def)

definition reported ::
    "string \<Rightarrow> device_side \<Rightarrow> u64 \<Rightarrow> 'c sync_world \<Rightarrow> 'c sync_world \<Rightarrow> string + 'a \<Rightarrow> bool" where
  "reported doc side revision w w' r \<longleftrightarrow>
     (if isl r then idle doc w w'
      else \<exists>w1 lp op n. idle doc w w1 \<and> sw_state w' = sw_state w1 \<and>
             sw_actions w' = sw_actions w1 @ [Uploaded side lp op revision n])"

definition reports :: "string \<Rightarrow> device_side \<Rightarrow> u64 \<Rightarrow> ('c sync_world, 'a) action \<Rightarrow> bool" where
  "reports doc side revision m \<longleftrightarrow> (\<forall>w. reported doc side revision w (fst (m w)) (snd (m w)))"

lemma reports_act: "reports doc side revision (act (Uploaded side lp op revision n))"
  by (auto simp: reports_def reported_def act_def intro: idle.stays)

lemma reports_fail: "reports doc side revision (fail e)"
  by (simp add: reports_def reported_def fail_def idle.stays)

lemma reported_after: "idle doc w w' \<Longrightarrow> reported doc side revision w' w'' r \<Longrightarrow> reported doc side revision w w'' r"
  unfolding reported_def by (metis idle.composes)

lemma reports_seq:
  assumes "within (idle doc) m" and "\<And>x. reports doc side revision (k x)"
  shows "reports doc side revision (seq m k)"
  unfolding reports_def
proof
  fix w
  obtain w' r where m: "m w = (w', r)" by force
  with withinD [OF assms(1), of w] have i: "idle doc w w'" by simp
  show "reported doc side revision w (fst (seq m k w)) (snd (seq m k w))"
  proof (cases r)
    case (Inl e)
    with i m show ?thesis by (simp add: seq_def reported_def)
  next
    case (Inr x)
    have "reported doc side revision w' (fst (k x w')) (snd (k x w'))"
      using assms(2) [of x] by (simp add: reports_def)
    then have "reported doc side revision w (fst (k x w')) (snd (k x w'))" by (rule reported_after [OF i])
    with m Inr show ?thesis by (simp add: seq_def)
  qed
qed

lemma reports_choice: "reports doc side revision m \<Longrightarrow> reports doc side revision n \<Longrightarrow>
    reports doc side revision (if c then m else n)"
  by simp

text \<open>An upload either fails with the documents unchanged or makes the pending record.\<close>

lemma upload_source_at_cases:
  assumes "upload_source_at T f u based_on revision w = (w', r)"
  obtains (failed) e where "r = Inl e" "steady w w'"
  | (made) obj p where "r = Inr (obj, revision)" "pu_source_revision p = revision"
      "pu_based_on p = based_on" "revision = rp_get based_on (up_side u) + 1"
      "document_of (df_document_id f) (sw_state w') =
         update_side (up_side u) (\<lambda>s. s\<lparr>ss_pending := Some p\<rparr>) (document_of (df_document_id f) (sw_state w))"
      "others_same (df_document_id f) w w'" "sw_actions w' = sw_actions w"
      "pu_object_path p = upload_object_path f u revision" "pu_generation p = co_generation obj"
      "pu_payload_content_sha256 p = up_payload_hash u"
proof -
  let ?doc = "df_document_id f"
  let ?w = "w\<lparr>sw_state := update_document ?doc (\<lambda>t. t) (sw_state w)\<rparr>"
  let ?up = "on_both (fx_upload_create (ft_ext T) (up_payload_path u) (upload_object_path f u revision)
               (source_upload_metadata f u based_on revision)) ?w"
  have s: "steady w ?w" by (simp add: steady_def document_of_update)
  note run = assms [unfolded upload_source_at_def seq_def document_now_def]
  show ?thesis
  proof (cases "dt_conflicts (document_of ?doc (sw_state w)) = [] \<and>
      revision = rp_get based_on (up_side u) + 1 \<and> \<not> isl (snd ?up)")
    case False
    then have "w' = ?w \<and> isl r \<or> w' = fst ?up \<and> isl r"
      using run by (auto simp: fail_def Let_def isl_def split: if_splits prod.splits sum.splits)
    moreover have "steady w (fst ?up)"
      using steady.composes [OF s withinD [OF steady.on_both]] .
    ultimately show ?thesis using s failed by (auto simp: isl_def)
  next
    case True
    then obtain w1 obj where up: "?up = (w1, Inr obj)"
      by (cases "snd ?up") (auto simp: prod_eq_iff isl_def)
    then have w1: "sw_state w1 = sw_state ?w" "sw_actions w1 = sw_actions w"
      by (auto simp: on_both_def split: prod.splits)
    show ?thesis
      by (rule made [of obj "\<lparr>pu_object_path = upload_object_path f u revision,
            pu_generation = co_generation obj, pu_source_revision = revision, pu_based_on = based_on,
            pu_local_path = up_local_key u, pu_local_content_sha256 = up_local_hash u,
            pu_payload_content_sha256 = up_payload_hash u\<rparr>"])
        (use run True up w1 in \<open>auto simp: Let_def seq_def ok_def change_side_def change_document_def
            change_state_def document_of_update others_same_def\<close>)
  qed
qed

lemma made_upload_step:
  assumes "pending_in doc side w = None" and "pu_source_revision p = revision"
    and "revision = rp_get (pu_based_on p) side + 1"
    and "document_of doc (sw_state w') =
      update_side side (\<lambda>s. s\<lparr>ss_pending := Some p\<rparr>) (document_of doc (sw_state w))"
    and "others_same doc w w'" and "sw_actions w' = sw_actions w"
    and "reported doc side revision w' w'' r"
  shows "upload_step doc side w w''"
proof -
  have mid: "frontier_in doc w' = frontier_in doc w" "conflicts_in doc w' = conflicts_in doc w" "pending_in doc side w' = Some p"
    "pending_in doc (other_side side) w' = pending_in doc (other_side side) w"
    using assms(4) by (simp_all add: frontier_in_def conflicts_in_def pending_in_def pending_of_side_def)
  obtain w1 as where idle: "idle doc w' w1" and "sw_state w'' = sw_state w1"
    and "sw_actions w'' = sw_actions w1 @ as" and "uploads as = [] \<or> uploads as = [(side, revision)]"
    using assms(7) by (force simp: reported_def split: if_splits)
  moreover obtain bs where "sw_actions w1 = sw_actions w' @ bs" "uploads bs = []"
    using idle by (auto simp: idle_def quiet_report_def)
  ultimately have end_state: "others_same doc w w''" "frontier_in doc w'' = frontier_in doc w"
    "conflicts_in doc w'' = conflicts_in doc w" "pending_in doc side w'' = Some p" "pending_in doc (other_side side) w'' = pending_in doc (other_side side) w"
    "\<exists>as. sw_actions w'' = sw_actions w @ as \<and> (uploads as = [] \<or> uploads as = [(side, revision)])"
    using assms(5,6) mid by (auto simp: idle_def others_same_def frontier_in_def conflicts_in_def pending_in_def)
  then show ?thesis
    unfolding upload_step_def made_by_def using assms(1-3) by auto
qed

lemma upload_then:
  assumes "up_side u = side" and "doc = df_document_id f"
    and "\<And>obj. reports doc side revision (k (obj, revision))"
  shows "runs (none_pending doc side) (\<lambda>w w' r. upload_step doc side w w')
    (seq (upload_source_at T f u based_on revision) k)"
  unfolding runs_def
proof (intro allI impI)
  fix w :: "'a sync_world"
  assume none: "none_pending doc side w"
  obtain w' r where run: "upload_source_at T f u based_on revision w = (w', r)" by force
  show "upload_step doc side w (fst (seq (upload_source_at T f u based_on revision) k w))"
  proof (cases rule: upload_source_at_cases [OF run])
    case (1 e)
    with run show ?thesis by (simp add: seq_def idle_upload steady_idle)
  next
    case (2 obj p)
    have "reported doc side revision w' (fst (k (obj, revision) w')) (snd (k (obj, revision) w'))"
      using assms(3) by (simp add: reports_def)
    with 2 none assms(1,2) run show ?thesis
      by (simp add: seq_def none_pending_def made_upload_step)
  qed
qed

lemma upload_source_cases:
  assumes "upload_source T f u w = (w', r)"
  obtains (failed) e where "r = Inl e" "steady w w'"
  | (made) obj p where "r = Inr (obj, pu_source_revision p)"
      "pu_source_revision p = rp_get (pu_based_on p) (up_side u) + 1"
      "document_of (df_document_id f) (sw_state w') =
         update_side (up_side u) (\<lambda>s. s\<lparr>ss_pending := Some p\<rparr>) (document_of (df_document_id f) (sw_state w))"
      "others_same (df_document_id f) w w'" "sw_actions w' = sw_actions w"
proof -
  let ?doc = "df_document_id f"
  let ?t = "document_of ?doc (sw_state w)" and ?w = "fst (document_now ?doc w)"
  have s: "steady w ?w" using steady_document_now by (rule withinD)
  then have same: "\<forall>d. document_of d (sw_state ?w) = document_of d (sw_state w)" "sw_actions ?w = sw_actions w"
    by (auto simp: steady_def document_now_def)
  have run: "upload_source_at T f u (dt_revisions ?t) (rp_get (dt_revisions ?t) (up_side u) + 1) ?w = (w', r)"
    using assms by (simp add: upload_source_def seq_def document_now_def)
  show ?thesis
  proof (cases rule: upload_source_at_cases [OF run])
    case (1 e)
    then show ?thesis by (intro failed [of e]) (auto intro: steady.composes [OF s])
  next
    case (2 obj p)
    with same show ?thesis by (intro made [of obj p]) (auto simp: others_same_def)
  qed
qed

text \<open>An upload from a temporary file, which is removed whatever the upload answers.\<close>

lemma upload_from_temporary:
  assumes "up_side u = side" and "doc = df_document_id f"
    and "\<And>obj revision. reports doc side revision (k (obj, revision))"
  shows "runs (none_pending doc side) (\<lambda>w w' r. upload_step doc side w w')
    (seq (caught (upload_source T f u)) (\<lambda>result. seq (on_disk (ignored m)) (\<lambda>_. seq (answer result) k)))"
  unfolding runs_def
proof (intro allI impI)
  fix w :: "'a sync_world"
  assume none: "none_pending doc side w"
  obtain w' r where run: "upload_source T f u w = (w', r)" by force
  obtain w2 where ign: "on_disk (ignored m) w' = (w2, Inr ())"
    and same: "sw_state w2 = sw_state w'" "sw_actions w2 = sw_actions w'"
    by (simp add: on_disk_def ignored_def split_beta)
  have rest: "seq (caught (upload_source T f u)) (\<lambda>result. seq (on_disk (ignored m)) (\<lambda>_. seq (answer result) k)) w =
      seq (answer r) k w2"
    using run ign by (simp add: seq_def caught_def)
  show "upload_step doc side w (fst (seq (caught (upload_source T f u))
      (\<lambda>result. seq (on_disk (ignored m)) (\<lambda>_. seq (answer result) k)) w))"
  proof (cases rule: upload_source_cases [OF run])
    case (1 e)
    then have "steady w w2" by (simp add: steady_def quiet_report_def same)
    with rest 1 show ?thesis by (simp add: seq_def answer_def idle_upload steady_idle)
  next
    case (2 obj p)
    have "reported doc side (pu_source_revision p) w2 (fst (k (obj, pu_source_revision p) w2))
        (snd (k (obj, pu_source_revision p) w2))"
      using assms(3) by (simp add: reports_def)
    with 2 none assms(1,2) rest same show ?thesis
      by (simp add: seq_def answer_def none_pending_def made_upload_step [where w' = w2] others_same_def)
  qed
qed

section \<open>The two sides\<close>

lemma idle_steady: "within steady m \<Longrightarrow> within (idle doc) m"
  by (simp add: within_def steady_idle)

lemmas report_rules = reports_seq reports_act reports_fail reports_choice idle_change_side idle.on_disk

lemma uploads_built: "runs (none_pending (df_document_id f) Boox)
    (\<lambda>w w' r. upload_step (df_document_id f) Boox w w') (upload_built_manifest T f key i built)"
  unfolding upload_built_manifest_def Let_def prod.case
  by (intro upload.seq upload_from_temporary steady_actions) (auto intro!: report_rules)

lemma steady_uploads: "within steady m \<Longrightarrow> runs P (\<lambda>w w' r. upload_step doc side w w') m"
  by (simp add: runs_def within_def idle_upload steady_idle)

lemma steady_loop: "within steady m \<Longrightarrow> runs P (upload_or_steady doc side) m"
  by (simp add: runs_def within_def upload_or_steady_def idle_upload steady_idle)

lemma uploads_converted: "runs (none_pending (df_document_id f) Boox)
    (\<lambda>w w' r. upload_step (df_document_id f) Boox w w') (convert_boox_pdf T f now key i baselines)"
  unfolding convert_boox_pdf_def Let_def
  by (intro upload.seq upload.guarded_rules upload.document_now uploads_built steady_actions
      steady_baseline_changed steady_uploads [OF steady.ok]
      steady_uploads [OF steady.seq [OF steady_remember_now(2) steady_deferred]]
      steady_uploads [OF steady_deferred])

lemma uploads_boox_pdf: "runs (none_pending (df_document_id f) Boox)
    (\<lambda>w w' r. upload_step (df_document_id f) Boox w w') (upload_boox_pdf_if_ready T f now i)"
  unfolding upload_boox_pdf_if_ready_def Let_def
  by (intro upload.seq upload.guarded_rules upload.document_now uploads_converted steady_actions
      steady_check_known steady_uploads [OF steady.ok] steady_uploads [OF steady_deferred])

lemma loop_stop:
  "runs P (\<lambda>w w' r. upload_step doc side w w') m \<Longrightarrow> runs P (upload_or_steady doc side) (seq m (\<lambda>_. ok True))"
  by (auto simp: runs_def upload_or_steady_def seq_def ok_def split: prod.splits sum.splits)

lemma loop_body:
  fixes g :: "'b \<Rightarrow> ('a sync_world, bool) action"
  assumes "\<And>x. runs (none_pending doc side) (upload_or_steady doc side) (g x)"
  shows "runs (none_pending doc side) (upload_or_steady doc side) (until_hit g xs)"
proof (induction xs)
  case Nil
  show ?case by (simp add: steady_loop [OF steady.ok])
next
  case (Cons x xs)
  show ?case
    unfolding runs_def
  proof (intro allI impI)
    fix w :: "'a sync_world"
    assume none: "none_pending doc side w"
    obtain w' r where m: "g x w = (w', r)" by force
    have step: "upload_or_steady doc side w w' r"
      using assms [of x] none m unfolding runs_def by force
    show "upload_or_steady doc side w (fst (until_hit g (x # xs) w)) (snd (until_hit g (x # xs) w))"
    proof (cases "r = Inr False")
      case True
      with step have s: "steady w w'" by (simp add: upload_or_steady_def)
      have "upload_or_steady doc side w' (fst (until_hit g xs w')) (snd (until_hit g xs w'))"
        using Cons.IH upload_loop.stable [OF none s] by (simp add: runs_def)
      with True m s show ?thesis by (simp add: seq_def upload_loop.absorbs)
    next
      case False
      with step m show ?thesis
        by (cases r) (auto simp: seq_def ok_def upload_or_steady_def)
    qed
  qed
qed

lemma loop_uploads:
  "(\<And>x. runs (none_pending doc side) (upload_or_steady doc side) (g x)) \<Longrightarrow>
     runs (none_pending doc side) (\<lambda>w w' r. upload_step doc side w w') (seq (until_hit g xs) (\<lambda>_. ok ()))"
  using loop_body [of doc side g xs] idle_upload [OF steady_idle]
  by (fastforce simp: runs_def upload_or_steady_def seq_def ok_def split: prod.splits sum.splits if_splits)

lemma uploads_handoff_payload:
  "runs (none_pending (df_document_id f) Boox) (\<lambda>w w' r. upload_step (df_document_id f) Boox w w')
     (upload_prebuilt_boox_manifest T f artifact h)"
  "runs (none_pending (df_document_id f) Boox) (\<lambda>w w' r. upload_step (df_document_id f) Boox w w')
     (upload_conflicting_boox_handoff T f artifact h)"
  unfolding upload_prebuilt_boox_manifest_def upload_conflicting_boox_handoff_def Let_def
  by (intro upload.seq upload_then steady_actions; auto intro!: report_rules)+

lemma loop_artifact:
  "runs (none_pending (df_document_id f) Boox) (upload_or_steady (df_document_id f) Boox)
     (upload_artifact T e f now installed artifact)"
proof -
  have pdf: "runs (none_pending (df_document_id f) Boox) (\<lambda>w w' r. upload_step (df_document_id f) Boox w w')
      (upload_boox_pdf_if_ready T (f\<lparr>df_boox_pdf := p\<rparr>) now i)" for p i
    using uploads_boox_pdf [of "f\<lparr>df_boox_pdf := p\<rparr>"] by simp
  show ?thesis
    unfolding upload_artifact_def Let_def
    by (intro upload_loop.seq upload_loop.guarded_rules upload_loop.document_now steady_actions
        loop_stop uploads_handoff_payload pdf steady_loop [OF steady.ok])
qed

lemma uploads_boox:
  "runs (none_pending (df_document_id f) Boox) (\<lambda>w w' r. upload_step (df_document_id f) Boox w w')
     (upload_boox_if_ready T f now)"
  unfolding upload_boox_if_ready_def upload_boox_handoff_if_ready_def Let_def
  by (intro upload.seq upload.guarded_rules upload.document_now steady_actions uploads_boox_pdf
      loop_uploads loop_artifact steady_uploads [OF steady.ok])

lemma uploads_parsed_export:
  "runs (none_pending (df_document_id f) Supernote) (\<lambda>w w' r. upload_step (df_document_id f) Supernote w w')
     (upload_parsed_export T f p key bs hash parsed current i)"
  unfolding upload_parsed_export_def Let_def prod.case
  by (intro upload.seq upload_from_temporary steady_actions) (auto intro!: report_rules)

lemma loop_export:
  "runs (none_pending (df_document_id f) Supernote) (upload_or_steady (df_document_id f) Supernote)
     (upload_export T f now p)"
  unfolding upload_export_def upload_read_export_def Let_def
  by (intro upload_loop.seq upload_loop.guarded_rules upload_loop.document_now steady_actions
      loop_stop uploads_parsed_export steady_loop [OF steady.ok]
      steady_loop [OF steady.seq [OF steady_deferred steady.ok]])

lemma uploads_supernote:
  "runs (none_pending (df_document_id f) Supernote) (\<lambda>w w' r. upload_step (df_document_id f) Supernote w w')
     (upload_supernote_if_ready T f now)"
  unfolding upload_supernote_if_ready_def
  by (intro upload.seq upload.guarded_rules upload.document_now steady_actions
      loop_uploads loop_export steady_uploads [OF steady.ok] steady_uploads [OF steady_deferred])

end
