(* ===== verification/Folder_Sync_Properties.thy ===== *)
theory Folder_Sync_Properties
  imports Folder_Upload_Facts
begin

text \<open>
  The protocol that one synchronisation of a document keeps, whatever the disk, the cloud and the
  other programs do meanwhile.
\<close>

section \<open>Watching conflicts\<close>

fun is_conflict_action :: "transport_action \<Rightarrow> bool" where
  "is_conflict_action (ConflictAction p) \<longleftrightarrow> True"
| "is_conflict_action (Uploaded side local_path object_path revision n) \<longleftrightarrow> False"
| "is_conflict_action (Delivered side object_path local_path generation) \<longleftrightarrow> False"
| "is_conflict_action (Deferred side reason) \<longleftrightarrow> False"

definition noting :: "string \<Rightarrow> 'c sync_world \<Rightarrow> 'c sync_world \<Rightarrow> bool" where
  "noting doc w w' \<longleftrightarrow> others_same doc w w' \<and>
     (\<exists>c. document_of doc (sw_state w') = (document_of doc (sw_state w))\<lparr>dt_conflicts := c\<rparr>) \<and>
     (\<exists>as. sw_actions w' = sw_actions w @ as \<and> list_all is_conflict_action as)"

lemma same_conflicts: "\<exists>c. t = t\<lparr>dt_conflicts := c\<rparr>"
  by (rule exI [of _ "dt_conflicts t"]) simp

interpretation noting: report_relation "noting doc" for doc
proof unfold_locales
  fix w w' w'' :: "'a sync_world"
  show "noting doc w w" by (auto simp: noting_def others_same_def same_conflicts)
  assume "noting doc w w'" and "noting doc w' w''"
  then show "noting doc w w''"
    unfolding noting_def others_same_def by (elim conjE exE) (auto intro!: exI)
qed (auto simp: noting_def others_same_def same_conflicts)

lemma noting_observe: "within (noting (df_document_id f)) (observe_conflicts T f)"
proof -
  have change: "within (noting doc) (change_document doc (\<lambda>t. t\<lparr>dt_conflicts := c\<rparr>))" for doc c
    by (auto simp: within_def noting_def others_same_def change_document_def change_state_def
        document_of_update)
  have conflict: "within (noting doc) (act (ConflictAction p))" for doc p
    by (auto simp: within_def noting_def others_same_def act_def same_conflicts)
  have read: "within (noting doc) (document_now doc)" for doc
    by (auto simp: within_def noting_def others_same_def document_now_def document_of_update same_conflicts)
  show ?thesis
    unfolding observe_conflicts_def cloud_list_def Let_def
    by (intro noting.world_rules change conflict read)
qed

section \<open>The transaction\<close>

lemma seq_Inr_iff:
  "seq m k w = (w', Inr y) \<longleftrightarrow> (\<exists>w1 x. m w = (w1, Inr x) \<and> k x w1 = (w', Inr y))"
  by (auto simp: seq_def split: prod.splits sum.splits)

lemma within_result: "within R m \<Longrightarrow> m w = (w', r) \<Longrightarrow> R w w'"
  using withinD [of R m w] by simp

lemma runs_result: "runs P Q m \<Longrightarrow> P w \<Longrightarrow> m w = (w', r) \<Longrightarrow> Q w w' r"
  unfolding runs_def by force

text \<open>Nothing is uploaded for a side whose upload is still pending.\<close>

interpretation waiting: guarded_steps "\<lambda>w. \<not> none_pending doc side w" "\<lambda>w w' (r :: string + 'a). steady w w'"
  for doc side
  by unfold_locales (auto simp: none_pending_def pending_in_def steady_def intro: quiet_report_trans)

lemmas pending_simps = none_pending_def pending_in_def pending_of_side_def transport_side_def

lemma waits_boox:
  "runs (\<lambda>w. \<not> none_pending (df_document_id f) Boox w) (\<lambda>w w' r. steady w w') (upload_boox_if_ready T f now)"
  unfolding upload_boox_if_ready_def upload_boox_handoff_if_ready_def upload_boox_pdf_if_ready_def Let_def
  by (intro waiting.seq waiting.guarded_rules waiting.document_now steady_actions
      within_runs [OF steady.ok]) (simp_all add: pending_simps)

lemma waits_supernote:
  "runs (\<lambda>w. \<not> none_pending (df_document_id f) Supernote w) (\<lambda>w w' r. steady w w')
     (upload_supernote_if_ready T f now)"
  unfolding upload_supernote_if_ready_def
  by (intro waiting.guarded_rules waiting.document_now within_runs [OF steady.ok])
    (simp_all add: pending_simps)

text \<open>What the two halves of an upload phase have in common.\<close>

lemma upload_phase:
  assumes "runs (none_pending doc side) (\<lambda>w w' r. upload_step doc side w w') m"
    and "runs (\<lambda>w. \<not> none_pending doc side w) (\<lambda>w w' r. steady w w') m"
  shows "within (upload_step doc side) m"
proof (rule withinI)
  fix w
  show "upload_step doc side w (fst (m w))"
    using assms by (cases "none_pending doc side w") (auto simp: runs_def idle_upload steady_idle)
qed

lemmas uploads_boox_phase = upload_phase [OF uploads_boox waits_boox]
lemmas uploads_supernote_phase = upload_phase [OF uploads_supernote waits_supernote]

text \<open>The uploads of a side in a report: none, or one, which is what is pending now and could
  replace what was pending before.\<close>

definition one_upload ::
    "device_side \<Rightarrow> document_transport \<Rightarrow> document_transport \<Rightarrow> (device_side \<times> u64) list \<Rightarrow> bool" where
  "one_upload side t t' us \<longleftrightarrow> us = [] \<or>
     (\<exists>p. us = [(side, pu_source_revision p)] \<and> pending_of_side t' side = Some p \<and>
        pu_source_revision p = rp_get (pu_based_on p) side + 1 \<and>
        (\<forall>q. pending_of_side t side = Some q \<longrightarrow> pu_source_revision q \<le> rp_get (dt_revisions t') side))"

lemma two_phases:
  assumes "advances doc w w1" and "upload_step doc Boox w1 w2" and "upload_step doc Supernote w2 w3"
  shows "others_same doc w w3" and "revisions_le (frontier_in doc w) (frontier_in doc w3)"
    and "conflicts_in doc w3 = conflicts_in doc w"
    and "pending_in doc side w = Some p \<Longrightarrow>
      pending_in doc side w3 = Some p \<or> pu_source_revision p \<le> rp_get (frontier_in doc w3) side"
    and "\<exists>as bs cs. sw_actions w3 = sw_actions w @ as \<and> uploads as = bs @ cs \<and>
      one_upload Boox (document_of doc (sw_state w)) (document_of doc (sw_state w3)) bs \<and>
      one_upload Supernote (document_of doc (sw_state w)) (document_of doc (sw_state w3)) cs"
proof -
  note pend = pending_in_def frontier_in_def conflicts_in_def
  obtain as0 where as0: "sw_actions w1 = sw_actions w @ as0" "uploads as0 = []"
    using assms(1) by (auto simp: advances_def quiet_report_def)
  obtain as1 where as1: "sw_actions w2 = sw_actions w1 @ as1"
    and boox: "uploads as1 = [] \<and> (pending_in doc Boox w2 = pending_in doc Boox w1 \<or> pending_in doc Boox w1 = None) \<or>
       pending_in doc Boox w1 = None \<and> (\<exists>p. pending_in doc Boox w2 = Some p \<and> made_by Boox as1 p)"
    using assms(2) unfolding upload_step_def by blast
  obtain as2 where as2: "sw_actions w3 = sw_actions w2 @ as2"
    and sup: "uploads as2 = [] \<and> (pending_in doc Supernote w3 = pending_in doc Supernote w2 \<or> pending_in doc Supernote w2 = None) \<or>
       pending_in doc Supernote w2 = None \<and> (\<exists>p. pending_in doc Supernote w3 = Some p \<and> made_by Supernote as2 p)"
    using assms(3) unfolding upload_step_def by blast
  have same: "pending_in doc Supernote w2 = pending_in doc Supernote w1"
    "pending_in doc Boox w3 = pending_in doc Boox w2"
    "frontier_in doc w2 = frontier_in doc w1" "frontier_in doc w3 = frontier_in doc w2"
    using assms(2,3) by (simp_all add: upload_step_def)
  have adv: "revisions_le (frontier_in doc w) (frontier_in doc w1)"
    "\<And>side. pending_in doc side w1 = pending_in doc side w \<or>
       pending_in doc side w1 = None \<and>
       (\<forall>p. pending_in doc side w = Some p \<longrightarrow> pu_source_revision p \<le> rp_get (frontier_in doc w1) side)"
    using assms(1) by (auto simp: advances_def document_advances_def pend)
  show "others_same doc w w3"
    using assms by (simp add: advances_def upload_step_def others_same_def)
  show "revisions_le (frontier_in doc w) (frontier_in doc w3)" using adv(1) same by simp
  show "conflicts_in doc w3 = conflicts_in doc w"
    using assms by (simp add: advances_def document_advances_def upload_step_def conflicts_in_def)
  show "pending_in doc side w3 = Some p \<or> pu_source_revision p \<le> rp_get (frontier_in doc w3) side"
    if "pending_in doc side w = Some p"
    using that adv(2) [of side] boox sup same by (cases side) auto
  have "one_upload Boox (document_of doc (sw_state w)) (document_of doc (sw_state w3)) (uploads as1)"
    using boox adv(2) [of Boox] same unfolding one_upload_def made_by_def pend by auto
  moreover have "one_upload Supernote (document_of doc (sw_state w)) (document_of doc (sw_state w3)) (uploads as2)"
    using sup adv(2) [of Supernote] same unfolding one_upload_def made_by_def pend by auto
  ultimately show "\<exists>as bs cs. sw_actions w3 = sw_actions w @ as \<and> uploads as = bs @ cs \<and>
      one_upload Boox (document_of doc (sw_state w)) (document_of doc (sw_state w3)) bs \<and>
      one_upload Supernote (document_of doc (sw_state w)) (document_of doc (sw_state w3)) cs"
    using as0 as1 as2 by (intro exI [of _ "as0 @ as1 @ as2"]) auto
qed

lemma conflict_actions_no_upload: "list_all is_conflict_action as \<Longrightarrow> uploads as = []"
proof (induction as)
  case (Cons a as)
  then show ?case by (cases a) (auto simp: uploads_def)
qed simp

text \<open>A transaction that returns either ends at unresolved conflicts or runs its phases.\<close>

lemma transaction_ok:
  assumes "sync_document_transaction T f now w = (w', Inr u)"
  obtains (conflicts) "noting (df_document_id f) w w'" "conflicts_in (df_document_id f) w' \<noteq> []"
  | (phases) w1 w2 w3 where "noting (df_document_id f) w w1" "conflicts_in (df_document_id f) w1 = []"
      "advances (df_document_id f) w1 w2" "upload_step (df_document_id f) Boox w2 w3"
      "upload_step (df_document_id f) Supernote w3 w'"
proof -
  let ?doc = "df_document_id f"
  have read: "within (noting doc) (document_now doc)" for doc :: string
    by (auto simp: within_def noting_def others_same_def document_now_def document_of_update same_conflicts)
  obtain d1 d2 d3 d4 x1 x2 x3 t where
    1: "on_disk (create_dir (df_supernote_export_directory f)) w = (d1, Inr x1)" and
    2: "on_disk (create_dir (df_supernote_incoming_directory f)) d1 = (d2, Inr x2)" and
    3: "observe_conflicts T f d2 = (d3, Inr x3)" and 4: "document_now ?doc d3 = (d4, Inr t)" and
    rest: "(if dt_conflicts t \<noteq> [] then ok ()
        else seq (deliver_outputs T f) (\<lambda>_. seq (recover_acknowledged_uploads T f) (\<lambda>_.
          seq (upload_boox_if_ready T f now) (\<lambda>_. upload_supernote_if_ready T f now)))) d4 = (w', Inr u)"
    using assms unfolding sync_document_transaction_def seq_Inr_iff by blast
  have noted: "noting ?doc w d4"
    using within_result [OF noting.on_disk 1] within_result [OF noting.on_disk 2]
      within_result [OF noting_observe 3] within_result [OF read 4] by (blast intro: noting.composes)
  have t: "dt_conflicts t = conflicts_in ?doc d4"
    using 4 by (auto simp: document_now_def conflicts_in_def document_of_update)
  show ?thesis
  proof (cases "dt_conflicts t = []")
    case False
    with rest noted t show ?thesis by (intro conflicts) (auto simp: ok_def)
  next
    case True
    with rest obtain w1 w2 w3 y1 y2 y3 where 5: "deliver_outputs T f d4 = (w1, Inr y1)"
      and 6: "recover_acknowledged_uploads T f w1 = (w2, Inr y2)"
      and 7: "upload_boox_if_ready T f now w2 = (w3, Inr y3)"
      and 8: "upload_supernote_if_ready T f now w3 = (w', Inr u)"
      by (auto simp: seq_Inr_iff)
    have "advances ?doc d4 w2"
      using within_result [OF advances_deliver 5] within_result [OF advances_recover 6]
      by (rule adv.composes)
    with noted True t within_result [OF uploads_boox_phase 7] within_result [OF uploads_supernote_phase 8]
    show ?thesis by (intro phases) auto
  qed
qed

section \<open>The protocol\<close>

text \<open>C39: a synchronisation keeps the protocol of revisions.  Whatever the disk, the cloud and other
  programs do meanwhile, \<open>sync_document\<close> either fails and leaves the transport state as it was, or
  changes the record of its own document only, and there: the delivered frontier never goes back;
  an upload stays pending until the frontier covers it; each side is uploaded at most once, only
  when none of its uploads is pending, at the revision that follows the one it is based on, and what
  the report says is what is pending; and while a broker conflict is unresolved it does nothing but
  report it.\<close>

theorem sync_keeps_the_protocol:
  fixes f :: document_folders and w w' :: "'c sync_world"
  assumes "sync_document T f now w = (w', r)"
    and "t = document_of (df_document_id f) (sw_state w)"
    and "t' = document_of (df_document_id f) (sw_state w')"
  shows "case r of
      Inl e \<Rightarrow> sw_state w' = sw_state w
    | Inr report \<Rightarrow>
        (\<forall>d. d \<noteq> df_document_id f \<longrightarrow> document_of d (sw_state w') = document_of d (sw_state w)) \<and>
        revisions_le (dt_revisions t) (dt_revisions t') \<and>
        (\<forall>side p. pending_of_side t side = Some p \<longrightarrow>
           pending_of_side t' side = Some p \<or> pu_source_revision p \<le> rp_get (dt_revisions t') side) \<and>
        (\<exists>boox supernote. uploads report = boox @ supernote \<and>
           one_upload Boox t t' boox \<and> one_upload Supernote t t' supernote) \<and>
        (dt_conflicts t' \<noteq> [] \<longrightarrow>
           t' = t\<lparr>dt_conflicts := dt_conflicts t'\<rparr> \<and> list_all is_conflict_action report)"
proof (cases r)
  case (Inl e)
  with assms(1) show ?thesis by (auto simp: sync_document_def split: prod.splits sum.splits)
next
  case (Inr report)
  let ?doc = "df_document_id f" and ?w = "w\<lparr>sw_actions := []\<rparr>"
  have run: "sync_document_transaction T f now ?w = (w', Inr ())" and report: "report = sw_actions w'"
    using assms(1) Inr by (auto simp: sync_document_def split: prod.splits sum.splits)
  have noted: "others_same ?doc w v" "\<exists>c. document_of ?doc (sw_state v) = t\<lparr>dt_conflicts := c\<rparr>"
    "list_all is_conflict_action (sw_actions v)" if "noting ?doc ?w v" for v
    using that assms(2) by (auto simp: noting_def others_same_def)
  show ?thesis
  proof (cases rule: transaction_ok [OF run])
    case 1
    then obtain c where c: "t' = t\<lparr>dt_conflicts := c\<rparr>" using noted(2) assms(3) by blast
    then have "pending_of_side t' side = pending_of_side t side" for side
      by (simp add: pending_of_side_def transport_side_def split: device_side.split)
    with 1 c noted(1,3) [of w'] show ?thesis
      by (simp add: Inr report others_same_def one_upload_def conflict_actions_no_upload)
  next
    case (2 w1 w2 w3)
    note phases = two_phases [OF 2(3-5)]
    obtain c where c: "document_of ?doc (sw_state w1) = t\<lparr>dt_conflicts := c\<rparr>" using noted(2) 2(1) by blast
    have same: "frontier_in ?doc w1 = dt_revisions t" "pending_in ?doc side w1 = pending_of_side t side" for side
      using c by (simp_all add: frontier_in_def pending_in_def pending_of_side_def transport_side_def
          split: device_side.split)
    have one: "one_upload side (document_of ?doc (sw_state w1)) t' us = one_upload side t t' us" for side us
      using same(2) by (simp add: one_upload_def pending_in_def)
    have "dt_conflicts t' = []" using phases(3) 2(2) assms(3) by (simp add: conflicts_in_def)
    moreover have "uploads (sw_actions w1) = []" using noted(3) 2(1) by (blast intro: conflict_actions_no_upload)
    moreover have "\<forall>d. d \<noteq> ?doc \<longrightarrow> document_of d (sw_state w') = document_of d (sw_state w)"
      using phases(1) noted(1) [OF 2(1)] by (simp add: others_same_def)
    moreover have "\<exists>boox supernote. uploads report = boox @ supernote \<and>
        one_upload Boox t t' boox \<and> one_upload Supernote t t' supernote"
      using phases(5) calculation(2) one unfolding report assms(3) by force
    ultimately show ?thesis
      using phases(2,4) same assms(3) by (simp add: Inr frontier_in_def pending_in_def)
  qed
qed

text \<open>A Supernote export that is ready: the synchronisation uploads it.\<close>

definition page_export :: export_envelope where
  "page_export = \<lparr>ee_schema_version = Some 2, ee_source_file_name = Some ''n.pdf'', ee_document_id = None,
     ee_based_on = None, ee_page_index = Some 4, ee_strokes = Some [], ee_pages = None\<rparr>"

definition still_cloud :: "unit folder_ext" where
  "still_cloud = \<lparr>fx_sha = (\<lambda>_. replicate 32 (CHR 0xAA)),
     fx_list = (\<lambda>_ c. (c, Inr [])),
     fx_upload_create = (\<lambda>_ p m dc. (dc, Inr \<lparr>co_path = p, co_generation = 7, co_size = 2, co_metadata = m\<rparr>)),
     fx_download = (\<lambda>_ _ dc. (dc, Inl ''no object'')),
     fx_build_manifest = (\<lambda>_ _ d. (d, Inl ''no PDF'')),
     fx_export_of_json = (\<lambda>_. Inr page_export), fx_export_to_json = (\<lambda>_. Inr ''{}''),
     fx_ack_of_json = (\<lambda>_. Inl ''no''), fx_event_of_json = (\<lambda>_. Inl ''no''),
     fx_manifest_of_json = (\<lambda>_. Inl ''no''), fx_delivery_to_json = (\<lambda>_. Inl ''no''),
     fx_delivery_of_json = (\<lambda>_. Inl ''no''), fx_installed_of_json = (\<lambda>_. Inl ''no''),
     fx_marker_to_json = (\<lambda>_. Inl ''no''), fx_marker_of_json = (\<lambda>_. Inl ''no''),
     fx_temp_path = (\<lambda>_. ''/t''), fx_show_name = (\<lambda>_. [])\<rparr>"

definition still_transport :: "unit folder_transport" where
  "still_transport = \<lparr>ft_ext = still_cloud, ft_settle = 0, ft_boox_handoff_root = None\<rparr>"

definition one_folder :: document_folders where
  "one_folder = \<lparr>df_document_id = ''d'', df_original_file_name = ''n.pdf'', df_boox_pdf = ''/b.pdf'',
     df_supernote_export_directory = ''/s/o'', df_supernote_incoming_directory = ''/s/i''\<rparr>"

definition exported_world :: "unit sync_world" where
  "exported_world = \<lparr>sw_disk = \<lparr>dk_entries = [(''/s/i'', Directory), (''/s/o'', Directory), (''/s/o/p.json'', Regular 1 ''{}'' 5)],
       dk_clock = 9, dk_next_ino = 2, dk_plan = []\<rparr>,
     sw_cloud = (), sw_state = empty_transport_state, sw_actions = []\<rparr>"

theorem sync_keeps_the_protocol_witness:
  "snd (sync_document still_transport one_folder 10 exported_world) =
     Inr [Uploaded Supernote ''/s/o/p.json'' ''Supernote_Folder/d/uploads/supernote-r1-aaaaaaaaaaaaaaaa.json'' 1 2] \<and>
   map_option pu_source_revision (pending_of_side
     (document_of ''d'' (sw_state (fst (sync_document still_transport one_folder 10 exported_world)))) Supernote) =
     Some 1"
proof -
  let ?r = "sync_document still_transport one_folder 10 exported_world"
  have report: "snd ?r =
     Inr [Uploaded Supernote ''/s/o/p.json'' ''Supernote_Folder/d/uploads/supernote-r1-aaaaaaaaaaaaaaaa.json'' 1 2]"
    by code_simp
  have doc: "df_document_id one_folder = ''d''" by (simp add: one_folder_def)
  from sync_keeps_the_protocol [OF prod.collapse [symmetric, of ?r] refl refl]
  obtain boox supernote where "boox @ supernote = [(Supernote, 1)]"
    and boox: "one_upload Boox (document_of ''d'' (sw_state exported_world)) (document_of ''d'' (sw_state (fst ?r))) boox"
    and supernote: "one_upload Supernote (document_of ''d'' (sw_state exported_world))
      (document_of ''d'' (sw_state (fst ?r))) supernote"
    unfolding report doc by (auto simp: uploads_def)
  then have "supernote = [(Supernote, 1)]" by (auto simp: append_eq_Cons_conv one_upload_def)
  with supernote report show ?thesis by (auto simp: one_upload_def)
qed

end
