(* ===== verification/Folder_Composition.thy ===== *)
theory Folder_Composition
  imports Folder_Sync_Properties Cloud_Properties
begin

text \<open>
  The folder transport and the broker across the bucket: what one writes as metadata of an object
  is what the other reads.
\<close>

lemma source_upload_metadata_plain:
  assumes "k \<noteq> source_page_index" and "k \<noteq> source_page_indices"
  shows "bm_get (source_upload_metadata f u b r) k =
    bm_get (bm_of_list
            [(document_id_key, df_document_id f), (source_revision_key, show_u64 r),
             (''inkbridge-based-on-boox'', show_u64 (rp_boox b)),
             (''inkbridge-based-on-supernote'', show_u64 (rp_supernote b)),
             (content_sha256_key, up_payload_hash u), (''inkbridge-sync-ready'', ''true''),
             (''inkbridge-payload-kind'', up_payload_kind u),
             (source_view_sha256_key, up_local_hash u), (source_local_id_key, up_source_local_id u)]) k"
proof -
  consider "up_page_indices u = []" | page where "up_page_indices u = [page]"
    | page other rest where "up_page_indices u = page # other # rest"
    by (cases "up_page_indices u" rule: remdups_adj.cases) auto
  then show ?thesis using assms by cases (simp_all only: source_upload_metadata_def Let_def list.case bm_get_insert fun_upd_other not_False_eq_True)
qed

lemma source_upload_metadata_get:
  "bm_get (source_upload_metadata f u b r) ''inkbridge-document-id'' = Some (df_document_id f)"
  "bm_get (source_upload_metadata f u b r) ''inkbridge-source-revision'' = Some (show_u64 r)"
  "bm_get (source_upload_metadata f u b r) ''inkbridge-based-on-boox'' = Some (show_u64 (rp_boox b))"
  "bm_get (source_upload_metadata f u b r) ''inkbridge-based-on-supernote'' = Some (show_u64 (rp_supernote b))"
  "bm_get (source_upload_metadata f u b r) ''inkbridge-sync-ready'' = Some ''true''"
  "bm_get (source_upload_metadata f u b r) ''inkbridge-payload-kind'' = Some (up_payload_kind u)"
  "bm_get (source_upload_metadata f u b r) ''inkbridge-content-sha256'' = Some (up_payload_hash u)"
  "bm_get (source_upload_metadata f u b r) ''inkbridge-generated-by'' = None"
  by (simp_all add: source_upload_metadata_plain bm_of_list_def document_id_key_def source_revision_key_def
      content_sha256_key_def source_view_sha256_key_def source_local_id_key_def
      source_page_index_def source_page_indices_def)

lemma upload_path_below_folder:
  "\<exists>rest. upload_object_path f u r = side_folder (up_side u) @ ''/'' @ rest"
  by (cases "up_side u") (simp_all add: upload_object_path_def device_root_def side_folder_def)

lemma upload_source_at_ok:
  assumes "upload_source_at T f u based_on revision w = (w', Inr (obj, r'))"
  shows "r' = revision \<and> revision = rp_get based_on (up_side u) + 1 \<and>
    (\<exists>p. pending_in (df_document_id f) (up_side u) w' = Some p \<and> pu_source_revision p = revision \<and>
       pu_based_on p = based_on \<and> pu_object_path p = upload_object_path f u revision \<and>
       pu_generation p = co_generation obj \<and> pu_payload_content_sha256 p = up_payload_hash u)"
  by (rule upload_source_at_cases [OF assms]) (auto simp: pending_in_def pending_of_side_def)

text \<open>C40: a device's upload becomes the event that its pending record stands for.  When the folder
  transport has uploaded a file, the cloud runtime translates the notification of the object it
  made into exactly one event for the broker: of the document and the device, at the path and the
  generation, with the revision, the frontier it is based on and the content hash that the
  transport recorded as pending, and not as an output of the broker.\<close>

theorem device_upload_becomes_its_event:
  assumes "upload_source_at T f u based_on revision w = (w', Inr (obj, r'))"
    and "\<not> blank (df_document_id f)"
    and "up_payload_kind u = payload_name kind" and "kind = BooxOperationManifest \<longrightarrow> up_side u = Boox"
    and "header_value headers ''ce-type'' = Some storage_finalized_event_type"
    and "header_value headers ''ce-id'' = Some event_id"
    and "body_of_json body = Inr \<lparr>fo_bucket = bucket, fo_name = upload_object_path f u revision,
           fo_generation = show_u64 (co_generation obj),
           fo_metadata = source_upload_metadata f u based_on revision\<rparr>"
  shows "\<exists>ev p. translate_storage_finalized_event body_of_json bucket headers body = Inr (ProcessEvent ev) \<and>
    pending_of_side (document_of (df_document_id f) (sw_state w')) (up_side u) = Some p \<and>
    ev = \<lparr>ev_schema_version = event_schema_version, ev_event_id = event_id,
      ev_document_id = df_document_id f, ev_source = up_side u,
      ev_object_path = pu_object_path p, ev_source_generation = pu_generation p,
      ev_source_revision = pu_source_revision p, ev_based_on = pu_based_on p,
      ev_content_sha256 = pu_payload_content_sha256 p, ev_payload_kind = kind,
      ev_broker_output = None\<rparr> \<and>
    pu_source_revision p = rp_get (pu_based_on p) (up_side u) + 1"
proof -
  let ?m = "source_upload_metadata f u based_on revision"
  obtain p where p: "pending_of_side (document_of (df_document_id f) (sw_state w')) (up_side u) = Some p"
      "pu_source_revision p = revision" "pu_based_on p = based_on"
      "pu_object_path p = upload_object_path f u revision" "pu_generation p = co_generation obj"
      "pu_payload_content_sha256 p = up_payload_hash u"
    and next_rev: "revision = rp_get based_on (up_side u) + 1"
    using upload_source_at_ok [OF assms(1)] by (auto simp: pending_in_def)
  obtain rest where path: "upload_object_path f u revision = side_folder (up_side u) @ ''/'' @ rest"
    using upload_path_below_folder by blast
  have t: "translate_storage_finalized_event body_of_json bucket headers body =
      translate_device_object \<lparr>fo_bucket = bucket, fo_name = upload_object_path f u revision,
        fo_generation = show_u64 (co_generation obj), fo_metadata = ?m\<rparr> event_id (co_generation obj) (up_side u)"
    using translate_below_device_folder [where body_of_json = body_of_json and body = body and rest = rest
        and s = "up_side u", OF assms(5-7)] by (simp add: path)
  have ready: "metadata_is_true ?m ''inkbridge-sync-ready''"
    by (simp add: metadata_is_true_def source_upload_metadata_get eq_ignore_ascii_case_def)
  have req: "required_metadata ?m ''inkbridge-document-id'' = Inr (df_document_id f)"
    "required_metadata ?m ''inkbridge-source-revision'' = Inr (show_u64 revision)"
    "required_metadata ?m ''inkbridge-based-on-boox'' = Inr (show_u64 (rp_boox based_on))"
    "required_metadata ?m ''inkbridge-based-on-supernote'' = Inr (show_u64 (rp_supernote based_on))"
    using assms(2)
    by (simp_all add: required_metadata_ok source_upload_metadata_get
        show_u64_visible [where xs = "[]", simplified])
  have revs: "event_revisions ?m (up_side u) (df_document_id f) False = Inr (revision, based_on, None)"
    by (simp add: event_revisions_def req parse_metadata_u64_def)
  have kind: "event_payload_kind ?m (up_side u) = Inr kind"
    using assms(3,4)
    by (cases kind) (simp_all add: event_payload_kind_def source_upload_metadata_get payload_name_def)
  have event: "translate_storage_finalized_event body_of_json bucket headers body = Inr (ProcessEvent
      \<lparr>ev_schema_version = event_schema_version, ev_event_id = event_id,
        ev_document_id = df_document_id f, ev_source = up_side u,
        ev_object_path = pu_object_path p, ev_source_generation = pu_generation p,
        ev_source_revision = pu_source_revision p, ev_based_on = pu_based_on p,
        ev_content_sha256 = pu_payload_content_sha256 p, ev_payload_kind = kind,
        ev_broker_output = None\<rparr>)"
    by (simp add: t translate_device_object_def req source_upload_metadata_get ready revs kind Let_def p(2-))
  show ?thesis
    by (intro exI conjI, rule event, rule p(1), rule refl) (use p(2,3) next_rev in simp)
qed

definition page_upload :: source_upload where
  "page_upload = \<lparr>up_side = Supernote, up_payload_path = ''/s/o/p.json'', up_local_key = ''/s/o/p.json'',
     up_source_local_id = ''4'', up_page_indices = [4], up_local_hash = ''aa'', up_payload_hash = ''bb'',
     up_payload_kind = ''device_view'', up_extension = ''json''\<rparr>"

theorem device_upload_becomes_its_event_witness:
  "\<exists>ev. translate_storage_finalized_event
      (\<lambda>_. Inr \<lparr>fo_bucket = ''b'', fo_name = upload_object_path one_folder page_upload 1,
                 fo_generation = show_u64 7,
                 fo_metadata = source_upload_metadata one_folder page_upload \<lparr>rp_boox = 3, rp_supernote = 0\<rparr> 1\<rparr>)
      ''b'' [(''CE-Id'', ''n''), (''ce-type'', storage_finalized_event_type)] ''{}'' = Inr (ProcessEvent ev) \<and>
    ev_content_sha256 ev = ''bb'' \<and> ev_source_generation ev = 7 \<and> ev_source_revision ev = 1"
proof -
  let ?frontier = "\<lparr>rp_boox = 3, rp_supernote = 0\<rparr>"
  let ?r = "upload_source_at still_transport one_folder page_upload ?frontier 1 exported_world"
  have headers: "header_value [(''CE-Id'', ''n''), (''ce-type'', storage_finalized_event_type)] ''ce-type'' =
      Some storage_finalized_event_type"
    "header_value [(''CE-Id'', ''n''), (''ce-type'', storage_finalized_event_type)] ''ce-id'' = Some ''n''"
    by code_simp+
  have "case snd ?r of Inl _ \<Rightarrow> False | Inr (obj, revision) \<Rightarrow> co_generation obj = 7 \<and> revision = 1"
    by code_simp
  then obtain w' obj where run: "?r = (w', Inr (obj, 1))" and g: "co_generation obj = 7"
    by (cases ?r) (auto split: sum.splits)
  have plain: "\<not> blank (df_document_id one_folder)" "up_payload_kind page_upload = payload_name DeviceView"
    "up_side page_upload = Supernote" "up_payload_hash page_upload = ''bb''"
    by (simp_all add: one_folder_def page_upload_def payload_name_def blank_Cons_visible byte_def)
  obtain p where p: "pending_of_side (document_of ''d'' (sw_state w')) Supernote = Some p"
    "pu_source_revision p = 1" "pu_generation p = 7" "pu_payload_content_sha256 p = ''bb''"
    using upload_source_at_ok [OF run] g plain by (auto simp: one_folder_def pending_in_def)
  obtain ev where "translate_storage_finalized_event
      (\<lambda>_. Inr \<lparr>fo_bucket = ''b'', fo_name = upload_object_path one_folder page_upload 1,
                 fo_generation = show_u64 7,
                 fo_metadata = source_upload_metadata one_folder page_upload ?frontier 1\<rparr>)
      ''b'' [(''CE-Id'', ''n''), (''ce-type'', storage_finalized_event_type)] ''{}'' = Inr (ProcessEvent ev)"
    and "ev_content_sha256 ev = pu_payload_content_sha256 p" "ev_source_generation ev = pu_generation p"
      "ev_source_revision ev = pu_source_revision p"
    using device_upload_becomes_its_event [where kind = DeviceView and bucket = "''b''" and body = "''{}''"
        and body_of_json = "\<lambda>_. Inr \<lparr>fo_bucket = ''b'', fo_name = upload_object_path one_folder page_upload 1,
          fo_generation = show_u64 7, fo_metadata = source_upload_metadata one_folder page_upload ?frontier 1\<rparr>",
        OF run plain(1,2) _ headers] g plain(3) p(1)
    by (auto simp: one_folder_def)
  with p(2-4) show ?thesis by auto
qed

end
