(* ===== verification/Companion_Status.thy ===== *)
theory Companion_Status
  imports Folder_Checks Folder_State_Facts
begin

text \<open>
  \<open>inkbridge-folder-transport/src/companion.rs\<close>: the status of a document's synchronisation, published
  beside the deliveries for the companion application, through a next and a previous file.  The JSON
  encoder is a parameter.  The lemmas show that a publication cut short by faults or a crash leaves the
  old or the new status to be found, never a torn one.
\<close>

section \<open>The status\<close>

definition companion_status_schema_version :: u32 where "companion_status_schema_version = 1"

definition companion_status_file :: string where "companion_status_file = ''inkbridge-status.json''"

datatype companion_sync_status = SyncedStatus | PendingStatus | ConflictStatus | ErrorStatus

record companion_status =
  cs_schema_version :: u32
  cs_document_id :: string
  cs_status :: companion_sync_status
  cs_revisions :: revision_pair
  cs_boox_pending :: bool
  cs_supernote_pending :: bool
  cs_supernote_delivery_pending :: bool
  cs_supernote_accepted_content_sha256 :: "string bset"
  cs_supernote_accepted_source_view_sha256 :: "string bset"
  cs_conflict_count :: usize
  cs_updated_at_unix_millis :: u64
  cs_message :: "string option"

text \<open>\<open>chars().take(n)\<close>: the first \<open>n\<close> characters, with the bytes that continue them.\<close>

fun take_chars :: "nat \<Rightarrow> string \<Rightarrow> string" where
  "take_chars n [] = []"
| "take_chars n (c # cs) =
     (if is_continuation c then c # take_chars n cs
      else case n of 0 \<Rightarrow> [] | Suc k \<Rightarrow> c # take_chars k cs)"

text \<open>The error of the deliveries, when there is one, is reported like one of the synchronisation.\<close>

definition sync_status_of :: "string option \<Rightarrow> document_transport \<Rightarrow> bool \<Rightarrow> companion_sync_status" where
  "sync_status_of effective_error t supernote_pending =
     (if effective_error \<noteq> None then ErrorStatus
      else if dt_conflicts t \<noteq> [] then ConflictStatus
      else if ss_pending (dt_boox t) \<noteq> None \<or> supernote_pending then PendingStatus
      else SyncedStatus)"

definition companion_status_from_state ::
    "'c folder_ext \<Rightarrow> document_folders \<Rightarrow> transport_state \<Rightarrow> u64 \<Rightarrow> string option \<Rightarrow>
       (disk, companion_status) action" where
  "companion_status_from_state X f s now err =
     (let t = document_of (df_document_id f) s
      in seq (caught (first_unacknowledged_supernote_delivery X f)) (\<lambda>delivery.
         let (delivery_pending, delivery_error) =
               (case delivery of Inr d \<Rightarrow> (d \<noteq> None, None) | Inl message \<Rightarrow> (False, Some message));
             effective_error = (case err of Some e \<Rightarrow> Some e | None \<Rightarrow> delivery_error);
             supernote_pending = (ss_pending (dt_supernote t) \<noteq> None \<or> delivery_pending);
             pending_source_view = map_option pu_local_content_sha256 (ss_pending (dt_supernote t))
         in ok \<lparr>cs_schema_version = companion_status_schema_version, cs_document_id = df_document_id f,
                cs_status = sync_status_of effective_error t supernote_pending,
                cs_revisions = dt_revisions t, cs_boox_pending = (ss_pending (dt_boox t) \<noteq> None),
                cs_supernote_pending = supernote_pending,
                cs_supernote_delivery_pending = delivery_pending,
                cs_supernote_accepted_content_sha256 =
                  bs_of_list (bm_values (ss_accepted_local_hashes (dt_supernote t))),
                cs_supernote_accepted_source_view_sha256 =
                  bs_of_list (filter (\<lambda>h. Some h \<noteq> pending_source_view)
                    (bm_values (ss_uploaded_local_hashes (dt_supernote t)))),
                cs_conflict_count = of_nat (length (dt_conflicts t)),
                cs_updated_at_unix_millis = now,
                cs_message = map_option (take_chars 4096) effective_error\<rparr>))"

section \<open>Publication\<close>

definition status_file_exists :: "string \<Rightarrow> (disk, bool) action" where
  "status_file_exists p d =
     (case fs_symlink_metadata p d of
        (d, Inr e) \<Rightarrow>
          if is_symlink e then (d, Inl (p @ '' must not be a symlink''))
          else if is_file e then (d, Inr True)
          else (d, Inl (p @ '' is not a regular file''))
      | (d, Inl e) \<Rightarrow>
          if io_kind e = IoNotFound then (d, Inr False)
          else (d, Inl (''could not inspect '' @ p @ '': '' @ io_text e)))"

definition remove_status_file :: "string \<Rightarrow> (disk, unit) action" where
  "remove_status_file p d =
     (case fs_remove_file p d of
        (d, Inr _) \<Rightarrow> (d, Inr ())
      | (d, Inl e) \<Rightarrow>
          if io_kind e = IoNotFound then (d, Inr ())
          else (d, Inl (''could not remove '' @ p @ '': '' @ io_text e)))"

text \<open>\<open>OpenOptions::create_new\<close>: the file must not be there, not even as a link.\<close>

definition fs_create_new :: "string \<Rightarrow> disk \<Rightarrow> disk \<times> (io_error + unit)" where
  "fs_create_new p = syscall (\<lambda>d.
     (case bm_get (dk_entries d) p of
        Some e \<Rightarrow> (d, Inl already_exists)
      | None \<Rightarrow> (put_entry p (Regular (dk_next_ino d) [] (dk_clock d))
                   (d\<lparr>dk_next_ino := dk_next_ino d + 1\<rparr>), Inr ())))"

definition reconcile_status_files :: "string \<Rightarrow> string \<Rightarrow> string \<Rightarrow> (disk, unit) action" where
  "reconcile_status_files destination following previous =
     seq (status_file_exists destination) (\<lambda>there.
     seq (if there then ok False else status_file_exists previous) (\<lambda>restore.
     seq (if restore
          then io (''could not restore interrupted companion status '' @ destination @ '': '')
                 (fs_rename previous destination)
          else ok ()) (\<lambda>_.
     seq (status_file_exists destination) (\<lambda>there.
     seq (if there then remove_status_file previous else ok ()) (\<lambda>_.
     remove_status_file following)))))"

text \<open>The end of a publication: the next status takes the place of the one put aside, which goes back
  when that fails.\<close>

definition install_status :: "bool \<Rightarrow> string \<Rightarrow> string \<Rightarrow> string \<Rightarrow> (disk, unit) action" where
  "install_status had_current destination following previous d =
     (case fs_rename following destination d of
        (d, Inl e) \<Rightarrow>
          (if had_current then fst (fs_rename previous destination d) else d,
           Inl (''could not publish companion status '' @ destination @ '': '' @ io_text e))
      | (d, Inr _) \<Rightarrow> remove_status_file previous d)"

definition swap_status_files :: "string \<Rightarrow> string \<Rightarrow> string \<Rightarrow> (disk, unit) action" where
  "swap_status_files destination following previous =
     seq (status_file_exists destination) (\<lambda>had_current.
     seq (if had_current
          then seq (remove_status_file previous) (\<lambda>_.
                 io (''could not stage companion status '' @ destination @ '' as '' @ previous @ '': '')
                   (fs_rename destination previous))
          else ok ()) (\<lambda>_.
     install_status had_current destination following previous))"

definition publish_status_bytes :: "string \<Rightarrow> bytes \<Rightarrow> (disk, unit) action" where
  "publish_status_bytes destination bs =
     (let parent = (case path_parent destination of None \<Rightarrow> ''.'' | Some q \<Rightarrow> q);
          following = with_extension destination ''json.next'';
          previous = with_extension destination ''json.previous''
      in seq (io (''could not create '' @ parent @ '': '') (fs_create_dir_all parent)) (\<lambda>_.
         seq (reconcile_status_files destination following previous) (\<lambda>_.
         seq (io (''could not write '' @ following @ '': '') (fs_create_new following)) (\<lambda>_.
         seq (io (''could not finalize '' @ following @ '': '') (fs_write following bs)) (\<lambda>_.
         swap_status_files destination following previous)))))"

definition publish_companion_status ::
    "'c folder_ext \<Rightarrow> (companion_status \<Rightarrow> string + bytes) \<Rightarrow> document_folders \<Rightarrow> transport_state \<Rightarrow> u64 \<Rightarrow>
       string option \<Rightarrow> (disk, string) action" where
  "publish_companion_status X to_json f s now err =
     seq (companion_status_from_state X f s now err) (\<lambda>status.
     seq (answer (to_json status)) (\<lambda>bs.
     let destination = path_join (df_supernote_incoming_directory f) companion_status_file
     in seq (publish_status_bytes destination (bs @ [CHR 0x0A])) (\<lambda>_. ok destination)))"

section \<open>The status is honest\<close>

text \<open>\<open>synced\<close> is reported only when nothing is pending, no conflict is open and nothing failed.\<close>

lemma synced_status_means_synced:
  assumes "companion_status_from_state X f s now err d = (d', Inr c)"
  shows "cs_status c = SyncedStatus \<longleftrightarrow>
    cs_message c = None \<and> cs_conflict_count c = of_nat (length (dt_conflicts (document_of (df_document_id f) s))) \<and>
    dt_conflicts (document_of (df_document_id f) s) = [] \<and> \<not> cs_boox_pending c \<and> \<not> cs_supernote_pending c"
  using assms
  by (auto simp: companion_status_from_state_def sync_status_of_def seq_def caught_def ok_def Let_def
      split: prod.splits sum.splits option.splits if_splits)

lemma companion_status_given:
  "companion_status_from_state X f s now (Some e) d = (d', Inr c) \<Longrightarrow>
     cs_status c = ErrorStatus \<and> cs_message c = Some (take_chars 4096 e)"
  by (auto simp: companion_status_from_state_def sync_status_of_def seq_def caught_def ok_def Let_def
      split: prod.splits sum.splits option.splits if_splits)

lemma take_chars_prefix: "prefix (take_chars n s) s"
proof (induction n s rule: take_chars.induct)
  case (2 n c cs)
  then show ?case by (cases n) simp_all
qed simp

section \<open>Publication loses nothing\<close>

text \<open>What a publication may leave behind is a triple: from files that satisfy \<open>P\<close>, on a disk on which
  calls may fail, writes be torn and the process die, an action ends in \<open>Q\<close> of its result or, when it
  fails, in \<open>E\<close>.  A failing call never claims that a file is missing.\<close>

abbreviation files :: "disk \<Rightarrow> string \<rightharpoonup> entry" where
  "files d \<equiv> bm_get (dk_entries d)"

fun honest_event :: "event \<Rightarrow> bool" where
  "honest_event (Fault e) \<longleftrightarrow> io_kind e \<noteq> IoNotFound"
| "honest_event (External t edits) \<longleftrightarrow> False"
| "honest_event Calm \<longleftrightarrow> True"
| "honest_event (Torn n) \<longleftrightarrow> True"
| "honest_event Crash \<longleftrightarrow> True"

definition alone :: "disk \<Rightarrow> bool" where
  "alone d \<longleftrightarrow> list_all honest_event (dk_plan d)"

fun ended :: "('a \<Rightarrow> (string \<rightharpoonup> entry) \<Rightarrow> bool) \<Rightarrow> ((string \<rightharpoonup> entry) \<Rightarrow> bool) \<Rightarrow> disk \<times> (string + 'a) \<Rightarrow> bool" where
  "ended Q E (d, Inl e) \<longleftrightarrow> alone d \<and> E (files d)"
| "ended Q E (d, Inr x) \<longleftrightarrow> alone d \<and> Q x (files d)"

definition outcome ::
    "((string \<rightharpoonup> entry) \<Rightarrow> bool) \<Rightarrow> (disk, 'a) action \<Rightarrow> ('a \<Rightarrow> (string \<rightharpoonup> entry) \<Rightarrow> bool) \<Rightarrow>
       ((string \<rightharpoonup> entry) \<Rightarrow> bool) \<Rightarrow> bool" where
  "outcome P m Q E \<longleftrightarrow> (\<forall>d. alone d \<longrightarrow> P (files d) \<longrightarrow> ended Q E (m d))"

lemma outcomeD: "outcome P m Q E \<Longrightarrow> alone d \<Longrightarrow> P (files d) \<Longrightarrow> ended Q E (m d)"
  by (simp add: outcome_def)

lemma outcome_seq:
  assumes "outcome P m Q E" and "\<And>x. outcome (Q x) (k x) R E"
  shows "outcome P (seq m k) R E"
  unfolding outcome_def
proof (intro allI impI)
  fix d assume "alone d" "P (files d)"
  from outcomeD [OF assms(1) this] show "ended R E (seq m k d)"
    using outcomeD [OF assms(2)] by (cases "m d"; cases "snd (m d)") (simp_all add: seq_def)
qed

lemma outcome_weaken:
  assumes "outcome P m Q E" and "\<And>g. P' g \<Longrightarrow> P g" and "\<And>x g. Q x g \<Longrightarrow> Q' x g" and "\<And>g. E g \<Longrightarrow> E' g"
  shows "outcome P' m Q' E'"
  unfolding outcome_def
proof (intro allI impI)
  fix d assume "alone d" "P' (files d)"
  with outcomeD [OF assms(1)] assms(2) have "ended Q E (m d)" by blast
  with assms(3,4) show "ended Q' E' (m d)" by (cases "m d"; cases "snd (m d)") simp_all
qed

lemma outcome_ok: "(\<And>g. P g \<Longrightarrow> Q x g) \<Longrightarrow> outcome P (ok x) Q E"
  by (simp add: outcome_def ok_def)

lemma outcome_if:
  "(c \<Longrightarrow> outcome P m Q E) \<Longrightarrow> (\<not> c \<Longrightarrow> outcome P m' Q E) \<Longrightarrow> outcome P (if c then m else m') Q E"
  by simp

lemma syscall_alone:
  assumes "alone d"
  obtains d0 where "alone d0" "files d0 = files d" "syscall f d = f d0"
  | d0 e where "alone d0" "files d0 = files d" "syscall f d = (d0, Inl e)" "io_kind e \<noteq> IoNotFound"
proof (cases "dk_plan d")
  case Nil
  with assms that(1) [of d] show thesis by simp
next
  case (Cons e es)
  let ?d = "d\<lparr>dk_plan := es\<rparr>"
  have d: "alone ?d" "files ?d = files d" and e: "honest_event e" using assms Cons by (simp_all add: alone_def)
  have i: "io_kind interrupted \<noteq> IoNotFound" by (simp add: interrupted_def io_failure_def)
  show thesis
  proof (cases e)
    case Calm
    with Cons d show thesis by (intro that(1) [of ?d]) (simp_all add: syscall_def)
  next
    case (Fault x)
    with Cons d e show thesis by (intro that(2) [of ?d x]) (simp_all add: syscall_def)
  next
    case (Torn n)
    with Cons d i show thesis by (intro that(2) [of ?d interrupted]) (simp_all add: syscall_def)
  next
    case (External t edits)
    with e show thesis by simp
  next
    case Crash
    with Cons assms i show thesis by (intro that(2) [of d interrupted]) (simp_all add: syscall_def)
  qed
qed

text \<open>A call whose failure changes no file.\<close>

lemma outcome_io:
  assumes "\<And>d. alone d \<Longrightarrow> P (files d) \<Longrightarrow> ended Q E (io before f d)" and "\<And>g. P g \<Longrightarrow> E g"
  shows "outcome P (io before (syscall f)) Q E"
  unfolding outcome_def
proof (intro allI impI)
  fix d assume d: "alone d" "P (files d)"
  from d(1) show "ended Q E (io before (syscall f) d)"
  proof (cases rule: syscall_alone [where f = f])
    case (1 d0)
    have "ended Q E (io before f d0)" using assms(1) 1(1,2) d(2) by simp
    with 1(3) show ?thesis by (simp add: io_def)
  next
    case (2 d0 e)
    with d(2) assms(2) show ?thesis by (simp add: io_def io_context_def)
  qed
qed

lemma alone_change [simp]:
  "alone (put_entry p e d) = alone d" "alone (drop_entry p d) = alone d"
  "alone (d\<lparr>dk_next_ino := n\<rparr>) = alone d" "files (d\<lparr>dk_next_ino := n\<rparr>) = files d"
  by (simp_all add: alone_def)

lemma outcome_exists:
  "outcome P (status_file_exists p)
     (\<lambda>there g. P g \<and> (if there then \<exists>i bs t. g p = Some (Regular i bs t) else g p = None)) P"
  unfolding outcome_def
proof (intro allI impI)
  fix d assume d: "alone d" "P (files d)"
  from d(1) show "ended (\<lambda>there g. P g \<and> (if there then \<exists>i bs t. g p = Some (Regular i bs t) else g p = None)) P
      (status_file_exists p d)"
  proof (cases rule: syscall_alone [where f = "\<lambda>d. (d, ok_or not_found (files d p))"])
    case (1 d0)
    with d(2) show ?thesis
      by (cases "files d p"; cases "the (files d p)")
        (auto simp: status_file_exists_def fs_symlink_metadata_def not_found_def io_failure_def)
  next
    case (2 d0 e)
    with d(2) show ?thesis by (simp add: status_file_exists_def fs_symlink_metadata_def)
  qed
qed

lemma outcome_remove:
  assumes "\<And>g. P g \<Longrightarrow> Q (g(p := None))" and "\<And>g. P g \<Longrightarrow> g p = None \<Longrightarrow> Q g" and "\<And>g. P g \<Longrightarrow> E g"
  shows "outcome P (remove_status_file p) (\<lambda>_. Q) E"
  unfolding outcome_def
proof (intro allI impI)
  fix d assume d: "alone d" "P (files d)"
  let ?f = "\<lambda>d. (case files d p of
        None \<Rightarrow> (d, Inl not_found)
      | Some Directory \<Rightarrow> (d, Inl is_a_directory)
      | Some e \<Rightarrow> (drop_entry p d, Inr ()))"
  from d(1) show "ended (\<lambda>_. Q) E (remove_status_file p d)"
  proof (cases rule: syscall_alone [where f = ?f])
    case (1 d0)
    with d(2) assms show ?thesis
      by (cases "files d p"; cases "the (files d p)")
        (auto simp: remove_status_file_def fs_remove_file_def not_found_def is_a_directory_def io_failure_def)
  next
    case (2 d0 e)
    with d(2) assms(3) show ?thesis by (simp add: remove_status_file_def fs_remove_file_def)
  qed
qed

lemma outcome_rename:
  assumes "\<And>g e. P g \<Longrightarrow> g a = Some e \<Longrightarrow> Q (g(a := None, b \<mapsto> e))" and "\<And>g. P g \<Longrightarrow> E g" and "a \<noteq> b"
  shows "outcome P (io before (fs_rename a b)) (\<lambda>_. Q) E"
  unfolding fs_rename_def
  by (rule outcome_io) (use assms in \<open>auto simp: io_def split: option.split\<close>)

lemma rename_ended:
  assumes "fs_rename a b d = (d', r)" and "alone d" and "P (files d)" and "a \<noteq> b"
    and "\<And>g e. P g \<Longrightarrow> g a = Some e \<Longrightarrow> Q (g(a := None, b \<mapsto> e))" and "\<And>g. P g \<Longrightarrow> E g"
  shows "alone d'" "isl r \<Longrightarrow> E (files d')" "\<not> isl r \<Longrightarrow> Q (files d')"
proof -
  have "outcome P (io [] (fs_rename a b)) (\<lambda>_. Q) E" by (rule outcome_rename) (use assms in auto)
  from outcomeD [OF this assms(2,3)] assms(1)
  show "alone d'" "isl r \<Longrightarrow> E (files d')" "\<not> isl r \<Longrightarrow> Q (files d')"
    by (cases r; simp add: io_def io_context_def)+
qed

text \<open>The status a reader finds: the published one, or the one put aside while it is replaced.\<close>

definition found_status :: "string \<Rightarrow> (string \<rightharpoonup> entry) \<Rightarrow> bytes option" where
  "found_status p g =
     map_option entry_bytes (case g p of Some e \<Rightarrow> Some e | None \<Rightarrow> g (previous_file p))"

text \<open>The reconciliation of an interrupted publication changes nothing that is found.\<close>

lemma reconcile_outcome:
  assumes named: "path_file_name p \<noteq> None"
  shows "outcome (\<lambda>g. found_status p g = old) (reconcile_status_files p (staged_file p) (previous_file p))
    (\<lambda>_ g. found_status p g = old) (\<lambda>g. found_status p g = old)"
proof -
  note [simp] = companions_differ [OF named] and [simp] = found_status_def
  let ?J = "\<lambda>g. found_status p g = old"
  let ?X = "\<lambda>there g. ?J g \<and> (if there then \<exists>i bs t. g p = Some (Regular i bs t) else g p = None)"
  let ?R = "\<lambda>restore g. ?J g \<and> (restore \<longrightarrow> g p = None)"
  have a: "outcome (?X there) (if there then ok False else status_file_exists (previous_file p)) ?R ?J" for there
    by (intro outcome_if outcome_ok outcome_weaken [OF outcome_exists [where P = "?X there"]]) auto
  have b: "outcome (?R restore)
      (if restore then io before (fs_rename (previous_file p) p) else ok ()) (\<lambda>_. ?J) ?J" for restore before
    by (intro outcome_if outcome_ok outcome_rename) auto
  have c: "outcome (?X there) (if there then remove_status_file (previous_file p) else ok ()) (\<lambda>_. ?J) ?J" for there
    by (intro outcome_if outcome_ok outcome_remove) auto
  have d: "outcome ?J (remove_status_file (staged_file p)) (\<lambda>_. ?J) ?J"
    by (intro outcome_remove) (auto split: option.splits)
  show ?thesis
    unfolding reconcile_status_files_def
    by (rule outcome_seq [OF outcome_exists], rule outcome_seq [OF a], rule outcome_seq [OF b],
        rule outcome_seq [OF outcome_exists], rule outcome_seq [OF c], rule d)
qed

lemma install_outcome:
  assumes named: "path_file_name p \<noteq> None"
  shows "outcome (\<lambda>g. (found_status p g = old \<and> map_option entry_bytes (g (staged_file p)) = Some bs) \<and> g p = None)
    (install_status had p (staged_file p) (previous_file p)) (\<lambda>_ g. map_option entry_bytes (g p) = Some bs)
    (\<lambda>g. found_status p g \<in> {old, Some bs})"
  unfolding outcome_def
proof (intro allI impI)
  note [simp] = companions_differ [OF named]
  let ?P = "\<lambda>g. (found_status p g = old \<and> map_option entry_bytes (g (staged_file p)) = Some bs) \<and> g p = None"
  let ?B = "\<lambda>g. map_option entry_bytes (g p) = Some bs" and ?E = "\<lambda>g. found_status p g \<in> {old, Some bs}"
  fix d assume d: "alone d" "?P (files d)"
  obtain d1 r where r: "fs_rename (staged_file p) p d = (d1, r)" by force
  have d1: "alone d1" "isl r \<Longrightarrow> ?P (files d1)" "\<not> isl r \<Longrightarrow> ?B (files d1)"
    by (rule rename_ended [where P = ?P and E = ?P and Q = ?B, OF r d]; auto simp: found_status_def)+
  show "ended (\<lambda>_. ?B) ?E (install_status had p (staged_file p) (previous_file p) d)"
  proof (cases r)
    case (Inl e)
    obtain d2 r2 where r2: "fs_rename (previous_file p) p d1 = (d2, r2)" by force
    let ?J = "\<lambda>g. found_status p g = old"
    have P1: "?P (files d1)" using d1(2) Inl by simp
    have "alone d2" "isl r2 \<Longrightarrow> ?J (files d2)" "\<not> isl r2 \<Longrightarrow> ?J (files d2)"
      by (rule rename_ended [where P = ?P and E = ?J and Q = ?J, OF r2 d1(1) P1]; auto simp: found_status_def)+
    then have "alone d2" "?J (files d2)" by blast+
    with d1(1) P1 Inl r r2 show ?thesis by (auto simp: install_status_def split: if_split)
  next
    case (Inr x)
    have "outcome ?B (remove_status_file (previous_file p)) (\<lambda>_. ?B) ?E"
      by (intro outcome_remove) (auto simp: found_status_def)
    from outcomeD [OF this d1(1)] d1(3) Inr r show ?thesis by (simp add: install_status_def)
  qed
qed

lemma swap_outcome:
  assumes named: "path_file_name p \<noteq> None"
  shows "outcome (\<lambda>g. found_status p g = old \<and> map_option entry_bytes (g (staged_file p)) = Some bs)
    (swap_status_files p (staged_file p) (previous_file p))
    (\<lambda>_ g. map_option entry_bytes (g p) = Some bs) (\<lambda>g. found_status p g \<in> {old, Some bs})"
proof -
  note [simp] = companions_differ [OF named] and [simp] = found_status_def
  let ?J = "\<lambda>g. found_status p g = old \<and> map_option entry_bytes (g (staged_file p)) = Some bs"
  let ?E = "\<lambda>g. found_status p g \<in> {old, Some bs}"
  let ?S = "\<lambda>g. ?J g \<and> g p = None" and ?C = "\<lambda>g. ?J g \<and> (\<exists>i bs t. g p = Some (Regular i bs t))"
  have aside: "outcome ?C (remove_status_file (previous_file p)) (\<lambda>_. ?C) ?E"
    by (intro outcome_remove) auto
  have move: "outcome ?C (io before (fs_rename p (previous_file p))) (\<lambda>_. ?S) ?E" for before
    by (intro outcome_rename) auto
  have stage: "outcome (\<lambda>g. ?J g \<and> (if had then \<exists>i bs t. g p = Some (Regular i bs t) else g p = None))
      (if had then seq (remove_status_file (previous_file p)) (\<lambda>_. io before (fs_rename p (previous_file p)))
       else ok ()) (\<lambda>_. ?S) ?E" for had before
    by (intro outcome_if outcome_ok outcome_weaken [OF outcome_seq [OF aside move]]) auto
  have exists: "outcome ?J (status_file_exists p)
      (\<lambda>had g. ?J g \<and> (if had then \<exists>i bs t. g p = Some (Regular i bs t) else g p = None)) ?E"
    by (rule outcome_weaken [OF outcome_exists [where P = ?J]]) auto
  show ?thesis
    unfolding swap_status_files_def
    by (rule outcome_seq [OF exists], rule outcome_seq [OF stage], rule install_outcome [OF named])
qed

lemma write_outcome:
  assumes named: "path_file_name p \<noteq> None"
  shows "outcome (\<lambda>g. found_status p g = old \<and> (\<exists>i t. g (staged_file p) = Some (Regular i [] t)))
    (io before (fs_write (staged_file p) bs))
    (\<lambda>_ g. found_status p g = old \<and> map_option entry_bytes (g (staged_file p)) = Some bs)
    (\<lambda>g. found_status p g = old)"
  unfolding outcome_def
proof (intro allI impI)
  note [simp] = companions_differ [OF named]
  let ?P = "\<lambda>g. found_status p g = old \<and> (\<exists>i t. g (staged_file p) = Some (Regular i [] t))"
  let ?Q = "\<lambda>_ g. found_status p g = old \<and> map_option entry_bytes (g (staged_file p)) = Some bs"
  let ?E = "\<lambda>g. found_status p g = old"
  fix d assume d: "alone d" "?P (files d)"
  have put: "\<exists>i t. put_bytes (staged_file p) bs' d0 = (put_entry (staged_file p) (Regular i bs' t) d0, Inr ())"
    if "?P (files d0)" for d0 bs'
    using that follow_plain [of "dk_entries d0" "staged_file p" 40]
    by (auto simp: put_bytes_def max_links_def) blast
  have found: "found_status p ((files d0)(staged_file p \<mapsto> e)) = found_status p (files d0)" for d0 e
    by (simp add: found_status_def split: option.split)
  show "ended ?Q ?E (io before (fs_write (staged_file p) bs) d)"
  proof (cases "\<exists>n es. dk_plan d = Torn n # es")
    case True
    then obtain n es where plan: "dk_plan d = Torn n # es" by blast
    let ?d = "d\<lparr>dk_plan := es\<rparr>"
    have "alone ?d" "?P (files ?d)" using d plan by (simp_all add: alone_def)
    moreover from put [of ?d "take n bs"] calculation(2) obtain i t where
      "put_bytes (staged_file p) (take n bs) ?d =
        (put_entry (staged_file p) (Regular i (take n bs) t) ?d, Inr ())" by blast
    ultimately show ?thesis
      using found [of ?d] plan by (simp add: fs_write_def io_def io_context_def)
  next
    case False
    then have w: "fs_write (staged_file p) bs d = syscall (put_bytes (staged_file p) bs) d"
      by (auto simp: fs_write_def split: list.splits event.splits)
    from d(1) show ?thesis
    proof (cases rule: syscall_alone [where f = "put_bytes (staged_file p) bs"])
      case (1 d0)
      then have "?P (files d0)" using d(2) by simp
      moreover from put [OF this, of bs] obtain i t where
        "put_bytes (staged_file p) bs d0 = (put_entry (staged_file p) (Regular i bs t) d0, Inr ())" by blast
      ultimately show ?thesis using found [of d0] 1 w by (simp add: io_def io_context_def)
    next
      case (2 d0 e)
      with d(2) w show ?thesis by (simp add: io_def io_context_def)
    qed
  qed
qed

text \<open>However calls fail, writes are torn and the process dies on the way, the status that is found
  afterwards, at its place or put aside for the next publication to restore, is the old one or the new
  one, whole; after a success it is the new one, in its place.\<close>

lemma status_publication_loses_nothing:
  assumes named: "path_file_name p \<noteq> None"
  shows "outcome (\<lambda>g. found_status p g = old) (publish_status_bytes p bs)
    (\<lambda>_ g. map_option entry_bytes (g p) = Some bs) (\<lambda>g. found_status p g \<in> {old, Some bs})"
proof -
  note [simp] = companions_differ [OF named]
  let ?J = "\<lambda>g. found_status p g = old" and ?E = "\<lambda>g. found_status p g \<in> {old, Some bs}"
  let ?N = "\<lambda>g. ?J g \<and> (\<exists>i t. g (staged_file p) = Some (Regular i [] t))"
  obtain parent where parent: "path_parent p = Some parent"
    using named file_name_body by (cases "path_file_name p") (auto simp: path_parent_def)
  have create: "outcome ?J (io before (fs_create_dir_all parent)) (\<lambda>_. ?J) ?E" for before
    unfolding fs_create_dir_all_def
    by (rule outcome_io) (use parent_differs [OF parent named] in
      \<open>auto simp: found_status_def io_def io_context_def split: sum.splits entry.splits option.splits if_splits\<close>)
  have reconcile: "outcome ?J (reconcile_status_files p (staged_file p) (previous_file p)) (\<lambda>_. ?J) ?E"
    by (rule outcome_weaken [OF reconcile_outcome [OF named, of old]]) auto
  have new: "outcome ?J (io before (fs_create_new (staged_file p))) (\<lambda>_. ?N) ?E" for before
    unfolding fs_create_new_def
    by (rule outcome_io) (auto simp: found_status_def io_def io_context_def split: option.splits)
  have written: "outcome ?N (io before (fs_write (staged_file p) bs))
      (\<lambda>_ g. ?J g \<and> map_option entry_bytes (g (staged_file p)) = Some bs) ?E" for before
    by (rule outcome_weaken [OF write_outcome [OF named, of old]]) auto
  show ?thesis
    unfolding publish_status_bytes_def parent option.case Let_def
    by (rule outcome_seq [OF create], rule outcome_seq [OF reconcile], rule outcome_seq [OF new],
        rule outcome_seq [OF written], rule swap_outcome [OF named])
qed

end
