(* ===== verification/Spec2Isabelle.thy ===== *)
theory Spec2Isabelle
  imports Broker_Properties Gateway_Properties Outbox_Properties Cloud_Properties Drive_Properties Position Byte_Lru Eink_Properties
    Ink_Properties Folder_Properties Folder_Sync_Properties Folder_Composition Companion_Status
begin

text \<open>
  InkBridge keeps the handwriting on one document the same on two readers: a BOOX, which writes its
  ink into a PDF, and a Supernote, which exports its pages as JSON.  This development models the
  Rust code that decides what happens to that ink, from the files on the devices to the canonical
  state in the cloud, and the parts of the reading application below it that are pure logic.

  \<^bold>\<open>The parts and how they interact.\<close>  The folder transport (inkbridge-folder-transport) watches
  the files of the two devices, uploads what changed as immutable objects below BOOX_Folder/ and
  Supernote_Folder/ of a bucket, and installs what the broker wrote for the devices.  The drive
  gateway (inkbridge-drive-gateway) does the same for files of Google Drive: a planner that decides
  on uploads and deliveries over a checkpoint, run by the job of the drive runtime
  (inkbridge-drive-runtime), which calls the broker in its own process.  The cloud runtime (inkbridge-cloud-runtime)
  translates the bucket's notifications into events, and gives the broker a transactional storage
  over one-object writes, the outbox.  The broker (inkbridge-broker) owns the canonical state of a
  document: it accepts an input that was made on the current revision of both devices, preserves any
  other as a conflict, writes the outputs for both devices, and resolves conflicts on request.  The
  converter (inkbridge-convert) reads Supernote exports and builds manifests of stroke operations
  from what changed in a BOOX PDF.  The reader (reader-core, device-eink, inkread-ink) shows and
  edits documents: its refresh policy, its ink pages and their undo history, its caches.

  \<^bold>\<open>Conventions.\<close>  \<open>Result<T, E>\<close> is \<open>'e + 'a\<close> with \<open>Inl\<close> the error, \<open>Option\<close> is \<open>option\<close>, integers
  are words of their width and \<open>+\<close> wraps (the release profile; where the code checks, so does the
  model), strings are lists of the bytes of their UTF-8 text, \<open>BTreeMap\<close> and \<open>BTreeSet\<close> are strictly
  sorted lists, floating-point numbers are their IEEE bit patterns with the operations the code uses
  written on them (Float64, Float32).  State is passed explicitly; the synchronisation of the folder
  transport and the gateway's job are written with the combinators of Actions, where \<open>seq\<close> is the \<open>?\<close> operator followed
  by the rest of the function.  SHA-256, the JSON codecs, the PDF code and the operating system's
  view of a path are arguments; no property assumes more of them than it states.

  \<^bold>\<open>Where what is.\<close>

  \<^item> Prelude (results, checked arithmetic, the collections \<open>result_simps\<close>, \<open>bmap_simps\<close>, \<open>wf_intros\<close>),
    Rust_Collections (ordered maps and sets, with the locale \<open>ordered_map\<close>), Rust_Strings, Rust_Path,
    Rust_Bytes, Float64, Float32: what the program uses of its language and standard library.
  \<^item> Convert_Model, Baseline, Convert_Diff, Export_Serialize: inkbridge-convert/src/model.rs,
    baseline.rs and lib.rs, strokes, exports and the diff that makes a manifest.  Stroke_Facts and
    Export_Serialize prove that exports read back and that acceptance is per stroke.  The names of the
    JSON keys, which the serializers write by hand, belong to the codec, an argument.
  \<^item> Broker_Model, Storage, Broker_Base, Broker_Manifest, Broker_Process, Conflict, Conflict_Resolve:
    inkbridge-broker/src/model.rs, storage.rs, broker.rs, boox_snapshot.rs and conflict.rs, one
    definition per function.  The locale \<open>broker_storage\<close> is the contract of the trait
    \<open>BrokerStorage\<close>; \<open>MemoryStorage\<close> is its interpretation.  Broker_Facts states what a handler
    plans, whatever the storage; Broker_Commit what the commit of a plan means for the next handler;
    Document_Facts and Document_History the invariant of a document's life; Sync_Spec the abstract
    document (two revisions, the events seen, the inputs set aside, the visible ink) that the plans
    refine; Broker_Properties and Example_World the properties and a concrete world.
  \<^item> Gateway_Model, Gateway_Planner: inkbridge-drive-gateway/src/model.rs and planner.rs.
    Gateway_Facts, Gateway_Steps, Gateway_Run and Gateway_Delivery show that the validation is exact,
    that every commit is a step of an abstract gateway, that runs keep the checkpoint valid, and that
    reserved deliveries and uploads finish; Gateway_Properties and Gateway_Example use them.
  \<^item> Drive_Runtime: inkbridge-drive-runtime/src/runtime.rs, one run of the gateway's job
    over Drive, the approvals, the checkpoint store, the evidence store and the broker (the fields of
    \<open>job_ops\<close>), and the last two on the outbox and the broker's handler.  Drive_Runtime_Facts has the
    locales \<open>job_environment\<close> (what the job relies on: versions of the checkpoint are distinct, a swap
    that succeeds found the expected one, one that fails may have taken effect all the same),
    \<open>running_job\<close> on top of it, and \<open>reading_job\<close> for a dry run; Drive_Properties interprets them on an
    environment in memory with lost answers and the model's own broker.
  \<^item> Outbox, Outbox_Stores: inkbridge-cloud-runtime/src/outbox.rs and the contract of its two stores,
    the locale \<open>cloud_stores\<close>: an operation that fails has had no effect.  It is interpreted on the
    in-memory stores, whose script of faults makes writes of objects fail before they take effect; an
    answer lost after the effect is outside this contract (the gateway's job, under Drive_Runtime above,
    is the part that is shown to bear lost answers).  Outbox_Facts, Outbox_Delivery, Outbox_Commit and
    Outbox_Identity show that a commit is atomic for the document's state and that recovery finishes
    it.  Cloud_Runtime: eventarc.rs and runtime.rs; Cloud_Properties composes it with the gateway and
    the broker.
  \<^item> Folder_Config (configuration and its validation), Folder_State (the checkpoint), Folder_Files
    (create-only publication, guarded replacement and their recovery) over File_System, a disk with
    other writers, faults and crashes between any two system calls; Folder_World, Boox_Handoff,
    Folder_Snapshots, Folder_Checks, Folder_Recovery, Folder_Deliver and Folder_Upload, the
    synchronisation of a document: inkbridge-folder-transport/src/model.rs, transport.rs,
    boox_handoff.rs, conflicts.rs and supernote_snapshot.rs.  Folder_Config_Facts, Folder_State_Facts
    and Folder_Files_Facts serve the properties of Folder_Properties.  Folder_Steps has the locales
    \<open>world_relation\<close> and \<open>report_relation\<close> for what a relation between worlds must satisfy to be
    carried through the combinators, Folder_Sync_Facts the locale \<open>guarded_steps\<close> for what holds only
    under a condition on the start; their interpretations (nothing but observations changed, the
    frontier advanced, only notes were taken, one upload was made) carry Folder_Sync_Properties.
    Folder_Composition joins the folder transport to the cloud runtime.  Companion_Status: companion.rs,
    the status published for the companion application with a next and a previous file of its own; a
    publication that is cut short leaves the old status or the new one, whole.
  \<^item> Eink, Eink_Policy: device-eink/src and reader-core/src/policy/eink_policy.rs, the refresh commands,
    their wire and the policy that emits them.  Ink_Model, Ink_Codec, Ink_Select: inkread-ink/src, the
    pages of strokes with undo and redo, the page file and the lasso; Ink_History simulates the edits
    by a zipper; its locale \<open>ink_view\<close> is what the history asks of a view of strokes, interpreted on the
    strokes as they are and on their shapes.  Position, Byte_Lru: reader-core/src/position, render/cache.rs and budget, with their
    properties.

  \<^bold>\<open>What the properties show.\<close>  The broker refines the abstract synchronisation and loses no input; a
  handler that raced with another is refused; the gateway's runs stay consistent and its commits are
  idempotent and finish; a run of the gateway's job only appends to the history of checkpoints what the
  planner committed, moves the page token last, to the token Drive offered after it, and a dry run only reads; the outbox makes a commit atomic under faults and recovers it; configuration,
  checkpoint and files of the folder transport survive interruption and never destroy what the owner
  wrote; a synchronisation keeps the protocol of revisions; uploads come back as the events they stand
  for and outputs as their own echoes; refresh commands suit the panel and the interaction they answer, and flash at the set cadence;
  the edits of a page are a zipper of the shapes of its strokes, and of the strokes themselves where its
  moves are exact in binary32; its file reads back.

  \<^bold>\<open>Bounds and loops.\<close>  There is no fuel.  Loops over data are structural; eviction of the cache and
  the loading of the checkpoint are \<open>partial_function (option)\<close>.  Eviction is shown to return (a
  property).  Loading retries while another process replaces the file, so it may never return under
  interference; the property on interrupted saves has it return on a disk at rest.  The counter of
  storage generations is 64 bits wide: the contracts carry \<open>room s n\<close>, that \<open>n\<close> more generations fit,
  as a hypothesis, and the in-memory storage shows that it holds for every fresh storage.  Revisions
  are words: where the code adds one without a check, the properties that order revisions state that
  they are not at the maximum, or state equality with the wrapped sum.

  \<^bold>\<open>The disk.\<close>  Entries are keyed by their path text; a link is followed when it is the last component;
  that the parent directory exists is assumed of every path; a hard link is a second entry with the
  same inode and contents; \<open>read_dir\<close> lists by name; times are milliseconds since the epoch; the Unix
  branch is modelled and the Windows branches are not.  What the cloud and the manifest builder do to
  the disk is an argument of the model and unrestricted.

  \<^bold>\<open>Not modelled, and why.\<close>  The PDF code (convert/src/pdf.rs, virtual_spread.rs, neoreader_repair.rs,
  affine.rs and broker/src/pdf_view.rs) works on the object model of a third-party library; its
  results are arguments.  The drive runtime's google.rs, Firestore, Cloud Storage, the web server and
  gcloud.rs are clients of network services.  The folder transport's virtual_spread_cache.rs
  keeps files made by the PDF code.  Of the reader, the
  session and JNI layers forward to document backends over pdfium, zip, image and font libraries;
  persistence is SQL; settings are a serde schema.  EPUB, dictionaries, feeds, updates and scripting
  rest on third-party parsers.  The outbox meets the contract of the broker's storage only up to
  commits that recovery finishes later, so the broker's properties over that contract are stated for
  storages that meet it and are not transferred to the outbox wholesale; what carries over is stated
  as the outbox's own properties.
\<close>

end
